(* ===== verification/Prelude.thy ===== *)
theory Prelude
  imports Main "HOL-Library.Word"
begin

text \<open>
  Shared vocabulary of the development: the byte type of the codec, the error values its
  functions return, the result type that carries them, the two named collections of rewrite
  rules used by the component theories, and generic lemmas on lists, sums and results that
  more than one component needs.
\<close>

unbundle bit_operations_syntax

subsection \<open>Types of the code\<close>

text \<open>
  A Go \<open>byte\<close> is an 8-bit word.  A matrix is a slice of rows, each a slice of bytes
  (\<open>type matrix [][]byte\<close> in \<open>reedsolomon/matrix.go\<close>).
\<close>

type_synonym byte = "8 word"
type_synonym matrix = "byte list list"

text \<open>
  The error values of the package, by the names of the Go variables that hold them, and
  one value for a run-time panic (index out of range, division by zero, explicit
  \<open>panic\<close>) and one for a loop that never ends, so that every way a call can go is a value.
\<close>

datatype error =
    ErrInvShardNum
  | ErrMaxShardNum
  | ErrTooFewShards
  | ErrInvalidInput
  | ErrShardNoData
  | ErrShardSize
  | ErrShortData
  | ErrReconstructRequired
  | ErrReconstructMismatch
  | ErrInvalidRowSize
  | ErrInvalidColSize
  | ErrColSizeMismatch
  | ErrMatrixSize
  | ErrSingular
  | ErrNotSquare
  | ErrAlreadySet
  | ErrInternal
  | ErrColumnsRows nat nat
  | ErrWrite
  | IoEOF
  | IoUnexpectedEOF
  | IoShortWrite
  | IoFailure nat
  | IoNotExist
  | IoExist
  | NodeError string
  | StreamReadError error nat
  | StreamWriteError error nat
  | Panic
  | Diverge

type_synonym 'a result = "error + 'a"

text \<open>Sequencing of fallible calls: Go's \<open>if err != nil { return err }\<close>.\<close>

definition bind_result :: "'a result \<Rightarrow> ('a \<Rightarrow> 'b result) \<Rightarrow> 'b result" where
  "bind_result r f = (case r of Inl e \<Rightarrow> Inl e | Inr x \<Rightarrow> f x)"

lemma bind_result_simps [simp]:
  "bind_result (Inl e) f = Inl e"
  "bind_result (Inr x) f = f x"
  by (simp_all add: bind_result_def)

lemma bind_result_eq_Inr:
  "bind_result r f = Inr y \<longleftrightarrow> (\<exists>x. r = Inr x \<and> f x = Inr y)"
  by (cases r) auto

lemma bind_result_cong [fundef_cong]:
  "r = r' \<Longrightarrow> (\<And>x. r' = Inr x \<Longrightarrow> f x = f' x) \<Longrightarrow> bind_result r f = bind_result r' f'"
  by (cases r') auto

text \<open>A Go loop whose body can return an error: it stops at the first one.\<close>

fun fold_result :: "('s \<Rightarrow> 'a \<Rightarrow> 's result) \<Rightarrow> 's \<Rightarrow> 'a list \<Rightarrow> 's result" where
  "fold_result f s [] = Inr s"
| "fold_result f s (x # xs) = bind_result (f s x) (\<lambda>s'. fold_result f s' xs)"

lemma fold_result_append:
  "fold_result f s (xs @ ys) = bind_result (fold_result f s xs) (\<lambda>s'. fold_result f s' ys)"
proof (induction xs arbitrary: s)
  case (Cons x xs)
  then show ?case by (cases "f s x") simp_all
qed simp

text \<open>
  The rule for a loop over an index range: an invariant of the state before round \<open>i\<close>, and
  a claim about the error that can leave the loop.
\<close>

lemma fold_result_upt_rule:
  assumes "a \<le> b" and "I a s"
    and "\<And>i s. a \<le> i \<Longrightarrow> i < b \<Longrightarrow> I i s \<Longrightarrow>
      (case f s i of Inl e \<Rightarrow> E e | Inr s' \<Rightarrow> I (Suc i) s')"
  shows "case fold_result f s [a..<b] of Inl e \<Rightarrow> E e | Inr s' \<Rightarrow> I b s'"
  using assms
proof (induction "b - a" arbitrary: a s)
  case 0
  then show ?case by simp
next
  case (Suc n)
  then have "[a..<b] = a # [Suc a..<b]"
    by (simp add: upt_conv_Cons)
  moreover have "case f s a of Inl e \<Rightarrow> E e | Inr s' \<Rightarrow> I (Suc a) s'"
    using Suc by simp
  moreover have "case fold_result f s' [Suc a..<b] of Inl e \<Rightarrow> E e | Inr s'' \<Rightarrow> I b s''"
    if "I (Suc a) s'" for s'
    using Suc that by (intro Suc.hyps(1)) auto
  ultimately show ?case
    by (cases "f s a") auto
qed

lemma foldl_upt_rule:
  assumes "a \<le> b" and "I a s"
    and "\<And>i s. a \<le> i \<Longrightarrow> i < b \<Longrightarrow> I i s \<Longrightarrow> I (Suc i) (f s i)"
  shows "I b (foldl f s [a..<b])"
  using assms
proof (induction "b - a" arbitrary: a s)
  case (Suc n)
  then have "[a..<b] = a # [Suc a..<b]"
    by (simp add: upt_conv_Cons)
  then show ?case
    using Suc by auto
qed simp

subsection \<open>Collections\<close>

named_theorems gf_simps \<open>byte operations of the code rewritten to the field\<close>
named_theorems shape_simps \<open>numbers of rows, columns and bytes of computed values\<close>

subsection \<open>Go's 64-bit int\<close>

text \<open>\<open>wrap64\<close> is the value a Go \<open>int\<close> holds after an operation whose exact result is its argument.\<close>

definition wrap64 :: "int \<Rightarrow> int" where
  "wrap64 x = (x + 2 ^ 63) mod 2 ^ 64 - 2 ^ 63"

definition int64 :: "int \<Rightarrow> bool" where
  "int64 x \<longleftrightarrow> - (2 ^ 63) \<le> x \<and> x < 2 ^ 63"

lemma wrap64_id: "int64 x \<Longrightarrow> wrap64 x = x"
proof -
  assume "int64 x"
  then have "(x + 2 ^ 63) mod 2 ^ 64 = x + 2 ^ 63"
    unfolding int64_def by (intro mod_pos_pos_trivial) auto
  then show ?thesis
    by (simp add: wrap64_def)
qed

lemma wrap64_int64: "int64 (wrap64 x)"
proof -
  have "0 \<le> (x + 2 ^ 63) mod 2 ^ 64" "(x + 2 ^ 63) mod 2 ^ 64 < 2 ^ 64"
    by simp_all
  then show ?thesis
    unfolding wrap64_def int64_def by simp
qed

lemma wrap64_overflow:
  assumes "2 ^ 63 \<le> x" and "x < 2 ^ 64"
  shows "wrap64 x = x - 2 ^ 64"
proof -
  have "(x + 2 ^ 63) mod 2 ^ 64 = (x + 2 ^ 63 - 2 ^ 64) mod 2 ^ 64"
    by (rule minus_mod_self2 [symmetric])
  also have "\<dots> = x + 2 ^ 63 - 2 ^ 64"
    using assms by (intro mod_pos_pos_trivial) simp_all
  finally show ?thesis
    by (simp add: wrap64_def)
qed

subsection \<open>Lists\<close>

lemma nth_map_upt_0 [simp]: "i < n \<Longrightarrow> map f [0..<n] ! i = f i"
  by simp

lemma map_upt_nth: "n = length xs \<Longrightarrow> map (\<lambda>i. xs ! i) [0..<n] = xs"
  by (simp add: map_nth)

lemma list_eq_map_upt:
  "length xs = n \<Longrightarrow> (\<And>i. i < n \<Longrightarrow> xs ! i = f i) \<Longrightarrow> xs = map f [0..<n]"
  by (rule nth_equalityI) auto

lemma map_upt_cong:
  "(\<And>i. i < n \<Longrightarrow> f i = g i) \<Longrightarrow> map f [0..<n] = map g [0..<n]"
  by simp

lemma list_update_map_upt:
  "(map f [0..<n])[i := x] = map (\<lambda>j. if j = i then x else f j) [0..<n]"
  by (rule nth_equalityI) (auto simp: nth_list_update)

end
