(* ===== verification/GF256.thy ===== *)
theory GF256
  imports Prelude
begin

text \<open>
  The specification of the arithmetic: the field with 256 elements, as polynomials over
  the two-element field modulo the generating polynomial of \<open>reedsolomon/galois.go\<close>
  (\<open>generatingPolynomial = 29\<close>, that is \<open>x^8 + x^4 + x^3 + x^2 + 1\<close>).  A byte holds
  the eight coefficients.  Nothing here comes from the tables of the code; \<open>Galois\<close> shows
  that the tables compute this field.
\<close>

subsection \<open>Multiplication by x and the product\<close>

definition generatingPolynomial :: byte where
  "generatingPolynomial = 29"

definition xtime :: "byte \<Rightarrow> byte" where
  "xtime a = push_bit 1 a XOR (if bit a 7 then generatingPolynomial else 0)"

text \<open>Shift-and-add product of two bytes, \<open>n\<close> bits of the second factor.\<close>

primrec gmul_bits :: "nat \<Rightarrow> byte \<Rightarrow> byte \<Rightarrow> byte" where
  "gmul_bits 0 a b = 0"
| "gmul_bits (Suc n) a b =
     (if bit b 0 then a else 0) XOR gmul_bits n (xtime a) (drop_bit 1 b)"

definition gmul :: "byte \<Rightarrow> byte \<Rightarrow> byte" where
  "gmul a b = gmul_bits 8 a b"

lemma xtime_0 [simp]: "xtime 0 = 0"
  by (simp add: xtime_def)

lemma xtime_xor: "xtime (a XOR b) = xtime a XOR xtime b"
  by (auto simp del: push_bit_of_1 simp: xtime_def push_bit_xor bit_simps xor.assoc xor.left_commute)

lemma xtime_pow_xor: "(xtime ^^ i) (a XOR b) = (xtime ^^ i) a XOR (xtime ^^ i) b"
  by (induction i) (simp_all add: xtime_xor)

lemma xtime_pow_0 [simp]: "(xtime ^^ i) 0 = 0"
  by (induction i) simp_all

lemma bit_xtime: "n < 8 \<Longrightarrow>
  bit (xtime a) n \<longleftrightarrow> (0 < n \<and> bit a (n - 1)) \<noteq> (bit a 7 \<and> bit generatingPolynomial n)"
  by (auto simp: xtime_def bit_xor_iff bit_double_iff mult.commute [of a])

lemma byte_eqI:
  "(\<And>n. n < 8 \<Longrightarrow> bit a n = bit b n) \<Longrightarrow> a = (b :: byte)"
  by (rule bit_word_eqI) simp

subsection \<open>The additive group\<close>

text \<open>
  The field is a copy of the byte type: the class operations of \<open>8 word\<close> itself are those
  of arithmetic modulo 256.
\<close>

datatype gf = GF (gf_byte: byte)

lemma gf_eqI: "gf_byte x = gf_byte y \<Longrightarrow> x = y"
  by (cases x; cases y) simp

instantiation gf :: ab_group_add
begin

definition zero_gf :: gf where "0 = GF 0"
definition plus_gf :: "gf \<Rightarrow> gf \<Rightarrow> gf" where "x + y = GF (gf_byte x XOR gf_byte y)"
definition minus_gf :: "gf \<Rightarrow> gf \<Rightarrow> gf" where "x - y = GF (gf_byte x XOR gf_byte y)"
definition uminus_gf :: "gf \<Rightarrow> gf" where "- x = (x :: gf)"

instance
  by standard (simp_all add: zero_gf_def plus_gf_def minus_gf_def uminus_gf_def ac_simps)

end

lemma gf_byte_add: "gf_byte (x + y) = gf_byte x XOR gf_byte y"
  by (simp add: plus_gf_def)

lemma gf_byte_0: "gf_byte 0 = 0"
  by (simp add: zero_gf_def)

lemma GF_xor [gf_simps]: "GF (a XOR b) = GF a + GF b"
  by (simp add: plus_gf_def)

lemma GF_0 [gf_simps]: "GF 0 = 0"
  by (simp add: zero_gf_def)

lemma GF_eq_0_iff [simp]: "GF a = 0 \<longleftrightarrow> a = 0"
  by (simp add: zero_gf_def)

text \<open>Characteristic two: subtraction and addition are the same operation.\<close>

lemma gf_uminus [simp]: "- x = (x :: gf)"
  by (simp add: uminus_gf_def)

lemma gf_minus [simp]: "x - y = x + (y :: gf)"
  by (simp add: minus_gf_def plus_gf_def)

lemma gf_add_self [simp]: "x + x = (0 :: gf)"
  by (simp add: plus_gf_def zero_gf_def)

lemma gf_add_self_left [simp]: "x + (x + y) = (y :: gf)"
  by (simp add: add.assoc [symmetric])

lemma gf_add_eq_0_iff: "x + y = 0 \<longleftrightarrow> x = (y :: gf)"
  by (metis add.right_neutral gf_add_self gf_add_self_left)

subsection \<open>Multiplication as a sum of powers of x\<close>

definition XT :: "gf \<Rightarrow> gf" where
  "XT x = GF (xtime (gf_byte x))"

definition poly_op :: "nat \<Rightarrow> byte \<Rightarrow> gf \<Rightarrow> gf" where
  "poly_op n b x = (\<Sum>i<n. if bit b i then (XT ^^ i) x else 0)"

lemma XT_add: "XT (x + y) = XT x + XT y"
  by (simp add: XT_def plus_gf_def xtime_xor)

lemma XT_0 [simp]: "XT 0 = 0"
  by (simp add: XT_def zero_gf_def)

lemma XT_pow_add: "(XT ^^ i) (x + y) = (XT ^^ i) x + (XT ^^ i) y"
  by (induction i) (simp_all add: XT_add)

lemma XT_pow_0 [simp]: "(XT ^^ i) 0 = 0"
  by (induction i) simp_all

lemma XT_pow_commute: "(XT ^^ i) ((XT ^^ j) x) = (XT ^^ j) ((XT ^^ i) x)"
  by (metis add.commute comp_apply funpow_add)

lemma XT_pow_sum: "(XT ^^ i) (sum f A) = (\<Sum>a\<in>A. (XT ^^ i) (f a))"
  by (induction A rule: infinite_finite_induct) (simp_all add: XT_pow_add)

lemma XT_pow_poly_op: "(XT ^^ i) (poly_op n b x) = poly_op n b ((XT ^^ i) x)"
  by (auto simp: poly_op_def XT_pow_sum XT_pow_commute [of i] intro!: sum.cong)

lemma poly_op_commute: "poly_op n b (poly_op m c x) = poly_op m c (poly_op n b x)"
proof -
  have "poly_op n b (poly_op m c x) =
      (\<Sum>i<n. \<Sum>j<m. if bit b i \<and> bit c j then (XT ^^ i) ((XT ^^ j) x) else 0)"
    by (auto simp: poly_op_def XT_pow_sum if_distrib [of "(XT ^^ _)"] intro!: sum.cong)
  also have "\<dots> =
      (\<Sum>j<m. \<Sum>i<n. if bit c j \<and> bit b i then (XT ^^ j) ((XT ^^ i) x) else 0)"
    by (subst sum.swap) (auto simp: XT_pow_commute intro!: sum.cong)
  also have "\<dots> = poly_op m c (poly_op n b x)"
    by (auto simp: poly_op_def XT_pow_sum if_distrib [of "(XT ^^ _)"] intro!: sum.cong)
  finally show ?thesis .
qed

lemma gmul_bits_poly_op: "GF (gmul_bits n a b) = poly_op n b (GF a)"
proof (induction n arbitrary: a b)
  case 0
  then show ?case by (simp add: poly_op_def zero_gf_def)
next
  case (Suc n)
  have "GF (gmul_bits (Suc n) a b) =
      (if bit b 0 then GF a else 0) + poly_op n (drop_bit 1 b) (XT (GF a))"
    by (simp add: GF_xor Suc.IH XT_def GF_0)
  also have "\<dots> = poly_op (Suc n) b (GF a)"
    unfolding poly_op_def
    by (subst sum.lessThan_Suc_shift)
      (simp add: bit_drop_bit_eq funpow_Suc_right del: funpow.simps cong: if_cong)
  finally show ?case .
qed

lemma gmul_poly_op: "GF (gmul a b) = poly_op 8 b (GF a)"
  by (simp add: gmul_def gmul_bits_poly_op)

text \<open>A byte is the value of its polynomial at the unit.\<close>

lemma XT_pow_one: "i < 8 \<Longrightarrow> (XT ^^ i) (GF 1) = GF (push_bit i 1)"
proof -
  assume "i < 8"
  then consider "i = 0" | "i = 1" | "i = 2" | "i = 3" | "i = 4" | "i = 5" | "i = 6" | "i = 7"
    by linarith
  then show ?thesis
    by cases (simp_all add: eval_nat_numeral XT_def xtime_def)
qed

lemma poly_op_one_take_bit: "n \<le> 8 \<Longrightarrow> poly_op n b (GF 1) = GF (take_bit n b)"
proof (induction n)
  case 0
  then show ?case by (simp add: poly_op_def zero_gf_def)
next
  case (Suc n)
  have "poly_op (Suc n) b (GF 1) =
      GF (take_bit n b) + (if bit b n then GF (push_bit n 1) else 0)"
    using Suc by (simp add: poly_op_def XT_pow_one)
  also have "\<dots> = GF (take_bit n b XOR (if bit b n then push_bit n 1 else 0))"
    by (simp add: gf_simps)
  also have "take_bit n b XOR (if bit b n then push_bit n 1 else 0) = take_bit (Suc n) b"
    by (rule byte_eqI) (auto simp: bit_simps less_Suc_eq simp del: push_bit_of_1)
  finally show ?case .
qed

lemma poly_op_one: "poly_op 8 b (GF 1) = GF b"
  by (simp add: poly_op_one_take_bit take_bit_word_eq_self)

lemma gmul_commute: "gmul a b = gmul b a"
proof -
  have "GF (gmul a b) = poly_op 8 b (poly_op 8 a (GF 1))"
    by (simp add: gmul_poly_op poly_op_one)
  also have "\<dots> = GF (gmul b a)"
    by (subst poly_op_commute) (simp add: gmul_poly_op poly_op_one)
  finally show ?thesis by simp
qed

lemma gmul_assoc: "gmul (gmul a b) c = gmul a (gmul b c)"
proof -
  have "GF (gmul (gmul a b) c) = poly_op 8 c (poly_op 8 a (GF b))"
    by (subst gmul_commute [of a]) (simp add: gmul_poly_op)
  also have "\<dots> = poly_op 8 a (poly_op 8 c (GF b))"
    by (rule poly_op_commute)
  also have "\<dots> = GF (gmul a (gmul b c))"
    by (subst gmul_commute [of a]) (simp add: gmul_poly_op)
  finally show ?thesis by simp
qed

lemma gmul_xor_left: "gmul (a XOR b) c = gmul a c XOR gmul b c"
proof -
  have "GF (gmul (a XOR b) c) = GF (gmul a c XOR gmul b c)"
    by (simp add: gf_simps gmul_poly_op poly_op_def XT_pow_add flip: sum.distrib
        cong: if_cong) (auto intro!: sum.cong)
  then show ?thesis by simp
qed

lemma gmul_1_left [simp]: "gmul 1 a = a"
proof -
  have "GF (gmul 1 a) = GF a"
    by (simp add: gmul_poly_op poly_op_one)
  then show ?thesis by simp
qed

instantiation gf :: comm_ring_1
begin

definition one_gf :: gf where "1 = GF 1"
definition times_gf :: "gf \<Rightarrow> gf \<Rightarrow> gf" where "x * y = GF (gmul (gf_byte x) (gf_byte y))"

instance
proof
  fix x y z :: gf
  show "x * y * z = x * (y * z)"
    by (simp add: times_gf_def gmul_assoc)
  show "x * y = y * x"
    by (simp add: times_gf_def gmul_commute)
  show "1 * x = x"
    by (simp add: times_gf_def one_gf_def)
  show "(x + y) * z = x * z + y * z"
    by (simp add: times_gf_def plus_gf_def gmul_xor_left)
  show "0 \<noteq> (1 :: gf)"
    by (simp add: zero_gf_def one_gf_def)
qed

end

lemma GF_1 [gf_simps]: "GF 1 = 1"
  by (simp add: one_gf_def)

lemma GF_gmul [gf_simps]: "GF (gmul a b) = GF a * GF b"
  by (simp add: times_gf_def)

lemma gf_byte_mult: "gf_byte (x * y) = gmul (gf_byte x) (gf_byte y)"
  by (simp add: times_gf_def)

lemma gf_byte_1: "gf_byte 1 = 1"
  by (simp add: one_gf_def)

lemma xtime_gmul: "GF (xtime a) = GF 2 * GF a"
proof -
  have "GF (gmul a 2) = XT (GF a)"
    by (simp add: gmul_poly_op poly_op_def lessThan_nat_numeral bit_numeral_rec
        eval_nat_numeral)
  then have "GF (xtime a) = GF a * GF 2"
    by (simp add: GF_gmul XT_def)
  then show ?thesis
    by (simp only: mult.commute)
qed

lemma gmul_0_right [simp]: "gmul a 0 = 0"
  by (metis GF_0 GF_gmul gf.inject mult_zero_right)

lemma gmul_0_left [simp]: "gmul 0 a = 0"
  by (metis gmul_0_right gmul_commute)

text \<open>Rules that evaluate a product of two byte literals.\<close>

lemma gmul_unfold:
  "gmul a b = gmul_bits (Suc (Suc (Suc (Suc (Suc (Suc (Suc (Suc 0)))))))) a b"
  by (simp add: gmul_def eval_nat_numeral)

lemmas gmul_eval = gmul_unfold gmul_bits.simps xtime_def generatingPolynomial_def

end
