(* ===== verification/TableCheck.thy ===== *)
theory TableCheck
  imports GF256
begin

text \<open>
  A linear-time check of a row of a multiplication table, run inside the kernel on the
  literal rows of \<open>reedsolomon/galois.go\<close>: entry \<open>2 k\<close> is entry \<open>k\<close> times x, and entry
  \<open>2 k + 1\<close> is entry \<open>2 k\<close> plus the factor of the row.  \<open>table_row_gmul\<close> shows that a row
  which passes holds the products.
\<close>

fun doubles :: "byte \<Rightarrow> byte list \<Rightarrow> byte list \<Rightarrow> bool" where
  "doubles a (k # ks) (e # d # es) \<longleftrightarrow> xtime k = e \<and> e XOR a = d \<and> doubles a ks es"
| "doubles a ks [] \<longleftrightarrow> True"
| "doubles a ks [e] \<longleftrightarrow> False"
| "doubles a [] es \<longleftrightarrow> False"

definition table_row :: "nat \<Rightarrow> byte \<Rightarrow> byte list \<Rightarrow> bool" where
  "table_row n a row \<longleftrightarrow> length row = n \<and> hd row = 0 \<and> doubles a row row"

text \<open>Consecutive rows, for the factors \<open>a\<close>, \<open>a + s\<close>, \<open>a + 2 s\<close> and so on.\<close>

fun table_rows :: "nat \<Rightarrow> nat \<Rightarrow> byte \<Rightarrow> byte list list \<Rightarrow> bool" where
  "table_rows m n a [] \<longleftrightarrow> True"
| "table_rows m n a (row # rows) \<longleftrightarrow>
     table_row n ((xtime ^^ m) a) row \<and> table_rows m n (a + 1) rows"

lemma doubles_cong: "a = a' \<Longrightarrow> doubles a ks es = doubles a' ks es"
  by simp

lemma table_row_cong: "n = n' \<Longrightarrow> a = a' \<Longrightarrow> table_row n a row = table_row n' a' row"
  by simp

lemma table_rows_cong:
  "m = m' \<Longrightarrow> n = n' \<Longrightarrow> a = a' \<Longrightarrow> table_rows m n a rows = table_rows m' n' a' rows"
  by simp

lemma doubles_nth:
  "doubles a ks es \<Longrightarrow> 2 * j + 1 < length es \<Longrightarrow>
    j < length ks \<and> es ! (2 * j) = xtime (ks ! j) \<and> es ! (2 * j + 1) = es ! (2 * j) XOR a"
proof (induction a ks es arbitrary: j rule: doubles.induct)
  case (1 a k ks e d es)
  then show ?case by (cases j) auto
qed auto

lemma doubles_even: "doubles a ks es \<Longrightarrow> even (length es)"
  by (induction a ks es rule: doubles.induct) auto

lemma xtime_of_nat: "j < 128 \<Longrightarrow> xtime (word_of_nat j) = word_of_nat (2 * j)"
proof -
  assume "j < 128"
  then have "\<not> bit (word_of_nat j :: byte) 7"
    unfolding bit_of_nat_iff by (simp add: bit_iff_odd [where 'a = nat])
  then show ?thesis
    by (simp add: xtime_def mult.commute)
qed

lemma of_nat_odd: "word_of_nat (2 * j + 1) = (word_of_nat (2 * j) :: byte) XOR 1"
proof (rule byte_eqI)
  fix n :: nat
  assume "n < 8"
  then show "bit (word_of_nat (2 * j + 1) :: byte) n = bit (word_of_nat (2 * j) XOR 1 :: byte) n"
    unfolding bit_of_nat_iff bit_xor_iff bit_1_iff
    by (cases n) (simp_all add: bit_0 bit_Suc)
qed

lemma table_row_gmul:
  assumes row: "table_row n a row" and n: "n \<le> 256" and i: "i < n"
  shows "row ! i = gmul a (word_of_nat i)"
proof -
  have len: "length row = n" and hd: "hd row = 0" and dbl: "doubles a row row"
    using row by (simp_all add: table_row_def)
  have "GF (row ! i) = GF a * GF (word_of_nat i)"
    using i
  proof (induction i rule: less_induct)
    case (less i)
    define j where "j = i div 2"
    have "2 * j + 1 < length row"
      using less.prems len doubles_even [OF dbl] unfolding j_def by presburger
    then have step: "row ! (2 * j) = xtime (row ! j)"
        "row ! (2 * j + 1) = row ! (2 * j) XOR a"
      using doubles_nth [OF dbl, of j] by auto
    have j: "j < 128"
      using less.prems n by (simp add: j_def)
    have even: "GF (row ! (2 * j)) = GF a * GF (word_of_nat (2 * j))"
    proof (cases "i < 2")
      case True
      then have "j = 0"
        by (simp add: j_def)
      moreover have "row \<noteq> []"
        using len less.prems by auto
      then have "row ! 0 = 0"
        using hd by (simp add: hd_conv_nth)
      ultimately show ?thesis
        by (simp add: gf_simps)
    next
      case False
      then have "GF (row ! j) = GF a * GF (word_of_nat j)"
        using less.prems by (intro less.IH) (auto simp: j_def)
      then have "GF (row ! (2 * j)) = GF a * GF (xtime (word_of_nat j))"
        by (simp only: step(1) xtime_gmul mult.left_commute)
      then show ?thesis
        using j by (simp only: xtime_of_nat)
    qed
    show ?case
    proof (cases "even i")
      case True
      with even show ?thesis by (simp add: j_def)
    next
      case False
      then have "i = 2 * j + 1"
        by (simp add: j_def)
      then show ?thesis
        using even step(2) by (simp only: of_nat_odd GF_xor GF_1 distrib_left mult_1_right)
    qed
  qed
  then show ?thesis
    by (metis GF_gmul gf.inject)
qed

lemma table_rows_nth:
  "table_rows m n a rows \<Longrightarrow> i < length rows \<Longrightarrow>
    table_row n ((xtime ^^ m) (a + word_of_nat i)) (rows ! i)"
proof (induction rows arbitrary: a i)
  case (Cons row rows)
  then show ?case
    by (cases i) (force simp: add.assoc)+
qed simp

text \<open>The form in which the tables are used: row \<open>i\<close>, column \<open>j\<close>.\<close>

lemma table_rows_gmul:
  assumes "table_rows m n a rows" and "n \<le> 256" and "i < length rows" and "j < n"
  shows "rows ! i ! j = gmul ((xtime ^^ m) (a + word_of_nat i)) (word_of_nat j)"
  using table_row_gmul [OF table_rows_nth [OF assms(1,3)] assms(2,4)] .

lemma table_rows_append:
  "table_rows m n a xs \<Longrightarrow> table_rows m n (a + word_of_nat (length xs)) ys \<Longrightarrow>
    table_rows m n a (xs @ ys)"
  by (induction xs arbitrary: a) (simp_all add: add.assoc)

text \<open>The rules that evaluate the check on a literal block of rows.\<close>

lemma xtime_pow_4: "(xtime ^^ 4) a = xtime (xtime (xtime (xtime a)))"
  by (simp add: eval_nat_numeral)

lemmas table_check_simps = table_row_def xtime_def generatingPolynomial_def

lemmas table_check_congs = doubles_cong table_row_cong table_rows_cong

end
