(* ===== verification/Galois.thy ===== *)
theory Galois
  imports LogTables MulTable0 MulTable1 MulTable2 MulTable3 MulTableHalf
begin

text \<open>
  The arithmetic of \<open>reedsolomon/galois.go\<close>: the tables put together from their blocks,
  the byte operations on them, and the proof that each computes the operation of the field
  of \<open>GF256\<close> that it is named after.  The rules of \<open>gf_simps\<close> carry every later proof from
  bytes to the field.
\<close>

subsection \<open>The tables\<close>

definition mulTable :: "byte list list" where
  "mulTable =
     mulTableBlock0 @ mulTableBlock1 @ mulTableBlock2 @ mulTableBlock3 @
     mulTableBlock4 @ mulTableBlock5 @ mulTableBlock6 @ mulTableBlock7 @
     mulTableBlock8 @ mulTableBlock9 @ mulTableBlock10 @ mulTableBlock11 @
     mulTableBlock12 @ mulTableBlock13 @ mulTableBlock14 @ mulTableBlock15"

definition mulTableLow :: "byte list list" where
  "mulTableLow = mulTableLowBlock0 @ mulTableLowBlock1"

definition mulTableHigh :: "byte list list" where
  "mulTableHigh = mulTableHighBlock0 @ mulTableHighBlock1"

lemmas mulTableBlock_rows =
  mulTableBlock0_rows mulTableBlock1_rows mulTableBlock2_rows mulTableBlock3_rows
  mulTableBlock4_rows mulTableBlock5_rows mulTableBlock6_rows mulTableBlock7_rows
  mulTableBlock8_rows mulTableBlock9_rows mulTableBlock10_rows mulTableBlock11_rows
  mulTableBlock12_rows mulTableBlock13_rows mulTableBlock14_rows mulTableBlock15_rows

lemma mulTable_rows: "table_rows 0 256 0 mulTable"
  unfolding mulTable_def
  by (intro table_rows_append) (simp_all add: mulTableBlock_rows shape_simps)

lemma mulTableLow_rows: "table_rows 0 16 0 mulTableLow"
  unfolding mulTableLow_def
  by (intro table_rows_append)
    (simp_all add: mulTableLowBlock0_rows mulTableLowBlock1_rows shape_simps)

lemma mulTableHigh_rows: "table_rows 4 16 0 mulTableHigh"
  unfolding mulTableHigh_def
  by (intro table_rows_append)
    (simp_all add: mulTableHighBlock0_rows mulTableHighBlock1_rows shape_simps)

lemma length_mulTable [shape_simps]: "length mulTable = 256"
  by (simp add: mulTable_def shape_simps)

lemma length_mulTableLow [shape_simps]: "length mulTableLow = 256"
  by (simp add: mulTableLow_def shape_simps)

lemma length_mulTableHigh [shape_simps]: "length mulTableHigh = 256"
  by (simp add: mulTableHigh_def shape_simps)

subsection \<open>Addition and multiplication\<close>

definition galAdd :: "byte \<Rightarrow> byte \<Rightarrow> byte" where
  "galAdd a b = a XOR b"

definition galSub :: "byte \<Rightarrow> byte \<Rightarrow> byte" where
  "galSub a b = a XOR b"

definition galMultiply :: "byte \<Rightarrow> byte \<Rightarrow> byte" where
  "galMultiply a b = mulTable ! unat a ! unat b"

lemma unat_byte_less: "unat (a :: byte) < 256"
  using unsigned_less [of a] by simp

lemma mulTable_nth:
  "i < 256 \<Longrightarrow> j < 256 \<Longrightarrow> mulTable ! i ! j = gmul (word_of_nat i) (word_of_nat j)"
  using table_rows_gmul [OF mulTable_rows, of i j] by (simp add: shape_simps)

lemma galMultiply_gmul: "galMultiply a b = gmul a b"
  by (simp add: galMultiply_def mulTable_nth unat_byte_less)

lemma GF_galAdd [gf_simps]: "GF (galAdd a b) = GF a + GF b"
  by (simp add: galAdd_def gf_simps)

lemma GF_galSub [gf_simps]: "GF (galSub a b) = GF a - GF b"
  by (simp add: galSub_def gf_simps)

lemma GF_galMultiply [gf_simps]: "GF (galMultiply a b) = GF a * GF b"
  by (simp add: galMultiply_gmul gf_simps)

text \<open>Evaluation of concrete products goes through the shift-and-add product.\<close>

declare galMultiply_def [code del]
declare galMultiply_gmul [code]

subsection \<open>The two half tables\<close>

text \<open>
  A byte is its low nibble plus its high nibble, so a product is the sum of one entry of
  each half table: the identity the vector routines rest on.
\<close>

lemma mulTableLow_nth:
  "i < 256 \<Longrightarrow> j < 16 \<Longrightarrow> mulTableLow ! i ! j = gmul (word_of_nat i) (word_of_nat j)"
  using table_rows_gmul [OF mulTableLow_rows, of i j] by (simp add: shape_simps)

lemma mulTableHigh_nth:
  "i < 256 \<Longrightarrow> j < 16 \<Longrightarrow>
    mulTableHigh ! i ! j = gmul ((xtime ^^ 4) (word_of_nat i)) (word_of_nat j)"
  using table_rows_gmul [OF mulTableHigh_rows, of i j] by (simp add: shape_simps)

lemma xtime_pow_gmul: "GF ((xtime ^^ n) a) = GF 2 ^ n * GF a"
  by (induction n) (simp_all add: xtime_gmul mult.assoc)

lemma xtime_pow_4_of_nat:
  "j < 16 \<Longrightarrow> (xtime ^^ 4) (word_of_nat j) = word_of_nat (16 * j)"
  unfolding xtime_pow_4
  by (subst xtime_of_nat, linarith)+ (simp only: mult.assoc [symmetric], simp)

lemma byte_15: "(15 :: byte) = mask 4"
  by (simp add: mask_eq_exp_minus_1)

lemma nibbles: "b = (b AND 15) XOR push_bit 4 (drop_bit 4 (b :: byte))"
  unfolding byte_15
  by (rule byte_eqI)
    (auto simp: bit_and_iff bit_xor_iff bit_push_bit_iff bit_drop_bit_eq bit_mask_iff)

lemma low_nibble_less: "unat (b AND 15 :: byte) < 16"
proof -
  have "unat (b AND 15) = take_bit 4 (unat b)"
    by (simp only: byte_15 take_bit_eq_mask [symmetric] unsigned_take_bit_eq)
  then show ?thesis
    using take_bit_nat_less_exp [of 4 "unat b"] by simp
qed

lemma high_nibble_less: "unat (drop_bit 4 b :: byte) < 16"
  using unat_byte_less [of b] by (simp add: drop_bit_eq_div unat_div)

lemma high_nibble: "push_bit 4 b = (word_of_nat (16 * unat b) :: byte)"
  by (simp add: push_bit_eq_mult mult.commute)

text \<open>The body of the assembler loops, as the comment in \<open>galois_amd64.go\<close> gives it.\<close>

definition galMulNibbles :: "byte list \<Rightarrow> byte list \<Rightarrow> byte \<Rightarrow> byte" where
  "galMulNibbles low high input =
     (let l = input AND 0xf; h = drop_bit 4 input in low ! unat l XOR high ! unat h)"

lemma galMulNibbles_tables:
  "galMulNibbles (mulTableLow ! unat c) (mulTableHigh ! unat c) b = gmul c b"
proof -
  have "GF (galMulNibbles (mulTableLow ! unat c) (mulTableHigh ! unat c) b) =
      GF c * GF (b AND 15) + GF 2 ^ 4 * GF c * GF (drop_bit 4 b)"
    by (simp add: galMulNibbles_def mulTableLow_nth mulTableHigh_nth unat_byte_less
        low_nibble_less high_nibble_less GF_xor GF_gmul xtime_pow_gmul)
  also have "GF 2 ^ 4 * GF c * GF (drop_bit 4 b) = GF c * GF ((xtime ^^ 4) (drop_bit 4 b))"
    by (simp add: xtime_pow_gmul mult.commute mult.left_commute)
  also have "(xtime ^^ 4) (drop_bit 4 b) = push_bit 4 (drop_bit 4 b)"
    using xtime_pow_4_of_nat [OF high_nibble_less [of b]] by (simp add: high_nibble)
  also have "GF c * GF (b AND 15) + GF c * GF (push_bit 4 (drop_bit 4 b)) = GF c * GF b"
    by (subst (5) nibbles) (simp only: GF_xor distrib_left)
  finally show ?thesis
    by (simp flip: GF_gmul)
qed

subsection \<open>Inverses: the field\<close>

lemma inverses_from_nth:
  "inverses_from a ys \<Longrightarrow> i < length ys \<Longrightarrow> gmul (a + word_of_nat i) (ys ! i) = 1"
proof (induction ys arbitrary: a i)
  case (Cons y ys)
  then show ?case
    by (cases i) (force simp: add.assoc)+
qed simp

lemma invTable_nth:
  assumes "a \<noteq> 0"
  shows "gmul a (invTable ! unat a) = 1"
proof -
  have pos: "0 < unat a"
    using assms by (simp add: unat_gt_0)
  have "gmul (1 + word_of_nat (unat a - 1)) (tl invTable ! (unat a - 1)) = 1"
    using pos unat_byte_less [of a]
    by (intro inverses_from_nth [OF invTable_inverses]) (simp add: length_invTable)
  moreover have "1 + word_of_nat (unat a - 1) = a"
    using pos by (simp add: of_nat_diff)
  moreover have "tl invTable ! (unat a - 1) = invTable ! unat a"
    using pos unat_byte_less [of a] by (subst nth_tl) (simp_all add: length_invTable)
  ultimately show ?thesis by simp
qed

lemma invTable_0: "invTable ! 0 = 0"
  by (simp add: invTable_def)

lemma gf_unit: "x \<noteq> 0 \<Longrightarrow> \<exists>y. x * y = (1 :: gf)"
proof -
  assume "x \<noteq> 0"
  then have "gf_byte x \<noteq> 0"
    by (metis GF_eq_0_iff gf.collapse)
  then have "x * GF (invTable ! unat (gf_byte x)) = 1"
    by (simp add: times_gf_def one_gf_def invTable_nth)
  then show ?thesis ..
qed

lemma gf_cancel: "x \<noteq> 0 \<Longrightarrow> x * y = x * z \<longleftrightarrow> y = (z :: gf)"
  by (metis gf_unit mult.commute mult.left_commute mult_1_right)

lemma gf_no_zero_divisors: "x * y = 0 \<Longrightarrow> x = 0 \<or> y = (0 :: gf)"
  by (metis gf_cancel mult_zero_right)

lemma card_gf: "card (UNIV :: gf set) = 256"
proof -
  have "bij_betw GF UNIV UNIV"
    by (rule bij_betw_byWitness [where f' = gf_byte]) auto
  then have "card (UNIV :: gf set) = card (UNIV :: byte set)"
    by (rule bij_betw_same_card [symmetric])
  then show ?thesis
    by (simp add: card_word)
qed

lemma finite_gf: "finite (UNIV :: gf set)"
  using card_gf by (metis card.infinite zero_neq_numeral)

text \<open>
  Every non-zero element has order dividing 255: multiplying by it permutes the non-zero
  elements, so it leaves their product unchanged.
\<close>

lemma gf_pow_255:
  assumes "x \<noteq> (0 :: gf)"
  shows "x ^ 255 = 1"
proof -
  let ?U = "UNIV - {0 :: gf}"
  have fin: "finite ?U"
    using finite_gf by simp
  have "bij_betw ((*) x) ?U ?U"
  proof (rule bij_betwI')
    fix y z
    show "(x * y = x * z) = (y = z)"
      using assms by (rule gf_cancel)
  next
    fix y
    assume "y \<in> ?U"
    then show "x * y \<in> ?U"
      using assms gf_no_zero_divisors by auto
  next
    fix y
    assume y: "y \<in> ?U"
    obtain x' where "x * x' = 1"
      using gf_unit assms by blast
    then have "y = x * (x' * y)"
      by (simp flip: mult.assoc)
    with y show "\<exists>z\<in>?U. y = x * z"
      by (intro bexI [of _ "x' * y"]) auto
  qed
  then have "(\<Prod>y\<in>?U. x * y) = \<Prod>?U"
    using prod.reindex_bij_betw [of "(*) x" ?U ?U "\<lambda>y. y"] by simp
  then have prod: "x ^ card ?U * \<Prod>?U = 1 * \<Prod>?U"
    by (simp add: prod.distrib)
  have "\<Prod>A \<noteq> 0" if "finite A" "0 \<notin> A" for A :: "gf set"
    using that by (induction A rule: finite_induct) (auto dest: gf_no_zero_divisors)
  then have "\<Prod>?U \<noteq> 0"
    using fin by simp
  then have "x ^ card ?U = 1"
    using prod gf_cancel by (metis mult.commute)
  moreover have "card ?U = 255"
    by (simp add: card_gf finite_gf card_Diff_singleton)
  ultimately show ?thesis by simp
qed

instantiation gf :: field
begin

definition inverse_gf :: "gf \<Rightarrow> gf" where "inverse x = (x :: gf) ^ 254"
definition divide_gf :: "gf \<Rightarrow> gf \<Rightarrow> gf" where "x div y = x * inverse (y :: gf)"

instance
proof
  fix x y :: gf
  assume "x \<noteq> 0"
  then have "x ^ 254 * x = 1"
    using gf_pow_255 [of x] power_Suc2 [of x 254] by simp
  then show "inverse x * x = 1"
    by (simp add: inverse_gf_def)
next
  fix x y :: gf
  show "x div y = x * inverse y"
    by (simp add: divide_gf_def)
next
  show "inverse (0 :: gf) = 0"
    by (simp add: inverse_gf_def)
qed

end

lemma GF_invTable: "GF (invTable ! unat a) = inverse (GF a)"
proof (cases "a = 0")
  case True
  then show ?thesis
    by (simp add: invTable_0 gf_simps)
next
  case False
  then have "GF a * GF (invTable ! unat a) = 1"
    by (simp flip: GF_gmul GF_1 add: invTable_nth)
  then show ?thesis
    by (metis inverse_unique)
qed

subsection \<open>Powers of the generator\<close>

lemma powers_from_nth:
  "powers_from x ys \<Longrightarrow> i < length ys \<Longrightarrow> GF (ys ! i) = GF 2 ^ i * GF x"
proof (induction ys arbitrary: x i)
  case (Cons y ys)
  then show ?case
    by (cases i) (auto simp: xtime_gmul mult_ac)
qed simp

lemma expTable_nth: "i < 510 \<Longrightarrow> GF (expTable ! i) = GF 2 ^ i"
  using powers_from_nth [OF expTable_powers, of i] by (simp add: length_expTable GF_1)

lemma logs_from_nth:
  "logs_from es a ls \<Longrightarrow> i < length ls \<Longrightarrow>
    unat (ls ! i) < 255 \<and> es ! unat (ls ! i) = word_of_nat (a + i)"
proof (induction ls arbitrary: a i)
  case (Cons l ls)
  then show ?case
    by (cases i) force+
qed simp

lemma logTable_nth:
  assumes "a \<noteq> 0"
  shows "unat (logTable ! unat a) < 255" and "expTable ! unat (logTable ! unat a) = a"
proof -
  have pos: "0 < unat a"
    using assms by (simp add: unat_gt_0)
  then have tl: "tl logTable ! (unat a - 1) = logTable ! unat a"
    using unat_byte_less [of a] by (subst nth_tl) (simp_all add: length_logTable)
  have "unat (tl logTable ! (unat a - 1)) < 255 \<and>
      expTable ! unat (tl logTable ! (unat a - 1)) = word_of_nat (1 + (unat a - 1))"
    using pos unat_byte_less [of a]
    by (intro logs_from_nth [OF logTable_logs]) (simp add: length_logTable)
  then show "unat (logTable ! unat a) < 255" "expTable ! unat (logTable ! unat a) = a"
    using pos unfolding tl by simp_all
qed

lemma GF_log: "a \<noteq> 0 \<Longrightarrow> GF a = GF 2 ^ unat (logTable ! unat a)"
  using expTable_nth [of "unat (logTable ! unat a)"] logTable_nth [of a] by simp

lemma GF_2_neq_0: "GF 2 \<noteq> 0"
  by simp

lemma GF_2_pow_mod: "GF 2 ^ (n mod 255) = GF 2 ^ n"
proof -
  have "GF 2 ^ n = (GF 2 ^ 255) ^ (n div 255) * GF 2 ^ (n mod 255)"
    by (simp only: power_mult [symmetric] power_add [symmetric] mult_div_mod_eq)
  then show ?thesis
    by (simp add: gf_pow_255)
qed

subsection \<open>Division and powers\<close>

definition galDivide :: "byte \<Rightarrow> byte \<Rightarrow> byte result" where
  "galDivide a b =
     (if a = 0 then Inr 0
      else if b = 0 then Inl Panic
      else
        let logA = uint (logTable ! unat a);
            logB = uint (logTable ! unat b);
            logResult = logA - logB;
            logResult = (if logResult < 0 then logResult + 255 else logResult)
        in Inr (expTable ! nat logResult))"

text \<open>The loop \<open>for logResult >= 255 { logResult -= 255 }\<close>.\<close>

fun reduceLog :: "nat \<Rightarrow> nat" where
  "reduceLog logResult = (if 255 \<le> logResult then reduceLog (logResult - 255) else logResult)"

declare reduceLog.simps [simp del]

definition galExp :: "byte \<Rightarrow> nat \<Rightarrow> byte" where
  "galExp a n =
     (if n = 0 then 1
      else if a = 0 then 0
      else
        let logA = logTable ! unat a;
            logResult = reduceLog (unat logA * n)
        in expTable ! logResult)"

lemma reduceLog_mod: "reduceLog n = n mod 255"
proof (induction n rule: reduceLog.induct)
  case (1 n)
  then show ?case
    by (subst reduceLog.simps) (simp add: le_mod_geq)
qed

lemma GF_galExp [gf_simps]: "GF (galExp a n) = GF a ^ n"
proof -
  have "GF (expTable ! (unat (logTable ! unat a) * n mod 255)) = GF a ^ n" if "a \<noteq> 0"
  proof -
    have "unat (logTable ! unat a) * n mod 255 < 510"
      by (rule less_trans [of _ 255]) simp_all
    then show ?thesis
      by (simp add: expTable_nth GF_2_pow_mod power_mult GF_log [OF that, symmetric])
  qed
  then show ?thesis
    by (simp add: galExp_def Let_def reduceLog_mod gf_simps)
qed

lemma galDivide_Inr:
  assumes "b \<noteq> 0"
  shows "\<exists>c. galDivide a b = Inr c \<and> GF c = GF a / GF b"
proof (cases "a = 0")
  case True
  then show ?thesis
    by (simp add: galDivide_def GF_0)
next
  case False
  define A where "A = unat (logTable ! unat a)"
  define B where "B = unat (logTable ! unat b)"
  define r where "r = (if int A - int B < 0 then int A - int B + 255 else int A - int B)"
  have bounds: "A < 255" "B < 255"
    using False assms logTable_nth by (auto simp: A_def B_def)
  then have r: "0 \<le> r" "r < 255"
    by (auto simp: r_def)
  have "nat r + B = (if A < B then A + 255 else A)"
    using bounds by (auto simp: r_def)
  then have "GF 2 ^ (nat r + B) = GF 2 ^ A"
    by (simp add: power_add gf_pow_255)
  then have "GF (expTable ! nat r) * GF b = GF a"
    using r False assms
    by (simp add: expTable_nth power_add A_def B_def GF_log [symmetric])
  then have "GF (expTable ! nat r) = GF a / GF b"
    using assms by (simp add: nonzero_eq_divide_eq)
  moreover have "galDivide a b = Inr (expTable ! nat r)"
  proof -
    have "uint (logTable ! unat a) = int A" "uint (logTable ! unat b) = int B"
      by (simp_all add: A_def B_def)
    then show ?thesis
      using False assms by (simp add: galDivide_def Let_def r_def)
  qed
  ultimately show ?thesis by blast
qed

lemma galDivide_panic: "galDivide a b = Inl e \<longleftrightarrow> a \<noteq> 0 \<and> b = 0 \<and> e = Panic"
  by (auto simp: galDivide_def Let_def)

subsection \<open>Properties\<close>

text \<open>
  C36. The 65536 entries of \<open>mulTable\<close> are the products of the field: \<open>galMultiply\<close> is
  multiplication of polynomials over the two-element field modulo the generating polynomial.
\<close>

theorem galMultiply_field: "galMultiply a b = gf_byte (GF a * GF b)"
  by (simp add: galMultiply_gmul gf_byte_mult)

text \<open>
  Division undoes multiplication: dividing a product by a non-zero factor gives the
  other factor, and 0 divided by 0 gives 0 without a panic, as the code's first test has it.
\<close>

theorem galDivide_galMultiply: "galDivide (galMultiply a b) b = Inr (if b = 0 then 0 else a)"
proof (cases "b = 0")
  case True
  then show ?thesis
    by (simp add: galMultiply_gmul galDivide_def)
next
  case False
  obtain c where c: "galDivide (galMultiply a b) b = Inr c" "GF c = GF (galMultiply a b) / GF b"
    using galDivide_Inr [OF False] by blast
  then have "GF c = GF a"
    using False by (simp add: gf_simps)
  then show ?thesis
    using c False by simp
qed

text \<open>
  \<open>galExp a n\<close>, computed with one logarithm and one table entry, is \<open>a\<close> multiplied by
  itself \<open>n\<close> times, for every \<open>n\<close>.
\<close>

theorem galExp_iterated: "galExp a n = (galMultiply a ^^ n) 1"
proof -
  have "GF ((galMultiply a ^^ n) 1) = GF a ^ n"
    by (induction n) (simp_all add: gf_simps)
  then have "GF (galExp a n) = GF ((galMultiply a ^^ n) 1)"
    by (simp add: GF_galExp)
  then show ?thesis
    by simp
qed

text \<open>
  The nibble tables agree with the full table: the entry for the low nibble plus the
  entry for the high nibble is the product, for all 65536 pairs.
\<close>

theorem half_tables_galMultiply:
  "galMulNibbles (mulTableLow ! unat c) (mulTableHigh ! unat c) b = galMultiply c b"
  by (simp add: galMulNibbles_tables galMultiply_gmul)

end
