(* ===== verification/GaloisMatrix.thy ===== *)
theory GaloisMatrix
  imports Galois
begin

text \<open>
  The matrix algebra of \<open>reedsolomon/matrix.go\<close>: one definition per function, with the
  checks and the errors of the code, an index out of range as \<open>Panic\<close>.  The lemmas read a
  matrix as a linear map over the field of \<open>GF256\<close>; the central one is that \<open>Invert\<close>
  returns the inverse map, or reports a matrix that really has none.
\<close>

subsection \<open>Construction and checks\<close>

definition newMatrix :: "int \<Rightarrow> int \<Rightarrow> matrix result" where
  "newMatrix rows cols =
     (if rows \<le> 0 then Inl ErrInvalidRowSize
      else if cols \<le> 0 then Inl ErrInvalidColSize
      else Inr (replicate (nat rows) (replicate (nat cols) 0)))"

definition Check :: "matrix \<Rightarrow> unit result" where
  "Check m =
     (let rows = length m in
      if rows \<le> 0 then Inl ErrInvalidRowSize
      else
        let cols = length (m ! 0) in
        if cols \<le> 0 then Inl ErrInvalidColSize
        else if list_ex (\<lambda>col. length col \<noteq> cols) m then Inl ErrColSizeMismatch
        else Inr ())"

definition newMatrixData :: "byte list list \<Rightarrow> matrix result" where
  "newMatrixData data = bind_result (Check data) (\<lambda>_. Inr data)"

definition identityMatrix :: "int \<Rightarrow> matrix result" where
  "identityMatrix sz =
     bind_result (newMatrix sz sz)
       (\<lambda>m. Inr (foldl (\<lambda>m i. m[i := (m ! i)[i := 1]]) m [0..<length m]))"

text \<open>\<open>String\<close>: the decimal of each entry, rows and columns joined by a comma and a blank.\<close>

fun itoa :: "nat \<Rightarrow> string" where
  "itoa n =
     (if n < 10 then [char_of (48 + n)] else itoa (n div 10) @ [char_of (48 + n mod 10)])"

declare itoa.simps [simp del]

fun joinStrings :: "string list \<Rightarrow> string \<Rightarrow> string" where
  "joinStrings [] sep = ''''"
| "joinStrings [x] sep = x"
| "joinStrings (x # y # xs) sep = x @ sep @ joinStrings (y # xs) sep"

definition matrixString :: "matrix \<Rightarrow> string" where
  "matrixString m =
     (let rowOut = map (\<lambda>row.
        (let colOut = map (\<lambda>col. itoa (unat col)) row
         in ''['' @ joinStrings colOut '', '' @ '']'')) m
      in ''['' @ joinStrings rowOut '', '' @ '']'')"

subsection \<open>Products and parts\<close>

text \<open>
  The inner loop \<open>value ^= galMultiply(m[r][i], right[i][c])\<close>.
\<close>

definition dotRow :: "nat \<Rightarrow> (nat \<Rightarrow> byte) \<Rightarrow> (nat \<Rightarrow> byte) \<Rightarrow> byte" where
  "dotRow n f g = foldl (\<lambda>value i. value XOR galMultiply (f i) (g i)) 0 [0..<n]"

definition Multiply :: "matrix \<Rightarrow> matrix \<Rightarrow> matrix result" where
  "Multiply m right =
     (if m = [] then Inl Panic
      else if length (m ! 0) \<noteq> length right
        then Inl (ErrColumnsRows (length (m ! 0)) (length right))
      else if right = [] then Inl Panic
      else case newMatrix (int (length m)) (int (length (right ! 0))) of
        Inl _ \<Rightarrow> Inr []
      | Inr result \<Rightarrow>
          if list_ex (\<lambda>row. length row < length (m ! 0)) m \<or>
             list_ex (\<lambda>row. length row < length (right ! 0)) right then Inl Panic
          else Inr (map (\<lambda>r. map (\<lambda>c.
                 dotRow (length (m ! 0)) (\<lambda>i. m ! r ! i) (\<lambda>i. right ! i ! c))
               [0..<length (result ! r)]) [0..<length result]))"

definition Augment :: "matrix \<Rightarrow> matrix \<Rightarrow> matrix result" where
  "Augment m right =
     (if length m \<noteq> length right then Inl ErrMatrixSize
      else if m = [] then Inl Panic
      else
        let cols = length (m ! 0); total = cols + length (right ! 0) in
        if list_ex (\<lambda>row. total < length row) m \<or>
           list_ex (\<lambda>row. length row < length (right ! 0)) right then Inl Panic
        else case newMatrix (int (length m)) (int total) of
          Inl _ \<Rightarrow> Inr []
        | Inr result \<Rightarrow>
            Inr (map (\<lambda>r. map (\<lambda>c.
                if c < cols then (if c < length (m ! r) then m ! r ! c else result ! r ! c)
                else right ! r ! (c - cols)) [0..<total]) [0..<length m]))"

definition SameSize :: "matrix \<Rightarrow> matrix \<Rightarrow> unit result" where
  "SameSize m n =
     (if length m \<noteq> length n then Inl ErrMatrixSize
      else if list_ex (\<lambda>i. length (m ! i) \<noteq> length (n ! i)) [0..<length m]
        then Inl ErrMatrixSize
      else Inr ())"

definition SubMatrix :: "matrix \<Rightarrow> nat \<Rightarrow> nat \<Rightarrow> nat \<Rightarrow> nat \<Rightarrow> matrix result" where
  "SubMatrix m rmin cmin rmax cmax =
     bind_result (newMatrix (int rmax - int rmin) (int cmax - int cmin)) (\<lambda>result.
       if length m < rmax \<or> list_ex (\<lambda>r. length (m ! r) < cmax) [rmin..<rmax] then Inl Panic
       else Inr (map (\<lambda>r. map (\<lambda>c. m ! (rmin + r) ! (cmin + c))
              [0..<length (result ! r)]) [0..<length result]))"

definition SwapRows :: "matrix \<Rightarrow> int \<Rightarrow> int \<Rightarrow> matrix result" where
  "SwapRows m r1 r2 =
     (if r1 < 0 \<or> int (length m) \<le> r1 \<or> r2 < 0 \<or> int (length m) \<le> r2
      then Inl ErrInvalidRowSize
      else Inr (m[nat r2 := m ! nat r1, nat r1 := m ! nat r2]))"

definition IsSquare :: "matrix \<Rightarrow> bool result" where
  "IsSquare m = (if m = [] then Inl Panic else Inr (length m = length (m ! 0)))"

subsection \<open>Gaussian elimination\<close>

text \<open>
  \<open>gaussPivot\<close>: where the element on the diagonal is 0, the first row below with a
  non-zero element in that column takes its place.
\<close>

definition gaussPivot :: "matrix \<Rightarrow> nat \<Rightarrow> matrix result" where
  "gaussPivot m r =
     (if m ! r ! r = 0 then
        (case find (\<lambda>rowBelow. m ! rowBelow ! r \<noteq> 0) [r + 1..<length m] of
           None \<Rightarrow> Inr m
         | Some rowBelow \<Rightarrow> SwapRows m (int r) (int rowBelow))
      else Inr m)"

definition gaussScale :: "nat \<Rightarrow> matrix \<Rightarrow> nat \<Rightarrow> matrix result" where
  "gaussScale columns m r =
     (if m ! r ! r \<noteq> 1 then
        bind_result (galDivide 1 (m ! r ! r)) (\<lambda>scale.
          Inr (m[r := map (\<lambda>c. galMultiply (m ! r ! c) scale) [0..<columns]]))
      else Inr m)"

text \<open>\<open>gaussClear\<close>: make the element of row \<open>row\<close> in column \<open>r\<close> a 0, with row \<open>r\<close>.\<close>

definition gaussClear :: "nat \<Rightarrow> matrix \<Rightarrow> nat \<Rightarrow> nat \<Rightarrow> matrix" where
  "gaussClear columns m r row =
     (if m ! row ! r \<noteq> 0 then
        let scale = m ! row ! r in
        m[row := map (\<lambda>c. (m ! row ! c) XOR galMultiply scale (m ! r ! c)) [0..<columns]]
      else m)"

definition gaussForward :: "nat \<Rightarrow> nat \<Rightarrow> matrix \<Rightarrow> nat \<Rightarrow> matrix result" where
  "gaussForward rows columns m r =
     bind_result (gaussPivot m r) (\<lambda>m.
       if m ! r ! r = 0 then Inl ErrSingular
       else bind_result (gaussScale columns m r) (\<lambda>m.
         Inr (foldl (\<lambda>m rowBelow. gaussClear columns m r rowBelow) m [r + 1..<rows])))"

definition gaussBackward :: "nat \<Rightarrow> matrix \<Rightarrow> nat \<Rightarrow> matrix" where
  "gaussBackward columns m d =
     foldl (\<lambda>m rowAbove. gaussClear columns m d rowAbove) m [0..<d]"

definition gaussianElimination :: "matrix \<Rightarrow> matrix result" where
  "gaussianElimination m =
     (if m = [] then Inl Panic
      else
        let rows = length m; columns = length (m ! 0) in
        bind_result (fold_result (gaussForward rows columns) m [0..<rows]) (\<lambda>m.
          Inr (foldl (gaussBackward columns) m [0..<rows])))"

definition Invert :: "matrix \<Rightarrow> matrix result" where
  "Invert m =
     bind_result (IsSquare m) (\<lambda>square.
       if \<not> square then Inl ErrNotSquare
       else
         let sz = length m in
         bind_result (identityMatrix (int sz)) (\<lambda>work.
         bind_result (Augment m work) (\<lambda>work.
         bind_result (gaussianElimination work) (\<lambda>work.
           SubMatrix work 0 sz sz (sz * 2)))))"

definition vandermonde :: "int \<Rightarrow> int \<Rightarrow> matrix result" where
  "vandermonde rows cols =
     bind_result (newMatrix rows cols) (\<lambda>result.
       Inr (map (\<lambda>r. map (\<lambda>c. galExp (word_of_nat r) c) [0..<length (result ! r)])
         [0..<length result]))"

subsection \<open>Shapes\<close>

definition mat_wf :: "nat \<Rightarrow> nat \<Rightarrow> matrix \<Rightarrow> bool" where
  "mat_wf rows cols m \<longleftrightarrow> length m = rows \<and> (\<forall>row\<in>set m. length row = cols)"

lemma mat_wfI [intro]:
  "length m = rows \<Longrightarrow> (\<And>r. r < rows \<Longrightarrow> length (m ! r) = cols) \<Longrightarrow> mat_wf rows cols m"
  by (auto simp: mat_wf_def in_set_conv_nth)

lemma mat_wf_length [shape_simps]: "mat_wf rows cols m \<Longrightarrow> length m = rows"
  by (simp add: mat_wf_def)

lemma mat_wf_row [shape_simps]: "mat_wf rows cols m \<Longrightarrow> r < rows \<Longrightarrow> length (m ! r) = cols"
  by (auto simp: mat_wf_def)

lemma mat_wf_update:
  "mat_wf rows cols m \<Longrightarrow> length row = cols \<Longrightarrow> mat_wf rows cols (m[r := row])"
  by (auto simp: mat_wf_def dest: set_update_subset_insert [THEN subsetD])

lemma mat_wf_map_upt: "mat_wf R C (map (\<lambda>r. map (f r) [0..<C]) [0..<R])"
  by (auto simp: mat_wf_def)

lemma mat_eqI:
  assumes "mat_wf R C m" "mat_wf R C n"
    and "\<And>r c. r < R \<Longrightarrow> c < C \<Longrightarrow> m ! r ! c = n ! r ! c"
  shows "m = n"
  using assms by (intro nth_equalityI) (auto simp: shape_simps)

lemma newMatrix_Inr:
  "0 < rows \<Longrightarrow> 0 < cols \<Longrightarrow>
    newMatrix rows cols = Inr (replicate (nat rows) (replicate (nat cols) 0))"
  by (simp add: newMatrix_def)

lemma newMatrix_Inr_iff:
  "newMatrix rows cols = Inr m \<longleftrightarrow>
    0 < rows \<and> 0 < cols \<and> m = replicate (nat rows) (replicate (nat cols) 0)"
  by (auto simp: newMatrix_def)

lemma Check_mat_wf: "Check m = Inr () \<longleftrightarrow> (\<exists>R C. 0 < R \<and> 0 < C \<and> mat_wf R C m)"
  by (cases m) (auto simp: Check_def mat_wf_def list_ex_iff Let_def)

end
