(* ===== verification/Slices.thy ===== *)
theory Slices
  imports Prelude
begin

text \<open>
  Go slices of bytes.  A slice that is not \<open>nil\<close> is its memory from its first element up to
  its capacity, and its length: writing to a part of a slice and growing a slice into its
  spare capacity are then plain list operations.  The model has no aliasing: two slices of the
  model never share memory, and where the code writes through a part of a slice, the part is
  put back into the whole (\<open>putBack\<close>).
\<close>

datatype slice = NilSlice | Slice "byte list" nat

fun backing :: "slice \<Rightarrow> byte list" where
  "backing NilSlice = []"
| "backing (Slice buf n) = buf"

fun sliceLen :: "slice \<Rightarrow> nat" where
  "sliceLen NilSlice = 0"
| "sliceLen (Slice buf n) = n"

definition sliceCap :: "slice \<Rightarrow> nat" where
  "sliceCap s = length (backing s)"

definition sliceWf :: "slice \<Rightarrow> bool" where
  "sliceWf s \<longleftrightarrow> sliceLen s \<le> sliceCap s"

definition bytesOf :: "slice \<Rightarrow> byte list" where
  "bytesOf s = take (sliceLen s) (backing s)"

definition ofBytes :: "byte list \<Rightarrow> slice" where
  "ofBytes bs = Slice bs (length bs)"

text \<open>\<open>make([]byte, n)\<close>, and the slice expressions \<open>s[lo:hi]\<close>, \<open>s[lo:]\<close> and \<open>s[lo:hi:max]\<close>.\<close>

definition makeSlice :: "nat \<Rightarrow> slice" where
  "makeSlice n = Slice (replicate n 0) n"

definition reslice :: "slice \<Rightarrow> nat \<Rightarrow> nat \<Rightarrow> slice result" where
  "reslice s lo hi =
     (if lo \<le> hi \<and> hi \<le> sliceCap s then
        Inr (case s of NilSlice \<Rightarrow> NilSlice | Slice buf n \<Rightarrow> Slice (drop lo buf) (hi - lo))
      else Inl Panic)"

definition resliceFrom :: "slice \<Rightarrow> nat \<Rightarrow> slice result" where
  "resliceFrom s lo = reslice s lo (sliceLen s)"

definition reslice3 :: "slice \<Rightarrow> nat \<Rightarrow> nat \<Rightarrow> nat \<Rightarrow> slice result" where
  "reslice3 s lo hi mx =
     (if lo \<le> hi \<and> hi \<le> mx \<and> mx \<le> sliceCap s then
        Inr (case s of NilSlice \<Rightarrow> NilSlice
             | Slice buf n \<Rightarrow> Slice (take (mx - lo) (drop lo buf)) (hi - lo))
      else Inl Panic)"

text \<open>
  A call that writes through \<open>s[lo:hi]\<close>: the slice it got, with the memory it left there, is
  put back.
\<close>

definition putBack :: "slice \<Rightarrow> nat \<Rightarrow> slice \<Rightarrow> slice" where
  "putBack s lo sub =
     (case s of NilSlice \<Rightarrow> NilSlice | Slice buf n \<Rightarrow> Slice (take lo buf @ backing sub) n)"

definition onSub :: "slice \<Rightarrow> nat \<Rightarrow> nat \<Rightarrow> (slice \<Rightarrow> slice result) \<Rightarrow> slice result" where
  "onSub s lo hi f =
     bind_result (reslice s lo hi) (\<lambda>sub. bind_result (f sub) (\<lambda>sub'. Inr (putBack s lo sub')))"

text \<open>
  \<open>over f xs\<close> is the loop that combines the element of \<open>xs\<close> at each index with the element of
  the memory at that index; \<open>mapMem\<close> runs such a loop on the memory of a slice.
\<close>

definition over :: "(byte \<Rightarrow> byte \<Rightarrow> byte) \<Rightarrow> byte list \<Rightarrow> byte list \<Rightarrow> byte list" where
  "over f xs buf = map2 f xs buf @ drop (length xs) buf"

fun mapMem :: "(byte list \<Rightarrow> byte list) \<Rightarrow> slice \<Rightarrow> slice" where
  "mapMem f NilSlice = NilSlice"
| "mapMem f (Slice buf n) = Slice (f buf) n"

text \<open>\<open>copy(dst, src)\<close> and the loop \<open>for i := range xs { out[i] = f(xs[i], out[i]) }\<close>.\<close>

definition copySlice :: "slice \<Rightarrow> byte list \<Rightarrow> slice" where
  "copySlice dst src = mapMem (over (\<lambda>i _. i) (take (sliceLen dst) src)) dst"

definition rangeLoop :: "(byte \<Rightarrow> byte \<Rightarrow> byte) \<Rightarrow> byte list \<Rightarrow> slice \<Rightarrow> slice result" where
  "rangeLoop f xs out =
     (if length xs \<le> sliceLen out then Inr (mapMem (over f xs) out) else Inl Panic)"

subsection \<open>Laws\<close>

lemma length_over [simp]: "length xs \<le> length buf \<Longrightarrow> length (over f xs buf) = length buf"
  by (simp add: over_def)

lemma nth_over:
  "length xs \<le> length buf \<Longrightarrow> i < length buf \<Longrightarrow>
    over f xs buf ! i = (if i < length xs then f (xs ! i) (buf ! i) else buf ! i)"
  by (auto simp: over_def nth_append)

lemma over_Nil [simp]: "over f [] buf = buf"
  by (simp add: over_def)

lemma over_cong: "(\<And>x y. x \<in> set xs \<Longrightarrow> f x y = g x y) \<Longrightarrow> over f xs buf = over g xs buf"
  unfolding over_def by (auto dest: set_zip_leftD)

lemma over_split:
  assumes "length xs \<le> length buf" and "k \<le> length xs"
  shows "take k (over f (take k xs) buf) @ over f (drop k xs) (drop k (over f (take k xs) buf)) =
    over f xs buf"
proof (rule nth_equalityI)
  fix i assume "i < length (take k (over f (take k xs) buf) @
      over f (drop k xs) (drop k (over f (take k xs) buf)))"
  then show "(take k (over f (take k xs) buf) @
      over f (drop k xs) (drop k (over f (take k xs) buf))) ! i = over f xs buf ! i"
    using assms by (auto simp: nth_append nth_over)
qed (use assms in simp)

lemma over_take_split:
  assumes "length xs \<le> length buf" and "k \<le> length xs"
  shows "take k (over f (take k xs) buf) @ over f (drop k xs) (drop k buf) = over f xs buf"
  using over_split [OF assms, of f] assms by (simp add: over_def)

lemma sliceLen_makeSlice [simp]: "sliceLen (makeSlice n) = n"
  by (simp add: makeSlice_def)

lemma bytesOf_makeSlice [simp]: "bytesOf (makeSlice n) = replicate n 0"
  by (simp add: makeSlice_def bytesOf_def)

lemma bytesOf_ofBytes [simp]: "bytesOf (ofBytes bs) = bs"
  by (simp add: ofBytes_def bytesOf_def)

lemma sliceLen_ofBytes [simp]: "sliceLen (ofBytes bs) = length bs"
  by (simp add: ofBytes_def)

lemma length_bytesOf [simp]: "sliceWf s \<Longrightarrow> length (bytesOf s) = sliceLen s"
  by (simp add: bytesOf_def sliceWf_def sliceCap_def)

lemma sliceWf_simps [simp]:
  "sliceWf NilSlice" "sliceWf (Slice buf n) \<longleftrightarrow> n \<le> length buf"
  "sliceWf (makeSlice n)" "sliceWf (ofBytes bs)"
  by (simp_all add: sliceWf_def sliceCap_def makeSlice_def ofBytes_def)

lemma bytesOf_simps [simp]:
  "bytesOf NilSlice = []" "bytesOf (Slice buf n) = take n buf"
  by (simp_all add: bytesOf_def)

lemma sliceCap_simps [simp]: "sliceCap NilSlice = 0" "sliceCap (Slice buf n) = length buf"
  by (simp_all add: sliceCap_def)

lemma reslice_Slice:
  "lo \<le> hi \<Longrightarrow> hi \<le> length buf \<Longrightarrow> reslice (Slice buf n) lo hi = Inr (Slice (drop lo buf) (hi - lo))"
  by (simp add: reslice_def)

lemma resliceFrom_Slice:
  "lo \<le> n \<Longrightarrow> n \<le> length buf \<Longrightarrow> resliceFrom (Slice buf n) lo = Inr (Slice (drop lo buf) (n - lo))"
  by (simp add: resliceFrom_def reslice_Slice)

lemma copySlice_Slice:
  "length src \<le> n \<Longrightarrow> copySlice (Slice buf n) src = Slice (over (\<lambda>i _. i) src buf) n"
  by (simp add: copySlice_def)

lemma rangeLoop_Slice:
  "length xs \<le> n \<Longrightarrow> rangeLoop f xs (Slice buf n) = Inr (Slice (over f xs buf) n)"
  by (simp add: rangeLoop_def)

text \<open>
  A loop over \<open>s[lo:hi]\<close> changes exactly the positions \<open>lo\<close> to \<open>hi - 1\<close>.
\<close>

lemma onSub_over:
  assumes "lo \<le> hi" and "hi \<le> length buf" and "length xs = hi - lo"
    and "f (Slice (drop lo buf) (hi - lo)) = Inr (Slice (over g xs (drop lo buf)) (hi - lo))"
  shows "onSub (Slice buf n) lo hi f =
    Inr (Slice (map (\<lambda>i. if lo \<le> i \<and> i < hi then g (xs ! (i - lo)) (buf ! i) else buf ! i)
      [0..<length buf]) n)"
proof -
  have "take lo buf @ over g xs (drop lo buf) =
    map (\<lambda>i. if lo \<le> i \<and> i < hi then g (xs ! (i - lo)) (buf ! i) else buf ! i) [0..<length buf]"
  proof (rule list_eq_map_upt)
    fix i assume "i < length buf"
    then show "(take lo buf @ over g xs (drop lo buf)) ! i =
        (if lo \<le> i \<and> i < hi then g (xs ! (i - lo)) (buf ! i) else buf ! i)"
      using assms(1-3) by (auto simp: nth_append nth_over)
  qed (use assms(1-3) in simp)
  then show ?thesis
    using assms by (simp add: onSub_def reslice_Slice putBack_def)
qed

subsection \<open>Lists of output slices\<close>

text \<open>
  \<open>updMem outs g\<close> replaces byte \<open>q\<close> of slice \<open>i\<close> by \<open>g i q\<close> of its old value.  Every coding
  call is such an update, and updates compose pointwise.
\<close>

definition updMem :: "slice list \<Rightarrow> (nat \<Rightarrow> nat \<Rightarrow> byte \<Rightarrow> byte) \<Rightarrow> slice list" where
  "updMem outs g =
     map (\<lambda>i. mapMem (\<lambda>buf. map (\<lambda>q. g i q (buf ! q)) [0..<length buf]) (outs ! i))
       [0..<length outs]"

lemma length_updMem [simp]: "length (updMem outs g) = length outs"
  by (simp add: updMem_def)

lemma updMem_nth:
  "i < length outs \<Longrightarrow>
    updMem outs g ! i = mapMem (\<lambda>buf. map (\<lambda>q. g i q (buf ! q)) [0..<length buf]) (outs ! i)"
  by (simp add: updMem_def)

lemma mapMem_cong:
  "s = t \<Longrightarrow> (\<And>buf n. t = Slice buf n \<Longrightarrow> f buf = g buf) \<Longrightarrow> mapMem f s = mapMem g t"
  by (cases t) simp_all

lemma sliceLen_mapMem [simp]: "sliceLen (mapMem f s) = sliceLen s"
  by (cases s) simp_all

lemma backing_mapMem: "f [] = [] \<Longrightarrow> backing (mapMem f s) = f (backing s)"
  by (cases s) simp_all

lemma sliceCap_mapMem [simp]:
  "(\<And>buf. length (f buf) = length buf) \<Longrightarrow> sliceCap (mapMem f s) = sliceCap s"
  by (cases s) simp_all

lemma mapMem_eq_Nil [simp]: "mapMem f s = NilSlice \<longleftrightarrow> s = NilSlice"
  by (cases s) simp_all

lemma mapMem_mapMem: "mapMem f (mapMem g s) = mapMem (\<lambda>buf. f (g buf)) s"
  by (cases s) simp_all

lemma updMem_updMem: "updMem (updMem outs g) h = updMem outs (\<lambda>i q v. h i q (g i q v))"
  by (rule nth_equalityI) (auto simp: updMem_nth mapMem_mapMem intro!: mapMem_cong)

lemma updMem_cong:
  assumes "\<And>i q v. i < length outs \<Longrightarrow> q < sliceCap (outs ! i) \<Longrightarrow> g i q v = h i q v"
  shows "updMem outs g = updMem outs h"
proof (rule nth_equalityI)
  fix i assume "i < length (updMem outs g)"
  then show "updMem outs g ! i = updMem outs h ! i"
    using assms [of i] by (auto simp: updMem_nth intro!: mapMem_cong)
qed simp

lemma updMem_id: "updMem outs (\<lambda>i q v. v) = outs"
proof (rule nth_equalityI)
  fix i assume "i < length (updMem outs (\<lambda>i q v. v))"
  then show "updMem outs (\<lambda>i q v. v) ! i = outs ! i"
    by (cases "outs ! i") (simp_all add: updMem_nth map_nth)
qed simp

lemma sliceLen_updMem [simp]: "i < length outs \<Longrightarrow> sliceLen (updMem outs g ! i) = sliceLen (outs ! i)"
  by (simp add: updMem_nth)

lemma sliceCap_updMem [simp]: "i < length outs \<Longrightarrow> sliceCap (updMem outs g ! i) = sliceCap (outs ! i)"
  by (simp add: updMem_nth)

lemma bytesOf_updMem:
  assumes "i < length outs"
  shows "bytesOf (updMem outs g ! i) =
    map (\<lambda>q. g i q (backing (outs ! i) ! q)) [0..<min (sliceLen (outs ! i)) (sliceCap (outs ! i))]"
  using assms by (cases "outs ! i") (auto simp: updMem_nth take_map min_def)

text \<open>A loop on a part of one slice, as an update of the list of slices.\<close>

lemma updMem_one:
  assumes "i < length outs" and "outs ! i = Slice buf n"
  shows "outs[i := Slice (map (\<lambda>q. g q (buf ! q)) [0..<length buf]) n] =
    updMem outs (\<lambda>j q v. if j = i then g q v else v)"
proof (rule nth_equalityI)
  fix j assume "j < length (outs[i := Slice (map (\<lambda>q. g q (buf ! q)) [0..<length buf]) n])"
  then show "outs[i := Slice (map (\<lambda>q. g q (buf ! q)) [0..<length buf]) n] ! j =
      updMem outs (\<lambda>j q v. if j = i then g q v else v) ! j"
    using assms by (cases "outs ! j") (auto simp: updMem_nth nth_list_update map_nth)
qed simp

subsection \<open>Loops of updates\<close>

text \<open>Updates keep lengths and capacities.\<close>

definition sameShape :: "slice list \<Rightarrow> slice list \<Rightarrow> bool" where
  "sameShape outs outs' \<longleftrightarrow> length outs' = length outs \<and>
     (\<forall>i<length outs. sliceLen (outs' ! i) = sliceLen (outs ! i) \<and>
       sliceCap (outs' ! i) = sliceCap (outs ! i) \<and> (outs' ! i = NilSlice \<longleftrightarrow> outs ! i = NilSlice))"

lemma sameShape_refl [simp]: "sameShape outs outs"
  by (simp add: sameShape_def)

lemma sameShape_updMem: "sameShape outs outs' \<Longrightarrow> sameShape outs (updMem outs' g)"
  by (simp add: sameShape_def updMem_nth)

lemma fold_result_updMem:
  assumes "\<And>x outs'. x \<in> set xs \<Longrightarrow> sameShape outs0 outs' \<Longrightarrow> f outs' x = Inr (updMem outs' (g x))"
    and "sameShape outs0 outs"
  shows "fold_result f outs xs = Inr (updMem outs (\<lambda>i q v. foldl (\<lambda>v x. g x i q v) v xs))"
  using assms
proof (induction xs arbitrary: outs)
  case Nil
  then show ?case by (simp add: updMem_id)
next
  case (Cons x xs)
  have "fold_result f outs (x # xs) = fold_result f (updMem outs (g x)) xs"
    using Cons.prems by simp
  also have "\<dots> = Inr (updMem (updMem outs (g x)) (\<lambda>i q v. foldl (\<lambda>v x. g x i q v) v xs))"
    using Cons.prems by (intro Cons.IH sameShape_updMem) simp_all
  finally show ?case
    by (simp add: updMem_updMem)
qed

lemma foldl_keep [simp]: "foldl (\<lambda>v x. v) v xs = v"
  by (induction xs) simp_all

text \<open>In a double loop, one output sees one call per input.\<close>

lemma foldl_select:
  "distinct ys \<Longrightarrow> foldl (\<lambda>v r. if r = i then h v else v) v ys = (if i \<in> set ys then h v else v)"
  by (induction ys arbitrary: v) auto

lemma foldl_product_select:
  assumes "distinct ys"
  shows "foldl (\<lambda>v (c, r). if r = i then h c v else v) v (List.product xs ys) =
    (if i \<in> set ys then foldl (\<lambda>v c. h c v) v xs else v)"
proof (induction xs arbitrary: v)
  case (Cons x xs)
  have "foldl (\<lambda>v (c, r). if r = i then h c v else v) v (map (Pair x) ys) =
      foldl (\<lambda>v r. if r = i then h x v else v) v ys"
    by (simp add: foldl_map)
  then show ?case
    using Cons assms by (simp add: foldl_select)
qed simp

end
