(* ===== verification/Options.thy ===== *)
theory Options
  imports Prelude
begin

text \<open>
  \<open>reedsolomon/options.go\<close>: the record of processing parameters and the functions that set
  them.  What the code asks the \<open>cpuid\<close> package and the Go run time about the machine is a
  record \<open>cpu\<close>, an argument of everything that depends on it.
\<close>

record cpu =
  cpuSSSE3 :: bool
  cpuSSE2 :: bool
  cpuAVX2 :: bool
  cpuAVX512 :: bool
  cacheL1D :: int
  cacheL2 :: int
  threadsPerCore :: int
  physicalCores :: int
  gomaxprocs :: int

text \<open>The field \<open>shardSize\<close> of the code is \<open>autoShardSize\<close> here: a function has its name too.\<close>

record options =
  maxGoroutines :: int
  minSplitSize :: int
  autoShardSize :: int
  perRound :: int
  useAVX512 :: bool
  useAVX2 :: bool
  useSSSE3 :: bool
  useSSE2 :: bool
  usePAR1Matrix :: bool
  useCauchy :: bool
  fastOneParity :: bool
  inversionCache :: bool
  concReads :: bool
  concWrites :: bool
  streamBS :: int

text \<open>
  \<open>defaultOptions\<close> after the \<open>init\<close> of the file; fields the literal leaves out have Go's zero
  value.
\<close>

definition defaultOptions :: "cpu \<Rightarrow> options" where
  "defaultOptions cpu = \<lparr>
     maxGoroutines = (if gomaxprocs cpu \<le> 1 then 1 else 384),
     minSplitSize = - 1,
     autoShardSize = 0,
     perRound = 0,
     useAVX512 = cpuAVX512 cpu,
     useAVX2 = cpuAVX2 cpu,
     useSSSE3 = cpuSSSE3 cpu,
     useSSE2 = cpuSSE2 cpu,
     usePAR1Matrix = False,
     useCauchy = False,
     fastOneParity = False,
     inversionCache = True,
     concReads = False,
     concWrites = False,
     streamBS = 0 \<rparr>"

definition WithMaxGoroutines :: "int \<Rightarrow> options \<Rightarrow> options" where
  "WithMaxGoroutines n opts = (if 0 < n then opts\<lparr>maxGoroutines := n\<rparr> else opts)"

definition WithAutoGoroutines :: "int \<Rightarrow> options \<Rightarrow> options" where
  "WithAutoGoroutines sz opts = opts\<lparr>autoShardSize := sz\<rparr>"

definition WithMinSplitSize :: "int \<Rightarrow> options \<Rightarrow> options" where
  "WithMinSplitSize n opts = (if 0 < n then opts\<lparr>minSplitSize := n\<rparr> else opts)"

definition WithConcurrentStreams :: "bool \<Rightarrow> options \<Rightarrow> options" where
  "WithConcurrentStreams enabled opts = opts\<lparr>concReads := enabled, concWrites := enabled\<rparr>"

definition WithConcurrentStreamReads :: "bool \<Rightarrow> options \<Rightarrow> options" where
  "WithConcurrentStreamReads enabled opts = opts\<lparr>concReads := enabled\<rparr>"

definition WithConcurrentStreamWrites :: "bool \<Rightarrow> options \<Rightarrow> options" where
  "WithConcurrentStreamWrites enabled opts = opts\<lparr>concWrites := enabled\<rparr>"

definition WithInversionCache :: "bool \<Rightarrow> options \<Rightarrow> options" where
  "WithInversionCache enabled opts = opts\<lparr>inversionCache := enabled\<rparr>"

definition WithStreamBlockSize :: "int \<Rightarrow> options \<Rightarrow> options" where
  "WithStreamBlockSize n opts = opts\<lparr>streamBS := n\<rparr>"

definition withSSSE3 :: "bool \<Rightarrow> options \<Rightarrow> options" where
  "withSSSE3 enabled opts = opts\<lparr>useSSSE3 := enabled\<rparr>"

definition withAVX2 :: "bool \<Rightarrow> options \<Rightarrow> options" where
  "withAVX2 enabled opts = opts\<lparr>useAVX2 := enabled\<rparr>"

definition withSSE2 :: "bool \<Rightarrow> options \<Rightarrow> options" where
  "withSSE2 enabled opts = opts\<lparr>useSSE2 := enabled\<rparr>"

definition withAVX512 :: "bool \<Rightarrow> options \<Rightarrow> options" where
  "withAVX512 enabled opts = opts\<lparr>useAVX512 := enabled\<rparr>"

definition WithPAR1Matrix :: "options \<Rightarrow> options" where
  "WithPAR1Matrix opts = opts\<lparr>usePAR1Matrix := True, useCauchy := False\<rparr>"

definition WithCauchyMatrix :: "options \<Rightarrow> options" where
  "WithCauchyMatrix opts = opts\<lparr>useCauchy := True, usePAR1Matrix := False\<rparr>"

definition WithFastOneParityMatrix :: "options \<Rightarrow> options" where
  "WithFastOneParityMatrix opts = opts\<lparr>fastOneParity := True\<rparr>"

text \<open>The options of a caller are applied in their order.\<close>

definition applyOptions :: "(options \<Rightarrow> options) list \<Rightarrow> options \<Rightarrow> options" where
  "applyOptions opts o0 = foldl (\<lambda>opts opt. opt opts) o0 opts"

lemma applyOptions_invariant:
  assumes "P o0" and "\<And>f opts. f \<in> set fs \<Longrightarrow> P opts \<Longrightarrow> P (f opts)"
  shows "P (applyOptions fs o0)"
  using assms unfolding applyOptions_def by (induction fs arbitrary: o0) auto

text \<open>
  The options the package exports.  \<open>exportedOption\<close> is what a caller outside the package can
  pass to \<open>New\<close>.
\<close>

inductive exportedOption :: "(options \<Rightarrow> options) \<Rightarrow> bool" where
  "exportedOption (WithMaxGoroutines n)"
| "exportedOption (WithAutoGoroutines n)"
| "exportedOption (WithMinSplitSize n)"
| "exportedOption (WithConcurrentStreams b)"
| "exportedOption (WithConcurrentStreamReads b)"
| "exportedOption (WithConcurrentStreamWrites b)"
| "exportedOption (WithInversionCache b)"
| "exportedOption (WithStreamBlockSize n)"
| "exportedOption WithPAR1Matrix"
| "exportedOption WithCauchyMatrix"
| "exportedOption WithFastOneParityMatrix"

lemmas With_defs = WithMaxGoroutines_def WithAutoGoroutines_def WithMinSplitSize_def
  WithConcurrentStreams_def WithConcurrentStreamReads_def WithConcurrentStreamWrites_def
  WithInversionCache_def WithStreamBlockSize_def WithPAR1Matrix_def WithCauchyMatrix_def
  WithFastOneParityMatrix_def

text \<open>
  No exported option changes what the CPU supports, none sets a number of goroutines below 1,
  and none leaves both alternative matrices selected.
\<close>

definition optionsInv :: "cpu \<Rightarrow> options \<Rightarrow> bool" where
  "optionsInv cpu opts \<longleftrightarrow>
     1 \<le> maxGoroutines opts \<and> \<not> (usePAR1Matrix opts \<and> useCauchy opts) \<and> perRound opts = 0 \<and>
     useAVX512 opts = cpuAVX512 cpu \<and> useAVX2 opts = cpuAVX2 cpu \<and>
     useSSSE3 opts = cpuSSSE3 cpu \<and> useSSE2 opts = cpuSSE2 cpu"

lemma exportedOption_inv: "exportedOption f \<Longrightarrow> optionsInv cpu opts \<Longrightarrow> optionsInv cpu (f opts)"
  by (induction rule: exportedOption.induct) (simp_all add: optionsInv_def With_defs)

lemma defaultOptions_inv: "optionsInv cpu (defaultOptions cpu)"
  by (simp add: optionsInv_def defaultOptions_def)

lemma applyOptions_inv:
  "list_all exportedOption fs \<Longrightarrow> optionsInv cpu (applyOptions fs (defaultOptions cpu))"
  by (rule applyOptions_invariant [where P = "optionsInv cpu", OF defaultOptions_inv])
    (simp add: list_all_iff exportedOption_inv)

end
