(* ===== verification/Kernels.thy ===== *)
theory Kernels
  imports GaloisMatrix Slices Options
begin

text \<open>
  The three kernels that work on slices, \<open>galMulSlice\<close>, \<open>galMulSliceXor\<close> and \<open>sliceXor\<close>, in the
  four versions the build tags choose from: \<open>galois_noasm.go\<close>, \<open>galois_amd64.go\<close>,
  \<open>galois_arm64.go\<close> and \<open>galois_ppc64le.go\<close>.  Each Go function is a definition.  The assembler
  routines are modelled by what the comment in the Go file says they do, on the whole blocks of
  16, 32 or 64 bytes their shift of the length leaves; touching memory beyond the capacity of
  the slice is \<open>Panic\<close>.  The input is the list of bytes of its slice, the output a slice.  The
  locale \<open>galois_kernels\<close> is the contract the coding loops rely on; every version is an
  interpretation of it.
\<close>

subsection \<open>Portable version\<close>

text \<open>
  The loops over a table row, \<open>out = out[:len(in)]\<close> and then \<open>out[n] = mt[input]\<close> or
  \<open>out[n] ^= mt[input]\<close> with \<open>mt := mulTable[c][:256]\<close>, end the kernels of three files.
\<close>

definition tableLoop :: "byte \<Rightarrow> byte list \<Rightarrow> slice \<Rightarrow> slice result" where
  "tableLoop c xs out =
     onSub out 0 (length xs) (let mt = mulTable ! unat c in rangeLoop (\<lambda>x _. mt ! unat x) xs)"

definition tableLoopXor :: "byte \<Rightarrow> byte list \<Rightarrow> slice \<Rightarrow> slice result" where
  "tableLoopXor c xs out =
     onSub out 0 (length xs) (let mt = mulTable ! unat c in rangeLoop (\<lambda>x y. y XOR mt ! unat x) xs)"

definition galMulSlice_noasm :: "byte \<Rightarrow> byte list \<Rightarrow> slice \<Rightarrow> options \<Rightarrow> slice result" where
  "galMulSlice_noasm c xs out opts =
     (if c = 1 then onSub out 0 (length xs) (\<lambda>out. Inr (copySlice out xs))
      else tableLoop c xs out)"

text \<open>\<open>binary.LittleEndian\<close>: eight bytes as a 64-bit word and back.\<close>

definition leUint64 :: "byte list \<Rightarrow> 64 word" where
  "leUint64 b = foldl (\<lambda>v i. v OR push_bit (8 * i) (ucast (b ! i))) 0 [0..<8]"

definition lePutUint64 :: "64 word \<Rightarrow> byte list" where
  "lePutUint64 v = map (\<lambda>i. ucast (drop_bit (8 * i) v)) [0..<8]"

definition xorWord :: "nat \<Rightarrow> byte list \<Rightarrow> byte list \<Rightarrow> 64 word" where
  "xorWord i out xs = leUint64 (drop (8 * i) out) XOR leUint64 (drop (8 * i) xs)"

text \<open>
  The loop of \<open>sliceXor\<close> over the elements of \<open>out\<close>: 32 bytes per round as four words, then the
  rest byte by byte.  It returns the new elements of \<open>out\<close>.
\<close>

function sliceXorWords :: "byte list \<Rightarrow> byte list \<Rightarrow> byte list result" where
  "sliceXorWords xs out =
     (if 32 \<le> length out then
        if length xs < 32 then Inl Panic
        else
          let v0 = xorWord 0 out xs; v1 = xorWord 1 out xs;
              v2 = xorWord 2 out xs; v3 = xorWord 3 out xs in
          bind_result (sliceXorWords (drop 32 xs) (drop 32 out)) (\<lambda>rest.
            Inr (lePutUint64 v0 @ lePutUint64 v1 @ lePutUint64 v2 @ lePutUint64 v3 @ rest))
      else if length out < length xs then Inl Panic
      else Inr (over (\<lambda>x y. y XOR x) xs out))"
  by pat_completeness auto
termination by (relation "measure (\<lambda>(xs, out). length out)") auto

declare sliceXorWords.simps [simp del]

definition sliceXor_noasm :: "byte list \<Rightarrow> slice \<Rightarrow> options \<Rightarrow> slice result" where
  "sliceXor_noasm xs out opts =
     bind_result (sliceXorWords xs (bytesOf out)) (\<lambda>bs.
       Inr (mapMem (\<lambda>buf. bs @ drop (sliceLen out) buf) out))"

definition galMulSliceXor_noasm :: "byte \<Rightarrow> byte list \<Rightarrow> slice \<Rightarrow> options \<Rightarrow> slice result" where
  "galMulSliceXor_noasm c xs out opts =
     (if c = 1 then onSub out 0 (length xs) (\<lambda>out. sliceXor_noasm xs out opts)
      else tableLoopXor c xs out)"

subsection \<open>Assembler routines\<close>

text \<open>
  \<open>asmBlocks w f\<close>: a routine that treats \<open>len(in) / w\<close> blocks of \<open>w\<close> bytes of the memory at
  \<open>out\<close>.  With \<open>galMulNibbles\<close> and a set or xor store these are \<open>galMulSSSE3\<close>, \<open>galMulAVX2\<close>,
  \<open>galMulAVX2_64\<close>, \<open>galMulNEON\<close>, \<open>galMulPpc\<close> and their \<open>Xor\<close> versions; with \<open>XOR\<close> they are
  \<open>sSE2XorSlice\<close>, \<open>sSE2XorSlice_64\<close> and \<open>galXorNEON\<close>.
\<close>

definition wholeBlocks :: "nat \<Rightarrow> nat \<Rightarrow> nat" where
  "wholeBlocks w n = (n div w) * w"

definition asmBlocks :: "nat \<Rightarrow> (byte \<Rightarrow> byte \<Rightarrow> byte) \<Rightarrow> byte list \<Rightarrow> slice \<Rightarrow> slice result" where
  "asmBlocks w f xs out =
     (let n = wholeBlocks w (length xs) in
      if n \<le> sliceCap out then Inr (mapMem (over f (take n xs)) out) else Inl Panic)"

definition asmMul :: "nat \<Rightarrow> byte \<Rightarrow> byte list \<Rightarrow> slice \<Rightarrow> slice result" where
  "asmMul w c =
     asmBlocks w (\<lambda>x _. galMulNibbles (mulTableLow ! unat c) (mulTableHigh ! unat c) x)"

definition asmMulXor :: "nat \<Rightarrow> byte \<Rightarrow> byte list \<Rightarrow> slice \<Rightarrow> slice result" where
  "asmMulXor w c =
     asmBlocks w (\<lambda>x y. y XOR galMulNibbles (mulTableLow ! unat c) (mulTableHigh ! unat c) x)"

definition asmXor :: "nat \<Rightarrow> byte list \<Rightarrow> slice \<Rightarrow> slice result" where
  "asmXor w = asmBlocks w (\<lambda>x y. y XOR x)"

text \<open>
  \<open>stage\<close>: where the input has at least \<open>least\<close> bytes, run an assembler routine of width \<open>w\<close>,
  and go on with \<open>in[done:]\<close> and \<open>out[done:]\<close>.
\<close>

definition stage :: "nat \<Rightarrow> nat \<Rightarrow> (byte list \<Rightarrow> slice \<Rightarrow> slice result) \<Rightarrow>
    (byte list \<Rightarrow> slice \<Rightarrow> slice result) \<Rightarrow> byte list \<Rightarrow> slice \<Rightarrow> slice result" where
  "stage least w asm rest xs out =
     (if least \<le> length xs then
        bind_result (asm xs out) (\<lambda>out.
          let fin = wholeBlocks w (length xs) in onSub out fin (sliceLen out) (rest (drop fin xs)))
      else rest xs out)"

subsection \<open>amd64\<close>

definition bigSwitchover :: nat where
  "bigSwitchover = 128"

definition galMulSlice_amd64 :: "byte \<Rightarrow> byte list \<Rightarrow> slice \<Rightarrow> options \<Rightarrow> slice result" where
  "galMulSlice_amd64 c xs out opts =
     (if c = 1 then Inr (copySlice out xs)
      else if useAVX2 opts then
        stage bigSwitchover 64 (asmMul 64 c) (stage 33 32 (asmMul 32 c) (tableLoop c)) xs out
      else if useSSSE3 opts then stage 0 16 (asmMul 16 c) (tableLoop c) xs out
      else tableLoop c xs out)"

definition xorLoop :: "byte list \<Rightarrow> slice \<Rightarrow> slice result" where
  "xorLoop xs out = onSub out 0 (length xs) (rangeLoop (\<lambda>x y. y XOR x) xs)"

definition sliceXor_amd64 :: "byte list \<Rightarrow> slice \<Rightarrow> options \<Rightarrow> slice result" where
  "sliceXor_amd64 xs out opts =
     (if useSSE2 opts then
        stage bigSwitchover 64 (asmXor 64) (stage 16 16 (asmXor 16) xorLoop) xs out
      else xorLoop xs out)"

definition tailXor :: "byte \<Rightarrow> byte list \<Rightarrow> slice \<Rightarrow> slice result" where
  "tailXor c xs out = (if xs = [] then Inr out else tableLoopXor c xs out)"

definition galMulSliceXor_amd64 :: "byte \<Rightarrow> byte list \<Rightarrow> slice \<Rightarrow> options \<Rightarrow> slice result" where
  "galMulSliceXor_amd64 c xs out opts =
     (if c = 1 then sliceXor_amd64 xs out opts
      else if useAVX2 opts then
        stage bigSwitchover 64 (asmMulXor 64 c) (stage 32 32 (asmMulXor 32 c) (tailXor c)) xs out
      else if useSSSE3 opts then stage 0 16 (asmMulXor 16 c) (tailXor c) xs out
      else tailXor c xs out)"

subsection \<open>arm64 and ppc64le\<close>

text \<open>
  After the assembler routine these versions finish with a loop that indexes \<open>in\<close> and \<open>out\<close>
  from \<open>done\<close> to \<open>len(in) - 1\<close>.
\<close>

definition finishFrom :: "nat \<Rightarrow> (byte \<Rightarrow> byte \<Rightarrow> byte) \<Rightarrow> byte list \<Rightarrow> slice \<Rightarrow> slice result" where
  "finishFrom fin f xs out =
     (if fin < length xs then
        if sliceLen out < length xs then Inl Panic
        else Inr (mapMem (\<lambda>buf. take fin buf @ over f (drop fin xs) (drop fin buf)) out)
      else Inr out)"

definition galMulSlice_arm64 :: "byte \<Rightarrow> byte list \<Rightarrow> slice \<Rightarrow> options \<Rightarrow> slice result" where
  "galMulSlice_arm64 c xs out opts =
     (if c = 1 then Inr (copySlice out xs)
      else bind_result (asmMul 32 c xs out) (\<lambda>out.
        let fin = wholeBlocks 32 (length xs); mt = mulTable ! unat c in
        finishFrom fin (\<lambda>x _. mt ! unat x) xs out))"

definition sliceXor_arm64 :: "byte list \<Rightarrow> slice \<Rightarrow> options \<Rightarrow> slice result" where
  "sliceXor_arm64 xs out opts =
     bind_result (asmXor 32 xs out) (\<lambda>out.
       finishFrom (wholeBlocks 32 (length xs)) (\<lambda>x y. y XOR x) xs out)"

definition galMulSliceXor_arm64 :: "byte \<Rightarrow> byte list \<Rightarrow> slice \<Rightarrow> options \<Rightarrow> slice result" where
  "galMulSliceXor_arm64 c xs out opts =
     (if c = 1 then sliceXor_arm64 xs out opts
      else bind_result (asmMulXor 32 c xs out) (\<lambda>out.
        let fin = wholeBlocks 32 (length xs); mt = mulTable ! unat c in
        finishFrom fin (\<lambda>x y. y XOR mt ! unat x) xs out))"

definition galMulSlice_ppc64le :: "byte \<Rightarrow> byte list \<Rightarrow> slice \<Rightarrow> options \<Rightarrow> slice result" where
  "galMulSlice_ppc64le c xs out opts =
     (if c = 1 then Inr (copySlice out xs)
      else
        let fin = wholeBlocks 16 (length xs); mt = mulTable ! unat c in
        bind_result (if 0 < fin then asmMul 16 c (take fin xs) out else Inr out) (\<lambda>out.
          finishFrom fin (\<lambda>x _. mt ! unat x) xs out))"

definition sliceXor_ppc64le :: "byte list \<Rightarrow> slice \<Rightarrow> options \<Rightarrow> slice result" where
  "sliceXor_ppc64le xs out opts = rangeLoop (\<lambda>x y. y XOR x) xs out"

definition galMulSliceXor_ppc64le :: "byte \<Rightarrow> byte list \<Rightarrow> slice \<Rightarrow> options \<Rightarrow> slice result" where
  "galMulSliceXor_ppc64le c xs out opts =
     (if c = 1 then sliceXor_ppc64le xs out opts
      else
        let fin = wholeBlocks 16 (length xs); mt = mulTable ! unat c in
        bind_result (if 0 < fin then asmMulXor 16 c (take fin xs) out else Inr out) (\<lambda>out.
          finishFrom fin (\<lambda>x y. y XOR mt ! unat x) xs out))"

subsection \<open>Words and bytes\<close>

lemma bit_leUint64_upto:
  "k \<le> 8 \<Longrightarrow>
    bit (foldl (\<lambda>v i. v OR push_bit (8 * i) (ucast (b ! i))) (0 :: 64 word) [0..<k]) m \<longleftrightarrow>
      m < 8 * k \<and> bit (b ! (m div 8) :: byte) (m mod 8)"
proof (induction k)
  case (Suc k)
  have low: "bit (push_bit (8 * k) (ucast (b ! k)) :: 64 word) m \<longleftrightarrow>
      8 * k \<le> m \<and> m < 8 * k + 8 \<and> bit (b ! k) (m - 8 * k)"
    using Suc.prems bit_imp_le_length [of "b ! k" "m - 8 * k"]
    by (auto simp: bit_push_bit_iff bit_unsigned_iff)
  have "m div 8 = k \<and> m mod 8 = m - 8 * k" if "8 * k \<le> m" "m < 8 * k + 8"
    using that by (metis add.commute add_diff_cancel_left' div_nat_eqI less_mult_imp_div_less
        minus_mod_eq_mult_div mult.commute mult_Suc_right modulo_nat_def)
  then show ?case
    using Suc low by (auto simp: bit_or_iff)
qed simp

lemma bit_leUint64:
  "bit (leUint64 b) m \<longleftrightarrow> m < 64 \<and> bit (b ! (m div 8)) (m mod 8)"
  using bit_leUint64_upto [of 8 b m] by (simp add: leUint64_def)

lemma lePutUint64_leUint64_xor:
  assumes "8 \<le> length a" and "8 \<le> length b"
  shows "lePutUint64 (leUint64 a XOR leUint64 b) = map2 (\<lambda>x y. x XOR y) (take 8 a) (take 8 b)"
proof (rule nth_equalityI)
  fix i assume "i < length (lePutUint64 (leUint64 a XOR leUint64 b))"
  then have i: "i < 8"
    by (simp add: lePutUint64_def)
  have "ucast (drop_bit (8 * i) (leUint64 a XOR leUint64 b)) = a ! i XOR b ! i"
    by (rule bit_word_eqI) (use i in \<open>auto simp: bit_unsigned_iff bit_drop_bit_eq bit_xor_iff
        bit_leUint64\<close>)
  then show "lePutUint64 (leUint64 a XOR leUint64 b) ! i =
      map2 (\<lambda>x y. x XOR y) (take 8 a) (take 8 b) ! i"
    using i assms by (simp add: lePutUint64_def del: upt_Suc)
qed (use assms in \<open>simp add: lePutUint64_def\<close>)

lemma xorWord_bytes:
  assumes "8 * i + 8 \<le> length out" and "8 * i + 8 \<le> length xs"
  shows "lePutUint64 (xorWord i out xs) =
    map2 (\<lambda>x y. y XOR x) (take 8 (drop (8 * i) xs)) (take 8 (drop (8 * i) out))"
  using assms
  by (simp add: xorWord_def lePutUint64_leUint64_xor map2_map_map)
    (rule nth_equalityI, simp_all)

lemma sliceXorWords_over:
  "length xs = length out \<Longrightarrow> sliceXorWords xs out = Inr (over (\<lambda>x y. y XOR x) xs out)"
proof (induction xs out rule: sliceXorWords.induct)
  case (1 xs out)
  show ?case
  proof (cases "32 \<le> length out")
    case True
    let ?f = "\<lambda>x y :: byte. y XOR x"
    have cut: "map2 ?f (take 8 xs) (take 8 out) @
        map2 ?f (take 8 (drop 8 xs)) (take 8 (drop 8 out)) @
        map2 ?f (take 8 (drop 16 xs)) (take 8 (drop 16 out)) @
        map2 ?f (take 8 (drop 24 xs)) (take 8 (drop 24 out)) @
        map2 ?f (drop 32 xs) (drop 32 out) = map2 ?f xs out"
      using True 1(2) by (intro nth_equalityI) (auto simp: nth_append)
    have "sliceXorWords (drop 32 xs) (drop 32 out) = Inr (over ?f (drop 32 xs) (drop 32 out))"
      using 1 True by simp
    then show ?thesis
      using True 1(2) cut xorWord_bytes [of 0 out xs] xorWord_bytes [of 1 out xs]
        xorWord_bytes [of 2 out xs] xorWord_bytes [of 3 out xs]
      by (simp add: sliceXorWords.simps [of xs out] over_def Let_def)
  next
    case False
    then show ?thesis
      using 1(2) by (simp add: sliceXorWords.simps [of xs out])
  qed
qed

subsection \<open>Every version is the plain loop\<close>

text \<open>
  \<open>loopsOver k f\<close>: on an output at least as long as the input, \<open>k\<close> is the loop that stores
  \<open>f\<close> of the input byte and the old output byte.
\<close>

definition loopsOver :: "(byte list \<Rightarrow> slice \<Rightarrow> slice result) \<Rightarrow> (byte \<Rightarrow> byte \<Rightarrow> byte) \<Rightarrow> bool" where
  "loopsOver k f \<longleftrightarrow>
     (\<forall>xs buf. length xs \<le> length buf \<longrightarrow>
       k xs (Slice buf (length xs)) = Inr (Slice (over f xs buf) (length xs)))"

lemma loopsOverD:
  "loopsOver k f \<Longrightarrow> length xs \<le> length buf \<Longrightarrow> n = length xs \<Longrightarrow>
    k xs (Slice buf n) = Inr (Slice (over f xs buf) n)"
  by (simp add: loopsOver_def)

lemma loopsOverI:
  "(\<And>xs buf. length xs \<le> length buf \<Longrightarrow>
    k xs (Slice buf (length xs)) = Inr (Slice (over f xs buf) (length xs))) \<Longrightarrow> loopsOver k f"
  by (simp add: loopsOver_def)

lemma wholeBlocks_le: "wholeBlocks w n \<le> n"
  by (simp add: wholeBlocks_def div_times_less_eq_dividend)

lemma onSub_whole:
  "onSub (Slice buf n) 0 n k = bind_result (if n \<le> length buf then k (Slice buf n) else Inl Panic)
     (\<lambda>sub. Inr (Slice (backing sub) n))"
  by (auto simp: onSub_def reslice_def putBack_def)

lemma loopsOver_rangeLoop: "loopsOver (rangeLoop f) f"
  by (simp add: loopsOver_def rangeLoop_def)

lemma loopsOver_onSub_range: "loopsOver (\<lambda>xs out. onSub out 0 (length xs) (rangeLoop f xs)) f"
  by (rule loopsOverI) (simp add: onSub_whole rangeLoop_def)

lemma loopsOver_copy: "loopsOver (\<lambda>xs out. Inr (copySlice out xs)) (\<lambda>x _. x)"
  by (rule loopsOverI) (simp add: copySlice_Slice)

lemma loopsOver_onSub_copy:
  "loopsOver (\<lambda>xs out. onSub out 0 (length xs) (\<lambda>out. Inr (copySlice out xs))) (\<lambda>x _. x)"
  by (rule loopsOverI) (simp add: onSub_whole copySlice_Slice)

lemma asmBlocks_Slice:
  "length xs \<le> length buf \<Longrightarrow>
    asmBlocks w f xs (Slice buf n) = Inr (Slice (over f (take (wholeBlocks w (length xs)) xs) buf) n)"
  using wholeBlocks_le [of w "length xs"] by (simp add: asmBlocks_def Let_def)

lemma loopsOver_stage:
  assumes "loopsOver rest f"
  shows "loopsOver (stage least w (asmBlocks w f) rest) f"
proof (rule loopsOverI)
  fix xs buf :: "byte list" assume len: "length xs \<le> length buf"
  let ?k = "wholeBlocks w (length xs)"
  have k: "?k \<le> length xs"
    by (rule wholeBlocks_le)
  show "stage least w (asmBlocks w f) rest xs (Slice buf (length xs)) =
      Inr (Slice (over f xs buf) (length xs))"
    using assms len k over_split [OF len k, of f]
    by (auto simp: stage_def Let_def asmBlocks_Slice onSub_def reslice_Slice putBack_def
        loopsOverD)
qed

lemma loopsOver_finish:
  assumes "\<And>x y. g x y = f x y"
  shows "loopsOver (\<lambda>xs out. bind_result (asmBlocks w f xs out)
    (\<lambda>out. finishFrom (wholeBlocks w (length xs)) g xs out)) f"
proof (rule loopsOverI)
  fix xs buf :: "byte list" assume len: "length xs \<le> length buf"
  let ?k = "wholeBlocks w (length xs)"
  have k: "?k \<le> length xs"
    by (rule wholeBlocks_le)
  have "g = f"
    using assms by auto
  then show "bind_result (asmBlocks w f xs (Slice buf (length xs)))
      (\<lambda>out. finishFrom (wholeBlocks w (length xs)) g xs out) =
      Inr (Slice (over f xs buf) (length xs))"
    using len k over_split [OF len k, of f]
    by (auto simp: asmBlocks_Slice finishFrom_def)
qed

lemma loopsOver_cong:
  "loopsOver k f \<Longrightarrow> (\<And>x y. f x y = g x y) \<Longrightarrow> loopsOver k g"
  by (metis ext)

lemma mulTable_galMultiply: "mulTable ! unat c ! unat x = galMultiply c x"
  by (simp add: galMultiply_def)

lemma nibbles_galMultiply:
  "galMulNibbles (mulTableLow ! unat c) (mulTableHigh ! unat c) x = galMultiply c x"
  by (simp add: galMulNibbles_tables galMultiply_gmul)

lemma galMultiply_1: "galMultiply 1 x = x"
proof -
  have "GF (galMultiply 1 x) = GF x"
    by (simp add: gf_simps GF_1 del: gf.inject)
  then show ?thesis
    by simp
qed

lemma loopsOver_galMultiply_1:
  "loopsOver k (\<lambda>x _. x) \<Longrightarrow> loopsOver k (\<lambda>x _. galMultiply 1 x)"
  "loopsOver k (\<lambda>x y. y XOR x) \<Longrightarrow> loopsOver k (\<lambda>x y. y XOR galMultiply 1 x)"
  by (simp_all add: galMultiply_1)

lemma loopsOver_asm:
  "loopsOver rest (\<lambda>x _. galMultiply c x) \<Longrightarrow>
    loopsOver (stage least w (asmMul w c) rest) (\<lambda>x _. galMultiply c x)"
  "loopsOver rest (\<lambda>x y. y XOR galMultiply c x) \<Longrightarrow>
    loopsOver (stage least w (asmMulXor w c) rest) (\<lambda>x y. y XOR galMultiply c x)"
  "loopsOver rest (\<lambda>x y. y XOR x) \<Longrightarrow>
    loopsOver (stage least w (asmXor w) rest) (\<lambda>x y. y XOR x)"
  by (simp_all add: asmMul_def asmMulXor_def asmXor_def nibbles_galMultiply loopsOver_stage)

lemma loopsOver_tables:
  "loopsOver (tableLoop c) (\<lambda>x _. galMultiply c x)"
  "loopsOver (tableLoopXor c) (\<lambda>x y. y XOR galMultiply c x)"
  "loopsOver xorLoop (\<lambda>x y. y XOR x)"
  using loopsOver_onSub_range
  by (simp_all add: tableLoop_def [abs_def] tableLoopXor_def [abs_def] xorLoop_def [abs_def]
      mulTable_galMultiply)

lemma loopsOver_tailXor: "loopsOver (tailXor c) (\<lambda>x y. y XOR galMultiply c x)"
  using loopsOver_tables(2) [of c] by (auto simp: loopsOver_def tailXor_def)

lemma loopsOver_sliceXor_noasm: "loopsOver (\<lambda>xs out. sliceXor_noasm xs out opts) (\<lambda>x y. y XOR x)"
proof (rule loopsOverI)
  fix xs buf :: "byte list" assume len: "length xs \<le> length buf"
  have "zip xs (take (length xs) buf) = zip xs buf"
    by (rule nth_equalityI) auto
  with len show "sliceXor_noasm xs (Slice buf (length xs)) opts =
      Inr (Slice (over (\<lambda>x y. y XOR x) xs buf) (length xs))"
    using sliceXorWords_over [of xs "take (length xs) buf"]
    by (simp add: sliceXor_noasm_def over_def)
qed

subsection \<open>The contract\<close>

text \<open>
  What the coding loops rely on: on slices of equal length each kernel is its loop over the
  field multiplication, whatever the options select and whatever spare capacity follows.
\<close>

locale galois_kernels =
  fixes galMulSlice :: "byte \<Rightarrow> byte list \<Rightarrow> slice \<Rightarrow> options \<Rightarrow> slice result"
    and galMulSliceXor :: "byte \<Rightarrow> byte list \<Rightarrow> slice \<Rightarrow> options \<Rightarrow> slice result"
    and sliceXor :: "byte list \<Rightarrow> slice \<Rightarrow> options \<Rightarrow> slice result"
  assumes mul: "loopsOver (\<lambda>xs out. galMulSlice c xs out opts) (\<lambda>x _. galMultiply c x)"
    and mul_xor: "loopsOver (\<lambda>xs out. galMulSliceXor c xs out opts) (\<lambda>x y. y XOR galMultiply c x)"
    and xor: "loopsOver (\<lambda>xs out. sliceXor xs out opts) (\<lambda>x y. y XOR x)"
begin

lemma mul_sub:
  assumes "lo \<le> hi" and "hi \<le> length buf" and "length xs = hi - lo"
  shows "onSub (Slice buf n) lo hi (\<lambda>out. galMulSlice c xs out opts) =
    Inr (Slice (map (\<lambda>i. if lo \<le> i \<and> i < hi then galMultiply c (xs ! (i - lo)) else buf ! i)
      [0..<length buf]) n)"
  using assms by (intro onSub_over) (auto intro!: loopsOverD [OF mul])

lemma mul_xor_sub:
  assumes "lo \<le> hi" and "hi \<le> length buf" and "length xs = hi - lo"
  shows "onSub (Slice buf n) lo hi (\<lambda>out. galMulSliceXor c xs out opts) =
    Inr (Slice (map (\<lambda>i. if lo \<le> i \<and> i < hi then buf ! i XOR galMultiply c (xs ! (i - lo))
      else buf ! i) [0..<length buf]) n)"
  using assms by (intro onSub_over) (auto intro!: loopsOverD [OF mul_xor])

lemma xor_sub:
  assumes "lo \<le> hi" and "hi \<le> length buf" and "length xs = hi - lo"
  shows "onSub (Slice buf n) lo hi (\<lambda>out. sliceXor xs out opts) =
    Inr (Slice (map (\<lambda>i. if lo \<le> i \<and> i < hi then buf ! i XOR xs ! (i - lo) else buf ! i)
      [0..<length buf]) n)"
  using assms by (intro onSub_over) (auto intro!: loopsOverD [OF xor])

end

lemma galMulSlice_noasm_loop:
  "loopsOver (\<lambda>xs out. galMulSlice_noasm c xs out opts) (\<lambda>x _. galMultiply c x)"
  using loopsOver_onSub_copy loopsOver_tables(1) [of c]
  by (cases "c = 1") (simp_all add: galMulSlice_noasm_def galMultiply_1)

lemma loopsOver_onSub_whole:
  assumes "loopsOver k f"
  shows "loopsOver (\<lambda>xs out. onSub out 0 (length xs) (k xs)) f"
  using assms by (auto intro!: loopsOverI simp: onSub_whole loopsOverD)

lemma galMulSliceXor_noasm_loop:
  "loopsOver (\<lambda>xs out. galMulSliceXor_noasm c xs out opts) (\<lambda>x y. y XOR galMultiply c x)"
  using loopsOver_onSub_whole [OF loopsOver_sliceXor_noasm [of opts]] loopsOver_tables(2) [of c]
  by (cases "c = 1") (simp_all add: galMulSliceXor_noasm_def galMultiply_1)

lemma galMulSlice_amd64_loop:
  "loopsOver (\<lambda>xs out. galMulSlice_amd64 c xs out opts) (\<lambda>x _. galMultiply c x)"
proof (cases "c = 1")
  case True
  then show ?thesis
    using loopsOver_copy by (simp add: galMulSlice_amd64_def galMultiply_1)
next
  case False
  then show ?thesis
    by (cases "useAVX2 opts"; cases "useSSSE3 opts")
      (simp_all add: galMulSlice_amd64_def loopsOver_asm loopsOver_tables)
qed

lemma sliceXor_amd64_loop: "loopsOver (\<lambda>xs out. sliceXor_amd64 xs out opts) (\<lambda>x y. y XOR x)"
  by (cases "useSSE2 opts") (simp_all add: sliceXor_amd64_def loopsOver_asm loopsOver_tables)

lemma galMulSliceXor_amd64_loop:
  "loopsOver (\<lambda>xs out. galMulSliceXor_amd64 c xs out opts) (\<lambda>x y. y XOR galMultiply c x)"
proof (cases "c = 1")
  case True
  then show ?thesis
    using sliceXor_amd64_loop by (simp add: galMulSliceXor_amd64_def galMultiply_1)
next
  case False
  then show ?thesis
    by (cases "useAVX2 opts"; cases "useSSSE3 opts")
      (simp_all add: galMulSliceXor_amd64_def loopsOver_asm loopsOver_tailXor)
qed

lemma sliceXor_arm64_loop: "loopsOver (\<lambda>xs out. sliceXor_arm64 xs out opts) (\<lambda>x y. y XOR x)"
  by (simp add: sliceXor_arm64_def asmXor_def loopsOver_finish)

lemma galMulSlice_arm64_loop:
  "loopsOver (\<lambda>xs out. galMulSlice_arm64 c xs out opts) (\<lambda>x _. galMultiply c x)"
  using loopsOver_copy
  by (cases "c = 1") (simp_all add: galMulSlice_arm64_def asmMul_def loopsOver_finish
      nibbles_galMultiply mulTable_galMultiply galMultiply_1 Let_def)

lemma galMulSliceXor_arm64_loop:
  "loopsOver (\<lambda>xs out. galMulSliceXor_arm64 c xs out opts) (\<lambda>x y. y XOR galMultiply c x)"
  using sliceXor_arm64_loop
  by (cases "c = 1") (simp_all add: galMulSliceXor_arm64_def asmMulXor_def loopsOver_finish
      nibbles_galMultiply mulTable_galMultiply galMultiply_1 Let_def)

text \<open>
  On ppc64le the input is cut to whole blocks before the assembler routine, which is then
  skipped where there are none.
\<close>

lemma asmBlocks_whole:
  "0 < w \<Longrightarrow> length xs \<le> length buf \<Longrightarrow>
    (if 0 < wholeBlocks w (length xs)
     then asmBlocks w f (take (wholeBlocks w (length xs)) xs) (Slice buf n)
     else Inr (Slice buf n)) = asmBlocks w f xs (Slice buf n)"
  using wholeBlocks_le [of w "length xs"]
  by (auto simp: asmBlocks_def wholeBlocks_def min_def Let_def)

lemma loopsOver_ppc64le:
  assumes "\<And>x y. g x y = f x y"
  shows "loopsOver (\<lambda>xs out. bind_result
    (if 0 < wholeBlocks 16 (length xs)
     then asmBlocks 16 f (take (wholeBlocks 16 (length xs)) xs) out else Inr out)
    (\<lambda>out. finishFrom (wholeBlocks 16 (length xs)) g xs out)) f"
  using loopsOver_finish [of g f 16, OF assms]
  by (simp add: loopsOver_def asmBlocks_whole)

lemma sliceXor_ppc64le_loop: "loopsOver (\<lambda>xs out. sliceXor_ppc64le xs out opts) (\<lambda>x y. y XOR x)"
  by (simp add: sliceXor_ppc64le_def loopsOver_rangeLoop)

lemma galMulSlice_ppc64le_loop:
  "loopsOver (\<lambda>xs out. galMulSlice_ppc64le c xs out opts) (\<lambda>x _. galMultiply c x)"
  using loopsOver_copy
    loopsOver_ppc64le [of "\<lambda>x _. galMultiply c x" "\<lambda>x _. galMultiply c x"]
  by (cases "c = 1") (simp_all add: galMulSlice_ppc64le_def asmMul_def
      nibbles_galMultiply mulTable_galMultiply galMultiply_1 Let_def cong: if_cong)

lemma galMulSliceXor_ppc64le_loop:
  "loopsOver (\<lambda>xs out. galMulSliceXor_ppc64le c xs out opts) (\<lambda>x y. y XOR galMultiply c x)"
  using sliceXor_ppc64le_loop
    loopsOver_ppc64le [of "\<lambda>x y. y XOR galMultiply c x" "\<lambda>x y. y XOR galMultiply c x"]
  by (cases "c = 1") (simp_all add: galMulSliceXor_ppc64le_def asmMulXor_def
      nibbles_galMultiply mulTable_galMultiply galMultiply_1 Let_def cong: if_cong)

interpretation noasm: galois_kernels galMulSlice_noasm galMulSliceXor_noasm sliceXor_noasm
  by unfold_locales
    (rule galMulSlice_noasm_loop galMulSliceXor_noasm_loop loopsOver_sliceXor_noasm)+

interpretation amd64: galois_kernels galMulSlice_amd64 galMulSliceXor_amd64 sliceXor_amd64
  by unfold_locales (rule galMulSlice_amd64_loop galMulSliceXor_amd64_loop sliceXor_amd64_loop)+

interpretation arm64: galois_kernels galMulSlice_arm64 galMulSliceXor_arm64 sliceXor_arm64
  by unfold_locales (rule galMulSlice_arm64_loop galMulSliceXor_arm64_loop sliceXor_arm64_loop)+

interpretation ppc64le: galois_kernels galMulSlice_ppc64le galMulSliceXor_ppc64le sliceXor_ppc64le
  by unfold_locales
    (rule galMulSlice_ppc64le_loop galMulSliceXor_ppc64le_loop sliceXor_ppc64le_loop)+

subsection \<open>Several inputs\<close>

text \<open>
  \<open>accRow v a b f g\<close> adds the products of the coefficients \<open>f\<close> and the bytes \<open>g\<close> of the inputs
  \<open>a\<close> to \<open>b - 1\<close> to \<open>v\<close>: what a run of kernel calls leaves at one position of an output.
\<close>

definition accRow :: "byte \<Rightarrow> nat \<Rightarrow> nat \<Rightarrow> (nat \<Rightarrow> byte) \<Rightarrow> (nat \<Rightarrow> byte) \<Rightarrow> byte" where
  "accRow v a b f g = foldl (\<lambda>v c. v XOR galMultiply (f c) (g c)) v [a..<b]"

lemma accRow_dotRow: "accRow 0 0 n f g = dotRow n f g"
  by (simp add: accRow_def dotRow_def)

lemma accRow_append: "a \<le> b \<Longrightarrow> b \<le> c \<Longrightarrow> accRow (accRow v a b f g) b c f g = accRow v a c f g"
  using upt_add_eq_append [of a b "c - b"] by (simp add: accRow_def)

lemma accRow_cong:
  "v = w \<Longrightarrow> (\<And>c. a \<le> c \<Longrightarrow> c < b \<Longrightarrow> f c = f' c) \<Longrightarrow>
    (\<And>c. a \<le> c \<Longrightarrow> c < b \<Longrightarrow> g c = g' c) \<Longrightarrow> accRow v a b f g = accRow w a b f' g'"
  unfolding accRow_def by (rule foldl_cong) auto

lemma accRow_shift:
  "foldl (\<lambda>v j. v XOR galMultiply (f (a + j)) (g (a + j))) v [0..<n] = accRow v a (a + n) f g"
  by (induction n) (simp_all add: accRow_def)

lemma accRow_one: "accRow v c (Suc c) f g = v XOR galMultiply (f c) (g c)"
  by (simp add: accRow_def)

lemma accRow_empty [simp]: "accRow v a a f g = v"
  by (simp add: accRow_def)

end
