(* ===== verification/Avx2.thy ===== *)
theory Avx2
  imports Kernels
begin

text \<open>
  The generated AVX2 routines: \<open>genAvx2Matrix\<close> of \<open>reedsolomon/galois.go\<close> lays the nibble tables
  of a coefficient matrix out in memory, and \<open>galMulSlicesAvx2\<close> of
  \<open>reedsolomon/galois_gen_switch_amd64.go\<close> runs the routine of \<open>reedsolomon/_gen/gen.go\<close> for a
  number of inputs and outputs on a range of all slices.  The lemma at the end says that the two
  together multiply by the coefficients.
\<close>

subsection \<open>The tables\<close>

text \<open>\<open>copy\<close> of 16 bytes of a table to a place in the destination.\<close>

definition copyAt :: "nat \<Rightarrow> byte list \<Rightarrow> byte list \<Rightarrow> byte list" where
  "copyAt at src buf = take at buf @ src @ drop (at + length src) buf"

definition avx2Block :: "nat \<Rightarrow> byte \<Rightarrow> byte list \<Rightarrow> byte list" where
  "avx2Block dstIdx idx buf =
     (let lo = mulTableLow ! unat idx; hi = mulTableHigh ! unat idx in
      copyAt (dstIdx + 48) hi (copyAt (dstIdx + 32) hi
        (copyAt (dstIdx + 16) lo (copyAt dstIdx lo buf))))"

definition genAvx2Matrix ::
    "bool \<Rightarrow> matrix \<Rightarrow> nat \<Rightarrow> nat \<Rightarrow> nat \<Rightarrow> slice \<Rightarrow> slice result" where
  "genAvx2Matrix codeGen matrixRows inputs inIdx outputs dst =
     (if \<not> codeGen then Inl Panic
      else
        let total = inputs * outputs; wantBytes = total * 32 * 2;
            dst = (if sliceCap dst < wantBytes then Inr (makeSlice wantBytes)
                   else reslice dst 0 wantBytes) in
        bind_result dst (\<lambda>dst.
          if length matrixRows < outputs \<or>
             list_ex (\<lambda>row. length row < inIdx + inputs) (take outputs matrixRows)
          then Inl Panic
          else Inr (mapMem (\<lambda>buf.
            foldl (\<lambda>buf (i, j). avx2Block ((j * outputs + i) * 64) (matrixRows ! i ! (inIdx + j)) buf)
              buf (List.product [0..<outputs] [0..<inputs])) dst)))"

subsection \<open>The routines\<close>

text \<open>
  Byte \<open>p\<close> of a run: the shuffle looks its nibbles up in the half of the 32-byte tables that
  belongs to its lane.
\<close>

definition avx2Lookup :: "byte list \<Rightarrow> nat \<Rightarrow> nat \<Rightarrow> byte \<Rightarrow> byte" where
  "avx2Lookup m k p x =
     (let lane = 16 * (p mod 32 div 16) in
      m ! (64 * k + lane + unat (x AND 15)) XOR m ! (64 * k + 32 + lane + unat (drop_bit 4 x)))"

definition avx2Run :: "nat \<Rightarrow> bool \<Rightarrow> byte list \<Rightarrow> slice list \<Rightarrow> slice list \<Rightarrow> nat \<Rightarrow> nat \<Rightarrow>
    slice list result" where
  "avx2Run w addTo m ins outs start n =
     (let len = wholeBlocks w n in
      if len = 0 then Inr outs
      else if length m < 64 * (length ins * length outs) \<or>
              list_ex (\<lambda>s. sliceCap s < start + len) ins \<or>
              list_ex (\<lambda>s. sliceCap s < start + len) outs then Inl Panic
      else Inr (updMem outs (\<lambda>i q v.
        if start \<le> q \<and> q < start + len then
          foldl (\<lambda>v j. v XOR avx2Lookup m (j * length outs + i) (q - start) (backing (ins ! j) ! q))
            (if addTo then v else 0) [0..<length ins]
        else v)))"

text \<open>\<open>genMulAvx2\<close> makes a routine for blocks of 32 bytes, \<open>genMulAvx2Sixty64\<close> one for blocks of 64.\<close>

definition mulAvxTwo :: "bool \<Rightarrow> byte list \<Rightarrow> slice list \<Rightarrow> slice list \<Rightarrow> nat \<Rightarrow> nat \<Rightarrow>
    slice list result" where
  "mulAvxTwo addTo m ins outs start n = avx2Run 32 addTo m ins outs start n"

definition mulAvxTwo_64 :: "bool \<Rightarrow> byte list \<Rightarrow> slice list \<Rightarrow> slice list \<Rightarrow> nat \<Rightarrow> nat \<Rightarrow>
    slice list result" where
  "mulAvxTwo_64 addTo m ins outs start n = avx2Run 64 addTo m ins outs start n"

text \<open>
  The two switches: up to 10 inputs and 10 outputs, the 64-byte routine for at most 3 outputs.
  The result is the new outputs and the number of bytes done, \<open>(stop - start) & avxSizeMask\<close>.
\<close>

definition galMulSlicesAvx2 :: "byte list \<Rightarrow> slice list \<Rightarrow> slice list \<Rightarrow> nat \<Rightarrow> nat \<Rightarrow>
    (slice list \<times> nat) result" where
  "galMulSlicesAvx2 m ins outs start stop =
     (let n = wholeBlocks 64 (stop - start) in
      if 1 \<le> length ins \<and> length ins \<le> 10 \<and> 1 \<le> length outs \<and> length outs \<le> 10 then
        bind_result (if length outs \<le> 3 then mulAvxTwo_64 False m ins outs start n
                     else mulAvxTwo False m ins outs start n) (\<lambda>outs. Inr (outs, n))
      else Inl Panic)"

definition galMulSlicesAvx2Xor :: "byte list \<Rightarrow> slice list \<Rightarrow> slice list \<Rightarrow> nat \<Rightarrow> nat \<Rightarrow>
    (slice list \<times> nat) result" where
  "galMulSlicesAvx2Xor m ins outs start stop =
     (let n = wholeBlocks 64 (stop - start) in
      if 1 \<le> length ins \<and> length ins \<le> 10 \<and> 1 \<le> length outs \<and> length outs \<le> 10 then
        bind_result (if length outs \<le> 3 then mulAvxTwo_64 True m ins outs start n
                     else mulAvxTwo True m ins outs start n) (\<lambda>outs. Inr (outs, n))
      else Inl Panic)"

subsection \<open>The tables hold the products\<close>

lemma length_copyAt [simp]:
  "at + length src \<le> length buf \<Longrightarrow> length (copyAt at src buf) = length buf"
  by (simp add: copyAt_def)

lemma nth_copyAt:
  "at + length src \<le> length buf \<Longrightarrow> q < length buf \<Longrightarrow>
    copyAt at src buf ! q = (if at \<le> q \<and> q < at + length src then src ! (q - at) else buf ! q)"
  by (auto simp: copyAt_def nth_append)

lemma length_tableRow [shape_simps]:
  "length (mulTableLow ! unat (c :: byte)) = 16" "length (mulTableHigh ! unat c) = 16"
  using table_rows_nth [OF mulTableLow_rows, of "unat c"]
    table_rows_nth [OF mulTableHigh_rows, of "unat c"]
  by (simp_all add: table_row_def shape_simps unat_byte_less)

lemma nth_avx2Block:
  assumes "at + 64 \<le> length buf"
  shows "t < 64 \<Longrightarrow> avx2Block at idx buf ! (at + t) =
      (if t < 32 then mulTableLow else mulTableHigh) ! unat idx ! (t mod 16)"
    and "q < length buf \<Longrightarrow> q < at \<or> at + 64 \<le> q \<Longrightarrow> avx2Block at idx buf ! q = buf ! q"
proof -
  assume "t < 64"
  define k where "k = t div 16"
  define r where "r = t mod 16"
  have t: "t = 16 * k + r" "t mod 16 = r" "r < 16"
    by (simp_all add: k_def r_def)
  have "k < 4"
    using \<open>t < 64\<close> by (simp add: k_def)
  then consider "k = 0" | "k = 1" | "k = 2" | "k = 3"
    by linarith
  then show "avx2Block at idx buf ! (at + t) =
      (if t < 32 then mulTableLow else mulTableHigh) ! unat idx ! (t mod 16)"
    using assms t(3) unfolding t(2) unfolding t(1)
    by cases (simp_all add: avx2Block_def Let_def nth_copyAt length_tableRow)
next
  assume "q < length buf" and "q < at \<or> at + 64 \<le> q"
  then show "avx2Block at idx buf ! q = buf ! q"
    using assms by (auto simp: avx2Block_def Let_def nth_copyAt length_tableRow)
qed

lemma length_avx2Block:
  "at + 64 \<le> length buf \<Longrightarrow> length (avx2Block at idx buf) = length buf"
  by (simp add: avx2Block_def Let_def length_tableRow)

lemma block_index_less:
  "i < outputs \<Longrightarrow> j < inputs \<Longrightarrow> j * outputs + i < inputs * (outputs :: nat)"
  by (metis add.commute mult_Suc add_less_cancel_left less_le_trans mult_le_mono1 Suc_leI
      add_le_mono le_refl nat_add_left_cancel_less)

lemma block_fits:
  fixes i j outputs inputs :: nat
  assumes "i < outputs" and "j < inputs" and "64 * (inputs * outputs) \<le> n"
  shows "(j * outputs + i) * 64 + 64 \<le> n"
proof -
  have "Suc (j * outputs + i) * 64 \<le> (inputs * outputs) * 64"
    using block_index_less [OF assms(1,2)] by (intro mult_le_mono1) simp
  then show ?thesis
    using assms(3) by simp
qed

lemma block_index_inj:
  "i < outputs \<Longrightarrow> i' < outputs \<Longrightarrow> j * outputs + i = j' * outputs + i' \<Longrightarrow>
    i = i' \<and> j = (j' :: nat)"
  by (metis div_mult_self3 add.commute div_less less_nat_zero_code mod_less mod_mult_self1
      add_0)

text \<open>The table of coefficient \<open>idx\<close> is block \<open>k\<close> of the memory.\<close>

definition blockHolds :: "byte list \<Rightarrow> nat \<Rightarrow> byte \<Rightarrow> bool" where
  "blockHolds buf k idx \<longleftrightarrow> (\<forall>t<64. buf ! (64 * k + t) =
     (if t < 32 then mulTableLow else mulTableHigh) ! unat idx ! (t mod 16))"

lemma blockHolds_write:
  assumes "k * 64 + 64 \<le> length buf"
  shows "blockHolds (avx2Block (k * 64) c buf) k c"
  using nth_avx2Block(1) [OF assms] by (auto simp: blockHolds_def mult.commute)

lemma blockHolds_other:
  assumes "k * 64 + 64 \<le> length buf" and "k' * 64 + 64 \<le> length buf" and "k' \<noteq> k"
    and "blockHolds buf k' c'"
  shows "blockHolds (avx2Block (k * 64) c buf) k' c'"
proof -
  have "64 * k' + t < k * 64 \<or> k * 64 + 64 \<le> 64 * k' + t" if "t < 64" for t
    using that assms(3) by presburger
  then show ?thesis
    using nth_avx2Block(2) [OF assms(1)] assms(2,4) by (auto simp: blockHolds_def)
qed

lemma gen_blocks:
  assumes "64 * (inputs * outputs) \<le> length buf" and "set ps \<subseteq> {..<outputs} \<times> {..<inputs}"
  shows "length (foldl (\<lambda>buf (i, j). avx2Block ((j * outputs + i) * 64) (C i j) buf) buf ps) =
      length buf \<and>
    (\<forall>(i, j)\<in>set ps. blockHolds
      (foldl (\<lambda>buf (i, j). avx2Block ((j * outputs + i) * 64) (C i j) buf) buf ps)
      (j * outputs + i) (C i j))"
  using assms(2)
proof (induction ps rule: rev_induct)
  case (snoc p ps)
  obtain i j where p: "p = (i, j)"
    by force
  let ?w = "\<lambda>buf (i, j). avx2Block ((j * outputs + i) * 64) (C i j) buf"
  let ?buf = "foldl ?w buf ps" and ?k = "j * outputs + i"
  have len: "length ?buf = length buf"
    and IH: "\<And>i j. (i, j) \<in> set ps \<Longrightarrow> blockHolds ?buf (j * outputs + i) (C i j)"
    using snoc by auto
  have ij: "i < outputs" "j < inputs"
    using snoc.prems p by auto
  then have fits: "?k * 64 + 64 \<le> length ?buf"
    using block_fits [OF ij assms(1)] len by simp
  have "blockHolds (avx2Block (?k * 64) (C i j) ?buf) ?k (C i j)"
    by (rule blockHolds_write [OF fits])
  moreover have "blockHolds (avx2Block (?k * 64) (C i j) ?buf) (j' * outputs + i') (C i' j')"
    if "(i', j') \<in> set ps" "(i', j') \<noteq> (i, j)" for i' j'
  proof (rule blockHolds_other [OF fits])
    have ij': "i' < outputs" "j' < inputs"
      using that(1) snoc.prems by auto
    then show "j' * outputs + i' \<noteq> ?k"
      using block_index_inj ij that(2) by blast
    show "(j' * outputs + i') * 64 + 64 \<le> length ?buf"
      using block_fits [OF ij' assms(1)] len by simp
  qed (rule IH [OF that(1)])
  ultimately show ?case
    using p len length_avx2Block [OF fits] by auto
qed simp

lemma genAvx2Matrix_Inr:
  assumes "outputs \<le> length M" and "\<And>i. i < outputs \<Longrightarrow> inIdx + inputs \<le> length (M ! i)"
    and "0 < inputs" and "0 < outputs"
  obtains buf where
    "genAvx2Matrix True M inputs inIdx outputs dst = Inr (Slice buf (64 * (inputs * outputs)))"
    "64 * (inputs * outputs) \<le> length buf"
    "\<And>i j. i < outputs \<Longrightarrow> j < inputs \<Longrightarrow>
      blockHolds buf (j * outputs + i) (M ! i ! (inIdx + j))"
    "length buf = max (sliceCap dst) (64 * (inputs * outputs))"
proof -
  define want where "want = 64 * (inputs * outputs)"
  have want: "inputs * outputs * 32 * 2 = want" "0 < want"
    using assms(3,4) by (simp_all add: want_def)
  define ps where "ps = List.product [0..<outputs] [0..<inputs]"
  define fill where "fill = (\<lambda>buf. foldl (\<lambda>buf (i, j).
      avx2Block ((j * outputs + i) * 64) (M ! i ! (inIdx + j)) buf) buf ps)"
  have "\<exists>b. (if sliceCap dst < want then Inr (makeSlice want) else reslice dst 0 want) =
      Inr (Slice b want) \<and> length b = max (sliceCap dst) want"
    using want(2) by (cases dst) (auto simp: makeSlice_def reslice_def)
  then obtain b where b: "(if sliceCap dst < want then Inr (makeSlice want)
      else reslice dst 0 want) = Inr (Slice b want)" and len: "length b = max (sliceCap dst) want"
    by blast
  have rows: "\<not> list_ex (\<lambda>row. length row < inIdx + inputs) (take outputs M)"
    using assms(1,2) by (auto simp: list_ex_iff in_set_conv_nth leD)
  have ps: "set ps = {..<outputs} \<times> {..<inputs}"
    unfolding ps_def by (simp add: atLeast0LessThan)
  have fill: "length (fill b) = length b"
      "\<forall>(i, j)\<in>set ps. blockHolds (fill b) (j * outputs + i) (M ! i ! (inIdx + j))"
    using gen_blocks [of inputs outputs b ps "\<lambda>i j. M ! i ! (inIdx + j)"] len ps
    unfolding fill_def want_def by simp_all
  have gen: "genAvx2Matrix True M inputs inIdx outputs dst = Inr (Slice (fill b) want)"
    unfolding genAvx2Matrix_def Let_def want(1) b
    using assms(1) rows by (simp add: fill_def ps_def)
  show ?thesis
  proof (rule that [of "fill b"])
    show "genAvx2Matrix True M inputs inIdx outputs dst =
        Inr (Slice (fill b) (64 * (inputs * outputs)))"
      using gen unfolding want_def .
    show "64 * (inputs * outputs) \<le> length (fill b)"
      "length (fill b) = max (sliceCap dst) (64 * (inputs * outputs))"
      using fill(1) len unfolding want_def by simp_all
    show "blockHolds (fill b) (j * outputs + i) (M ! i ! (inIdx + j))"
      if "i < outputs" "j < inputs" for i j
      using fill(2) that unfolding ps by blast
  qed
qed

subsection \<open>The routines multiply\<close>

lemma blockHolds_nth:
  assumes "blockHolds m k c" and "l < 2" and "r < 16"
  shows "m ! (64 * k + 16 * l + r) = mulTableLow ! unat c ! r"
    and "m ! (64 * k + 32 + 16 * l + r) = mulTableHigh ! unat c ! r"
proof -
  have t: "16 * l + r < 32" and "(16 * l + r) mod 16 = r"
    using assms(2,3) by simp_all
  moreover have "(32 + (16 * l + r)) mod 16 = (16 * l + r) mod 16"
    by (simp add: mod_add_eq [of 32 16, symmetric] del: mod_add_eq)
  moreover have "m ! (64 * k + s) =
      (if s < 32 then mulTableLow else mulTableHigh) ! unat c ! (s mod 16)" if "s < 64" for s
    using assms(1) that unfolding blockHolds_def by blast
  note this [of "16 * l + r"] this [of "32 + (16 * l + r)"]
  ultimately show "m ! (64 * k + 16 * l + r) = mulTableLow ! unat c ! r"
    "m ! (64 * k + 32 + 16 * l + r) = mulTableHigh ! unat c ! r"
    by (simp_all add: add.assoc)
qed

lemma avx2Lookup_holds:
  assumes "blockHolds m k c"
  shows "avx2Lookup m k p x = galMultiply c x"
proof -
  have "p mod 32 div 16 < 2"
    by (simp add: less_mult_imp_div_less)
  note nth = blockHolds_nth [OF assms this]
  show ?thesis
    unfolding avx2Lookup_def Let_def
    unfolding nth(1) [OF low_nibble_less [of x]] nth(2) [OF high_nibble_less [of x]]
    using nibbles_galMultiply [of c x] by (simp only: galMulNibbles_def Let_def)
qed

lemma wholeBlocks_wholeBlocks:
  "w * k = v \<Longrightarrow> 0 < w \<Longrightarrow> wholeBlocks w (wholeBlocks v n) = wholeBlocks v n"
  unfolding wholeBlocks_def by (metis div_mult_self_is_m mult.assoc mult.commute)

lemma avx2Run_Inr:
  assumes "w dvd 64" "0 < w" and n: "n = wholeBlocks 64 len"
    and ins: "\<And>s. s \<in> set ins \<Longrightarrow> start + len \<le> sliceCap s"
    and outs: "\<And>s. s \<in> set outs \<Longrightarrow> start + len \<le> sliceCap s"
    and m: "64 * (length ins * length outs) \<le> length m"
    and tables: "\<And>i j. i < length outs \<Longrightarrow> j < length ins \<Longrightarrow>
      blockHolds m (j * length outs + i) (C i j)"
  shows "avx2Run w addTo m ins outs start n = Inr (updMem outs (\<lambda>i q v.
    if start \<le> q \<and> q < start + n then
      accRow (if addTo then v else 0) 0 (length ins) (C i) (\<lambda>j. backing (ins ! j) ! q)
    else v))"
proof -
  have w: "wholeBlocks w n = n"
  proof -
    obtain k where "w * k = 64"
      using assms(1) by (metis dvd_def)
    then show ?thesis
      unfolding n using assms(2) by (rule wholeBlocks_wholeBlocks)
  qed
  have "n \<le> len"
    unfolding n by (rule wholeBlocks_le)
  have fits: "start + n \<le> sliceCap s" if "s \<in> set ins \<union> set outs" for s
    using that ins [of s] outs [of s] \<open>n \<le> len\<close> by auto
  show ?thesis
  proof (cases "n = 0")
    case True
    have "updMem outs (\<lambda>i q v. if start \<le> q \<and> q < start + n then
        accRow (if addTo then v else 0) 0 (length ins) (C i) (\<lambda>j. backing (ins ! j) ! q)
        else v) = updMem outs (\<lambda>i q v. v)"
      using True by (intro updMem_cong) auto
    moreover have "avx2Run w addTo m ins outs start n = Inr outs"
      unfolding avx2Run_def Let_def w using True by simp
    ultimately show ?thesis
      by (simp only: updMem_id)
  next
    case False
    have "avx2Run w addTo m ins outs start n = Inr (updMem outs (\<lambda>i q v.
        if start \<le> q \<and> q < start + n then
          foldl (\<lambda>v j. v XOR avx2Lookup m (j * length outs + i) (q - start) (backing (ins ! j) ! q))
            (if addTo then v else 0) [0..<length ins]
        else v))"
    proof -
      have "\<not> list_ex (\<lambda>s. sliceCap s < start + n) ins"
        "\<not> list_ex (\<lambda>s. sliceCap s < start + n) outs"
        using fits by (force simp: list_ex_iff)+
      then show ?thesis
        unfolding avx2Run_def Let_def w using False m by simp
    qed
    also have "\<dots> = Inr (updMem outs (\<lambda>i q v.
        if start \<le> q \<and> q < start + n then
          accRow (if addTo then v else 0) 0 (length ins) (C i) (\<lambda>j. backing (ins ! j) ! q)
        else v))"
      unfolding accRow_def
      by (intro arg_cong [where f = Inr] updMem_cong if_cong refl foldl_cong)
        (simp add: avx2Lookup_holds [OF tables])
    finally show ?thesis .
  qed
qed

lemma galMulSlicesAvx2_Inr:
  assumes "1 \<le> length ins" "length ins \<le> 10" "1 \<le> length outs" "length outs \<le> 10"
    and "start \<le> stop"
    and "\<And>s. s \<in> set ins \<Longrightarrow> stop \<le> sliceCap s"
    and "\<And>s. s \<in> set outs \<Longrightarrow> stop \<le> sliceCap s"
    and "64 * (length ins * length outs) \<le> length m"
    and "\<And>i j. i < length outs \<Longrightarrow> j < length ins \<Longrightarrow>
      blockHolds m (j * length outs + i) (C i j)"
  defines "n \<equiv> wholeBlocks 64 (stop - start)"
  shows "(if addTo then galMulSlicesAvx2Xor else galMulSlicesAvx2) m ins outs start stop =
    Inr (updMem outs (\<lambda>i q v.
      if start \<le> q \<and> q < start + n then
        accRow (if addTo then v else 0) 0 (length ins) (C i) (\<lambda>j. backing (ins ! j) ! q)
      else v), n)"
proof -
  note run = avx2Run_Inr [of _ n "stop - start" ins start outs m C addTo, OF _ _ n_def [THEN meta_eq_to_obj_eq]]
  have "avx2Run 32 addTo m ins outs start n = avx2Run 64 addTo m ins outs start n"
    using assms(5-9) run [of 32] run [of 64] by (simp add: dvd_def)
  then show ?thesis
    using assms(1-9) run [of 64]
    by (cases addTo) (simp_all add: galMulSlicesAvx2_def galMulSlicesAvx2Xor_def mulAvxTwo_def
        mulAvxTwo_64_def Let_def n_def [symmetric])
qed

end
