(* ===== verification/Avx512.thy ===== *)
theory Avx512
  imports Avx2
begin

text \<open>
  \<open>reedsolomon/galoisAvx512_amd64.go\<close>: the routines that treat 8 inputs and 1, 2 or 4 outputs at
  a time.  \<open>setupMatrix81\<close>, \<open>setupMatrix82\<close> and \<open>setupMatrix84\<close> are one text with three values of
  the constant \<open>dimOut\<close>, and so are the three \<open>galMulAVX512Parallel8x\<close>; here \<open>dimOut\<close> is an
  argument.  The assembler routine is modelled by the instructions of
  \<open>galoisAvx512_amd64.s\<close>: per block of 64 bytes, two shuffles and a ternary xor for each input.
\<close>

definition dimIn :: nat where
  "dimIn = 8"

subsection \<open>The table of coefficients\<close>

text \<open>The body of the double loop of \<open>setupMatrix8x\<close>; the state is \<open>offset\<close> and the table.\<close>

definition setupEntry :: "nat \<Rightarrow> matrix \<Rightarrow> nat \<Rightarrow> nat \<times> byte list \<Rightarrow> nat \<Rightarrow> (nat \<times> byte list) result" where
  "setupEntry dimOut matrixRows c st iRow =
     (if length matrixRows \<le> iRow then Inl Panic
      else
        let offset = fst st;
            tab = (if c < length (matrixRows ! iRow) then
                let coeff = matrixRows ! iRow ! c in
                copyAt (offset * 32 + 16) (mulTableHigh ! unat coeff)
                  (copyAt (offset * 32) (mulTableLow ! unat coeff) (snd st))
              else copyAt (offset * 32) (replicate 32 0) (snd st));
            offset = offset + dimIn;
            offset = (if dimIn * dimOut \<le> offset then offset - (dimIn * dimOut - 1) else offset)
        in Inr (offset, tab))"

definition setupMatrix :: "nat \<Rightarrow> matrix \<Rightarrow> nat \<Rightarrow> nat \<Rightarrow> byte list \<Rightarrow> byte list result" where
  "setupMatrix dimOut matrixRows inputOffset outputOffset tab =
     bind_result (fold_result (\<lambda>st c.
         fold_result (setupEntry dimOut matrixRows c) st [outputOffset..<outputOffset + dimOut])
       (0, tab) [inputOffset..<inputOffset + dimIn]) (\<lambda>st. Inr (snd st))"

subsection \<open>The routines\<close>

definition avx512Lookup :: "byte list \<Rightarrow> nat \<Rightarrow> byte \<Rightarrow> byte" where
  "avx512Lookup m k x =
     m ! (32 * k + unat (x AND 15)) XOR m ! (32 * k + 16 + unat (drop_bit 4 x))"

definition galMulAVX512LastInput ::
    "nat \<Rightarrow> nat \<Rightarrow> nat \<Rightarrow> nat \<Rightarrow> matrix \<Rightarrow> nat \<Rightarrow> nat \<Rightarrow> slice list \<Rightarrow> slice list \<Rightarrow> slice list result" where
  "galMulAVX512LastInput inputOffset inputEnd outputOffset outputEnd matrixRows fin stop out ins =
     fold_result (\<lambda>out (c, iRow).
       if length matrixRows \<le> iRow then Inl Panic
       else if c < length (matrixRows ! iRow) then
         let mt = mulTable ! unat (matrixRows ! iRow ! c) in
         if fin < stop \<and> (sliceLen (ins ! c) < stop \<or> sliceLen (out ! iRow) < stop) then Inl Panic
         else Inr (updMem out (\<lambda>i q v.
           if i = iRow \<and> fin \<le> q \<and> q < stop then
             (if c = 0 then mt ! unat (backing (ins ! c) ! q)
              else v XOR mt ! unat (backing (ins ! c) ! q))
           else v))
       else Inr out)
     out (List.product [inputOffset..<inputEnd] [outputOffset..<outputEnd])"

definition galMulAVX512Parallel ::
    "nat \<Rightarrow> slice list \<Rightarrow> slice list \<Rightarrow> matrix \<Rightarrow> nat \<Rightarrow> nat \<Rightarrow> nat \<Rightarrow> nat \<Rightarrow> byte list \<Rightarrow>
      slice list result" where
  "galMulAVX512Parallel dimOut ins out matrixRows inputOffset outputOffset start stop tab =
     (if stop \<le> start then Inr out
      else
        let inputEnd = min (inputOffset + dimIn) (length ins);
            outputEnd = min (outputOffset + dimOut) (length out);
            blocks = wholeBlocks 64 (stop - start);
            addTo = (inputOffset \<noteq> 0);
            fin = start + blocks in
        if inputEnd < inputOffset \<or> outputEnd < outputOffset \<or>
           list_ex (\<lambda>c. sliceCap (ins ! c) < stop) [inputOffset..<inputEnd] \<or>
           list_ex (\<lambda>i. sliceCap (out ! i) < stop) [outputOffset..<outputEnd] \<or>
           (0 < blocks \<and> (inputEnd = inputOffset \<or> outputEnd < outputOffset + dimOut))
        then Inl Panic
        else
          let out = updMem out (\<lambda>i q v.
            if outputOffset \<le> i \<and> i < outputEnd \<and> start \<le> q \<and> q < fin then
              foldl (\<lambda>v j. v XOR
                  avx512Lookup tab ((i - outputOffset) * 8 + j) (backing (ins ! (inputOffset + j)) ! q))
                (if addTo then v else 0) [0..<inputEnd - inputOffset]
            else v) in
          if fin < stop then
            galMulAVX512LastInput inputOffset inputEnd outputOffset outputEnd matrixRows fin stop
              out ins
          else Inr out)"

text \<open>One round of the inner loops of \<open>codeSomeShardsAvx512\<close>: set the table up and run.\<close>

definition avx512Step ::
    "nat \<Rightarrow> matrix \<Rightarrow> slice list \<Rightarrow> slice list \<Rightarrow> nat \<Rightarrow> nat \<Rightarrow> nat \<Rightarrow> nat \<Rightarrow> slice list result" where
  "avx512Step dimOut matrixRows ins out inputRow outputRow start stop =
     bind_result (setupMatrix dimOut matrixRows inputRow outputRow
         (replicate (32 * dimIn * dimOut) 0)) (\<lambda>tab.
       galMulAVX512Parallel dimOut ins out matrixRows inputRow outputRow start stop tab)"

subsection \<open>The table holds the products\<close>

text \<open>\<open>entryHolds tab k co\<close>: entry \<open>k\<close> of the table is the pair of half rows of \<open>co\<close>, or zeros.\<close>

definition entryHolds :: "byte list \<Rightarrow> nat \<Rightarrow> byte option \<Rightarrow> bool" where
  "entryHolds tab k co \<longleftrightarrow> (\<forall>t<32. tab ! (32 * k + t) = (case co of
     None \<Rightarrow> 0
   | Some coeff \<Rightarrow> if t < 16 then mulTableLow ! unat coeff ! t
                  else mulTableHigh ! unat coeff ! (t - 16)))"

definition coeffOf :: "matrix \<Rightarrow> nat \<Rightarrow> nat \<Rightarrow> byte option" where
  "coeffOf M c iRow = (if c < length (M ! iRow) then Some (M ! iRow ! c) else None)"

definition nextOffset :: "nat \<Rightarrow> nat \<Rightarrow> nat" where
  "nextOffset dimOut k =
     (if 8 * dimOut \<le> k + 8 then k + 8 - (8 * dimOut - 1) else k + 8)"

lemma setupEntry_Inr:
  assumes "iRow < length M" and "32 * k + 32 \<le> length tab"
  obtains tab' where "setupEntry dimOut M c (k, tab) iRow = Inr (nextOffset dimOut k, tab')"
    and "length tab' = length tab" and "entryHolds tab' k (coeffOf M c iRow)"
    and "\<And>k' co. k' \<noteq> k \<Longrightarrow> 32 * k' + 32 \<le> length tab \<Longrightarrow> entryHolds tab k' co \<Longrightarrow>
      entryHolds tab' k' co"
proof -
  define tab' where "tab' = (if c < length (M ! iRow) then
      copyAt (k * 32 + 16) (mulTableHigh ! unat (M ! iRow ! c))
        (copyAt (k * 32) (mulTableLow ! unat (M ! iRow ! c)) tab)
      else copyAt (k * 32) (replicate 32 0) tab)"
  have nth: "tab' ! q = (if k * 32 \<le> q \<and> q < k * 32 + 32 then
      (case coeffOf M c iRow of None \<Rightarrow> 0
       | Some coeff \<Rightarrow> if q - k * 32 < 16 then mulTableLow ! unat coeff ! (q - k * 32)
                      else mulTableHigh ! unat coeff ! (q - k * 32 - 16)) else tab ! q)"
    if "q < length tab" for q
    using assms(2) that
    by (auto simp: tab'_def coeffOf_def nth_copyAt length_tableRow)
  show ?thesis
  proof (rule that [of tab'])
    show "setupEntry dimOut M c (k, tab) iRow = Inr (nextOffset dimOut k, tab')"
      using assms(1) by (simp add: setupEntry_def Let_def tab'_def dimIn_def nextOffset_def)
    show "length tab' = length tab"
      using assms(2) by (simp add: tab'_def length_tableRow)
    show "entryHolds tab' k (coeffOf M c iRow)"
      using assms(2) nth unfolding entryHolds_def mult.commute [of 32]
      by (simp split: option.split)
    show "entryHolds tab' k' co"
      if "k' \<noteq> k" "32 * k' + 32 \<le> length tab" "entryHolds tab k' co" for k' co
    proof -
      have "tab' ! (32 * k' + t) = tab ! (32 * k' + t)" if "t < 32" for t
      proof -
        have "Suc k' \<le> k \<or> Suc k \<le> k'"
          using \<open>k' \<noteq> k\<close> by linarith
        then have no: "\<not> (k * 32 \<le> 32 * k' + t \<and> 32 * k' + t < k * 32 + 32)"
          using that by linarith
        have "32 * k' + t < length tab"
          using that \<open>32 * k' + 32 \<le> length tab\<close> by linarith
        from nth [OF this] show ?thesis
          unfolding if_not_P [OF no] .
      qed
      then show ?thesis
        using that(3) by (simp add: entryHolds_def)
    qed
  qed
qed

lemma setup_column:
  assumes rows: "oo + dimOut \<le> length M" and len: "length tab = 256 * dimOut"
    and "0 < dimOut" and j: "j < 8"
    and before: "\<And>r j'. r < dimOut \<Longrightarrow> j' < j \<Longrightarrow> entryHolds tab (r * 8 + j') (coeffOf M (io + j') (oo + r))"
  shows "case fold_result (setupEntry dimOut M (io + j)) (j, tab) [oo..<oo + dimOut] of
      Inl e \<Rightarrow> False
    | Inr st \<Rightarrow> fst st = Suc j \<and> length (snd st) = 256 * dimOut \<and>
        (\<forall>r<dimOut. \<forall>j'<Suc j. entryHolds (snd st) (r * 8 + j') (coeffOf M (io + j') (oo + r)))"
proof -
  let ?I = "\<lambda>iRow st. fst st = (if iRow < oo + dimOut then j + 8 * (iRow - oo) else Suc j) \<and>
    length (snd st) = 256 * dimOut \<and>
    (\<forall>r<dimOut. \<forall>j'<j. entryHolds (snd st) (r * 8 + j') (coeffOf M (io + j') (oo + r))) \<and>
    (\<forall>r<iRow - oo. entryHolds (snd st) (r * 8 + j) (coeffOf M (io + j) (oo + r)))"
  have "case fold_result (setupEntry dimOut M (io + j)) (j, tab) [oo..<oo + dimOut] of
      Inl e \<Rightarrow> False | Inr st \<Rightarrow> ?I (oo + dimOut) st"
  proof (rule fold_result_upt_rule [where I = "?I" and E = "\<lambda>_. False"])
    fix iRow st
    assume iRow: "oo \<le> iRow" "iRow < oo + dimOut" and I: "?I iRow st"
    let ?r = "iRow - oo"
    have k: "fst st = ?r * 8 + j" and r: "?r < dimOut" "oo + ?r = iRow"
      using iRow I by auto
    have fits: "32 * (r' * 8 + j') + 32 \<le> length (snd st)" if "r' < dimOut" "j' < 8" for r' j'
    proof -
      have "Suc r' * 8 \<le> dimOut * 8"
        using that(1) by (intro mult_le_mono1) simp
      then show ?thesis
        using that(2) I by simp
    qed
    have "iRow < length M"
      using iRow rows by simp
    moreover have "32 * fst st + 32 \<le> length (snd st)"
      using fits [OF r(1) j] k by simp
    ultimately obtain tab' where
      step: "setupEntry dimOut M (io + j) (fst st, snd st) iRow =
        Inr (nextOffset dimOut (fst st), tab')"
      and len': "length tab' = length (snd st)"
      and new: "entryHolds tab' (fst st) (coeffOf M (io + j) iRow)"
      and old: "\<And>k' co. k' \<noteq> fst st \<Longrightarrow> 32 * k' + 32 \<le> length (snd st) \<Longrightarrow>
        entryHolds (snd st) k' co \<Longrightarrow> entryHolds tab' k' co"
      by (rule setupEntry_Inr [of iRow M "fst st" "snd st" dimOut "io + j"]) blast
    have off: "nextOffset dimOut (fst st) =
        (if Suc iRow < oo + dimOut then j + 8 * (Suc iRow - oo) else Suc j)"
      using iRow j k unfolding nextOffset_def by (auto simp: not_less)
    have done1: "entryHolds tab' (r * 8 + j') (coeffOf M (io + j') (oo + r))"
      if "r < dimOut" "j' < j" for r j'
    proof (rule old)
      show "r * 8 + j' \<noteq> fst st"
        using that(2) j k block_index_inj [of j' 8 j r ?r] by auto
      show "32 * (r * 8 + j') + 32 \<le> length (snd st)"
        by (rule fits) (use that j in simp_all)
    qed (use I that in simp)
    have done2: "entryHolds tab' (r * 8 + j) (coeffOf M (io + j) (oo + r))"
      if "r < Suc iRow - oo" for r
    proof (cases "r = ?r")
      case True
      then show ?thesis
        using new k r(2) by simp
    next
      case False
      then have "r < ?r"
        using that iRow by linarith
      show ?thesis
      proof (rule old)
        show "r * 8 + j \<noteq> fst st"
          using False k by simp
        show "32 * (r * 8 + j) + 32 \<le> length (snd st)"
          by (rule fits) (use \<open>r < ?r\<close> \<open>?r < dimOut\<close> j in simp_all)
      qed (use I \<open>r < ?r\<close> in simp)
    qed
    have "setupEntry dimOut M (io + j) st iRow = Inr (nextOffset dimOut (fst st), tab')"
      using step by simp
    then show "case setupEntry dimOut M (io + j) st iRow of
        Inl e \<Rightarrow> False | Inr st \<Rightarrow> ?I (Suc iRow) st"
      using off done1 done2 len' I by simp
  qed (use len before \<open>0 < dimOut\<close> in auto)
  then show ?thesis
    by (cases "fold_result (setupEntry dimOut M (io + j)) (j, tab) [oo..<oo + dimOut]")
      (simp_all add: less_Suc_eq)
qed

lemma setupMatrix_Inr:
  assumes rows: "oo + dimOut \<le> length M" and len: "length tab = 256 * dimOut" and "0 < dimOut"
  obtains tab' where "setupMatrix dimOut M io oo tab = Inr tab'"
    and "\<And>r j. r < dimOut \<Longrightarrow> j < 8 \<Longrightarrow> entryHolds tab' (r * 8 + j) (coeffOf M (io + j) (oo + r))"
proof -
  let ?I = "\<lambda>c st. fst st = c - io \<and> length (snd st) = 256 * dimOut \<and>
    (\<forall>r<dimOut. \<forall>j<c - io. entryHolds (snd st) (r * 8 + j) (coeffOf M (io + j) (oo + r)))"
  have "case fold_result (\<lambda>st c. fold_result (setupEntry dimOut M c) st [oo..<oo + dimOut])
      (0, tab) [io..<io + 8] of Inl e \<Rightarrow> False | Inr st \<Rightarrow> ?I (io + 8) st"
  proof (rule fold_result_upt_rule [where I = "?I" and E = "\<lambda>_. False"])
    fix c st
    assume c: "io \<le> c" "c < io + 8" and I: "?I c st"
    have j: "c - io < 8" "io + (c - io) = c" and suc: "Suc c - io = Suc (c - io)"
      and st: "(c - io, snd st) = st"
      using c I by (auto simp: prod_eq_iff)
    show "case fold_result (setupEntry dimOut M c) st [oo..<oo + dimOut] of
        Inl e \<Rightarrow> False | Inr st \<Rightarrow> ?I (Suc c) st"
      using setup_column [of oo dimOut M "snd st" "c - io" io, OF rows _ \<open>0 < dimOut\<close> j(1)] I
      unfolding suc st j(2) by blast
  qed (use len in auto)
  then show ?thesis
    using that by (force simp: setupMatrix_def dimIn_def split: sum.splits)
qed

lemma avx512Lookup_holds:
  assumes "entryHolds m k co"
  shows "avx512Lookup m k x = (case co of None \<Rightarrow> 0 | Some coeff \<Rightarrow> galMultiply coeff x)"
proof -
  have nth: "m ! (32 * k + t) = (case co of
     None \<Rightarrow> 0
   | Some coeff \<Rightarrow> if t < 16 then mulTableLow ! unat coeff ! t
                  else mulTableHigh ! unat coeff ! (t - 16))" if "t < 32" for t
    using assms that unfolding entryHolds_def by blast
  have low: "m ! (32 * k + unat (x AND 15)) = (case co of
      None \<Rightarrow> 0 | Some coeff \<Rightarrow> mulTableLow ! unat coeff ! unat (x AND 15))"
    using nth [of "unat (x AND 15)"] low_nibble_less [of x] by (cases co) simp_all
  have high: "m ! (32 * k + 16 + unat (drop_bit 4 x)) = (case co of
      None \<Rightarrow> 0 | Some coeff \<Rightarrow> mulTableHigh ! unat coeff ! unat (drop_bit 4 x))"
    using nth [of "16 + unat (drop_bit 4 x)"] high_nibble_less [of x]
    by (cases co) (simp_all add: add.assoc)
  show ?thesis
    unfolding avx512Lookup_def low high
    using nibbles_galMultiply [of _ x] by (cases co) (simp_all add: galMulNibbles_def Let_def)
qed

subsection \<open>The routines multiply\<close>

lemma galMulAVX512LastInput_Inr:
  assumes "outputEnd \<le> length M" and "\<And>i. i < outputEnd \<Longrightarrow> inputEnd \<le> length (M ! i)"
    and "inputOffset < inputEnd"
    and "\<And>c. inputOffset \<le> c \<Longrightarrow> c < inputEnd \<Longrightarrow> stop \<le> sliceLen (ins ! c)"
    and "\<And>i. outputOffset \<le> i \<Longrightarrow> i < outputEnd \<Longrightarrow> stop \<le> sliceLen (out ! i)"
    and "outputEnd \<le> length out"
  shows "galMulAVX512LastInput inputOffset inputEnd outputOffset outputEnd M fin stop out ins =
    Inr (updMem out (\<lambda>i q v.
      if outputOffset \<le> i \<and> i < outputEnd \<and> fin \<le> q \<and> q < stop then
        accRow (if inputOffset = 0 then 0 else v) inputOffset inputEnd (\<lambda>c. M ! i ! c)
          (\<lambda>c. backing (ins ! c) ! q)
      else v))"
proof -
  let ?mul = "\<lambda>i q c. galMultiply (M ! i ! c) (backing (ins ! c) ! q)"
  let ?g = "\<lambda>(c, iRow) i q v. if iRow = i then
      (if fin \<le> q \<and> q < stop then (if c = 0 then ?mul i q c else v XOR ?mul i q c) else v) else v"
  have "galMulAVX512LastInput inputOffset inputEnd outputOffset outputEnd M fin stop out ins =
      Inr (updMem out (\<lambda>i q v. foldl (\<lambda>v x. ?g x i q v) v
        (List.product [inputOffset..<inputEnd] [outputOffset..<outputEnd])))"
    unfolding galMulAVX512LastInput_def
  proof (rule fold_result_updMem [where outs0 = out and g = ?g])
    fix x out'
    assume x: "x \<in> set (List.product [inputOffset..<inputEnd] [outputOffset..<outputEnd])"
      and shape: "sameShape out out'"
    obtain c iRow where x_eq: "x = (c, iRow)"
      by force
    have bounds: "inputOffset \<le> c" "c < inputEnd" "outputOffset \<le> iRow" "iRow < outputEnd"
      using x x_eq by auto
    have lens: "stop \<le> sliceLen (ins ! c)" "stop \<le> sliceLen (out' ! iRow)"
      using bounds assms(4-6) shape by (auto simp: sameShape_def)
    have c: "c < length (M ! iRow)" and iRow: "iRow < length M"
      using bounds assms(1,2) by (auto intro: less_le_trans)
    have "updMem out' (\<lambda>i q v. if i = iRow \<and> fin \<le> q \<and> q < stop then
          (if c = 0 then mulTable ! unat (M ! iRow ! c) ! unat (backing (ins ! c) ! q)
           else v XOR mulTable ! unat (M ! iRow ! c) ! unat (backing (ins ! c) ! q)) else v) =
        updMem out' (?g x)"
      by (rule updMem_cong) (simp add: x_eq mulTable_galMultiply)
    then show "(case x of (c, iRow) \<Rightarrow>
        if length M \<le> iRow then Inl Panic
        else if c < length (M ! iRow) then
          let mt = mulTable ! unat (M ! iRow ! c) in
          if fin < stop \<and> (sliceLen (ins ! c) < stop \<or> sliceLen (out' ! iRow) < stop) then Inl Panic
          else Inr (updMem out' (\<lambda>i q v. if i = iRow \<and> fin \<le> q \<and> q < stop then
             (if c = 0 then mt ! unat (backing (ins ! c) ! q)
              else v XOR mt ! unat (backing (ins ! c) ! q)) else v))
        else Inr out') = Inr (updMem out' (?g x))"
      using c iRow lens by (simp add: x_eq Let_def not_le not_less)
  qed simp
  also have "\<dots> = Inr (updMem out (\<lambda>i q v.
      if outputOffset \<le> i \<and> i < outputEnd \<and> fin \<le> q \<and> q < stop then
        accRow (if inputOffset = 0 then 0 else v) inputOffset inputEnd (\<lambda>c. M ! i ! c)
          (\<lambda>c. backing (ins ! c) ! q)
      else v))"
  proof (intro arg_cong [where f = Inr] updMem_cong)
    fix i q v
    let ?h = "\<lambda>c v. if fin \<le> q \<and> q < stop then
        (if c = 0 then ?mul i q c else v XOR ?mul i q c) else v"
    have "foldl (\<lambda>v x. ?g x i q v) v
          (List.product [inputOffset..<inputEnd] [outputOffset..<outputEnd]) =
        foldl (\<lambda>v (c, r). if r = i then ?h c v else v) v
          (List.product [inputOffset..<inputEnd] [outputOffset..<outputEnd])"
      by (rule foldl_cong) auto
    also have "\<dots> = (if outputOffset \<le> i \<and> i < outputEnd then
        foldl (\<lambda>v c. ?h c v) v [inputOffset..<inputEnd] else v)"
      using foldl_product_select [of "[outputOffset..<outputEnd]" i ?h v "[inputOffset..<inputEnd]"]
      by simp
    also have "foldl (\<lambda>v c. ?h c v) v [inputOffset..<inputEnd] =
        (if fin \<le> q \<and> q < stop then accRow (if inputOffset = 0 then 0 else v) inputOffset inputEnd
          (\<lambda>c. M ! i ! c) (\<lambda>c. backing (ins ! c) ! q) else v)"
    proof (cases "fin \<le> q \<and> q < stop")
      case True
      have "[inputOffset..<inputEnd] = inputOffset # [Suc inputOffset..<inputEnd]"
        using assms(3) by (rule upt_conv_Cons)
      moreover have "foldl (\<lambda>v c. if c = 0 then ?mul i q c else v XOR ?mul i q c) w
            [Suc inputOffset..<inputEnd] =
          foldl (\<lambda>v c. v XOR ?mul i q c) w [Suc inputOffset..<inputEnd]" for w
        by (rule foldl_cong) auto
      ultimately show ?thesis
        using True by (simp add: accRow_def)
    next
      case False
      then show ?thesis
        by (simp only: if_False foldl_keep)
    qed
    finally show "foldl (\<lambda>v x. ?g x i q v) v
          (List.product [inputOffset..<inputEnd] [outputOffset..<outputEnd]) =
        (if outputOffset \<le> i \<and> i < outputEnd \<and> fin \<le> q \<and> q < stop then
          accRow (if inputOffset = 0 then 0 else v) inputOffset inputEnd (\<lambda>c. M ! i ! c)
            (\<lambda>c. backing (ins ! c) ! q) else v)"
      by simp
  qed
  finally show ?thesis .
qed

text \<open>What the assembler does with the tables is the row products over the whole blocks.\<close>

lemma avx512_blocks:
  assumes holds: "\<And>r j. r < dimOut \<Longrightarrow> j < 8 \<Longrightarrow> entryHolds tab (r * 8 + j) (coeffOf M (io + j) (oo + r))"
    and ie: "io < ie" "ie \<le> length ins" "ie \<le> io + 8" and rows: "oo + dimOut \<le> length M"
    and cols: "\<And>i. i < oo + dimOut \<Longrightarrow> length (M ! i) = length ins"
  shows "updMem out (\<lambda>i q v.
      if oo \<le> i \<and> i < oo + dimOut \<and> start \<le> q \<and> q < fin then
        foldl (\<lambda>v j. v XOR avx512Lookup tab ((i - oo) * 8 + j) (backing (ins ! (io + j)) ! q))
          (if io \<noteq> 0 then v else 0) [0..<ie - io]
      else v) =
    updMem out (\<lambda>i q v.
      if oo \<le> i \<and> i < oo + dimOut \<and> start \<le> q \<and> q < fin then
        accRow (if io = 0 then 0 else v) io ie (\<lambda>c. M ! i ! c) (\<lambda>c. backing (ins ! c) ! q)
      else v)" (is "updMem out ?asm = updMem out ?spec")
proof (rule updMem_cong)
  fix i q v
  show "?asm i q v = ?spec i q v"
  proof (cases "oo \<le> i \<and> i < oo + dimOut \<and> start \<le> q \<and> q < fin")
    case True
    have "foldl (\<lambda>v j. v XOR avx512Lookup tab ((i - oo) * 8 + j) (backing (ins ! (io + j)) ! q))
          (if io \<noteq> 0 then v else 0) [0..<ie - io] =
        foldl (\<lambda>v j. v XOR galMultiply (M ! i ! (io + j)) (backing (ins ! (io + j)) ! q))
          (if io = 0 then 0 else v) [0..<ie - io]"
    proof (rule foldl_cong)
      fix w j
      assume "j \<in> set [0..<ie - io]"
      then have j: "j < 8" "io + j < length (M ! i)"
        using ie True rows cols [of i] by auto
      have "entryHolds tab ((i - oo) * 8 + j) (coeffOf M (io + j) (oo + (i - oo)))"
        using True j by (intro holds) auto
      then have "avx512Lookup tab ((i - oo) * 8 + j) x = galMultiply (M ! i ! (io + j)) x" for x
        using avx512Lookup_holds j True by (simp add: coeffOf_def)
      then show "w XOR avx512Lookup tab ((i - oo) * 8 + j) (backing (ins ! (io + j)) ! q) =
          w XOR galMultiply (M ! i ! (io + j)) (backing (ins ! (io + j)) ! q)"
        by simp
    qed simp_all
    also have "\<dots> = accRow (if io = 0 then 0 else v) io (io + (ie - io)) (\<lambda>c. M ! i ! c)
        (\<lambda>c. backing (ins ! c) ! q)"
      by (rule accRow_shift)
    finally show ?thesis
      using True ie by simp
  next
    case False
    then show ?thesis
      by (simp only: if_False)
  qed
qed

text \<open>
  One step: the outputs \<open>oo\<close> to \<open>oo + dimOut - 1\<close> get, on the range, the products of up to 8
  inputs from \<open>io\<close> on; the first inputs replace what was there.
\<close>

lemma avx512Step_Inr:
  assumes "0 < dimOut" and io: "io < length ins"
    and rows: "oo + dimOut \<le> length M" and outs: "oo + dimOut \<le> length out"
    and cols: "\<And>i. i < oo + dimOut \<Longrightarrow> length (M ! i) = length ins"
    and ins: "\<And>s. s \<in> set ins \<Longrightarrow> stop \<le> sliceLen s \<and> sliceWf s"
    and out: "\<And>s. s \<in> set out \<Longrightarrow> stop \<le> sliceLen s \<and> sliceWf s"
    and "start \<le> stop"
  shows "avx512Step dimOut M ins out io oo start stop =
    Inr (updMem out (\<lambda>i q v.
      if oo \<le> i \<and> i < oo + dimOut \<and> start \<le> q \<and> q < stop then
        accRow (if io = 0 then 0 else v) io (min (io + 8) (length ins)) (\<lambda>c. M ! i ! c)
          (\<lambda>c. backing (ins ! c) ! q)
      else v))"
proof -
  obtain tab where tab: "setupMatrix dimOut M io oo (replicate (32 * dimIn * dimOut) 0) = Inr tab"
    and holds: "\<And>r j. r < dimOut \<Longrightarrow> j < 8 \<Longrightarrow> entryHolds tab (r * 8 + j) (coeffOf M (io + j) (oo + r))"
    by (rule setupMatrix_Inr [OF rows _ \<open>0 < dimOut\<close>]) (auto simp: dimIn_def)
  define ie where "ie = min (io + 8) (length ins)"
  define blocks where "blocks = wholeBlocks 64 (stop - start)"
  define fin where "fin = start + blocks"
  have ie: "io < ie" "ie \<le> length ins" "ie \<le> io + 8"
    using io by (auto simp: ie_def)
  have oe: "min (oo + dimOut) (length out) = oo + dimOut"
    using outs by simp
  have fin: "fin \<le> stop" "start \<le> fin"
    using wholeBlocks_le [of 64 "stop - start"] \<open>start \<le> stop\<close> by (auto simp: fin_def blocks_def)
  have insN: "stop \<le> sliceLen (ins ! c)" "stop \<le> sliceCap (ins ! c)" if "c < length ins" for c
    using ins [OF nth_mem [OF that]] by (auto simp: sliceWf_def)
  have outN: "stop \<le> sliceLen (out ! i)" "stop \<le> sliceCap (out ! i)" if "i < length out" for i
    using out [OF nth_mem [OF that]] by (auto simp: sliceWf_def)
  let ?spec = "\<lambda>lo hi i q v.
      if oo \<le> i \<and> i < oo + dimOut \<and> lo \<le> q \<and> q < hi then
        accRow (if io = 0 then 0 else v) io ie (\<lambda>c. M ! i ! c) (\<lambda>c. backing (ins ! c) ! q)
      else v"
  show ?thesis
  proof (cases "stop \<le> start")
    case True
    then have "updMem out (?spec start stop) = updMem out (\<lambda>i q v. v)"
      by (intro updMem_cong) auto
    then show ?thesis
      using True unfolding ie_def [symmetric]
      by (simp add: avx512Step_def tab galMulAVX512Parallel_def updMem_id)
  next
    case False
    have asm: "updMem out (\<lambda>i q v.
          if oo \<le> i \<and> i < oo + dimOut \<and> start \<le> q \<and> q < fin then
            foldl (\<lambda>v j. v XOR avx512Lookup tab ((i - oo) * 8 + j) (backing (ins ! (io + j)) ! q))
              (if io \<noteq> 0 then v else 0) [0..<ie - io]
          else v) = updMem out (?spec start fin)"
      by (rule avx512_blocks [OF holds ie rows cols])
    have last: "galMulAVX512LastInput io ie oo (oo + dimOut) M fin stop
        (updMem out (?spec start fin)) ins =
        Inr (updMem (updMem out (?spec start fin)) (?spec fin stop))"
      using rows outs cols ie insN outN
      by (intro galMulAVX512LastInput_Inr) auto
    have "updMem (updMem out (?spec start fin)) (?spec fin stop) = updMem out (?spec start stop)"
      unfolding updMem_updMem using fin by (intro updMem_cong) auto
    moreover have "updMem out (?spec start fin) = updMem out (?spec start stop)" if "\<not> fin < stop"
      using that fin by (intro updMem_cong) auto
    moreover have "stop \<le> sliceCap (ins ! c)" if "c < ie" for c
      using that ie by (intro insN) simp
    then have "\<not> list_ex (\<lambda>c. sliceCap (ins ! c) < stop) [io..<ie]"
      by (simp add: list_ex_iff not_less)
    moreover have "stop \<le> sliceCap (out ! i)" if "i < oo + dimOut" for i
      using that outs by (intro outN) simp
    then have "\<not> list_ex (\<lambda>i. sliceCap (out ! i) < stop) [oo..<oo + dimOut]"
      by (simp add: list_ex_iff not_less)
    ultimately show ?thesis
      using False ie last
      unfolding avx512Step_def tab bind_result_simps
      unfolding galMulAVX512Parallel_def Let_def dimIn_def oe
        ie_def [symmetric] blocks_def [symmetric] fin_def [symmetric]
      unfolding asm
      by auto
  qed
qed

end
