(* ===== verification/Builds.thy ===== *)
theory Builds
  imports Avx512
begin

text \<open>
  The build tags choose one file for each group of functions.  \<open>arch\<close> names the choices that give
  different code: without assembler, amd64 with and without the generated AVX2 code, arm64 and
  ppc64le.
\<close>

datatype arch = Noasm | Amd64 | Amd64Nogen | Arm64 | Ppc64le

fun galMulSlice :: "arch \<Rightarrow> byte \<Rightarrow> byte list \<Rightarrow> slice \<Rightarrow> options \<Rightarrow> slice result" where
  "galMulSlice Noasm = galMulSlice_noasm"
| "galMulSlice Amd64 = galMulSlice_amd64"
| "galMulSlice Amd64Nogen = galMulSlice_amd64"
| "galMulSlice Arm64 = galMulSlice_arm64"
| "galMulSlice Ppc64le = galMulSlice_ppc64le"

fun galMulSliceXor :: "arch \<Rightarrow> byte \<Rightarrow> byte list \<Rightarrow> slice \<Rightarrow> options \<Rightarrow> slice result" where
  "galMulSliceXor Noasm = galMulSliceXor_noasm"
| "galMulSliceXor Amd64 = galMulSliceXor_amd64"
| "galMulSliceXor Amd64Nogen = galMulSliceXor_amd64"
| "galMulSliceXor Arm64 = galMulSliceXor_arm64"
| "galMulSliceXor Ppc64le = galMulSliceXor_ppc64le"

fun sliceXor :: "arch \<Rightarrow> byte list \<Rightarrow> slice \<Rightarrow> options \<Rightarrow> slice result" where
  "sliceXor Noasm = sliceXor_noasm"
| "sliceXor Amd64 = sliceXor_amd64"
| "sliceXor Amd64Nogen = sliceXor_amd64"
| "sliceXor Arm64 = sliceXor_arm64"
| "sliceXor Ppc64le = sliceXor_ppc64le"

text \<open>
  The constants of \<open>galois_gen_switch_amd64.go\<close> and \<open>galois_gen_none.go\<close>; \<open>avxSize\<close> is
  \<open>n & avxSizeMask\<close>, where the mask is 0 without the generated code.
\<close>

definition avx2CodeGen :: "arch \<Rightarrow> bool" where
  "avx2CodeGen a \<longleftrightarrow> a = Amd64"

definition maxAvx2Inputs :: "arch \<Rightarrow> nat" where
  "maxAvx2Inputs a = (if avx2CodeGen a then 10 else 1)"

definition maxAvx2Outputs :: "arch \<Rightarrow> nat" where
  "maxAvx2Outputs a = (if avx2CodeGen a then 10 else 1)"

definition minAvx2Size :: "arch \<Rightarrow> nat" where
  "minAvx2Size a = (if avx2CodeGen a then 64 else 1)"

definition avxSize :: "arch \<Rightarrow> nat \<Rightarrow> nat" where
  "avxSize a n = (if avx2CodeGen a then wholeBlocks 64 n else 0)"

definition runSlicesAvx2 :: "arch \<Rightarrow> bool \<Rightarrow> byte list \<Rightarrow> slice list \<Rightarrow> slice list \<Rightarrow> nat \<Rightarrow> nat \<Rightarrow>
    (slice list \<times> nat) result" where
  "runSlicesAvx2 a addTo m ins outs start stop =
     (if avx2CodeGen a then
        (if addTo then galMulSlicesAvx2Xor else galMulSlicesAvx2) m ins outs start stop
      else Inl Panic)"

text \<open>
  Without \<open>galoisAvx512_amd64.go\<close> the two AVX512 functions panic (\<open>galois_notamd64.go\<close>).
\<close>

definition hasAvx512 :: "arch \<Rightarrow> bool" where
  "hasAvx512 a \<longleftrightarrow> a = Amd64 \<or> a = Amd64Nogen"

text \<open>
  What the options of a build start from: \<open>init\<close> of \<open>galois_noasm.go\<close> switches AVX512 off.
\<close>

definition buildOptions :: "arch \<Rightarrow> cpu \<Rightarrow> options" where
  "buildOptions a cpu =
     (if a = Noasm then defaultOptions cpu\<lparr>useAVX512 := False\<rparr> else defaultOptions cpu)"

interpretation arch: galois_kernels "galMulSlice a" "galMulSliceXor a" "sliceXor a" for a
proof (cases a)
  case Noasm
  then show "galois_kernels (galMulSlice a) (galMulSliceXor a) (sliceXor a)"
    by (simp add: noasm.galois_kernels_axioms)
next
  case Amd64
  then show "galois_kernels (galMulSlice a) (galMulSliceXor a) (sliceXor a)"
    by (simp add: amd64.galois_kernels_axioms)
next
  case Amd64Nogen
  then show "galois_kernels (galMulSlice a) (galMulSliceXor a) (sliceXor a)"
    by (simp add: amd64.galois_kernels_axioms)
next
  case Arm64
  then show "galois_kernels (galMulSlice a) (galMulSliceXor a) (sliceXor a)"
    by (simp add: arm64.galois_kernels_axioms)
next
  case Ppc64le
  then show "galois_kernels (galMulSlice a) (galMulSliceXor a) (sliceXor a)"
    by (simp add: ppc64le.galois_kernels_axioms)
qed

text \<open>
  C31. On every build the three kernels compute the same: for slices of equal length, here
  given as pairs of an input byte and an output byte followed by the spare capacity of the
  output, \<open>galMulSlice\<close> stores the product, \<open>galMulSliceXor\<close> adds it and \<open>sliceXor\<close> adds the
  input, whatever the CPU features selected, and the spare capacity is not touched.
\<close>

theorem kernels_all_builds:
  "galMulSlice a c (map fst ps) (Slice (map snd ps @ spare) (length ps)) opts =
      Inr (Slice (map (\<lambda>(x, y). galMultiply c x) ps @ spare) (length ps)) \<and>
    galMulSliceXor a c (map fst ps) (Slice (map snd ps @ spare) (length ps)) opts =
      Inr (Slice (map (\<lambda>(x, y). y XOR galMultiply c x) ps @ spare) (length ps)) \<and>
    sliceXor a (map fst ps) (Slice (map snd ps @ spare) (length ps)) opts =
      Inr (Slice (map (\<lambda>(x, y). y XOR x) ps @ spare) (length ps))"
proof -
  have over: "over f (map fst ps) (map snd ps @ spare) = map (\<lambda>(x, y). f x y) ps @ spare" for f
    unfolding over_def by (induction ps) auto
  have len: "length (map fst ps) \<le> length (map snd ps @ spare)" "length ps = length (map fst ps)"
    by simp_all
  show ?thesis
    using loopsOverD [OF arch.mul len] loopsOverD [OF arch.mul_xor len]
      loopsOverD [OF arch.xor len]
    unfolding over by blast
qed

end
