(* ===== verification/CodeShards.thy ===== *)
theory CodeShards
  imports Builds
begin

text \<open>
  The coding loops of \<open>reedsolomon/reedsolomon.go\<close> and \<open>galoisAvx512_amd64.go\<close>.  Each loop does
  nothing but call kernels, on ranges that do not depend on the data; the model first computes
  the calls a function makes, one list for each goroutine it starts (\<open>codePlan\<close>), and then runs
  them.  The lemmas show that every plan, run in any interleaving of its goroutines, leaves the
  product of the matrix and the inputs in the outputs.
\<close>

subsection \<open>Kernel calls\<close>

text \<open>
  \<open>GalMul addTo c iRow lo hi\<close> is \<open>galMulSlice\<close>, or \<open>galMulSliceXor\<close> where \<open>addTo\<close>, on
  \<open>inputs[c][lo:hi]\<close> and \<open>outputs[iRow][lo:hi]\<close> with coefficient \<open>matrixRows[iRow][c]\<close>.
  \<open>GalMulAvx2 addTo m inIdx inPer outIdx outPer lo hi\<close> is \<open>galMulSlicesAvx2\<close> (\<open>Xor\<close>) with the
  tables \<open>m\<close> on \<open>inputs[inIdx:inIdx+inPer]\<close> and \<open>outputs[outIdx:outIdx+outPer]\<close>.
  \<open>GalMulAvx512 dimOut inputRow outputRow lo hi\<close> is \<open>setupMatrix8x\<close> and \<open>galMulAVX512Parallel8x\<close>.
\<close>

datatype call =
    GalMul bool nat nat nat nat
  | GalMulAvx2 bool "byte list" nat nat nat nat nat nat
  | GalMulAvx512 nat nat nat nat nat

fun runCall :: "arch \<Rightarrow> options \<Rightarrow> matrix \<Rightarrow> slice list \<Rightarrow> slice list \<Rightarrow> call \<Rightarrow> slice list result" where
  "runCall a opts matrixRows inputs outputs (GalMul addTo c iRow lo hi) =
     (if length inputs \<le> c \<or> length outputs \<le> iRow \<or> length matrixRows \<le> iRow \<or>
         length (matrixRows ! iRow) \<le> c then Inl Panic
      else
        bind_result (reslice (inputs ! c) lo hi) (\<lambda>input.
        bind_result (onSub (outputs ! iRow) lo hi (\<lambda>out.
          (if addTo then galMulSliceXor a else galMulSlice a)
            (matrixRows ! iRow ! c) (bytesOf input) out opts)) (\<lambda>out.
        Inr (outputs[iRow := out]))))"
| "runCall a opts matrixRows inputs outputs (GalMulAvx2 addTo m inIdx inPer outIdx outPer lo hi) =
     bind_result (runSlicesAvx2 a addTo m (take inPer (drop inIdx inputs))
         (take outPer (drop outIdx outputs)) lo hi) (\<lambda>(outs, n).
       Inr (take outIdx outputs @ outs @ drop (outIdx + outPer) outputs))"
| "runCall a opts matrixRows inputs outputs (GalMulAvx512 dimOut inputRow outputRow lo hi) =
     avx512Step dimOut matrixRows inputs outputs inputRow outputRow lo hi"

subsection \<open>Loops over ranges\<close>

text \<open>
  The end of a round that starts at \<open>lo\<close>: \<open>lo + per\<close>, but not beyond \<open>stop\<close>.
\<close>

definition roundEnd :: "int \<Rightarrow> nat \<Rightarrow> nat \<Rightarrow> nat" where
  "roundEnd per stop lo = (if int stop < int lo + per then stop else nat (int lo + per))"

text \<open>
  \<open>for start < stop { ...; start = end; end += per; if end > stop { end = stop } }\<close>: the ranges of
  its rounds.  With \<open>per = 0\<close> the loop never ends.  \<open>New\<close> makes \<open>per\<close> positive; with a negative
  \<open>per\<close>, for which the code panics at \<open>inputs[c][start:end]\<close>, there are no ranges either.
\<close>

partial_function (option) rounds :: "int \<Rightarrow> nat \<Rightarrow> nat \<Rightarrow> nat \<Rightarrow> (nat \<times> nat) list option" where
  "rounds per stop lo hi =
     (if lo < stop then
        Option.bind (rounds per stop hi (roundEnd per stop hi)) (\<lambda>rs. Some ((lo, hi) # rs))
      else Some [])"

declare rounds.simps [code]

definition loopResult :: "'a option \<Rightarrow> 'a result" where
  "loopResult r = (case r of None \<Rightarrow> Inl Diverge | Some x \<Rightarrow> Inr x)"

text \<open>The pieces \<open>xs[idx:]\<close> is cut into, at most \<open>per\<close> long, as ranges of indices.\<close>

function chunks :: "nat \<Rightarrow> nat \<Rightarrow> nat \<Rightarrow> (nat \<times> nat) list" where
  "chunks per idx n =
     (if idx < n \<and> 0 < per then (idx, idx + min per (n - idx)) # chunks per (idx + min per (n - idx)) n
      else [])"
  by pat_completeness auto
termination by (relation "measure (\<lambda>(per, idx, n). n - idx)") auto

declare chunks.simps [simp del]

text \<open>The plain loops of a round: all inputs, and for each all outputs.\<close>

definition roundCalls :: "nat \<Rightarrow> nat \<Rightarrow> nat \<times> nat \<Rightarrow> call list" where
  "roundCalls inputs outputs r =
     concat (map (\<lambda>c. map (\<lambda>iRow. GalMul (c \<noteq> 0) c iRow (fst r) (snd r)) [0..<outputs])
       [0..<inputs])"

definition canAVX2C :: "arch \<Rightarrow> options \<Rightarrow> nat \<Rightarrow> nat \<Rightarrow> nat \<Rightarrow> bool" where
  "canAVX2C a opts byteCount inputs outputs \<longleftrightarrow>
     avx2CodeGen a \<and> useAVX2 opts \<and> 64 \<le> byteCount \<and> 3 \<le> inputs + outputs \<and>
     inputs \<le> maxAvx2Inputs a \<and> outputs \<le> maxAvx2Outputs a"

subsection \<open>One goroutine\<close>

text \<open>
  The tiles of \<open>codeSomeShards\<close>: inputs outside, outputs inside, every time with the tables
  generated in the same buffer.
\<close>

fun serialTiles :: "arch \<Rightarrow> matrix \<Rightarrow> nat \<Rightarrow> slice \<Rightarrow> ((nat \<times> nat) \<times> (nat \<times> nat)) list \<Rightarrow>
    call list result" where
  "serialTiles a matrixRows byteCount m [] = Inr []"
| "serialTiles a matrixRows byteCount m (((inIdx, inEnd), (outIdx, outEnd)) # ts) =
     bind_result (genAvx2Matrix (avx2CodeGen a) (drop outIdx matrixRows) (inEnd - inIdx) inIdx
         (outEnd - outIdx) m) (\<lambda>m.
     bind_result (serialTiles a matrixRows byteCount m ts) (\<lambda>calls.
       Inr (GalMulAvx2 (inIdx \<noteq> 0) (bytesOf m) inIdx (inEnd - inIdx) outIdx (outEnd - outIdx)
         0 byteCount # calls)))"

definition serialPlan :: "arch \<Rightarrow> options \<Rightarrow> slice \<Rightarrow> matrix \<Rightarrow> slice list \<Rightarrow> nat \<Rightarrow> nat \<Rightarrow>
    (call list list \<times> slice) result" where
  "serialPlan a opts pool matrixRows inputs outputs byteCount =
     (if inputs = [] then Inl Panic
      else
        let nIn = length inputs; len = sliceLen (inputs ! 0);
            plain = (\<lambda>start end. bind_result (loopResult (rounds (perRound opts) len start end))
              (\<lambda>rs. Inr (concat (map (roundCalls nIn outputs) rs)))) in
        if canAVX2C a opts byteCount nIn outputs then
          bind_result (genAvx2Matrix (avx2CodeGen a) matrixRows nIn 0 outputs pool) (\<lambda>m.
          bind_result (plain (avxSize a byteCount) len) (\<lambda>calls.
            Inr ([GalMulAvx2 False (bytesOf m) 0 nIn 0 outputs 0 byteCount # calls], m)))
        else if 3 < nIn + outputs \<and> canAVX2C a opts byteCount (maxAvx2Inputs a) (maxAvx2Outputs a)
        then
          bind_result (serialTiles a matrixRows byteCount pool
              (List.product (chunks (maxAvx2Inputs a) 0 nIn) (chunks (maxAvx2Outputs a) 0 outputs)))
            (\<lambda>tiles.
          let start = avxSize a byteCount; end = len in
          if end \<le> start then Inr ([tiles], pool)
          else bind_result (plain start end) (\<lambda>calls. Inr ([tiles @ calls], pool)))
        else
          bind_result (plain 0 (roundEnd (perRound opts) len 0)) (\<lambda>calls. Inr ([calls], pool)))"

subsection \<open>Several goroutines\<close>

text \<open>
  The bytes of a goroutine, \<open>byteCount / gor\<close> but at least \<open>minSplitSize\<close>; \<open>(do + 63) & (^63)\<close>
  rounds up to a multiple of 64.
\<close>

definition splitSize :: "options \<Rightarrow> nat \<Rightarrow> int" where
  "splitSize opts byteCount =
     (let do = int byteCount div maxGoroutines opts in
      if do < minSplitSize opts then minSplitSize opts else do)"

definition align64 :: "int \<Rightarrow> int" where
  "align64 x = (x + 63) div 64 * 64"

text \<open>The ranges of \<open>for start < byteCount { if start+do > byteCount { ... } go exec(start, start+do) }\<close>.\<close>

definition jobRanges :: "int \<Rightarrow> nat \<Rightarrow> (nat \<times> nat) list result" where
  "jobRanges do byteCount = loopResult (rounds do byteCount 0 (roundEnd do byteCount 0))"

fun mapResult :: "('a \<Rightarrow> 'b result) \<Rightarrow> 'a list \<Rightarrow> 'b list result" where
  "mapResult f [] = Inr []"
| "mapResult f (x # xs) = bind_result (f x) (\<lambda>y. bind_result (mapResult f xs) (\<lambda>ys. Inr (y # ys)))"

text \<open>\<open>exec\<close> of \<open>codeSomeShardsP\<close>: with the tables of a full AVX2 matrix where there are any.\<close>

definition execP :: "arch \<Rightarrow> options \<Rightarrow> nat \<Rightarrow> nat \<Rightarrow> byte list option \<Rightarrow> nat \<times> nat \<Rightarrow>
    call list result" where
  "execP a opts nIn nOut avx2Matrix r =
     (let start = fst r; stop = snd r;
          avx = (case avx2Matrix of
              None \<Rightarrow> ([], start)
            | Some m \<Rightarrow>
                if 64 \<le> stop - start then
                  ([GalMulAvx2 False m 0 nIn 0 nOut start stop], start + avxSize a (stop - start))
                else ([], start));
          lstart = snd avx in
      bind_result (loopResult (rounds (perRound opts) stop lstart
          (roundEnd (perRound opts) stop lstart))) (\<lambda>rs.
        Inr (fst avx @ concat (map (roundCalls nIn nOut) rs))))"

text \<open>
  The plan of \<open>codeSomeShardsAVXP\<close>: its tiles, the tables of each in its own part of the buffer
  (\<open>tmp = tmp[len(m):]\<close>).
\<close>

fun planTiles :: "arch \<Rightarrow> matrix \<Rightarrow> slice \<Rightarrow> ((nat \<times> nat) \<times> (nat \<times> nat)) list \<Rightarrow>
    (byte list \<times> (nat \<times> nat) \<times> (nat \<times> nat)) list result" where
  "planTiles a matrixRows tmp [] = Inr []"
| "planTiles a matrixRows tmp (((inIdx, inEnd), (outIdx, outEnd)) # ts) =
     bind_result (genAvx2Matrix (avx2CodeGen a) (drop outIdx matrixRows) (inEnd - inIdx) inIdx
         (outEnd - outIdx) tmp) (\<lambda>m.
     bind_result (resliceFrom tmp (sliceLen m)) (\<lambda>tmp.
     bind_result (planTiles a matrixRows tmp ts) (\<lambda>ps.
       Inr ((bytesOf m, (inIdx, inEnd), (outIdx, outEnd)) # ps))))"

definition tileCall :: "nat \<Rightarrow> nat \<Rightarrow> byte list \<times> (nat \<times> nat) \<times> (nat \<times> nat) \<Rightarrow> call" where
  "tileCall lo hi p =
     (case p of (m, (inIdx, inEnd), (outIdx, outEnd)) \<Rightarrow>
        GalMulAvx2 (inIdx \<noteq> 0) m inIdx (inEnd - inIdx) outIdx (outEnd - outIdx) lo hi)"

text \<open>\<open>exec\<close> of \<open>codeSomeShardsAVXP\<close>.\<close>

partial_function (option) execAVXP :: "arch \<Rightarrow> int \<Rightarrow> nat \<Rightarrow> nat \<Rightarrow>
    (byte list \<times> (nat \<times> nat) \<times> (nat \<times> nat)) list \<Rightarrow> nat \<Rightarrow> nat \<Rightarrow> nat \<Rightarrow> call list option" where
  "execAVXP a per nIn nOut plan stop lstart lstop =
     (if lstart < stop then
        let tiles = (if minAvx2Size a \<le> lstop - lstart then map (tileCall lstart lstop) plan else []);
            lstart' = (if minAvx2Size a \<le> lstop - lstart then lstart + avxSize a (lstop - lstart)
                       else lstart);
            tail = (if minAvx2Size a \<le> lstop - lstart \<and> lstart' = lstop then []
                    else roundCalls nIn nOut (lstart', lstop)) in
        Option.bind (execAVXP a per nIn nOut plan stop lstop (roundEnd per stop lstop))
          (\<lambda>calls. Some (tiles @ tail @ calls))
      else Some [])"

declare execAVXP.simps [code]

definition avxpPlan :: "arch \<Rightarrow> options \<Rightarrow> slice \<Rightarrow> matrix \<Rightarrow> nat \<Rightarrow> nat \<Rightarrow> nat \<Rightarrow>
    (call list list \<times> slice) result" where
  "avxpPlan a opts pool matrixRows nIn nOut byteCount =
     (let gor = maxGoroutines opts; ins = chunks (maxAvx2Inputs a) 0 nIn;
          outs = chunks (maxAvx2Outputs a) 0 nOut;
          tiles = (if nOut < nIn then List.product ins outs
                   else map prod.swap (List.product outs ins));
          exec = (\<lambda>plan r. loopResult (execAVXP a (perRound opts) nIn nOut plan (snd r) (fst r)
            (roundEnd (perRound opts) (snd r) (fst r)))) in
      bind_result (planTiles a matrixRows pool tiles) (\<lambda>plan.
        if gor = 0 then Inl Panic
        else if gor = 1 then
          bind_result (exec plan (0, byteCount)) (\<lambda>calls. Inr ([calls], pool))
        else
          bind_result (jobRanges (align64 (splitSize opts byteCount)) byteCount) (\<lambda>rs.
          bind_result (mapResult (exec plan) rs) (\<lambda>tasks. Inr (tasks, pool)))))"

definition parallelPlan :: "arch \<Rightarrow> options \<Rightarrow> slice \<Rightarrow> matrix \<Rightarrow> nat \<Rightarrow> nat \<Rightarrow> nat \<Rightarrow>
    (call list list \<times> slice) result" where
  "parallelPlan a opts pool matrixRows nIn nOut byteCount =
     (let gor = maxGoroutines opts;
          jobs = (\<lambda>avx2Matrix pool.
            if gor = 0 then Inl Panic
            else if gor \<le> 1 then
              bind_result (execP a opts nIn nOut avx2Matrix (0, byteCount)) (\<lambda>calls.
                Inr ([calls], pool))
            else
              bind_result (jobRanges (align64 (splitSize opts byteCount)) byteCount) (\<lambda>rs.
              bind_result (mapResult (execP a opts nIn nOut avx2Matrix) rs) (\<lambda>tasks.
                Inr (tasks, pool)))) in
      if canAVX2C a opts byteCount nIn nOut then
        bind_result (genAvx2Matrix (avx2CodeGen a) matrixRows nIn 0 nOut pool) (\<lambda>m.
          jobs (Some (bytesOf m)) m)
      else if byteCount < 10 * 2 ^ 20 \<and> 3 < nIn + nOut \<and>
          canAVX2C a opts (byteCount div 4) (maxAvx2Inputs a) (maxAvx2Outputs a) then
        avxpPlan a opts pool matrixRows nIn nOut byteCount
      else jobs None pool)"

subsection \<open>AVX512\<close>

text \<open>The batches of output rows: of 4 while there are 4, then of 2, then the last.\<close>

function avx512Batches :: "nat \<Rightarrow> nat \<Rightarrow> (nat \<times> nat) list" where
  "avx512Batches row outputCount =
     (if row + 4 \<le> outputCount then (row, row + 4) # avx512Batches (row + 4) outputCount
      else if row + 2 \<le> outputCount then
        (row, row + 2) # (if row + 2 < outputCount then [(row + 2, row + 3)] else [])
      else if row < outputCount then [(row, row + 1)]
      else [])"
  by pat_completeness auto
termination by (relation "measure (\<lambda>(row, n). n - row)") auto

declare avx512Batches.simps [simp del]

definition avx512Round :: "nat \<Rightarrow> nat \<Rightarrow> nat \<times> nat \<Rightarrow> call list" where
  "avx512Round nIn nOut r =
     concat (map (\<lambda>batch. map (\<lambda>inRows.
         GalMulAvx512 (snd batch - fst batch) (fst inRows) (fst batch) (fst r) (snd r))
       (chunks dimIn 0 nIn)) (avx512Batches 0 nOut))"

definition avx512Rounds :: "options \<Rightarrow> nat \<Rightarrow> nat \<Rightarrow> nat \<times> nat \<Rightarrow> call list result" where
  "avx512Rounds opts nIn nOut r =
     bind_result (loopResult (rounds (perRound opts) (snd r) (fst r)
         (roundEnd (perRound opts) (snd r) (fst r)))) (\<lambda>rs.
       Inr (concat (map (avx512Round nIn nOut) rs)))"

definition avx512Plan :: "arch \<Rightarrow> options \<Rightarrow> nat \<Rightarrow> nat \<Rightarrow> nat \<Rightarrow> call list list result" where
  "avx512Plan a opts nIn nOut byteCount =
     (if \<not> hasAvx512 a then Inl Panic
      else bind_result (avx512Rounds opts nIn nOut (0, byteCount)) (\<lambda>calls. Inr [calls]))"

definition avx512PlanP :: "arch \<Rightarrow> options \<Rightarrow> nat \<Rightarrow> nat \<Rightarrow> nat \<Rightarrow> call list list result" where
  "avx512PlanP a opts nIn nOut byteCount =
     (if \<not> hasAvx512 a \<or> maxGoroutines opts = 0 then Inl Panic
      else
        bind_result (jobRanges (align64 (splitSize opts byteCount)) byteCount) (\<lambda>rs.
          mapResult (avx512Rounds opts nIn nOut) rs))"

subsection \<open>The dispatch\<close>

definition codePlan :: "arch \<Rightarrow> options \<Rightarrow> slice \<Rightarrow> matrix \<Rightarrow> slice list \<Rightarrow> nat \<Rightarrow> nat \<Rightarrow>
    (call list list \<times> slice) result" where
  "codePlan a opts pool matrixRows inputs nOut byteCount =
     (let nIn = length inputs in
      if nOut = 0 then Inr ([], pool)
      else if useAVX512 opts \<and> 1 < maxGoroutines opts \<and> minSplitSize opts < int byteCount \<and>
              4 \<le> nIn \<and> 2 \<le> nOut then
        bind_result (avx512PlanP a opts nIn nOut byteCount) (\<lambda>tasks. Inr (tasks, pool))
      else if useAVX512 opts \<and> 4 \<le> nIn \<and> 2 \<le> nOut then
        bind_result (avx512Plan a opts nIn nOut byteCount) (\<lambda>tasks. Inr (tasks, pool))
      else if minSplitSize opts < int byteCount then
        parallelPlan a opts pool matrixRows nIn nOut byteCount
      else serialPlan a opts pool matrixRows inputs nOut byteCount)"

text \<open>
  \<open>codeSomeShards\<close> runs the goroutines one after the other, one of their possible schedules; the
  result is the outputs and the buffer that goes back to the pool.
\<close>

definition codeSomeShards :: "arch \<Rightarrow> options \<Rightarrow> slice \<Rightarrow> matrix \<Rightarrow> slice list \<Rightarrow> slice list \<Rightarrow> nat \<Rightarrow>
    (slice list \<times> slice) result" where
  "codeSomeShards a opts pool matrixRows inputs outputs byteCount =
     bind_result (codePlan a opts pool matrixRows inputs (length outputs) byteCount)
       (\<lambda>(tasks, pool).
     bind_result (fold_result (runCall a opts matrixRows inputs) outputs (concat tasks)) (\<lambda>outputs.
       Inr (outputs, pool)))"

text \<open>The schedules of a plan: at every moment some goroutine makes its next call.\<close>

inductive interleaving :: "'a list list \<Rightarrow> 'a list \<Rightarrow> bool" where
  finished: "\<forall>t\<in>set ts. t = [] \<Longrightarrow> interleaving ts []"
| step: "i < length ts \<Longrightarrow> ts ! i = x # xs \<Longrightarrow> interleaving (ts[i := xs]) ys \<Longrightarrow>
    interleaving ts (x # ys)"

end
