(* ===== verification/MatrixInverse.thy ===== *)
theory MatrixInverse
  imports GaloisMatrix
begin

text \<open>
  The correctness of \<open>Invert\<close>: each step of the elimination keeps the null space of the
  working matrix, which starts as the pairs \<open>(x, m x)\<close> and ends as the pairs
  \<open>(minv y, y)\<close>; and a missing pivot leaves a non-zero vector that the matrix sends to 0.
\<close>

subsection \<open>Matrices as linear maps\<close>

definition lin :: "matrix \<Rightarrow> nat \<Rightarrow> (nat \<Rightarrow> gf) \<Rightarrow> nat \<Rightarrow> gf" where
  "lin m cols x r = (\<Sum>c<cols. GF (m ! r ! c) * x c)"

definition null_vec :: "matrix \<Rightarrow> nat \<Rightarrow> (nat \<Rightarrow> gf) \<Rightarrow> bool" where
  "null_vec m cols x \<longleftrightarrow> (\<forall>r<length m. lin m cols x r = 0)"

lemma GF_foldl_xor:
  "GF (foldl (\<lambda>v i. v XOR f i) a [0..<n]) = GF a + (\<Sum>i<n. GF (f i))"
  by (induction n) (simp_all add: gf_simps add.assoc)

lemma GF_dotRow [gf_simps]: "GF (dotRow n f g) = (\<Sum>i<n. GF (f i) * GF (g i))"
  by (simp add: dotRow_def GF_foldl_xor gf_simps)

lemma lin_add: "lin m C (\<lambda>c. x c + y c) r = lin m C x r + lin m C y r"
  by (simp add: lin_def distrib_left sum.distrib)

lemma lin_cong: "(\<And>c. c < C \<Longrightarrow> x c = y c) \<Longrightarrow> lin m C x r = lin m C y r"
  by (simp add: lin_def)

lemma lin_unit: "k < C \<Longrightarrow> lin m C (\<lambda>c. if c = k then 1 else 0) r = GF (m ! r ! k)"
  by (simp add: lin_def if_distrib [of "\<lambda>x. _ * x"] cong: if_cong)

lemma lin_zero [simp]: "lin m C (\<lambda>c. 0) r = 0"
  by (simp add: lin_def)

subsection \<open>Products\<close>

lemma Multiply_wf:
  assumes m: "mat_wf R K m" and n: "mat_wf K C n" and pos: "0 < R" "0 < K" "0 < C"
  shows "Multiply m n =
    Inr (map (\<lambda>r. map (\<lambda>c. dotRow K (\<lambda>i. m ! r ! i) (\<lambda>i. n ! i ! c)) [0..<C]) [0..<R])"
proof -
  have "length (m ! 0) = K" "length (n ! 0) = C" "m \<noteq> []" "n \<noteq> []" "length m = R" "length n = K"
    using assms by (auto simp: shape_simps dest: mat_wf_length)
  moreover have "\<not> list_ex (\<lambda>row. length row < K) m" "\<not> list_ex (\<lambda>row. length row < C) n"
    using m n by (auto simp: mat_wf_def list_ex_iff)
  ultimately show ?thesis
    using pos by (simp add: Multiply_def newMatrix_Inr)
qed

lemma Multiply_Inr:
  assumes "mat_wf R K m" "mat_wf K C n" "0 < R" "0 < K" "0 < C"
  obtains p where "Multiply m n = Inr p" "mat_wf R C p"
    "\<And>r c. r < R \<Longrightarrow> c < C \<Longrightarrow> GF (p ! r ! c) = (\<Sum>i<K. GF (m ! r ! i) * GF (n ! i ! c))"
    "\<And>x r. r < R \<Longrightarrow> lin p C x r = lin m K (lin n C x) r"
proof -
  define p where "p = map (\<lambda>r. map (\<lambda>c.
    dotRow K (\<lambda>i. m ! r ! i) (\<lambda>i. n ! i ! c)) [0..<C]) [0..<R]"
  have ent: "GF (p ! r ! c) = (\<Sum>i<K. GF (m ! r ! i) * GF (n ! i ! c))"
    if "r < R" "c < C" for r c
    using that by (simp add: p_def gf_simps)
  have "Multiply m n = Inr p"
    using Multiply_wf [OF assms] by (simp add: p_def)
  moreover have "mat_wf R C p"
    unfolding p_def by (rule mat_wf_map_upt)
  moreover have "lin p C x r = lin m K (lin n C x) r" if "r < R" for x r
  proof -
    have "lin p C x r = (\<Sum>c<C. \<Sum>i<K. GF (m ! r ! i) * (GF (n ! i ! c) * x c))"
      using that by (simp add: lin_def ent sum_distrib_right mult.assoc)
    also have "\<dots> = (\<Sum>i<K. \<Sum>c<C. GF (m ! r ! i) * (GF (n ! i ! c) * x c))"
      by (rule sum.swap)
    finally show ?thesis
      by (simp add: lin_def sum_distrib_left)
  qed
  ultimately show ?thesis
    using ent that by blast
qed

subsection \<open>Identity and augmentation\<close>

lemma foldl_diag:
  "n \<le> length m \<Longrightarrow> foldl (\<lambda>m i. m[i := (m ! i)[i := 1]]) m [0..<n] =
    map (\<lambda>i. if i < n then (m ! i)[i := 1] else m ! i) [0..<length m]"
proof (induction n)
  case 0
  then show ?case by (simp add: map_nth)
next
  case (Suc n)
  then show ?case
    by (auto intro!: nth_equalityI simp: nth_list_update less_Suc_eq)
qed

lemma identityMatrix_Inr:
  assumes "0 < n"
  shows "identityMatrix (int n) =
    Inr (map (\<lambda>r. map (\<lambda>c. if r = c then 1 else 0) [0..<n]) [0..<n])"
  using assms
  by (auto simp: identityMatrix_def newMatrix_Inr foldl_diag nth_list_update
      intro!: nth_equalityI)

lemma identityMatrix_wf:
  assumes "0 < n"
  obtains w where "identityMatrix (int n) = Inr w" "mat_wf n n w"
    "\<And>x r. r < n \<Longrightarrow> lin w n x r = x r"
proof
  show "identityMatrix (int n) =
    Inr (map (\<lambda>r. map (\<lambda>c. if r = c then 1 else 0) [0..<n]) [0..<n])"
    using assms by (rule identityMatrix_Inr)
  show "mat_wf n n (map (\<lambda>r. map (\<lambda>c. if r = c then 1 else 0) [0..<n]) [0..<n])"
    by (rule mat_wf_map_upt)
  fix x r
  assume "r < n"
  then show "lin (map (\<lambda>r. map (\<lambda>c. if r = c then 1 else 0) [0..<n]) [0..<n]) n x r = x r"
    by (simp add: lin_def if_distrib [of GF] if_distrib [of "\<lambda>y. y * _"] gf_simps cong: if_cong)
qed

lemma Augment_Inr:
  assumes m: "mat_wf R C m" and w: "mat_wf R D w" and pos: "0 < R" "0 < C" "0 < D"
  shows "Augment m w =
    Inr (map (\<lambda>r. map (\<lambda>c. if c < C then m ! r ! c else w ! r ! (c - C)) [0..<C + D]) [0..<R])"
proof -
  have "length (m ! 0) = C" "length (w ! 0) = D" "length m = R" "length w = R" "m \<noteq> []"
    using assms by (auto simp: shape_simps dest: mat_wf_length)
  moreover have "\<not> list_ex (\<lambda>row. C + D < length row) m" "\<not> list_ex (\<lambda>row. length row < D) w"
    using m w by (auto simp: mat_wf_def list_ex_iff)
  moreover have "int (C + D) > 0" "int R > 0"
    using pos by simp_all
  ultimately show ?thesis
    using m pos by (simp add: Augment_def Let_def newMatrix_Inr shape_simps cong: if_cong)
qed

lemma lin_split:
  "lin (map (\<lambda>r. map (\<lambda>c. if c < C then f r c else g r (c - C)) [0..<C + D]) [0..<R])
     (C + D) z r =
   (\<Sum>c<C. GF (f r c) * z c) + (\<Sum>c<D. GF (g r c) * z (C + c))" if "r < R"
proof -
  have "(\<Sum>c<C + D. h c) = (\<Sum>c<C. h c) + (\<Sum>c<D. h (C + c))" for h :: "nat \<Rightarrow> gf"
    by (induction D) (simp_all add: add.assoc)
  then show ?thesis
    using that by (simp add: lin_def)
qed

lemma SubMatrix_Inr:
  assumes "mat_wf R C m" "rmin < rmax" "rmax \<le> R" "cmin < cmax" "cmax \<le> C"
  shows "SubMatrix m rmin cmin rmax cmax =
    Inr (map (\<lambda>r. map (\<lambda>c. m ! (rmin + r) ! (cmin + c)) [0..<cmax - cmin]) [0..<rmax - rmin])"
proof -
  have "\<not> list_ex (\<lambda>r. length (m ! r) < cmax) [rmin..<rmax]"
    using assms by (auto simp: list_ex_iff shape_simps)
  moreover have "nat (int rmax - int rmin) = rmax - rmin" "nat (int cmax - int cmin) = cmax - cmin"
    by simp_all
  ultimately show ?thesis
    using assms by (simp add: SubMatrix_def newMatrix_Inr mat_wf_length)
qed

subsection \<open>The row operations keep the null space\<close>

lemma lin_update:
  assumes "t < length m"
  shows "lin (m[t := map f [0..<C]]) C x r =
    (if r = t then (\<Sum>c<C. GF (f c) * x c) else lin m C x r)"
  using assms by (simp add: lin_def nth_list_update)

lemma SwapRows_Inr:
  "a < length m \<Longrightarrow> b < length m \<Longrightarrow>
    SwapRows m (int a) (int b) = Inr (m[b := m ! a, a := m ! b])"
  by (simp add: SwapRows_def)

lemma null_vec_swap:
  assumes "a < length m" "b < length m"
  shows "null_vec (m[b := m ! a, a := m ! b]) C x \<longleftrightarrow> null_vec m C x"
proof -
  have "lin (m[b := m ! a, a := m ! b]) C x r =
      lin m C x (if r = a then b else if r = b then a else r)" for r
    using assms by (simp add: lin_def nth_list_update)
  then show ?thesis
    using assms unfolding null_vec_def by (auto split: if_splits)
qed

lemma lin_gaussClear:
  assumes "t < length m"
  shows "lin (gaussClear C m r t) C x i =
    (if i = t then lin m C x t + GF (m ! t ! r) * lin m C x r else lin m C x i)"
proof -
  have "(\<Sum>c<C. GF ((m ! t ! c) XOR galMultiply (m ! t ! r) (m ! r ! c)) * x c) =
      lin m C x t + GF (m ! t ! r) * lin m C x r"
    by (simp add: lin_def gf_simps distrib_right sum.distrib sum_distrib_left mult.assoc)
  then show ?thesis
    using assms by (simp add: gaussClear_def Let_def lin_update gf_simps)
qed

lemma length_gaussClear [simp]: "length (gaussClear C m r t) = length m"
  by (simp add: gaussClear_def Let_def)

lemma null_vec_gaussClear:
  assumes "t < length m" "r < length m" "r \<noteq> t"
  shows "null_vec (gaussClear C m r t) C x \<longleftrightarrow> null_vec m C x"
proof -
  have row: "lin (gaussClear C m r t) C x r = lin m C x r"
    using assms by (simp add: lin_gaussClear)
  have rows: "lin (gaussClear C m r t) C x i = lin m C x i" if "lin m C x r = 0" for i
    using that assms by (simp add: lin_gaussClear)
  have "lin m C x r = 0" if "null_vec (gaussClear C m r t) C x \<or> null_vec m C x"
    using that assms row by (auto simp: null_vec_def)
  then show ?thesis
    using rows by (auto simp: null_vec_def)
qed

lemma gaussClear_nth:
  assumes "mat_wf R C m" "t < R" "i < R" "c < C"
  shows "gaussClear C m r t ! i ! c =
    (if i = t then (m ! t ! c) XOR gmul (m ! t ! r) (m ! r ! c) else m ! i ! c)"
  using assms
  by (auto simp: gaussClear_def Let_def nth_list_update shape_simps galMultiply_gmul)

lemma gaussClear_wf: "mat_wf R C m \<Longrightarrow> mat_wf R C (gaussClear C m r t)"
  by (simp add: gaussClear_def Let_def mat_wf_update)

lemma gaussScale_Inr:
  assumes m: "mat_wf R C m" and r: "r < R" "r < C" and nz: "m ! r ! r \<noteq> 0"
  obtains m' where "gaussScale C m r = Inr m'" "mat_wf R C m'"
    "\<And>x. null_vec m' C x \<longleftrightarrow> null_vec m C x"
    "m' ! r ! r = 1" "\<And>i. i \<noteq> r \<Longrightarrow> m' ! i = m ! i"
    "\<And>c. c < C \<Longrightarrow> m ! r ! c = 0 \<Longrightarrow> m' ! r ! c = 0"
proof (cases "m ! r ! r = 1")
  case True
  then show ?thesis
    using m by (intro that [of m]) (auto simp: gaussScale_def)
next
  case False
  obtain s where s: "galDivide 1 (m ! r ! r) = Inr s" "GF s = 1 / GF (m ! r ! r)"
    using galDivide_Inr [OF nz, of 1] by (auto simp: GF_1)
  let ?m = "m[r := map (\<lambda>c. galMultiply (m ! r ! c) s) [0..<C]]"
  have len: "length m = R"
    using m by (simp add: mat_wf_length)
  have s0: "GF s \<noteq> 0"
    using s nz by simp
  have "(\<Sum>c<C. GF (galMultiply (m ! r ! c) s) * x c) = GF s * lin m C x r" for x
    by (simp add: lin_def gf_simps sum_distrib_left mult_ac)
  then have lin: "lin ?m C x i = (if i = r then GF s * lin m C x r else lin m C x i)" for x i
    using r len by (simp add: lin_update)
  have "null_vec ?m C x \<longleftrightarrow> null_vec m C x" for x
    using s0 unfolding null_vec_def lin by (auto split: if_splits)
  moreover have "GF (?m ! r ! r) = 1"
    using r len s nz by (simp add: gf_simps)
  then have "?m ! r ! r = 1"
    by (metis GF_1 gf.inject)
  ultimately show ?thesis
    using m r len s False
    by (intro that [of ?m])
      (auto simp: gaussScale_def mat_wf_update nth_list_update galMultiply_gmul)
qed

subsection \<open>The forward pass\<close>

text \<open>The first \<open>k\<close> columns have a unit diagonal and zeros below it.\<close>

definition upper :: "nat \<Rightarrow> nat \<Rightarrow> matrix \<Rightarrow> bool" where
  "upper n k m \<longleftrightarrow> (\<forall>i<k. m ! i ! i = 1 \<and> (\<forall>j. i < j \<and> j < n \<longrightarrow> m ! j ! i = 0))"

text \<open>A working matrix with the null space of the matrix \<open>w\<close> the elimination began with.\<close>

definition same_null :: "nat \<Rightarrow> nat \<Rightarrow> matrix \<Rightarrow> matrix \<Rightarrow> bool" where
  "same_null n C w m \<longleftrightarrow> mat_wf n C m \<and> (\<forall>x. null_vec m C x \<longleftrightarrow> null_vec w C x)"

definition singular_below :: "nat \<Rightarrow> nat \<Rightarrow> matrix \<Rightarrow> bool" where
  "singular_below n C w \<longleftrightarrow>
     (\<exists>x r. r < n \<and> x r = (1 :: gf) \<and> (\<forall>c. r < c \<longrightarrow> x c = 0) \<and> null_vec w C x)"

lemma gaussPivot_Inr:
  assumes m: "same_null n C w m" and up: "upper n r m" and r: "r < n"
  obtains m' where "gaussPivot m r = Inr m'" "same_null n C w m'" "upper n r m'"
    "m' ! r ! r = 0 \<longrightarrow> m' = m \<and> (\<forall>j. r \<le> j \<and> j < n \<longrightarrow> m ! j ! r = 0)"
proof (cases "m ! r ! r = 0 \<and> (\<exists>j. r < j \<and> j < n \<and> m ! j ! r \<noteq> 0)")
  case False
  have len: "length m = n"
    using m mat_wf_length unfolding same_null_def by blast
  then have "find (\<lambda>j. m ! j ! r \<noteq> 0) [r + 1..<length m] = None" if "m ! r ! r = 0"
    using that False by (auto simp: find_None_iff)
  then have "gaussPivot m r = Inr m"
    by (simp add: gaussPivot_def)
  then show ?thesis
    using m up False by (intro that [of m]) (auto simp: le_less)
next
  case True
  have len: "length m = n"
    using m mat_wf_length unfolding same_null_def by blast
  obtain b where find: "find (\<lambda>j. m ! j ! r \<noteq> 0) [r + 1..<length m] = Some b"
    using True len by (cases "find (\<lambda>j. m ! j ! r \<noteq> 0) [r + 1..<length m]")
      (auto simp: find_None_iff)
  then have b: "r < b" "b < n" "m ! b ! r \<noteq> 0"
    using len by (auto simp: find_Some_iff)
  let ?m = "m[b := m ! r, r := m ! b]"
  have "gaussPivot m r = Inr ?m"
    using True find b r len by (simp add: gaussPivot_def SwapRows_Inr)
  moreover have "same_null n C w ?m"
  proof -
    have wf: "mat_wf n C m"
      using m by (simp add: same_null_def)
    then have "mat_wf n C ?m"
      using b r by (simp add: mat_wf_update mat_wf_row)
    then show ?thesis
      using m b r len by (simp add: same_null_def null_vec_swap)
  qed
  moreover have "upper n r ?m"
    using up b r len by (auto simp: upper_def nth_list_update)
  moreover have "?m ! r ! r \<noteq> 0"
    using b r len by (simp add: nth_list_update)
  ultimately show ?thesis
    by (intro that) auto
qed

lemma gaussForward_step:
  assumes m: "same_null n C w m" and up: "upper n r m" and r: "r < n" and C: "n \<le> C"
  shows "case gaussForward n C m r of
      Inl e \<Rightarrow> e = ErrSingular \<and>
        (\<exists>m. same_null n C w m \<and> upper n r m \<and> (\<forall>j. r \<le> j \<and> j < n \<longrightarrow> m ! j ! r = 0))
    | Inr m' \<Rightarrow> same_null n C w m' \<and> upper n (Suc r) m'"
proof -
  obtain p where p: "gaussPivot m r = Inr p" "same_null n C w p" "upper n r p"
    "p ! r ! r = 0 \<longrightarrow> p = m \<and> (\<forall>j. r \<le> j \<and> j < n \<longrightarrow> m ! j ! r = 0)"
    by (rule gaussPivot_Inr [OF m up r])
  show ?thesis
  proof (cases "p ! r ! r = 0")
    case True
    then show ?thesis
      using p m up by (auto simp: gaussForward_def)
  next
    case False
    have p_wf: "mat_wf n C p"
      using p by (simp add: same_null_def)
    obtain q where q: "gaussScale C p r = Inr q" "mat_wf n C q"
      "\<And>x. null_vec q C x \<longleftrightarrow> null_vec p C x"
      "q ! r ! r = 1" "\<And>i. i \<noteq> r \<Longrightarrow> q ! i = p ! i"
      "\<And>c. c < C \<Longrightarrow> p ! r ! c = 0 \<Longrightarrow> q ! r ! c = 0"
      by (rule gaussScale_Inr [OF p_wf r less_le_trans [OF r C] False]) blast
    have q_up: "upper n r q"
      unfolding upper_def
    proof (intro allI impI conjI)
      fix i assume "i < r"
      then show "q ! i ! i = 1"
        using p(3) q(5) by (auto simp: upper_def)
    next
      fix i j assume i: "i < r" and j: "i < j \<and> j < n"
      then have "p ! j ! i = 0"
        using p(3) by (auto simp: upper_def)
      then show "q ! j ! i = 0"
        using q(5,6) i r C by (cases "j = r") auto
    qed
    define J where "J t m \<longleftrightarrow> same_null n C w m \<and> upper n r m \<and> m ! r ! r = 1 \<and>
      (\<forall>j. r < j \<and> j < t \<longrightarrow> m ! j ! r = 0)" for t m
    have "J n (foldl (\<lambda>m t. gaussClear C m r t) q [r + 1..<n])"
    proof (rule foldl_upt_rule)
      show "r + 1 \<le> n"
        using r by simp
      show "J (r + 1) q"
        using p q q_up by (auto simp: J_def same_null_def)
    next
      fix t m
      assume t: "r + 1 \<le> t" "t < n" and J: "J t m"
      then have wf: "mat_wf n C m" and len: "length m = n"
        by (auto simp: J_def same_null_def mat_wf_length)
      have nth: "gaussClear C m r t ! i ! c =
          (if i = t then (m ! t ! c) XOR gmul (m ! t ! r) (m ! r ! c) else m ! i ! c)"
        if "i < n" "c < n" for i c
        using gaussClear_nth [OF wf t(2) that(1)] that C by simp
      have "upper n r (gaussClear C m r t)"
        using J t r unfolding J_def upper_def
        by (auto simp: nth gmul_0_right dest: less_trans)
      moreover have "same_null n C w (gaussClear C m r t)"
        using J t r len by (auto simp: J_def same_null_def gaussClear_wf null_vec_gaussClear)
      ultimately show "J (Suc t) (gaussClear C m r t)"
        using J t r by (auto simp: J_def nth gmul_commute [of _ 1] less_Suc_eq)
    qed
    then show ?thesis
      using p q False by (auto simp: gaussForward_def J_def upper_def less_Suc_eq)
  qed
qed

text \<open>Without a pivot, back substitution builds a non-zero vector of the null space.\<close>

lemma null_vec_no_pivot:
  assumes m: "mat_wf n C m" and up: "upper n r m" and r: "r < n" "n \<le> C"
    and zero: "\<And>j. r \<le> j \<Longrightarrow> j < n \<Longrightarrow> m ! j ! r = 0"
  shows "\<exists>x. x r = 1 \<and> (\<forall>c. r < c \<longrightarrow> x c = 0) \<and> null_vec m C x"
proof -
  have "\<exists>x. x r = 1 \<and> (\<forall>c. r < c \<longrightarrow> x c = 0) \<and> (\<forall>i. r - k \<le> i \<and> i < n \<longrightarrow> lin m C x i = 0)"
    if "k \<le> r" for k
    using that
  proof (induction k)
    case 0
    have "lin m C (\<lambda>c. if c = r then 1 else 0) i = 0" if "r \<le> i" "i < n" for i
      using zero [OF that] r by (simp add: lin_unit GF_0)
    then show ?case
      by (intro exI [of _ "\<lambda>c. if c = r then 1 else 0"]) auto
  next
    case (Suc k)
    then obtain x where x: "x r = 1" "\<forall>c. r < c \<longrightarrow> x c = 0"
      "\<And>i. r - k \<le> i \<Longrightarrow> i < n \<Longrightarrow> lin m C x i = 0"
      by auto
    define i0 where "i0 = r - Suc k"
    have i0: "i0 < r" "r - k = Suc i0"
      using Suc.prems by (auto simp: i0_def)
    define y where "y = (\<lambda>c. x c + (if c = i0 then lin m C x i0 else 0))"
    have lin: "lin m C y i = lin m C x i + GF (m ! i ! i0) * lin m C x i0" for i
    proof -
      have "lin m C (\<lambda>c. if c = i0 then lin m C x i0 else 0) i = GF (m ! i ! i0) * lin m C x i0"
        using i0 r by (simp add: lin_def if_distrib [of "\<lambda>y. _ * y"] cong: if_cong)
      then show ?thesis
        by (simp add: y_def lin_add)
    qed
    have "lin m C y i = 0" if "i0 \<le> i" "i < n" for i
    proof (cases "i = i0")
      case True
      then show ?thesis
        using up i0 by (simp add: lin upper_def GF_1)
    next
      case False
      then have "m ! i ! i0 = 0"
        using up i0 that by (auto simp: upper_def)
      then show ?thesis
        using x(3) [of i] i0 that False by (simp add: lin GF_0)
    qed
    then show ?case
      using x i0 by (intro exI [of _ y]) (auto simp: y_def i0_def)
  qed
  from this [of r] show ?thesis
    using m by (auto simp: null_vec_def mat_wf_length)
qed

lemma forward_pass:
  assumes "mat_wf n C w" and "n \<le> C"
  shows "case fold_result (gaussForward n C) w [0..<n] of
      Inl e \<Rightarrow> e = ErrSingular \<and> singular_below n C w
    | Inr m \<Rightarrow> same_null n C w m \<and> upper n n m"
proof (rule fold_result_upt_rule [where I = "\<lambda>r m. same_null n C w m \<and> upper n r m"])
  show "same_null n C w w \<and> upper n 0 w"
    using assms by (simp add: same_null_def upper_def)
next
  fix i m
  assume i: "i < n" and I: "same_null n C w m \<and> upper n i m"
  show "case gaussForward n C m i of Inl e \<Rightarrow> e = ErrSingular \<and> singular_below n C w
    | Inr m' \<Rightarrow> same_null n C w m' \<and> upper n (Suc i) m'"
  proof (cases "gaussForward n C m i")
    case (Inl e)
    then obtain m' where m': "same_null n C w m'" "upper n i m'"
      "\<And>j. i \<le> j \<Longrightarrow> j < n \<Longrightarrow> m' ! j ! i = 0" and e: "e = ErrSingular"
      using gaussForward_step [of n C w m i] I i assms(2) by auto
    have "mat_wf n C m'"
      using m' by (simp add: same_null_def)
    then obtain x where "x i = 1" "\<forall>c. i < c \<longrightarrow> x c = 0" "null_vec m' C x"
      using null_vec_no_pivot [OF _ m'(2) i assms(2) m'(3)] by blast
    then show ?thesis
      using Inl e i m'(1) unfolding singular_below_def same_null_def by auto
  next
    case (Inr m')
    then show ?thesis
      using gaussForward_step [of n C w m i] I i assms(2) by auto
  qed
qed simp

subsection \<open>The backward pass\<close>

definition cleared :: "nat \<Rightarrow> matrix \<Rightarrow> bool" where
  "cleared d m \<longleftrightarrow> (\<forall>j<d. \<forall>i<j. m ! i ! j = 0)"

lemma gaussBackward_step:
  assumes m: "same_null n C w m" "upper n n m" "cleared d m" and d: "d < n" "n \<le> C"
  shows "same_null n C w (gaussBackward C m d) \<and> upper n n (gaussBackward C m d) \<and>
    cleared (Suc d) (gaussBackward C m d)"
proof -
  define J where "J t m \<longleftrightarrow> same_null n C w m \<and> upper n n m \<and> cleared d m \<and>
    (\<forall>i<t. m ! i ! d = 0)" for t m
  have "J d (foldl (\<lambda>m t. gaussClear C m d t) m [0..<d])"
  proof (rule foldl_upt_rule)
    show "J 0 m"
      using m by (simp add: J_def)
  next
    fix t m
    assume t: "t < d" and J: "J t m"
    have wf: "mat_wf n C m" and len: "length m = n"
      using J mat_wf_length unfolding J_def same_null_def by blast+
    have nth: "gaussClear C m d t ! i ! c =
        (if i = t then (m ! t ! c) XOR gmul (m ! t ! d) (m ! d ! c) else m ! i ! c)"
      if "i < n" "c < n" for i c
      using gaussClear_nth [OF wf _ that(1)] that t d by simp
    have below: "m ! d ! c = 0" if "c < d" for c
      using J that d by (auto simp: J_def upper_def)
    have one: "m ! d ! d = 1"
      using J d by (auto simp: J_def upper_def)
    have "same_null n C w (gaussClear C m d t)"
      using J t d len by (simp add: J_def same_null_def gaussClear_wf null_vec_gaussClear)
    moreover have "upper n n (gaussClear C m d t)"
      using J t d by (auto simp: J_def upper_def nth below)
    moreover have "cleared d (gaussClear C m d t)"
      using J t d by (auto simp: J_def cleared_def nth below)
    moreover have "gaussClear C m d t ! i ! d = 0" if "i < Suc t" for i
      using J t d that by (auto simp: J_def nth one gmul_commute [of _ 1] less_Suc_eq)
    ultimately show "J (Suc t) (gaussClear C m d t)"
      by (simp add: J_def)
  qed simp
  then show ?thesis
    by (auto simp: J_def gaussBackward_def cleared_def less_Suc_eq)
qed

lemma gaussianElimination_cases:
  assumes w: "mat_wf n C w" and n: "0 < n" "n \<le> C"
  shows "case gaussianElimination w of
      Inl e \<Rightarrow> e = ErrSingular \<and> singular_below n C w
    | Inr m \<Rightarrow> mat_wf n C m \<and> (\<forall>x. null_vec m C x \<longleftrightarrow> null_vec w C x) \<and>
        (\<forall>i<n. \<forall>j<n. m ! i ! j = (if i = j then 1 else 0))"
proof -
  have len: "w \<noteq> []" "length w = n" "length (w ! 0) = C"
    using w n by (auto simp: shape_simps dest: mat_wf_length)
  show ?thesis
  proof (cases "fold_result (gaussForward n C) w [0..<n]")
    case (Inl e)
    then show ?thesis
      using forward_pass [OF w n(2)] len by (simp add: gaussianElimination_def)
  next
    case (Inr m)
    then have m: "same_null n C w m" "upper n n m"
      using forward_pass [OF w n(2)] by auto
    let ?b = "foldl (gaussBackward C) m [0..<n]"
    have "same_null n C w ?b \<and> upper n n ?b \<and> cleared n ?b"
      by (rule foldl_upt_rule [where I = "\<lambda>d m. same_null n C w m \<and> upper n n m \<and> cleared d m"])
        (use m n gaussBackward_step in \<open>auto simp: cleared_def\<close>)
    then have "?b ! i ! j = (if i = j then 1 else 0)" if "i < n" "j < n" for i j
      using that by (cases i j rule: linorder_cases) (auto simp: upper_def cleared_def)
    then show ?thesis
      using Inr len \<open>same_null n C w ?b \<and> _\<close>
      by (simp add: gaussianElimination_def same_null_def)
  qed
qed

subsection \<open>The inverse\<close>

lemma Invert_cases:
  assumes m: "mat_wf n n m" and n: "0 < n"
  shows "case Invert m of
      Inl e \<Rightarrow> e = ErrSingular \<and>
        (\<exists>x. (\<exists>r<n. x r \<noteq> 0) \<and> (\<forall>r<n. lin m n x r = 0))
    | Inr minv \<Rightarrow> mat_wf n n minv \<and>
        (\<forall>x y. (\<forall>r<n. lin m n x r = y r) \<longleftrightarrow> (\<forall>r<n. lin minv n y r = x r))"
proof -
  obtain e where e: "identityMatrix (int n) = Inr e" "mat_wf n n e"
    "\<And>x r. r < n \<Longrightarrow> lin e n x r = x r"
    using identityMatrix_wf [OF n] by blast
  define w where
    "w = map (\<lambda>r. map (\<lambda>c. if c < n then m ! r ! c else e ! r ! (c - n)) [0..<n + n]) [0..<n]"
  have w: "Augment m e = Inr w" "mat_wf n (n + n) w"
    using Augment_Inr [OF m e(2) n n n] mat_wf_map_upt unfolding w_def by simp_all
  have lin_w: "lin w (n + n) z r = lin m n z r + z (n + r)" if "r < n" for z r
    using that e(3) [OF that, of "\<lambda>c. z (n + c)"] lin_split [OF that,
        where C = n and D = n and f = "\<lambda>r c. m ! r ! c" and g = "\<lambda>r c. e ! r ! c" and z = z]
    unfolding w_def by (simp add: lin_def)
  have null_w: "null_vec w (n + n) z \<longleftrightarrow> (\<forall>r<n. lin m n z r = z (n + r))" for z
    using w(2) by (simp add: null_vec_def mat_wf_length lin_w gf_add_eq_0_iff)
  have sq: "IsSquare m = Inr True"
    using m n by (auto simp: IsSquare_def shape_simps dest: mat_wf_length)
  have len: "length m = n"
    using m by (rule mat_wf_length)
  show ?thesis
  proof (cases "gaussianElimination w")
    case (Inl err)
    then have "err = ErrSingular" and "singular_below n (n + n) w"
      using gaussianElimination_cases [OF w(2) n] by auto
    then obtain x r where x: "r < n" "x r = 1" "\<forall>c. r < c \<longrightarrow> x c = 0"
      "null_vec w (n + n) x"
      by (auto simp: singular_below_def)
    then have "\<forall>r<n. lin m n x r = 0"
      by (auto simp: null_w)
    moreover have "\<exists>r<n. x r \<noteq> 0"
      using x by (intro exI [of _ r]) simp
    ultimately show ?thesis
      using Inl sq len e w \<open>err = ErrSingular\<close> by (auto simp: Invert_def)
  next
    case (Inr g)
    then have g: "mat_wf n (n + n) g" "\<And>x. null_vec g (n + n) x \<longleftrightarrow> null_vec w (n + n) x"
      "\<And>i j. i < n \<Longrightarrow> j < n \<Longrightarrow> g ! i ! j = (if i = j then 1 else 0)"
      using gaussianElimination_cases [OF w(2) n] by auto
    define minv where "minv = map (\<lambda>r. map (\<lambda>c. g ! r ! (n + c)) [0..<n]) [0..<n]"
    have minv: "Invert m = Inr minv"
      using SubMatrix_Inr [OF g(1), of 0 n n "n + n"] n sq len e w Inr
      by (simp add: Invert_def minv_def mult_2_right)
    have lin_g: "lin g (n + n) z r = z r + lin minv n (\<lambda>c. z (n + c)) r" if "r < n" for z r
    proof -
      have "lin g (n + n) z r =
          (\<Sum>c<n. GF (g ! r ! c) * z c) + (\<Sum>c<n. GF (g ! r ! (n + c)) * z (n + c))"
        using lin_split [OF that, where C = n and D = n and f = "\<lambda>r c. g ! r ! c"
            and g = "\<lambda>r c. g ! r ! (n + c)" and z = z] that
        by (simp add: lin_def cong: if_cong)
      also have "(\<Sum>c<n. GF (g ! r ! c) * z c) = z r"
        using that by (simp add: g(3) if_distrib [of GF] if_distrib [of "\<lambda>y. y * _"] gf_simps
            cong: if_cong)
      finally show ?thesis
        using that by (simp add: lin_def minv_def)
    qed
    have "null_vec g (n + n) z \<longleftrightarrow> (\<forall>r<n. lin minv n (\<lambda>c. z (n + c)) r = z r)" for z
      using g(1) by (auto simp: null_vec_def mat_wf_length lin_g gf_add_eq_0_iff)
    then have key: "(\<forall>r<n. lin m n z r = z (n + r)) \<longleftrightarrow>
        (\<forall>r<n. lin minv n (\<lambda>c. z (n + c)) r = z r)" for z
      using g(2) null_w by blast
    have "(\<forall>r<n. lin m n x r = y r) \<longleftrightarrow> (\<forall>r<n. lin minv n y r = x r)" for x y
      using key [of "\<lambda>c. if c < n then x c else y (c - n)"]
      by (simp add: lin_cong [of n "\<lambda>c. if c < n then x c else y (c - n)" x])
    moreover have "mat_wf n n minv"
      unfolding minv_def by (rule mat_wf_map_upt)
    ultimately show ?thesis
      using minv by simp
  qed
qed

lemma Invert_InrD:
  assumes "mat_wf n n m" and "0 < n" and "Invert m = Inr minv"
  shows "mat_wf n n minv"
    and "(\<forall>r<n. lin m n x r = y r) \<longleftrightarrow> (\<forall>r<n. lin minv n y r = x r)"
proof -
  have "mat_wf n n minv \<and>
      (\<forall>x y. (\<forall>r<n. lin m n x r = y r) \<longleftrightarrow> (\<forall>r<n. lin minv n y r = x r))"
    using Invert_cases [OF assms(1,2)] unfolding assms(3) sum.case .
  then have "mat_wf n n minv"
    and key: "\<forall>x y. (\<forall>r<n. lin m n x r = y r) \<longleftrightarrow> (\<forall>r<n. lin minv n y r = x r)"
    by (rule conjunct1, rule conjunct2)
  show "mat_wf n n minv"
    by fact
  show "(\<forall>r<n. lin m n x r = y r) \<longleftrightarrow> (\<forall>r<n. lin minv n y r = x r)"
    by (rule key [THEN spec, THEN spec])
qed

lemma Invert_Inr_iff:
  assumes "mat_wf n n m" and "0 < n"
  shows "(\<exists>minv. Invert m = Inr minv) \<longleftrightarrow>
    (\<forall>x. (\<forall>r<n. lin m n x r = 0) \<longrightarrow> (\<forall>r<n. x r = 0))"
proof (cases "Invert m")
  case (Inl e)
  then show ?thesis
    using Invert_cases [OF assms] by auto
next
  case (Inr minv)
  note key = Invert_InrD(2) [OF assms Inr]
  have "x r = 0" if "\<forall>r<n. lin m n x r = 0" "r < n" for x r
  proof -
    have "lin minv n (\<lambda>_. 0) r = x r"
      using key [of x "\<lambda>_. 0"] that by blast
    then show ?thesis by simp
  qed
  then show ?thesis
    using Inr by blast
qed

text \<open>The form the clients use: a square matrix with a trivial kernel is inverted.\<close>

lemma Invert_trivial_kernel:
  assumes m: "mat_wf n n m" and n: "0 < n"
    and kernel: "\<And>x. (\<And>r. r < n \<Longrightarrow> lin m n x r = 0) \<Longrightarrow> (\<And>r. r < n \<Longrightarrow> x r = 0)"
  obtains minv where "Invert m = Inr minv" "mat_wf n n minv"
    "\<And>y r. r < n \<Longrightarrow> lin m n (lin minv n y) r = y r"
    "\<And>x r. r < n \<Longrightarrow> lin minv n (lin m n x) r = x r"
proof -
  have "\<forall>x. (\<forall>r<n. lin m n x r = 0) \<longrightarrow> (\<forall>r<n. x r = 0)"
    by (intro allI impI, rule kernel) simp_all
  with Invert_Inr_iff [OF m n] obtain minv where inv: "Invert m = Inr minv"
    by (elim iffD2 [elim_format] exE)
  note wf = Invert_InrD(1) [OF m n inv] and key = Invert_InrD(2) [OF m n inv]
  show ?thesis
  proof (rule that [OF inv wf])
    show "lin m n (lin minv n y) r = y r" if "r < n" for y r
      using key [of "lin minv n y" y] that by simp
    show "lin minv n (lin m n x) r = x r" if "r < n" for x r
      using key [of x "lin m n x"] that by simp
  qed
qed

lemma mat_eq_lin:
  assumes "mat_wf R C m" "mat_wf R C m'"
    and "\<And>x r. r < R \<Longrightarrow> lin m C x r = lin m' C x r"
  shows "m = m'"
proof (rule mat_eqI [OF assms(1,2)])
  fix r c
  assume "r < R" "c < C"
  then have "GF (m ! r ! c) = GF (m' ! r ! c)"
    using assms(3) [of r "\<lambda>k. if k = c then 1 else 0"] by (simp add: lin_unit)
  then show "m ! r ! c = m' ! r ! c"
    by simp
qed

lemma Multiply_identity:
  assumes m: "mat_wf n n m" and i: "mat_wf n n i" and n: "0 < n"
    and id: "\<And>x r. r < n \<Longrightarrow> lin m n (lin i n x) r = x r"
  shows "Multiply m i = identityMatrix (int n)"
proof -
  obtain p where p: "Multiply m i = Inr p" "mat_wf n n p"
    "\<And>x r. r < n \<Longrightarrow> lin p n x r = lin m n (lin i n x) r"
    using Multiply_Inr [OF m i n n n] by metis
  obtain w where w: "identityMatrix (int n) = Inr w" "mat_wf n n w"
    "\<And>x r. r < n \<Longrightarrow> lin w n x r = x r"
    using identityMatrix_wf [OF n] by metis
  have "p = w"
    using p(3) w(3) id by (intro mat_eq_lin [OF p(2) w(2)]) simp
  then show ?thesis
    using p w by simp
qed

lemma left_inverse_kernel:
  assumes m: "mat_wf n n m" and i: "mat_wf n n i" and n: "0 < n"
    and eq: "Multiply i m = identityMatrix (int n)"
    and zero: "\<And>r. r < n \<Longrightarrow> lin m n x r = 0" and r: "r < n"
  shows "x r = 0"
proof -
  obtain p where p: "Multiply i m = Inr p"
    "\<And>x r. r < n \<Longrightarrow> lin p n x r = lin i n (lin m n x) r"
    using Multiply_Inr [OF i m n n n] by metis
  obtain w where w: "identityMatrix (int n) = Inr w"
    "\<And>x r. r < n \<Longrightarrow> lin w n x r = x r"
    using identityMatrix_wf [OF n] by metis
  have "x r = lin i n (lin m n x) r"
    using p w eq r by (metis sum.inject(2))
  also have "\<dots> = 0"
    using zero by (simp add: lin_def)
  finally show ?thesis .
qed

subsection \<open>Properties\<close>

text \<open>
  C35. When \<open>Invert\<close> returns a matrix, it is the two-sided inverse: both products with the
  argument are the identity matrix.
\<close>

theorem Invert_two_sided:
  assumes "mat_wf n n m" and "0 < n" and "Invert m = Inr minv"
  shows "Multiply m minv = identityMatrix (int n) \<and> Multiply minv m = identityMatrix (int n)"
proof (intro conjI Multiply_identity)
  note key = Invert_InrD(2) [OF assms]
  show "lin m n (lin minv n x) r = x r" if "r < n" for x r
    using key [of "lin minv n x" x] that by simp
  show "lin minv n (lin m n x) r = x r" if "r < n" for x r
    using key [of x "lin m n x"] that by simp
qed (use assms Invert_InrD(1) in auto)

text \<open>The matrix of \<open>TestMatrixInverse\<close> in \<open>matrix_test.go\<close> and the inverse it expects.\<close>

theorem Invert_two_sided_witness:
  "Multiply [[56, 23, 98], [3, 100, 200], [45, 201, 123]]
     [[175, 133, 33], [130, 13, 245], [112, 35, 126]] = identityMatrix 3"
proof -
  have "Invert [[56, 23, 98], [3, 100, 200], [45, 201, 123]] =
      Inr [[175, 133, 33], [130, 13, 245], [112, 35, 126]]"
    by code_simp
  moreover have "mat_wf 3 3 [[56, 23, 98], [3, 100, 200], [45, 201, 123]]"
    by (simp add: mat_wf_def)
  ultimately show ?thesis
    using Invert_two_sided [of 3] by fastforce
qed

text \<open>
  \<open>Invert\<close> is complete: it reports \<open>errSingular\<close> on a square matrix exactly when the
  matrix has no left inverse.
\<close>

theorem Invert_singular_iff:
  assumes m: "mat_wf n n m" and n: "0 < n"
  shows "Invert m = Inl ErrSingular \<longleftrightarrow>
    \<not> (\<exists>i. mat_wf n n i \<and> Multiply i m = identityMatrix (int n))"
proof (cases "Invert m")
  case (Inr minv)
  have "lin minv n (lin m n x) r = x r" if "r < n" for x r
    using Invert_InrD(2) [OF m n Inr, of x "lin m n x"] that by simp
  then have "Multiply minv m = identityMatrix (int n)"
    using m n Invert_InrD(1) [OF m n Inr] by (intro Multiply_identity)
  then show ?thesis
    using Inr Invert_InrD(1) [OF m n Inr] by auto
next
  case (Inl e)
  then obtain x r where "e = ErrSingular" "r < n" "x r \<noteq> 0" "\<And>r. r < n \<Longrightarrow> lin m n x r = 0"
    using Invert_cases [OF m n] by auto
  then show ?thesis
    using Inl left_inverse_kernel [OF m _ n, of _ x r] by blast
qed

theorem Invert_singular_iff_witness:
  "Invert [[4, 2], [12, 6]] = Inl ErrSingular \<and>
   \<not> (\<exists>i. mat_wf 2 2 i \<and> Multiply i [[4, 2], [12, 6]] = identityMatrix 2)"
proof -
  have "Invert [[4, 2], [12, 6]] = Inl ErrSingular"
    by code_simp
  then show ?thesis
    using Invert_singular_iff [of 2 "[[4, 2], [12, 6]]"] by (simp add: mat_wf_def)
qed

end
