(* ===== verification/CodeSpec.thy ===== *)
theory CodeSpec
  imports CodeShards MatrixInverse
begin

text \<open>
  What the calls of \<open>CodeShards\<close> do, and that every plan of \<open>codeSomeShards\<close> computes the matrix
  product.  A call is an update of the outputs with a footprint: rows, inputs and a range of
  positions.  A task is good for a range when each of its calls stays inside the range and
  together they leave, at each position of the range, the sum over all inputs.
\<close>

subsection \<open>The effect of a call\<close>

definition tileEff :: "matrix \<Rightarrow> slice list \<Rightarrow> bool \<Rightarrow> nat \<times> nat \<Rightarrow> nat \<times> nat \<Rightarrow> nat \<times> nat \<Rightarrow>
    nat \<Rightarrow> nat \<Rightarrow> byte \<Rightarrow> byte" where
  "tileEff M ins addTo cs rs rng i q v =
     (if fst rs \<le> i \<and> i < snd rs \<and> fst rng \<le> q \<and> q < snd rng then
        accRow (if addTo then v else 0) (fst cs) (snd cs) (\<lambda>c. M ! i ! c) (\<lambda>c. backing (ins ! c) ! q)
      else v)"

fun callEff :: "arch \<Rightarrow> matrix \<Rightarrow> slice list \<Rightarrow> call \<Rightarrow> nat \<Rightarrow> nat \<Rightarrow> byte \<Rightarrow> byte" where
  "callEff a M ins (GalMul addTo c iRow lo hi) =
     tileEff M ins addTo (c, Suc c) (iRow, Suc iRow) (lo, hi)"
| "callEff a M ins (GalMulAvx2 addTo m inIdx inPer outIdx outPer lo hi) =
     tileEff M ins addTo (inIdx, inIdx + inPer) (outIdx, outIdx + outPer)
       (lo, lo + avxSize a (hi - lo))"
| "callEff a M ins (GalMulAvx512 dimOut io oo lo hi) =
     tileEff M ins (io \<noteq> 0) (io, min (io + 8) (length ins)) (oo, oo + dimOut) (lo, hi)"

text \<open>The tables a call was given hold the coefficients of its tile.\<close>

definition tablesHold :: "matrix \<Rightarrow> byte list \<Rightarrow> nat \<Rightarrow> nat \<Rightarrow> nat \<Rightarrow> nat \<Rightarrow> bool" where
  "tablesHold M m inIdx inPer outIdx outPer \<longleftrightarrow>
     64 * (inPer * outPer) \<le> length m \<and>
     (\<forall>i<outPer. \<forall>j<inPer. blockHolds m (j * outPer + i) (M ! (outIdx + i) ! (inIdx + j)))"

fun callOk :: "arch \<Rightarrow> matrix \<Rightarrow> nat \<Rightarrow> nat \<Rightarrow> nat \<Rightarrow> call \<Rightarrow> bool" where
  "callOk a M nIn nOut sz (GalMul addTo c iRow lo hi) \<longleftrightarrow>
     c < nIn \<and> iRow < nOut \<and> lo \<le> hi \<and> hi \<le> sz"
| "callOk a M nIn nOut sz (GalMulAvx2 addTo m inIdx inPer outIdx outPer lo hi) \<longleftrightarrow>
     avx2CodeGen a \<and> 1 \<le> inPer \<and> inPer \<le> 10 \<and> inIdx + inPer \<le> nIn \<and>
     1 \<le> outPer \<and> outPer \<le> 10 \<and> outIdx + outPer \<le> nOut \<and> lo \<le> hi \<and> hi \<le> sz \<and>
     tablesHold M m inIdx inPer outIdx outPer"
| "callOk a M nIn nOut sz (GalMulAvx512 dimOut io oo lo hi) \<longleftrightarrow>
     0 < dimOut \<and> io < nIn \<and> oo + dimOut \<le> nOut \<and> lo \<le> hi \<and> hi \<le> sz"

definition codeShape :: "matrix \<Rightarrow> slice list \<Rightarrow> slice list \<Rightarrow> nat \<Rightarrow> bool" where
  "codeShape M ins outs sz \<longleftrightarrow> 0 < sz \<and> ins \<noteq> [] \<and> length outs \<le> length M \<and>
     (\<forall>i<length outs. length (M ! i) = length ins) \<and>
     (\<forall>s\<in>set ins. sliceWf s \<and> sliceLen s = sz) \<and> (\<forall>s\<in>set outs. sliceWf s \<and> sliceLen s = sz)"

lemma codeShape_sameShape:
  assumes "codeShape M ins outs sz" and "sameShape outs outs'"
  shows "codeShape M ins outs' sz"
proof -
  have "sliceWf s \<and> sliceLen s = sz" if s: "s \<in> set outs'" for s
  proof -
    have "length outs' = length outs"
      using assms(2) by (simp add: sameShape_def)
    then obtain i where i: "i < length outs" "s = outs' ! i"
      using s by (auto simp: in_set_conv_nth)
    then have "sliceWf (outs ! i) \<and> sliceLen (outs ! i) = sz"
      using assms(1) by (simp add: codeShape_def)
    then show ?thesis
      using i assms(2) by (simp add: sameShape_def sliceWf_def)
  qed
  then show ?thesis
    using assms by (simp add: codeShape_def sameShape_def)
qed

lemma codeShape_Slice:
  assumes "codeShape M ins outs sz" and "i < length outs"
  obtains buf where "outs ! i = Slice buf sz" and "sz \<le> length buf"
proof -
  have "sliceWf (outs ! i) \<and> sliceLen (outs ! i) = sz" and "0 < sz"
    using assms by (auto simp: codeShape_def)
  then show ?thesis
    using that by (cases "outs ! i") auto
qed

lemma codeShape_input:
  assumes "codeShape M ins outs sz" and "c < length ins"
  obtains buf where "ins ! c = Slice buf sz" and "sz \<le> length buf"
proof -
  have "sliceWf (ins ! c) \<and> sliceLen (ins ! c) = sz" and "0 < sz"
    using assms by (auto simp: codeShape_def)
  then show ?thesis
    using that by (cases "ins ! c") auto
qed

lemma runCall_GalMul:
  assumes shape: "codeShape M ins outs sz" and "c < length ins" "iRow < length outs" "lo \<le> hi" "hi \<le> sz"
  shows "runCall a opts M ins outs (GalMul addTo c iRow lo hi) =
    Inr (updMem outs (callEff a M ins (GalMul addTo c iRow lo hi)))"
proof -
  obtain ibuf where ibuf: "ins ! c = Slice ibuf sz" "sz \<le> length ibuf"
    by (rule codeShape_input [OF shape assms(2)])
  obtain obuf where obuf: "outs ! iRow = Slice obuf sz" "sz \<le> length obuf"
    by (rule codeShape_Slice [OF shape assms(3)])
  let ?x = "take (hi - lo) (drop lo ibuf)"
  let ?co = "M ! iRow ! c"
  have x: "length ?x = hi - lo" and hi: "hi \<le> length ibuf" "hi \<le> length obuf"
    using assms(4,5) ibuf(2) obuf(2) by simp_all
  have "\<not> length M \<le> iRow" and "\<not> length (M ! iRow) \<le> c"
    using shape assms(2,3) by (auto simp: codeShape_def)
  moreover have "onSub (outs ! iRow) lo hi
      (\<lambda>out. (if addTo then galMulSliceXor a else galMulSlice a) ?co ?x out opts) =
    Inr (Slice (map (\<lambda>q. callEff a M ins (GalMul addTo c iRow lo hi) iRow q (obuf ! q))
      [0..<length obuf]) sz)"
  proof -
    have eff: "callEff a M ins (GalMul addTo c iRow lo hi) iRow q (obuf ! q) =
        (if lo \<le> q \<and> q < hi then (if addTo then obuf ! q XOR galMultiply ?co (?x ! (q - lo))
          else galMultiply ?co (?x ! (q - lo))) else obuf ! q)" for q
      using ibuf hi by (auto simp: tileEff_def accRow_one)
    show ?thesis
      using arch.mul_sub [OF assms(4) hi(2) x, of sz a ?co opts]
        arch.mul_xor_sub [OF assms(4) hi(2) x, of sz a ?co opts]
      unfolding obuf(1) eff by (cases addTo) (simp_all only: if_True if_False)
  qed
  moreover have "outs[iRow := Slice (map (\<lambda>q. callEff a M ins (GalMul addTo c iRow lo hi) iRow q
        (obuf ! q)) [0..<length obuf]) sz] = updMem outs (callEff a M ins (GalMul addTo c iRow lo hi))"
    unfolding updMem_one [where g = "callEff a M ins (GalMul addTo c iRow lo hi) iRow",
        OF assms(3) obuf(1)]
    by (rule updMem_cong) (auto simp: tileEff_def)
  ultimately show ?thesis
    using assms(2-5) ibuf hi by (simp add: reslice_Slice del: callEff.simps)
qed

lemma runCall_GalMulAvx2:
  assumes shape: "codeShape M ins outs sz"
    and ok: "callOk a M (length ins) (length outs) sz (GalMulAvx2 addTo m ii ip oi op lo hi)"
  shows "runCall a opts M ins outs (GalMulAvx2 addTo m ii ip oi op lo hi) =
    Inr (updMem outs (callEff a M ins (GalMulAvx2 addTo m ii ip oi op lo hi)))"
proof -
  have ins: "sz \<le> sliceCap s" if "s \<in> set ins" for s
    using shape that by (auto simp: codeShape_def sliceWf_def)
  have outs: "sz \<le> sliceCap s" if "s \<in> set outs" for s
    using shape that by (auto simp: codeShape_def sliceWf_def)
  let ?ins = "take ip (drop ii ins)" and ?outs = "take op (drop oi outs)"
  let ?n = "wholeBlocks 64 (hi - lo)"
  have len: "length ?ins = ip" "length ?outs = op"
    using ok by (auto simp: min_def)
  have "runSlicesAvx2 a addTo m ?ins ?outs lo hi =
      Inr (updMem ?outs (\<lambda>i q v. if lo \<le> q \<and> q < lo + ?n then
          accRow (if addTo then v else 0) 0 ip (\<lambda>j. M ! (oi + i) ! (ii + j))
            (\<lambda>j. backing (?ins ! j) ! q) else v), ?n)"
  proof -
    have gen: "avx2CodeGen a" and tabs: "tablesHold M m ii ip oi op"
      and hi: "lo \<le> hi" "hi \<le> sz" and per: "1 \<le> ip" "ip \<le> 10" "1 \<le> op" "op \<le> 10"
      using ok by simp_all
    have caps: "hi \<le> sliceCap s" if "s \<in> set ?ins \<or> s \<in> set ?outs" for s
      using that ins [of s] outs [of s] hi(2) by (auto dest!: in_set_takeD in_set_dropD)
    show ?thesis
      unfolding runSlicesAvx2_def if_P [OF gen]
      using tabs per hi(1) caps unfolding tablesHold_def
      by (subst len(1) [symmetric], intro galMulSlicesAvx2_Inr [where C = "\<lambda>i j. M ! (oi + i) ! (ii + j)"])
        (simp_all only: len, simp_all)
  qed
  moreover have "take oi outs @ updMem ?outs (\<lambda>i q v. if lo \<le> q \<and> q < lo + ?n then
          accRow (if addTo then v else 0) 0 ip (\<lambda>j. M ! (oi + i) ! (ii + j))
            (\<lambda>j. backing (?ins ! j) ! q) else v) @ drop (oi + op) outs =
      updMem outs (callEff a M ins (GalMulAvx2 addTo m ii ip oi op lo hi))"
  proof (rule nth_equalityI)
    fix i
    assume i: "i < length (take oi outs @ updMem ?outs (\<lambda>i q v. if lo \<le> q \<and> q < lo + ?n then
          accRow (if addTo then v else 0) 0 ip (\<lambda>j. M ! (oi + i) ! (ii + j))
            (\<lambda>j. backing (?ins ! j) ! q) else v) @ drop (oi + op) outs)"
    then have i': "i < length outs"
      using len ok by simp
    have acc: "accRow w 0 ip (\<lambda>j. M ! i ! (ii + j)) (\<lambda>j. backing (?ins ! j) ! q) =
        accRow w ii (ii + ip) (\<lambda>c. M ! i ! c) (\<lambda>c. backing (ins ! c) ! q)" for w q
    proof -
      have "accRow w 0 ip (\<lambda>j. M ! i ! (ii + j)) (\<lambda>j. backing (?ins ! j) ! q) =
          accRow w 0 ip (\<lambda>j. M ! i ! (ii + j)) (\<lambda>j. backing (ins ! (ii + j)) ! q)"
        using ok by (intro accRow_cong) auto
      then show ?thesis
        using accRow_shift [of "\<lambda>c. M ! i ! c" ii "\<lambda>c. backing (ins ! c) ! q" w ip]
        by (simp add: accRow_def)
    qed
    consider "i < oi" | "oi \<le> i" "i < oi + op" | "oi + op \<le> i"
      by linarith
    then show "(take oi outs @ updMem ?outs (\<lambda>i q v. if lo \<le> q \<and> q < lo + ?n then
          accRow (if addTo then v else 0) 0 ip (\<lambda>j. M ! (oi + i) ! (ii + j))
            (\<lambda>j. backing (?ins ! j) ! q) else v) @ drop (oi + op) outs) ! i =
      updMem outs (callEff a M ins (GalMulAvx2 addTo m ii ip oi op lo hi)) ! i"
    proof cases
      case 2
      then have r: "oi + (i - oi) = i" "i - oi < op"
        by simp_all
      then show ?thesis
        using i' len ok 2
        by (simp add: nth_append updMem_nth tileEff_def acc avxSize_def cong: if_cong)
    next
      case 1
      then show ?thesis
        using i' ok by (cases "outs ! i") (simp_all add: nth_append updMem_nth tileEff_def map_nth)
    next
      case 3
      then have "\<not> i - oi < op" and "oi + op + (i - oi - op) = i"
        by linarith+
      then show ?thesis
        using i' ok len
        by (cases "outs ! i") (simp_all add: nth_append updMem_nth tileEff_def map_nth)
    qed
  qed (use len ok in simp)
  ultimately show ?thesis
    by simp
qed

lemma runCall_Inr:
  assumes shape: "codeShape M ins outs sz"
    and ok: "callOk a M (length ins) (length outs) sz call"
  shows "runCall a opts M ins outs call = Inr (updMem outs (callEff a M ins call))"
proof (cases call)
  case (GalMul addTo c iRow lo hi)
  then show ?thesis
    using ok unfolding GalMul by (intro runCall_GalMul [OF shape]) simp_all
next
  case (GalMulAvx2 addTo m ii ip oi op lo hi)
  then show ?thesis
    using runCall_GalMulAvx2 [OF shape] ok by blast
next
  case (GalMulAvx512 dimOut io oo lo hi)
  have "avx512Step dimOut M ins outs io oo lo hi = Inr (updMem outs (\<lambda>i q v.
      if oo \<le> i \<and> i < oo + dimOut \<and> lo \<le> q \<and> q < hi then
        accRow (if io = 0 then 0 else v) io (min (io + 8) (length ins)) (\<lambda>c. M ! i ! c)
          (\<lambda>c. backing (ins ! c) ! q)
      else v))"
    using ok shape unfolding GalMulAvx512 callOk.simps codeShape_def
    by (intro avx512Step_Inr) auto
  also have "\<dots> = Inr (updMem outs (callEff a M ins call))"
    unfolding GalMulAvx512
    by (intro arg_cong [where f = Inr] updMem_cong) (simp add: tileEff_def)
  finally show ?thesis
    unfolding GalMulAvx512 runCall.simps .
qed

definition runEff :: "arch \<Rightarrow> matrix \<Rightarrow> slice list \<Rightarrow> call list \<Rightarrow> nat \<Rightarrow> nat \<Rightarrow> byte \<Rightarrow> byte" where
  "runEff a M ins cs i q v = foldl (\<lambda>v x. callEff a M ins x i q v) v cs"

lemma runEff_simps [simp]:
  "runEff a M ins [] i q v = v"
  "runEff a M ins (x # cs) i q v = runEff a M ins cs i q (callEff a M ins x i q v)"
  "runEff a M ins (cs @ ds) i q v = runEff a M ins ds i q (runEff a M ins cs i q v)"
  by (simp_all add: runEff_def)

lemma runCalls_Inr:
  assumes "codeShape M ins outs sz"
    and "\<And>x. x \<in> set cs \<Longrightarrow> callOk a M (length ins) (length outs) sz x"
  shows "fold_result (runCall a opts M ins) outs cs = Inr (updMem outs (runEff a M ins cs))"
  unfolding runEff_def
proof (rule fold_result_updMem [where outs0 = outs and g = "callEff a M ins"])
  fix x outs'
  assume "x \<in> set cs" and shape: "sameShape outs outs'"
  then show "runCall a opts M ins outs' x = Inr (updMem outs' (callEff a M ins x))"
    using codeShape_sameShape [OF assms(1) shape] assms(2) shape
    by (intro runCall_Inr) (auto simp: sameShape_def)
qed simp

subsection \<open>Good tasks\<close>

definition goodTask :: "arch \<Rightarrow> matrix \<Rightarrow> slice list \<Rightarrow> nat \<Rightarrow> nat \<Rightarrow> nat \<times> nat \<Rightarrow> call list \<Rightarrow> bool" where
  "goodTask a M ins nOut sz r cs \<longleftrightarrow>
     (\<forall>x\<in>set cs. callOk a M (length ins) nOut sz x) \<and>
     (\<forall>x\<in>set cs. \<forall>i q v. q < fst r \<or> snd r \<le> q \<longrightarrow> callEff a M ins x i q v = v) \<and>
     (\<forall>i<nOut. \<forall>q v. fst r \<le> q \<and> q < snd r \<longrightarrow>
       runEff a M ins cs i q v = dotRow (length ins) (\<lambda>c. M ! i ! c) (\<lambda>c. backing (ins ! c) ! q))"

lemma runEff_id: "(\<And>x v. x \<in> set cs \<Longrightarrow> callEff a M ins x i q v = v) \<Longrightarrow> runEff a M ins cs i q v = v"
  by (induction cs arbitrary: v) simp_all

lemma goodTask_Nil: "goodTask a M ins nOut sz (b, b) []"
  by (auto simp: goodTask_def)

lemma goodTask_append:
  assumes "goodTask a M ins nOut sz (b, c) cs" and "goodTask a M ins nOut sz (c, d) ds"
    and "b \<le> c" and "c \<le> d"
  shows "goodTask a M ins nOut sz (b, d) (cs @ ds)"
proof -
  have "runEff a M ins ds i q v = v" if "q < c" for i q v
    using assms(2) that by (intro runEff_id) (auto simp: goodTask_def)
  moreover have "runEff a M ins cs i q v = v" if "c \<le> q" for i q v
    using assms(1) that by (intro runEff_id) (auto simp: goodTask_def)
  ultimately show ?thesis
    using assms unfolding goodTask_def
    by (auto simp: not_le not_less) (metis leI)
qed

text \<open>Consecutive ranges.\<close>

fun consec :: "nat \<Rightarrow> nat \<Rightarrow> (nat \<times> nat) list \<Rightarrow> bool" where
  "consec b e [] \<longleftrightarrow> b = e"
| "consec b e (r # rs) \<longleftrightarrow> fst r = b \<and> b < snd r \<and> consec (snd r) e rs"

lemma consec_le: "consec b e rs \<Longrightarrow> b \<le> e"
  by (induction rs arbitrary: b) force+

lemma consec_bounds: "consec b e rs \<Longrightarrow> r \<in> set rs \<Longrightarrow> b \<le> fst r \<and> fst r < snd r \<and> snd r \<le> e"
  by (induction rs arbitrary: b) (force dest: consec_le)+

lemma goodTask_concat:
  "consec b e rs \<Longrightarrow> (\<And>r. r \<in> set rs \<Longrightarrow> goodTask a M ins nOut sz r (f r)) \<Longrightarrow>
    goodTask a M ins nOut sz (b, e) (concat (map f rs))"
proof (induction rs arbitrary: b)
  case Nil
  then show ?case by (simp add: goodTask_Nil)
next
  case (Cons r rs)
  have "goodTask a M ins nOut sz (b, snd r) (f r)"
    using Cons.prems by (metis consec.simps(2) list.set_intros(1) prod.collapse)
  moreover have "goodTask a M ins nOut sz (snd r, e) (concat (map f rs))"
    using Cons by simp
  moreover have "snd r \<le> e"
    using Cons.prems(1) consec_le by auto
  ultimately show ?case
    using Cons.prems(1) by (auto intro: goodTask_append)
qed

subsection \<open>Double loops over inputs and outputs\<close>

text \<open>
  At one position of one output, a double loop over consecutive groups of inputs and of outputs,
  in either order, adds up all inputs.
\<close>

definition groupEff :: "(nat \<Rightarrow> byte) \<Rightarrow> (nat \<Rightarrow> byte) \<Rightarrow> nat \<Rightarrow> nat \<times> nat \<Rightarrow> nat \<times> nat \<Rightarrow> byte \<Rightarrow> byte" where
  "groupEff f g i cs rs v =
     (if fst rs \<le> i \<and> i < snd rs then accRow (if fst cs \<noteq> 0 then v else 0) (fst cs) (snd cs) f g else v)"

lemma foldl_outputs:
  "consec b e rs \<Longrightarrow>
    foldl (\<lambda>v r. groupEff f g i cs r v) v rs =
      (if b \<le> i \<and> i < e then accRow (if fst cs \<noteq> 0 then v else 0) (fst cs) (snd cs) f g else v)"
proof (induction rs arbitrary: b v)
  case (Cons r rs)
  have "snd r \<le> e"
    using Cons.prems consec_le by auto
  then show ?case
    using Cons by (auto simp: groupEff_def)
qed auto

lemma foldl_inputs:
  "consec b e cs \<Longrightarrow> fst rs \<le> i \<and> i < snd rs \<Longrightarrow> 0 < b \<Longrightarrow>
    foldl (\<lambda>v c. groupEff f g i c rs v) (accRow 0 0 b f g) cs = accRow 0 0 e f g"
proof (induction cs arbitrary: b)
  case (Cons c cs)
  then have "groupEff f g i c rs (accRow 0 0 b f g) = accRow 0 0 (snd c) f g"
    by (simp add: groupEff_def accRow_append)
  then show ?case
    using Cons by simp
qed simp

lemma foldl_inputs_all:
  assumes "consec 0 e cs" and "fst rs \<le> i" and "i < snd rs" and "0 < e"
  shows "foldl (\<lambda>v c. groupEff f g i c rs v) v cs = accRow 0 0 e f g"
proof (cases cs)
  case Nil
  then show ?thesis
    using assms by simp
next
  case (Cons c cs')
  then show ?thesis
    using assms foldl_inputs [of "snd c" e cs' rs i f g] by (simp add: groupEff_def)
qed

lemma foldl_concat: "foldl f v (concat xss) = foldl (\<lambda>v xs. foldl f v xs) v xss"
  by (induction xss arbitrary: v) simp_all

lemma inputs_outputs:
  assumes "consec 0 nIn cs" and "consec 0 nOut rs" and "0 < nIn" and "i < nOut"
  shows "foldl (\<lambda>v x. groupEff f g i (fst x) (snd x) v) v (List.product cs rs) = accRow 0 0 nIn f g"
proof -
  have "List.product cs rs = concat (map (\<lambda>c. map (Pair c) rs) cs)"
    by (induction cs) simp_all
  then have "foldl (\<lambda>v x. groupEff f g i (fst x) (snd x) v) v (List.product cs rs) =
      foldl (\<lambda>v c. foldl (\<lambda>v r. groupEff f g i c r v) v rs) v cs"
    by (simp add: foldl_concat foldl_map)
  also have "\<dots> = foldl (\<lambda>v c. groupEff f g i c (0, nOut) v) v cs"
    using foldl_outputs [OF assms(2)] assms(4) by (simp add: groupEff_def)
  also have "\<dots> = accRow 0 0 nIn f g"
    using assms by (intro foldl_inputs_all) simp_all
  finally show ?thesis .
qed

lemma outputs_inputs:
  assumes "consec 0 nIn cs" and "consec b nOut rs" and "0 < nIn" and "b \<le> i" and "i < nOut"
  shows "foldl (\<lambda>v x. groupEff f g i (snd x) (fst x) v) v (List.product rs cs) = accRow 0 0 nIn f g"
  using assms(2,4)
proof (induction rs arbitrary: b v)
  case Nil
  then show ?case using assms(5) by simp
next
  case (Cons r rs)
  have le: "snd r \<le> nOut"
    using Cons.prems consec_le by auto
  have row: "foldl (\<lambda>v x. groupEff f g i (snd x) (fst x) v) v (map (Pair r) cs) =
      (if i < snd r then accRow 0 0 nIn f g else v)" for v
  proof (cases "i < snd r")
    case True
    then show ?thesis
      using Cons.prems assms(1,3) by (simp add: foldl_map foldl_inputs_all)
  next
    case False
    then have "groupEff f g i c r v = v" for c v
      by (simp add: groupEff_def)
    then show ?thesis
      using False by (simp add: foldl_map)
  qed
  have later: "foldl (\<lambda>v x. groupEff f g i (snd x) (fst x) v) v (List.product rs cs) = v"
    if "i < snd r" for v
  proof -
    have "groupEff f g i (snd x) (fst x) w = w" if "x \<in> set (List.product rs cs)" for x w
      using that \<open>i < snd r\<close> Cons.prems(1) consec_bounds [of "snd r" nOut rs "fst x"]
      by (auto simp: groupEff_def)
    then have "foldl (\<lambda>v x. groupEff f g i (snd x) (fst x) v) v (List.product rs cs) =
        foldl (\<lambda>v x. v) v (List.product rs cs)"
      by (intro foldl_cong) simp_all
    then show ?thesis
      by simp
  qed
  show ?case
  proof (cases "i < snd r")
    case True
    then show ?thesis
      using row later by simp
  next
    case False
    then show ?thesis
      using row Cons.prems Cons.IH [of "snd r"] by simp
  qed
qed

lemma goodTask_groups:
  assumes ok: "\<And>x. x \<in> set gs \<Longrightarrow> callOk a M (length ins) nOut sz (F x)"
    and eff: "\<And>x i q v. x \<in> set gs \<Longrightarrow> callEff a M ins (F x) i q v =
      (if lo \<le> q \<and> q < hi then
         groupEff (\<lambda>c. M ! i ! c) (\<lambda>c. backing (ins ! c) ! q) i (C x) (R x) v
       else v)"
    and all: "\<And>i f g v. i < nOut \<Longrightarrow>
      foldl (\<lambda>v x. groupEff f g i (C x) (R x) v) v gs = accRow 0 0 (length ins) f g"
  shows "goodTask a M ins nOut sz (lo, hi) (map F gs)"
proof -
  have "runEff a M ins (map F gs) i q v =
      dotRow (length ins) (\<lambda>c. M ! i ! c) (\<lambda>c. backing (ins ! c) ! q)"
    if "i < nOut" "lo \<le> q" "q < hi" for i q v
  proof -
    have "runEff a M ins (map F gs) i q v = foldl (\<lambda>v x.
        groupEff (\<lambda>c. M ! i ! c) (\<lambda>c. backing (ins ! c) ! q) i (C x) (R x) v) v gs"
      unfolding runEff_def foldl_map using that by (intro foldl_cong) (simp_all add: eff)
    then show ?thesis
      using all [OF that(1)] by (simp add: accRow_dotRow)
  qed
  then show ?thesis
    using ok eff by (auto simp: goodTask_def)
qed

subsection \<open>The loops of a round\<close>

lemma consec_units: "b \<le> e \<Longrightarrow> consec b e (map (\<lambda>c. (c, Suc c)) [b..<e])"
proof (induction "e - b" arbitrary: b)
  case (Suc n)
  then show ?case
    by (simp add: upt_conv_Cons)
qed simp

lemma consec_chunks: "0 < per \<Longrightarrow> idx \<le> n \<Longrightarrow> consec idx n (chunks per idx n)"
proof (induction per idx n rule: chunks.induct)
  case (1 per idx n)
  then show ?case
    by (subst chunks.simps) auto
qed

lemma chunks_bounds:
  assumes "x \<in> set (chunks per 0 n)"
  shows "fst x < snd x" and "snd x \<le> n" and "snd x - fst x \<le> per"
proof -
  have "0 < per"
    using assms by (subst (asm) chunks.simps) (auto split: if_splits)
  then show "fst x < snd x" "snd x \<le> n"
    using consec_bounds [OF consec_chunks assms] by auto
  have "y \<in> set (chunks per idx n) \<Longrightarrow> snd y - fst y \<le> per" for y idx
  proof (induction per idx n rule: chunks.induct)
    case (1 per idx n)
    then show ?case
      by (subst (asm) (2) chunks.simps) (auto split: if_splits)
  qed
  then show "snd x - fst x \<le> per"
    using assms .
qed

lemma chunks_end:
  "x \<in> set (chunks per idx n) \<Longrightarrow> fst x < n \<and> snd x = min (fst x + per) n"
proof (induction per idx n rule: chunks.induct)
  case (1 per idx n)
  then show ?case
    by (subst (asm) (2) chunks.simps) (auto split: if_splits)
qed

lemma product_concat: "List.product xs ys = concat (map (\<lambda>x. map (Pair x) ys) xs)"
  by (induction xs) simp_all

lemma roundCalls_good:
  assumes "ins \<noteq> []" and "lo \<le> hi" and "hi \<le> sz"
  shows "goodTask a M ins nOut sz (lo, hi) (roundCalls (length ins) nOut (lo, hi))"
proof -
  let ?gs = "List.product (map (\<lambda>c. (c, Suc c)) [0..<length ins]) (map (\<lambda>c. (c, Suc c)) [0..<nOut])"
  let ?F = "\<lambda>x. GalMul (fst (fst x) \<noteq> 0) (fst (fst x)) (fst (snd x)) lo hi"
  have "roundCalls (length ins) nOut (lo, hi) = map ?F ?gs"
    by (simp add: roundCalls_def product_concat map_concat o_def)
  moreover have "goodTask a M ins nOut sz (lo, hi) (map ?F ?gs)"
  proof (rule goodTask_groups [where C = fst and R = snd])
    fix i :: nat and f g :: "nat \<Rightarrow> byte" and v
    assume "i < nOut"
    then show "foldl (\<lambda>v x. groupEff f g i (fst x) (snd x) v) v ?gs = accRow 0 0 (length ins) f g"
      using assms(1) by (intro inputs_outputs [OF consec_units consec_units]) simp_all
  qed (use assms in \<open>auto simp: tileEff_def groupEff_def\<close>)
  ultimately show ?thesis
    by simp
qed

text \<open>A tile whose tables hold its coefficients, on the whole blocks of its range.\<close>

lemma tiles_good:
  assumes gs: "\<And>i f g v. i < nOut \<Longrightarrow>
      foldl (\<lambda>v x. groupEff f g i (C x) (R x) v) v gs = accRow 0 0 (length ins) f g"
    and ok: "\<And>x. x \<in> set gs \<Longrightarrow>
      fst (C x) < snd (C x) \<and> snd (C x) \<le> length ins \<and> snd (C x) - fst (C x) \<le> 10 \<and>
      fst (R x) < snd (R x) \<and> snd (R x) \<le> nOut \<and> snd (R x) - fst (R x) \<le> 10 \<and>
      tablesHold M (T x) (fst (C x)) (snd (C x) - fst (C x)) (fst (R x)) (snd (R x) - fst (R x))"
    and "avx2CodeGen a" and "lo \<le> hi" and "hi \<le> sz"
  shows "goodTask a M ins nOut sz (lo, lo + avxSize a (hi - lo))
    (map (\<lambda>x. GalMulAvx2 (fst (C x) \<noteq> 0) (T x) (fst (C x)) (snd (C x) - fst (C x))
      (fst (R x)) (snd (R x) - fst (R x)) lo hi) gs)"
proof (rule goodTask_groups [where C = C and R = R])
  fix x
  assume x: "x \<in> set gs"
  show "callOk a M (length ins) nOut sz (GalMulAvx2 (fst (C x) \<noteq> 0) (T x) (fst (C x))
      (snd (C x) - fst (C x)) (fst (R x)) (snd (R x) - fst (R x)) lo hi)"
    using ok [OF x] assms(3-5) by auto
  show "callEff a M ins (GalMulAvx2 (fst (C x) \<noteq> 0) (T x) (fst (C x))
      (snd (C x) - fst (C x)) (fst (R x)) (snd (R x) - fst (R x)) lo hi) i q v =
    (if lo \<le> q \<and> q < lo + avxSize a (hi - lo) then
         groupEff (\<lambda>c. M ! i ! c) (\<lambda>c. backing (ins ! c) ! q) i (C x) (R x) v
       else v)" for i q v
    using ok [OF x] by (auto simp: tileEff_def groupEff_def)
qed (rule gs)

lemma avx512Batches_consec:
  "row \<le> n \<Longrightarrow> consec row n (avx512Batches row n)"
proof (induction row n rule: avx512Batches.induct)
  case (1 row n)
  then show ?case
    by (subst avx512Batches.simps) auto
qed

lemma avx512Round_good:
  assumes "ins \<noteq> []" and "lo \<le> hi" and "hi \<le> sz"
  shows "goodTask a M ins nOut sz (lo, hi) (avx512Round (length ins) nOut (lo, hi))"
proof -
  let ?cs = "chunks dimIn 0 (length ins)" and ?rs = "avx512Batches 0 nOut"
  let ?F = "\<lambda>x. GalMulAvx512 (snd (fst x) - fst (fst x)) (fst (snd x)) (fst (fst x)) lo hi"
  have cs: "consec 0 (length ins) ?cs"
    by (rule consec_chunks) (simp_all add: dimIn_def)
  have rs: "consec 0 nOut ?rs"
    by (rule avx512Batches_consec) simp
  have "avx512Round (length ins) nOut (lo, hi) = map ?F (List.product ?rs ?cs)"
    by (simp add: avx512Round_def product_concat map_concat o_def)
  moreover have "goodTask a M ins nOut sz (lo, hi) (map ?F (List.product ?rs ?cs))"
  proof (rule goodTask_groups [where C = snd and R = fst])
    fix i :: nat and f g :: "nat \<Rightarrow> byte" and v
    assume "i < nOut"
    then show "foldl (\<lambda>v x. groupEff f g i (snd x) (fst x) v) v (List.product ?rs ?cs) =
        accRow 0 0 (length ins) f g"
      using assms(1) by (intro outputs_inputs [OF cs rs]) simp_all
  next
    fix x
    assume x: "x \<in> set (List.product ?rs ?cs)"
    then have r: "fst (fst x) < snd (fst x)" "snd (fst x) \<le> nOut"
      using consec_bounds [OF rs, of "fst x"] by auto
    have c: "fst (snd x) < length ins" "snd (snd x) = min (fst (snd x) + 8) (length ins)"
      using x chunks_end [of "snd x" dimIn 0 "length ins"] by (auto simp: dimIn_def)
    show "callOk a M (length ins) nOut sz (?F x)"
      using r c assms by auto
    show "callEff a M ins (?F x) i q v = (if lo \<le> q \<and> q < hi then
         groupEff (\<lambda>c. M ! i ! c) (\<lambda>c. backing (ins ! c) ! q) i (snd x) (fst x) v else v)" for i q v
      using r c by (auto simp: tileEff_def groupEff_def)
  qed
  ultimately show ?thesis
    by simp
qed

subsection \<open>Rounds end and are consecutive\<close>

lemma roundEnd_bounds: "0 < per \<Longrightarrow> lo < stop \<Longrightarrow> lo < roundEnd per stop lo \<and> roundEnd per stop lo \<le> stop"
  by (auto simp: roundEnd_def)

lemma rounds_Some:
  "0 < per \<Longrightarrow> lo \<le> stop \<Longrightarrow> (lo < stop \<Longrightarrow> lo < hi \<and> hi \<le> stop) \<Longrightarrow>
    \<exists>rs. rounds per stop lo hi = Some rs \<and> consec lo stop rs"
proof (induction "stop - lo" arbitrary: lo hi rule: less_induct)
  case less
  show ?case
  proof (cases "lo < stop")
    case True
    then have hi: "lo < hi" "hi \<le> stop"
      using less.prems by auto
    have "\<exists>rs. rounds per stop hi (roundEnd per stop hi) = Some rs \<and> consec hi stop rs"
      using less.prems(1) hi True by (intro less.hyps) (simp_all add: roundEnd_bounds)
    then show ?thesis
      using True hi by (subst rounds.simps) auto
  next
    case False
    then show ?thesis
      using less.prems(2) by (subst rounds.simps) simp
  qed
qed

lemma rounds_start:
  assumes "0 < per" and "lo \<le> stop"
  obtains rs where "rounds per stop lo (roundEnd per stop lo) = Some rs" and "consec lo stop rs"
  using rounds_Some [OF assms, of "roundEnd per stop lo"] roundEnd_bounds [OF assms(1)] by blast

lemma jobRanges_Inr:
  assumes "0 < per"
  obtains rs where "jobRanges per n = Inr rs" and "consec 0 n rs"
  using rounds_start [OF assms, of 0 n] unfolding jobRanges_def loopResult_def by force

lemma mapResult_Inr:
  assumes "\<And>x. x \<in> set xs \<Longrightarrow> \<exists>y. f x = Inr y \<and> P x y"
  obtains ys where "mapResult f xs = Inr ys" and "list_all2 P xs ys"
proof -
  have "\<exists>ys. mapResult f xs = Inr ys \<and> list_all2 P xs ys"
    using assms by (induction xs) force+
  then show ?thesis
    using that by blast
qed

subsection \<open>Tables\<close>

lemma blockHolds_take: "blockHolds buf k c \<Longrightarrow> k * 64 + 64 \<le> n \<Longrightarrow> blockHolds (take n buf) k c"
  by (auto simp: blockHolds_def)

definition rowsFit :: "matrix \<Rightarrow> nat \<Rightarrow> nat \<Rightarrow> bool" where
  "rowsFit M nIn nOut \<longleftrightarrow> nOut \<le> length M \<and> (\<forall>i<nOut. length (M ! i) = nIn)"

lemma gen_tile:
  assumes M: "rowsFit M nIn nOut"
    and c: "ii < ie" "ie \<le> nIn" and r: "oi < oe" "oe \<le> nOut"
  obtains buf where "genAvx2Matrix True (drop oi M) (ie - ii) ii (oe - oi) dst =
      Inr (Slice buf (64 * ((ie - ii) * (oe - oi))))"
    and "tablesHold M (take (64 * ((ie - ii) * (oe - oi))) buf) ii (ie - ii) oi (oe - oi)"
    and "length buf = max (sliceCap dst) (64 * ((ie - ii) * (oe - oi)))"
proof -
  let ?n = "64 * ((ie - ii) * (oe - oi))"
  have rows: "oe - oi \<le> length (drop oi M)"
    and cols: "ii + (ie - ii) \<le> length (drop oi M ! i)" if "i < oe - oi" for i
    using M c r that unfolding rowsFit_def by auto
  have rows: "oe - oi \<le> length (drop oi M)"
    using M r unfolding rowsFit_def by auto
  obtain buf where buf: "genAvx2Matrix True (drop oi M) (ie - ii) ii (oe - oi) dst = Inr (Slice buf ?n)"
    "?n \<le> length buf"
    and holds: "\<And>i j. i < oe - oi \<Longrightarrow> j < ie - ii \<Longrightarrow>
      blockHolds buf (j * (oe - oi) + i) (drop oi M ! i ! (ii + j))"
    and len: "length buf = max (sliceCap dst) ?n"
  proof (rule genAvx2Matrix_Inr [OF rows cols, where dst = dst])
    show "0 < ie - ii" "0 < oe - oi"
      using c r by simp_all
  qed blast+
  have "blockHolds (take ?n buf) (j * (oe - oi) + i) (M ! (oi + i) ! (ii + j))"
    if "i < oe - oi" "j < ie - ii" for i j
    using holds [OF that] that block_fits [OF that, of ?n] M r
    by (intro blockHolds_take) (simp_all add: rowsFit_def)
  then have "tablesHold M (take ?n buf) ii (ie - ii) oi (oe - oi)"
    using buf(2) by (simp add: tablesHold_def)
  then show ?thesis
    using that buf(1) len by blast
qed

definition tileOk :: "nat \<Rightarrow> nat \<Rightarrow> (nat \<times> nat) \<times> (nat \<times> nat) \<Rightarrow> bool" where
  "tileOk nIn nOut t \<longleftrightarrow> fst (fst t) < snd (fst t) \<and> snd (fst t) \<le> nIn \<and>
     fst (snd t) < snd (snd t) \<and> snd (snd t) \<le> nOut"

definition tileSize :: "(nat \<times> nat) \<times> (nat \<times> nat) \<Rightarrow> nat" where
  "tileSize t = 64 * ((snd (fst t) - fst (fst t)) * (snd (snd t) - fst (snd t)))"

definition tileHolds :: "matrix \<Rightarrow> byte list \<Rightarrow> (nat \<times> nat) \<times> (nat \<times> nat) \<Rightarrow> bool" where
  "tileHolds M m t \<longleftrightarrow> tablesHold M m (fst (fst t)) (snd (fst t) - fst (fst t))
     (fst (snd t)) (snd (snd t) - fst (snd t))"

lemma planTiles_Inr:
  assumes M: "rowsFit M nIn nOut" and gen: "avx2CodeGen a"
  shows "(\<And>t. t \<in> set ts \<Longrightarrow> tileOk nIn nOut t) \<Longrightarrow> sum_list (map tileSize ts) \<le> sliceLen tmp \<Longrightarrow>
    sliceWf tmp \<Longrightarrow>
    \<exists>ps. planTiles a M tmp ts = Inr ps \<and> map snd ps = ts \<and> (\<forall>p\<in>set ps. tileHolds M (fst p) (snd p))"
proof (induction ts arbitrary: tmp)
  case (Cons t ts)
  obtain ii ie oi oe where t: "t = ((ii, ie), (oi, oe))"
    by (metis prod.collapse)
  have ok: "ii < ie" "ie \<le> nIn" "oi < oe" "oe \<le> nOut"
    using Cons.prems(1) [of t] by (simp_all add: tileOk_def t)
  let ?n = "64 * ((ie - ii) * (oe - oi))"
  obtain buf where buf: "genAvx2Matrix True (drop oi M) (ie - ii) ii (oe - oi) tmp = Inr (Slice buf ?n)"
    "tablesHold M (take ?n buf) ii (ie - ii) oi (oe - oi)"
    by (rule gen_tile [OF M ok])
  have n: "?n + sum_list (map tileSize ts) \<le> sliceLen tmp"
    using Cons.prems(2) tileSize_def [of t] by (simp add: t)
  obtain tb tl where tmp: "tmp = Slice tb tl" "tl \<le> length tb"
  proof (cases tmp)
    case NilSlice
    then have "?n = 0"
      using n by simp
    then show ?thesis
      using ok by simp
  qed (use Cons.prems(3) that in auto)
  have "resliceFrom tmp ?n = Inr (Slice (drop ?n tb) (tl - ?n))"
    using n tmp by (simp add: resliceFrom_Slice)
  moreover have "\<exists>ps. planTiles a M (Slice (drop ?n tb) (tl - ?n)) ts = Inr ps \<and> map snd ps = ts \<and>
      (\<forall>p\<in>set ps. tileHolds M (fst p) (snd p))"
    using Cons.prems n tmp by (intro Cons.IH) auto
  ultimately show ?case
    using buf gen by (auto simp: t tileHolds_def)
qed simp

lemma serialTiles_Inr:
  assumes M: "rowsFit M nIn nOut" and gen: "avx2CodeGen a"
  shows "(\<And>t. t \<in> set ts \<Longrightarrow> tileOk nIn nOut t) \<Longrightarrow>
    \<exists>ps. serialTiles a M n m ts = Inr (map (tileCall 0 n) ps) \<and> map snd ps = ts \<and>
      (\<forall>p\<in>set ps. tileHolds M (fst p) (snd p))"
proof (induction ts arbitrary: m)
  case (Cons t ts)
  obtain ii ie oi oe where t: "t = ((ii, ie), (oi, oe))"
    by (metis prod.collapse)
  have ok: "ii < ie" "ie \<le> nIn" "oi < oe" "oe \<le> nOut"
    using Cons.prems(1) [of t] by (simp_all add: tileOk_def t)
  let ?n = "64 * ((ie - ii) * (oe - oi))"
  obtain buf where buf: "genAvx2Matrix True (drop oi M) (ie - ii) ii (oe - oi) m = Inr (Slice buf ?n)"
    "tablesHold M (take ?n buf) ii (ie - ii) oi (oe - oi)"
    by (rule gen_tile [OF M ok])
  obtain ps where "serialTiles a M n (Slice buf ?n) ts = Inr (map (tileCall 0 n) ps)"
    "map snd ps = ts" "\<forall>p\<in>set ps. tileHolds M (fst p) (snd p)"
    using Cons by (metis list.set_intros(2))
  then show ?case
    using buf gen
    by (intro exI [of _ "(take ?n buf, t) # ps"]) (simp add: t tileHolds_def tileCall_def)
qed simp

text \<open>Cut along both sides, the tiles of a matrix take as much room as the whole.\<close>

lemma consec_sum: "consec b e rs \<Longrightarrow> sum_list (map (\<lambda>r. snd r - fst r) rs) = e - b"
proof (induction rs arbitrary: b)
  case (Cons r rs)
  then show ?case
    using consec_le [of "snd r" e rs] by auto
qed simp

lemma sum_list_product:
  "sum_list (map (\<lambda>x. g (fst x) * h (snd x)) (List.product xs ys)) =
    sum_list (map g xs) * (sum_list (map h ys) :: nat)"
  by (induction xs) (simp_all add: o_def sum_list_const_mult distrib_right)

lemma sum_tileSize:
  assumes "consec 0 nIn cs" and "consec 0 nOut rs"
  shows "sum_list (map tileSize (List.product cs rs)) = 64 * (nIn * nOut)"
    and "sum_list (map tileSize (map prod.swap (List.product rs cs))) = 64 * (nIn * nOut)"
proof -
  let ?w = "\<lambda>r :: nat \<times> nat. snd r - fst r"
  have "sum_list (map tileSize (List.product cs rs)) =
      64 * sum_list (map (\<lambda>x. ?w (fst x) * ?w (snd x)) (List.product cs rs))"
    by (simp add: tileSize_def [abs_def] sum_list_const_mult)
  then show "sum_list (map tileSize (List.product cs rs)) = 64 * (nIn * nOut)"
    using consec_sum [OF assms(1)] consec_sum [OF assms(2)] sum_list_product [of ?w ?w cs rs] by simp
  have "sum_list (map tileSize (map prod.swap (List.product rs cs))) =
      64 * sum_list (map (\<lambda>x. ?w (fst x) * ?w (snd x)) (List.product rs cs))"
    by (simp add: tileSize_def [abs_def] sum_list_const_mult o_def mult.commute)
  then show "sum_list (map tileSize (map prod.swap (List.product rs cs))) = 64 * (nIn * nOut)"
    using consec_sum [OF assms(1)] consec_sum [OF assms(2)] sum_list_product [of ?w ?w rs cs]
    by (simp add: mult.commute)
qed

subsection \<open>Every plan is good\<close>

definition optsOk :: "arch \<Rightarrow> options \<Rightarrow> bool" where
  "optsOk a opts \<longleftrightarrow> 0 < perRound opts \<and> 1 \<le> maxGoroutines opts \<and> 0 < minSplitSize opts \<and>
     (useAVX512 opts \<longrightarrow> hasAvx512 a)"

lemma plainRounds_good:
  assumes "ins \<noteq> []" and "stop \<le> sz" and "consec start stop rs"
  shows "goodTask a M ins nOut sz (start, stop) (concat (map (roundCalls (length ins) nOut) rs))"
proof (rule goodTask_concat [OF assms(3)])
  fix r
  assume "r \<in> set rs"
  then have "fst r < snd r" "snd r \<le> stop"
    using consec_bounds [OF assms(3)] by auto
  then show "goodTask a M ins nOut sz r (roundCalls (length ins) nOut r)"
    using roundCalls_good [of ins "fst r" "snd r" sz a M nOut] assms(1,2) by simp
qed

lemma fullTile_good:
  assumes "avx2CodeGen a" and "tablesHold M m 0 (length ins) 0 nOut"
    and "0 < length ins" "length ins \<le> 10" "0 < nOut" "nOut \<le> 10" "lo \<le> hi" "hi \<le> sz"
  shows "goodTask a M ins nOut sz (lo, lo + avxSize a (hi - lo))
    [GalMulAvx2 False m 0 (length ins) 0 nOut lo hi]"
  using tiles_good [where gs = "[()]" and C = "\<lambda>_. (0, length ins)" and R = "\<lambda>_. (0, nOut)" and
      T = "\<lambda>_. m", of nOut ins M a lo hi sz] assms
  by (simp add: groupEff_def)

lemma avxSize_le: "avxSize a n \<le> n"
  by (simp add: avxSize_def wholeBlocks_le)

lemma execP_good:
  assumes "0 < perRound opts" and ins: "ins \<noteq> []" and "lo \<le> hi" and "hi \<le> sz" and "0 < nOut"
    and m: "\<And>m. avx2Matrix = Some m \<Longrightarrow> avx2CodeGen a \<and> tablesHold M m 0 (length ins) 0 nOut \<and>
      length ins \<le> 10 \<and> nOut \<le> 10"
  shows "\<exists>cs. execP a opts (length ins) nOut avx2Matrix (lo, hi) = Inr cs \<and>
    goodTask a M ins nOut sz (lo, hi) cs"
proof -
  define avx where "avx = (case avx2Matrix of
      None \<Rightarrow> ([], lo)
    | Some m \<Rightarrow> if 64 \<le> hi - lo then
        ([GalMulAvx2 False m 0 (length ins) 0 nOut lo hi], lo + avxSize a (hi - lo))
      else ([], lo))"
  have avx: "goodTask a M ins nOut sz (lo, snd avx) (fst avx)" "lo \<le> snd avx" "snd avx \<le> hi"
  proof -
    have "goodTask a M ins nOut sz (lo, snd avx) (fst avx) \<and> lo \<le> snd avx \<and> snd avx \<le> hi"
      using fullTile_good [of a M _ ins nOut lo hi sz] m assms(2-5) goodTask_Nil avxSize_le [of a "hi - lo"]
      by (auto simp: avx_def Suc_le_eq split: option.splits)
    then show "goodTask a M ins nOut sz (lo, snd avx) (fst avx)" "lo \<le> snd avx" "snd avx \<le> hi"
      by simp_all
  qed
  obtain rs where rs: "rounds (perRound opts) hi (snd avx) (roundEnd (perRound opts) hi (snd avx)) = Some rs"
    "consec (snd avx) hi rs"
    by (rule rounds_start [OF assms(1) avx(3)])
  have "goodTask a M ins nOut sz (lo, hi) (fst avx @ concat (map (roundCalls (length ins) nOut) rs))"
    using plainRounds_good [OF ins assms(4) rs(2)] avx by (intro goodTask_append [of _ _ _ _ _ _ "snd avx"]) auto
  moreover have "execP a opts (length ins) nOut avx2Matrix (lo, hi) =
      Inr (fst avx @ concat (map (roundCalls (length ins) nOut) rs))"
    by (simp only: execP_def Let_def fst_conv snd_conv avx_def [symmetric] rs(1) loopResult_def
        option.case bind_result_simps)
  ultimately show ?thesis
    by blast
qed

lemma goodTask_tileCalls:
  assumes tiles: "\<And>i f g v. i < nOut \<Longrightarrow>
      foldl (\<lambda>v t. groupEff f g i (fst t) (snd t) v) v (map snd ps) = accRow 0 0 (length ins) f g"
    and ps: "\<And>p. p \<in> set ps \<Longrightarrow> tileOk (length ins) nOut (snd p) \<and> tileHolds M (fst p) (snd p) \<and>
      snd (fst (snd p)) - fst (fst (snd p)) \<le> 10 \<and> snd (snd (snd p)) - fst (snd (snd p)) \<le> 10"
    and "avx2CodeGen a" and "lo \<le> hi" and "hi \<le> sz"
  shows "goodTask a M ins nOut sz (lo, lo + avxSize a (hi - lo)) (map (tileCall lo hi) ps)"
proof -
  have eq: "map (tileCall lo hi) ps = map (\<lambda>p. GalMulAvx2 (fst (fst (snd p)) \<noteq> 0) (fst p)
      (fst (fst (snd p))) (snd (fst (snd p)) - fst (fst (snd p)))
      (fst (snd (snd p))) (snd (snd (snd p)) - fst (snd (snd p))) lo hi) ps"
    by (auto simp: tileCall_def split: prod.splits)
  show ?thesis
    unfolding eq
  proof (rule tiles_good [where C = "\<lambda>p. fst (snd p)" and R = "\<lambda>p. snd (snd p)" and T = fst])
    show "foldl (\<lambda>v x. groupEff f g i (fst (snd x)) (snd (snd x)) v) v ps =
        accRow 0 0 (length ins) f g" if "i < nOut" for i f g v
      using tiles [OF that] by (simp add: foldl_map)
  qed (use ps assms(3-5) in \<open>auto simp: tileOk_def tileHolds_def\<close>)
qed

lemma execAVXP_good:
  assumes per: "0 < per" and ins: "ins \<noteq> []" and "stop \<le> sz" and gen: "avx2CodeGen a"
    and tiles: "\<And>i f g v. i < nOut \<Longrightarrow>
      foldl (\<lambda>v t. groupEff f g i (fst t) (snd t) v) v (map snd ps) = accRow 0 0 (length ins) f g"
    and ps: "\<And>p. p \<in> set ps \<Longrightarrow> tileOk (length ins) nOut (snd p) \<and> tileHolds M (fst p) (snd p) \<and>
      snd (fst (snd p)) - fst (fst (snd p)) \<le> 10 \<and> snd (snd (snd p)) - fst (snd (snd p)) \<le> 10"
  shows "lo \<le> stop \<Longrightarrow> (lo < stop \<Longrightarrow> lo < hi \<and> hi \<le> stop) \<Longrightarrow>
    \<exists>cs. execAVXP a per (length ins) nOut ps stop lo hi = Some cs \<and>
      goodTask a M ins nOut sz (lo, stop) cs"
proof (induction "stop - lo" arbitrary: lo hi rule: less_induct)
  case less
  show ?case
  proof (cases "lo < stop")
    case True
    then have hi: "lo < hi" "hi \<le> stop"
      using less.prems by auto
    have "stop - hi < stop - lo"
      using hi True by linarith
    then obtain cs where cs: "execAVXP a per (length ins) nOut ps stop hi (roundEnd per stop hi) = Some cs"
      "goodTask a M ins nOut sz (hi, stop) cs"
      using less.hyps [of hi "roundEnd per stop hi"] hi True roundEnd_bounds [OF per] by auto
    define big where "big \<longleftrightarrow> minAvx2Size a \<le> hi - lo"
    define lo' where "lo' = (if big then lo + avxSize a (hi - lo) else lo)"
    have lo': "lo \<le> lo'" "lo' \<le> hi"
      using hi avxSize_le [of a "hi - lo"] by (auto simp: lo'_def)
    have "goodTask a M ins nOut sz (lo, lo') (if big then map (tileCall lo hi) ps else [])"
      using goodTask_tileCalls [OF tiles ps gen, of lo hi sz] hi assms(3) goodTask_Nil
      by (auto simp: lo'_def)
    moreover have "goodTask a M ins nOut sz (lo', hi)
        (if big \<and> lo' = hi then [] else roundCalls (length ins) nOut (lo', hi))"
      using goodTask_Nil roundCalls_good [OF ins lo'(2), of sz] hi assms(3) by auto
    ultimately have "goodTask a M ins nOut sz (lo, stop)
        ((if big then map (tileCall lo hi) ps else []) @
         (if big \<and> lo' = hi then [] else roundCalls (length ins) nOut (lo', hi)) @ cs)"
      using lo' hi cs(2) by (meson goodTask_append le_trans)
    moreover have "execAVXP a per (length ins) nOut ps stop lo hi = Some
        ((if big then map (tileCall lo hi) ps else []) @
         (if big \<and> lo' = hi then [] else roundCalls (length ins) nOut (lo', hi)) @ cs)"
      using True cs(1)
      by (subst execAVXP.simps)
        (simp only: Let_def big_def [symmetric] lo'_def [symmetric] if_True Option.bind.simps)
    ultimately show ?thesis
      by blast
  next
    case False
    then show ?thesis
      using less.prems(1) goodTask_Nil by (subst execAVXP.simps) auto
  qed
qed

definition goodPlan :: "arch \<Rightarrow> matrix \<Rightarrow> slice list \<Rightarrow> nat \<Rightarrow> nat \<Rightarrow> call list list \<Rightarrow> bool" where
  "goodPlan a M ins nOut sz tasks \<longleftrightarrow>
     (\<exists>rs. consec 0 sz rs \<and> list_all2 (goodTask a M ins nOut sz) rs tasks)"

lemma goodPlan_single:
  assumes "goodTask a M ins nOut sz (0, sz) cs" and "0 < sz"
  shows "goodPlan a M ins nOut sz [cs]"
  unfolding goodPlan_def using assms by (intro exI [of _ "[(0, sz)]"]) simp

lemma jobs_good:
  assumes "0 < per"
    and f: "\<And>lo hi. lo \<le> hi \<Longrightarrow> hi \<le> sz \<Longrightarrow> \<exists>cs. f (lo, hi) = Inr cs \<and> goodTask a M ins nOut sz (lo, hi) cs"
  shows "\<exists>rs tasks. jobRanges per sz = Inr rs \<and> mapResult f rs = Inr tasks \<and>
    goodPlan a M ins nOut sz tasks"
proof -
  obtain rs where rs: "jobRanges per sz = Inr rs" "consec 0 sz rs"
    by (rule jobRanges_Inr [OF assms(1)])
  have "\<exists>cs. f r = Inr cs \<and> goodTask a M ins nOut sz r cs" if "r \<in> set rs" for r
    using f [of "fst r" "snd r"] consec_bounds [OF rs(2) that] by auto
  then obtain tasks where "mapResult f rs = Inr tasks" "list_all2 (goodTask a M ins nOut sz) rs tasks"
    by (rule mapResult_Inr)
  then show ?thesis
    using rs by (auto simp: goodPlan_def)
qed

lemma split_pos:
  assumes "optsOk a opts"
  shows "0 < align64 (splitSize opts n)"
proof -
  have "0 < splitSize opts n"
    using assms by (auto simp: splitSize_def Let_def optsOk_def)
  then show ?thesis
    unfolding align64_def by linarith
qed

lemma avx512Rounds_good:
  assumes "0 < perRound opts" and "ins \<noteq> []" and "lo \<le> hi" and "hi \<le> sz"
  shows "\<exists>cs. avx512Rounds opts (length ins) nOut (lo, hi) = Inr cs \<and>
    goodTask a M ins nOut sz (lo, hi) cs"
proof -
  obtain rs where rs: "rounds (perRound opts) hi lo (roundEnd (perRound opts) hi lo) = Some rs"
    "consec lo hi rs"
    by (rule rounds_start [OF assms(1,3)])
  have "goodTask a M ins nOut sz r (avx512Round (length ins) nOut r)" if "r \<in> set rs" for r
    using avx512Round_good [OF assms(2), of "fst r" "snd r" sz] consec_bounds [OF rs(2) that] assms(4)
    by simp
  then show ?thesis
    using goodTask_concat [OF rs(2)] by (simp add: avx512Rounds_def rs(1) loopResult_def)
qed

lemma chunks_tileOk:
  assumes "per \<le> 10"
    and "t \<in> set (List.product (chunks per 0 nIn) (chunks per' 0 nOut)) \<or>
      t \<in> set (map prod.swap (List.product (chunks per' 0 nOut) (chunks per 0 nIn)))"
    and "per' \<le> 10"
  shows "tileOk nIn nOut t \<and> snd (fst t) - fst (fst t) \<le> 10 \<and> snd (snd t) - fst (snd t) \<le> 10"
proof -
  have "fst t \<in> set (chunks per 0 nIn)" "snd t \<in> set (chunks per' 0 nOut)"
    using assms(2) by auto
  then show ?thesis
    using chunks_bounds assms(1,3) unfolding tileOk_def by (meson le_trans)
qed

lemma avxpPlan_good:
  assumes opts: "optsOk a opts" and gen: "avx2CodeGen a" and shape: "codeShape M ins outs sz"
    and "0 < length outs" and pool: "sliceWf pool" "64 * (length ins * length outs) \<le> sliceLen pool"
  shows "\<exists>tasks pool'. avxpPlan a opts pool M (length ins) (length outs) sz = Inr (tasks, pool') \<and>
    goodPlan a M ins (length outs) sz tasks"
proof -
  let ?nIn = "length ins" and ?nOut = "length outs"
  define cs where "cs = chunks (maxAvx2Inputs a) 0 ?nIn"
  define rs where "rs = chunks (maxAvx2Outputs a) 0 ?nOut"
  define ts where "ts = (if ?nOut < ?nIn then List.product cs rs else map prod.swap (List.product rs cs))"
  have ten: "maxAvx2Inputs a = 10" "maxAvx2Outputs a = 10"
    using gen by (simp_all add: maxAvx2Inputs_def maxAvx2Outputs_def)
  have cs: "consec 0 ?nIn cs" and rs: "consec 0 ?nOut rs"
    using consec_chunks ten by (simp_all add: cs_def rs_def)
  have ins: "ins \<noteq> []" and sz: "0 < sz" and M: "rowsFit M ?nIn ?nOut"
    using shape by (auto simp: codeShape_def rowsFit_def)
  have ok: "tileOk ?nIn ?nOut t \<and> snd (fst t) - fst (fst t) \<le> 10 \<and> snd (snd t) - fst (snd t) \<le> 10"
    if "t \<in> set ts" for t
    using that ten unfolding ts_def cs_def rs_def
    by (intro chunks_tileOk [of 10 _ _ 10]) (auto split: if_splits)
  have "sum_list (map tileSize ts) \<le> sliceLen pool"
    using sum_tileSize [OF cs rs] pool(2) by (simp add: ts_def)
  then obtain ps where ps: "planTiles a M pool ts = Inr ps" "map snd ps = ts"
    "\<And>p. p \<in> set ps \<Longrightarrow> tileHolds M (fst p) (snd p)"
    using planTiles_Inr [OF M gen, of ts pool] ok pool(1) by blast
  have all: "foldl (\<lambda>v t. groupEff f g i (fst t) (snd t) v) v (map snd ps) = accRow 0 0 ?nIn f g"
    if "i < ?nOut" for i f g v
    using inputs_outputs [OF cs rs _ that, of f g v] outputs_inputs [OF cs rs _ _ that, of f g v] ins
    by (auto simp: ps(2) ts_def foldl_map)
  have tile: "tileOk ?nIn ?nOut (snd p) \<and> tileHolds M (fst p) (snd p) \<and>
      snd (fst (snd p)) - fst (fst (snd p)) \<le> 10 \<and> snd (snd (snd p)) - fst (snd (snd p)) \<le> 10"
    if "p \<in> set ps" for p
    using ok [of "snd p"] ps(2,3) that by (metis image_eqI set_map)
  define exec where "exec = (\<lambda>r. loopResult (execAVXP a (perRound opts) ?nIn ?nOut ps (snd r) (fst r)
      (roundEnd (perRound opts) (snd r) (fst r))))"
  have exec: "\<exists>cs. exec (lo, hi) = Inr cs \<and> goodTask a M ins ?nOut sz (lo, hi) cs"
    if "lo \<le> hi" "hi \<le> sz" for lo hi
  proof -
    have per: "0 < perRound opts"
      using opts by (simp add: optsOk_def)
    have "\<exists>cs. execAVXP a (perRound opts) ?nIn ?nOut ps hi lo (roundEnd (perRound opts) hi lo) = Some cs \<and>
        goodTask a M ins ?nOut sz (lo, hi) cs"
      by (rule execAVXP_good [OF per ins that(2) gen all tile that(1)])
        (simp_all add: roundEnd_bounds [OF per])
    then show ?thesis
      by (auto simp: exec_def loopResult_def)
  qed
  have plan: "avxpPlan a opts pool M ?nIn ?nOut sz =
    (if maxGoroutines opts = 1 then bind_result (exec (0, sz)) (\<lambda>calls. Inr ([calls], pool))
     else bind_result (jobRanges (align64 (splitSize opts sz)) sz) (\<lambda>rs.
          bind_result (mapResult exec rs) (\<lambda>tasks. Inr (tasks, pool))))"
    using opts unfolding avxpPlan_def Let_def cs_def [symmetric] rs_def [symmetric] ts_def [symmetric]
      ps(1) bind_result_simps by (simp add: optsOk_def exec_def)
  show ?thesis
  proof (cases "maxGoroutines opts = 1")
    case True
    obtain calls where "exec (0, sz) = Inr calls" "goodTask a M ins ?nOut sz (0, sz) calls"
      using exec [of 0 sz] by auto
    then show ?thesis
      unfolding plan using True goodPlan_single [OF _ sz] by simp
  next
    case False
    obtain rs tasks where "jobRanges (align64 (splitSize opts sz)) sz = Inr rs"
      "mapResult exec rs = Inr tasks" "goodPlan a M ins ?nOut sz tasks"
      using jobs_good [OF split_pos [OF opts] exec] by blast
    then show ?thesis
      unfolding plan using False by simp
  qed
qed

text \<open>
  What the buffer of the pool has to be: only the AVX2 code uses it, and only
  \<open>codeSomeShardsAVXP\<close>, which cuts it up, needs it to be long enough.
\<close>

definition poolOk :: "arch \<Rightarrow> options \<Rightarrow> nat \<Rightarrow> nat \<Rightarrow> slice \<Rightarrow> bool" where
  "poolOk a opts nIn nOut pool \<longleftrightarrow> (avx2CodeGen a \<and> useAVX2 opts \<longrightarrow> sliceWf pool \<and>
     (nIn \<le> 10 \<and> nOut \<le> 10 \<or> 64 * (nIn * nOut) \<le> sliceLen pool))"

lemma parallelPlan_good:
  assumes opts: "optsOk a opts" and shape: "codeShape M ins outs sz" and nOut: "0 < length outs"
    and pool: "poolOk a opts (length ins) (length outs) pool"
  shows "\<exists>tasks pool'. parallelPlan a opts pool M (length ins) (length outs) sz = Inr (tasks, pool') \<and>
    goodPlan a M ins (length outs) sz tasks"
proof -
  let ?nIn = "length ins" and ?nOut = "length outs"
  have ins: "ins \<noteq> []" and sz: "0 < sz" and M: "rowsFit M ?nIn ?nOut"
    using shape by (auto simp: codeShape_def rowsFit_def)
  have per: "0 < perRound opts" and gor: "1 \<le> maxGoroutines opts"
    using opts by (auto simp: optsOk_def)
  have jobs: "\<exists>tasks. (if maxGoroutines opts = 0 then Inl Panic
      else if maxGoroutines opts \<le> 1 then
        bind_result (execP a opts ?nIn ?nOut avx (0, sz)) (\<lambda>calls. Inr ([calls], p))
      else bind_result (jobRanges (align64 (splitSize opts sz)) sz) (\<lambda>rs.
        bind_result (mapResult (execP a opts ?nIn ?nOut avx) rs) (\<lambda>tasks. Inr (tasks, p)))) =
      Inr (tasks, p) \<and> goodPlan a M ins ?nOut sz tasks"
    if avx: "\<And>m. avx = Some m \<Longrightarrow> avx2CodeGen a \<and> tablesHold M m 0 ?nIn 0 ?nOut \<and> ?nIn \<le> 10 \<and> ?nOut \<le> 10"
    for avx p
  proof -
    have exec: "\<exists>cs. execP a opts ?nIn ?nOut avx (lo, hi) = Inr cs \<and> goodTask a M ins ?nOut sz (lo, hi) cs"
      if "lo \<le> hi" "hi \<le> sz" for lo hi
      by (rule execP_good [OF per ins that nOut avx])
    show ?thesis
    proof (cases "maxGoroutines opts \<le> 1")
      case True
      obtain cs where "execP a opts ?nIn ?nOut avx (0, sz) = Inr cs" "goodTask a M ins ?nOut sz (0, sz) cs"
        using exec [of 0 sz] by auto
      then show ?thesis
        using True gor goodPlan_single [OF _ sz] by simp
    next
      case False
      obtain rs tasks where "jobRanges (align64 (splitSize opts sz)) sz = Inr rs"
        "mapResult (execP a opts ?nIn ?nOut avx) rs = Inr tasks" "goodPlan a M ins ?nOut sz tasks"
        using jobs_good [OF split_pos [OF opts] exec] by blast
      then show ?thesis
        using False by simp
    qed
  qed
  show ?thesis
  proof (cases "canAVX2C a opts sz ?nIn ?nOut")
    case True
    then have gen: "avx2CodeGen a" and le: "?nIn \<le> 10" "?nOut \<le> 10"
      by (auto simp: canAVX2C_def maxAvx2Inputs_def maxAvx2Outputs_def)
    have pos: "0 < ?nIn" "?nIn \<le> ?nIn" "?nOut \<le> ?nOut"
      using ins by simp_all
    obtain buf where "genAvx2Matrix True (drop 0 M) (?nIn - 0) 0 (?nOut - 0) pool =
        Inr (Slice buf (64 * ((?nIn - 0) * (?nOut - 0))))"
      "tablesHold M (take (64 * ((?nIn - 0) * (?nOut - 0))) buf) 0 (?nIn - 0) 0 (?nOut - 0)"
      by (rule gen_tile [OF M pos(1,2) nOut pos(3)])
    then show ?thesis
      using True gen le jobs [of "Some (take (64 * (?nIn * ?nOut)) buf)" "Slice buf (64 * (?nIn * ?nOut))"]
      by (auto simp: parallelPlan_def Let_def)
  next
    case False
    show ?thesis
    proof (cases "sz < 10 * 2 ^ 20 \<and> 3 < ?nIn + ?nOut \<and>
          canAVX2C a opts (sz div 4) (maxAvx2Inputs a) (maxAvx2Outputs a)")
      case True
      then have gen: "avx2CodeGen a" "useAVX2 opts"
        by (simp_all add: canAVX2C_def)
      then have "\<not> (?nIn \<le> 10 \<and> ?nOut \<le> 10)"
        using True False by (auto simp: canAVX2C_def maxAvx2Inputs_def maxAvx2Outputs_def)
      then have "sliceWf pool" "64 * (?nIn * ?nOut) \<le> sliceLen pool"
        using pool gen by (auto simp: poolOk_def)
      then show ?thesis
        using False True avxpPlan_good [OF opts gen(1) shape nOut, of pool]
        by (simp add: parallelPlan_def Let_def)
    next
      case plain: False
      show ?thesis
        using jobs [of None pool] unfolding parallelPlan_def Let_def if_not_P [OF False] if_not_P [OF plain]
        by blast
    qed
  qed
qed

lemma codeShape_plan:
  assumes "codeShape M ins outs sz"
  shows "ins \<noteq> []" and "0 < sz" and "rowsFit M (length ins) (length outs)" and "sliceLen (ins ! 0) = sz"
  using assms by (auto simp: codeShape_def rowsFit_def)

text \<open>The rounds that the plain loops make from \<open>start\<close> on.\<close>

lemma plainRest:
  assumes "optsOk a opts" and "ins \<noteq> []" and "start \<le> sz"
  obtains calls where "bind_result (loopResult (rounds (perRound opts) sz start sz))
      (\<lambda>rs. Inr (concat (map (roundCalls (length ins) nOut) rs))) = Inr calls"
    and "goodTask a M ins nOut sz (start, sz) calls"
proof -
  have "0 < perRound opts"
    using assms(1) by (simp add: optsOk_def)
  then obtain rs where "rounds (perRound opts) sz start sz = Some rs" "consec start sz rs"
    using rounds_Some [OF _ assms(3), of "perRound opts" sz] by auto
  then show ?thesis
    using plainRounds_good [OF assms(2) order_refl, of start sz rs] by (intro that) (auto simp: loopResult_def)
qed

text \<open>The serial plan where the tables of all rows fit, in tiles, and without tables.\<close>

lemma serialPlan_full:
  assumes opts: "optsOk a opts" and shape: "codeShape M ins outs sz" and nOut: "0 < length outs"
    and full: "canAVX2C a opts sz (length ins) (length outs)"
  shows "\<exists>tasks pool'. serialPlan a opts pool M ins (length outs) sz = Inr (tasks, pool') \<and>
    goodPlan a M ins (length outs) sz tasks"
proof -
  let ?nIn = "length ins" and ?nOut = "length outs" and ?avx = "avxSize a sz"
  note facts = codeShape_plan [OF shape]
  have gen: "avx2CodeGen a" and le: "?nIn \<le> 10" "?nOut \<le> 10"
    using full by (auto simp: canAVX2C_def maxAvx2Inputs_def maxAvx2Outputs_def)
  have pos: "0 < ?nIn" "?nIn \<le> ?nIn" "?nOut \<le> ?nOut"
    using facts(1) by simp_all
  let ?n = "64 * ((?nIn - 0) * (?nOut - 0))"
  obtain buf where buf: "genAvx2Matrix True (drop 0 M) (?nIn - 0) 0 (?nOut - 0) pool =
      Inr (Slice buf ?n)"
    "tablesHold M (take ?n buf) 0 (?nIn - 0) 0 (?nOut - 0)"
    by (rule gen_tile [OF facts(3) pos(1,2) nOut pos(3)])
  let ?call = "GalMulAvx2 False (take ?n buf) 0 ?nIn 0 ?nOut 0 sz"
  obtain calls where calls: "bind_result (loopResult (rounds (perRound opts) sz ?avx sz))
      (\<lambda>rs. Inr (concat (map (roundCalls ?nIn ?nOut) rs))) = Inr calls"
    "goodTask a M ins ?nOut sz (?avx, sz) calls"
    by (rule plainRest [OF opts facts(1) avxSize_le])
  have "goodTask a M ins ?nOut sz (0, ?avx) [?call]"
    using fullTile_good [of a M "take ?n buf" ins ?nOut 0 sz sz] gen le buf(2) facts(1) nOut by simp
  then have "goodTask a M ins ?nOut sz (0, sz) ([?call] @ calls)"
    using calls(2) avxSize_le by (intro goodTask_append [of _ _ _ _ _ 0 ?avx]) simp_all
  moreover have "serialPlan a opts pool M ins ?nOut sz = Inr ([[?call] @ calls], Slice buf ?n)"
    using full facts(1) gen buf(1) calls(1) by (simp add: serialPlan_def Let_def facts(4))
  ultimately show ?thesis
    using goodPlan_single [OF _ facts(2)] by blast
qed

lemma tiles_task:
  assumes gen: "avx2CodeGen a" and M: "rowsFit M (length ins) nOut" and ins: "ins \<noteq> []"
  obtains calls where "serialTiles a M sz pool (List.product (chunks 10 0 (length ins)) (chunks 10 0 nOut)) = Inr calls"
    and "goodTask a M ins nOut sz (0, avxSize a sz) calls"
proof -
  let ?cs = "chunks 10 0 (length ins)" and ?rs = "chunks 10 0 nOut"
  have cs: "consec 0 (length ins) ?cs" and rs: "consec 0 nOut ?rs"
    by (simp_all add: consec_chunks)
  have ok: "tileOk (length ins) nOut t \<and> snd (fst t) - fst (fst t) \<le> 10 \<and> snd (snd t) - fst (snd t) \<le> 10"
    if "t \<in> set (List.product ?cs ?rs)" for t
    using that by (intro chunks_tileOk [of 10 _ _ 10]) simp_all
  obtain ps where ps: "serialTiles a M sz pool (List.product ?cs ?rs) = Inr (map (tileCall 0 sz) ps)"
    "map snd ps = List.product ?cs ?rs" "\<And>p. p \<in> set ps \<Longrightarrow> tileHolds M (fst p) (snd p)"
    using serialTiles_Inr [OF M gen, of "List.product ?cs ?rs" sz pool] ok by blast
  have tile: "tileOk (length ins) nOut (snd p) \<and> tileHolds M (fst p) (snd p) \<and>
      snd (fst (snd p)) - fst (fst (snd p)) \<le> 10 \<and> snd (snd (snd p)) - fst (snd (snd p)) \<le> 10"
    if "p \<in> set ps" for p
    using ok [of "snd p"] ps(2,3) that by (metis image_eqI set_map)
  have "goodTask a M ins nOut sz (0, 0 + avxSize a (sz - 0)) (map (tileCall 0 sz) ps)"
  proof (rule goodTask_tileCalls [OF _ tile gen])
    show "foldl (\<lambda>v t. groupEff f g i (fst t) (snd t) v) v (map snd ps) = accRow 0 0 (length ins) f g"
      if "i < nOut" for i f g v
      using inputs_outputs [OF cs rs _ that] ins by (simp add: ps(2))
  qed simp_all
  then show ?thesis
    using that ps(1) by simp
qed

lemma serialPlan_tiled:
  assumes opts: "optsOk a opts" and shape: "codeShape M ins outs sz" and nOut: "0 < length outs"
    and notFull: "\<not> canAVX2C a opts sz (length ins) (length outs)"
    and tiled: "3 < length ins + length outs \<and> canAVX2C a opts sz (maxAvx2Inputs a) (maxAvx2Outputs a)"
  shows "\<exists>tasks pool'. serialPlan a opts pool M ins (length outs) sz = Inr (tasks, pool') \<and>
    goodPlan a M ins (length outs) sz tasks"
proof -
  let ?nIn = "length ins" and ?nOut = "length outs" and ?avx = "avxSize a sz"
  note facts = codeShape_plan [OF shape]
  have gen: "avx2CodeGen a"
    using tiled by (simp add: canAVX2C_def)
  then have ten: "maxAvx2Inputs a = 10" "maxAvx2Outputs a = 10"
    by (simp_all add: maxAvx2Inputs_def maxAvx2Outputs_def)
  obtain tiles where tiles: "serialTiles a M sz pool (List.product (chunks 10 0 ?nIn) (chunks 10 0 ?nOut)) = Inr tiles"
    "goodTask a M ins ?nOut sz (0, ?avx) tiles"
    by (rule tiles_task [OF gen facts(3,1)])
  obtain calls where calls: "bind_result (loopResult (rounds (perRound opts) sz ?avx sz))
      (\<lambda>rs. Inr (concat (map (roundCalls ?nIn ?nOut) rs))) = Inr calls"
    "goodTask a M ins ?nOut sz (?avx, sz) calls"
    by (rule plainRest [OF opts facts(1) avxSize_le])
  have "goodTask a M ins ?nOut sz (0, sz) (tiles @ calls)"
    using tiles(2) calls(2) avxSize_le by (intro goodTask_append [of _ _ _ _ _ 0 ?avx]) simp_all
  moreover have "goodTask a M ins ?nOut sz (0, sz) tiles" if "sz \<le> ?avx"
    using tiles(2) that avxSize_le [of a sz] by simp
  moreover have "serialPlan a opts pool M ins ?nOut sz =
      (if sz \<le> ?avx then Inr ([tiles], pool) else Inr ([tiles @ calls], pool))"
    using tiled notFull facts(1) tiles(1) calls(1) by (simp add: serialPlan_def Let_def facts(4) ten)
  ultimately show ?thesis
    using goodPlan_single [OF _ facts(2)] by (cases "sz \<le> ?avx") simp_all
qed

lemma serialPlan_good:
  assumes opts: "optsOk a opts" and shape: "codeShape M ins outs sz" and nOut: "0 < length outs"
  shows "\<exists>tasks pool'. serialPlan a opts pool M ins (length outs) sz = Inr (tasks, pool') \<and>
    goodPlan a M ins (length outs) sz tasks"
proof -
  let ?nIn = "length ins" and ?nOut = "length outs"
  note facts = codeShape_plan [OF shape]
  consider (full) "canAVX2C a opts sz ?nIn ?nOut"
    | (tiled) "\<not> canAVX2C a opts sz ?nIn ?nOut"
        "3 < ?nIn + ?nOut \<and> canAVX2C a opts sz (maxAvx2Inputs a) (maxAvx2Outputs a)"
    | (plain) "\<not> canAVX2C a opts sz ?nIn ?nOut"
        "\<not> (3 < ?nIn + ?nOut \<and> canAVX2C a opts sz (maxAvx2Inputs a) (maxAvx2Outputs a))"
    by blast
  then show ?thesis
  proof cases
    case full
    then show ?thesis
      by (rule serialPlan_full [OF opts shape nOut])
  next
    case tiled
    then show ?thesis
      by (rule serialPlan_tiled [OF opts shape nOut])
  next
    case plain
    have per: "0 < perRound opts"
      using opts by (simp add: optsOk_def)
    obtain rs where rs: "rounds (perRound opts) sz 0 (roundEnd (perRound opts) sz 0) = Some rs" "consec 0 sz rs"
      by (rule rounds_start [OF per le0])
    have "goodTask a M ins ?nOut sz (0, sz) (concat (map (roundCalls ?nIn ?nOut) rs))"
      by (rule plainRounds_good [OF facts(1) order_refl rs(2)])
    moreover have "serialPlan a opts pool M ins ?nOut sz = Inr ([concat (map (roundCalls ?nIn ?nOut) rs)], pool)"
      using facts(1) unfolding serialPlan_def Let_def if_not_P [OF plain(1)] if_not_P [OF plain(2)] facts(4) rs(1)
      by (simp add: loopResult_def)
    ultimately show ?thesis
      using goodPlan_single [OF _ facts(2)] by blast
  qed
qed

lemma codePlan_good:
  assumes opts: "optsOk a opts" and shape: "codeShape M ins outs sz" and nOut: "0 < length outs"
    and pool: "poolOk a opts (length ins) (length outs) pool"
  shows "\<exists>tasks pool'. codePlan a opts pool M ins (length outs) sz = Inr (tasks, pool') \<and>
    goodPlan a M ins (length outs) sz tasks"
proof -
  let ?nIn = "length ins" and ?nOut = "length outs"
  have ins: "ins \<noteq> []" and sz: "0 < sz"
    using shape by (auto simp: codeShape_def)
  have per: "0 < perRound opts" and gor: "maxGoroutines opts \<noteq> 0"
    using opts by (auto simp: optsOk_def)
  have rounds: "\<exists>cs. avx512Rounds opts ?nIn ?nOut (lo, hi) = Inr cs \<and> goodTask a M ins ?nOut sz (lo, hi) cs"
    if "lo \<le> hi" "hi \<le> sz" for lo hi
    by (rule avx512Rounds_good [OF per ins that])
  have has: "hasAvx512 a" if "useAVX512 opts"
    using opts that by (simp add: optsOk_def)
  consider (p512) "useAVX512 opts" "1 < maxGoroutines opts \<and> minSplitSize opts < int sz \<and> 4 \<le> ?nIn \<and> 2 \<le> ?nOut"
    | (s512) "useAVX512 opts" "\<not> (1 < maxGoroutines opts \<and> minSplitSize opts < int sz \<and> 4 \<le> ?nIn \<and> 2 \<le> ?nOut)"
      "4 \<le> ?nIn \<and> 2 \<le> ?nOut"
    | (plain) "\<not> (useAVX512 opts \<and> 4 \<le> ?nIn \<and> 2 \<le> ?nOut)"
    by blast
  then show ?thesis
  proof cases
    case p512
    obtain rs tasks where "jobRanges (align64 (splitSize opts sz)) sz = Inr rs"
      "mapResult (avx512Rounds opts ?nIn ?nOut) rs = Inr tasks" "goodPlan a M ins ?nOut sz tasks"
      using jobs_good [OF split_pos [OF opts] rounds] by blast
    then show ?thesis
      using p512 nOut has gor by (simp add: codePlan_def avx512PlanP_def)
  next
    case s512
    obtain cs where "avx512Rounds opts ?nIn ?nOut (0, sz) = Inr cs" "goodTask a M ins ?nOut sz (0, sz) cs"
      using rounds [of 0 sz] by auto
    then show ?thesis
      using s512 nOut has goodPlan_single [OF _ sz] by (auto simp: codePlan_def avx512Plan_def)
  next
    case plain
    then have "codePlan a opts pool M ins ?nOut sz =
        (if minSplitSize opts < int sz then parallelPlan a opts pool M ?nIn ?nOut sz
         else serialPlan a opts pool M ins ?nOut sz)"
      using nOut by (auto simp: codePlan_def)
    then show ?thesis
      using parallelPlan_good [OF opts shape nOut, of pool] serialPlan_good [OF opts shape nOut, of pool]
        pool by (simp add: poolOk_def)
  qed
qed

subsection \<open>Every schedule of a good plan computes the product\<close>

lemma interleaving_set: "interleaving ts ys \<Longrightarrow> set ys \<subseteq> \<Union> (set ` set ts)"
proof (induction rule: interleaving.induct)
  case (step i ts x xs ys)
  have "set xs \<subseteq> set (ts ! i)" and "x \<in> set (ts ! i)" and "ts ! i \<in> set ts"
    using step.hyps(2) nth_mem [OF step.hyps(1)] by auto
  moreover have "\<Union> (set ` set (ts[i := xs])) \<subseteq> \<Union> (set ` set ts) \<union> set xs"
    using set_update_subset_insert [of ts i xs] by auto
  moreover have "set (ts ! i) \<subseteq> \<Union> (set ` set ts)"
    using \<open>ts ! i \<in> set ts\<close> by blast
  ultimately show ?case
    using step.IH by (simp add: subset_iff) blast
qed simp

lemma interleaving_Cons_Nil: "interleaving ts ys \<Longrightarrow> interleaving ([] # ts) ys"
proof (induction rule: interleaving.induct)
  case (finished ts)
  then show ?case by (intro interleaving.finished) simp
next
  case (step i ts x xs ys)
  then show ?case
    using interleaving.step [of "Suc i" "[] # ts" x xs ys] by simp
qed

lemma interleaving_concat: "interleaving ts (concat ts)"
proof (induction ts)
  case Nil
  then show ?case by (simp add: interleaving.finished)
next
  case (Cons t ts)
  show ?case
  proof (induction t)
    case Nil
    then show ?case
      using Cons by (simp add: interleaving_Cons_Nil)
  next
    case (Cons x t)
    then show ?case
      using interleaving.step [of 0 "(x # t) # ts" x t "concat (t # ts)"] by simp
  qed
qed

text \<open>At a position that only one task touches, a schedule does what this task does.\<close>

lemma interleaving_runEff:
  assumes "interleaving ts ys" and "k < length ts"
    and "\<And>j x v. j < length ts \<Longrightarrow> j \<noteq> k \<Longrightarrow> x \<in> set (ts ! j) \<Longrightarrow> callEff a M ins x i q v = v"
  shows "runEff a M ins ys i q v = runEff a M ins (ts ! k) i q v"
  using assms
proof (induction arbitrary: v rule: interleaving.induct)
  case (finished ts)
  then have "ts ! k = []"
    by simp
  then show ?case
    by simp
next
  case (step j ts x xs ys)
  have IH: "runEff a M ins ys i q v = runEff a M ins (ts[j := xs] ! k) i q v" for v
  proof (rule step.IH)
    fix l y v
    assume "l < length (ts[j := xs])" "l \<noteq> k" "y \<in> set (ts[j := xs] ! l)"
    then show "callEff a M ins y i q v = v"
      using step.hyps step.prems(2) [of l y v] by (cases "l = j") auto
  qed (use step.prems in simp)
  show ?case
  proof (cases "j = k")
    case True
    then show ?thesis
      using IH step.hyps by simp
  next
    case False
    then have "callEff a M ins x i q v = v"
      using step.hyps step.prems(2) [of j x v] by simp
    then show ?thesis
      using IH False by simp
  qed
qed

lemma consec_index:
  "consec b e rs \<Longrightarrow> b \<le> q \<Longrightarrow> q < e \<Longrightarrow>
    \<exists>k<length rs. fst (rs ! k) \<le> q \<and> q < snd (rs ! k) \<and>
      (\<forall>j<length rs. j \<noteq> k \<longrightarrow> q < fst (rs ! j) \<or> snd (rs ! j) \<le> q)"
proof (induction rs arbitrary: b)
  case (Cons r rs)
  show ?case
  proof (cases "q < snd r")
    case True
    have "q < fst (rs ! j)" if "j < length rs" for j
      using that Cons.prems(1) True consec_bounds [of "snd r" e rs "rs ! j"] by auto
    then show ?thesis
      using True Cons.prems by (intro exI [of _ 0]) (auto simp: nth_Cons split: nat.splits)
  next
    case False
    then obtain k where k: "k < length rs" "fst (rs ! k) \<le> q" "q < snd (rs ! k)"
      "\<forall>j<length rs. j \<noteq> k \<longrightarrow> q < fst (rs ! j) \<or> snd (rs ! j) \<le> q"
      using Cons.IH [of "snd r"] Cons.prems by auto
    then show ?thesis
      using False by (intro exI [of _ "Suc k"]) (auto simp: nth_Cons split: nat.splits)
  qed
qed simp

lemma goodPlan_run:
  assumes plan: "goodPlan a M ins nOut sz tasks" and ys: "interleaving tasks ys" and i: "i < nOut"
  shows "runEff a M ins ys i q v =
    (if q < sz then dotRow (length ins) (\<lambda>c. M ! i ! c) (\<lambda>c. backing (ins ! c) ! q) else v)"
proof -
  obtain rs where rs: "consec 0 sz rs" and good: "list_all2 (goodTask a M ins nOut sz) rs tasks"
    using plan by (auto simp: goodPlan_def)
  have len: "length rs = length tasks"
    using good by (rule list_all2_lengthD)
  have task: "goodTask a M ins nOut sz (rs ! j) (tasks ! j)" if "j < length tasks" for j
    using good that by (simp add: list_all2_conv_all_nth)
  have out: "callEff a M ins x i q v = v"
    if "j < length tasks" "x \<in> set (tasks ! j)" "q < fst (rs ! j) \<or> snd (rs ! j) \<le> q" for j x v
    using task [OF that(1)] that(2,3) unfolding goodTask_def by blast
  show ?thesis
  proof (cases "q < sz")
    case True
    obtain k where k: "k < length rs" "fst (rs ! k) \<le> q" "q < snd (rs ! k)"
      and others: "\<And>j. j < length rs \<Longrightarrow> j \<noteq> k \<Longrightarrow> q < fst (rs ! j) \<or> snd (rs ! j) \<le> q"
      using consec_index [OF rs le0 True] by blast
    have "runEff a M ins ys i q v = runEff a M ins (tasks ! k) i q v"
    proof (rule interleaving_runEff [OF ys])
      fix j x v
      assume "j < length tasks" "j \<noteq> k" "x \<in> set (tasks ! j)"
      then show "callEff a M ins x i q v = v"
        using others [of j] len by (intro out) simp_all
    qed (use k(1) len in simp)
    also have "\<dots> = dotRow (length ins) (\<lambda>c. M ! i ! c) (\<lambda>c. backing (ins ! c) ! q)"
      using task [of k] k len i unfolding goodTask_def by simp
    finally show ?thesis
      using True by simp
  next
    case False
    have "callEff a M ins x i q v = v" if x: "x \<in> set ys" for x v
    proof -
      obtain t where "t \<in> set tasks" "x \<in> set t"
        using x interleaving_set [OF ys] by auto
      then obtain j where j: "j < length tasks" "x \<in> set (tasks ! j)"
        by (auto simp: in_set_conv_nth)
      then have "snd (rs ! j) \<le> sz"
        using consec_bounds [OF rs, of "rs ! j"] len by simp
      then show ?thesis
        using out [OF j] False by simp
    qed
    then show ?thesis
      using False by (simp add: runEff_id)
  qed
qed

text \<open>The specification: every output becomes the product of its matrix row and the inputs.\<close>

definition codeSpec :: "matrix \<Rightarrow> slice list \<Rightarrow> slice list \<Rightarrow> nat \<Rightarrow> slice list" where
  "codeSpec M ins outs sz = updMem outs (\<lambda>i q v.
     if q < sz then dotRow (length ins) (\<lambda>c. M ! i ! c) (\<lambda>c. backing (ins ! c) ! q) else v)"

lemma goodPlan_calls:
  assumes shape: "codeShape M ins outs sz" and plan: "goodPlan a M ins (length outs) sz tasks"
    and ys: "interleaving tasks ys"
  shows "fold_result (runCall a opts M ins) outs ys = Inr (codeSpec M ins outs sz)"
proof -
  have "callOk a M (length ins) (length outs) sz x" if x: "x \<in> set ys" for x
  proof -
    obtain t where t: "t \<in> set tasks" "x \<in> set t"
      using x interleaving_set [OF ys] by auto
    then obtain r where "goodTask a M ins (length outs) sz r t"
      using plan unfolding goodPlan_def by (metis list_all2_conv_all_nth in_set_conv_nth)
    then show ?thesis
      using t(2) by (simp add: goodTask_def)
  qed
  then have "fold_result (runCall a opts M ins) outs ys = Inr (updMem outs (runEff a M ins ys))"
    by (intro runCalls_Inr [OF shape])
  also have "updMem outs (runEff a M ins ys) = codeSpec M ins outs sz"
    unfolding codeSpec_def using goodPlan_run [OF plan ys] by (intro updMem_cong) simp
  finally show ?thesis .
qed

text \<open>The buffer that goes back to the pool: the old one, or what the tables were written to.\<close>

lemma codePlan_pool:
  assumes "codePlan a opts pool M ins nOut sz = Inr (tasks, pool')"
  shows "pool' = pool \<or> 0 < nOut \<and> canAVX2C a opts sz (length ins) nOut \<and>
    genAvx2Matrix (avx2CodeGen a) M (length ins) 0 nOut pool = Inr pool'"
  using assms
  by (auto simp: codePlan_def parallelPlan_def serialPlan_def avxpPlan_def Let_def bind_result_eq_Inr
      split: if_splits)

text \<open>
  A buffer with room for the tables of \<open>n\<close> coefficients keeps it, but it may come back shorter.
\<close>

lemma codeSomeShards_pool:
  assumes res: "codeSomeShards a opts pool M ins outs sz = Inr (outs', pool')"
    and shape: "codeShape M ins outs sz"
    and pool: "sliceWf pool" "64 * (length ins * length outs) \<le> sliceCap pool"
  shows "sliceWf pool' \<and> sliceCap pool' = sliceCap pool"
    and "10 < length ins \<or> 10 < length outs \<Longrightarrow> pool' = pool"
proof -
  obtain tasks where "codePlan a opts pool M ins (length outs) sz = Inr (tasks, pool')"
    using res by (auto simp: codeSomeShards_def bind_result_eq_Inr)
  note cases = codePlan_pool [OF this]
  then show "10 < length ins \<or> 10 < length outs \<Longrightarrow> pool' = pool"
    by (auto simp: canAVX2C_def maxAvx2Inputs_def maxAvx2Outputs_def split: if_splits)
  have "sliceWf pool' \<and> sliceCap pool' = sliceCap pool"
    if gen: "genAvx2Matrix (avx2CodeGen a) M (length ins) 0 (length outs) pool = Inr pool'"
      and "avx2CodeGen a" and "0 < length outs"
  proof -
    have M: "rowsFit M (length ins) (length outs)" and "0 < length ins"
      using shape by (auto simp: codeShape_def rowsFit_def)
    obtain buf where "genAvx2Matrix True (drop 0 M) (length ins - 0) 0 (length outs - 0) pool =
        Inr (Slice buf (64 * ((length ins - 0) * (length outs - 0))))"
      "length buf = max (sliceCap pool) (64 * ((length ins - 0) * (length outs - 0)))"
      by (rule gen_tile [OF M \<open>0 < length ins\<close> order_refl \<open>0 < length outs\<close> order_refl])
    then show ?thesis
      using that(1,2) pool(2) by (auto simp: sliceCap_def)
  qed
  then show "sliceWf pool' \<and> sliceCap pool' = sliceCap pool"
    using cases pool(1) by (auto simp: canAVX2C_def)
qed

lemma codeSomeShards_Inr:
  assumes opts: "optsOk a opts" and shape: "codeShape M ins outs sz"
    and pool: "poolOk a opts (length ins) (length outs) pool"
  obtains pool' where "codeSomeShards a opts pool M ins outs sz = Inr (codeSpec M ins outs sz, pool')"
proof (cases "outs = []")
  case True
  then show ?thesis
    using that by (simp add: codeSomeShards_def codePlan_def codeSpec_def updMem_def)
next
  case False
  then obtain tasks pool' where plan: "codePlan a opts pool M ins (length outs) sz = Inr (tasks, pool')"
    "goodPlan a M ins (length outs) sz tasks"
    using codePlan_good [OF opts shape _ pool] by auto
  show ?thesis
    using that plan(1) goodPlan_calls [OF shape plan(2) interleaving_concat]
    by (simp add: codeSomeShards_def)
qed

subsection \<open>What the coding loops promise\<close>

lemma bytesOf_codeSpec:
  assumes shape: "codeShape M ins outs sz" and i: "i < length outs" and q: "q < sz"
  shows "bytesOf (codeSpec M ins outs sz ! i) ! q =
    dotRow (length ins) (\<lambda>c. M ! i ! c) (\<lambda>c. bytesOf (ins ! c) ! q)"
proof -
  obtain buf where buf: "outs ! i = Slice buf sz" "sz \<le> length buf"
    by (rule codeShape_Slice [OF shape i])
  have ins: "bytesOf (ins ! c) ! q = backing (ins ! c) ! q" if c: "c < length ins" for c
    by (rule codeShape_input [OF shape c]) (simp add: bytesOf_def q)
  have "bytesOf (codeSpec M ins outs sz ! i) ! q =
      dotRow (length ins) (\<lambda>c. M ! i ! c) (\<lambda>c. backing (ins ! c) ! q)"
    using i q buf by (simp add: codeSpec_def updMem_def bytesOf_def)
  also have "\<dots> = dotRow (length ins) (\<lambda>c. M ! i ! c) (\<lambda>c. bytesOf (ins ! c) ! q)"
    unfolding dotRow_def using ins by (intro foldl_cong) simp_all
  finally show ?thesis .
qed

lemma sameShape_codeSpec: "sameShape outs (codeSpec M ins outs sz)"
  unfolding codeSpec_def by (rule sameShape_updMem [OF sameShape_refl])

text \<open>
  C4. \<open>codeSomeShards\<close>, whatever the build, the CPU features and the number of goroutines, stores
  in every byte of every output the sum over all inputs of matrix coefficient times input byte;
  it neither panics nor diverges.
\<close>

theorem codeSomeShards_product:
  assumes "optsOk a opts" and "codeShape M ins outs sz" and "poolOk a opts (length ins) (length outs) pool"
  shows "\<exists>outs' pool'. codeSomeShards a opts pool M ins outs sz = Inr (outs', pool') \<and>
    sameShape outs outs' \<and>
    (\<forall>i<length outs. \<forall>q < sz. bytesOf (outs' ! i) ! q =
      dotRow (length ins) (\<lambda>c. M ! i ! c) (\<lambda>c. bytesOf (ins ! c) ! q))"
proof -
  obtain pool' where "codeSomeShards a opts pool M ins outs sz = Inr (codeSpec M ins outs sz, pool')"
    using assms by (rule codeSomeShards_Inr)
  then show ?thesis
    using sameShape_codeSpec bytesOf_codeSpec [OF assms(2)] by blast
qed

text \<open>A small set of options for the closed examples.\<close>

definition smallOptions :: options where
  "smallOptions = \<lparr>maxGoroutines = 2, minSplitSize = 1, autoShardSize = 0, perRound = 64,
     useAVX512 = False, useAVX2 = True, useSSSE3 = True, useSSE2 = True, usePAR1Matrix = False,
     useCauchy = False, fastOneParity = False, inversionCache = True, concReads = False,
     concWrites = False, streamBS = 0\<rparr>"

lemma codeSomeShards_product_witness:
  "\<exists>outs' pool'. codeSomeShards Amd64 smallOptions (makeSlice 256) [[2, 3], [4, 5]]
      [ofBytes (replicate 100 7), ofBytes (replicate 100 9)] [makeSlice 100, makeSlice 100] 100 =
        Inr (outs', pool') \<and>
    bytesOf (outs' ! 1) ! 99 = dotRow 2 (\<lambda>c. [4, 5] ! c) (\<lambda>c. [7, 9] ! c)"
proof -
  have "optsOk Amd64 smallOptions"
    by (simp add: optsOk_def smallOptions_def)
  moreover have "codeShape [[2, 3], [4, 5]]
      [ofBytes (replicate 100 7), ofBytes (replicate 100 9)] [makeSlice 100, makeSlice 100] 100"
    by (simp add: codeShape_def less_Suc_eq)
  moreover have "poolOk Amd64 smallOptions (length [ofBytes (replicate 100 7), ofBytes (replicate 100 9)])
      (length [makeSlice 100, makeSlice 100]) (makeSlice 256)"
    by (simp add: poolOk_def)
  ultimately obtain outs' pool' where
    run: "codeSomeShards Amd64 smallOptions (makeSlice 256) [[2, 3], [4, 5]]
      [ofBytes (replicate 100 7), ofBytes (replicate 100 9)] [makeSlice 100, makeSlice 100] 100 =
        Inr (outs', pool')"
    and bytes: "\<forall>i<length [makeSlice 100, makeSlice 100]. \<forall>q < 100. bytesOf (outs' ! i) ! q =
      dotRow (length [ofBytes (replicate 100 7), ofBytes (replicate 100 9)])
        (\<lambda>c. [[2, 3], [4, 5]] ! i ! c)
        (\<lambda>c. bytesOf ([ofBytes (replicate 100 7), ofBytes (replicate 100 9)] ! c) ! q)"
    using codeSomeShards_product by blast
  have "bytesOf (outs' ! 1) ! 99 = dotRow 2 (\<lambda>c. [4, 5] ! c) (\<lambda>c. [7, 9] ! c)"
    using bytes [rule_format, of 1 99] by (simp add: dotRow_def upt_rec)
  then show ?thesis
    using run by blast
qed

text \<open>
  C26. The goroutines a call starts may be scheduled in any way: every interleaving of their
  kernel calls leaves the same outputs as running them one after the other.
\<close>

theorem codeSomeShards_any_schedule:
  assumes "optsOk a opts" and "codeShape M ins outs sz" and "poolOk a opts (length ins) (length outs) pool"
    and "codePlan a opts pool M ins (length outs) sz = Inr (tasks, pool')"
    and "interleaving tasks ys"
  shows "codeSomeShards a opts pool M ins outs sz =
    bind_result (fold_result (runCall a opts M ins) outs ys) (\<lambda>outs'. Inr (outs', pool'))"
proof (cases "outs = []")
  case True
  then have "tasks = []" "pool' = pool"
    using assms(4) by (simp_all add: codePlan_def)
  then show ?thesis
    using interleaving_set [OF assms(5)] by (simp add: codeSomeShards_def codePlan_def True)
next
  case False
  then have plan: "goodPlan a M ins (length outs) sz tasks"
    using codePlan_good [OF assms(1,2) _ assms(3)] assms(4) by auto
  show ?thesis
    using goodPlan_calls [OF assms(2) plan interleaving_concat]
      goodPlan_calls [OF assms(2) plan assms(5)]
    by (simp add: codeSomeShards_def assms(4))
qed

lemma codeSomeShards_any_schedule_witness:
  "codeSomeShards Noasm smallOptions NilSlice [[2]] [ofBytes (replicate 65 7)] [makeSlice 65] 65 =
    bind_result (fold_result (runCall Noasm smallOptions [[2]] [ofBytes (replicate 65 7)])
      [makeSlice 65] [GalMul False 0 0 64 65, GalMul False 0 0 0 64]) (\<lambda>outs'. Inr (outs', NilSlice))"
proof (rule codeSomeShards_any_schedule)
  show "optsOk Noasm smallOptions"
    by (simp add: optsOk_def smallOptions_def)
  show "codeShape [[2]] [ofBytes (replicate 65 7)] [makeSlice 65] 65"
    by (simp add: codeShape_def)
  show "codePlan Noasm smallOptions NilSlice [[2]] [ofBytes (replicate 65 7)] (length [makeSlice 65]) 65 =
      Inr ([[GalMul False 0 0 0 64], [GalMul False 0 0 64 65]], NilSlice)"
    by (simp add: codePlan_def parallelPlan_def canAVX2C_def avx2CodeGen_def smallOptions_def Let_def
        jobRanges_def splitSize_def align64_def execP_def loopResult_def roundCalls_def
        rounds.simps roundEnd_def)
  show "interleaving [[GalMul False 0 0 0 64], [GalMul False 0 0 64 65]]
      [GalMul False 0 0 64 65, GalMul False 0 0 0 64]"
    by (rule interleaving.step [where i = 1], simp, simp, simp,
        rule interleaving.step [where i = 0], simp, simp, simp, rule interleaving.finished, simp)
qed (simp add: poolOk_def avx2CodeGen_def)

text \<open>A loop whose step is not positive never gets anywhere.\<close>

lemma rounds_stuck:
  assumes "rounds per stop lo hi = Some rs"
  shows "per \<le> 0 \<longrightarrow> hi \<le> lo \<longrightarrow> stop \<le> lo"
proof (rule rounds.raw_induct [OF _ assms])
  fix f per stop lo hi rs
  assume IH: "\<And>per stop lo hi rs. f per stop lo hi = Some rs \<Longrightarrow> per \<le> 0 \<longrightarrow> hi \<le> lo \<longrightarrow> stop \<le> lo"
    and body: "(if lo < stop
      then Option.bind (f per stop hi (roundEnd per stop hi)) (\<lambda>rs. Some ((lo, hi) # rs))
      else Some []) = Some rs"
  show "per \<le> 0 \<longrightarrow> hi \<le> lo \<longrightarrow> stop \<le> lo"
  proof (cases "lo < stop")
    case True
    then obtain rs' where "f per stop hi (roundEnd per stop hi) = Some rs'"
      using body by (auto split: bind_splits)
    from IH [OF this] show ?thesis
      using True by (auto simp: roundEnd_def)
  qed simp
qed

text \<open>
  C37. The loop \<open>for start < stop { ...; start = end; end += per }\<close> of every coding routine runs to its
  end if and only if there is nothing left to do at its start or its step is positive, for any step: it
  is \<open>New\<close> that has to make \<open>perRound\<close> and the split size positive.  With a step of 0 the loop spins
  for ever; with a negative one, where the model has no ranges either, the code panics when it cuts
  the shards at a start behind the end.
\<close>

theorem rounds_end_iff:
  "(\<exists>rs. rounds per stop lo (roundEnd per stop lo) = Some rs) \<longleftrightarrow> stop \<le> lo \<or> 0 < per"
proof
  assume "\<exists>rs. rounds per stop lo (roundEnd per stop lo) = Some rs"
  then obtain rs where "rounds per stop lo (roundEnd per stop lo) = Some rs"
    by blast
  from rounds_stuck [OF this] show "stop \<le> lo \<or> 0 < per"
    by (cases "stop \<le> lo") (auto simp: roundEnd_def)
next
  assume "stop \<le> lo \<or> 0 < per"
  then show "\<exists>rs. rounds per stop lo (roundEnd per stop lo) = Some rs"
  proof (cases "stop \<le> lo")
    case True
    then show ?thesis
      by (simp add: rounds.simps)
  next
    case False
    then have "lo < stop" "0 < per"
      using \<open>stop \<le> lo \<or> 0 < per\<close> by simp_all
    then show ?thesis
      using rounds_Some [OF _ less_imp_le, of per lo stop "roundEnd per stop lo"] roundEnd_bounds by blast
  qed
qed

end
