(* ===== verification/CodingMatrix.thy ===== *)
theory CodingMatrix
  imports MatrixInverse
begin

text \<open>
  The encoding matrices of \<open>reedsolomon/reedsolomon.go\<close>: \<open>buildMatrix\<close>,
  \<open>buildMatrixPAR1\<close>, \<open>buildMatrixCauchy\<close> and \<open>buildXorMatrix\<close>.  The interface
  between them and the codec is the locale \<open>matrix_builder\<close>: what is built has the identity
  on top and every choice of \<open>dataShards\<close> rows has a trivial kernel, so that any
  \<open>dataShards\<close> shards determine the data.  Three of the four builders provide it; the
  PAR1 matrix has only the identity on top, and \<open>Pipeline\<close> exhibits a loss it does not survive.
\<close>

definition buildMatrix :: "int \<Rightarrow> int \<Rightarrow> matrix result" where
  "buildMatrix dataShards totalShards =
     bind_result (vandermonde totalShards dataShards) (\<lambda>vm.
     bind_result (SubMatrix vm 0 0 (nat dataShards) (nat dataShards)) (\<lambda>top.
     bind_result (Invert top) (\<lambda>topInv.
       Multiply vm topInv)))"

text \<open>The loop the other three builders share: identity on top, \<open>f r c\<close> below.\<close>

definition fillMatrix :: "nat \<Rightarrow> (nat \<Rightarrow> nat \<Rightarrow> byte) \<Rightarrow> matrix \<Rightarrow> matrix" where
  "fillMatrix dataShards f result =
     map (\<lambda>r.
       if r < dataShards then (result ! r)[r := 1]
       else map (f r) [0..<length (result ! r)]) [0..<length result]"

definition buildMatrixPAR1 :: "int \<Rightarrow> int \<Rightarrow> matrix result" where
  "buildMatrixPAR1 dataShards totalShards =
     bind_result (newMatrix totalShards dataShards) (\<lambda>result.
       Inr (fillMatrix (nat dataShards)
         (\<lambda>r c. galExp (word_of_nat (c + 1)) (r - nat dataShards)) result))"

definition buildMatrixCauchy :: "int \<Rightarrow> int \<Rightarrow> matrix result" where
  "buildMatrixCauchy dataShards totalShards =
     bind_result (newMatrix totalShards dataShards) (\<lambda>result.
       Inr (fillMatrix (nat dataShards)
         (\<lambda>r c. invTable ! unat (word_of_nat (r XOR c) :: byte)) result))"

definition buildXorMatrix :: "int \<Rightarrow> int \<Rightarrow> matrix result" where
  "buildXorMatrix dataShards totalShards =
     (if wrap64 (dataShards + 1) \<noteq> totalShards then Inl ErrInternal
      else bind_result (newMatrix totalShards dataShards) (\<lambda>result.
        Inr (fillMatrix (nat dataShards) (\<lambda>r c. 1) result)))"

subsection \<open>The interface\<close>

definition systematic :: "nat \<Rightarrow> nat \<Rightarrow> matrix \<Rightarrow> bool" where
  "systematic k t m \<longleftrightarrow> mat_wf t k m \<and>
     (\<forall>r<k. \<forall>c<k. m ! r ! c = (if r = c then 1 else 0))"

definition mds_matrix :: "nat \<Rightarrow> nat \<Rightarrow> matrix \<Rightarrow> bool" where
  "mds_matrix k t m \<longleftrightarrow> systematic k t m \<and>
     (\<forall>S x. S \<subseteq> {..<t} \<and> card S = k \<and> (\<forall>r\<in>S. lin m k x r = 0) \<longrightarrow> (\<forall>c<k. x c = 0))"

lemma systematic_top:
  assumes "systematic k t m" and "r < k"
  shows "lin m k x r = x r"
proof -
  have "GF (m ! r ! c) * x c = (if c = r then x c else 0)" if "c < k" for c
    using assms that by (auto simp: systematic_def gf_simps)
  then show ?thesis
    using assms(2) by (simp add: lin_def)
qed

text \<open>Any \<open>k\<close> distinct rows of an MDS matrix form a square matrix that \<open>Invert\<close> inverts.\<close>

lemma mds_rows_invertible:
  assumes mds: "mds_matrix k t m" and k: "0 < k"
    and rows: "length rows = k" "distinct rows" "\<And>r. r \<in> set rows \<Longrightarrow> r < t"
  obtains minv where
    "Invert (map (\<lambda>r. map (\<lambda>c. m ! r ! c) [0..<k]) rows) = Inr minv" "mat_wf k k minv"
    "\<And>x i. i < k \<Longrightarrow> lin minv k (\<lambda>j. lin m k x (rows ! j)) i = x i"
proof -
  let ?s = "map (\<lambda>r. map (\<lambda>c. m ! r ! c) [0..<k]) rows"
  have wf: "mat_wf k k ?s"
    using rows(1) by (auto simp: mat_wf_def)
  have lin: "lin ?s k x i = lin m k x (rows ! i)" if "i < k" for x i
    using that rows(1) by (simp add: lin_def)
  have "card (set rows) = k"
    using rows by (simp add: distinct_card)
  moreover have "set rows \<subseteq> {..<t}"
    using rows(3) by auto
  ultimately have "x r = 0" if "\<And>i. i < k \<Longrightarrow> lin ?s k x i = 0" "r < k" for x r
    using mds that lin rows(1) unfolding mds_matrix_def by (metis in_set_conv_nth)
  then obtain minv where minv: "Invert ?s = Inr minv" "mat_wf k k minv"
    "\<And>x r. r < k \<Longrightarrow> lin minv k (lin ?s k x) r = x r"
    by (rule Invert_trivial_kernel [OF wf k]) blast+
  have "lin minv k (\<lambda>j. lin m k x (rows ! j)) i = x i" if "i < k" for x i
    using minv(3) [OF that, of x] lin_cong [of k "lin ?s k x" "\<lambda>j. lin m k x (rows ! j)"] lin
    by simp
  then show ?thesis
    using minv that by blast
qed

text \<open>
  A \<open>systematic_builder\<close> keeps the data shards as they are, which is all that encoding needs; with
  a \<open>matrix_builder\<close> any \<open>k\<close> shards determine the data.
\<close>

locale systematic_builder =
  fixes build :: "int \<Rightarrow> int \<Rightarrow> matrix result"
    and valid :: "nat \<Rightarrow> nat \<Rightarrow> bool"
  assumes builds_systematic: "valid k t \<Longrightarrow> \<exists>m. build (int k) (int t) = Inr m \<and> systematic k t m"
    and valid_bounds: "valid k t \<Longrightarrow> 0 < k \<and> k \<le> t"
begin

lemma data_rows:
  "valid k t \<Longrightarrow> build (int k) (int t) = Inr m \<Longrightarrow> r < k \<Longrightarrow> lin m k x r = x r"
  using builds_systematic [of k t] by (auto intro: systematic_top)

end

locale matrix_builder = systematic_builder +
  assumes builds_mds: "valid k t \<Longrightarrow> build (int k) (int t) = Inr m \<Longrightarrow> mds_matrix k t m"
begin

lemma builds: "valid k t \<Longrightarrow> \<exists>m. build (int k) (int t) = Inr m \<and> mds_matrix k t m"
  using builds_systematic builds_mds by blast

lemma rows_invertible:
  assumes "valid k t" and m: "build (int k) (int t) = Inr m"
    and rows: "length rows = k" "distinct rows" "\<And>r. r \<in> set rows \<Longrightarrow> r < t"
  obtains minv where
    "Invert (map (\<lambda>r. map (\<lambda>c. m ! r ! c) [0..<k]) rows) = Inr minv" "mat_wf k k minv"
    "\<And>x i. i < k \<Longrightarrow> lin minv k (\<lambda>j. lin m k x (rows ! j)) i = x i"
  using mds_rows_invertible [OF builds_mds [OF assms(1,2)] _ rows] valid_bounds [OF assms(1)] by blast

end

lemma matrix_builderI:
  assumes "\<And>k t. valid k t \<Longrightarrow> \<exists>m. build (int k) (int t) = Inr m \<and> mds_matrix k t m"
    and "\<And>k t. valid k t \<Longrightarrow> 0 < k \<and> k \<le> t"
  shows "matrix_builder build valid"
proof unfold_locales
  fix k t m
  assume "valid k t"
  with assms(1) obtain m' where m': "build (int k) (int t) = Inr m'" "mds_matrix k t m'"
    by blast
  then show "\<exists>m. build (int k) (int t) = Inr m \<and> systematic k t m"
    by (auto simp: mds_matrix_def)
  show "0 < k \<and> k \<le> t"
    using assms(2) \<open>valid k t\<close> .
  show "mds_matrix k t m" if "build (int k) (int t) = Inr m"
    using m' that by simp
qed

subsection \<open>Polynomials over the field\<close>

text \<open>Synthetic division by \<open>z - a\<close>.\<close>

lemma poly_division:
  fixes x :: "nat \<Rightarrow> gf"
  shows "\<exists>y. (\<forall>z. (\<Sum>c<Suc n. x c * z ^ c) =
      (z + a) * (\<Sum>c<n. y c * z ^ c) + (\<Sum>c<Suc n. x c * a ^ c)) \<and>
    ((\<forall>c<n. y c = 0) \<longrightarrow> (\<forall>c. 0 < c \<and> c < Suc n \<longrightarrow> x c = 0))"
proof (induction n arbitrary: x)
  case 0
  show ?case by auto
next
  case (Suc n)
  obtain y where y: "\<And>z. (\<Sum>c<Suc n. x (Suc c) * z ^ c) =
      (z + a) * (\<Sum>c<n. y c * z ^ c) + (\<Sum>c<Suc n. x (Suc c) * a ^ c)"
    "(\<forall>c<n. y c = 0) \<longrightarrow> (\<forall>c. 0 < c \<and> c < Suc n \<longrightarrow> x (Suc c) = 0)"
    using Suc.IH [of "\<lambda>c. x (Suc c)"] by blast
  define R where "R = (\<Sum>c<Suc n. x (Suc c) * a ^ c)"
  define y' where "y' = (\<lambda>c. case c of 0 \<Rightarrow> R | Suc c \<Rightarrow> y c)"
  have split: "(\<Sum>c<Suc (Suc n). x c * z ^ c) = x 0 + z * (\<Sum>c<Suc n. x (Suc c) * z ^ c)" for z
    by (subst sum.lessThan_Suc_shift) (simp add: sum_distrib_left distrib_left mult_ac)
  have y'_split: "(\<Sum>c<Suc n. y' c * z ^ c) = R + z * (\<Sum>c<n. y c * z ^ c)" for z
    by (subst sum.lessThan_Suc_shift) (simp add: y'_def sum_distrib_left mult_ac)
  have "(\<Sum>c<Suc (Suc n). x c * z ^ c) =
      (z + a) * (\<Sum>c<Suc n. y' c * z ^ c) + (\<Sum>c<Suc (Suc n). x c * a ^ c)" for z
  proof -
    have "(\<Sum>c<Suc (Suc n). x c * z ^ c) = x 0 + z * ((z + a) * (\<Sum>c<n. y c * z ^ c) + R)"
      by (simp only: split [of z] y(1) [of z] R_def [symmetric])
    also have "\<dots> = (z + a) * (R + z * (\<Sum>c<n. y c * z ^ c)) + (x 0 + a * R)"
      by (simp add: algebra_simps)
    finally show ?thesis
      by (simp only: y'_split [of z] split [of a] R_def [symmetric])
  qed
  moreover have "x c = 0" if "\<forall>c<Suc n. y' c = 0" "0 < c" "c < Suc (Suc n)" for c
  proof -
    have "y c = 0" if "c < n" for c
      using \<open>\<forall>c<Suc n. y' c = 0\<close> [rule_format, of "Suc c"] that by (simp add: y'_def)
    then have high: "x (Suc c) = 0" if "0 < c" "c < Suc n" for c
      using y(2) that by blast
    have "R = 0"
      using \<open>\<forall>c<Suc n. y' c = 0\<close> by (auto simp: y'_def)
    moreover have "R = x 1 + (\<Sum>c<n. x (Suc (Suc c)) * a ^ Suc c)"
      unfolding R_def by (subst sum.lessThan_Suc_shift) simp
    moreover have "(\<Sum>c<n. x (Suc (Suc c)) * a ^ Suc c) = 0"
      using high by (intro sum.neutral) auto
    ultimately have "x 1 = 0"
      by simp
    then show ?thesis
      using high that(2,3) by (cases c; cases "c - 1") auto
  qed
  ultimately show ?case
    by blast
qed

text \<open>A polynomial of degree below \<open>n\<close> with \<open>n\<close> distinct roots is zero.\<close>

lemma poly_roots_zero:
  fixes x :: "nat \<Rightarrow> gf"
  assumes "finite A" "card A = n" "\<And>a. a \<in> A \<Longrightarrow> (\<Sum>c<n. x c * a ^ c) = 0"
  shows "c < n \<Longrightarrow> x c = 0"
  using assms
proof (induction n arbitrary: x A c)
  case (Suc n)
  obtain a where a: "a \<in> A"
    using Suc.prems by (metis card.empty ex_in_conv nat.distinct(1))
  obtain y where y: "\<And>z. (\<Sum>c<Suc n. x c * z ^ c) =
      (z + a) * (\<Sum>c<n. y c * z ^ c) + (\<Sum>c<Suc n. x c * a ^ c)"
    "(\<forall>c<n. y c = 0) \<longrightarrow> (\<forall>c. 0 < c \<and> c < Suc n \<longrightarrow> x c = 0)"
    using poly_division [of x n a] by blast
  have root: "(\<Sum>c<Suc n. x c * a ^ c) = 0"
    using Suc.prems a by blast
  have "(\<Sum>c<n. y c * z ^ c) = 0" if "z \<in> A - {a}" for z
  proof -
    have "(\<Sum>c<Suc n. x c * z ^ c) = 0"
      using Suc.prems(4) that by blast
    then have "(z + a) * (\<Sum>c<n. y c * z ^ c) = 0"
      unfolding y(1) [of z] root by simp
    moreover have "z + a \<noteq> 0"
      using that by (simp add: gf_add_eq_0_iff)
    ultimately show ?thesis
      by simp
  qed
  moreover have "finite (A - {a})" "card (A - {a}) = n"
    using Suc.prems(2,3) a by simp_all
  ultimately have y0: "y c = 0" if "c < n" for c
    using Suc.IH [OF that, of "A - {a}" y] by blast
  then have high: "x c = 0" if "0 < c" "c < Suc n" for c
    using y(2) that y0 by blast
  have "(\<Sum>c<Suc n. x c * a ^ c) = x 0"
    by (subst sum.lessThan_Suc_shift) (simp add: high)
  then show ?case
    using root high Suc.prems(1) by (cases c) auto
qed simp

definition polyn :: "nat \<Rightarrow> (gf \<Rightarrow> gf) \<Rightarrow> bool" where
  "polyn n f \<longleftrightarrow> (\<exists>x. \<forall>z. f z = (\<Sum>c<n. x c * z ^ c))"

lemma polyn_zero: "polyn n (\<lambda>z. 0)"
  by (auto simp: polyn_def intro!: exI [of _ "\<lambda>_. 0"])

lemma polyn_one: "polyn (Suc 0) (\<lambda>z. 1)"
  by (auto simp: polyn_def intro!: exI [of _ "\<lambda>_. 1"])

lemma polyn_add: "polyn n f \<Longrightarrow> polyn n g \<Longrightarrow> polyn n (\<lambda>z. f z + g z)"
proof -
  assume "polyn n f" "polyn n g"
  then obtain x y where "\<And>z. f z = (\<Sum>c<n. x c * z ^ c)" "\<And>z. g z = (\<Sum>c<n. y c * z ^ c)"
    by (auto simp: polyn_def)
  then show ?thesis
    unfolding polyn_def
    by (intro exI [of _ "\<lambda>c. x c + y c"]) (simp add: distrib_right sum.distrib)
qed

lemma polyn_smult: "polyn n f \<Longrightarrow> polyn n (\<lambda>z. b * f z)"
proof -
  assume "polyn n f"
  then obtain x where "\<And>z. f z = (\<Sum>c<n. x c * z ^ c)"
    by (auto simp: polyn_def)
  then show ?thesis
    unfolding polyn_def
    by (intro exI [of _ "\<lambda>c. b * x c"]) (simp add: sum_distrib_left mult.assoc)
qed

lemma polyn_shift: "polyn n f \<Longrightarrow> polyn (Suc n) (\<lambda>z. z * f z)"
proof -
  assume "polyn n f"
  then obtain x where x: "\<And>z. f z = (\<Sum>c<n. x c * z ^ c)"
    by (auto simp: polyn_def)
  have "z * f z = (\<Sum>c<Suc n. (case c of 0 \<Rightarrow> 0 | Suc c \<Rightarrow> x c) * z ^ c)" for z
    unfolding x by (subst sum.lessThan_Suc_shift) (simp add: sum_distrib_left mult_ac)
  then show ?thesis
    unfolding polyn_def by blast
qed

lemma polyn_mono: "polyn n f \<Longrightarrow> polyn (Suc n) f"
proof -
  assume "polyn n f"
  then obtain x where x: "\<And>z. f z = (\<Sum>c<n. x c * z ^ c)"
    by (auto simp: polyn_def)
  have "f z = (\<Sum>c<Suc n. (if c < n then x c else 0) * z ^ c)" for z
    by (simp add: x)
  then show ?thesis
    unfolding polyn_def by (intro exI [of _ "\<lambda>c. if c < n then x c else 0"]) simp
qed

lemma polyn_prod: "finite A \<Longrightarrow> polyn (Suc (card A)) (\<lambda>z. \<Prod>a\<in>A. z + g a)"
proof (induction A rule: finite_induct)
  case empty
  then show ?case by (simp add: polyn_one)
next
  case (insert a A)
  note IH = insert.IH
  have "polyn (Suc (Suc (card A)))
      (\<lambda>z. z * (\<Prod>a\<in>A. z + g a) + g a * (\<Prod>a\<in>A. z + g a))"
    by (rule polyn_add [OF polyn_shift [OF IH] polyn_mono [OF polyn_smult [OF IH]]])
  then show ?case
    using insert by (simp add: distrib_right)
qed

lemma polyn_sum: "(\<And>c. c \<in> E \<Longrightarrow> polyn n (f c)) \<Longrightarrow> polyn n (\<lambda>z. \<Sum>c\<in>E. f c z)"
  by (induction E rule: infinite_finite_induct) (auto intro: polyn_zero polyn_add)

lemma polyn_roots:
  assumes "polyn n f" and "finite A" "card A = n" "\<And>a. a \<in> A \<Longrightarrow> f a = 0"
  shows "f z = 0"
proof -
  obtain x where x: "\<And>z. f z = (\<Sum>c<n. x c * z ^ c)"
    using assms(1) by (auto simp: polyn_def)
  have "x c = 0" if "c < n" for c
    using poly_roots_zero [OF assms(2,3) _ that, of x] assms(4) x by simp
  then show ?thesis
    by (simp add: x)
qed

subsection \<open>The Vandermonde and the Cauchy kernel\<close>

lemma vandermonde_kernel:
  assumes "inj_on f S" "finite S" "card S = k"
    and "\<And>r. r \<in> S \<Longrightarrow> (\<Sum>c<k. f r ^ c * x c) = (0 :: gf)"
  shows "c < k \<Longrightarrow> x c = 0"
  by (rule poly_roots_zero [of "f ` S" k])
    (use assms in \<open>auto simp: card_image mult.commute\<close>)

lemma cauchy_kernel:
  fixes \<rho> :: "'a \<Rightarrow> gf" and \<gamma> :: "'b \<Rightarrow> gf"
  assumes E: "finite E" "inj_on \<gamma> E" and P: "finite P" "inj_on \<rho> P" "card P = card E"
    and apart: "\<And>r c. r \<in> P \<Longrightarrow> c \<in> E \<Longrightarrow> \<rho> r \<noteq> \<gamma> c"
    and zero: "\<And>r. r \<in> P \<Longrightarrow> (\<Sum>c\<in>E. inverse (\<rho> r + \<gamma> c) * x c) = 0"
    and c: "c \<in> E"
  shows "x c = 0"
proof -
  define Q where "Q z = (\<Sum>c\<in>E. x c * (\<Prod>d\<in>E - {c}. z + \<gamma> d))" for z
  have "polyn (card E) (\<lambda>z. \<Prod>d\<in>E - {c}. z + \<gamma> d)" if "c \<in> E" for c
  proof -
    have "polyn (Suc (card (E - {c}))) (\<lambda>z. \<Prod>d\<in>E - {c}. z + \<gamma> d)"
      by (rule polyn_prod) (simp add: E)
    then show ?thesis
      unfolding card_Suc_Diff1 [OF E(1) that] .
  qed
  then have poly: "polyn (card E) Q"
    unfolding Q_def by (intro polyn_sum polyn_smult)
  have root: "Q (\<rho> r) = 0" if r: "r \<in> P" for r
  proof -
    have "x c * (\<Prod>d\<in>E - {c}. \<rho> r + \<gamma> d) =
        (\<Prod>d\<in>E. \<rho> r + \<gamma> d) * (inverse (\<rho> r + \<gamma> c) * x c)" if "c \<in> E" for c
    proof -
      have "\<rho> r + \<gamma> c \<noteq> 0"
        using apart r that by (simp add: gf_add_eq_0_iff)
      then show ?thesis
        using that E(1) by (simp add: prod.remove field_simps)
    qed
    then have "Q (\<rho> r) = (\<Prod>d\<in>E. \<rho> r + \<gamma> d) * (\<Sum>c\<in>E. inverse (\<rho> r + \<gamma> c) * x c)"
      unfolding Q_def sum_distrib_left by (rule sum.cong [OF refl])
    then show ?thesis
      unfolding zero [OF r] by simp
  qed
  have "Q (\<gamma> c) = 0"
  proof (rule polyn_roots [OF poly, of "\<rho> ` P"])
    show "finite (\<rho> ` P)" "card (\<rho> ` P) = card E"
      using P by (simp_all add: card_image)
    show "Q a = 0" if "a \<in> \<rho> ` P" for a
      using that root by blast
  qed
  moreover have "Q (\<gamma> c) = x c * (\<Prod>d\<in>E - {c}. \<gamma> c + \<gamma> d)"
  proof -
    have "(\<Prod>d\<in>E - {b}. \<gamma> c + \<gamma> d) = 0" if "b \<in> E - {c}" for b
      using that E(1) c by (intro prod_zero bexI [of _ c]) auto
    then have "(\<Sum>b\<in>E - {c}. x b * (\<Prod>d\<in>E - {b}. \<gamma> c + \<gamma> d)) = 0"
      by simp
    then show ?thesis
      unfolding Q_def using E(1) c by (subst sum.remove [of _ c]) simp_all
  qed
  moreover have "(\<Prod>d\<in>E - {c}. \<gamma> c + \<gamma> d) \<noteq> 0"
    using E c by (auto simp: gf_add_eq_0_iff dest: inj_onD)
  ultimately show ?thesis
    by simp
qed

subsection \<open>Bytes as points of the field\<close>

lemma of_nat_byte_inj: "inj_on (\<lambda>n. GF (word_of_nat n)) {..<256}"
proof (rule inj_onI)
  fix m n :: nat
  assume "m \<in> {..<256}" "n \<in> {..<256}" "GF (word_of_nat m) = GF (word_of_nat n)"
  then have "unat (word_of_nat m :: byte) = unat (word_of_nat n :: byte)" "m < 256" "n < 256"
    by simp_all
  then show "m = n"
    by (simp add: unat_of_nat)
qed

lemma of_nat_byte_eq_iff:
  "m < 256 \<Longrightarrow> n < 256 \<Longrightarrow> GF (word_of_nat m) = GF (word_of_nat n) \<longleftrightarrow> m = n"
  using of_nat_byte_inj by (auto dest: inj_onD)

subsection \<open>The default matrix\<close>

lemma vandermonde_Inr:
  assumes "0 < k" "0 < t"
  shows "vandermonde (int t) (int k) =
    Inr (map (\<lambda>r. map (\<lambda>c. galExp (word_of_nat r) c) [0..<k]) [0..<t])"
  using assms by (simp add: vandermonde_def newMatrix_Inr cong: map_cong)

lemma lin_vandermonde:
  "r < t \<Longrightarrow> lin (map (\<lambda>r. map (\<lambda>c. galExp (word_of_nat r) c) [0..<k]) [0..<t]) k x r =
    (\<Sum>c<k. GF (word_of_nat r) ^ c * x c)"
  by (simp add: lin_def gf_simps)

lemma buildMatrix_mds:
  assumes k: "0 < k" "k \<le> t" and t: "t \<le> 256"
  shows "\<exists>m. buildMatrix (int k) (int t) = Inr m \<and> mds_matrix k t m"
proof -
  define vm where "vm = map (\<lambda>r. map (\<lambda>c. galExp (word_of_nat r) c) [0..<k]) [0..<t]"
  define top where "top = map (\<lambda>r. map (\<lambda>c. vm ! r ! c) [0..<k]) [0..<k]"
  have vm: "vandermonde (int t) (int k) = Inr vm" "mat_wf t k vm"
    using vandermonde_Inr [of k t] k mat_wf_map_upt by (simp_all add: vm_def)
  have top: "SubMatrix vm 0 0 k k = Inr top" "mat_wf k k top"
    using SubMatrix_Inr [OF vm(2), of 0 k 0 k] k mat_wf_map_upt by (simp_all add: top_def)
  have lin_vm: "lin vm k x r = (\<Sum>c<k. GF (word_of_nat r) ^ c * x c)" if "r < t" for x r
    unfolding vm_def by (rule lin_vandermonde [OF that])
  have lin_top: "lin top k x r = lin vm k x r" if "r < k" for x r
    using that by (simp add: lin_def top_def)
  have kernel: "x c = 0"
    if "S \<subseteq> {..<t}" "card S = k" "\<And>r. r \<in> S \<Longrightarrow> lin vm k x r = 0" "c < k" for S x c
  proof (rule vandermonde_kernel [OF _ _ that(2) _ that(4)])
    show "inj_on (\<lambda>r. GF (word_of_nat r)) S"
      using that(1) t by (intro inj_on_subset [OF of_nat_byte_inj]) auto
    show "finite S"
      using that(1) by (rule finite_subset) simp
    show "(\<Sum>c<k. GF (word_of_nat r) ^ c * x c) = 0" if "r \<in> S" for r
      using that \<open>S \<subseteq> {..<t}\<close> \<open>\<And>r. r \<in> S \<Longrightarrow> _\<close> lin_vm [of r x] by auto
  qed
  have "x r = 0" if "\<And>r. r < k \<Longrightarrow> lin top k x r = 0" "r < k" for x r
    using kernel [of "{..<k}" x r] k lin_top that by auto
  then obtain ti where ti: "Invert top = Inr ti" "mat_wf k k ti"
    "\<And>y r. r < k \<Longrightarrow> lin top k (lin ti k y) r = y r"
    "\<And>x r. r < k \<Longrightarrow> lin ti k (lin top k x) r = x r"
    by (rule Invert_trivial_kernel [OF top(2) k(1)]) blast+
  obtain m where m: "Multiply vm ti = Inr m" "mat_wf t k m"
    "\<And>x r. r < t \<Longrightarrow> lin m k x r = lin vm k (lin ti k x) r"
    using Multiply_Inr [OF vm(2) ti(2)] k by (metis less_le_trans)
  have id: "lin m k x r = x r" if "r < k" for x r
    using that k m(3) [of r x] ti(3) [OF that, of x] lin_top [OF that] by simp
  have "m ! r ! c = (if r = c then 1 else 0)" if "r < k" "c < k" for r c
  proof -
    have "GF (m ! r ! c) = (if r = c then 1 else 0)"
      using id [OF that(1), of "\<lambda>i. if i = c then 1 else 0"] that by (simp add: lin_unit)
    then show ?thesis
      by (metis GF_0 GF_1 gf.inject)
  qed
  moreover have "x c = 0"
    if "S \<subseteq> {..<t}" "card S = k" "\<forall>r\<in>S. lin m k x r = 0" "c < k" for S x c
  proof -
    have "lin vm k (lin ti k x) r = 0" if "r \<in> S" for r
      using that \<open>S \<subseteq> {..<t}\<close> \<open>\<forall>r\<in>S. lin m k x r = 0\<close> m(3) [of r x] by auto
    then have "lin ti k x i = 0" if "i < k" for i
      using kernel [OF \<open>S \<subseteq> {..<t}\<close> \<open>card S = k\<close>] that by blast
    then have "lin top k (lin ti k x) c = 0"
      by (simp add: lin_def)
    then show ?thesis
      using ti(3) [OF \<open>c < k\<close>, of x] by simp
  qed
  ultimately have "mds_matrix k t m"
    unfolding mds_matrix_def systematic_def using m(2) by blast
  moreover have "buildMatrix (int k) (int t) = Inr m"
    using vm top ti m by (simp add: buildMatrix_def)
  ultimately show ?thesis
    by blast
qed

interpretation vander: matrix_builder buildMatrix "\<lambda>k t. 0 < k \<and> k \<le> t \<and> t \<le> 256"
  by (rule matrix_builderI) (simp_all add: buildMatrix_mds)

subsection \<open>The matrices filled in place\<close>

lemma fillMatrix_Inr:
  assumes "0 < k" "0 < t"
  shows "bind_result (newMatrix (int t) (int k)) (\<lambda>z. Inr (fillMatrix k f z)) =
    Inr (map (\<lambda>r. map (\<lambda>c. if r < k then (if r = c then 1 else 0) else f r c) [0..<k]) [0..<t])"
  using assms
  by (auto simp: newMatrix_Inr fillMatrix_def nth_list_update intro!: nth_equalityI)

lemma buildMatrixPAR1_systematic:
  assumes "0 < k" and "k \<le> t"
  shows "\<exists>m. buildMatrixPAR1 (int k) (int t) = Inr m \<and> systematic k t m"
  using assms fillMatrix_Inr [of k t] mat_wf_map_upt
  by (auto simp: buildMatrixPAR1_def systematic_def)

interpretation par1: systematic_builder buildMatrixPAR1 "\<lambda>k t. 0 < k \<and> k \<le> t"
  by unfold_locales (auto intro: buildMatrixPAR1_systematic)

text \<open>
  With the identity on top, only the missing columns and the parity rows matter.
\<close>

lemma fill_mds:
  assumes "k \<le> t"
    and kernel: "\<And>E P x c. E \<subseteq> {..<k} \<Longrightarrow> P \<subseteq> {k..<t} \<Longrightarrow> card P = card E \<Longrightarrow>
      (\<And>r. r \<in> P \<Longrightarrow> (\<Sum>c\<in>E. GF (f r c) * x c) = 0) \<Longrightarrow> c \<in> E \<Longrightarrow> x c = 0"
  shows "mds_matrix k t
    (map (\<lambda>r. map (\<lambda>c. if r < k then (if r = c then 1 else 0) else f r c) [0..<k]) [0..<t])"
    (is "mds_matrix k t ?m")
  unfolding mds_matrix_def systematic_def
proof (intro conjI allI impI)
  show "mat_wf t k ?m"
    by (rule mat_wf_map_upt)
next
  fix r c
  assume "r < k" "c < k"
  then show "?m ! r ! c = (if r = c then 1 else 0)"
    using assms(1) by simp
next
  fix S x c
  assume S: "S \<subseteq> {..<t} \<and> card S = k \<and> (\<forall>r\<in>S. lin ?m k x r = 0)" and c: "c < k"
  define E where "E = {..<k} - S"
  define P where "P = S - {..<k}"
  have fin: "finite S"
    using S finite_subset by blast
  have "card S = card (S \<inter> {..<k}) + card P"
    unfolding P_def using fin by (metis card_Int_Diff)
  moreover have "card {..<k} = card ({..<k} \<inter> S) + card E"
    unfolding E_def by (metis card_Int_Diff finite_lessThan)
  ultimately have card: "card P = card E"
    using S by (simp add: Int_commute)
  have data: "x r = 0" if "r \<in> S" "r < k" for r
  proof -
    have "GF (?m ! r ! c) * x c = (if c = r then x c else 0)" if "c < k" for c
      using that \<open>r < k\<close> assms(1) by (auto simp: gf_simps)
    then have "lin ?m k x r = (\<Sum>c<k. if c = r then x c else 0)"
      unfolding lin_def by (intro sum.cong) auto
    then show ?thesis
      using S that by simp
  qed
  have parity: "(\<Sum>c\<in>E. GF (f r c) * x c) = 0" if "r \<in> P" for r
  proof -
    have "k \<le> r" "r < t"
      using that S by (auto simp: P_def)
    then have "lin ?m k x r = (\<Sum>c<k. GF (f r c) * x c)"
      by (simp add: lin_def)
    also have "\<dots> = (\<Sum>c\<in>E. GF (f r c) * x c)"
      by (rule sum.mono_neutral_right) (auto simp: E_def data)
    finally show ?thesis
      using that S by (simp add: P_def)
  qed
  have "P \<subseteq> {k..<t}"
    using S by (auto simp: P_def)
  then have "x c = 0" if "c \<in> E"
    using kernel [OF _ _ card parity that] by (auto simp: E_def)
  then show "x c = 0"
    using data c by (cases "c \<in> S") (auto simp: E_def)
qed

lemma buildMatrixCauchy_mds:
  assumes k: "0 < k" "k \<le> t" and t: "t \<le> 256"
  shows "\<exists>m. buildMatrixCauchy (int k) (int t) = Inr m \<and> mds_matrix k t m"
proof -
  have "x c = 0"
    if E: "E \<subseteq> {..<k}" and P: "P \<subseteq> {k..<t}" and card: "card P = card E" and c: "c \<in> E"
      and zero: "\<And>r. r \<in> P \<Longrightarrow>
        (\<Sum>c\<in>E. GF (invTable ! unat (word_of_nat (r XOR c) :: byte)) * x c) = 0" for E P x c
  proof (rule cauchy_kernel [of E "\<lambda>c. GF (word_of_nat c)" P "\<lambda>r. GF (word_of_nat r)"])
    show "finite E" "finite P"
      using E P by (auto intro: finite_subset)
    show "inj_on (\<lambda>c. GF (word_of_nat c)) E" "inj_on (\<lambda>r. GF (word_of_nat r)) P"
      using E P k t by (auto intro!: inj_on_subset [OF of_nat_byte_inj])
    show "GF (word_of_nat r) \<noteq> GF (word_of_nat c)" if "r \<in> P" "c \<in> E" for r c
    proof -
      have "c < k" "k \<le> r" "r < t"
        using that E P by auto
      then show ?thesis
        using t by (subst of_nat_byte_eq_iff) auto
    qed
    show "(\<Sum>c\<in>E. inverse (GF (word_of_nat r) + GF (word_of_nat c)) * x c) = 0"
      if "r \<in> P" for r
      using zero [OF that] by (simp add: GF_invTable of_nat_xor_eq GF_xor)
  qed (use card c in auto)
  then have "mds_matrix k t (map (\<lambda>r. map (\<lambda>c. if r < k then (if r = c then 1 else 0)
      else invTable ! unat (word_of_nat (r XOR c) :: byte)) [0..<k]) [0..<t])"
    by (rule fill_mds [OF k(2)])
  moreover have "buildMatrixCauchy (int k) (int t) = Inr
      (map (\<lambda>r. map (\<lambda>c. if r < k then (if r = c then 1 else 0)
      else invTable ! unat (word_of_nat (r XOR c) :: byte)) [0..<k]) [0..<t])"
    using fillMatrix_Inr [of k t "\<lambda>r c. invTable ! unat (word_of_nat (r XOR c) :: byte)"] k
    by (simp add: buildMatrixCauchy_def)
  ultimately show ?thesis
    by blast
qed

interpretation cauchy: matrix_builder buildMatrixCauchy "\<lambda>k t. 0 < k \<and> k \<le> t \<and> t \<le> 256"
  by (rule matrix_builderI) (simp_all add: buildMatrixCauchy_mds)

lemma buildXorMatrix_mds:
  assumes k: "0 < k" "t = k + 1" and t: "t \<le> 256"
  shows "\<exists>m. buildXorMatrix (int k) (int t) = Inr m \<and> mds_matrix k t m"
proof -
  have "x c = 0"
    if E: "E \<subseteq> {..<k}" and P: "P \<subseteq> {k..<t}" and card: "card P = card E" and c: "c \<in> E"
      and zero: "\<And>r. r \<in> P \<Longrightarrow> (\<Sum>c\<in>E. GF 1 * x c) = 0" for E P x c
  proof -
    have fin: "finite E" "finite P"
      using E P by (auto intro: finite_subset)
    have "card P \<le> card {k..<t}"
      using P by (intro card_mono) auto
    then have "card E \<le> Suc 0"
      using card k by simp
    then have "E = {c}"
      using c fin(1) card_le_Suc0_iff_eq [OF fin(1)] by auto
    moreover obtain r where "r \<in> P"
      using card c fin by (metis card_gt_0_iff empty_iff ex_in_conv)
    ultimately show ?thesis
      using zero by (simp add: GF_1)
  qed
  then have "mds_matrix k t (map (\<lambda>r. map (\<lambda>c. if r < k then (if r = c then 1 else 0)
      else 1) [0..<k]) [0..<t])"
    using fill_mds [of k t "\<lambda>r c. 1"] k by simp
  moreover have "wrap64 (int k + 1) = int t"
    using k t by (subst wrap64_id) (auto simp: int64_def)
  then have "buildXorMatrix (int k) (int t) = Inr
      (map (\<lambda>r. map (\<lambda>c. if r < k then (if r = c then 1 else 0) else 1) [0..<k]) [0..<t])"
    using fillMatrix_Inr [of k t "\<lambda>r c. 1"] k by (simp add: buildXorMatrix_def)
  ultimately show ?thesis
    by blast
qed

interpretation xor_one: matrix_builder buildXorMatrix "\<lambda>k t. 0 < k \<and> t = k + 1 \<and> t \<le> 256"
  by (rule matrix_builderI) (blast intro: buildXorMatrix_mds, simp)

subsection \<open>Properties\<close>

text \<open>
  C29. For every accepted number of shards the default encoding matrix exists, leaves the
  data shards unchanged, and any \<open>dataShards\<close> of its rows determine the data.
\<close>

theorem buildMatrix_any_rows:
  assumes "0 < k" and "k \<le> t" and "t \<le> 256"
  shows "\<exists>m. buildMatrix (int k) (int t) = Inr m \<and> mds_matrix k t m"
  using vander.builds assms by blast

theorem buildMatrix_any_rows_witness:
  "\<exists>m. buildMatrix 8 12 = Inr m \<and> mds_matrix 8 12 m"
  using buildMatrix_any_rows [of 8 12] by simp

text \<open>The same for the Cauchy matrix.\<close>

theorem buildMatrixCauchy_any_rows:
  assumes "0 < k" and "k \<le> t" and "t \<le> 256"
  shows "\<exists>m. buildMatrixCauchy (int k) (int t) = Inr m \<and> mds_matrix k t m"
  using cauchy.builds assms by blast

theorem buildMatrixCauchy_any_rows_witness:
  "\<exists>m. buildMatrixCauchy 5 8 = Inr m \<and> mds_matrix 5 8 m"
  using buildMatrixCauchy_any_rows [of 5 8] by simp

end
