(* ===== verification/InversionTree.thy ===== *)
theory InversionTree
  imports MatrixInverse
begin

text \<open>
  \<open>reedsolomon/inversion_tree.go\<close>: a tree that keeps inverted matrices under the sorted list of
  the rows that were missing.  Go pointers that may be \<open>nil\<close> are options, indices out of range
  are \<open>Panic\<close>.  The read-write lock makes each operation atomic, so the operations are functions of
  the tree.  The locale \<open>matrix_cache\<close> is what \<open>reconstruct\<close> relies on: a lookup returns only what
  was stored under the same key.
\<close>

datatype inversionNode = Node "matrix option" "inversionNode option list"

text \<open>The tree is its root; \<open>identityMatrix\<close> fails only where \<open>New\<close> already refused.\<close>

definition newInversionTree :: "int \<Rightarrow> int \<Rightarrow> inversionNode result" where
  "newInversionTree dataShards parityShards =
     (if dataShards + parityShards < 0 then Inl Panic
      else Inr (Node (case identityMatrix dataShards of Inl _ \<Rightarrow> None | Inr m \<Rightarrow> Some m)
        (replicate (nat (dataShards + parityShards)) None)))"

fun getInvertedMatrix :: "inversionNode \<Rightarrow> nat list \<Rightarrow> nat \<Rightarrow> matrix option result" where
  "getInvertedMatrix n [] parent = Inl Panic"
| "getInvertedMatrix (Node m children) (firstIndex # rest) parent =
     (if firstIndex < parent \<or> length children \<le> firstIndex - parent then Inl Panic
      else
        case children ! (firstIndex - parent) of
          None \<Rightarrow> Inr None
        | Some (Node nm nc) \<Rightarrow>
            if rest \<noteq> [] then getInvertedMatrix (Node nm nc) rest (firstIndex + 1)
            else Inr nm)"

definition GetInvertedMatrix :: "inversionNode option \<Rightarrow> nat list \<Rightarrow> matrix option result" where
  "GetInvertedMatrix t invalidIndices =
     (case t of
        None \<Rightarrow> Inr None
      | Some (Node m children) \<Rightarrow>
          if invalidIndices = [] then Inr m
          else getInvertedMatrix (Node m children) invalidIndices 0)"

fun insertInvertedMatrix :: "nat list \<Rightarrow> matrix \<Rightarrow> nat \<Rightarrow> nat \<Rightarrow> inversionNode \<Rightarrow> inversionNode result" where
  "insertInvertedMatrix [] m shards parent n = Inl Panic"
| "insertInvertedMatrix (firstIndex # rest) m shards parent (Node nm children) =
     (if firstIndex < parent \<or> length children \<le> firstIndex - parent then Inl Panic
      else if children ! (firstIndex - parent) = None \<and> shards < firstIndex then Inl Panic
      else
        let node = (case children ! (firstIndex - parent) of
            None \<Rightarrow> Node None (replicate (shards - firstIndex) None) | Some node \<Rightarrow> node) in
        bind_result
          (if rest \<noteq> [] then insertInvertedMatrix rest m shards (firstIndex + 1) node
           else (case node of Node _ nc \<Rightarrow> Inr (Node (Some m) nc))) (\<lambda>node.
        Inr (Node nm (children[firstIndex - parent := Some node]))))"

definition InsertInvertedMatrix ::
    "inversionNode option \<Rightarrow> nat list \<Rightarrow> matrix \<Rightarrow> nat \<Rightarrow> inversionNode option result" where
  "InsertInvertedMatrix t invalidIndices m shards =
     (case t of
        None \<Rightarrow> Inr None
      | Some root \<Rightarrow>
          if invalidIndices = [] then Inl ErrAlreadySet
          else bind_result (IsSquare m) (\<lambda>square.
            if \<not> square then Inl ErrNotSquare
            else bind_result (insertInvertedMatrix invalidIndices m shards 0 root) (\<lambda>root.
              Inr (Some root))))"

subsection \<open>The shape of the tree\<close>

text \<open>
  A node that is reached with parent index \<open>p\<close> has a child slot for every row from \<open>p\<close> on.
\<close>

inductive nodeInv :: "nat \<Rightarrow> nat \<Rightarrow> inversionNode \<Rightarrow> bool" where
  nodeInvI: "shards \<le> parent + length children \<Longrightarrow>
    (\<And>i n. i < length children \<Longrightarrow> children ! i = Some n \<Longrightarrow> nodeInv shards (parent + i + 1) n) \<Longrightarrow>
    nodeInv shards parent (Node m children)"

inductive_cases nodeInv_Node: "nodeInv shards parent (Node m children)"

fun keyFrom :: "nat \<Rightarrow> nat \<Rightarrow> nat list \<Rightarrow> bool" where
  "keyFrom shards parent [] \<longleftrightarrow> True"
| "keyFrom shards parent (i # is) \<longleftrightarrow> parent \<le> i \<and> i < shards \<and> keyFrom shards (i + 1) is"

lemma nodeInv_empty: "shards \<le> parent + n \<Longrightarrow> nodeInv shards parent (Node m (replicate n None))"
  by (intro nodeInvI) auto

lemma nodeInv_child:
  assumes "nodeInv shards parent (Node m nc)" and "parent \<le> i" and "i < shards"
  shows "i - parent < length nc"
    and "nc ! (i - parent) = Some k \<Longrightarrow> nodeInv shards (i + 1) k"
proof -
  have len: "shards \<le> parent + length nc"
    and sub: "\<And>j k. j < length nc \<Longrightarrow> nc ! j = Some k \<Longrightarrow> nodeInv shards (parent + j + 1) k"
    using assms(1) by (auto elim: nodeInv_Node)
  show i: "i - parent < length nc"
    using len assms(2,3) by linarith
  have "parent + (i - parent) + 1 = i + 1"
    using assms(2) by simp
  then show "nodeInv shards (i + 1) k" if "nc ! (i - parent) = Some k"
    using sub [OF i that] by simp
qed

lemma getInvertedMatrix_Inr:
  "nodeInv shards parent n \<Longrightarrow> keyFrom shards parent ix \<Longrightarrow> ix \<noteq> [] \<Longrightarrow>
    \<exists>m. getInvertedMatrix n ix parent = Inr m"
proof (induction ix arbitrary: parent n)
  case (Cons i ix)
  obtain nm nc where n: "n = Node nm nc"
    by (cases n)
  note child = nodeInv_child [OF Cons.prems(1) [unfolded n], of i]
  have i: "parent \<le> i" "i - parent < length nc"
    using Cons.prems child by simp_all
  show ?case
  proof (cases "nc ! (i - parent)")
    case (Some k)
    then have "ix \<noteq> [] \<Longrightarrow> \<exists>m. getInvertedMatrix k ix (i + 1) = Inr m"
      using Cons.IH [of "i + 1" k] Cons.prems child by simp
    then show ?thesis
      using i Some by (cases k) (auto simp: n)
  qed (use i in \<open>simp add: n\<close>)
qed simp

text \<open>The child a key goes through, an empty one where there is none yet, and what a new child changes.\<close>

definition childAt :: "nat \<Rightarrow> nat \<Rightarrow> inversionNode option list \<Rightarrow> nat \<Rightarrow> inversionNode" where
  "childAt shards parent nc i =
     (case nc ! (i - parent) of None \<Rightarrow> Node None (replicate (shards - i) None) | Some k \<Rightarrow> k)"

lemma getInvertedMatrix_child:
  assumes "parent \<le> i" and "i - parent < length nc" and "keyFrom shards (i + 1) js"
  shows "getInvertedMatrix (Node nm nc) (i # js) parent =
    (if js = [] then Inr (case childAt shards parent nc i of Node m _ \<Rightarrow> m)
     else getInvertedMatrix (childAt shards parent nc i) js (i + 1))"
proof (cases "nc ! (i - parent)")
  case None
  then show ?thesis
    using assms by (cases js) (auto simp: childAt_def)
next
  case (Some k)
  then show ?thesis
    using assms by (cases k) (simp add: childAt_def)
qed

lemma childAt_inv:
  assumes "nodeInv shards parent (Node nm nc)" and "parent \<le> i" and "i < shards"
  shows "nodeInv shards (i + 1) (childAt shards parent nc i)"
  using nodeInv_child(2) [OF assms] nodeInv_empty [of shards "i + 1" "shards - i"] assms(3)
  by (auto simp: childAt_def split: option.split)

lemma nodeInv_update:
  assumes "nodeInv shards parent (Node nm nc)" and "parent \<le> i" and "nodeInv shards (i + 1) k"
  shows "nodeInv shards parent (Node nm (nc[i - parent := Some k]))"
proof (rule nodeInvI)
  show "shards \<le> parent + length (nc[i - parent := Some k])"
    using assms(1) by (auto elim: nodeInv_Node)
  fix j q
  assume j: "j < length (nc[i - parent := Some k])" "nc[i - parent := Some k] ! j = Some q"
  show "nodeInv shards (parent + j + 1) q"
  proof (cases "j = i - parent")
    case True
    then show ?thesis
      using assms(2,3) j by simp
  next
    case False
    then show ?thesis
      using assms(1) j by (auto elim: nodeInv_Node)
  qed
qed

text \<open>
  The main lemma on the tree: an insertion along a sorted key succeeds, keeps the shape, and
  changes the lookup of exactly that key.
\<close>

lemma insertInvertedMatrix_Inr:
  "nodeInv shards parent n \<Longrightarrow> keyFrom shards parent ix \<Longrightarrow> ix \<noteq> [] \<Longrightarrow>
    \<exists>n'. insertInvertedMatrix ix m shards parent n = Inr n' \<and> nodeInv shards parent n' \<and>
      (\<forall>jx. keyFrom shards parent jx \<longrightarrow> jx \<noteq> [] \<longrightarrow>
        getInvertedMatrix n' jx parent =
          (if jx = ix then Inr (Some m) else getInvertedMatrix n jx parent)) \<and>
      (case (n, n') of (Node a _, Node b _) \<Rightarrow> a = b)"
proof (induction ix arbitrary: parent n)
  case (Cons i ix)
  obtain nm nc where n: "n = Node nm nc"
    by (cases n)
  note child = nodeInv_child [OF Cons.prems(1) [unfolded n]]
  have i: "parent \<le> i" "i < shards" "i - parent < length nc" and key: "keyFrom shards (i + 1) ix"
    using Cons.prems child by simp_all
  define k where "k = childAt shards parent nc i"
  have k: "nodeInv shards (i + 1) k"
    unfolding k_def by (rule childAt_inv [OF Cons.prems(1) [unfolded n] i(1,2)])
  obtain km kc where k_eq: "k = Node km kc"
    by (cases k)
  obtain k' where k': "(if ix \<noteq> [] then insertInvertedMatrix ix m shards (i + 1) k
        else (case k of Node _ kc \<Rightarrow> Inr (Node (Some m) kc))) = Inr k'"
    and inv': "nodeInv shards (i + 1) k'"
    and look: "\<And>jx. keyFrom shards (i + 1) jx \<Longrightarrow> jx \<noteq> [] \<Longrightarrow> getInvertedMatrix k' jx (i + 1) =
      (if jx = ix then Inr (Some m) else getInvertedMatrix k jx (i + 1))"
    and here: "(case k' of Node am _ \<Rightarrow> am) = (if ix = [] then Some m else (case k of Node km _ \<Rightarrow> km))"
  proof (cases "ix = []")
    case True
    have same: "getInvertedMatrix (Node (Some m) kc) jx p = getInvertedMatrix (Node km kc) jx p" for jx p
      by (cases jx) simp_all
    have "nodeInv shards (i + 1) (Node (Some m) kc)"
      using k unfolding k_eq by (auto elim!: nodeInv_Node intro!: nodeInvI)
    then show ?thesis
      using that [of "Node (Some m) kc"] True k_eq same by simp
  next
    case False
    then show ?thesis
      using Cons.IH [OF k key] that k_eq by (fastforce split: inversionNode.splits)
  qed
  let ?nc = "nc[i - parent := Some k']"
  have "insertInvertedMatrix (i # ix) m shards parent n = Inr (Node nm ?nc)"
    using i k' by (simp add: n childAt_def [of shards parent nc i, symmetric] k_def [symmetric])
  moreover have "nodeInv shards parent (Node nm ?nc)"
    by (rule nodeInv_update [OF Cons.prems(1) [unfolded n] i(1) inv'])
  moreover have "getInvertedMatrix (Node nm ?nc) jx parent =
      (if jx = i # ix then Inr (Some m) else getInvertedMatrix n jx parent)"
    if jx: "keyFrom shards parent jx" "jx \<noteq> []" for jx
  proof -
    obtain j js where jx_eq: "jx = j # js"
      using jx(2) by (cases jx) auto
    have j: "parent \<le> j" "j < shards" "j - parent < length nc" "keyFrom shards (j + 1) js"
      using jx jx_eq child by simp_all
    show ?thesis
    proof (cases "j = i")
      case True
      have "childAt shards parent ?nc i = k'"
        using i(3) by (simp add: childAt_def)
      then show ?thesis
        using getInvertedMatrix_child [OF i(1) _ j(4) [unfolded True], of nc nm]
          getInvertedMatrix_child [OF i(1) _ j(4) [unfolded True], of ?nc nm] i(3) look [of js] j(4) here
        by (cases "js = []"; cases "js = ix")
          (simp_all add: True n jx_eq k_def [symmetric] del: getInvertedMatrix.simps)
    next
      case False
      then have "j - parent \<noteq> i - parent"
        using i(1) j(1) by linarith
      then show ?thesis
        using False j by (simp add: n jx_eq)
    qed
  qed
  ultimately show ?case
    by (auto simp: n)
qed simp

subsection \<open>The contract of a cache\<close>

text \<open>
  \<open>matrix_cache\<close>: lookups and insertions under valid keys succeed, and a lookup returns only
  what was inserted under this key or was there before.  An encoder without a cache, whose tree
  is \<open>nil\<close>, fulfils this too.  \<open>matrix_store\<close> adds that nothing is forgotten.
\<close>

locale matrix_cache =
  fixes look :: "'t \<Rightarrow> nat list \<Rightarrow> matrix option result"
    and store :: "'t \<Rightarrow> nat list \<Rightarrow> matrix \<Rightarrow> 't result"
    and ok :: "'t \<Rightarrow> bool"
    and key :: "nat list \<Rightarrow> bool"
  assumes look_Inr: "ok t \<Longrightarrow> key k \<Longrightarrow> \<exists>m. look t k = Inr m"
    and store_Inr: "ok t \<Longrightarrow> key k \<Longrightarrow> k \<noteq> [] \<Longrightarrow> IsSquare m = Inr True \<Longrightarrow>
      \<exists>t'. store t k m = Inr t' \<and> ok t'"
    and look_store: "ok t \<Longrightarrow> key k \<Longrightarrow> store t k m = Inr t' \<Longrightarrow> key k' \<Longrightarrow>
      look t' k' = Inr (Some m') \<Longrightarrow> k' = k \<and> m' = m \<or> look t k' = Inr (Some m')"
begin

text \<open>Whatever holds of every entry is kept by an insertion of an entry it holds of.\<close>

lemma store_entries:
  assumes "ok t" and "key k" and "store t k m = Inr t'"
    and "\<And>k' m'. key k' \<Longrightarrow> look t k' = Inr (Some m') \<Longrightarrow> P k' m'" and "P k m"
    and "key k'" and "look t' k' = Inr (Some m')"
  shows "P k' m'"
  using look_store [OF assms(1-3,6,7)] assms(4-6) by auto

end

locale matrix_store = matrix_cache +
  assumes look_store_exact: "ok t \<Longrightarrow> key k \<Longrightarrow> k \<noteq> [] \<Longrightarrow> IsSquare m = Inr True \<Longrightarrow>
    store t k m = Inr t' \<Longrightarrow> key k' \<Longrightarrow> look t' k' = (if k' = k then Inr (Some m) else look t k')"
begin

lemma store_twice:
  assumes "ok t" and "key k" and "k \<noteq> []" and "IsSquare m = Inr True" and "IsSquare m2 = Inr True"
    and "store t k m = Inr t1" and "store t1 k m2 = Inr t2" and "key k'"
  shows "look t2 k' = (if k' = k then Inr (Some m2) else look t k')"
proof -
  have "ok t1"
    using store_Inr [OF assms(1-4)] assms(6) by auto
  then show ?thesis
    using look_store_exact [OF assms(1-4,6,8)]
      look_store_exact [OF \<open>ok t1\<close> assms(2,3,5,7,8)] by simp
qed

end

definition treeInv :: "nat \<Rightarrow> inversionNode option \<Rightarrow> bool" where
  "treeInv shards t \<longleftrightarrow> (case t of None \<Rightarrow> True | Some n \<Rightarrow> nodeInv shards 0 n)"

lemma GetInvertedMatrix_Inr:
  "treeInv shards t \<Longrightarrow> keyFrom shards 0 k \<Longrightarrow> \<exists>m. GetInvertedMatrix t k = Inr m"
  using getInvertedMatrix_Inr [of shards 0 _ k]
  by (auto simp: GetInvertedMatrix_def treeInv_def split: option.splits inversionNode.splits)

lemma InsertInvertedMatrix_Some:
  assumes "nodeInv shards 0 n" and "keyFrom shards 0 k" and "k \<noteq> []" and "IsSquare m = Inr True"
  obtains n' where "InsertInvertedMatrix (Some n) k m shards = Inr (Some n')" and "nodeInv shards 0 n'"
    and "\<And>k'. keyFrom shards 0 k' \<Longrightarrow>
      GetInvertedMatrix (Some n') k' = (if k' = k then Inr (Some m) else GetInvertedMatrix (Some n) k')"
proof -
  obtain n' where n': "insertInvertedMatrix k m shards 0 n = Inr n'" "nodeInv shards 0 n'"
    and look: "\<And>jx. keyFrom shards 0 jx \<Longrightarrow> jx \<noteq> [] \<Longrightarrow> getInvertedMatrix n' jx 0 =
      (if jx = k then Inr (Some m) else getInvertedMatrix n jx 0)"
    and root: "case (n, n') of (Node a _, Node b _) \<Rightarrow> a = b"
    using insertInvertedMatrix_Inr [OF assms(1-3), of m] by blast
  have "GetInvertedMatrix (Some n') k' =
      (if k' = k then Inr (Some m) else GetInvertedMatrix (Some n) k')"
    if "keyFrom shards 0 k'" for k'
  proof (cases "k' = []")
    case True
    then show ?thesis
      using root assms(3) by (cases n; cases n') (simp add: GetInvertedMatrix_def)
  next
    case False
    then show ?thesis
      using look [OF that] by (cases n; cases n') (simp add: GetInvertedMatrix_def)
  qed
  then show ?thesis
    using that n' assms(3,4) by (simp add: InsertInvertedMatrix_def)
qed

interpretation tree: matrix_store GetInvertedMatrix
  "\<lambda>t k m. InsertInvertedMatrix t k m shards" "\<lambda>t. t \<noteq> None \<and> treeInv shards t" "keyFrom shards 0"
  for shards
proof unfold_locales
  fix t k m
  assume t: "t \<noteq> None \<and> treeInv shards t" and k: "keyFrom shards 0 k"
  show "\<exists>m. GetInvertedMatrix t k = Inr m"
    using t k GetInvertedMatrix_Inr by blast
  obtain n where n: "t = Some n" "nodeInv shards 0 n"
    using t by (auto simp: treeInv_def)
  show "\<exists>t'. InsertInvertedMatrix t k m shards = Inr t' \<and> t' \<noteq> None \<and> treeInv shards t'"
    if "k \<noteq> []" "IsSquare m = Inr True"
    by (rule InsertInvertedMatrix_Some [OF n(2) k that]) (auto simp: treeInv_def n(1))
  fix t' k' m'
  assume ins: "InsertInvertedMatrix t k m shards = Inr t'" and k': "keyFrom shards 0 k'"
  then have sq: "k \<noteq> []" "IsSquare m = Inr True"
    using n(1) by (auto simp: InsertInvertedMatrix_def bind_result_eq_Inr split: if_splits)
  show exact: "GetInvertedMatrix t' k' =
      (if k' = k then Inr (Some m) else GetInvertedMatrix t k')"
    by (rule InsertInvertedMatrix_Some [OF n(2) k sq]) (use n(1) ins k' in auto)
  show "k' = k \<and> m' = m \<or> GetInvertedMatrix t k' = Inr (Some m')"
    if "GetInvertedMatrix t' k' = Inr (Some m')"
    using exact that by (auto split: if_splits)
qed

interpretation cache: matrix_cache GetInvertedMatrix
  "\<lambda>t k m. InsertInvertedMatrix t k m shards" "treeInv shards" "keyFrom shards 0"
  for shards
proof unfold_locales
  fix t k m
  assume t: "treeInv shards t" and k: "keyFrom shards 0 k"
  show "\<exists>m. GetInvertedMatrix t k = Inr m"
    using t k by (rule GetInvertedMatrix_Inr)
  show "\<exists>t'. InsertInvertedMatrix t k m shards = Inr t' \<and> treeInv shards t'"
    if "k \<noteq> []" "IsSquare m = Inr True"
    using tree.store_Inr [where t = t and shards = shards and k = k and m = m] t k that
    by (cases t) (auto simp: InsertInvertedMatrix_def treeInv_def)
  fix t' k' m'
  assume "InsertInvertedMatrix t k m shards = Inr t'" "keyFrom shards 0 k'"
    "GetInvertedMatrix t' k' = Inr (Some m')"
  then show "k' = k \<and> m' = m \<or> GetInvertedMatrix t k' = Inr (Some m')"
    using tree.look_store [where t = t and shards = shards and k = k and m = m and t' = t' and k' = k' and m' = m'] t k
    by (cases t) (auto simp: InsertInvertedMatrix_def GetInvertedMatrix_def)
qed

text \<open>A new tree has the identity under the empty key and nothing else.\<close>

lemma newInversionTree_Inr:
  assumes "0 < d"
  obtains n m where "newInversionTree (int d) (int p) = Inr n" and "treeInv (d + p) (Some n)"
    and "identityMatrix (int d) = Inr m" and "GetInvertedMatrix (Some n) [] = Inr (Some m)"
    and "\<And>k. keyFrom (d + p) 0 k \<Longrightarrow> k \<noteq> [] \<Longrightarrow> GetInvertedMatrix (Some n) k = Inr None"
proof -
  obtain m where m: "identityMatrix (int d) = Inr m"
    by (rule identityMatrix_wf [OF assms])
  define n where "n = Node (Some m) (replicate (d + p) None)"
  have "newInversionTree (int d) (int p) = Inr n"
    by (simp add: newInversionTree_def m n_def nat_int_add)
  moreover have "treeInv (d + p) (Some n)"
    by (simp add: treeInv_def n_def nodeInv_empty)
  moreover have "GetInvertedMatrix (Some n) [] = Inr (Some m)"
    by (simp add: GetInvertedMatrix_def n_def)
  moreover have "GetInvertedMatrix (Some n) k = Inr None" if "keyFrom (d + p) 0 k" "k \<noteq> []" for k
    using that by (cases k) (auto simp: GetInvertedMatrix_def n_def)
  ultimately show ?thesis
    using that m by blast
qed

subsection \<open>The tree is a finite map\<close>

text \<open>
  C30. After any sequence of insertions into a new tree, under strictly increasing keys that name
  rows of the matrix and with square matrices, a lookup returns the matrix inserted last under
  its key, and nothing if there was none: the tree implements a finite map, and no insertion
  panics or fails.
\<close>

theorem inversion_tree_refines_map:
  assumes "0 < d"
    and "list_all (\<lambda>(k, m). keyFrom (d + p) 0 k \<and> k \<noteq> [] \<and> IsSquare m = Inr True) ins"
  shows "\<exists>n t. newInversionTree (int d) (int p) = Inr n \<and>
    fold_result (\<lambda>t (k, m). InsertInvertedMatrix t k m (d + p)) (Some n) ins = Inr t \<and>
    (\<forall>k. keyFrom (d + p) 0 k \<longrightarrow> k \<noteq> [] \<longrightarrow> GetInvertedMatrix t k = Inr (map_of (rev ins) k))"
proof -
  obtain n where n: "newInversionTree (int d) (int p) = Inr n" "treeInv (d + p) (Some n)"
    and empty: "\<And>k. keyFrom (d + p) 0 k \<Longrightarrow> k \<noteq> [] \<Longrightarrow> GetInvertedMatrix (Some n) k = Inr None"
    by (rule newInversionTree_Inr [OF assms(1), of p]) blast
  have "\<exists>t. fold_result (\<lambda>t (k, m). InsertInvertedMatrix t k m (d + p)) (Some n) ins = Inr t \<and>
      (t \<noteq> None \<and> treeInv (d + p) t) \<and>
      (\<forall>k. keyFrom (d + p) 0 k \<longrightarrow> k \<noteq> [] \<longrightarrow> GetInvertedMatrix t k = Inr (map_of (rev ins) k))"
    using assms(2)
  proof (induction ins rule: rev_induct)
    case Nil
    then show ?case
      using n(2) empty by simp
  next
    case (snoc km ins)
    obtain k m where km: "km = (k, m)"
      by (cases km)
    obtain t where t: "fold_result (\<lambda>t (k, m). InsertInvertedMatrix t k m (d + p)) (Some n) ins = Inr t"
        "t \<noteq> None \<and> treeInv (d + p) t"
      and look: "\<forall>k. keyFrom (d + p) 0 k \<longrightarrow> k \<noteq> [] \<longrightarrow>
        GetInvertedMatrix t k = Inr (map_of (rev ins) k)"
      using snoc by auto
    have k: "keyFrom (d + p) 0 k" "k \<noteq> []" "IsSquare m = Inr True"
      using snoc.prems by (simp_all add: km)
    obtain t' where "InsertInvertedMatrix t k m (d + p) = Inr t'" "t' \<noteq> None \<and> treeInv (d + p) t'"
      using tree.store_Inr [OF t(2) k] by auto
    moreover note tree.look_store_exact [OF t(2) k this(1)]
    ultimately show ?case
      using t(1) look by (simp add: fold_result_append km)
  qed
  then show ?thesis
    using n(1) by blast
qed

lemma inversion_tree_refines_map_witness:
  "\<exists>n t. newInversionTree 2 2 = Inr n \<and>
    fold_result (\<lambda>t (k, m). InsertInvertedMatrix t k m 4) (Some n)
      [([0], [[1, 2], [3, 4]]), ([0, 3], [[5]]), ([0], [[6]])] = Inr t \<and>
    GetInvertedMatrix t [0] = Inr (Some [[6]]) \<and> GetInvertedMatrix t [0, 3] = Inr (Some [[5]]) \<and>
    GetInvertedMatrix t [3] = Inr None"
proof -
  have "list_all (\<lambda>(k, m). keyFrom (2 + 2) 0 k \<and> k \<noteq> [] \<and> IsSquare m = Inr True)
      [([0], [[1, 2], [3, 4]]), ([0, 3], [[5]]), ([0], [[6]])]"
    by (simp add: IsSquare_def)
  from inversion_tree_refines_map [OF _ this] show ?thesis
    by fastforce
qed

end
