(* ===== verification/Encoder.thy ===== *)
theory Encoder
  imports CodeSpec CodingMatrix InversionTree
begin

text \<open>
  The encoder of \<open>reedsolomon/reedsolomon.go\<close>: its state, \<open>New\<close>, and the operations of the
  interface \<open>Encoder\<close>.  An operation takes the shards and returns them with the new state of the
  encoder, which two operations change: \<open>reconstruct\<close> fills the cache of inverted matrices, and
  every coding routine uses the pool of buffers.  An error leaves shards and encoder as they
  were.  The shards of a call do not share memory.
\<close>

subsection \<open>The state\<close>

text \<open>
  \<open>rsMatrix\<close>, \<open>rsTree\<close>, \<open>rsParity\<close>, \<open>rsOpts\<close> are the fields \<open>m\<close>, \<open>tree\<close>, \<open>parity\<close>, \<open>o\<close> of the code;
  \<open>rsPool\<close> stands for \<open>mPool\<close> and is the buffer the next \<open>Get\<close> returns, an empty pool being one
  that holds the buffer its \<open>New\<close> would make.
\<close>

record reedSolomon =
  DataShards :: nat
  ParityShards :: nat
  Shards :: nat
  rsMatrix :: matrix
  rsTree :: "inversionNode option"
  rsParity :: matrix
  rsOpts :: options
  rsPool :: slice

subsection \<open>\<open>New\<close>\<close>

text \<open>
  The operands of the divisions are positive, so \<open>div\<close> is Go's division; only \<open>minSplitSize\<close> may
  be as large as a caller likes, hence the \<open>wrap64\<close> where it is doubled.
\<close>

definition manyInputs :: "arch \<Rightarrow> nat \<Rightarrow> nat \<Rightarrow> options \<Rightarrow> bool" where
  "manyInputs a dataShards parityShards opts \<longleftrightarrow>
     avx2CodeGen a \<and> useAVX2 opts \<and>
     (maxAvx2Inputs a < dataShards \<or> maxAvx2Outputs a < parityShards)"

definition divideBy :: "arch \<Rightarrow> nat \<Rightarrow> nat \<Rightarrow> options \<Rightarrow> nat" where
  "divideBy a dataShards parityShards opts =
     (if manyInputs a dataShards parityShards opts then
        (if maxAvx2Inputs a < dataShards then maxAvx2Inputs a else dataShards) +
        (if maxAvx2Inputs a < parityShards then maxAvx2Outputs a else parityShards)
      else parityShards + 1)"

definition choosePerRound :: "arch \<Rightarrow> cpu \<Rightarrow> nat \<Rightarrow> nat \<Rightarrow> options \<Rightarrow> int" where
  "choosePerRound a cpu dataShards parityShards opts =
     (let per = (if manyInputs a dataShards parityShards opts then cacheL1D cpu else cacheL2 cpu);
          per = (if per \<le> 0 then 128 * 1024 else per);
          per = (if 1 < threadsPerCore cpu \<and> physicalCores cpu < maxGoroutines opts
                 then per div threadsPerCore cpu else per);
          per = per div int (divideBy a dataShards parityShards opts) in
      (per + 63) div 64 * 64)"

definition chooseMinSplit :: "cpu \<Rightarrow> nat \<Rightarrow> options \<Rightarrow> int" where
  "chooseMinSplit cpu parityShards opts =
     (if minSplitSize opts \<le> 0 then
        let cacheSize = (if cacheL1D cpu \<le> 0 then 32 * 1024 else cacheL1D cpu);
            split = cacheSize div (int parityShards + 1) in
        if split < 1024 then 1024 else split
      else minSplitSize opts)"

text \<open>\<open>WithAutoGoroutines\<close>: as many goroutines as the announced shard size is worth.\<close>

definition autoGoroutines :: "cpu \<Rightarrow> options \<Rightarrow> options result" where
  "autoGoroutines cpu opts =
     (if 0 < autoShardSize opts then
        let p = gomaxprocs cpu in
        if p = 1 \<or> autoShardSize opts \<le> wrap64 (minSplitSize opts * 2) then
          Inr (opts\<lparr>maxGoroutines := 1\<rparr>)
        else if perRound opts = 0 then Inl Panic
        else
          let g = autoShardSize opts div perRound opts;
              over = g < p * 2 \<and> wrap64 (minSplitSize opts * 2) < perRound opts;
              g = (if over then p * 2 else g);
              per = (if over then perRound opts div 2 else perRound opts);
              g = g + p - 1 in
          Inr (opts\<lparr>perRound := per, maxGoroutines := g - g mod p\<rparr>)
      else Inr opts)"

definition capGoroutines :: "arch \<Rightarrow> options \<Rightarrow> options" where
  "capGoroutines a opts =
     (if canAVX2C a opts 64 (maxAvx2Inputs a) (maxAvx2Outputs a) \<and> 8 < maxGoroutines opts
      then opts\<lparr>maxGoroutines := 8\<rparr> else opts)"

definition tuneOptions :: "arch \<Rightarrow> cpu \<Rightarrow> nat \<Rightarrow> nat \<Rightarrow> options \<Rightarrow> options result" where
  "tuneOptions a cpu dataShards parityShards opts =
     bind_result (autoGoroutines cpu (opts\<lparr>
         perRound := choosePerRound a cpu dataShards parityShards opts,
         minSplitSize := chooseMinSplit cpu parityShards opts\<rparr>))
       (\<lambda>opts. Inr (capGoroutines a opts))"

definition chooseMatrix :: "options \<Rightarrow> int \<Rightarrow> int \<Rightarrow> int \<Rightarrow> matrix result" where
  "chooseMatrix opts dataShards parityShards shards =
     (if fastOneParity opts \<and> parityShards = 1 then buildXorMatrix dataShards shards
      else if useCauchy opts then buildMatrixCauchy dataShards shards
      else if usePAR1Matrix opts then buildMatrixPAR1 dataShards shards
      else buildMatrix dataShards shards)"

definition New :: "arch \<Rightarrow> cpu \<Rightarrow> int \<Rightarrow> int \<Rightarrow> (options \<Rightarrow> options) list \<Rightarrow> reedSolomon result" where
  "New a cpu dataShards parityShards opts =
     (let o0 = applyOptions opts (buildOptions a cpu); shards = wrap64 (dataShards + parityShards);
          d = nat dataShards; p = nat parityShards in
      if dataShards \<le> 0 \<or> parityShards < 0 then Inl ErrInvShardNum
      else if 256 < shards then Inl ErrMaxShardNum
      else if parityShards = 0 then
        Inr \<lparr>DataShards = d, ParityShards = 0, Shards = d, rsMatrix = [], rsTree = None,
          rsParity = [], rsOpts = o0, rsPool = NilSlice\<rparr>
      else
        bind_result (chooseMatrix o0 dataShards parityShards shards) (\<lambda>matrix.
        bind_result (tuneOptions a cpu d p o0) (\<lambda>opts.
        bind_result (if inversionCache opts
            then bind_result (newInversionTree dataShards parityShards) (\<lambda>t. Inr (Some t))
            else Inr None) (\<lambda>t.
        Inr \<lparr>DataShards = d, ParityShards = p, Shards = d + p, rsMatrix = matrix, rsTree = t,
          rsParity = map (\<lambda>i. matrix ! (d + i)) [0..<p], rsOpts = opts,
          rsPool = (if avx2CodeGen a \<and> useAVX2 opts then makeSlice (d * p * 2 * 32)
                    else NilSlice)\<rparr>))))"

subsection \<open>Checks\<close>

definition shardSize :: "slice list \<Rightarrow> nat" where
  "shardSize shards =
     (case find (\<lambda>shard. sliceLen shard \<noteq> 0) shards of Some shard \<Rightarrow> sliceLen shard | None \<Rightarrow> 0)"

definition checkShards :: "slice list \<Rightarrow> bool \<Rightarrow> unit result" where
  "checkShards shards nilok =
     (let sz = shardSize shards in
      if sz = 0 then Inl ErrShardNoData
      else if list_ex (\<lambda>shard. sliceLen shard \<noteq> sz \<and> (sliceLen shard \<noteq> 0 \<or> \<not> nilok)) shards
        then Inl ErrShardSize
      else Inr ())"

lemma checkShards_False:
  "checkShards shards False = Inr () \<longleftrightarrow>
    (\<exists>sz. 0 < sz \<and> shards \<noteq> [] \<and> (\<forall>s\<in>set shards. sliceLen s = sz))"
proof
  assume "checkShards shards False = Inr ()"
  then have "0 < shardSize shards" "\<forall>s\<in>set shards. sliceLen s = shardSize shards"
    by (auto simp: checkShards_def Let_def list_ex_iff split: if_splits)
  moreover have "shards \<noteq> []"
    using calculation(1) by (auto simp: shardSize_def)
  ultimately show "\<exists>sz. 0 < sz \<and> shards \<noteq> [] \<and> (\<forall>s\<in>set shards. sliceLen s = sz)"
    by blast
next
  assume "\<exists>sz. 0 < sz \<and> shards \<noteq> [] \<and> (\<forall>s\<in>set shards. sliceLen s = sz)"
  then obtain sz where sz: "0 < sz" "shards \<noteq> []" "\<forall>s\<in>set shards. sliceLen s = sz"
    by blast
  then have "shardSize shards = sz"
    by (cases shards) (auto simp: shardSize_def)
  then show "checkShards shards False = Inr ()"
    using sz by (auto simp: checkShards_def list_ex_iff)
qed

lemma checkShards_error:
  assumes "checkShards shards nilok = Inl e"
  shows "e = ErrShardNoData \<and> (\<forall>s\<in>set shards. sliceLen s = 0) \<or>
    e = ErrShardSize \<and> (\<exists>s\<in>set shards. \<exists>t\<in>set shards. sliceLen s \<noteq> sliceLen t)"
proof (cases "find (\<lambda>shard. sliceLen shard \<noteq> 0) shards")
  case None
  then have "shardSize shards = 0"
    by (simp add: shardSize_def)
  moreover have "\<forall>s\<in>set shards. sliceLen s = 0"
    using None by (simp add: find_None_iff)
  ultimately show ?thesis
    using assms by (auto simp: checkShards_def)
next
  case (Some x)
  then have "x \<in> set shards" "sliceLen x \<noteq> 0"
    by (auto simp: find_Some_iff in_set_conv_nth)
  moreover have "shardSize shards = sliceLen x"
    using Some by (simp add: shardSize_def)
  ultimately show ?thesis
    using assms by (auto simp: checkShards_def list_ex_iff Let_def split: if_splits)
qed

lemma shardSize_eq:
  assumes "\<And>s. s \<in> set shards \<Longrightarrow> sliceLen s = 0 \<or> sliceLen s = sz" and "s \<in> set shards"
    and "sliceLen s = sz" and "0 < sz"
  shows "shardSize shards = sz"
proof (cases "find (\<lambda>shard. sliceLen shard \<noteq> 0) shards")
  case None
  then show ?thesis
    using assms(2-4) by (auto simp: find_None_iff)
next
  case (Some x)
  then have "x \<in> set shards" "sliceLen x \<noteq> 0"
    by (auto simp: find_Some_iff in_set_conv_nth)
  then show ?thesis
    using assms(1) [of x] Some by (simp add: shardSize_def)
qed

lemma checkShards_True:
  assumes "\<And>s. s \<in> set shards \<Longrightarrow> sliceLen s = 0 \<or> sliceLen s = sz" and "s \<in> set shards"
    and "sliceLen s = sz" and "0 < sz"
  shows "checkShards shards True = Inr ()"
  using shardSize_eq [OF assms] assms(1,4) by (fastforce simp: checkShards_def list_ex_iff)

subsection \<open>Options after \<open>New\<close>\<close>

text \<open>
  What \<open>New\<close> relies on the machine for: the caches are not smaller than a few hundred bytes for
  each hardware thread (unknown sizes are reported as -1), and AVX512 is reported only where the
  build can have code for it.
\<close>

definition cpuOk :: "arch \<Rightarrow> cpu \<Rightarrow> bool" where
  "cpuOk a cpu \<longleftrightarrow> 1 \<le> gomaxprocs cpu \<and> threadsPerCore cpu \<le> 512 \<and>
     (cacheL1D cpu \<le> 0 \<or> 256 * max 1 (threadsPerCore cpu) \<le> cacheL1D cpu) \<and>
     (cacheL2 cpu \<le> 0 \<or> 256 * max 1 (threadsPerCore cpu) \<le> cacheL2 cpu) \<and>
     (cpuAVX512 cpu \<longrightarrow> hasAvx512 a \<or> a = Noasm)"

lemma div_ge: "0 < (k :: int) \<Longrightarrow> n * k \<le> x \<Longrightarrow> n \<le> x div k"
  by (metis nonzero_mult_div_cancel_right order_less_irrefl zdiv_mono1)

lemma choosePerRound_pos:
  assumes "cpuOk a cpu" and "0 < d" and "0 < p" and "d + p \<le> 256"
  shows "64 \<le> choosePerRound a cpu d p opts"
proof -
  define per0 where "per0 = (if manyInputs a d p opts then cacheL1D cpu else cacheL2 cpu)"
  define per1 where "per1 = (if per0 \<le> 0 then 128 * 1024 else per0)"
  define per2 where "per2 = (if 1 < threadsPerCore cpu \<and> physicalCores cpu < maxGoroutines opts
      then per1 div threadsPerCore cpu else per1)"
  have per1: "256 * max 1 (threadsPerCore cpu) \<le> per1"
    using assms(1) by (auto simp: per1_def per0_def cpuOk_def max_def)
  have per2: "256 \<le> per2"
  proof (cases "1 < threadsPerCore cpu \<and> physicalCores cpu < maxGoroutines opts")
    case True
    then have "256 * threadsPerCore cpu \<le> per1"
      using per1 by (simp add: max_def)
    then show ?thesis
      using True div_ge [of "threadsPerCore cpu" 256 per1] by (simp add: per2_def)
  next
    case False
    then have "per2 = per1"
      unfolding per2_def by (rule if_not_P)
    then show ?thesis
      using per1 by simp
  qed
  have "1 \<le> divideBy a d p opts" "divideBy a d p opts \<le> 256"
    using assms(2-4) by (auto simp: divideBy_def maxAvx2Inputs_def maxAvx2Outputs_def)
  then have "1 \<le> per2 div int (divideBy a d p opts)"
    using per2 by (intro div_ge) auto
  then have "1 \<le> (per2 div int (divideBy a d p opts) + 63) div 64"
    by simp
  then show ?thesis
    unfolding choosePerRound_def Let_def per0_def [symmetric] per1_def [symmetric]
      per2_def [symmetric] by linarith
qed

lemma chooseMinSplit_pos: "0 < chooseMinSplit cpu p opts"
  by (simp add: chooseMinSplit_def Let_def)

lemma autoGoroutines_Inr:
  assumes "1 \<le> gomaxprocs cpu" and "64 \<le> perRound opts" and "1 \<le> maxGoroutines opts"
  obtains opts' where "autoGoroutines cpu opts = Inr opts'"
    and "32 \<le> perRound opts'" and "1 \<le> maxGoroutines opts'"
    and "minSplitSize opts' = minSplitSize opts" and "useAVX2 opts' = useAVX2 opts"
    and "useAVX512 opts' = useAVX512 opts" and "inversionCache opts' = inversionCache opts"
proof (cases "0 < autoShardSize opts \<and> \<not> (gomaxprocs cpu = 1 \<or>
    autoShardSize opts \<le> wrap64 (minSplitSize opts * 2))")
  case False
  then have "autoGoroutines cpu opts =
      Inr (if 0 < autoShardSize opts then opts\<lparr>maxGoroutines := 1\<rparr> else opts)"
    by (auto simp: autoGoroutines_def Let_def)
  from that [OF this] show ?thesis
    using assms(2,3) by (auto split: if_splits)
next
  case True
  define p where "p = gomaxprocs cpu"
  define g0 where "g0 = autoShardSize opts div perRound opts"
  define over where "over \<longleftrightarrow> g0 < p * 2 \<and> wrap64 (minSplitSize opts * 2) < perRound opts"
  define per where "per = (if over then perRound opts div 2 else perRound opts)"
  define g where "g = (if over then p * 2 else g0)"
  have p: "1 \<le> p"
    using assms(1) by (simp add: p_def)
  have g: "1 \<le> g"
  proof (cases "over \<or> p * 2 \<le> g0")
    case False
    then have "perRound opts \<le> autoShardSize opts"
      using True by (auto simp: over_def)
    then have "1 \<le> g0"
      using assms(2) unfolding g0_def by (intro div_ge) simp_all
    then show ?thesis
      using False by (simp add: g_def)
  qed (use p in \<open>auto simp: g_def\<close>)
  have "(g + p - 1) mod p < p"
    using p by (intro pos_mod_bound) simp
  then have "1 \<le> g + p - 1 - (g + p - 1) mod p"
    using g p by linarith
  moreover have "32 \<le> perRound opts div 2"
    using assms(2) by linarith
  then have "32 \<le> per"
    using assms(2) by (simp add: per_def)
  moreover have "autoGoroutines cpu opts =
      Inr (opts\<lparr>perRound := per, maxGoroutines := g + p - 1 - (g + p - 1) mod p\<rparr>)"
    using True assms(2)
    unfolding autoGoroutines_def Let_def p_def [symmetric] g0_def [symmetric] over_def [symmetric]
      per_def [symmetric] g_def [symmetric] by simp
  ultimately show ?thesis
    using that by simp
qed

lemma tuneOptions_Inr:
  assumes "cpuOk a cpu" and "0 < d" and "0 < p" and "d + p \<le> 256" and "1 \<le> maxGoroutines opts"
    and "useAVX512 opts \<Longrightarrow> hasAvx512 a"
  obtains opts' where "tuneOptions a cpu d p opts = Inr opts'" and "optsOk a opts'"
    and "useAVX2 opts' = useAVX2 opts" and "inversionCache opts' = inversionCache opts"
proof -
  define opts1 where "opts1 = opts\<lparr>perRound := choosePerRound a cpu d p opts,
    minSplitSize := chooseMinSplit cpu p opts\<rparr>"
  have "1 \<le> gomaxprocs cpu" "64 \<le> perRound opts1" "1 \<le> maxGoroutines opts1"
    using assms(1,5) choosePerRound_pos [OF assms(1-4)] by (simp_all add: cpuOk_def opts1_def)
  then obtain opts2 where opts2: "autoGoroutines cpu opts1 = Inr opts2"
    "32 \<le> perRound opts2" "1 \<le> maxGoroutines opts2" "minSplitSize opts2 = minSplitSize opts1"
    "useAVX2 opts2 = useAVX2 opts1" "useAVX512 opts2 = useAVX512 opts1"
    "inversionCache opts2 = inversionCache opts1"
    by (rule autoGoroutines_Inr)
  have "tuneOptions a cpu d p opts = Inr (capGoroutines a opts2)"
    using opts2(1) by (simp add: tuneOptions_def opts1_def)
  moreover have "optsOk a (capGoroutines a opts2)" "useAVX2 (capGoroutines a opts2) = useAVX2 opts"
    "inversionCache (capGoroutines a opts2) = inversionCache opts"
    using opts2(2-) assms(6) chooseMinSplit_pos
    by (auto simp: optsOk_def capGoroutines_def opts1_def)
  ultimately show ?thesis
    by (rule that)
qed

subsection \<open>The invariant of an encoder\<close>

text \<open>
  The rows \<open>reconstruct\<close> decodes from, when the rows \<open>k\<close> are missing: the first \<open>d\<close> others.  A
  matrix \<open>D\<close> decodes under the key \<open>k\<close> when it takes those rows of any codeword to its data.
\<close>

definition validRows :: "nat \<Rightarrow> nat \<Rightarrow> nat list \<Rightarrow> nat list" where
  "validRows d t k = take d (filter (\<lambda>i. i \<notin> set k) [0..<t])"

definition decodes :: "nat \<Rightarrow> nat \<Rightarrow> matrix \<Rightarrow> nat list \<Rightarrow> matrix \<Rightarrow> bool" where
  "decodes d t m k D \<longleftrightarrow> mat_wf d d D \<and>
     (\<forall>x. \<forall>c<d. lin D d (\<lambda>i. lin m d x (validRows d t k ! i)) c = x c)"

definition treeOk :: "nat \<Rightarrow> nat \<Rightarrow> matrix \<Rightarrow> inversionNode option \<Rightarrow> bool" where
  "treeOk d t m n \<longleftrightarrow> treeInv t n \<and>
     (n \<noteq> None \<longrightarrow> (\<exists>D. GetInvertedMatrix n [] = Inr (Some D))) \<and>
     (\<forall>k D. keyFrom t 0 k \<longrightarrow> GetInvertedMatrix n k = Inr (Some D) \<longrightarrow> decodes d t m k D)"

text \<open>
  The pool: where the AVX2 code can run, its buffer has room for the tables of the whole matrix,
  and is that long where \<open>codeSomeShardsAVXP\<close> may cut it up.
\<close>

definition poolInv :: "arch \<Rightarrow> reedSolomon \<Rightarrow> bool" where
  "poolInv a r \<longleftrightarrow> (avx2CodeGen a \<and> useAVX2 (rsOpts r) \<longrightarrow>
     sliceWf (rsPool r) \<and> 64 * (DataShards r * ParityShards r) \<le> sliceCap (rsPool r) \<and>
     (DataShards r \<le> 10 \<and> ParityShards r \<le> 10 \<or>
      64 * (DataShards r * ParityShards r) \<le> sliceLen (rsPool r)))"

definition encInv :: "arch \<Rightarrow> reedSolomon \<Rightarrow> bool" where
  "encInv a r \<longleftrightarrow> 0 < DataShards r \<and> Shards r = DataShards r + ParityShards r \<and> Shards r \<le> 256 \<and>
     rsParity r = map (\<lambda>i. rsMatrix r ! (DataShards r + i)) [0..<ParityShards r] \<and>
     (0 < ParityShards r \<longrightarrow>
        systematic (DataShards r) (Shards r) (rsMatrix r) \<and> optsOk a (rsOpts r) \<and>
        treeOk (DataShards r) (Shards r) (rsMatrix r) (rsTree r) \<and> poolInv a r)"

lemma identity_decodes:
  assumes m: "systematic d t m" and t: "d \<le> t" "0 < d" and D: "identityMatrix (int d) = Inr D"
  shows "decodes d t m [] D"
proof -
  obtain w where w: "identityMatrix (int d) = Inr w" "mat_wf d d w" "\<And>x r. r < d \<Longrightarrow> lin w d x r = x r"
    by (rule identityMatrix_wf [OF t(2)]) blast
  then have [simp]: "w = D"
    using D by simp
  have "validRows d t [] ! c = c" if "c < d" for c
    using that t(1) by (simp add: validRows_def take_upt)
  then show ?thesis
    using w systematic_top [OF m] by (simp add: decodes_def)
qed

lemma newTree_ok:
  assumes m: "systematic d (d + p) m" and d: "0 < d"
  obtains n where "newInversionTree (int d) (int p) = Inr n" and "treeOk d (d + p) m (Some n)"
proof -
  obtain n D where n: "newInversionTree (int d) (int p) = Inr n" "treeInv (d + p) (Some n)"
    and D: "identityMatrix (int d) = Inr D" "GetInvertedMatrix (Some n) [] = Inr (Some D)"
    and empty: "\<And>k. keyFrom (d + p) 0 k \<Longrightarrow> k \<noteq> [] \<Longrightarrow> GetInvertedMatrix (Some n) k = Inr None"
    by (rule newInversionTree_Inr [OF d, of p]) blast
  have "decodes d (d + p) m k D'"
    if "keyFrom (d + p) 0 k" "GetInvertedMatrix (Some n) k = Inr (Some D')" for k D'
    using that empty [OF that(1)] D(2) identity_decodes [OF m _ d D(1)] by (cases "k = []") auto
  then have "treeOk d (d + p) m (Some n)"
    using n(2) D(2) by (simp add: treeOk_def)
  then show ?thesis
    using that n(1) by blast
qed

text \<open>The matrix \<open>New\<close> chooses, and when every \<open>d\<close> of its rows determine the data.\<close>

lemma chooseMatrix_Inr:
  assumes "0 < d" and "0 < p" and "d + p \<le> 256"
  obtains m where "chooseMatrix opts (int d) (int p) (int (d + p)) = Inr m"
    and "systematic d (d + p) m"
    and "\<not> usePAR1Matrix opts \<or> useCauchy opts \<or> fastOneParity opts \<and> p = 1 \<Longrightarrow> mds_matrix d (d + p) m"
proof -
  consider (xor) "fastOneParity opts" "p = 1" | (cauchy) "\<not> (fastOneParity opts \<and> p = 1)" "useCauchy opts"
    | (par1) "\<not> (fastOneParity opts \<and> p = 1)" "\<not> useCauchy opts" "usePAR1Matrix opts"
    | (default) "\<not> (fastOneParity opts \<and> p = 1)" "\<not> useCauchy opts" "\<not> usePAR1Matrix opts"
    by blast
  then show ?thesis
  proof cases
    case xor
    then obtain m where "buildXorMatrix (int d) (int (d + p)) = Inr m" "mds_matrix d (d + p) m"
      using xor_one.builds [of d "d + p"] assms by auto
    then show ?thesis
      using that [of m] xor by (simp add: chooseMatrix_def mds_matrix_def)
  next
    case cauchy
    then obtain m where "buildMatrixCauchy (int d) (int (d + p)) = Inr m" "mds_matrix d (d + p) m"
      using cauchy.builds [of d "d + p"] assms by auto
    then show ?thesis
      using that [of m] cauchy by (auto simp: chooseMatrix_def mds_matrix_def)
  next
    case par1
    then obtain m where "buildMatrixPAR1 (int d) (int (d + p)) = Inr m" "systematic d (d + p) m"
      using par1.builds_systematic [of d "d + p"] assms by auto
    then show ?thesis
      using that [of m] par1 by (auto simp: chooseMatrix_def)
  next
    case default
    then obtain m where "buildMatrix (int d) (int (d + p)) = Inr m" "mds_matrix d (d + p) m"
      using vander.builds [of d "d + p"] assms by auto
    then show ?thesis
      using that [of m] default by (auto simp: chooseMatrix_def mds_matrix_def)
  qed
qed

lemma initialOptions:
  assumes "cpuOk a cpu" and "list_all exportedOption fs"
  shows "1 \<le> maxGoroutines (applyOptions fs (buildOptions a cpu)) \<and>
    (useAVX512 (applyOptions fs (buildOptions a cpu)) \<longrightarrow> hasAvx512 a)"
proof (rule applyOptions_invariant)
  show "1 \<le> maxGoroutines (buildOptions a cpu) \<and> (useAVX512 (buildOptions a cpu) \<longrightarrow> hasAvx512 a)"
    using assms(1) by (auto simp: buildOptions_def defaultOptions_def cpuOk_def)
next
  fix f and opts :: options
  assume "f \<in> set fs" and inv: "1 \<le> maxGoroutines opts \<and> (useAVX512 opts \<longrightarrow> hasAvx512 a)"
  then have "exportedOption f"
    using assms(2) by (simp add: list_all_iff)
  then show "1 \<le> maxGoroutines (f opts) \<and> (useAVX512 (f opts) \<longrightarrow> hasAvx512 a)"
    using inv by cases (simp_all add: With_defs)
qed

text \<open>Whether the options select a matrix any \<open>d\<close> rows of which determine the data.\<close>

definition mdsChosen :: "options \<Rightarrow> int \<Rightarrow> bool" where
  "mdsChosen opts parityShards \<longleftrightarrow>
     \<not> usePAR1Matrix opts \<or> useCauchy opts \<or> fastOneParity opts \<and> parityShards = 1"

lemma wrap64_sum: "d + p \<le> 256 \<Longrightarrow> wrap64 (int d + int p) = int (d + p)"
  by (subst wrap64_id) (auto simp: int64_def)

lemma New_Inr:
  assumes cpu: "cpuOk a cpu" and fs: "list_all exportedOption fs" and d: "0 < d" "d + p \<le> 256"
  obtains r where "New a cpu (int d) (int p) fs = Inr r" and "encInv a r"
    and "DataShards r = d" and "ParityShards r = p"
    and "0 < p \<Longrightarrow> mdsChosen (applyOptions fs (buildOptions a cpu)) (int p) \<Longrightarrow>
      mds_matrix d (d + p) (rsMatrix r)"
proof (cases "p = 0")
  case True
  then have "New a cpu (int d) (int p) fs = Inr \<lparr>DataShards = d, ParityShards = 0, Shards = d,
      rsMatrix = [], rsTree = None, rsParity = [], rsOpts = applyOptions fs (buildOptions a cpu),
      rsPool = NilSlice\<rparr>"
    using d wrap64_sum [OF d(2)] by (simp add: New_def)
  then show ?thesis
    using that d True by (simp add: encInv_def)
next
  case False
  define o0 where "o0 = applyOptions fs (buildOptions a cpu)"
  have p: "0 < p"
    using False by simp
  have o0: "1 \<le> maxGoroutines o0" "useAVX512 o0 \<Longrightarrow> hasAvx512 a"
    using initialOptions [OF cpu fs] by (simp_all add: o0_def)
  obtain m where m: "chooseMatrix o0 (int d) (int p) (int (d + p)) = Inr m" "systematic d (d + p) m"
    "mdsChosen o0 (int p) \<Longrightarrow> mds_matrix d (d + p) m"
    by (rule chooseMatrix_Inr [OF d(1) p d(2), of o0]) (auto simp: mdsChosen_def)
  obtain opts where opts: "tuneOptions a cpu d p o0 = Inr opts" "optsOk a opts"
    by (rule tuneOptions_Inr [OF cpu d(1) p d(2) o0])
  obtain t where t: "(if inversionCache opts
      then bind_result (newInversionTree (int d) (int p)) (\<lambda>t. Inr (Some t)) else Inr None) = Inr t"
    "treeOk d (d + p) m t"
  proof (cases "inversionCache opts")
    case True
    then show ?thesis
      using that by (rule_tac newTree_ok [OF m(2) d(1)]) simp
  next
    case False
    then show ?thesis
      using that by (simp add: treeOk_def treeInv_def GetInvertedMatrix_def)
  qed
  define r where "r = \<lparr>DataShards = d, ParityShards = p, Shards = d + p, rsMatrix = m, rsTree = t,
    rsParity = map (\<lambda>i. m ! (d + i)) [0..<p], rsOpts = opts,
    rsPool = (if avx2CodeGen a \<and> useAVX2 opts then makeSlice (d * p * 2 * 32) else NilSlice)\<rparr>"
  have "New a cpu (int d) (int p) fs = Inr r"
    using d p m(1) opts(1) t(1) wrap64_sum [OF d(2)]
    by (simp add: New_def Let_def o0_def [symmetric] r_def)
  moreover have "encInv a r"
    using d p m(2) opts(2) t(2)
    by (auto simp: encInv_def r_def poolInv_def makeSlice_def sliceCap_def)
  ultimately show ?thesis
    using that m(3) by (simp add: r_def o0_def)
qed


text \<open>A machine for the closed examples: AVX2, four threads.\<close>

definition testCpu :: cpu where
  "testCpu = \<lparr>cpuSSSE3 = True, cpuSSE2 = True, cpuAVX2 = True, cpuAVX512 = False,
     cacheL1D = 32768, cacheL2 = 262144, threadsPerCore = 2, physicalCores = 2, gomaxprocs = 4\<rparr>"

lemma cpuOk_testCpu: "cpuOk a testCpu"
  by (simp add: cpuOk_def testCpu_def)


end
