(* ===== verification/Coding.thy ===== *)
theory Coding
  imports Encoder
begin

text \<open>
  \<open>Encode\<close>, \<open>Verify\<close> and \<open>EncodeIdx\<close> of \<open>reedsolomon/reedsolomon.go\<close>.  A list of shards is consistent
  when every parity byte is the sum of the matrix coefficients times the data bytes at its
  position; the lemmas show that \<open>Encode\<close> makes shards consistent, that \<open>Verify\<close> decides it, and
  that \<open>EncodeIdx\<close> adds the contribution of one data shard.
\<close>

subsection \<open>\<open>Encode\<close>, \<open>Verify\<close> and \<open>EncodeIdx\<close>\<close>

definition Encode :: "arch \<Rightarrow> reedSolomon \<Rightarrow> slice list \<Rightarrow> (slice list \<times> reedSolomon) result" where
  "Encode a r shards =
     (if length shards \<noteq> Shards r then Inl ErrTooFewShards
      else
        bind_result (checkShards shards False) (\<lambda>_.
        bind_result (codeSomeShards a (rsOpts r) (rsPool r) (rsParity r)
            (take (DataShards r) shards) (take (ParityShards r) (drop (DataShards r) shards))
            (sliceLen (shards ! 0))) (\<lambda>(output, pool).
        Inr (take (DataShards r) shards @ output, r\<lparr>rsPool := pool\<rparr>))))"

definition checkSomeShards :: "arch \<Rightarrow> reedSolomon \<Rightarrow> matrix \<Rightarrow> slice list \<Rightarrow> slice list \<Rightarrow> nat \<Rightarrow>
    (bool \<times> reedSolomon) result" where
  "checkSomeShards a r matrixRows inputs toCheck byteCount =
     (if toCheck = [] then Inr (True, r)
      else
        bind_result (codeSomeShards a (rsOpts r) (rsPool r) matrixRows inputs
            (replicate (length toCheck) (makeSlice byteCount)) byteCount) (\<lambda>(outputs, pool).
        Inr (list_all2 (\<lambda>calc shard. bytesOf calc = bytesOf shard) outputs toCheck,
          r\<lparr>rsPool := pool\<rparr>)))"

definition Verify :: "arch \<Rightarrow> reedSolomon \<Rightarrow> slice list \<Rightarrow> (bool \<times> reedSolomon) result" where
  "Verify a r shards =
     (if length shards \<noteq> Shards r then Inl ErrTooFewShards
      else
        bind_result (checkShards shards False) (\<lambda>_.
        checkSomeShards a r (rsParity r) (take (DataShards r) shards)
          (take (ParityShards r) (drop (DataShards r) shards)) (sliceLen (shards ! 0))))"

definition encodeIdxRound :: "arch \<Rightarrow> reedSolomon \<Rightarrow> slice \<Rightarrow> nat \<Rightarrow> slice list \<Rightarrow> nat \<times> nat \<Rightarrow>
    slice list result" where
  "encodeIdxRound a r dataShard idx parity rng =
     bind_result (reslice dataShard (fst rng) (snd rng)) (\<lambda>input.
       fold_result (\<lambda>parity iRow.
         bind_result (onSub (parity ! iRow) (fst rng) (snd rng) (\<lambda>out.
             galMulSliceXor a (rsParity r ! iRow ! idx) (bytesOf input) out (rsOpts r))) (\<lambda>out.
           Inr (parity[iRow := out]))) parity [0..<ParityShards r])"

definition EncodeIdx :: "arch \<Rightarrow> reedSolomon \<Rightarrow> slice \<Rightarrow> int \<Rightarrow> slice list \<Rightarrow> slice list result" where
  "EncodeIdx a r dataShard idx parity =
     (if length parity \<noteq> ParityShards r then Inl ErrTooFewShards
      else if parity = [] then Inr parity
      else if idx < 0 \<or> int (DataShards r) \<le> idx then Inl ErrInvShardNum
      else
        bind_result (checkShards parity False) (\<lambda>_.
        if sliceLen (parity ! 0) \<noteq> sliceLen dataShard then Inl ErrShardSize
        else
          bind_result (loopResult (rounds (perRound (rsOpts r)) (sliceLen dataShard) 0
              (roundEnd (perRound (rsOpts r)) (sliceLen dataShard) 0))) (\<lambda>rs.
          fold_result (encodeIdxRound a r dataShard (nat idx)) parity rs)))"

subsection \<open>Well-formed shards\<close>

definition shardsOk :: "reedSolomon \<Rightarrow> nat \<Rightarrow> slice list \<Rightarrow> bool" where
  "shardsOk r sz ss \<longleftrightarrow> length ss = Shards r \<and> 0 < sz \<and> (\<forall>s\<in>set ss. sliceWf s \<and> sliceLen s = sz)"

definition consistent :: "reedSolomon \<Rightarrow> nat \<Rightarrow> slice list \<Rightarrow> bool" where
  "consistent r sz ss \<longleftrightarrow> (\<forall>i<ParityShards r. \<forall>q < sz. bytesOf (ss ! (DataShards r + i)) ! q =
     dotRow (DataShards r) (\<lambda>c. rsParity r ! i ! c) (\<lambda>c. bytesOf (ss ! c) ! q))"

lemma shardsOk_check:
  assumes "encInv a r" and "shardsOk r sz ss"
  shows "length ss = Shards r" and "checkShards ss False = Inr ()" and "sliceLen (ss ! 0) = sz"
proof -
  show len: "length ss = Shards r"
    using assms(2) by (simp add: shardsOk_def)
  have ne: "ss \<noteq> []"
    using assms(1) len by (auto simp: encInv_def)
  then have "ss ! 0 \<in> set ss"
    by (cases ss) simp_all
  then show "sliceLen (ss ! 0) = sz"
    using assms(2) unfolding shardsOk_def by blast
  show "checkShards ss False = Inr ()"
    using assms(2) ne by (auto simp: checkShards_False shardsOk_def)
qed

lemma rsParity_row:
  assumes "encInv a r" and "i < ParityShards r"
  shows "rsParity r ! i = rsMatrix r ! (DataShards r + i)" and "length (rsParity r ! i) = DataShards r"
proof -
  show row: "rsParity r ! i = rsMatrix r ! (DataShards r + i)"
    using assms by (simp add: encInv_def)
  have "mat_wf (Shards r) (DataShards r) (rsMatrix r)" "Shards r = DataShards r + ParityShards r"
    using assms by (auto simp: encInv_def systematic_def)
  then show "length (rsParity r ! i) = DataShards r"
    using assms(2) unfolding row by (simp add: shape_simps)
qed

lemma length_rsParity: "encInv a r \<Longrightarrow> length (rsParity r) = ParityShards r"
  by (simp add: encInv_def)

lemma codeShape_parity:
  assumes inv: "encInv a r" and p: "length outs = ParityShards r" and ins: "length ins = DataShards r"
    and "0 < sz" and "\<And>s. s \<in> set ins \<union> set outs \<Longrightarrow> sliceWf s \<and> sliceLen s = sz"
  shows "codeShape (rsParity r) ins outs sz"
  using assms length_rsParity [OF inv] rsParity_row(2) [OF inv]
  by (auto simp: codeShape_def encInv_def)

subsection \<open>The pool\<close>

text \<open>
  A call of \<open>codeSomeShards\<close> with fewer outputs than parity shards leaves the buffer of the pool
  short; \<open>poolSafe\<close> are the encoders that never need the full length again.
\<close>

definition poolSafe :: "arch \<Rightarrow> reedSolomon \<Rightarrow> bool" where
  "poolSafe a r \<longleftrightarrow>
     (avx2CodeGen a \<and> useAVX2 (rsOpts r) \<and> DataShards r \<le> 10 \<longrightarrow> ParityShards r \<le> 10)"

lemma codeSomeShards_enc:
  assumes inv: "encInv a r" and shape: "codeShape M ins outs sz" and ins: "length ins = DataShards r"
    and outs: "length outs \<le> ParityShards r"
  obtains pool where "codeSomeShards a (rsOpts r) (rsPool r) M ins outs sz =
      Inr (codeSpec M ins outs sz, pool)"
    and "length outs = ParityShards r \<or> poolSafe a r \<Longrightarrow> encInv a (r\<lparr>rsPool := pool\<rparr>)"
proof (cases "outs = []")
  case True
  then have "codeSomeShards a (rsOpts r) (rsPool r) M ins outs sz =
      Inr (codeSpec M ins outs sz, rsPool r)"
    by (simp add: codeSomeShards_def codePlan_def codeSpec_def updMem_def)
  then show ?thesis
    using that inv by simp
next
  case False
  then have p: "0 < ParityShards r"
    using outs by (cases outs) auto
  then have opts: "optsOk a (rsOpts r)" and pool: "poolInv a r"
    using inv by (auto simp: encInv_def)
  have le: "64 * (length ins * length outs) \<le> 64 * (DataShards r * ParityShards r)"
    using ins outs by simp
  then have "64 * (length ins * length outs) \<le> sliceLen (rsPool r)"
    if "64 * (DataShards r * ParityShards r) \<le> sliceLen (rsPool r)"
    using that by (rule le_trans)
  then have "poolOk a (rsOpts r) (length ins) (length outs) (rsPool r)"
    using pool ins outs by (auto simp: poolOk_def poolInv_def)
  then obtain pool' where run: "codeSomeShards a (rsOpts r) (rsPool r) M ins outs sz =
      Inr (codeSpec M ins outs sz, pool')"
    using codeSomeShards_Inr [OF opts shape] by blast
  have "encInv a (r\<lparr>rsPool := pool'\<rparr>)" if "length outs = ParityShards r \<or> poolSafe a r"
  proof (cases "avx2CodeGen a \<and> useAVX2 (rsOpts r)")
    case True
    then have "sliceWf (rsPool r)" "64 * (length ins * length outs) \<le> sliceCap (rsPool r)"
      using pool le by (auto simp: poolInv_def)
    note keep = codeSomeShards_pool [OF run shape this]
    have "pool' = rsPool r" if "\<not> (DataShards r \<le> 10 \<and> ParityShards r \<le> 10)"
      using that \<open>length outs = ParityShards r \<or> poolSafe a r\<close> ins True
      by (intro keep(2)) (auto simp: poolSafe_def)
    then have "poolInv a (r\<lparr>rsPool := pool'\<rparr>)"
      using keep(1) pool True by (auto simp: poolInv_def)
    then show ?thesis
      using inv by (auto simp: encInv_def)
  next
    case False
    then show ?thesis
      using inv by (auto simp: encInv_def poolInv_def)
  qed
  then show ?thesis
    using that run by blast
qed

subsection \<open>\<open>Encode\<close> and \<open>Verify\<close>\<close>

lemma set_take_drop: "s \<in> set (take n xs) \<union> set (take k (drop n xs)) \<Longrightarrow> s \<in> set xs"
  by (auto dest: in_set_takeD in_set_dropD)

lemma sameShape_set:
  assumes "sameShape outs outs'" and "\<And>s. s \<in> set outs \<Longrightarrow> sliceWf s \<and> sliceLen s = sz"
    and "s \<in> set outs'"
  shows "sliceWf s \<and> sliceLen s = sz"
proof -
  obtain i where i: "i < length outs" "s = outs' ! i"
    using assms(1,3) by (auto simp: sameShape_def in_set_conv_nth)
  then show ?thesis
    using assms(1) assms(2) [of "outs ! i"] by (simp add: sameShape_def sliceWf_def)
qed

lemma Encode_shape:
  assumes inv: "encInv a r" and ss: "shardsOk r sz ss"
  obtains ss' r' where "Encode a r ss = Inr (ss', r')" and "encInv a r'"
    and "\<exists>pool. r' = r\<lparr>rsPool := pool\<rparr>" and "shardsOk r sz ss'"
    and "take (DataShards r) ss' = take (DataShards r) ss" and "consistent r sz ss'"
    and "sameShape ss ss'"
proof -
  let ?d = "DataShards r" and ?p = "ParityShards r"
  let ?ins = "take ?d ss" and ?outs = "take ?p (drop ?d ss)"
  note check = shardsOk_check [OF inv ss]
  have len: "length ?ins = ?d" "length ?outs = ?p" and sz: "0 < sz"
    and all: "\<And>s. s \<in> set ss \<Longrightarrow> sliceWf s \<and> sliceLen s = sz"
    using inv ss check(1) by (auto simp: encInv_def shardsOk_def)
  have shape: "codeShape (rsParity r) ?ins ?outs sz"
    by (rule codeShape_parity [OF inv len(2,1) sz]) (rule all, erule set_take_drop)
  obtain pool where run: "codeSomeShards a (rsOpts r) (rsPool r) (rsParity r) ?ins ?outs sz =
      Inr (codeSpec (rsParity r) ?ins ?outs sz, pool)" and inv': "encInv a (r\<lparr>rsPool := pool\<rparr>)"
    using codeSomeShards_enc [OF inv shape len(1)] len(2) by (metis order_refl)
  define ss' where "ss' = ?ins @ codeSpec (rsParity r) ?ins ?outs sz"
  have "shardsOk r sz ss'"
  proof -
    have "length (codeSpec (rsParity r) ?ins ?outs sz) = ?p"
      by (simp add: codeSpec_def len(2) del: length_take)
    moreover have "sliceWf s \<and> sliceLen s = sz" if "s \<in> set ss'" for s
      using that sameShape_set [OF sameShape_codeSpec [of ?outs "rsParity r" ?ins sz], of sz s] all
      by (auto simp: ss'_def dest: in_set_takeD in_set_dropD)
    ultimately show ?thesis
      using inv sz len by (simp add: shardsOk_def ss'_def encInv_def)
  qed
  moreover have "consistent r sz ss'"
    unfolding consistent_def
  proof (intro allI impI)
    fix i q
    assume i: "i < ?p" and q: "q < sz"
    have "bytesOf (ss' ! (?d + i)) ! q = bytesOf (codeSpec (rsParity r) ?ins ?outs sz ! i) ! q"
      using len(1) by (simp add: ss'_def nth_append)
    also have "\<dots> = dotRow (length ?ins) (\<lambda>c. rsParity r ! i ! c) (\<lambda>c. bytesOf (?ins ! c) ! q)"
      using i len(2) q by (intro bytesOf_codeSpec [OF shape]) simp_all
    also have "\<dots> = dotRow ?d (\<lambda>c. rsParity r ! i ! c) (\<lambda>c. bytesOf (ss' ! c) ! q)"
      unfolding dotRow_def len(1) using len(1) by (intro foldl_cong) (simp_all add: ss'_def nth_append)
    finally show "bytesOf (ss' ! (?d + i)) ! q =
        dotRow ?d (\<lambda>c. rsParity r ! i ! c) (\<lambda>c. bytesOf (ss' ! c) ! q)" .
  qed
  moreover have "Encode a r ss = Inr (ss', r\<lparr>rsPool := pool\<rparr>)"
    using check run by (simp add: Encode_def ss'_def)
  moreover have "take ?d ss' = ?ins"
    unfolding ss'_def using len(1) by (metis append_eq_conv_conj)
  moreover have "sameShape ss ss'"
    using sameShape_codeSpec [of ?outs "rsParity r" ?ins sz] len check(1) inv
    by (auto simp: sameShape_def ss'_def nth_append encInv_def)
  ultimately show ?thesis
    using that inv' by blast
qed

lemma Encode_Inr:
  assumes "encInv a r" and "shardsOk r sz ss"
  obtains ss' r' where "Encode a r ss = Inr (ss', r')" and "encInv a r'"
    and "\<exists>pool. r' = r\<lparr>rsPool := pool\<rparr>" and "shardsOk r sz ss'"
    and "take (DataShards r) ss' = take (DataShards r) ss" and "consistent r sz ss'"
  by (rule Encode_shape [OF assms]) blast

lemma bytesOf_eq_iff:
  assumes "sliceWf s" "sliceLen s = sz" "sliceWf s'" "sliceLen s' = sz"
  shows "bytesOf s = bytesOf s' \<longleftrightarrow> (\<forall>q < sz. bytesOf s ! q = bytesOf s' ! q)"
  using assms by (simp add: list_eq_iff_nth_eq)

lemma Verify_missing:
  assumes "length ss = Shards r" and "s \<in> set ss" "s' \<in> set ss" and "sliceLen s = 0" "sliceLen s' \<noteq> 0"
  obtains e where "Verify a r ss = Inl e" and "e \<noteq> Panic" and "e \<noteq> Diverge"
proof -
  have "checkShards ss False \<noteq> Inr ()"
    using assms(2-5) unfolding checkShards_False by fastforce
  then obtain e where "checkShards ss False = Inl e"
    by (cases "checkShards ss False") auto
  then show ?thesis
    using checkShards_error [of ss False e] assms(1) by (intro that [of e]) (auto simp: Verify_def)
qed

lemma Verify_Inr:
  assumes inv: "encInv a r" and ss: "shardsOk r sz ss"
  obtains r' where "Verify a r ss = Inr (consistent r sz ss, r')" and "encInv a r'"
    and "\<exists>pool. r' = r\<lparr>rsPool := pool\<rparr>"
proof (cases "ParityShards r = 0")
  case True
  then have "Verify a r ss = Inr (consistent r sz ss, r)"
    using shardsOk_check [OF inv ss] by (simp add: Verify_def checkSomeShards_def consistent_def)
  moreover have "r = r\<lparr>rsPool := rsPool r\<rparr>"
    by simp
  ultimately show ?thesis
    using that inv by blast
next
  case False
  let ?d = "DataShards r" and ?p = "ParityShards r"
  let ?ins = "take ?d ss" and ?check = "take ?p (drop ?d ss)"
  let ?outs = "replicate (length ?check) (makeSlice sz)"
  let ?calc = "codeSpec (rsParity r) ?ins ?outs sz"
  note check = shardsOk_check [OF inv ss]
  have len: "length ?ins = ?d" "length ?check = ?p" and sz: "0 < sz"
    and all: "\<And>s. s \<in> set ss \<Longrightarrow> sliceWf s \<and> sliceLen s = sz"
    using inv ss check(1) by (auto simp: encInv_def shardsOk_def)
  have outs: "length ?outs = ?p"
    using len(2) by (simp del: length_take)
  have shape: "codeShape (rsParity r) ?ins ?outs sz"
    by (rule codeShape_parity [OF inv outs len(1) sz]) (use all in \<open>auto dest: in_set_takeD\<close>)
  obtain pool where run: "codeSomeShards a (rsOpts r) (rsPool r) (rsParity r) ?ins ?outs sz =
      Inr (?calc, pool)" and inv': "encInv a (r\<lparr>rsPool := pool\<rparr>)"
    using codeSomeShards_enc [OF inv shape len(1)] outs by (metis order_refl)
  have lens: "length ?calc = ?p"
    using outs by (simp add: codeSpec_def)
  have "bytesOf (?calc ! i) = bytesOf (?check ! i) \<longleftrightarrow>
      (\<forall>q < sz. bytesOf (ss ! (?d + i)) ! q =
        dotRow ?d (\<lambda>c. rsParity r ! i ! c) (\<lambda>c. bytesOf (ss ! c) ! q))" if i: "i < ?p" for i
  proof -
    have eq: "?check ! i = ss ! (?d + i)"
      using i len check(1) by simp
    have "?calc ! i \<in> set ?calc"
      using i lens nth_mem by metis
    moreover have "?check ! i \<in> set ss"
      using i inv check(1) unfolding eq by (intro nth_mem) (simp add: encInv_def)
    ultimately have shapes: "sliceWf (?calc ! i) \<and> sliceLen (?calc ! i) = sz" "sliceWf (?check ! i) \<and> sliceLen (?check ! i) = sz"
      using sameShape_set [OF sameShape_codeSpec, of ?outs sz] all by auto
    have "bytesOf (?calc ! i) ! q = dotRow ?d (\<lambda>c. rsParity r ! i ! c) (\<lambda>c. bytesOf (ss ! c) ! q)"
      if "q < sz" for q
    proof -
      have "bytesOf (?calc ! i) ! q =
          dotRow (length ?ins) (\<lambda>c. rsParity r ! i ! c) (\<lambda>c. bytesOf (?ins ! c) ! q)"
        using i outs that by (intro bytesOf_codeSpec [OF shape]) simp_all
      also have "\<dots> = dotRow ?d (\<lambda>c. rsParity r ! i ! c) (\<lambda>c. bytesOf (ss ! c) ! q)"
        unfolding dotRow_def len(1) by (intro foldl_cong) simp_all
      finally show ?thesis .
    qed
    then show ?thesis
      using bytesOf_eq_iff [of "?calc ! i" sz "?check ! i"] shapes eq by auto
  qed
  then have "list_all2 (\<lambda>calc shard. bytesOf calc = bytesOf shard) ?calc ?check \<longleftrightarrow> consistent r sz ss"
    using lens len(2) by (simp add: list_all2_conv_all_nth consistent_def del: length_take)
  moreover have "?check \<noteq> []"
    using False len(2) by (metis list.size(3))
  ultimately have "Verify a r ss = Inr (consistent r sz ss, r\<lparr>rsPool := pool\<rparr>)"
    using check run by (simp add: Verify_def checkSomeShards_def)
  then show ?thesis
    using that inv' by blast
qed

subsection \<open>\<open>EncodeIdx\<close>\<close>

text \<open>At one position, only the range that contains it does something.\<close>

lemma foldl_ranges:
  "consec b e rs \<Longrightarrow> foldl (\<lambda>v r. if fst r \<le> q \<and> q < snd r then h v else v) v rs =
    (if b \<le> q \<and> q < e then h v else v)"
proof (induction rs arbitrary: b v)
  case (Cons r rs)
  have "snd r \<le> e"
    using Cons.prems consec_le by auto
  then show ?case
    using Cons.prems Cons.IH [of "snd r"] by auto
qed auto

definition idxEff :: "matrix \<Rightarrow> slice \<Rightarrow> nat \<Rightarrow> nat \<times> nat \<Rightarrow> nat \<Rightarrow> nat \<Rightarrow> byte \<Rightarrow> byte" where
  "idxEff M s idx rng i q v =
     (if fst rng \<le> q \<and> q < snd rng then v XOR galMultiply (M ! i ! idx) (backing s ! q) else v)"

lemma encodeIdxRound_Inr:
  assumes shape: "codeShape (rsParity r) (replicate n s) outs sz" and idx: "idx < n"
    and rng: "lo \<le> hi" "hi \<le> sz" and p: "length outs = ParityShards r"
  shows "encodeIdxRound a r s idx outs (lo, hi) = Inr (updMem outs (idxEff (rsParity r) s idx (lo, hi)))"
proof -
  let ?M = "rsParity r" and ?ins = "replicate n s"
  let ?g = "\<lambda>iRow i q v. if iRow = i then idxEff ?M s idx (lo, hi) i q v else v"
  obtain buf where s: "s = Slice buf sz" "sz \<le> length buf"
    using codeShape_input [OF shape, of idx] idx by auto
  obtain input where input: "reslice s lo hi = Inr input"
    using rng s by (auto simp: reslice_def sliceCap_def)
  let ?f = "\<lambda>outs iRow. bind_result (onSub (outs ! iRow) lo hi (\<lambda>out.
      galMulSliceXor a (?M ! iRow ! idx) (bytesOf input) out (rsOpts r))) (\<lambda>out.
    Inr (outs[iRow := out]))"
  have "?f outs' iRow = Inr (updMem outs' (?g iRow))"
    if iRow: "iRow \<in> set [0..<ParityShards r]" and same: "sameShape outs outs'" for outs' iRow
  proof -
    have shape': "codeShape ?M ?ins outs' sz" and row: "iRow < length outs'"
      using codeShape_sameShape [OF shape same] iRow same p by (auto simp: sameShape_def)
    then have "?f outs' iRow = runCall a (rsOpts r) ?M ?ins outs' (GalMul True idx iRow lo hi)"
      using idx input by (auto simp: codeShape_def)
    also have "\<dots> = Inr (updMem outs' (callEff a ?M ?ins (GalMul True idx iRow lo hi)))"
      using idx row rng by (intro runCall_GalMul [OF shape']) simp_all
    also have "callEff a ?M ?ins (GalMul True idx iRow lo hi) = ?g iRow"
      using idx by (intro ext) (auto simp: tileEff_def idxEff_def accRow_one less_Suc_eq)
    finally show ?thesis .
  qed
  then have "fold_result ?f outs [0..<ParityShards r] =
      Inr (updMem outs (\<lambda>i q v. foldl (\<lambda>v iRow. ?g iRow i q v) v [0..<ParityShards r]))"
    by (rule fold_result_updMem [OF _ sameShape_refl])
  also have "updMem outs (\<lambda>i q v. foldl (\<lambda>v iRow. ?g iRow i q v) v [0..<ParityShards r]) =
      updMem outs (idxEff ?M s idx (lo, hi))"
  proof (rule updMem_cong)
    fix i q v assume "i < length outs"
    then show "foldl (\<lambda>v iRow. ?g iRow i q v) v [0..<ParityShards r] = idxEff ?M s idx (lo, hi) i q v"
      using foldl_select [of "[0..<ParityShards r]" i "idxEff ?M s idx (lo, hi) i q" v] p
      by simp
  qed
  finally show ?thesis
    using input by (simp add: encodeIdxRound_def)
qed

text \<open>
  A whole call adds, to each parity byte, the product of the matrix coefficient and the byte of
  the data shard.
\<close>

lemma EncodeIdx_Inr:
  assumes inv: "encInv a r" and idx: "idx < DataShards r"
    and par: "length par = ParityShards r" "\<And>t. t \<in> set par \<Longrightarrow> sliceWf t \<and> sliceLen t = sz"
    and s: "sliceWf s" "sliceLen s = sz" and sz: "0 < sz"
  shows "EncodeIdx a r s (int idx) par = Inr (updMem par (idxEff (rsParity r) s idx (0, sz)))"
proof (cases "par = []")
  case True
  then show ?thesis
    using par(1) by (simp add: EncodeIdx_def updMem_def)
next
  case False
  then have p: "0 < ParityShards r"
    using par(1) by (metis length_greater_0_conv)
  then have per: "0 < perRound (rsOpts r)"
    using inv by (auto simp: encInv_def optsOk_def)
  have shape: "codeShape (rsParity r) (replicate (DataShards r) s) par sz"
    by (rule codeShape_parity [OF inv par(1) _ sz]) (use par(2) s in auto)
  obtain rs where rs: "rounds (perRound (rsOpts r)) sz 0 (roundEnd (perRound (rsOpts r)) sz 0) = Some rs"
    "consec 0 sz rs"
    by (rule rounds_start [OF per le0])
  have "fold_result (encodeIdxRound a r s idx) par rs =
      Inr (updMem par (\<lambda>i q v. foldl (\<lambda>v rng. idxEff (rsParity r) s idx rng i q v) v rs))"
  proof (rule fold_result_updMem)
    fix rng par'
    assume rng: "rng \<in> set rs" and same: "sameShape par par'"
    show "encodeIdxRound a r s idx par' rng = Inr (updMem par' (idxEff (rsParity r) s idx rng))"
      using encodeIdxRound_Inr [OF codeShape_sameShape [OF shape same] idx, of "fst rng" "snd rng"]
        consec_bounds [OF rs(2) rng] same par(1) by (simp add: sameShape_def)
  qed simp
  also have "(\<lambda>i q v. foldl (\<lambda>v rng. idxEff (rsParity r) s idx rng i q v) v rs) =
      idxEff (rsParity r) s idx (0, sz)"
    by (intro ext) (simp add: idxEff_def foldl_ranges [OF rs(2)])
  finally have "fold_result (encodeIdxRound a r s idx) par rs =
      Inr (updMem par (idxEff (rsParity r) s idx (0, sz)))" .
  moreover have "sliceLen (par ! 0) = sz" "checkShards par False = Inr ()"
    using par(2) [of "par ! 0"] par(2) sz False by (auto simp: checkShards_False)
  ultimately show ?thesis
    using par(1) False idx s(2) rs(1) by (simp add: EncodeIdx_def loopResult_def)
qed

subsection \<open>Properties\<close>

text \<open>An encoder and shards for the closed examples.\<close>

lemma testEncoder:
  obtains r where "New Amd64 testCpu 2 2 [] = Inr r" and "encInv Amd64 r"
    and "DataShards r = 2" and "ParityShards r = 2" and "mds_matrix 2 4 (rsMatrix r)"
proof -
  have "mdsChosen (applyOptions [] (buildOptions Amd64 testCpu)) 2"
    by (simp add: mdsChosen_def applyOptions_def buildOptions_def defaultOptions_def)
  then show ?thesis
    using New_Inr [OF cpuOk_testCpu, of "[]" 2 2 Amd64] that by auto
qed

definition testShards :: "slice list" where
  "testShards = [ofBytes [1, 2, 3], ofBytes [4, 5, 6], makeSlice 3, makeSlice 3]"

lemma testShards_ok: "encInv a r \<Longrightarrow> DataShards r = 2 \<Longrightarrow> ParityShards r = 2 \<Longrightarrow> shardsOk r 3 testShards"
  by (simp add: encInv_def shardsOk_def testShards_def)

text \<open>
  C2. \<open>Encode\<close> on shards of equal size: it returns, leaves the data shards as they are, and every
  byte of parity shard \<open>i\<close> is the sum over the data shards of matrix coefficient times byte.  The
  encoder stays in a state that fulfils the invariant.
\<close>

theorem Encode_correct:
  assumes "encInv a r" and "shardsOk r sz ss"
  shows "\<exists>ss' r'. Encode a r ss = Inr (ss', r') \<and> take (DataShards r) ss' = take (DataShards r) ss \<and>
    shardsOk r sz ss' \<and> consistent r sz ss' \<and> encInv a r' \<and> rsParity r' = rsParity r"
proof -
  obtain ss' r' where "Encode a r ss = Inr (ss', r')" "encInv a r'" "\<exists>pool. r' = r\<lparr>rsPool := pool\<rparr>"
    "shardsOk r sz ss'" "take (DataShards r) ss' = take (DataShards r) ss" "consistent r sz ss'"
    by (rule Encode_Inr [OF assms])
  then show ?thesis
    by auto
qed

lemma Encode_correct_witness:
  "\<exists>r ss' r'. New Amd64 testCpu 2 2 [] = Inr r \<and> Encode Amd64 r testShards = Inr (ss', r') \<and>
    take 2 ss' = [ofBytes [1, 2, 3], ofBytes [4, 5, 6]] \<and> consistent r 3 ss'"
proof -
  obtain r where r: "New Amd64 testCpu 2 2 [] = Inr r" "encInv Amd64 r" "DataShards r = 2"
      "ParityShards r = 2" "mds_matrix 2 4 (rsMatrix r)"
    by (rule testEncoder)
  have "take 2 testShards = [ofBytes [1, 2, 3], ofBytes [4, 5, 6]]"
    by (simp add: testShards_def)
  then show ?thesis
    using Encode_correct [OF r(2) testShards_ok [OF r(2-4)]] r(1,3) by auto
qed

text \<open>
  C20. \<open>Verify\<close> on shards of equal size returns, without an error and without touching the shards,
  whether they are consistent.
\<close>

theorem Verify_decides:
  assumes "encInv a r" and "shardsOk r sz ss"
  shows "\<exists>r'. Verify a r ss = Inr (consistent r sz ss, r') \<and> encInv a r'"
  using Verify_Inr [OF assms] by blast

lemma Verify_decides_witness:
  "\<exists>r r'. New Amd64 testCpu 2 2 [] = Inr r \<and>
    Verify Amd64 r testShards = Inr (consistent r 3 testShards, r')"
proof -
  obtain r where r: "New Amd64 testCpu 2 2 [] = Inr r" "encInv Amd64 r" "DataShards r = 2"
      "ParityShards r = 2" "mds_matrix 2 4 (rsMatrix r)"
    by (rule testEncoder)
  then show ?thesis
    using Verify_decides [OF r(2) testShards_ok [OF r(2-4)]] by auto
qed

lemma GF_foldl_xor_list: "GF (foldl (\<lambda>v x. v XOR f x) a xs) = GF a + sum_list (map (\<lambda>x. GF (f x)) xs)"
  by (induction xs arbitrary: a) (simp_all add: gf_simps add.assoc)

text \<open>
  The errors of \<open>Encode\<close>: a wrong number of shards, only empty shards, or shards of different
  sizes.  On any other list it succeeds; it never panics.
\<close>

theorem Encode_errors:
  assumes inv: "encInv a r" and wf: "list_all sliceWf ss"
  shows "case Encode a r ss of
      Inl e \<Rightarrow>
        e = ErrTooFewShards \<and> length ss \<noteq> Shards r \<or>
        e = ErrShardNoData \<and> length ss = Shards r \<and> (\<forall>s\<in>set ss. sliceLen s = 0) \<or>
        e = ErrShardSize \<and> length ss = Shards r \<and> (\<exists>s\<in>set ss. \<exists>t\<in>set ss. sliceLen s \<noteq> sliceLen t)
    | Inr _ \<Rightarrow> \<exists>sz. shardsOk r sz ss"
proof (cases "length ss = Shards r")
  case len: True
  show ?thesis
  proof (cases "checkShards ss False")
    case (Inl e)
    have "e = ErrShardNoData \<and> (\<forall>s\<in>set ss. sliceLen s = 0) \<or>
        e = ErrShardSize \<and> (\<exists>s\<in>set ss. \<exists>t\<in>set ss. sliceLen s \<noteq> sliceLen t)"
      using checkShards_error [OF Inl] .
    then show ?thesis
      using Inl len by (auto simp: Encode_def)
  next
    case (Inr u)
    then have "checkShards ss False = Inr ()"
      by simp
    then obtain sz where "0 < sz" "\<forall>s\<in>set ss. sliceLen s = sz"
      unfolding checkShards_False by blast
    then have sz: "shardsOk r sz ss"
      using wf len by (simp add: shardsOk_def list_all_iff)
    show ?thesis
      by (rule Encode_Inr [OF inv sz]) (use sz in auto)
  qed
qed (simp add: Encode_def)

lemma Encode_errors_witness:
  "\<exists>r. New Amd64 testCpu 2 2 [] = Inr r \<and>
    Encode Amd64 r [makeSlice 3, makeSlice 3, makeSlice 2, makeSlice 3] = Inl ErrShardSize"
proof -
  obtain r where r: "New Amd64 testCpu 2 2 [] = Inr r" "encInv Amd64 r" "DataShards r = 2"
      "ParityShards r = 2" "mds_matrix 2 4 (rsMatrix r)"
    by (rule testEncoder)
  let ?ss = "[makeSlice 3, makeSlice 3, makeSlice 2, makeSlice 3]"
  have len: "length ?ss = Shards r"
    using r by (simp add: encInv_def)
  have "\<not> (\<exists>sz. shardsOk r sz ?ss)" "\<not> (\<forall>s\<in>set ?ss. sliceLen s = 0)"
    by (simp_all add: shardsOk_def)
  then have "Encode Amd64 r ?ss = Inl ErrShardSize"
    using Encode_errors [OF r(2), of ?ss] len by (cases "Encode Amd64 r ?ss") simp_all
  then show ?thesis
    using r(1) by blast
qed

lemma dotRow_any_order:
  assumes "distinct order" and "set order = {..<d}"
  shows "foldl (\<lambda>v c. v XOR galMultiply (f c) (g c)) 0 order = dotRow d f g"
proof -
  have "GF (foldl (\<lambda>v c. v XOR galMultiply (f c) (g c)) 0 order) = GF (dotRow d f g)"
    using assms by (simp add: GF_foldl_xor_list GF_dotRow sum_list_distinct_conv_sum_set gf_simps)
  then show ?thesis
    by simp
qed

text \<open>
  C27. Feeding all data shards to \<open>EncodeIdx\<close>, one at a time and in any order, into parity shards
  that start as zeros, gives the parity that \<open>Encode\<close> computes.
\<close>

theorem EncodeIdx_any_order:
  assumes inv: "encInv a r" and ss: "shardsOk r sz ss"
    and order: "distinct order" "set order = {..<DataShards r}"
  shows "\<exists>par. fold_result (\<lambda>par i. EncodeIdx a r (ss ! i) (int i) par)
      (replicate (ParityShards r) (makeSlice sz)) order = Inr par \<and>
    consistent r sz (take (DataShards r) ss @ par)"
proof -
  let ?d = "DataShards r" and ?M = "rsParity r"
  let ?par = "replicate (ParityShards r) (makeSlice sz)"
  have sz: "0 < sz" and all: "\<And>s. s \<in> set ss \<Longrightarrow> sliceWf s \<and> sliceLen s = sz"
    and len: "length (take ?d ss) = ?d" "?d \<le> length ss"
    using inv ss by (auto simp: shardsOk_def encInv_def)
  have "EncodeIdx a r (ss ! c) (int c) par = Inr (updMem par (idxEff ?M (ss ! c) c (0, sz)))"
    if "c \<in> set order" "sameShape ?par par" for c par
  proof (rule EncodeIdx_Inr [OF inv])
    show "c < ?d" "length par = ParityShards r"
      using that order(2) by (auto simp: sameShape_def)
    then show "sliceWf (ss ! c)" "sliceLen (ss ! c) = sz"
      using all [of "ss ! c"] len(2) by auto
    show "sliceWf t \<and> sliceLen t = sz" if "t \<in> set par" for t
      using sameShape_set [OF \<open>sameShape ?par par\<close> _ that, of sz] by auto
  qed (rule sz)
  then have "fold_result (\<lambda>par c. EncodeIdx a r (ss ! c) (int c) par) ?par order =
      Inr (updMem ?par (\<lambda>i q v. foldl (\<lambda>v c. idxEff ?M (ss ! c) c (0, sz) i q v) v order))"
    (is "_ = Inr ?res")
    by (rule fold_result_updMem [OF _ sameShape_refl])
  moreover have "bytesOf (?res ! i) ! q =
      dotRow ?d (\<lambda>c. ?M ! i ! c) (\<lambda>c. bytesOf ((take ?d ss @ ?res) ! c) ! q)"
    if i: "i < ParityShards r" and q: "q < sz" for i q
  proof -
    have byte: "bytesOf ((take ?d ss @ ?res) ! c) ! q = backing (ss ! c) ! q" if "c < ?d" for c
    proof -
      have "sliceLen (ss ! c) = sz"
        using all [of "ss ! c"] len(2) that by simp
      then show ?thesis
        using that len(1) q by (simp add: nth_append bytesOf_def)
    qed
    have "bytesOf (?res ! i) ! q =
        foldl (\<lambda>v c. v XOR galMultiply (?M ! i ! c) (backing (ss ! c) ! q)) 0 order"
      using i q by (simp add: bytesOf_updMem idxEff_def makeSlice_def sliceCap_def)
    also have "\<dots> = dotRow ?d (\<lambda>c. ?M ! i ! c) (\<lambda>c. backing (ss ! c) ! q)"
      by (rule dotRow_any_order [OF order])
    also have "\<dots> = dotRow ?d (\<lambda>c. ?M ! i ! c) (\<lambda>c. bytesOf ((take ?d ss @ ?res) ! c) ! q)"
      unfolding dotRow_def using byte by (intro foldl_cong) simp_all
    finally show ?thesis .
  qed
  moreover have "(take ?d ss @ ?res) ! (?d + i) = ?res ! i" for i
    using nth_append_length_plus [of "take ?d ss" ?res i] unfolding len(1) .
  ultimately show ?thesis
    unfolding consistent_def by (intro exI [of _ ?res] conjI allI impI) simp_all
qed

lemma EncodeIdx_any_order_witness:
  "\<exists>r par. New Amd64 testCpu 2 2 [] = Inr r \<and>
    fold_result (\<lambda>par i. EncodeIdx Amd64 r (testShards ! i) (int i) par)
      [makeSlice 3, makeSlice 3] [1, 0] = Inr par \<and>
    consistent r 3 ([ofBytes [1, 2, 3], ofBytes [4, 5, 6]] @ par)"
proof -
  obtain r where r: "New Amd64 testCpu 2 2 [] = Inr r" "encInv Amd64 r" "DataShards r = 2"
      "ParityShards r = 2" "mds_matrix 2 4 (rsMatrix r)"
    by (rule testEncoder)
  have "take 2 testShards = [ofBytes [1, 2, 3], ofBytes [4, 5, 6]]"
      "replicate 2 (makeSlice 3) = [makeSlice 3, makeSlice 3]" "set [1, 0] = {..<2 :: nat}"
    by (auto simp: testShards_def numeral_2_eq_2)
  then show ?thesis
    using EncodeIdx_any_order [OF r(2) testShards_ok [OF r(2-4)], of "[1, 0]"] r(1,3,4) by auto
qed

text \<open>The shards the witnesses of the other theories start from.\<close>

lemma Encode_testShards:
  obtains r orig r' where "New Amd64 testCpu 2 2 [] = Inr r" and "Encode Amd64 r testShards = Inr (orig, r')"
    and "encInv Amd64 r'" and "poolSafe Amd64 r'" and "DataShards r' = 2" and "ParityShards r' = 2"
    and "mds_matrix 2 4 (rsMatrix r')" and "shardsOk r' 3 orig" and "consistent r' 3 orig"
proof -
  obtain r where r: "New Amd64 testCpu 2 2 [] = Inr r" "encInv Amd64 r" "DataShards r = 2"
      "ParityShards r = 2" "mds_matrix 2 4 (rsMatrix r)"
    by (rule testEncoder)
  obtain orig r' where "Encode Amd64 r testShards = Inr (orig, r')" "encInv Amd64 r'"
    "\<exists>pool. r' = r\<lparr>rsPool := pool\<rparr>" "shardsOk r 3 orig" "consistent r 3 orig"
    by (rule Encode_Inr [OF r(2) testShards_ok [OF r(2-4)]])
  then show ?thesis
    using that r by (auto simp: shardsOk_def consistent_def poolSafe_def)
qed

end
