(* ===== verification/Update.thy ===== *)
theory Update
  imports Coding
begin

text \<open>
  \<open>Update\<close> of \<open>reedsolomon/reedsolomon.go\<close>: parity for changed data shards, from the old and the new
  shard.  The old data shards are overwritten with the difference of old and new.  The main lemma
  gives the state after any sequence of (data shard, range) steps no two of which overlap.
\<close>

subsection \<open>The code\<close>

text \<open>
  The body of the loops of \<open>updateParityShards\<close>, where \<open>part\<close> is \<open>None\<close>, and of
  \<open>updateParityShardsP\<close>, where it is the range \<open>start:stop\<close> of the goroutine.
\<close>

definition partOf :: "(nat \<times> nat) option \<Rightarrow> slice \<Rightarrow> slice result" where
  "partOf part s = (case part of None \<Rightarrow> Inr s | Some (lo, hi) \<Rightarrow> reslice s lo hi)"

definition onPart :: "(nat \<times> nat) option \<Rightarrow> slice \<Rightarrow> (slice \<Rightarrow> slice result) \<Rightarrow> slice result" where
  "onPart part s f = (case part of None \<Rightarrow> f s | Some (lo, hi) \<Rightarrow> onSub s lo hi f)"

definition updateColumn :: "arch \<Rightarrow> options \<Rightarrow> matrix \<Rightarrow> nat \<Rightarrow> (nat \<times> nat) option \<Rightarrow> slice \<Rightarrow> nat \<Rightarrow>
    slice list \<times> slice list \<Rightarrow> (slice list \<times> slice list) result" where
  "updateColumn a opts matrixRows outputCount part newin c st =
     (case st of (oldinputs, outputs) \<Rightarrow>
      case newin of
        NilSlice \<Rightarrow> Inr (oldinputs, outputs)
      | Slice _ _ \<Rightarrow>
          bind_result (partOf part newin) (\<lambda>input.
          bind_result (onPart part (oldinputs ! c) (\<lambda>old. sliceXor a (bytesOf input) old opts))
            (\<lambda>oldin.
          bind_result (partOf part oldin) (\<lambda>old.
          bind_result (fold_result (\<lambda>outputs iRow.
              bind_result (onPart part (outputs ! iRow) (\<lambda>out.
                  galMulSliceXor a (matrixRows ! iRow ! c) (bytesOf old) out opts)) (\<lambda>out.
                Inr (outputs[iRow := out]))) outputs [0..<outputCount]) (\<lambda>outputs.
          Inr (oldinputs[c := oldin], outputs))))))"

definition updateTask :: "arch \<Rightarrow> reedSolomon \<Rightarrow> slice list \<Rightarrow> (nat \<times> nat) option \<Rightarrow>
    slice list \<times> slice list \<Rightarrow> (slice list \<times> slice list) result" where
  "updateTask a r newinputs part st =
     fold_result (\<lambda>st c. updateColumn a (rsOpts r) (rsParity r) (ParityShards r) part
       (newinputs ! c) c st) st [0..<DataShards r]"

text \<open>The goroutines of \<open>updateParityShardsP\<close> run here in the order of their ranges.\<close>

definition updateParityShards :: "arch \<Rightarrow> reedSolomon \<Rightarrow> slice list \<Rightarrow> slice list \<Rightarrow> slice list \<Rightarrow> nat \<Rightarrow>
    (slice list \<times> slice list) result" where
  "updateParityShards a r oldinputs newinputs outputs byteCount =
     (if outputs = [] then Inr (oldinputs, outputs)
      else if 1 < maxGoroutines (rsOpts r) \<and> minSplitSize (rsOpts r) < int byteCount then
        bind_result (jobRanges (splitSize (rsOpts r) byteCount) byteCount) (\<lambda>rs.
          fold_result (\<lambda>st rng. updateTask a r newinputs (Some rng) st) (oldinputs, outputs) rs)
      else updateTask a r newinputs None (oldinputs, outputs))"

definition Update :: "arch \<Rightarrow> reedSolomon \<Rightarrow> slice list \<Rightarrow> slice list \<Rightarrow> slice list result" where
  "Update a r shards newDatashards =
     (if length shards \<noteq> Shards r \<or> length newDatashards \<noteq> DataShards r then Inl ErrTooFewShards
      else
        bind_result (checkShards shards True) (\<lambda>_.
        bind_result (checkShards newDatashards True) (\<lambda>_.
        if list_ex (\<lambda>i. newDatashards ! i \<noteq> NilSlice \<and> shards ! i = NilSlice) [0..<DataShards r] \<or>
           NilSlice \<in> set (drop (DataShards r) shards)
        then Inl ErrInvalidInput
        else
          bind_result (updateParityShards a r (take (DataShards r) shards) newDatashards
              (drop (DataShards r) shards) (shardSize shards)) (\<lambda>(oldinputs, outputs).
            Inr (oldinputs @ outputs)))))"

subsection \<open>One column\<close>

fun partRange :: "nat \<Rightarrow> (nat \<times> nat) option \<Rightarrow> nat \<times> nat" where
  "partRange sz None = (0, sz)"
| "partRange sz (Some rng) = rng"

definition inRange :: "nat \<Rightarrow> nat \<times> nat \<Rightarrow> bool" where
  "inRange q rng \<longleftrightarrow> fst rng \<le> q \<and> q < snd rng"

lemma whole_onSub:
  assumes "loopsOver k f" and "n \<le> length buf" and "length xs = n"
  shows "k xs (Slice buf n) = onSub (Slice buf n) 0 n (k xs)"
proof -
  have "k xs (Slice buf n) = Inr (Slice (over f xs buf) n)"
    by (rule loopsOverD [OF assms(1)]) (simp_all add: assms(2,3))
  then show ?thesis
    by (simp only: onSub_whole assms(2) if_True bind_result_simps backing.simps)
qed

lemma onPart_xor:
  assumes "partRange sz part = (lo, hi)" and "lo \<le> hi" and "hi \<le> sz" and "sz \<le> length buf"
    and "length xs = hi - lo"
  shows "onPart part (Slice buf sz) (\<lambda>old. sliceXor a xs old opts) =
    Inr (Slice (map (\<lambda>q. if inRange q (lo, hi) then buf ! q XOR xs ! (q - lo) else buf ! q)
      [0..<length buf]) sz)"
proof -
  have "onPart part (Slice buf sz) (\<lambda>old. sliceXor a xs old opts) =
      onSub (Slice buf sz) lo hi (\<lambda>old. sliceXor a xs old opts)"
    using assms whole_onSub [OF arch.xor [of a opts], of sz buf xs]
    by (cases part) (auto simp: onPart_def)
  then show ?thesis
    using arch.xor_sub [of lo hi buf xs sz a opts] assms by (simp add: inRange_def)
qed

lemma onPart_mul_xor:
  assumes "partRange sz part = (lo, hi)" and "lo \<le> hi" and "hi \<le> sz" and "sz \<le> length buf"
    and "length xs = hi - lo"
  shows "onPart part (Slice buf sz) (\<lambda>out. galMulSliceXor a c xs out opts) =
    Inr (Slice (map (\<lambda>q. if inRange q (lo, hi) then buf ! q XOR galMultiply c (xs ! (q - lo)) else buf ! q)
      [0..<length buf]) sz)"
proof -
  have "onPart part (Slice buf sz) (\<lambda>out. galMulSliceXor a c xs out opts) =
      onSub (Slice buf sz) lo hi (\<lambda>out. galMulSliceXor a c xs out opts)"
    using assms whole_onSub [OF arch.mul_xor [of a c opts], of sz buf xs]
    by (cases part) (auto simp: onPart_def)
  then show ?thesis
    using arch.mul_xor_sub [of lo hi buf xs sz a c opts] assms by (simp add: inRange_def)
qed

lemma partOf_bytes:
  assumes "partRange sz part = (lo, hi)" and "lo \<le> hi" and "hi \<le> sz" and "sz \<le> length buf"
  obtains s where "partOf part (Slice buf sz) = Inr s" and "length (bytesOf s) = hi - lo"
    and "\<And>q. inRange q (lo, hi) \<Longrightarrow> bytesOf s ! (q - lo) = buf ! q"
proof (cases part)
  case None
  then show ?thesis
    using that [of "Slice buf sz"] assms by (auto simp: partOf_def bytesOf_def inRange_def)
next
  case (Some rng)
  then show ?thesis
    using that [of "Slice (drop lo buf) (hi - lo)"] assms
    by (simp add: partOf_def bytesOf_def inRange_def reslice_Slice diff_less_mono)
qed

definition wfShards :: "nat \<Rightarrow> slice list \<Rightarrow> bool" where
  "wfShards sz ss \<longleftrightarrow> 0 < sz \<and> (\<forall>s\<in>set ss. sliceWf s \<and> sliceLen s = sz)"

lemma wfShards_nth:
  assumes "wfShards sz ss" and "i < length ss"
  obtains buf where "ss ! i = Slice buf sz" and "sz \<le> length buf"
proof -
  have "sliceWf (ss ! i) \<and> sliceLen (ss ! i) = sz" "0 < sz"
    using assms by (auto simp: wfShards_def)
  then show ?thesis
    using that by (cases "ss ! i") auto
qed

lemma wfShards_sameShape: "wfShards sz ss \<Longrightarrow> sameShape ss ss' \<Longrightarrow> wfShards sz ss'"
  unfolding wfShards_def by (metis sameShape_set)

lemma updMem_slot:
  assumes "i < length outs" and "outs ! i = Slice buf n"
    and "\<And>q. q < length buf \<Longrightarrow> mem ! q = g q (buf ! q)" and "length mem = length buf"
  shows "outs[i := Slice mem n] = updMem outs (\<lambda>j q v. if i = j then g q v else v)"
proof -
  have "mem = map (\<lambda>q. g q (buf ! q)) [0..<length buf]"
    using assms(3,4) by (intro nth_equalityI) simp_all
  then have "outs[i := Slice mem n] = updMem outs (\<lambda>j q v. if j = i then g q v else v)"
    using updMem_one [OF assms(1,2), of g] by simp
  also have "(\<lambda>j q v. if j = i then g q v else v) = (\<lambda>j q v. if i = j then g q v else v)"
    by (intro ext if_cong) auto
  finally show ?thesis .
qed

lemma updateColumn_Inr:
  assumes rng: "partRange sz part = rng" "fst rng \<le> snd rng" "snd rng \<le> sz"
    and new: "sz \<le> length nb" and c: "c < length olds" "olds ! c = Slice ob sz" "sz \<le> length ob"
    and outs: "wfShards sz outs" "length outs = n"
  shows "updateColumn a opts M n part (Slice nb sz) c (olds, outs) =
    Inr (updMem olds (\<lambda>i q v. if c = i then if inRange q rng then v XOR nb ! q else v else v),
      updMem outs (\<lambda>i q v. if inRange q rng then v XOR galMultiply (M ! i ! c) (ob ! q XOR nb ! q) else v))"
proof -
  obtain lo hi where r: "rng = (lo, hi)"
    by (cases rng)
  note rng' = rng [unfolded r fst_conv snd_conv]
  obtain input where input: "partOf part (Slice nb sz) = Inr input" "length (bytesOf input) = hi - lo"
    "\<And>q. inRange q (lo, hi) \<Longrightarrow> bytesOf input ! (q - lo) = nb ! q"
    using partOf_bytes [OF rng' new] by blast
  define mem where "mem = map (\<lambda>q. if inRange q rng then ob ! q XOR bytesOf input ! (q - lo) else ob ! q)
    [0..<length ob]"
  have mem: "mem ! q = (if inRange q rng then ob ! q XOR nb ! q else ob ! q)" if "q < length ob" for q
    using that input(3) by (simp add: mem_def r)
  have oldin: "onPart part (olds ! c) (\<lambda>old. sliceXor a (bytesOf input) old opts) = Inr (Slice mem sz)"
    using onPart_xor [OF rng' c(3) input(2), of a opts] by (simp add: c(2) mem_def r)
  have olds': "olds[c := Slice mem sz] =
      updMem olds (\<lambda>i q v. if c = i then if inRange q rng then v XOR nb ! q else v else v)"
    by (rule updMem_slot [OF c(1,2)]) (simp_all add: mem, simp add: mem_def)
  have "sz \<le> length mem"
    using c(3) by (simp add: mem_def)
  then obtain old where old: "partOf part (Slice mem sz) = Inr old" "length (bytesOf old) = hi - lo"
    "\<And>q. inRange q (lo, hi) \<Longrightarrow> bytesOf old ! (q - lo) = mem ! q"
    using partOf_bytes [OF rng'] by blast
  have byte: "bytesOf old ! (q - lo) = ob ! q XOR nb ! q" if "inRange q rng" for q
    using that old(3) mem [of q] rng'(3) c(3) by (simp add: r inRange_def)
  let ?f = "\<lambda>outs iRow. bind_result (onPart part (outs ! iRow) (\<lambda>out.
      galMulSliceXor a (M ! iRow ! c) (bytesOf old) out opts)) (\<lambda>out. Inr (outs[iRow := out]))"
  let ?h = "\<lambda>i q v. if inRange q rng then v XOR galMultiply (M ! i ! c) (ob ! q XOR nb ! q) else v"
  have "?f outs' iRow = Inr (updMem outs' (\<lambda>i q v. if iRow = i then ?h i q v else v))"
    if iRow: "iRow \<in> set [0..<n]" and same: "sameShape outs outs'" for outs' iRow
  proof -
    have row: "iRow < length outs'"
      using iRow same outs(2) by (simp add: sameShape_def)
    obtain buf where buf: "outs' ! iRow = Slice buf sz" "sz \<le> length buf"
      using wfShards_nth [OF wfShards_sameShape [OF outs(1) same] row] .
    let ?mem = "map (\<lambda>q. if inRange q (lo, hi) then buf ! q XOR galMultiply (M ! iRow ! c)
        (bytesOf old ! (q - lo)) else buf ! q) [0..<length buf]"
    have "onPart part (outs' ! iRow) (\<lambda>out. galMulSliceXor a (M ! iRow ! c) (bytesOf old) out opts) =
        Inr (Slice ?mem sz)"
      unfolding buf(1) by (rule onPart_mul_xor [OF rng' buf(2) old(2)])
    moreover have "outs'[iRow := Slice ?mem sz] =
        updMem outs' (\<lambda>i q v. if iRow = i then ?h iRow q v else v)"
      using byte by (intro updMem_slot [OF row buf(1)]) (simp_all add: r)
    moreover have "updMem outs' (\<lambda>i q v. if iRow = i then ?h iRow q v else v) =
        updMem outs' (\<lambda>i q v. if iRow = i then ?h i q v else v)"
      by (rule updMem_cong) simp
    ultimately show ?thesis
      by simp
  qed
  then have "fold_result ?f outs [0..<n] =
      Inr (updMem outs (\<lambda>i q v. foldl (\<lambda>v iRow. if iRow = i then ?h i q v else v) v [0..<n]))"
    by (rule fold_result_updMem [OF _ sameShape_refl])
  also have "updMem outs (\<lambda>i q v. foldl (\<lambda>v iRow. if iRow = i then ?h i q v else v) v [0..<n]) =
      updMem outs ?h"
  proof (rule updMem_cong)
    fix i q v assume "i < length outs"
    then show "foldl (\<lambda>v iRow. if iRow = i then ?h i q v else v) v [0..<n] = ?h i q v"
      using foldl_select [of "[0..<n]" i "?h i q" v] outs(2) by simp
  qed
  finally show ?thesis
    using input(1) oldin old(1) olds' by (simp add: updateColumn_def)
qed

subsection \<open>Any sequence of steps\<close>

text \<open>
  A step is a part and a data shard.  \<open>effOld\<close> and \<open>effOut\<close> are what a list of steps does to byte \<open>q\<close>
  of old data shard \<open>i\<close> and of output \<open>i\<close>.
\<close>

type_synonym ustep = "(nat \<times> nat) option \<times> nat"

definition touches :: "nat \<Rightarrow> nat \<Rightarrow> nat \<Rightarrow> ustep \<Rightarrow> bool" where
  "touches sz i q p \<longleftrightarrow> snd p = i \<and> inRange q (partRange sz (fst p))"

definition effOld :: "nat \<Rightarrow> slice list \<Rightarrow> ustep list \<Rightarrow> nat \<Rightarrow> nat \<Rightarrow> byte \<Rightarrow> byte" where
  "effOld sz new ps i q v =
     (if new ! i \<noteq> NilSlice \<and> (\<exists>p\<in>set ps. touches sz i q p) then v XOR backing (new ! i) ! q else v)"

definition effOut :: "nat \<Rightarrow> matrix \<Rightarrow> slice list \<Rightarrow> slice list \<Rightarrow> ustep list \<Rightarrow> nat \<Rightarrow> nat \<Rightarrow> byte \<Rightarrow>
    byte" where
  "effOut sz M olds new ps i q v = foldl (\<lambda>v p.
     if new ! snd p \<noteq> NilSlice \<and> inRange q (partRange sz (fst p)) then
       v XOR galMultiply (M ! i ! snd p) (backing (olds ! snd p) ! q XOR backing (new ! snd p) ! q)
     else v) v ps"

definition apart :: "nat \<Rightarrow> ustep \<Rightarrow> ustep \<Rightarrow> bool" where
  "apart sz p p' \<longleftrightarrow> (\<forall>q. \<not> (touches sz (snd p') q p \<and> touches sz (snd p') q p'))"

lemma updateSteps_Inr:
  assumes outs: "wfShards sz outs" "length outs = n" and d: "length olds = d"
    and new: "\<And>c. c < d \<Longrightarrow> new ! c \<noteq> NilSlice \<Longrightarrow> sliceWf (new ! c) \<and> sliceLen (new ! c) = sz \<and>
      sliceWf (olds ! c) \<and> sliceLen (olds ! c) = sz \<and> olds ! c \<noteq> NilSlice"
  shows "sorted_wrt (apart sz) ps \<Longrightarrow>
    (\<And>p. p \<in> set ps \<Longrightarrow> snd p < d \<and> fst (partRange sz (fst p)) \<le> snd (partRange sz (fst p)) \<and>
      snd (partRange sz (fst p)) \<le> sz) \<Longrightarrow>
    fold_result (\<lambda>st (part, c). updateColumn a opts M n part (new ! c) c st) (olds, outs) ps =
      Inr (updMem olds (effOld sz new ps), updMem outs (effOut sz M olds new ps))"
proof (induction ps rule: rev_induct)
  case Nil
  then show ?case
    by (simp add: effOld_def effOut_def updMem_id)
next
  case (snoc p ps)
  obtain part c where p: "p = (part, c)"
    by (cases p)
  let ?rng = "partRange sz part"
  have c: "c < d" and rng: "fst ?rng \<le> snd ?rng" "snd ?rng \<le> sz"
    using snoc.prems(2) [of p] by (auto simp: p)
  have IH: "fold_result (\<lambda>st (part, c). updateColumn a opts M n part (new ! c) c st) (olds, outs) ps =
      Inr (updMem olds (effOld sz new ps), updMem outs (effOut sz M olds new ps))"
    using snoc.prems by (intro snoc.IH) (auto simp: sorted_wrt_append)
  have fresh: "\<not> touches sz c q p'" if "p' \<in> set ps" "inRange q ?rng" for q p'
    using snoc.prems(1) that by (auto simp: sorted_wrt_append apart_def touches_def p)
  let ?olds = "updMem olds (effOld sz new ps)" and ?outs = "updMem outs (effOut sz M olds new ps)"
  show ?case
  proof (cases "new ! c")
    case NilSlice
    then have "effOld sz new (ps @ [p]) = effOld sz new ps"
      "effOut sz M olds new (ps @ [p]) = effOut sz M olds new ps"
      by (auto simp: effOld_def effOut_def touches_def p intro!: ext)
    then show ?thesis
      using IH NilSlice by (simp add: fold_result_append p updateColumn_def)
  next
    case (Slice nb k)
    then have k: "k = sz" "sz \<le> length nb"
      using new [OF c] by auto
    obtain ob where ob: "olds ! c = Slice ob sz" "sz \<le> length ob"
      using new [OF c] Slice by (cases "olds ! c") auto
    let ?ob = "map (\<lambda>q. effOld sz new ps c q (ob ! q)) [0..<length ob]"
    have "?olds ! c = Slice ?ob sz"
      using c d ob(1) by (simp add: updMem_nth)
    moreover have "wfShards sz ?outs" "length ?outs = n" "c < length ?olds"
      using wfShards_sameShape [OF outs(1) sameShape_updMem [OF sameShape_refl]] outs(2) c d by simp_all
    ultimately have step: "updateColumn a opts M n part (Slice nb sz) c (?olds, ?outs) =
      Inr (updMem ?olds (\<lambda>i q v. if c = i then if inRange q ?rng then v XOR nb ! q else v else v),
        updMem ?outs (\<lambda>i q v. if inRange q ?rng
          then v XOR galMultiply (M ! i ! c) (?ob ! q XOR nb ! q) else v))"
      using ob(2) by (intro updateColumn_Inr [OF refl rng k(2)]) simp_all
    have same: "effOld sz new ps c q v = v" if "inRange q ?rng" for q v
      using fresh [OF _ that] by (auto simp: effOld_def)
    have "updMem ?olds (\<lambda>i q v. if c = i then if inRange q ?rng then v XOR nb ! q else v else v) =
        updMem olds (effOld sz new (ps @ [p]))"
      unfolding updMem_updMem
    proof (rule updMem_cong)
      fix i q v
      show "(if c = i then if inRange q ?rng then effOld sz new ps i q v XOR nb ! q
          else effOld sz new ps i q v else effOld sz new ps i q v) = effOld sz new (ps @ [p]) i q v"
        using fresh [of _ q] Slice by (auto simp: effOld_def touches_def p)
    qed
    moreover have "updMem ?outs (\<lambda>i q v. if inRange q ?rng
          then v XOR galMultiply (M ! i ! c) (?ob ! q XOR nb ! q) else v) =
        updMem outs (effOut sz M olds new (ps @ [p]))"
      unfolding updMem_updMem
    proof (rule updMem_cong)
      fix i q v
      have "?ob ! q = ob ! q" if "inRange q ?rng"
        using that rng(2) ob(2) same [OF that] by (simp add: inRange_def)
      then show "(if inRange q ?rng then effOut sz M olds new ps i q v XOR
            galMultiply (M ! i ! c) (?ob ! q XOR nb ! q) else effOut sz M olds new ps i q v) =
          effOut sz M olds new (ps @ [p]) i q v"
        using Slice ob(1) by (simp add: effOut_def p)
    qed
    ultimately show ?thesis
      using IH step Slice k(1) by (simp add: fold_result_append p)
  qed
qed

text \<open>The double loop over parts and data shards.\<close>

lemma fold_result_map: "fold_result f s (map g xs) = fold_result (\<lambda>s x. f s (g x)) s xs"
  by (induction xs arbitrary: s) simp_all

lemma fold_result_product:
  "fold_result (\<lambda>s x. fold_result (\<lambda>s y. f s (x, y)) s ys) s xs = fold_result f s (List.product xs ys)"
  by (induction xs arbitrary: s) (simp_all add: fold_result_append fold_result_map)

subsection \<open>The parity after \<open>Update\<close>\<close>

text \<open>
  The parts of a call cover every position of a shard exactly once: one part for the plain loop,
  consecutive ranges for the goroutines.
\<close>

lemma parts_effOut:
  assumes parts: "parts = [None] \<or> (\<exists>rs. parts = map Some rs \<and> consec 0 sz rs)" and q: "q < sz"
  shows "effOut sz M olds new (List.product parts [0..<d]) i q v =
    foldl (\<lambda>v c. if new ! c \<noteq> NilSlice then
      v XOR galMultiply (M ! i ! c) (backing (olds ! c) ! q XOR backing (new ! c) ! q) else v) v [0..<d]"
proof -
  define h where "h v = foldl (\<lambda>v c. if new ! c \<noteq> NilSlice then
      v XOR galMultiply (M ! i ! c) (backing (olds ! c) ! q XOR backing (new ! c) ! q) else v) v [0..<d]" for v
  have "effOut sz M olds new (List.product parts [0..<d]) i q v =
      foldl (\<lambda>v part. if inRange q (partRange sz part) then h v else v) v parts"
  proof (induction parts arbitrary: v)
    case (Cons part parts)
    have "effOut sz M olds new (map (Pair part) [0..<d]) i q v =
        (if inRange q (partRange sz part) then h v else v)"
      by (simp add: effOut_def foldl_map h_def cong: if_cong)
    then show ?case
      using Cons by (simp add: effOut_def)
  qed (simp add: effOut_def)
  also have "\<dots> = h v"
    using parts
  proof
    assume "parts = [None]"
    then show ?thesis
      using q by (simp add: inRange_def)
  next
    assume "\<exists>rs. parts = map Some rs \<and> consec 0 sz rs"
    then obtain rs where "parts = map Some rs" "consec 0 sz rs"
      by blast
    then show ?thesis
      using foldl_ranges [of 0 sz rs q h v] q by (simp add: foldl_map inRange_def)
  qed
  finally show ?thesis
    by (simp add: h_def)
qed

lemma consec_sorted: "consec b e rs \<Longrightarrow> sorted_wrt (\<lambda>r r'. snd r \<le> fst r') rs"
proof (induction rs arbitrary: b)
  case (Cons r rs)
  then show ?case
    using consec_bounds [of "snd r" e rs] by auto
qed simp

lemma parts_apart:
  assumes parts: "parts = [None] \<or> (\<exists>rs. parts = map Some rs \<and> consec 0 sz rs)"
  shows "sorted_wrt (apart sz) (List.product parts [0..<d])"
proof -
  have "sorted_wrt (\<lambda>p p'. snd (partRange sz p) \<le> fst (partRange sz p')) parts"
    using parts by (auto simp: sorted_wrt_map consec_sorted)
  then show ?thesis
  proof (induction parts)
    case (Cons p parts)
    have "sorted_wrt (apart sz) (map (Pair p) [0..<d])"
      by (auto simp: sorted_wrt_map apart_def touches_def sorted_wrt_iff_nth_less)
    moreover have "apart sz (p, c) (p', c')" if "p' \<in> set parts" for c c' p'
      using Cons.prems that by (fastforce simp: apart_def touches_def inRange_def)
    ultimately show ?case
      using Cons by (auto simp: sorted_wrt_append)
  qed simp
qed

lemma parts_bounds:
  assumes "parts = [None] \<or> (\<exists>rs. parts = map Some rs \<and> consec 0 sz rs)" and "part \<in> set parts"
  shows "fst (partRange sz part) \<le> snd (partRange sz part) \<and> snd (partRange sz part) \<le> sz"
  using assms consec_bounds [of 0 sz] by fastforce

text \<open>What the changed data shards add to the bytes of the parity shards.\<close>

abbreviation addedParity :: "reedSolomon \<Rightarrow> nat \<Rightarrow> slice list \<Rightarrow> slice list \<Rightarrow> nat \<Rightarrow> nat \<Rightarrow> byte \<Rightarrow> byte" where
  "addedParity r sz olds new i q v \<equiv>
    if q < sz then foldl (\<lambda>v c. if new ! c \<noteq> NilSlice then v XOR galMultiply (rsParity r ! i ! c)
      (backing (olds ! c) ! q XOR backing (new ! c) ! q) else v) v [0..<DataShards r]
    else v"

lemma updateParityShards_Inr:
  assumes inv: "encInv a r" and sz: "0 < sz" and outs: "wfShards sz outs" "length outs = ParityShards r"
    and len: "length olds = DataShards r"
    and new: "\<And>c. c < DataShards r \<Longrightarrow> new ! c \<noteq> NilSlice \<Longrightarrow>
      sliceWf (new ! c) \<and> sliceLen (new ! c) = sz \<and>
      sliceWf (olds ! c) \<and> sliceLen (olds ! c) = sz \<and> olds ! c \<noteq> NilSlice"
  obtains olds' where "updateParityShards a r olds new outs sz = Inr (olds', updMem outs (addedParity r sz olds new))"
    and "length olds' = length olds"
proof (cases "outs = []")
  case True
  then show ?thesis
    using that [of olds] by (simp add: updateParityShards_def updMem_def)
next
  case False
  then have opts: "optsOk a (rsOpts r)"
    using inv outs(2) by (auto simp: encInv_def)
  let ?d = "DataShards r"
  obtain parts where parts: "parts = [None] \<or> (\<exists>rs. parts = map Some rs \<and> consec 0 sz rs)"
    and run: "updateParityShards a r olds new outs sz =
      fold_result (\<lambda>st part. updateTask a r new part st) (olds, outs) parts"
  proof (cases "1 < maxGoroutines (rsOpts r) \<and> minSplitSize (rsOpts r) < int sz")
    case True
    have "0 < splitSize (rsOpts r) sz"
      using opts by (simp add: splitSize_def Let_def optsOk_def)
    then obtain rs where "jobRanges (splitSize (rsOpts r) sz) sz = Inr rs" "consec 0 sz rs"
      using jobRanges_Inr by blast
    then show ?thesis
      using that [of "map Some rs"] True False
      by (simp add: updateParityShards_def fold_result_map)
  next
    case notP: False
    then have "updateParityShards a r olds new outs sz = updateTask a r new None (olds, outs)"
      using False by (auto simp: updateParityShards_def)
    then show ?thesis
      using that [of "[None]"] by (cases "updateTask a r new None (olds, outs)") simp_all
  qed
  let ?ps = "List.product parts [0..<?d]"
  have "updateParityShards a r olds new outs sz = fold_result (\<lambda>st (part, c).
      updateColumn a (rsOpts r) (rsParity r) (ParityShards r) part (new ! c) c st) (olds, outs) ?ps"
    unfolding run updateTask_def fold_result_product [symmetric] by simp
  also have "\<dots> = Inr (updMem olds (effOld sz new ?ps), updMem outs (effOut sz (rsParity r) olds new ?ps))"
  proof (rule updateSteps_Inr [OF outs len])
    show "sorted_wrt (apart sz) ?ps"
      by (rule parts_apart [OF parts])
    show "snd p < ?d \<and> fst (partRange sz (fst p)) \<le> snd (partRange sz (fst p)) \<and>
        snd (partRange sz (fst p)) \<le> sz" if "p \<in> set ?ps" for p
      using that parts_bounds [OF parts, of "fst p"] by auto
  qed (rule new)
  also have "updMem outs (effOut sz (rsParity r) olds new ?ps) = updMem outs (\<lambda>i q v.
      if q < sz then foldl (\<lambda>v c. if new ! c \<noteq> NilSlice then v XOR galMultiply (rsParity r ! i ! c)
        (backing (olds ! c) ! q XOR backing (new ! c) ! q) else v) v [0..<?d]
      else v)"
  proof (rule updMem_cong)
    fix i q v
    have "effOut sz (rsParity r) olds new ?ps i q v = v" if "\<not> q < sz"
    proof -
      have "\<not> inRange q (partRange sz (fst p))" if "p \<in> set ?ps" for p
        using that parts_bounds [OF parts, of "fst p"] \<open>\<not> q < sz\<close> by (auto simp: inRange_def)
      then have "effOut sz (rsParity r) olds new ?ps i q v = foldl (\<lambda>v p. v) v ?ps"
        unfolding effOut_def by (intro foldl_cong) auto
      then show ?thesis
        by simp
    qed
    then show "effOut sz (rsParity r) olds new ?ps i q v =
        (if q < sz then foldl (\<lambda>v c. if new ! c \<noteq> NilSlice then v XOR galMultiply (rsParity r ! i ! c)
          (backing (olds ! c) ! q XOR backing (new ! c) ! q) else v) v [0..<?d] else v)"
      using parts_effOut [OF parts] by simp
  qed
  finally show ?thesis
    using that by simp
qed

text \<open>What a changed shard adds to a parity byte turns the old sum into the new one.\<close>

lemma GF_foldl_changed:
  "GF (foldl (\<lambda>v c. if P c then v XOR galMultiply (f c) (x c XOR y c) else v) v [0..<n]) =
    GF v + (\<Sum>c<n. if P c then GF (f c) * (GF (x c) + GF (y c)) else 0)"
  by (induction n) (simp_all add: gf_simps add.assoc)

lemma parity_changed:
  "foldl (\<lambda>v c. if P c then v XOR galMultiply (f c) (x c XOR y c) else v) (dotRow n f x) [0..<n] =
    dotRow n f (\<lambda>c. if P c then y c else x c)"
proof -
  have "GF (f c) * GF (x c) + (if P c then GF (f c) * (GF (x c) + GF (y c)) else 0) =
      GF (f c) * GF (if P c then y c else x c)" for c
    by (simp add: distrib_left add.assoc [symmetric] gf_add_self)
  then have "GF (foldl (\<lambda>v c. if P c then v XOR galMultiply (f c) (x c XOR y c) else v)
        (dotRow n f x) [0..<n]) = GF (dotRow n f (\<lambda>c. if P c then y c else x c))"
    by (simp add: GF_foldl_changed GF_dotRow sum.distrib [symmetric])
  then show ?thesis
    by simp
qed

text \<open>The parity of consistent shards with these changes added to it is the parity of the new data.\<close>

lemma updated_consistent:
  assumes inv: "encInv a r" and orig: "shardsOk r sz orig" and cons: "consistent r sz orig"
    and new: "\<And>c. c < DataShards r \<Longrightarrow> new ! c \<noteq> NilSlice \<Longrightarrow>
      sliceWf (new ! c) \<and> sliceLen (new ! c) = sz \<and> olds ! c = orig ! c"
  shows "consistent r sz (map (\<lambda>c. if new ! c = NilSlice then orig ! c else new ! c) [0..<DataShards r] @
    updMem (drop (DataShards r) orig) (addedParity r sz olds new))"
    (is "consistent r sz (?data @ updMem ?outs ?h)")
proof -
  let ?d = "DataShards r"
  have t: "Shards r = ?d + ParityShards r" "length orig = Shards r"
    using orig inv by (auto simp: shardsOk_def encInv_def)
  have wf: "sliceWf (orig ! c)" "sliceLen (orig ! c) = sz" if "c < Shards r" for c
    using that orig by (auto simp: shardsOk_def)
  have "bytesOf ((?data @ updMem ?outs ?h) ! (?d + i)) ! q =
      dotRow ?d (\<lambda>c. rsParity r ! i ! c) (\<lambda>c. bytesOf ((?data @ updMem ?outs ?h) ! c) ! q)"
    if i: "i < ParityShards r" and q: "q < sz" for i q
  proof -
    have byte: "bytesOf (orig ! c) ! q = backing (orig ! c) ! q" if "c < Shards r" for c
      using wf [OF that] q by (simp add: bytesOf_def)
    have data: "(if new ! c \<noteq> NilSlice then backing (new ! c) ! q else bytesOf (orig ! c) ! q) =
        bytesOf ((?data @ updMem ?outs ?h) ! c) ! q" if "c < ?d" for c
      using new [OF that] q that by (simp add: bytesOf_def nth_append)
    have "bytesOf ((?data @ updMem ?outs ?h) ! (?d + i)) ! q = ?h i q (backing (orig ! (?d + i)) ! q)"
      using i q wf [of "?d + i"] t
      by (simp add: nth_append bytesOf_updMem sliceWf_def cong: if_cong)
    also have "backing (orig ! (?d + i)) ! q =
        dotRow ?d (\<lambda>c. rsParity r ! i ! c) (\<lambda>c. bytesOf (orig ! c) ! q)"
      using cons i q byte [of "?d + i"] t by (simp add: consistent_def)
    also have "?h i q \<dots> = foldl (\<lambda>v c. if new ! c \<noteq> NilSlice then v XOR galMultiply (rsParity r ! i ! c)
        (bytesOf (orig ! c) ! q XOR backing (new ! c) ! q) else v)
        (dotRow ?d (\<lambda>c. rsParity r ! i ! c) (\<lambda>c. bytesOf (orig ! c) ! q)) [0..<?d]"
      using q new byte t by (auto intro!: foldl_cong)
    also have "\<dots> = dotRow ?d (\<lambda>c. rsParity r ! i ! c)
        (\<lambda>c. if new ! c \<noteq> NilSlice then backing (new ! c) ! q else bytesOf (orig ! c) ! q)"
      by (rule parity_changed)
    also have "\<dots> = dotRow ?d (\<lambda>c. rsParity r ! i ! c) (\<lambda>c. bytesOf ((?data @ updMem ?outs ?h) ! c) ! q)"
      unfolding dotRow_def by (intro foldl_cong) (simp_all only: data set_upt atLeastLessThan_iff)
    finally show ?thesis .
  qed
  then show ?thesis
    by (simp add: consistent_def)
qed

text \<open>The checks that \<open>Update\<close> makes: some data shard is there to be changed, so the size is known.\<close>

lemma Update_checks:
  assumes sz: "0 < sz" and some: "c0 < length new" "new ! c0 \<noteq> NilSlice" "c0 < length ss"
    and ss: "\<forall>s\<in>set ss. sliceLen s = 0 \<or> sliceLen s = sz"
    and new: "\<forall>c<length new. new ! c = NilSlice \<or> sliceLen (new ! c) = sz \<and> ss ! c \<noteq> NilSlice"
    and old: "sliceLen (ss ! c0) = sz" and outs: "NilSlice \<notin> set (drop (DataShards r) ss)"
    and len: "length ss = Shards r" "length new = DataShards r"
  shows "Update a r ss new = bind_result
    (updateParityShards a r (take (DataShards r) ss) new (drop (DataShards r) ss) sz)
    (\<lambda>(olds, outs). Inr (olds @ outs))"
proof -
  have in_ss: "ss ! c0 \<in> set ss" and in_new: "new ! c0 \<in> set new"
    using some by simp_all
  have news: "sliceLen s = 0 \<or> sliceLen s = sz" if "s \<in> set new" for s
    using new that by (auto simp: in_set_conv_nth)
  have check: "checkShards ss True = Inr ()" and size: "shardSize ss = sz"
    using checkShards_True [OF _ in_ss old sz] shardSize_eq [OF _ in_ss old sz] ss by simp_all
  have check_new: "checkShards new True = Inr ()"
    using checkShards_True [OF news in_new _ sz] new some by blast
  have "\<not> list_ex (\<lambda>i. new ! i \<noteq> NilSlice \<and> ss ! i = NilSlice) [0..<DataShards r]"
    using new len by (auto simp: list_ex_iff)
  then show ?thesis
    using outs by (simp only: Update_def len check check_new size bind_result_simps) simp
qed

text \<open>
  C11. \<open>Update\<close>: given consistent shards, of which unchanged data shards may be left out, and the new
  contents of at least one data shard, the parity shards it leaves are those of the new data.
\<close>

theorem Update_correct:
  assumes inv: "encInv a r" and orig: "shardsOk r sz orig" and cons: "consistent r sz orig"
    and len: "length ss = Shards r" "length new = DataShards r"
    and ss: "\<forall>c<DataShards r. ss ! c = orig ! c \<or> ss ! c = NilSlice"
      "drop (DataShards r) ss = drop (DataShards r) orig"
    and new: "\<forall>c<DataShards r. new ! c = NilSlice \<or>
      sliceWf (new ! c) \<and> sliceLen (new ! c) = sz \<and> ss ! c \<noteq> NilSlice"
    and some: "\<exists>c<DataShards r. new ! c \<noteq> NilSlice"
  shows "\<exists>ss'. Update a r ss new = Inr ss' \<and> consistent r sz
    (map (\<lambda>c. if new ! c = NilSlice then orig ! c else new ! c) [0..<DataShards r] @
      drop (DataShards r) ss')"
proof -
  let ?d = "DataShards r"
  have sz: "0 < sz" and t: "Shards r = ?d + ParityShards r" "length orig = Shards r"
    and wf: "\<And>i. i < Shards r \<Longrightarrow> sliceWf (orig ! i) \<and> sliceLen (orig ! i) = sz"
    and in_orig: "\<And>s. s \<in> set (drop ?d orig) \<Longrightarrow> sliceWf s \<and> sliceLen s = sz"
    using orig inv by (auto simp: shardsOk_def encInv_def dest: in_set_dropD)
  have parity: "ss ! (?d + i) = orig ! (?d + i)" if "i < ParityShards r" for i
    using arg_cong [OF ss(2), of "\<lambda>xs. xs ! i"] that len(1) t by simp
  have "sliceLen (ss ! i) = 0 \<or> sliceLen (ss ! i) = sz" if "i < Shards r" for i
    using ss(1) parity [of "i - ?d"] wf [of i] that t(1) by (cases "i < ?d") auto
  then have sizes: "\<forall>s\<in>set ss. sliceLen s = 0 \<or> sliceLen s = sz"
    using len(1) by (metis in_set_conv_nth)
  have kept: "sliceWf (new ! c) \<and> sliceLen (new ! c) = sz \<and> take ?d ss ! c = orig ! c"
    if "c < ?d" "new ! c \<noteq> NilSlice" for c
    using that new ss(1) by auto
  obtain c0 where c0: "c0 < ?d" "new ! c0 \<noteq> NilSlice"
    using some by blast
  have outs: "wfShards sz (drop ?d orig)" "length (drop ?d orig) = ParityShards r"
    using in_orig sz t by (auto simp: wfShards_def)
  have olds: "length (take ?d ss) = ?d"
    using len(1) t by simp
  have changed: "sliceWf (new ! c) \<and> sliceLen (new ! c) = sz \<and> sliceWf (take ?d ss ! c) \<and>
      sliceLen (take ?d ss ! c) = sz \<and> take ?d ss ! c \<noteq> NilSlice" if "c < ?d" "new ! c \<noteq> NilSlice" for c
    using kept [OF that] wf [of c] that(1) t(1) sz by auto
  let ?outs' = "updMem (drop ?d orig) (addedParity r sz (take ?d ss) new)"
  obtain olds' where run: "updateParityShards a r (take ?d ss) new (drop ?d orig) sz = Inr (olds', ?outs')"
    and olds': "length olds' = length (take ?d ss)"
    by (rule updateParityShards_Inr [OF inv sz outs olds changed])
  have old0: "sliceLen (ss ! c0) = sz"
    using kept [OF c0] wf [of c0] c0(1) t(1) by simp
  have nonnil: "NilSlice \<notin> set (drop ?d ss)"
    using in_orig sz unfolding ss(2) by fastforce
  have c0_len: "c0 < length new" "c0 < length ss"
    and news: "\<forall>c<length new. new ! c = NilSlice \<or> sliceLen (new ! c) = sz \<and> ss ! c \<noteq> NilSlice"
    using c0(1) len t(1) new by auto
  have "Update a r ss new = Inr (olds' @ ?outs')"
    unfolding Update_checks [OF sz c0_len(1) c0(2) c0_len(2) sizes news old0 nonnil len] ss(2) run
    by simp
  moreover have "drop ?d (olds' @ ?outs') = ?outs'"
    using olds' olds by simp
  ultimately show ?thesis
    using updated_consistent [OF inv orig cons kept] by (intro exI [of _ "olds' @ ?outs'"]) simp
qed

lemma Update_correct_witness:
  "\<exists>r orig r' ss'. New Amd64 testCpu 2 2 [] = Inr r \<and> Encode Amd64 r testShards = Inr (orig, r') \<and>
    Update Amd64 r' orig [NilSlice, ofBytes [9, 8, 7]] = Inr ss' \<and>
    consistent r' 3 ([orig ! 0, ofBytes [9, 8, 7]] @ drop 2 ss')"
proof -
  obtain r orig r' where r: "New Amd64 testCpu 2 2 [] = Inr r" "Encode Amd64 r testShards = Inr (orig, r')"
    "encInv Amd64 r'" "poolSafe Amd64 r'" "DataShards r' = 2" "ParityShards r' = 2"
    "mds_matrix 2 4 (rsMatrix r')" "shardsOk r' 3 orig" "consistent r' 3 orig"
    by (rule Encode_testShards)
  let ?new = "[NilSlice, ofBytes [9, 8, 7]]"
  have len: "length orig = Shards r'"
    using r(8) by (simp add: shardsOk_def)
  have shards: "Shards r' = 4"
    using r(3,5,6) by (simp add: encInv_def)
  have "orig ! 1 \<in> set orig"
    using len shards by simp
  then have "sliceLen (orig ! 1) = 3"
    using r(8) by (simp add: shardsOk_def)
  then have "orig ! 1 \<noteq> NilSlice"
    by auto
  then have new: "\<forall>c<DataShards r'. ?new ! c = NilSlice \<or>
      sliceWf (?new ! c) \<and> sliceLen (?new ! c) = 3 \<and> orig ! c \<noteq> NilSlice"
    using r(5) by (auto simp: less_Suc_eq numeral_2_eq_2 ofBytes_def)
  have "\<exists>c<DataShards r'. ?new ! c \<noteq> NilSlice"
    using r(5) by (intro exI [of _ 1]) (simp add: ofBytes_def)
  then obtain ss' where ss': "Update Amd64 r' orig ?new = Inr ss'" "consistent r' 3
      (map (\<lambda>c. if ?new ! c = NilSlice then orig ! c else ?new ! c) [0..<DataShards r'] @
        drop (DataShards r') ss')"
    using Update_correct [OF r(3,8,9) len _ _ _ new] r(5) by auto
  have "map (\<lambda>c. if ?new ! c = NilSlice then orig ! c else ?new ! c) [0..<2] = [orig ! 0, ofBytes [9, 8, 7]]"
    by (simp add: upt_rec ofBytes_def numeral_2_eq_2)
  then have "consistent r' 3 ([orig ! 0, ofBytes [9, 8, 7]] @ drop 2 ss')"
    using ss'(2) r(5) by (simp only:)
  then show ?thesis
    using r(1,2) ss'(1) by blast
qed

end
