(* ===== verification/SplitJoin.thy ===== *)
theory SplitJoin
  imports Coding
begin

text \<open>
  \<open>Split\<close> and \<open>Join\<close> of \<open>reedsolomon/reedsolomon.go\<close>: cutting a byte slice into shards of equal
  size, and writing data shards to an \<open>io.Writer\<close>.
\<close>

subsection \<open>\<open>Split\<close>\<close>

text \<open>The two loops that fill \<open>dst\<close>: from the data while it lasts, then from the padding.\<close>

fun takeShards :: "nat \<Rightarrow> nat \<Rightarrow> slice \<Rightarrow> slice list result" where
  "takeShards 0 perShard data = Inr []"
| "takeShards (Suc n) perShard data =
     (if sliceLen data < perShard then Inr []
      else
        bind_result (reslice3 data 0 perShard perShard) (\<lambda>shard.
        bind_result (resliceFrom data perShard) (\<lambda>data.
        bind_result (takeShards n perShard data) (\<lambda>shards.
          Inr (shard # shards)))))"

fun padShards :: "nat \<Rightarrow> nat \<Rightarrow> slice \<Rightarrow> slice list result" where
  "padShards 0 perShard padding = Inr []"
| "padShards (Suc n) perShard padding =
     bind_result (reslice3 padding 0 perShard perShard) (\<lambda>shard.
     bind_result (resliceFrom padding perShard) (\<lambda>padding.
     bind_result (padShards n perShard padding) (\<lambda>shards.
       Inr (shard # shards))))"

definition perShardOf :: "reedSolomon \<Rightarrow> slice \<Rightarrow> nat" where
  "perShardOf r data = (sliceLen data + DataShards r - 1) div DataShards r"

text \<open>
  The middle part: the bytes beyond the last full shard are copied to a padding, or, where the
  memory of the data has room for all shards, \<open>DataShards\<close> bytes after the data are cleared.
\<close>

definition padData :: "reedSolomon \<Rightarrow> nat \<Rightarrow> nat \<Rightarrow> slice \<Rightarrow> (slice \<times> slice) result" where
  "padData r dataLen perShard data =
     (if sliceLen data < Shards r * perShard then
        let fullShards = sliceLen data div perShard in
        bind_result (resliceFrom data (perShard * fullShards)) (\<lambda>rest.
        bind_result (reslice data 0 (perShard * fullShards)) (\<lambda>data.
          Inr (data, copySlice (makeSlice (Shards r * perShard - perShard * fullShards))
            (bytesOf rest))))
      else
        bind_result (fold_result (\<lambda>data i.
            if sliceLen data \<le> i then Inl Panic else Inr (mapMem (\<lambda>buf. buf[i := 0]) data))
          data [dataLen..<dataLen + DataShards r]) (\<lambda>data.
        Inr (data, NilSlice)))"

definition Split :: "reedSolomon \<Rightarrow> slice \<Rightarrow> slice list result" where
  "Split r data =
     (if sliceLen data = 0 then Inl ErrShortData
      else if DataShards r = 0 then Inl Panic
      else
        let dataLen = sliceLen data; perShard = perShardOf r data in
        bind_result (if sliceLen data < sliceCap data then reslice data 0 (sliceCap data)
            else Inr data) (\<lambda>data.
        bind_result (padData r dataLen perShard data) (\<lambda>(data, padding).
        bind_result (takeShards (Shards r) perShard data) (\<lambda>full.
        bind_result (padShards (Shards r - length full) perShard padding) (\<lambda>padded.
          Inr (full @ padded))))))"

subsection \<open>\<open>Join\<close>\<close>

text \<open>
  An \<open>io.Writer\<close> is a function \<open>write\<close> from its state and some bytes to its next state, the number
  of bytes written and maybe an error.
\<close>

fun joinSize :: "slice list \<Rightarrow> int \<Rightarrow> int \<Rightarrow> int result" where
  "joinSize [] sz outSize = Inr sz"
| "joinSize (shard # shards) sz outSize =
     (if shard = NilSlice then Inl ErrReconstructRequired
      else if outSize \<le> sz + int (sliceLen shard) then Inr (sz + int (sliceLen shard))
      else joinSize shards (sz + int (sliceLen shard)) outSize)"

fun joinWrite :: "('w \<Rightarrow> byte list \<Rightarrow> 'w \<times> nat \<times> error option) \<Rightarrow> 'w \<Rightarrow> slice list \<Rightarrow> int \<Rightarrow>
    'w \<times> unit result" where
  "joinWrite write dst [] todo = (dst, Inr ())"
| "joinWrite write dst (shard # shards) todo =
     (if todo < int (sliceLen shard) then
        (if todo < 0 then (dst, Inl Panic)
         else
           (case write dst (take (nat todo) (bytesOf shard)) of
              (dst, n, None) \<Rightarrow> (dst, Inr ())
            | (dst, n, Some e) \<Rightarrow> (dst, Inl e)))
      else
        (case write dst (bytesOf shard) of
           (dst, n, None) \<Rightarrow> joinWrite write dst shards (todo - int n)
         | (dst, n, Some e) \<Rightarrow> (dst, Inl e)))"

definition Join :: "('w \<Rightarrow> byte list \<Rightarrow> 'w \<times> nat \<times> error option) \<Rightarrow> reedSolomon \<Rightarrow> 'w \<Rightarrow>
    slice list \<Rightarrow> int \<Rightarrow> 'w \<times> unit result" where
  "Join write r dst shards outSize =
     (if length shards < DataShards r then (dst, Inl ErrTooFewShards)
      else
        (case joinSize (take (DataShards r) shards) 0 outSize of
           Inl e \<Rightarrow> (dst, Inl e)
         | Inr sz \<Rightarrow>
             if sz < outSize then (dst, Inl ErrShortData)
             else joinWrite write dst (take (DataShards r) shards) outSize))"

subsection \<open>The loops of \<open>Split\<close>\<close>

text \<open>The shards cut from a memory, and the memory they cover.\<close>

definition cut :: "nat \<Rightarrow> byte list \<Rightarrow> nat \<Rightarrow> slice" where
  "cut perShard buf i = Slice (take perShard (drop (i * perShard) buf)) perShard"

lemma cut_drop: "cut per (drop per buf) i = cut per buf (Suc i)"
  by (simp add: cut_def add.commute)

lemma cut_0: "cut per buf 0 = Slice (take per buf) per"
  by (simp add: cut_def)

lemma map_cut_Cons: "map (cut per buf) [0..<Suc n] = cut per buf 0 # map (cut per (drop per buf)) [0..<n]"
  by (simp add: cut_drop map_upt_Suc del: upt_Suc)

lemma takeShards_Inr:
  "0 < per \<Longrightarrow> len \<le> length buf \<Longrightarrow>
    takeShards n per (Slice buf len) = Inr (map (cut per buf) [0..<min n (len div per)])"
proof (induction n arbitrary: buf len)
  case (Suc n)
  show ?case
  proof (cases "len < per")
    case False
    then have "len div per = Suc ((len - per) div per)"
      using Suc.prems(1) by (simp add: le_div_geq)
    then have "min (Suc n) (len div per) = Suc (min n ((len - per) div per))"
      by simp
    moreover have "takeShards n per (Slice (drop per buf) (len - per)) =
        Inr (map (cut per (drop per buf)) [0..<min n ((len - per) div per)])"
      using Suc.prems False by (intro Suc.IH) auto
    ultimately show ?thesis
      using Suc.prems False
      by (simp add: reslice3_def resliceFrom_def reslice_def sliceCap_def map_cut_Cons cut_0 del: upt_Suc)
  qed simp
qed simp

lemma padShards_Inr:
  "n * per \<le> len \<Longrightarrow> len \<le> length buf \<Longrightarrow>
    padShards n per (Slice buf len) = Inr (map (cut per buf) [0..<n])"
proof (induction n arbitrary: buf len)
  case (Suc n)
  have "padShards n per (Slice (drop per buf) (len - per)) = Inr (map (cut per (drop per buf)) [0..<n])"
    using Suc.prems by (intro Suc.IH) auto
  then show ?case
    using Suc.prems
    by (simp add: reslice3_def resliceFrom_def reslice_def sliceCap_def map_cut_Cons cut_0 del: upt_Suc)
qed simp

lemma concat_cut: "concat (map (\<lambda>i. bytesOf (cut per buf i)) [0..<n]) = take (n * per) buf"
  by (induction n) (simp_all add: cut_def bytesOf_def take_add [symmetric] add.commute)

lemma cut_ok: "Suc i * per \<le> length buf \<Longrightarrow> sliceWf (cut per buf i) \<and> sliceLen (cut per buf i) = per"
  by (simp add: cut_def)

subsection \<open>What \<open>Split\<close> returns\<close>

text \<open>
  \<open>Split\<close> works when the memory has no room for all shards, so that a padding is made, or when
  there are \<open>DataShards\<close> more bytes after the data to clear.
\<close>

definition splitFits :: "reedSolomon \<Rightarrow> slice \<Rightarrow> bool" where
  "splitFits r data \<longleftrightarrow> sliceCap data < Shards r * perShardOf r data \<or>
     sliceLen data + DataShards r \<le> sliceCap data"

lemma perShardOf_bounds:
  assumes "0 < DataShards r" and "0 < sliceLen data"
  shows "0 < perShardOf r data" and "sliceLen data \<le> DataShards r * perShardOf r data"
proof -
  let ?d = "DataShards r" and ?n = "sliceLen data"
  have "?d * ((?n + ?d - 1) div ?d) + (?n + ?d - 1) mod ?d = ?n + ?d - 1"
    by simp
  moreover have "(?n + ?d - 1) mod ?d < ?d"
    using assms(1) by simp
  ultimately show "?n \<le> ?d * perShardOf r data"
    unfolding perShardOf_def using assms by linarith
  then show "0 < perShardOf r data"
    using assms(2) by (cases "perShardOf r data") auto
qed

text \<open>The padded memory, cut at the same places, gives the same shards.\<close>

lemma cut_padding:
  assumes "k * per \<le> length buf"
  shows "map (cut per buf) [0..<k] @ map (cut per (drop (k * per) buf @ zs)) [0..<m] =
    map (cut per (buf @ zs)) [0..<k + m]"
proof -
  have low: "cut per buf i = cut per (buf @ zs) i" if i: "i < k" for i
  proof -
    have "Suc i * per \<le> k * per"
      using i by (intro mult_le_mono1) simp
    then show ?thesis
      using assms by (simp add: cut_def)
  qed
  have "cut per (drop (k * per) buf @ zs) i = cut per (buf @ zs) (i + k)" for i
    using assms by (simp add: cut_def add_mult_distrib add.commute)
  then have "map (cut per (drop (k * per) buf @ zs)) [0..<m] =
      map (cut per (buf @ zs)) (map (\<lambda>i. i + k) [0..<m])"
    by simp
  then have "map (cut per (drop (k * per) buf @ zs)) [0..<m] = map (cut per (buf @ zs)) [k..<k + m]"
    by (simp only: map_add_upt add.commute)
  moreover have "map (cut per buf) [0..<k] = map (cut per (buf @ zs)) [0..<k]"
    using low by simp
  ultimately show ?thesis
    using upt_add_eq_append [of 0 k m] by simp
qed

lemma copy_fresh:
  assumes "length xs \<le> n"
  shows "copySlice (makeSlice n) xs = Slice (xs @ replicate (n - length xs) 0) n"
proof -
  have "map2 (\<lambda>i _. i) xs (replicate n (0 :: byte)) = xs"
    using assms by (intro nth_equalityI) simp_all
  then show ?thesis
    using assms by (simp add: copySlice_def makeSlice_def over_def)
qed

lemma zeroLoop_Inr:
  "m \<le> n \<Longrightarrow> fold_result (\<lambda>data i. if sliceLen data \<le> i then Inl Panic
      else Inr (mapMem (\<lambda>buf. buf[i := 0]) data)) (Slice buf n) [k..<m] =
    Inr (Slice (foldl (\<lambda>buf i. buf[i := 0]) buf [k..<m]) n)"
  by (induction m) (simp_all add: fold_result_append upt_Suc_append not_le split: if_splits)

lemma take_zeroed: "take k (foldl (\<lambda>buf i. buf[i := 0]) buf [k..<m]) = take k buf"
  by (induction m) (simp_all add: upt_Suc_append)

lemma length_zeroed: "length (foldl (\<lambda>buf i. buf[i := 0]) buf is) = length buf"
  by (induction "is" arbitrary: buf) simp_all

lemma Split_Inr:
  assumes d: "0 < DataShards r" and wf: "sliceWf data" and len: "0 < sliceLen data"
    and fits: "splitFits r data"
  obtains buf where "Split r data = Inr (map (cut (perShardOf r data) buf) [0..<Shards r])"
    and "Shards r * perShardOf r data \<le> length buf"
    and "DataShards r \<le> Shards r \<Longrightarrow> take (sliceLen data) buf = bytesOf data"
    and "sliceCap data < Shards r * perShardOf r data \<Longrightarrow>
      buf = backing data @ replicate (Shards r * perShardOf r data - sliceCap data) 0"
proof -
  let ?per = "perShardOf r data" and ?t = "Shards r"
  obtain mem n where data: "data = Slice mem n"
    using len by (cases data) auto
  let ?cap = "length mem"
  have n: "0 < n" "n \<le> ?cap" and per: "0 < ?per" and bytes: "bytesOf data = take n mem"
    using wf len perShardOf_bounds [OF d len] by (simp_all add: data bytesOf_def)
  have full: "(if sliceLen data < sliceCap data then reslice data 0 (sliceCap data) else Inr data) =
      Inr (Slice mem ?cap)"
    using n by (auto simp: data sliceCap_def reslice_def)
  have split: "Split r data = bind_result (padData r n ?per (Slice mem ?cap)) (\<lambda>(data, padding).
        bind_result (takeShards ?t ?per data) (\<lambda>full.
        bind_result (padShards (?t - length full) ?per padding) (\<lambda>padded. Inr (full @ padded))))"
    using n d unfolding Split_def Let_def full bind_result_simps by (simp add: data)
  show ?thesis
  proof (cases "?cap < ?t * ?per")
    case True
    let ?k = "?cap div ?per"
    let ?rest = "drop (?k * ?per) mem" and ?pad = "?t * ?per - ?k * ?per"
    let ?zs = "replicate (?t * ?per - ?cap) 0"
    have k: "?k * ?per \<le> ?cap" "?k < ?t"
      using True per by (auto simp: div_less_iff_less_mult)
    have "length ?rest \<le> ?pad"
      using k(1) True by simp
    then have "copySlice (makeSlice ?pad) ?rest = Slice (?rest @ ?zs) ?pad"
      using copy_fresh [of ?rest ?pad] k(1) True by simp
    then have "padData r n ?per (Slice mem ?cap) =
        Inr (Slice mem (?k * ?per), Slice (?rest @ ?zs) ?pad)"
      using True k(1) by (simp add: padData_def Let_def resliceFrom_def reslice_def sliceCap_def
          bytesOf_def mult.commute)
    moreover have "takeShards ?t ?per (Slice mem (?k * ?per)) = Inr (map (cut ?per mem) [0..<?k])"
      using takeShards_Inr [OF per k(1), of ?t] k(2) per by simp
    moreover have "padShards (?t - ?k) ?per (Slice (?rest @ ?zs) ?pad) =
        Inr (map (cut ?per (?rest @ ?zs)) [0..<?t - ?k])"
      using k True by (intro padShards_Inr) (simp_all add: diff_mult_distrib)
    ultimately have "Split r data = Inr (map (cut ?per (mem @ ?zs)) [0..<?t])"
      using cut_padding [OF k(1), of ?zs "?t - ?k"] k(2) by (simp add: split)
    then show ?thesis
      using that [of "mem @ ?zs"] True n by (simp add: data bytes sliceCap_def)
  next
    case False
    then have room: "n + DataShards r \<le> ?cap"
      using fits by (simp add: splitFits_def data sliceCap_def)
    let ?buf = "foldl (\<lambda>buf i. buf[i := 0]) mem [n..<n + DataShards r]"
    have "padData r n ?per (Slice mem ?cap) = Inr (Slice ?buf ?cap, NilSlice)"
      using False zeroLoop_Inr [OF room, of mem n] by (simp add: padData_def)
    moreover have "?t \<le> ?cap div ?per"
      using False per by (simp add: less_eq_div_iff_mult_less_eq)
    then have "takeShards ?t ?per (Slice ?buf ?cap) = Inr (map (cut ?per ?buf) [0..<?t])"
      using takeShards_Inr [OF per, of ?cap ?buf ?t] by (simp add: length_zeroed min_def)
    ultimately have "Split r data = Inr (map (cut ?per ?buf) [0..<?t])"
      by (simp add: split)
    then show ?thesis
      using that [of ?buf] False n d room
      by (simp add: length_zeroed take_zeroed bytes data sliceCap_def)
  qed
qed

subsection \<open>What \<open>Join\<close> writes\<close>

text \<open>
  The contract of an \<open>io.Writer\<close>: without an error it has taken all the bytes.  A \<open>sure_writer\<close>, as
  \<open>bytes.Buffer\<close>, has no errors.
\<close>

locale io_writer =
  fixes send :: "'w \<Rightarrow> byte list \<Rightarrow> 'w \<times> nat \<times> error option"
    and content :: "'w \<Rightarrow> byte list"
  assumes write_all: "send w bs = (w', n, None) \<Longrightarrow> n = length bs \<and> content w' = content w @ bs"
begin

lemma joinWrite_content:
  "joinWrite send w ss todo = (w', Inr ()) \<Longrightarrow> 0 \<le> todo \<Longrightarrow> list_all sliceWf ss \<Longrightarrow>
    content w' = content w @ take (nat todo) (concat (map bytesOf ss))"
proof (induction ss arbitrary: w todo)
  case (Cons s ss)
  obtain w1 n err where w1: "send w (bytesOf s) = (w1, n, err)"
    by (metis prod_cases3)
  obtain w2 n2 err2 where w2: "send w (take (nat todo) (bytesOf s)) = (w2, n2, err2)"
    by (metis prod_cases3)
  have len: "length (bytesOf s) = sliceLen s"
    using Cons.prems(3) by simp
  show ?case
  proof (cases "todo < int (sliceLen s)")
    case True
    then have "nat todo \<le> length (bytesOf s)"
      using len by linarith
    then show ?thesis
      using True Cons.prems w2 write_all [of w "take (nat todo) (bytesOf s)" w2 n2]
      by (auto split: option.splits)
  next
    case False
    then have err: "err = None" and rest: "joinWrite send w1 ss (todo - int n) = (w', Inr ())"
      using Cons.prems(1) w1 by (auto split: option.splits)
    then have n: "n = sliceLen s" "content w1 = content w @ bytesOf s"
      using write_all [of w "bytesOf s" w1 n] w1 len by auto
    then have "content w' = content w1 @ take (nat (todo - int n)) (concat (map bytesOf ss))"
      using Cons.prems(3) False by (intro Cons.IH [OF rest]) auto
    then show ?thesis
      using n False len by (simp add: nat_diff_distrib)
  qed
qed simp

text \<open>A \<open>Join\<close> that returns without an error has written the first \<open>outSize\<close> bytes of the data.\<close>

lemma Join_content:
  assumes "Join send r w ss outSize = (w', Inr ())" and "0 \<le> outSize"
    and "list_all sliceWf (take (DataShards r) ss)"
  shows "content w' = content w @ take (nat outSize) (concat (map bytesOf (take (DataShards r) ss)))"
  using assms by (intro joinWrite_content) (auto simp: Join_def split: if_splits sum.splits)

end

locale sure_writer = io_writer +
  assumes no_error: "\<exists>w' n. send w bs = (w', n, None)"
begin

lemma joinWrite_ok:
  "0 \<le> todo \<Longrightarrow> list_all sliceWf ss \<Longrightarrow> \<exists>w'. joinWrite send w ss todo = (w', Inr ())"
proof (induction ss arbitrary: w todo)
  case (Cons s ss)
  obtain w1 n where w1: "send w (bytesOf s) = (w1, n, None)"
    using no_error by blast
  obtain w2 n2 where w2: "send w (take (nat todo) (bytesOf s)) = (w2, n2, None)"
    using no_error by blast
  have n: "n = sliceLen s"
    using write_all [OF w1] Cons.prems(2) by simp
  then have "\<exists>w'. joinWrite send w1 ss (todo - int n) = (w', Inr ())" if "int (sliceLen s) \<le> todo"
    using Cons.prems that by (intro Cons.IH) simp_all
  then show ?case
    using w1 w2 Cons.prems(1) by auto
qed simp

end

text \<open>\<open>bytes.Buffer\<close>.\<close>

definition bufferWrite :: "byte list \<Rightarrow> byte list \<Rightarrow> byte list \<times> nat \<times> error option" where
  "bufferWrite w bs = (w @ bs, length bs, None)"

interpretation buffer: sure_writer bufferWrite "\<lambda>w. w"
  by unfold_locales (auto simp: bufferWrite_def)

lemma joinSize_total:
  "\<forall>s\<in>set ss. s \<noteq> NilSlice \<Longrightarrow> \<exists>sz'. joinSize ss sz outSize = Inr sz' \<and>
    (sz' < outSize \<longleftrightarrow> sz + int (sum_list (map sliceLen ss)) < outSize)"
proof (induction ss arbitrary: sz)
  case (Cons s ss)
  then show ?case
    using Cons.IH [of "sz + int (sliceLen s)"] by (auto simp: add.assoc)
qed simp

lemma joinSize_nil:
  "sz + int (sum_list (map sliceLen ss)) < outSize \<Longrightarrow>
    joinSize (ss @ NilSlice # rest) sz outSize = Inl ErrReconstructRequired"
proof (induction ss arbitrary: sz)
  case (Cons s ss)
  then have "sz + int (sliceLen s) < outSize"
    by simp
  then show ?case
    using Cons.IH [of "sz + int (sliceLen s)"] Cons.prems by (auto simp: add.assoc)
qed simp

lemma length_concat_bytesOf:
  "list_all sliceWf ss \<Longrightarrow> length (concat (map bytesOf ss)) = sum_list (map sliceLen ss)"
  by (induction ss) simp_all

lemma Join_buffer:
  assumes "DataShards r \<le> length ss" and "list_all (\<lambda>s. sliceWf s \<and> s \<noteq> NilSlice) (take (DataShards r) ss)"
    and "n \<le> length (concat (map bytesOf (take (DataShards r) ss)))"
  shows "Join bufferWrite r w ss (int n) =
    (w @ take n (concat (map bytesOf (take (DataShards r) ss))), Inr ())"
proof -
  let ?ss = "take (DataShards r) ss"
  have wf: "list_all sliceWf ?ss" and nonnil: "\<forall>s\<in>set ?ss. s \<noteq> NilSlice"
    using assms(2) by (auto simp: list_all_iff)
  obtain sz where "joinSize ?ss 0 (int n) = Inr sz" "\<not> sz < int n"
    using joinSize_total [OF nonnil, of 0 "int n"] assms(3) length_concat_bytesOf [OF wf] by auto
  moreover obtain w' where "joinWrite bufferWrite w ?ss (int n) = (w', Inr ())"
    using buffer.joinWrite_ok [OF _ wf, of "int n" w] by auto
  ultimately have "Join bufferWrite r w ss (int n) = (w', Inr ())"
    using assms(1) by (simp add: Join_def)
  then show ?thesis
    using buffer.Join_content [OF _ _ wf, of w "int n" w'] by simp
qed

subsection \<open>Properties\<close>

lemma concat_cuts: "concat (map bytesOf (map (cut per buf) [0..<n])) = take (n * per) buf"
  using concat_cut [of per buf n] by (simp add: o_def)

lemma cuts_ok:
  assumes "n * per \<le> length buf" and "s \<in> set (map (cut per buf) [0..<n])"
  shows "sliceWf s \<and> sliceLen s = per \<and> s \<noteq> NilSlice"
proof -
  obtain i where i: "i < n" "s = cut per buf i"
    using assms(2) by auto
  have "Suc i * per \<le> n * per"
    using i(1) by (intro mult_le_mono1) simp
  then have "Suc i * per \<le> length buf"
    using assms(1) by (rule le_trans)
  then show ?thesis
    using cut_ok i(2) by (simp add: cut_def)
qed

lemma Split_ok:
  assumes "encInv a r" and "sliceWf data" and "0 < sliceLen data" and "splitFits r data"
  shows "\<exists>ss. Split r data = Inr ss \<and> shardsOk r (perShardOf r data) ss \<and>
    take (sliceLen data) (concat (map bytesOf (take (DataShards r) ss))) = bytesOf data \<and>
    (sliceCap data < Shards r * perShardOf r data \<longrightarrow> concat (map bytesOf ss) =
      backing data @ replicate (Shards r * perShardOf r data - sliceCap data) 0)"
proof -
  let ?per = "perShardOf r data" and ?d = "DataShards r"
  have d: "0 < ?d" "?d \<le> Shards r"
    using assms(1) by (simp_all add: encInv_def)
  note per = perShardOf_bounds [OF d(1) assms(3)]
  obtain buf where run: "Split r data = Inr (map (cut ?per buf) [0..<Shards r])"
    and len: "Shards r * ?per \<le> length buf"
    and start: "take (sliceLen data) buf = bytesOf data"
    and pad: "sliceCap data < Shards r * ?per \<Longrightarrow>
      buf = backing data @ replicate (Shards r * ?per - sliceCap data) 0"
    using Split_Inr [OF d(1) assms(2-4)] d(2) by metis
  let ?ss = "map (cut ?per buf) [0..<Shards r]"
  have "shardsOk r ?per ?ss"
    using per(1) cuts_ok [OF len] by (simp add: shardsOk_def)
  moreover have "take ?d ?ss = map (cut ?per buf) [0..<?d]"
    using d(2) by (simp add: take_map)
  then have "take (sliceLen data) (concat (map bytesOf (take ?d ?ss))) = bytesOf data"
    using concat_cuts [of ?per buf ?d] per(2) start by (simp add: min_def)
  moreover have "concat (map bytesOf ?ss) = backing data @ replicate (Shards r * ?per - sliceCap data) 0"
    if "sliceCap data < Shards r * ?per"
  proof -
    have "length buf = Shards r * ?per"
      using pad [OF that] that by (simp add: sliceCap_def)
    then show ?thesis
      using concat_cuts [of ?per buf "Shards r"] pad [OF that] by simp
  qed
  ultimately show ?thesis
    using run by blast
qed

text \<open>
  \<open>Split\<close> of non-empty data returns as many shards as the encoder has, all of the same size,
  and the data shards begin with the data.  Where the memory of the slice has no room for all
  shards, what follows is the rest of that memory up to its capacity and then zeros: zeros alone
  only if the slice has no spare capacity.
\<close>

theorem Split_correct:
  assumes "encInv a r" and "sliceWf data" and "0 < sliceLen data" and "splitFits r data"
  shows "\<exists>ss. Split r data = Inr ss \<and> shardsOk r (perShardOf r data) ss \<and>
    take (sliceLen data) (concat (map bytesOf (take (DataShards r) ss))) = bytesOf data \<and>
    (sliceCap data < Shards r * perShardOf r data \<longrightarrow> concat (map bytesOf ss) =
      backing data @ replicate (Shards r * perShardOf r data - sliceCap data) 0)"
  using Split_ok [OF assms] .

lemma Split_correct_witness:
  "\<exists>r ss. New Amd64 testCpu 2 2 [] = Inr r \<and> Split r (ofBytes [1, 2, 3, 4, 5]) = Inr ss \<and>
    shardsOk r 3 ss \<and> concat (map bytesOf ss) = [1, 2, 3, 4, 5, 0, 0, 0, 0, 0, 0, 0]"
proof -
  obtain r where r: "New Amd64 testCpu 2 2 [] = Inr r" "encInv Amd64 r" "DataShards r = 2"
      "ParityShards r = 2" "mds_matrix 2 4 (rsMatrix r)"
    by (rule testEncoder)
  have t: "Shards r = 4"
    using r by (simp add: encInv_def)
  let ?data = "ofBytes [1, 2, 3, 4, 5]"
  have per: "perShardOf r ?data = 3" "sliceCap ?data = 5" "backing ?data = [1, 2, 3, 4, 5]"
    by (simp_all add: perShardOf_def r(3) ofBytes_def sliceCap_def)
  then have "splitFits r ?data"
    by (simp add: splitFits_def t)
  then show ?thesis
    using Split_correct [OF r(2), of ?data] r(1) by (auto simp: per t numeral_eq_Suc)
qed

text \<open>
  \<open>Split\<close> panics when the memory of the data has room for all shards but not for \<open>DataShards\<close>
  bytes after the data: without parity shards already when the data fills the data shards.
\<close>

theorem Split_panics:
  assumes "encInv a r" and "sliceWf data" and "0 < sliceLen data" and "\<not> splitFits r data"
  shows "Split r data = Inl Panic"
proof -
  let ?per = "perShardOf r data" and ?d = "DataShards r"
  obtain mem n where data: "data = Slice mem n"
    using assms(3) by (cases data) auto
  let ?cap = "length mem"
  have room: "Shards r * ?per \<le> ?cap" "?cap < n + ?d" and n: "n \<le> ?cap" and d: "0 < ?d"
    using assms by (auto simp: splitFits_def data sliceCap_def encInv_def)
  have full: "(if sliceLen data < sliceCap data then reslice data 0 (sliceCap data) else Inr data) =
      Inr (Slice mem ?cap)"
    using n by (auto simp: data sliceCap_def reslice_def)
  have "[n..<n + ?d] = [n..<?cap] @ ?cap # [Suc ?cap..<n + ?d]"
    using n room(2) upt_add_eq_append [of n ?cap "n + ?d - ?cap"] upt_conv_Cons [of ?cap "n + ?d"] by simp
  then have "padData r n ?per (Slice mem ?cap) = Inl Panic"
    using room(1) zeroLoop_Inr [of ?cap ?cap mem n] by (simp add: padData_def fold_result_append)
  then show ?thesis
    using assms(3) d unfolding Split_def Let_def full bind_result_simps by (simp add: data)
qed

lemma Split_panics_witness:
  "\<exists>r. New Amd64 testCpu 2 0 [] = Inr r \<and> Split r (ofBytes [1, 2, 3, 4]) = Inl Panic"
proof -
  obtain r where r: "New Amd64 testCpu (int 2) (int 0) [] = Inr r" "encInv Amd64 r" "DataShards r = 2"
      "ParityShards r = 0"
    by (rule New_Inr [OF cpuOk_testCpu, of "[]" 2 0 Amd64]) auto
  let ?data = "ofBytes [1, 2, 3, 4]"
  have "Shards r = 2"
    using r by (simp add: encInv_def)
  then have "\<not> splitFits r ?data"
    using r(3) by (simp add: splitFits_def perShardOf_def ofBytes_def sliceCap_def)
  then show ?thesis
    using Split_panics [OF r(2), of ?data] r(1) by auto
qed

text \<open>
  The bytes with which \<open>Split\<close> fills up the last shard are those of the spare memory of the data, so
  not zeros where that memory was used before.
\<close>

lemma Split_padding_stale:
  assumes "DataShards r = 2" and "Shards r = 3"
  shows "Split r (Slice [1, 2, 3, 9] 3) = Inr [Slice [1, 2] 2, Slice [3, 9] 2, Slice [0, 0] 2]"
proof -
  have per: "perShardOf r (Slice [1, 2, 3, 9] 3) = 2"
    by (simp add: perShardOf_def assms)
  have "resliceFrom (Slice [1, 2, 3, 9 :: byte] 4) 4 = Inr (Slice [] 0)"
    "reslice (Slice [1, 2, 3, 9 :: byte] 4) 0 4 = Inr (Slice [1, 2, 3, 9] 4)"
    "copySlice (makeSlice 2) (bytesOf (Slice [] 0)) = Slice [0, 0] 2"
    by code_simp+
  then have "padData r 3 2 (Slice [1, 2, 3, 9] 4) = Inr (Slice [1, 2, 3, 9] 4, Slice [0, 0] 2)"
    by (simp add: padData_def assms Let_def)
  moreover have "takeShards 3 2 (Slice [1, 2, 3, 9 :: byte] 4) = Inr [Slice [1, 2] 2, Slice [3, 9] 2]"
    "padShards (3 - length [Slice [1, 2 :: byte] 2, Slice [3, 9] 2]) 2 (Slice [0, 0 :: byte] 2) = Inr [Slice [0, 0] 2]"
    "reslice (Slice [1, 2, 3, 9 :: byte] 3) 0 (sliceCap (Slice [1, 2, 3, 9] 3)) = Inr (Slice [1, 2, 3, 9] 4)"
    "sliceLen (Slice [1, 2, 3, 9] 3) < sliceCap (Slice [1, 2, 3, 9] 3)"
    by code_simp+
  ultimately show ?thesis
    using assms by (simp add: Split_def per del: padShards.simps takeShards.simps sliceCap_simps list.size)
qed

text \<open>C19. Joining what \<open>Split\<close> returned, to the length of the data, writes the data.\<close>

theorem Split_Join:
  assumes "encInv a r" and "sliceWf data" and "0 < sliceLen data" and "splitFits r data"
  shows "\<exists>ss. Split r data = Inr ss \<and>
    Join bufferWrite r w ss (int (sliceLen data)) = (w @ bytesOf data, Inr ())"
proof -
  let ?per = "perShardOf r data" and ?d = "DataShards r"
  have d: "0 < ?d" "?d \<le> Shards r"
    using assms(1) by (simp_all add: encInv_def)
  obtain buf where run: "Split r data = Inr (map (cut ?per buf) [0..<Shards r])"
    and len: "Shards r * ?per \<le> length buf" and start: "take (sliceLen data) buf = bytesOf data"
    using Split_Inr [OF d(1) assms(2-4)] d(2) by metis
  have len': "?d * ?per \<le> length buf"
    using le_trans [OF mult_le_mono1 [OF d(2)] len] .
  let ?ss = "map (cut ?per buf) [0..<Shards r]"
  have eq: "take ?d ?ss = map (cut ?per buf) [0..<?d]"
    using d(2) by (simp add: take_map)
  have "take (sliceLen data) (concat (map bytesOf (take ?d ?ss))) = bytesOf data"
    using concat_cuts [of ?per buf ?d] perShardOf_bounds [OF d(1) assms(3)] start
    by (simp add: eq min_def)
  moreover have "sliceLen data \<le> length (concat (map bytesOf (take ?d ?ss)))"
    using concat_cuts [of ?per buf ?d] perShardOf_bounds [OF d(1) assms(3)] len' by (simp add: eq)
  moreover have "list_all (\<lambda>s. sliceWf s \<and> s \<noteq> NilSlice) (take ?d ?ss)"
    using cuts_ok [OF len'] unfolding eq list_all_iff by blast
  ultimately show ?thesis
    using Join_buffer [of r ?ss "sliceLen data" w] run d(2) by simp
qed

lemma Split_Join_witness:
  "\<exists>r ss. New Amd64 testCpu 2 2 [] = Inr r \<and> Split r (Slice [1, 2, 3, 4, 5, 77] 5) = Inr ss \<and>
    Join bufferWrite r [] ss 5 = ([1, 2, 3, 4, 5], Inr ())"
proof -
  obtain r where r: "New Amd64 testCpu 2 2 [] = Inr r" "encInv Amd64 r" "DataShards r = 2"
      "ParityShards r = 2" "mds_matrix 2 4 (rsMatrix r)"
    by (rule testEncoder)
  let ?data = "Slice [1, 2, 3, 4, 5, 77] 5"
  have "splitFits r ?data"
    using r by (simp add: splitFits_def perShardOf_def sliceCap_def encInv_def)
  then show ?thesis
    using Split_Join [OF r(2), of ?data "[]"] r(1) by (auto simp: bytesOf_def)
qed

text \<open>
  The errors of \<open>Join\<close>: too few shards, data shards that are too short for the wanted size, or
  a data shard that is nil while the ones before it do not suffice.  In each case nothing is
  written.
\<close>

theorem Join_errors:
  "(length ss < DataShards r \<longrightarrow> Join write r w ss outSize = (w, Inl ErrTooFewShards)) \<and>
   (DataShards r \<le> length ss \<and> NilSlice \<notin> set (take (DataShards r) ss) \<and>
      int (sum_list (map sliceLen (take (DataShards r) ss))) < outSize \<longrightarrow>
     Join write r w ss outSize = (w, Inl ErrShortData)) \<and>
   (DataShards r \<le> length ss \<and> take (DataShards r) ss = xs @ NilSlice # ys \<and>
      int (sum_list (map sliceLen xs)) < outSize \<longrightarrow>
     Join write r w ss outSize = (w, Inl ErrReconstructRequired))"
proof (intro conjI impI)
  show "Join write r w ss outSize = (w, Inl ErrTooFewShards)" if "length ss < DataShards r"
    using that by (simp add: Join_def)
  show "Join write r w ss outSize = (w, Inl ErrShortData)"
    if "DataShards r \<le> length ss \<and> NilSlice \<notin> set (take (DataShards r) ss) \<and>
      int (sum_list (map sliceLen (take (DataShards r) ss))) < outSize"
    using that joinSize_total [of "take (DataShards r) ss" 0 outSize] by (fastforce simp: Join_def)
  show "Join write r w ss outSize = (w, Inl ErrReconstructRequired)"
    if "DataShards r \<le> length ss \<and> take (DataShards r) ss = xs @ NilSlice # ys \<and>
      int (sum_list (map sliceLen xs)) < outSize"
    using that joinSize_nil [of 0 xs outSize ys] by (simp add: Join_def)
qed

lemma Join_errors_witness:
  "\<exists>r. New Amd64 testCpu 2 2 [] = Inr r \<and>
    Join bufferWrite r [] [ofBytes [1]] 1 = ([], Inl ErrTooFewShards) \<and>
    Join bufferWrite r [] [ofBytes [1], ofBytes [2]] 3 = ([], Inl ErrShortData) \<and>
    Join bufferWrite r [] [ofBytes [1], NilSlice] 2 = ([], Inl ErrReconstructRequired)"
proof -
  obtain r where r: "New Amd64 testCpu 2 2 [] = Inr r" "encInv Amd64 r" "DataShards r = 2"
      "ParityShards r = 2" "mds_matrix 2 4 (rsMatrix r)"
    by (rule testEncoder)
  note errors = Join_errors [where r = r, unfolded r(3)]
  show ?thesis
    using r(1) errors [of "[ofBytes [1]]" bufferWrite "[]" 1]
      errors [of "[ofBytes [1], ofBytes [2]]" bufferWrite "[]" 3]
      errors [of "[ofBytes [1], NilSlice]" bufferWrite "[]" 2 "[ofBytes [1]]" "[]"]
    by (simp add: ofBytes_def)
qed

end
