(* ===== verification/NodeWorld.thy ===== *)
theory NodeWorld
  imports SplitJoin "HOL-Library.AList" "HOL-Library.List_Lexorder" "HOL-Library.Char_ord"
begin

text \<open>
  What the mobile node of \<open>lib/mobile/node.go\<close> uses of the machine: its storage directory, random
  bytes, the clock, AES-GCM, SHA-256 and JSON, and the helper functions \<open>randomHex\<close>, \<open>uuid\<close>,
  \<open>hash\<close>, \<open>atomic\<close> and \<open>secret\<close>.

  A \<open>world\<close> is the directory \<open>root\<close>, its files and the object directories under \<open>objects\<close>, and the
  state \<open>ent\<close> of whatever decides about random bytes, time and failing calls.  A \<open>platform\<close> has
  the functions that are not code of the repository: each is an argument here, and a property
  names what it needs of them.  A call of the file system fails when \<open>fault\<close> says so.
\<close>

subsection \<open>Computations on a state that can fail\<close>

type_synonym ('s, 'a) io = "'s \<Rightarrow> 'a result \<times> 's"

definition ret :: "'a \<Rightarrow> ('s, 'a) io" where
  "ret x = (\<lambda>s. (Inr x, s))"

definition fail :: "error \<Rightarrow> ('s, 'a) io" where
  "fail e = (\<lambda>s. (Inl e, s))"

definition bindIo :: "('s, 'a) io \<Rightarrow> ('a \<Rightarrow> ('s, 'b) io) \<Rightarrow> ('s, 'b) io" where
  "bindIo m f = (\<lambda>s. case m s of (Inl e, s) \<Rightarrow> (Inl e, s) | (Inr x, s) \<Rightarrow> f x s)"

fun mapIo :: "('a \<Rightarrow> ('s, 'b) io) \<Rightarrow> 'a list \<Rightarrow> ('s, 'b list) io" where
  "mapIo f [] = ret []"
| "mapIo f (x # xs) = bindIo (f x) (\<lambda>y. bindIo (mapIo f xs) (\<lambda>ys. ret (y # ys)))"

lemma io_simps [simp]: "ret x s = (Inr x, s)" "fail e s = (Inl e, s)"
  by (simp_all add: ret_def fail_def)

lemma bindIo_Inr:
  "bindIo m f s = (Inr y, s') \<longleftrightarrow> (\<exists>x s1. m s = (Inr x, s1) \<and> f x s1 = (Inr y, s'))"
  by (auto simp: bindIo_def split: prod.splits sum.splits)

text \<open>What every computation keeps of the state.\<close>

definition keeps :: "('s \<Rightarrow> 's \<Rightarrow> bool) \<Rightarrow> ('s, 'a) io \<Rightarrow> bool" where
  "keeps R m \<longleftrightarrow> (\<forall>s. R s (snd (m s)))"

lemma keeps_bind:
  assumes "keeps R m" and "\<And>x. keeps R (f x)" and "\<And>s s1 s2. R s s1 \<Longrightarrow> R s1 s2 \<Longrightarrow> R s s2"
  shows "keeps R (bindIo m f)"
  using assms unfolding keeps_def bindIo_def by (auto split: prod.splits sum.splits) (metis snd_conv)+

lemma keeps_ret [simp]: "keeps R (ret x) \<longleftrightarrow> (\<forall>s. R s s)" "keeps R (fail e) \<longleftrightarrow> (\<forall>s. R s s)"
  by (simp_all add: keeps_def)

lemma keeps_mapIo:
  assumes "\<And>x. keeps R (f x)" and "\<And>s. R s s" and "\<And>s s1 s2. R s s1 \<Longrightarrow> R s1 s2 \<Longrightarrow> R s s2"
  shows "keeps R (mapIo f xs)"
  using assms by (induction xs) (auto intro!: keeps_bind)

subsection \<open>Strings and bytes\<close>

definition toBytes :: "string \<Rightarrow> byte list" where
  "toBytes s = map (\<lambda>c. word_of_nat (of_char c)) s"

definition toString :: "byte list \<Rightarrow> string" where
  "toString bs = map (\<lambda>b. char_of (unat b)) bs"

definition hexDigit :: "nat \<Rightarrow> char" where
  "hexDigit n = ''0123456789abcdef'' ! n"

text \<open>\<open>hex.EncodeToString\<close>.\<close>

definition hexString :: "byte list \<Rightarrow> string" where
  "hexString bs = concat (map (\<lambda>b. [hexDigit (unat b div 16), hexDigit (unat b mod 16)]) bs)"

text \<open>\<open>fmt.Sprint(i)\<close> on a number that is not negative.\<close>

fun natString :: "nat \<Rightarrow> string" where
  "natString n = (if n < 10 then [hexDigit n] else natString (n div 10) @ [hexDigit (n mod 10)])"

declare natString.simps [simp del]

subsection \<open>The platform and the world\<close>

record chunk =
  chunkNum :: int
  chunkId :: string
  chunkSHA :: string
  chunkSize :: int
  chunkEncrypted :: bool

record fileMeta =
  fileId :: string
  fileName :: string
  fileFolder :: string
  fileToken :: string
  fileSize :: int
  fileCreated :: string
  fileStatus :: string
  fileSHA :: string
  fileData :: int
  fileParity :: int
  fileChunks :: "chunk list"

record 'e platform =
  pArch :: arch
  pCpu :: cpu
  draw :: "'e \<Rightarrow> nat \<Rightarrow> byte list result \<times> 'e"
  fault :: "'e \<Rightarrow> nat option \<times> 'e"
  clock :: "'e \<Rightarrow> string \<times> 'e"
  nonceSize :: nat
  sealWith :: "byte list \<Rightarrow> byte list \<Rightarrow> byte list \<Rightarrow> string \<Rightarrow> byte list"
  openWith :: "byte list \<Rightarrow> byte list \<Rightarrow> byte list \<Rightarrow> string \<Rightarrow> byte list option"
  sha256 :: "byte list \<Rightarrow> byte list"
  marshal :: "fileMeta \<Rightarrow> byte list"
  unmarshal :: "byte list \<Rightarrow> fileMeta option"

type_synonym directory = "(string \<times> byte list) list"

record 'e world =
  rootFiles :: directory
  objects :: "(string \<times> directory) list"
  ent :: 'e

datatype place = InRoot string | InObject string string

fun load :: "place \<Rightarrow> 'e world \<Rightarrow> byte list option" where
  "load (InRoot f) w = map_of (rootFiles w) f"
| "load (InObject obj f) w = Option.bind (map_of (objects w) obj) (\<lambda>dir. map_of dir f)"

text \<open>The effect of a rename: nothing where the directory does not exist.\<close>

fun store :: "place \<Rightarrow> byte list \<Rightarrow> 'e world \<Rightarrow> 'e world" where
  "store (InRoot f) b w = w\<lparr>rootFiles := AList.update f b (rootFiles w)\<rparr>"
| "store (InObject obj f) b w =
     (case map_of (objects w) obj of
        None \<Rightarrow> w
      | Some dir \<Rightarrow> w\<lparr>objects := AList.update obj (AList.update f b dir) (objects w)\<rparr>)"

fun hasDir :: "place \<Rightarrow> 'e world \<Rightarrow> bool" where
  "hasDir (InRoot f) w = True"
| "hasDir (InObject obj f) w = (map_of (objects w) obj \<noteq> None)"

text \<open>A call of the file system that can fail.\<close>

definition sysCall :: "'e platform \<Rightarrow> ('e world, unit) io" where
  "sysCall p w =
     (case fault p (ent w) of
        (None, e) \<Rightarrow> (Inr (), w\<lparr>ent := e\<rparr>)
      | (Some code, e) \<Rightarrow> (Inl (IoFailure code), w\<lparr>ent := e\<rparr>))"

definition randomBytes :: "'e platform \<Rightarrow> nat \<Rightarrow> ('e world, byte list) io" where
  "randomBytes p n w = (case draw p (ent w) n of (res, e) \<Rightarrow> (res, w\<lparr>ent := e\<rparr>))"

definition timeNow :: "'e platform \<Rightarrow> ('e world, string) io" where
  "timeNow p w = (case clock p (ent w) of (t, e) \<Rightarrow> (Inr t, w\<lparr>ent := e\<rparr>))"

text \<open>\<open>os.ReadFile\<close>.\<close>

definition readFile :: "'e platform \<Rightarrow> place \<Rightarrow> ('e world, byte list) io" where
  "readFile p pl = bindIo (sysCall p) (\<lambda>_ w. case load pl w of None \<Rightarrow> (Inl IoNotExist, w) | Some b \<Rightarrow> (Inr b, w))"

subsection \<open>The helpers of \<open>node.go\<close>\<close>

definition randomHex :: "'e platform \<Rightarrow> nat \<Rightarrow> ('e world, string) io" where
  "randomHex p n = bindIo (randomBytes p n) (\<lambda>b. ret (hexString b))"

definition uuidOf :: "byte list \<Rightarrow> string" where
  "uuidOf b =
     (let b = b[6 := (b ! 6 AND 15) OR 64]; b = b[8 := (b ! 8 AND 63) OR 128] in
      hexString (take 4 b) @ ''-'' @ hexString (take 2 (drop 4 b)) @ ''-'' @ hexString (take 2 (drop 6 b)) @
      ''-'' @ hexString (take 2 (drop 8 b)) @ ''-'' @ hexString (drop 10 b))"

definition uuid :: "'e platform \<Rightarrow> ('e world, string) io" where
  "uuid p = bindIo (randomBytes p 16) (\<lambda>b. ret (uuidOf b))"

text \<open>\<open>uuidPattern\<close>: where a hexadecimal digit stands, and where a dash.\<close>

definition uuidShape :: "bool list" where
  "uuidShape = replicate 8 True @ False # replicate 4 True @ False # replicate 4 True @ False #
     replicate 4 True @ False # replicate 12 True"

definition hexChars :: string where
  "hexChars = ''0123456789abcdef''"

definition isUuid :: "string \<Rightarrow> bool" where
  "isUuid s \<longleftrightarrow> list_all2 (\<lambda>hex c. if hex then c \<in> set hexChars else c = CHR ''-'') uuidShape s"

definition hash :: "'e platform \<Rightarrow> byte list \<Rightarrow> string" where
  "hash p b = hexString (sha256 p b)"

text \<open>
  \<open>atomic\<close>: a temporary file is made, written and renamed to \<open>path\<close>, then the directory is synced.
  The file has the new content from the rename on, also where a later call fails.
\<close>

definition writeTemp :: "'e platform \<Rightarrow> ('e world, unit) io" where
  "writeTemp p = bindIo (sysCall p) (\<lambda>_. bindIo (sysCall p) (\<lambda>_. sysCall p))"

definition syncDir :: "'e platform \<Rightarrow> ('e world, unit) io" where
  "syncDir p = bindIo (sysCall p) (\<lambda>_. sysCall p)"

definition atomic :: "'e platform \<Rightarrow> place \<Rightarrow> byte list \<Rightarrow> ('e world, unit) io" where
  "atomic p path b =
     bindIo (\<lambda>w. if hasDir path w then sysCall p w else (Inl IoNotExist, w)) (\<lambda>_ w.
       case writeTemp p w of (err, w) \<Rightarrow>
       case sysCall p w of (closeErr, w) \<Rightarrow>
       (case err of Inl e \<Rightarrow> (Inl e, w)
        | Inr _ \<Rightarrow>
       (case closeErr of Inl e \<Rightarrow> (Inl e, w)
        | Inr _ \<Rightarrow>
          bindIo (sysCall p) (\<lambda>_. bindIo (\<lambda>w. (Inr (), store path b w)) (\<lambda>_. syncDir p)) w)))"

definition secret :: "'e platform \<Rightarrow> string \<Rightarrow> nat \<Rightarrow> ('e world, byte list) io" where
  "secret p path n w =
     (case readFile p (InRoot path) w of
        (Inr b, w) \<Rightarrow>
          if length b \<noteq> n
          then (Inl (NodeError ''invalid existing node key; refusing to replace it''), w)
          else (Inr b, w)
      | (Inl e, w) \<Rightarrow>
          if e \<noteq> IoNotExist then (Inl e, w)
          else bindIo (randomBytes p n) (\<lambda>b. bindIo (atomic p (InRoot path) b) (\<lambda>_. ret b)) w)"

subsection \<open>What the helpers leave\<close>

definition sameFiles :: "'e world \<Rightarrow> 'e world \<Rightarrow> bool" where
  "sameFiles w w' \<longleftrightarrow> rootFiles w' = rootFiles w \<and> objects w' = objects w"

lemma sameFiles_refl [simp]: "sameFiles w w"
  by (simp add: sameFiles_def)

lemma sameFiles_trans: "sameFiles w w1 \<Longrightarrow> sameFiles w1 w2 \<Longrightarrow> sameFiles w w2"
  by (simp add: sameFiles_def)

lemma sameFiles_load: "sameFiles w w' \<Longrightarrow> load pl w' = load pl w" "sameFiles w w' \<Longrightarrow> hasDir pl w' = hasDir pl w"
  by (cases pl; simp add: sameFiles_def)+

lemma sameFiles_ent [simp]: "sameFiles w (w'\<lparr>ent := e\<rparr>) = sameFiles w w'" "sameFiles (w\<lparr>ent := e\<rparr>) w' = sameFiles w w'"
  by (simp_all add: sameFiles_def)

lemma store_same: "sameFiles w w' \<Longrightarrow> sameFiles (store pl b w) (store pl b w')"
  by (cases pl) (auto simp: sameFiles_def split: option.splits)

lemma keeps_same:
  "keeps sameFiles (sysCall p)" "keeps sameFiles (randomBytes p n)" "keeps sameFiles (timeNow p)"
  "keeps sameFiles (uuid p)" "keeps sameFiles (randomHex p n)" "keeps sameFiles (readFile p pl)"
proof -
  show sys: "keeps sameFiles (sysCall p)" and rand: "keeps sameFiles (randomBytes p n)" for n
    by (auto simp: keeps_def sysCall_def randomBytes_def split: prod.splits option.splits)
  show "keeps sameFiles (timeNow p)"
    by (auto simp: keeps_def timeNow_def split: prod.splits)
  show "keeps sameFiles (uuid p)" "keeps sameFiles (randomHex p n)"
    unfolding uuid_def randomHex_def
    by (rule keeps_bind [OF rand _ sameFiles_trans]; simp)+
  show "keeps sameFiles (readFile p pl)"
    unfolding readFile_def
    by (rule keeps_bind [OF sys _ sameFiles_trans]) (auto simp: keeps_def split: option.splits)
qed

lemma keepsD: "keeps R m \<Longrightarrow> m s = (x, s') \<Longrightarrow> R s s'"
  unfolding keeps_def by (metis snd_conv)

lemma keeps_sysCalls: "keeps sameFiles (syncDir p)" "keeps sameFiles (writeTemp p)"
proof -
  have two: "keeps sameFiles (bindIo (sysCall p) (\<lambda>_. sysCall p))"
    by (rule keeps_bind [OF keeps_same(1) keeps_same(1) sameFiles_trans])
  then show "keeps sameFiles (syncDir p)"
    by (simp add: syncDir_def)
  show "keeps sameFiles (writeTemp p)"
    unfolding writeTemp_def by (rule keeps_bind [OF keeps_same(1) two sameFiles_trans])
qed

text \<open>
  \<open>atomic\<close> is all or nothing: the file has its new content or nothing has changed, and without an
  error it has the new content.
\<close>

lemma atomic_cases:
  assumes "atomic p path b w = (res, w')"
  shows "hasDir path w \<and> sameFiles (store path b w) w' \<or> (\<exists>e. res = Inl e) \<and> sameFiles w w'"
proof (cases "hasDir path w")
  case False
  then show ?thesis
    using assms by (auto simp: atomic_def bindIo_def)
next
  case dir: True
  obtain r0 w0 where r0: "sysCall p w = (r0, w0)"
    by (metis surj_pair)
  obtain r1 w1 where r1: "writeTemp p w0 = (r1, w1)"
    by (metis surj_pair)
  obtain r2 w2 where r2: "sysCall p w1 = (r2, w2)"
    by (metis surj_pair)
  obtain r3 w3 where r3: "sysCall p w2 = (r3, w3)"
    by (metis surj_pair)
  obtain r4 w4 where r4: "syncDir p (store path b w3) = (r4, w4)"
    by (metis surj_pair)
  have "sameFiles w0 w1"
    using keeps_sysCalls(2) r1 by (rule keepsD)
  then have same: "sameFiles w w0" "sameFiles w w1" "sameFiles w w2" "sameFiles w w3"
    using keepsD [OF keeps_same(1) r0] keepsD [OF keeps_same(1) r2]
      keepsD [OF keeps_same(1) r3] sameFiles_trans by blast+
  have "sameFiles (store path b w) w4"
    using store_same [OF same(4)] keeps_sysCalls(1) r4 by (blast intro: sameFiles_trans keepsD)
  moreover have "atomic p path b w = (case r0 of Inl e \<Rightarrow> (Inl e, w0) | Inr _ \<Rightarrow>
      (case r1 of Inl e \<Rightarrow> (Inl e, w2) | Inr _ \<Rightarrow> (case r2 of Inl e \<Rightarrow> (Inl e, w2) | Inr _ \<Rightarrow>
      (case r3 of Inl e \<Rightarrow> (Inl e, w3) | Inr _ \<Rightarrow> (r4, w4)))))"
    using dir r0 r1 r2 r3 r4
    by (cases r0; cases r1; cases r2; cases r3) (simp_all add: atomic_def bindIo_def)
  ultimately show ?thesis
    using assms dir same by (cases r0; cases r1; cases r2; cases r3) auto
qed

text \<open>Numbers and hexadecimal strings.\<close>

lemma char_of_byte: "char_of (unat (word_of_nat (of_char c) :: byte)) = c"
  by (simp add: unat_of_nat)

lemma toString_toBytes [simp]: "toString (toBytes s) = s"
  by (simp add: toString_def toBytes_def o_def char_of_byte)

lemma length_hexString [simp]: "length (hexString bs) = 2 * length bs"
  by (induction bs) (simp_all add: hexString_def)

lemma natString_inj:
  assumes "natString i = natString j" and "i < 12" and "j < 12"
  shows "i = j"
proof -
  have "map natString [0..<12] = [''0'', ''1'', ''2'', ''3'', ''4'', ''5'', ''6'', ''7'', ''8'', ''9'', ''10'', ''11'']"
    by code_simp
  moreover have "distinct [''0'', ''1'', ''2'', ''3'', ''4'', ''5'', ''6'', ''7'', ''8'', ''9'', ''10'', ''11'']"
    by simp
  ultimately have "inj_on natString (set [0..<12])"
    by (metis distinct_map)
  then show ?thesis
    using assms by (auto dest: inj_onD)
qed

lemma hexString_chars: "set (hexString bs) \<subseteq> set hexChars"
proof -
  have "hexDigit n \<in> set hexChars" if "n < 16" for n
    unfolding hexDigit_def hexChars_def by (rule nth_mem) (use that in simp)
  moreover have "unat (b :: byte) < 256" for b
    by (rule unat_byte_less)
  ultimately have "set [hexDigit (unat b div 16), hexDigit (unat b mod 16)] \<subseteq> set hexChars" for b :: byte
    by (simp add: less_mult_imp_div_less)
  then show ?thesis
    unfolding hexString_def by (auto simp: subset_iff)
qed

text \<open>What \<open>uuid\<close> makes matches \<open>uuidPattern\<close>.\<close>

lemma uuidOf_isUuid:
  assumes "length b = 16"
  shows "isUuid (uuidOf b)"
proof -
  define b1 where "b1 = b[6 := (b ! 6 AND 15) OR 64, 8 := (b[6 := (b ! 6 AND 15) OR 64] ! 8 AND 63) OR 128]"
  have b1: "uuidOf b = hexString (take 4 b1) @ CHR ''-'' # hexString (take 2 (drop 4 b1)) @ CHR ''-'' #
      hexString (take 2 (drop 6 b1)) @ CHR ''-'' # hexString (take 2 (drop 8 b1)) @ CHR ''-'' # hexString (drop 10 b1)"
    by (simp only: uuidOf_def Let_def b1_def append_Cons append_Nil)
  have len: "length b1 = 16"
    using assms by (simp only: b1_def length_list_update)
  let ?ok = "\<lambda>hex c. if hex then c \<in> set hexChars else c = CHR ''-''"
  have run: "list_all2 ?ok (replicate n True) (hexString x)" if "n = 2 * length x" for n x
    using hexString_chars [of x] that by (auto simp: list_all2_conv_all_nth subset_iff)
  have dash: "list_all2 ?ok (False # s) (CHR ''-'' # t) = list_all2 ?ok s t" for s t
    by simp
  show ?thesis
    unfolding b1 isUuid_def uuidShape_def
    by (intro list_all2_appendI dash [THEN iffD2] run) (simp_all add: len)
qed

lemma isUuid_length: "isUuid s \<Longrightarrow> length s = 36"
  unfolding isUuid_def uuidShape_def by (drule list_all2_lengthD) simp

lemma isUuid_chars: "isUuid s \<Longrightarrow> c \<in> set s \<Longrightarrow> c \<in> set (CHR ''-'' # hexChars)"
  unfolding isUuid_def by (auto simp: list_all2_conv_all_nth in_set_conv_nth split: if_splits)

lemma uuid_isUuid:
  assumes "uuid p w = (Inr u, w')" and "\<And>e n b e'. draw p e n = (Inr b, e') \<Longrightarrow> length b = n"
  shows "isUuid u"
  using assms by (auto simp: uuid_def bindIo_Inr randomBytes_def split: prod.splits intro!: uuidOf_isUuid)

end
