(* ===== verification/Reconstruct.thy ===== *)
theory Reconstruct
  imports Coding
begin

text \<open>
  \<open>Reconstruct\<close> and \<open>ReconstructData\<close> of \<open>reedsolomon/reedsolomon.go\<close>: the missing shards, those of
  length 0, are computed from the first \<open>DataShards\<close> shards that are there.  The inverted matrix
  comes from the cache or goes into it.  The lemmas follow the phases of the code: which rows
  are used, the matrix that decodes them, and the two coding calls.
\<close>

subsection \<open>The phases\<close>

text \<open>
  The loop that fills \<open>subShards\<close>, \<open>validIndices\<close> and \<open>invalidIndices\<close>; \<open>need\<close> is what is left of
  \<open>DataShards - subMatrixRow\<close>.
\<close>

fun subShardsFrom :: "slice list \<Rightarrow> nat \<Rightarrow> nat \<Rightarrow> slice list \<times> nat list \<times> nat list" where
  "subShardsFrom [] matrixRow need = ([], [], [])"
| "subShardsFrom (shard # shards) matrixRow need =
     (if need = 0 then ([], [], [])
      else if sliceLen shard \<noteq> 0 then
        (case subShardsFrom shards (matrixRow + 1) (need - 1) of
           (sub, valid, invalid) \<Rightarrow> (shard # sub, matrixRow # valid, invalid))
      else
        (case subShardsFrom shards (matrixRow + 1) need of
           (sub, valid, invalid) \<Rightarrow> (sub, valid, matrixRow # invalid)))"

text \<open>The matrix that decodes, from the cache or computed and cached.\<close>

definition decodeMatrix :: "reedSolomon \<Rightarrow> nat list \<Rightarrow> nat list \<Rightarrow> (matrix \<times> reedSolomon) result" where
  "decodeMatrix r validIndices invalidIndices =
     bind_result (GetInvertedMatrix (rsTree r) invalidIndices) (\<lambda>cached.
       case cached of
         Some D \<Rightarrow> Inr (D, r)
       | None \<Rightarrow>
           bind_result (Invert (map (\<lambda>v. map (\<lambda>c. rsMatrix r ! v ! c) [0..<DataShards r])
               validIndices)) (\<lambda>D.
           bind_result (InsertInvertedMatrix (rsTree r) invalidIndices D (Shards r)) (\<lambda>t.
             Inr (D, r\<lparr>rsTree := t\<rparr>))))"

text \<open>
  \<open>if cap(shard) >= shardSize { shard[0:shardSize] } else { make([]byte, shardSize) }\<close>, and the
  missing shards of a range.
\<close>

definition prepareShard :: "nat \<Rightarrow> slice \<Rightarrow> slice" where
  "prepareShard sz shard =
     (case shard of
        NilSlice \<Rightarrow> makeSlice sz
      | Slice buf n \<Rightarrow> if sz \<le> length buf then Slice buf sz else makeSlice sz)"

definition missingShards :: "nat \<Rightarrow> nat \<Rightarrow> slice list \<Rightarrow> nat list" where
  "missingShards lo hi shards = filter (\<lambda>i. sliceLen (shards ! i) = 0) [lo..<hi]"

text \<open>
  One coding call of \<open>reconstruct\<close>: the outputs are the prepared shards, which the coding writes
  through.  \<open>rows\<close> is the array \<open>matrixRows\<close>, of which the first rows are used.
\<close>

definition codeMissing :: "arch \<Rightarrow> reedSolomon \<Rightarrow> slice list \<Rightarrow> nat list \<Rightarrow> matrix \<Rightarrow> slice list \<Rightarrow> nat \<Rightarrow>
    (slice list \<times> reedSolomon) result" where
  "codeMissing a r shards missing rows inputs sz =
     bind_result (codeSomeShards a (rsOpts r) (rsPool r) rows inputs
         (map (\<lambda>i. prepareShard sz (shards ! i)) missing) sz) (\<lambda>(outputs, pool).
       Inr (foldl (\<lambda>shards (i, out). shards[i := out]) shards (zip missing outputs),
         r\<lparr>rsPool := pool\<rparr>))"

definition reconstruct :: "arch \<Rightarrow> reedSolomon \<Rightarrow> slice list \<Rightarrow> bool \<Rightarrow>
    (slice list \<times> reedSolomon) result" where
  "reconstruct a r shards dataOnly =
     (if length shards \<noteq> Shards r then Inl ErrTooFewShards
      else
        bind_result (checkShards shards True) (\<lambda>_.
        let d = DataShards r; p = ParityShards r; sz = shardSize shards;
            numberPresent = length (filter (\<lambda>s. sliceLen s \<noteq> 0) shards);
            dataPresent = length (filter (\<lambda>s. sliceLen s \<noteq> 0) (take d shards)) in
        if numberPresent = Shards r \<or> dataOnly \<and> dataPresent = d then Inr (shards, r)
        else if numberPresent < d then Inl ErrTooFewShards
        else
          (case subShardsFrom shards 0 d of (subShards, validIndices, invalidIndices) \<Rightarrow>
          bind_result (decodeMatrix r validIndices invalidIndices) (\<lambda>(dataDecodeMatrix, r).
          let missing = missingShards 0 d shards in
          if p < length missing \<or> list_ex (\<lambda>i. length dataDecodeMatrix \<le> i) missing then Inl Panic
          else
            let rows = map (\<lambda>i. dataDecodeMatrix ! i) missing @ replicate (p - length missing) [] in
            bind_result (codeMissing a r shards missing rows subShards sz) (\<lambda>(shards, r).
            if dataOnly then Inr (shards, r)
            else
              let missing = missingShards d (Shards r) shards in
              codeMissing a r shards missing
                (map (\<lambda>i. rsParity r ! (i - d)) missing @ drop (length missing) rows)
                (take d shards) sz)))))"

definition Reconstruct :: "arch \<Rightarrow> reedSolomon \<Rightarrow> slice list \<Rightarrow> (slice list \<times> reedSolomon) result" where
  "Reconstruct a r shards = reconstruct a r shards False"

definition ReconstructData :: "arch \<Rightarrow> reedSolomon \<Rightarrow> slice list \<Rightarrow>
    (slice list \<times> reedSolomon) result" where
  "ReconstructData a r shards = reconstruct a r shards True"

subsection \<open>Which rows are used\<close>

lemma keyFrom_ge: "keyFrom t b k \<Longrightarrow> i \<in> set k \<Longrightarrow> b \<le> i \<and> i < t"
  by (induction k arbitrary: b) force+

lemma keyFrom_mono: "keyFrom t b k \<Longrightarrow> b' \<le> b \<Longrightarrow> keyFrom t b' k"
  by (cases k) auto

text \<open>What the loop computes from the shards from row \<open>row\<close> on.\<close>

definition rowsChosen :: "slice list \<Rightarrow> nat \<Rightarrow> nat \<Rightarrow> slice list \<Rightarrow> nat list \<Rightarrow> nat list \<Rightarrow> bool" where
  "rowsChosen ss row need sub valid invalid \<longleftrightarrow>
     length valid = need \<and> sub = map (\<lambda>v. ss ! (v - row)) valid \<and>
     (\<forall>v\<in>set valid. row \<le> v \<and> v < row + length ss \<and> sliceLen (ss ! (v - row)) \<noteq> 0) \<and>
     keyFrom (row + length ss) row invalid \<and>
     valid = take need (filter (\<lambda>i. i \<notin> set invalid) [row..<row + length ss])"

lemma rowsChosen_shift:
  assumes "rowsChosen shards (row + 1) need sub valid invalid"
  shows "sub = map (\<lambda>v. (shard # shards) ! (v - row)) valid"
    and "v \<in> set valid \<Longrightarrow> row \<le> v \<and> v < row + length (shard # shards) \<and>
      sliceLen ((shard # shards) ! (v - row)) \<noteq> 0"
    and "row \<notin> set invalid" and "keyFrom (row + length (shard # shards)) (row + 1) invalid"
proof -
  have mem: "row + 1 \<le> v \<and> v < row + 1 + length shards \<and> sliceLen (shards ! (v - (row + 1))) \<noteq> 0"
    if "v \<in> set valid" for v
    using assms that unfolding rowsChosen_def by blast
  have nth: "(shard # shards) ! (v - row) = shards ! (v - (row + 1))" if "row + 1 \<le> v" for v
    using that by (simp add: nth_Cons')
  have "sub = map (\<lambda>v. shards ! (v - (row + 1))) valid"
    using assms unfolding rowsChosen_def by blast
  also have "\<dots> = map (\<lambda>v. (shard # shards) ! (v - row)) valid"
    using mem nth by (intro map_cong refl) metis
  finally show "sub = map (\<lambda>v. (shard # shards) ! (v - row)) valid" .
  show "row \<le> v \<and> v < row + length (shard # shards) \<and> sliceLen ((shard # shards) ! (v - row)) \<noteq> 0"
    if "v \<in> set valid"
    using mem [OF that] nth [of v] by auto
  have key: "keyFrom (row + 1 + length shards) (row + 1) invalid"
    using assms unfolding rowsChosen_def by blast
  then show "keyFrom (row + length (shard # shards)) (row + 1) invalid"
    by (simp add: add.assoc)
  show "row \<notin> set invalid"
    using keyFrom_ge [OF key, of row] by auto
qed

lemma rowsChosen_present:
  assumes "rowsChosen shards (row + 1) (need - 1) sub valid invalid" and "0 < need"
    and "sliceLen shard \<noteq> 0"
  shows "rowsChosen (shard # shards) row need (shard # sub) (row # valid) invalid"
proof -
  note shift = rowsChosen_shift [OF assms(1)]
  have rows: "[row..<row + length (shard # shards)] = row # [row + 1..<row + 1 + length shards]"
    by (subst upt_rec) simp
  have "valid = take (need - 1) (filter (\<lambda>i. i \<notin> set invalid) [row + 1..<row + 1 + length shards])"
    and len: "length valid = need - 1"
    using assms(1) unfolding rowsChosen_def by blast+
  then have "row # valid = take need (filter (\<lambda>i. i \<notin> set invalid) [row..<row + length (shard # shards)])"
    unfolding rows using shift(3) assms(2) by (cases need) simp_all
  moreover have "keyFrom (row + length (shard # shards)) row invalid"
    using shift(4) keyFrom_mono by (metis le_add1)
  moreover have "shard # sub = map (\<lambda>v. (shard # shards) ! (v - row)) (row # valid)"
    using shift(1) [of shard] by simp
  moreover have "row \<le> v \<and> v < row + length (shard # shards) \<and>
      sliceLen ((shard # shards) ! (v - row)) \<noteq> 0" if "v \<in> set (row # valid)" for v
    using that shift(2) [of v shard] assms(3) by (cases "v = row") auto
  moreover have "length (row # valid) = need"
    using len assms(2) by simp
  ultimately show ?thesis
    unfolding rowsChosen_def by blast
qed

lemma rowsChosen_missing:
  assumes "rowsChosen shards (row + 1) need sub valid invalid"
  shows "rowsChosen (shard # shards) row need sub valid (row # invalid)"
proof -
  note shift = rowsChosen_shift [OF assms(1)]
  have rows: "[row..<row + length (shard # shards)] = row # [row + 1..<row + 1 + length shards]"
    by (subst upt_rec) simp
  have "filter (\<lambda>i. i \<notin> set (row # invalid)) [row..<row + length (shard # shards)] =
      filter (\<lambda>i. i \<notin> set invalid) [row + 1..<row + 1 + length shards]"
    unfolding rows by (auto intro!: filter_cong)
  moreover have "valid = take need (filter (\<lambda>i. i \<notin> set invalid) [row + 1..<row + 1 + length shards])"
    and len: "length valid = need"
    using assms(1) unfolding rowsChosen_def by blast+
  ultimately have "valid = take need (filter (\<lambda>i. i \<notin> set (row # invalid)) [row..<row + length (shard # shards)])"
    by simp
  moreover have "keyFrom (row + length (shard # shards)) row (row # invalid)"
    using shift(4) by simp
  ultimately show ?thesis
    unfolding rowsChosen_def using shift(1,2) len by blast
qed

lemma subShardsFrom_rows:
  assumes "subShardsFrom ss row need = (sub, valid, invalid)"
    and "need \<le> length (filter (\<lambda>s. sliceLen s \<noteq> 0) ss)"
  shows "rowsChosen ss row need sub valid invalid"
  using assms
proof (induction ss row need arbitrary: sub valid invalid rule: subShardsFrom.induct)
  case (2 shard shards row need)
  show ?case
  proof (cases "need = 0")
    case need: False
    show ?thesis
    proof (cases "sliceLen shard \<noteq> 0")
      case True
      obtain sub' valid' where rest: "subShardsFrom shards (row + 1) (need - 1) = (sub', valid', invalid)"
        and eqs: "sub = shard # sub'" "valid = row # valid'"
        using 2(3) need True by (auto split: prod.splits)
      have "rowsChosen shards (row + 1) (need - 1) sub' valid' invalid"
        using 2(4) True by (intro 2(1) [OF need True rest]) auto
      then show ?thesis
        unfolding eqs using need True by (intro rowsChosen_present) simp_all
    next
      case False
      obtain inv' where rest: "subShardsFrom shards (row + 1) need = (sub, valid, inv')"
        and eqs: "invalid = row # inv'"
        using 2(3) need False by (auto split: prod.splits)
      have "rowsChosen shards (row + 1) need sub valid inv'"
        using 2(4) False by (intro 2(2) [OF need False rest]) auto
      then show ?thesis
        unfolding eqs by (rule rowsChosen_missing)
    qed
  qed (use 2(3) in \<open>simp add: rowsChosen_def\<close>)
qed (simp add: rowsChosen_def)

subsection \<open>The decoding matrix\<close>

lemma validRows_chosen:
  "rowsChosen ss 0 d sub valid invalid \<Longrightarrow> validRows d (length ss) invalid = valid"
  unfolding rowsChosen_def validRows_def add_0 by (elim conjE) (erule sym)

lemma lin_rows:
  "i < length rows \<Longrightarrow> lin (map (\<lambda>v. map (\<lambda>c. m ! v ! c) [0..<d]) rows) d x i = lin m d x (rows ! i)"
  by (simp add: lin_def)

lemma Invert_decodes:
  assumes rows: "length (validRows d t k) = d" and d: "0 < d"
    and D: "Invert (map (\<lambda>v. map (\<lambda>c. m ! v ! c) [0..<d]) (validRows d t k)) = Inr D"
  shows "decodes d t m k D" and "IsSquare D = Inr True"
proof -
  let ?s = "map (\<lambda>v. map (\<lambda>c. m ! v ! c) [0..<d]) (validRows d t k)"
  have wf: "mat_wf d d ?s"
    using rows by (auto simp: mat_wf_def)
  note inv = Invert_InrD [OF wf d D]
  have "lin D d (\<lambda>i. lin m d x (validRows d t k ! i)) c = x c" if "c < d" for x c
  proof -
    have "lin D d (lin ?s d x) c = x c"
      using inv(2) [of x "lin ?s d x"] that by blast
    moreover have "lin D d (lin ?s d x) c = lin D d (\<lambda>i. lin m d x (validRows d t k ! i)) c"
      using rows by (intro lin_cong lin_rows) simp
    ultimately show ?thesis
      by simp
  qed
  then show "decodes d t m k D"
    using inv(1) by (simp add: decodes_def)
  show "IsSquare D = Inr True"
    using mat_wf_length [OF inv(1)] mat_wf_row [OF inv(1) d] d by (auto simp: IsSquare_def)
qed

lemma decodeMatrix_cases:
  assumes inv: "encInv a r" and p: "0 < ParityShards r"
    and rows: "validRows (DataShards r) (Shards r) k = valid" "length valid = DataShards r"
    and k: "keyFrom (Shards r) 0 k"
  shows "case decodeMatrix r valid k of
      Inl e \<Rightarrow> e = ErrSingular \<and> \<not> mds_matrix (DataShards r) (Shards r) (rsMatrix r)
    | Inr (D, r') \<Rightarrow> decodes (DataShards r) (Shards r) (rsMatrix r) k D \<and> encInv a r' \<and>
        (\<exists>t. r' = r\<lparr>rsTree := t\<rparr>)"
proof -
  let ?d = "DataShards r" and ?t = "Shards r" and ?m = "rsMatrix r"
  let ?s = "map (\<lambda>v. map (\<lambda>c. ?m ! v ! c) [0..<?d]) valid"
  have d: "0 < ?d" and tree: "treeOk ?d ?t ?m (rsTree r)"
    using inv p by (auto simp: encInv_def)
  then have shape: "treeInv ?t (rsTree r)"
    and root: "rsTree r \<noteq> None \<Longrightarrow> \<exists>D. GetInvertedMatrix (rsTree r) [] = Inr (Some D)"
    and entries: "\<And>k D. keyFrom ?t 0 k \<Longrightarrow> GetInvertedMatrix (rsTree r) k = Inr (Some D) \<Longrightarrow>
      decodes ?d ?t ?m k D"
    by (auto simp: treeOk_def)
  obtain cached where cached: "GetInvertedMatrix (rsTree r) k = Inr cached"
    using cache.look_Inr [OF shape k] by blast
  show ?thesis
  proof (cases cached)
    case (Some D)
    have "\<exists>t. r = r\<lparr>rsTree := t\<rparr>"
      by (rule exI [of _ "rsTree r"]) simp
    moreover have "decodeMatrix r valid k = Inr (D, r)"
      using cached Some by (simp add: decodeMatrix_def)
    ultimately show ?thesis
      using entries [OF k] cached Some inv by simp
  next
    case None
    show ?thesis
    proof (cases "Invert ?s")
      case (Inl e)
      have "mat_wf ?d ?d ?s"
        using rows(2) by (auto simp: mat_wf_def)
      then have "e = ErrSingular"
        using Invert_cases [of ?d ?s] d Inl by simp
      moreover have "\<not> mds_matrix ?d ?t ?m"
      proof
        assume mds: "mds_matrix ?d ?t ?m"
        have "distinct valid" "\<And>v. v \<in> set valid \<Longrightarrow> v < ?t"
          using rows(1) by (auto simp: validRows_def dest: in_set_takeD)
        then show False
          using mds_rows_invertible [OF mds d rows(2)] Inl by (metis sum.distinct(1))
      qed
      ultimately show ?thesis
        using cached None Inl by (simp add: decodeMatrix_def)
    next
      case (Inr D)
      have dec: "decodes ?d ?t ?m k D" and square: "IsSquare D = Inr True"
        using Invert_decodes [of ?d ?t k ?m D] rows d Inr by auto
      obtain t where t: "InsertInvertedMatrix (rsTree r) k D ?t = Inr t" "treeOk ?d ?t ?m t"
      proof (cases "rsTree r = None")
        case True
        then show ?thesis
          using that tree by (simp add: InsertInvertedMatrix_def)
      next
        case False
        then have ne: "k \<noteq> []"
          using root cached None by auto
        have ok: "rsTree r \<noteq> None \<and> treeInv ?t (rsTree r)"
          using False shape by blast
        obtain t where t: "InsertInvertedMatrix (rsTree r) k D ?t = Inr t" "t \<noteq> None \<and> treeInv ?t t"
          using tree.store_Inr [OF ok k ne square] by blast
        note look = tree.look_store_exact [OF ok k ne square t(1)]
        have "GetInvertedMatrix t [] = GetInvertedMatrix (rsTree r) []"
          using look [of "[]"] ne by simp
        moreover have "decodes ?d ?t ?m k' D'"
          if "keyFrom ?t 0 k'" "GetInvertedMatrix t k' = Inr (Some D')" for k' D'
          by (rule cache.store_entries [OF shape k t(1), where P = "decodes ?d ?t ?m"])
            (use entries dec that in auto)
        ultimately show ?thesis
          using that [OF t(1)] t(2) root [OF False] by (auto simp: treeOk_def)
      qed
      have "encInv a (r\<lparr>rsTree := t\<rparr>)"
        using inv t(2) by (auto simp: encInv_def poolInv_def)
      then show ?thesis
        using cached None Inr t(1) dec by (auto simp: decodeMatrix_def)
    qed
  qed
qed

subsection \<open>A coding call\<close>

lemma prepareShard_ok: "sliceWf (prepareShard sz s) \<and> sliceLen (prepareShard sz s) = sz"
  by (cases s) (auto simp: prepareShard_def)

lemma prepareShard_cap: "sliceCap s \<le> sliceCap (prepareShard sz s)"
  by (cases s) (simp_all add: prepareShard_def makeSlice_def sliceCap_def)

lemma foldl_store_all:
  assumes "distinct missing" and "length outs = length missing"
    and "\<And>i. i \<in> set missing \<Longrightarrow> i < length ss"
  shows "length (foldl (\<lambda>ss (i, out). ss[i := out]) ss (zip missing outs)) = length ss \<and>
    (\<forall>j. j \<notin> set missing \<longrightarrow> foldl (\<lambda>ss (i, out). ss[i := out]) ss (zip missing outs) ! j = ss ! j) \<and>
    (\<forall>k<length missing.
      foldl (\<lambda>ss (i, out). ss[i := out]) ss (zip missing outs) ! (missing ! k) = outs ! k)"
  using assms
proof (induction missing arbitrary: ss outs)
  case (Cons i missing)
  obtain out outs' where outs: "outs = out # outs'" "length outs' = length missing"
    using Cons.prems by (cases outs) auto
  have "i \<notin> set missing" "i < length ss"
    using Cons.prems by auto
  moreover note Cons.IH [of outs' "ss[i := out]"]
  ultimately show ?case
    using outs Cons.prems by (auto simp: nth_Cons split: nat.split)
qed simp

lemmas foldl_store = foldl_store_all [THEN conjunct1]
  foldl_store_all [THEN conjunct2, THEN conjunct1, rule_format]
  foldl_store_all [THEN conjunct2, THEN conjunct2, rule_format]

lemma codeMissing_Inr:
  assumes inv: "encInv a r" and sz: "0 < sz"
    and ins: "length ins = DataShards r" "\<And>s. s \<in> set ins \<Longrightarrow> sliceWf s \<and> sliceLen s = sz"
    and missing: "distinct missing" "\<And>i. i \<in> set missing \<Longrightarrow> i < length ss"
      "length missing \<le> ParityShards r"
    and rows: "length missing \<le> length rows" "\<And>k. k < length missing \<Longrightarrow> length (rows ! k) = DataShards r"
  obtains ss' r' where "codeMissing a r ss missing rows ins sz = Inr (ss', r')"
    and "poolSafe a r \<Longrightarrow> encInv a r'" and "\<exists>pool. r' = r\<lparr>rsPool := pool\<rparr>" and "length ss' = length ss"
    and "\<And>j. j \<notin> set missing \<Longrightarrow> ss' ! j = ss ! j"
    and "\<And>k. k < length missing \<Longrightarrow> sliceWf (ss' ! (missing ! k)) \<and> sliceLen (ss' ! (missing ! k)) = sz \<and>
      (\<forall>q < sz. bytesOf (ss' ! (missing ! k)) ! q =
        dotRow (DataShards r) (\<lambda>c. rows ! k ! c) (\<lambda>c. bytesOf (ins ! c) ! q))"
    and "\<And>j. j < length ss \<Longrightarrow> sliceCap (ss ! j) \<le> sliceCap (ss' ! j)"
proof -
  define outs where "outs = map (\<lambda>i. prepareShard sz (ss ! i)) missing"
  have outs: "sliceWf s \<and> sliceLen s = sz" if "s \<in> set outs" for s
    using that prepareShard_ok by (auto simp: outs_def)
  have "ins \<noteq> []"
    using ins(1) inv by (auto simp: encInv_def)
  then have shape: "codeShape rows ins outs sz"
    using sz ins rows outs by (simp add: codeShape_def outs_def)
  have "length outs \<le> ParityShards r"
    using missing(3) by (simp add: outs_def)
  then obtain pool where run: "codeSomeShards a (rsOpts r) (rsPool r) rows ins outs sz =
      Inr (codeSpec rows ins outs sz, pool)" and inv': "poolSafe a r \<Longrightarrow> encInv a (r\<lparr>rsPool := pool\<rparr>)"
    using codeSomeShards_enc [OF inv shape ins(1)] by metis
  let ?outs = "codeSpec rows ins outs sz"
  define ss' where "ss' = foldl (\<lambda>ss (i, out). ss[i := out]) ss (zip missing ?outs)"
  have len: "length ?outs = length missing"
    by (simp add: codeSpec_def outs_def)
  note store = foldl_store [OF missing(1) len missing(2)]
  have "sliceWf (ss' ! (missing ! k)) \<and> sliceLen (ss' ! (missing ! k)) = sz \<and>
      (\<forall>q < sz. bytesOf (ss' ! (missing ! k)) ! q =
        dotRow (DataShards r) (\<lambda>c. rows ! k ! c) (\<lambda>c. bytesOf (ins ! c) ! q))"
    if k: "k < length missing" for k
  proof -
    have eq: "ss' ! (missing ! k) = ?outs ! k"
      unfolding ss'_def using store(3) k by blast
    have "?outs ! k \<in> set ?outs"
      using k len by (metis nth_mem)
    then have "sliceWf (?outs ! k) \<and> sliceLen (?outs ! k) = sz"
      by (rule sameShape_set [OF sameShape_codeSpec, rotated]) (rule outs)
    moreover have "bytesOf (?outs ! k) ! q =
        dotRow (DataShards r) (\<lambda>c. rows ! k ! c) (\<lambda>c. bytesOf (ins ! c) ! q)" if "q < sz" for q
      using bytesOf_codeSpec [OF shape _ that, of k] k by (simp add: outs_def ins(1))
    ultimately show ?thesis
      unfolding eq by blast
  qed
  moreover have "sliceCap (ss ! j) \<le> sliceCap (ss' ! j)" if j: "j < length ss" for j
  proof (cases "j \<in> set missing")
    case True
    then obtain k where k: "k < length missing" "missing ! k = j"
      by (auto simp: in_set_conv_nth)
    have "ss' ! j = ?outs ! k"
      unfolding ss'_def using store(3) [of k] k by blast
    moreover have "sliceCap (?outs ! k) = sliceCap (outs ! k)"
      using sameShape_codeSpec [of outs rows ins sz] k(1) by (simp add: sameShape_def outs_def)
    ultimately show ?thesis
      using k by (simp add: outs_def prepareShard_cap)
  next
    case False
    then show ?thesis
      unfolding ss'_def using store(2) [of j] by simp
  qed
  moreover have "codeMissing a r ss missing rows ins sz = Inr (ss', r\<lparr>rsPool := pool\<rparr>)"
    using run by (simp add: codeMissing_def outs_def ss'_def)
  ultimately show ?thesis
    using that [of ss' "r\<lparr>rsPool := pool\<rparr>"] inv' store(1,2) unfolding ss'_def by blast
qed

subsection \<open>Counting\<close>

lemma filter_nth: "filter P xs = map (\<lambda>i. xs ! i) (filter (\<lambda>i. P (xs ! i)) [0..<length xs])"
proof -
  have "filter P xs = filter P (map (\<lambda>i. xs ! i) [0..<length xs])"
    by (simp only: map_nth)
  then show ?thesis
    by (simp only: filter_map o_def)
qed

lemma missing_le:
  assumes "lo \<le> hi" and "hi \<le> length ss"
  shows "length (missingShards lo hi ss) + length (filter (\<lambda>s. sliceLen s \<noteq> 0) ss) \<le> length ss"
proof -
  have "[0..<length ss] = [0..<lo] @ [lo..<hi] @ [hi..<length ss]"
    using assms by (metis le_add_diff_inverse upt_add_eq_append zero_le append_assoc le_trans)
  then have "length (missingShards lo hi ss) \<le>
      length (filter (\<lambda>i. sliceLen (ss ! i) = 0) [0..<length ss])"
    by (simp add: missingShards_def)
  also have "\<dots> = length (filter (\<lambda>s. sliceLen s = 0) ss)"
    by (subst (2) filter_nth) simp
  finally show ?thesis
    using sum_length_filter_compl [of "\<lambda>s. sliceLen s \<noteq> 0" ss] by simp
qed

lemma all_present: "length (filter P xs) = length xs \<Longrightarrow> x \<in> set xs \<Longrightarrow> P x"
  by (metis filter_True length_filter_less less_irrefl)

lemma missingShards_simps:
  "distinct (missingShards lo hi ss)"
  "i \<in> set (missingShards lo hi ss) \<longleftrightarrow> lo \<le> i \<and> i < hi \<and> sliceLen (ss ! i) = 0"
  by (auto simp: missingShards_def)

subsection \<open>The whole reconstruction\<close>

text \<open>\<open>recovers orig s i\<close>: shard \<open>s\<close> holds the bytes of shard \<open>i\<close> of the original.\<close>

definition recovers :: "nat \<Rightarrow> slice list \<Rightarrow> slice \<Rightarrow> nat \<Rightarrow> bool" where
  "recovers sz orig s i \<longleftrightarrow> sliceWf s \<and> sliceLen s = sz \<and> bytesOf s = bytesOf (orig ! i)"

text \<open>What is left of shards after some of them were lost, those now of length 0.\<close>

definition erasedFrom :: "slice list \<Rightarrow> slice list \<Rightarrow> bool" where
  "erasedFrom orig ss \<longleftrightarrow> length ss = length orig \<and>
     (\<forall>i<length orig. ss ! i = orig ! i \<or> sliceLen (ss ! i) = 0)"

definition numPresent :: "slice list \<Rightarrow> nat" where
  "numPresent ss = length (filter (\<lambda>s. sliceLen s \<noteq> 0) ss)"

lemma erased_recovers:
  assumes "shardsOk r sz orig" and "erasedFrom orig ss" and "i < Shards r" and "sliceLen (ss ! i) \<noteq> 0"
  shows "ss ! i = orig ! i" and "recovers sz orig (ss ! i) i"
proof -
  have "orig ! i \<in> set orig"
    using assms(1,3) by (simp add: shardsOk_def)
  then show "ss ! i = orig ! i" "recovers sz orig (ss ! i) i"
    using assms by (auto simp: erasedFrom_def recovers_def shardsOk_def)
qed

lemma codeword_lin:
  assumes inv: "encInv a r" and p: "0 < ParityShards r" and cons: "consistent r sz orig"
    and i: "i < Shards r" and q: "q < sz"
  shows "lin (rsMatrix r) (DataShards r) (\<lambda>c. GF (bytesOf (orig ! c) ! q)) i = GF (bytesOf (orig ! i) ! q)"
proof (cases "i < DataShards r")
  case True
  then show ?thesis
    using inv p systematic_top by (auto simp: encInv_def)
next
  case False
  define j where "j = i - DataShards r"
  have j: "i = DataShards r + j" "j < ParityShards r"
    using False i inv by (auto simp: j_def encInv_def)
  have "bytesOf (orig ! i) ! q =
      dotRow (DataShards r) (\<lambda>c. rsParity r ! j ! c) (\<lambda>c. bytesOf (orig ! c) ! q)"
    using cons j q by (simp add: consistent_def)
  then show ?thesis
    using rsParity_row(1) [OF inv j(2)] by (simp add: GF_dotRow lin_def j(1))
qed

lemma decoded_byte:
  assumes inv: "encInv a r" and p: "0 < ParityShards r" and cons: "consistent r sz orig"
    and dec: "decodes (DataShards r) (Shards r) (rsMatrix r) k D"
    and rows: "validRows (DataShards r) (Shards r) k = valid" "\<And>v. v \<in> set valid \<Longrightarrow> v < Shards r"
      "length valid = DataShards r"
    and i: "i < DataShards r" and q: "q < sz"
  shows "dotRow (DataShards r) (\<lambda>c. D ! i ! c) (\<lambda>c. bytesOf (orig ! (valid ! c)) ! q) =
    bytesOf (orig ! i) ! q"
proof -
  let ?d = "DataShards r" and ?x = "\<lambda>c. GF (bytesOf (orig ! c) ! q)"
  have "GF (dotRow ?d (\<lambda>c. D ! i ! c) (\<lambda>c. bytesOf (orig ! (valid ! c)) ! q)) =
      lin D ?d (\<lambda>c. ?x (valid ! c)) i"
    by (simp add: GF_dotRow lin_def)
  also have "\<dots> = lin D ?d (\<lambda>j. lin (rsMatrix r) ?d ?x (valid ! j)) i"
    using codeword_lin [OF inv p cons _ q] rows(2,3) by (intro lin_cong) simp
  also have "\<dots> = ?x i"
    using dec i rows(1) by (simp add: decodes_def)
  finally show ?thesis
    by simp
qed

lemma dataStage:
  assumes inv: "encInv a r" and p: "0 < ParityShards r"
    and orig: "shardsOk r sz orig" and cons: "consistent r sz orig" and erased: "erasedFrom orig ss"
    and enough: "DataShards r \<le> numPresent ss"
    and chosen: "rowsChosen ss 0 (DataShards r) sub valid invalid"
    and dec: "decodes (DataShards r) (Shards r) (rsMatrix r) invalid D"
  obtains ss' r' where "codeMissing a r ss (missingShards 0 (DataShards r) ss)
      (map (\<lambda>i. D ! i) (missingShards 0 (DataShards r) ss) @ rest) sub sz = Inr (ss', r')"
    and "poolSafe a r \<Longrightarrow> encInv a r'" and "\<exists>pool. r' = r\<lparr>rsPool := pool\<rparr>" and "length ss' = Shards r"
    and "\<And>i. i < DataShards r \<Longrightarrow> recovers sz orig (ss' ! i) i"
    and "\<And>i. DataShards r \<le> i \<Longrightarrow> ss' ! i = ss ! i"
    and "\<And>j. j < Shards r \<Longrightarrow> sliceCap (ss ! j) \<le> sliceCap (ss' ! j)"
proof -
  let ?d = "DataShards r"
  let ?missing = "missingShards 0 ?d ss"
  let ?rows = "map (\<lambda>i. D ! i) ?missing @ rest"
  have sz: "0 < sz" and len: "length ss = Shards r" and t: "Shards r = ?d + ParityShards r"
    using orig erased inv by (auto simp: shardsOk_def erasedFrom_def encInv_def)
  have valid: "length valid = ?d" "\<And>v. v \<in> set valid \<Longrightarrow> v < Shards r \<and> sliceLen (ss ! v) \<noteq> 0"
    and sub: "sub = map (\<lambda>v. ss ! v) valid"
    using chosen unfolding rowsChosen_def len add_0 diff_zero by blast+
  have D: "length D = ?d" "\<And>i. i < ?d \<Longrightarrow> length (D ! i) = ?d"
    using dec by (auto simp: decodes_def shape_simps)
  have in_sub: "recovers sz orig (sub ! c) (valid ! c)" "sub ! c = orig ! (valid ! c)" if "c < ?d" for c
    using erased_recovers [OF orig erased] valid that by (auto simp: sub)
  obtain ss' r' where run: "codeMissing a r ss ?missing ?rows sub sz = Inr (ss', r')"
    and inv': "poolSafe a r \<Longrightarrow> encInv a r'" "\<exists>pool. r' = r\<lparr>rsPool := pool\<rparr>" and len': "length ss' = length ss"
    and keep: "\<And>j. j \<notin> set ?missing \<Longrightarrow> ss' ! j = ss ! j"
    and new: "\<And>k. k < length ?missing \<Longrightarrow>
      sliceWf (ss' ! (?missing ! k)) \<and> sliceLen (ss' ! (?missing ! k)) = sz \<and>
      (\<forall>q < sz. bytesOf (ss' ! (?missing ! k)) ! q =
        dotRow ?d (\<lambda>c. ?rows ! k ! c) (\<lambda>c. bytesOf (sub ! c) ! q))"
    and cap: "\<And>j. j < length ss \<Longrightarrow> sliceCap (ss ! j) \<le> sliceCap (ss' ! j)"
  proof (rule codeMissing_Inr [OF inv sz, of sub ?missing ss ?rows])
    show "length sub = ?d" "length ?missing \<le> length ?rows"
      using valid(1) by (simp_all add: sub)
    show "sliceWf s \<and> sliceLen s = sz" if "s \<in> set sub" for s
      using that in_sub(1) valid(1) by (auto simp: recovers_def in_set_conv_nth sub)
    show "length ?missing \<le> ParityShards r"
      using missing_le [of 0 ?d ss] enough len t by (simp add: numPresent_def)
    show "i < length ss" if "i \<in> set ?missing" for i
      using that len t by (simp add: missingShards_simps)
    show "length (?rows ! k) = ?d" if "k < length ?missing" for k
      using that D(2) nth_mem [OF that] by (simp add: nth_append missingShards_simps)
  qed (rule missingShards_simps, blast)
  have "recovers sz orig (ss' ! i) i" if i: "i < ?d" for i
  proof (cases "sliceLen (ss ! i) = 0")
    case False
    then show ?thesis
      using keep [of i] erased_recovers(2) [OF orig erased] i t by (simp add: missingShards_simps)
  next
    case True
    then obtain k where k: "k < length ?missing" "?missing ! k = i"
      using i missingShards_simps(2) [of i 0 ?d ss] by (auto simp: in_set_conv_nth)
    have "bytesOf (ss' ! i) ! q = bytesOf (orig ! i) ! q" if q: "q < sz" for q
    proof -
      have "bytesOf (ss' ! i) ! q = dotRow ?d (\<lambda>c. D ! i ! c) (\<lambda>c. bytesOf (sub ! c) ! q)"
        using new [OF k(1)] k q by (simp add: nth_append)
      also have "\<dots> = dotRow ?d (\<lambda>c. D ! i ! c) (\<lambda>c. bytesOf (orig ! (valid ! c)) ! q)"
        unfolding dotRow_def using in_sub(2) by (intro foldl_cong) simp_all
      also have "\<dots> = bytesOf (orig ! i) ! q"
        using validRows_chosen [OF chosen] len valid(2) by (intro decoded_byte
            [OF inv p cons dec _ _ valid(1) i q]) auto
      finally show ?thesis .
    qed
    moreover have "sliceWf (ss' ! i) \<and> sliceLen (ss' ! i) = sz"
      using new [OF k(1)] k(2) by simp
    moreover have "orig ! i \<in> set orig"
      using orig i t by (simp add: shardsOk_def)
    ultimately show ?thesis
      using orig bytesOf_eq_iff [of "ss' ! i" sz "orig ! i"] by (auto simp: recovers_def shardsOk_def)
  qed
  moreover have "ss' ! i = ss ! i" if "?d \<le> i" for i
    using keep [of i] that by (simp add: missingShards_simps)
  ultimately show ?thesis
    using that run inv' len' len cap by simp
qed

lemma parityStage:
  assumes inv: "encInv a r" and safe: "poolSafe a r"
    and orig: "shardsOk r sz orig" and cons: "consistent r sz orig" and len: "length ss = Shards r"
    and data: "\<And>i. i < DataShards r \<Longrightarrow> recovers sz orig (ss ! i) i"
    and parity: "\<And>i. DataShards r \<le> i \<Longrightarrow> i < Shards r \<Longrightarrow> sliceLen (ss ! i) \<noteq> 0 \<Longrightarrow>
      recovers sz orig (ss ! i) i"
  obtains ss' r' where "codeMissing a r ss (missingShards (DataShards r) (Shards r) ss)
      (map (\<lambda>i. rsParity r ! (i - DataShards r)) (missingShards (DataShards r) (Shards r) ss) @ rest)
      (take (DataShards r) ss) sz = Inr (ss', r')"
    and "encInv a r'" and "\<exists>pool. r' = r\<lparr>rsPool := pool\<rparr>" and "length ss' = Shards r"
    and "\<And>i. i < Shards r \<Longrightarrow> recovers sz orig (ss' ! i) i"
    and "\<And>i. i < Shards r \<Longrightarrow> sliceLen (ss ! i) \<noteq> 0 \<Longrightarrow> ss' ! i = ss ! i"
    and "\<And>j. j < Shards r \<Longrightarrow> sliceCap (ss ! j) \<le> sliceCap (ss' ! j)"
proof -
  let ?d = "DataShards r"
  let ?missing = "missingShards ?d (Shards r) ss" and ?ins = "take ?d ss"
  let ?rows = "map (\<lambda>i. rsParity r ! (i - ?d)) ?missing @ rest"
  have sz: "0 < sz" and t: "Shards r = ?d + ParityShards r"
    using orig inv by (auto simp: shardsOk_def encInv_def)
  have row: "?rows ! k = rsParity r ! (?missing ! k - ?d)" "?d \<le> ?missing ! k" "?missing ! k < Shards r"
    if "k < length ?missing" for k
    using that nth_mem [OF that] by (simp_all add: nth_append missingShards_simps)
  obtain ss' r' where run: "codeMissing a r ss ?missing ?rows ?ins sz = Inr (ss', r')"
    and inv': "poolSafe a r \<Longrightarrow> encInv a r'" "\<exists>pool. r' = r\<lparr>rsPool := pool\<rparr>" and len': "length ss' = length ss"
    and keep: "\<And>j. j \<notin> set ?missing \<Longrightarrow> ss' ! j = ss ! j"
    and new: "\<And>k. k < length ?missing \<Longrightarrow>
      sliceWf (ss' ! (?missing ! k)) \<and> sliceLen (ss' ! (?missing ! k)) = sz \<and>
      (\<forall>q < sz. bytesOf (ss' ! (?missing ! k)) ! q =
        dotRow ?d (\<lambda>c. ?rows ! k ! c) (\<lambda>c. bytesOf (?ins ! c) ! q))"
    and cap: "\<And>j. j < length ss \<Longrightarrow> sliceCap (ss ! j) \<le> sliceCap (ss' ! j)"
  proof (rule codeMissing_Inr [OF inv sz, of ?ins ?missing ss ?rows])
    show "length ?ins = ?d" "length ?missing \<le> length ?rows"
      using len t by simp_all
    show "sliceWf s \<and> sliceLen s = sz" if "s \<in> set ?ins" for s
      using that data len t by (auto simp: recovers_def in_set_conv_nth)
    have "length ?missing \<le> length [?d..<Shards r]"
      unfolding missingShards_def by (rule length_filter_le)
    then show "length ?missing \<le> ParityShards r"
      using t by simp
    show "i < length ss" if "i \<in> set ?missing" for i
      using that len by (simp add: missingShards_simps)
    show "length (?rows ! k) = ?d" if "k < length ?missing" for k
      using row [OF that] t unfolding row(1) [OF that] by (intro rsParity_row(2) [OF inv]) simp
  qed (rule missingShards_simps, blast)
  have keep': "ss' ! i = ss ! i" if "i < ?d \<or> sliceLen (ss ! i) \<noteq> 0" for i
    using keep [of i] that by (auto simp: missingShards_simps)
  have "recovers sz orig (ss' ! i) i" if i: "i < Shards r" for i
  proof (cases "i < ?d \<or> sliceLen (ss ! i) \<noteq> 0")
    case True
    then show ?thesis
      using keep' data [of i] parity [of i] i by (cases "i < ?d") auto
  next
    case False
    then have below: "i - ?d < ParityShards r" "?d + (i - ?d) = i"
      using i t by auto
    obtain k where k: "k < length ?missing" "?missing ! k = i"
      using False i missingShards_simps(2) [of i ?d "Shards r" ss] by (auto simp: in_set_conv_nth)
    have "bytesOf (ss' ! i) ! q = bytesOf (orig ! i) ! q" if q: "q < sz" for q
    proof -
      have "bytesOf (ss' ! i) ! q = dotRow ?d (\<lambda>c. rsParity r ! (i - ?d) ! c) (\<lambda>c. bytesOf (?ins ! c) ! q)"
        using new [OF k(1)] row(1) [OF k(1)] k(2) q by simp
      also have "\<dots> = dotRow ?d (\<lambda>c. rsParity r ! (i - ?d) ! c) (\<lambda>c. bytesOf (orig ! c) ! q)"
        unfolding dotRow_def using data by (intro foldl_cong) (simp_all add: recovers_def)
      also have "\<dots> = bytesOf (orig ! i) ! q"
        using cons [unfolded consistent_def, rule_format, OF below(1) q] below(2) by simp
      finally show ?thesis .
    qed
    moreover have "sliceWf (ss' ! i) \<and> sliceLen (ss' ! i) = sz"
      using new [OF k(1)] k(2) by simp
    moreover have "orig ! i \<in> set orig"
      using orig i by (simp add: shardsOk_def)
    ultimately show ?thesis
      using orig bytesOf_eq_iff [of "ss' ! i" sz "orig ! i"] by (auto simp: recovers_def shardsOk_def)
  qed
  then show ?thesis
    using that run inv'(1) [OF safe] inv'(2) len' len keep' cap by simp
qed

text \<open>What \<open>reconstruct\<close> leaves where it succeeds.\<close>

abbreviation restored :: "arch \<Rightarrow> reedSolomon \<Rightarrow> nat \<Rightarrow> slice list \<Rightarrow> slice list \<Rightarrow> bool \<Rightarrow> slice list \<Rightarrow>
    reedSolomon \<Rightarrow> bool" where
  "restored a r sz orig ss dataOnly ss' r' \<equiv>
     (poolSafe a r \<longrightarrow> encInv a r') \<and> (\<exists>t pool. r' = r\<lparr>rsTree := t, rsPool := pool\<rparr>) \<and>
     length ss' = Shards r \<and> (\<forall>i<Shards r. sliceCap (ss ! i) \<le> sliceCap (ss' ! i)) \<and>
     (\<forall>i<Shards r. if i < DataShards r \<or> \<not> dataOnly then recovers sz orig (ss' ! i) i
       else ss' ! i = ss ! i)"

lemma erased_checks:
  assumes inv: "encInv a r" and orig: "shardsOk r sz orig" and erased: "erasedFrom orig ss"
    and enough: "DataShards r \<le> numPresent ss"
  shows "length ss = Shards r" and "checkShards ss True = Inr ()" and "shardSize ss = sz"
proof -
  have sz: "0 < sz" and len: "length ss = Shards r" and d: "0 < DataShards r"
    using orig erased inv by (auto simp: shardsOk_def erasedFrom_def encInv_def)
  have sizes: "sliceLen s = 0 \<or> sliceLen s = sz" if el: "s \<in> set ss" for s
  proof -
    obtain i where "i < Shards r" "ss ! i = s"
      using el unfolding in_set_conv_nth len by blast
    then show ?thesis
      using erased_recovers [OF orig erased, of i] by (auto simp: recovers_def)
  qed
  have "filter (\<lambda>s. sliceLen s \<noteq> 0) ss \<noteq> []"
    using enough d by (auto simp: numPresent_def)
  then obtain s where s: "s \<in> set ss" "sliceLen s \<noteq> 0"
    by (auto simp: filter_empty_conv)
  then have s_sz: "sliceLen s = sz"
    using sizes [of s] by simp
  show "checkShards ss True = Inr ()" "shardSize ss = sz"
    using checkShards_True [OF sizes s(1) s_sz sz] shardSize_eq [OF sizes s(1) s_sz sz] by simp_all
qed (use orig erased in \<open>simp add: shardsOk_def erasedFrom_def\<close>)

text \<open>Where nothing is missing, or only parity shards that are not asked for.\<close>

lemma reconstruct_complete:
  assumes inv: "encInv a r" and orig: "shardsOk r sz orig" and erased: "erasedFrom orig ss"
    and enough: "DataShards r \<le> numPresent ss"
    and full: "numPresent ss = Shards r \<or>
      dataOnly \<and> length (filter (\<lambda>s. sliceLen s \<noteq> 0) (take (DataShards r) ss)) = DataShards r"
  shows "reconstruct a r ss dataOnly = Inr (ss, r)" and "restored a r sz orig ss dataOnly ss r"
proof -
  let ?d = "DataShards r"
  note checks = erased_checks [OF inv orig erased enough]
  have t: "?d \<le> Shards r"
    using inv by (simp add: encInv_def)
  show "reconstruct a r ss dataOnly = Inr (ss, r)"
    using full checks by (simp add: reconstruct_def Let_def numPresent_def)
  have "sliceLen (ss ! i) \<noteq> 0" if "i < Shards r" "i < ?d \<or> \<not> dataOnly" for i
  proof (cases "numPresent ss = Shards r")
    case True
    then show ?thesis
      using all_present [of _ ss "ss ! i"] that(1) checks(1) by (auto simp: numPresent_def)
  next
    case False
    then have i: "i < ?d" and all: "length (filter (\<lambda>s. sliceLen s \<noteq> 0) (take ?d ss)) = length (take ?d ss)"
      using full that(2) checks(1) t by auto
    have "ss ! i \<in> set (take ?d ss)"
      using i checks(1) t by (auto simp: in_set_conv_nth)
    then show ?thesis
      by (rule all_present [OF all])
  qed
  moreover have "\<exists>t pool. r = r\<lparr>rsTree := t, rsPool := pool\<rparr>"
    by (intro exI [of _ "rsTree r"] exI [of _ "rsPool r"]) simp
  ultimately show "restored a r sz orig ss dataOnly ss r"
    using erased_recovers(2) [OF orig erased] inv checks(1) by auto
qed

text \<open>The two coding calls once the rows for the missing data shards are known.\<close>

abbreviation bothStages :: "arch \<Rightarrow> reedSolomon \<Rightarrow> slice list \<Rightarrow> bool \<Rightarrow> byte list list \<Rightarrow> slice list \<Rightarrow> nat \<Rightarrow>
    (slice list \<times> reedSolomon) result" where
  "bothStages a r ss dataOnly rows sub sz \<equiv>
     bind_result (codeMissing a r ss (missingShards 0 (DataShards r) ss) rows sub sz) (\<lambda>(ss1, r1).
       if dataOnly then Inr (ss1, r1)
       else codeMissing a r1 ss1 (missingShards (DataShards r) (Shards r1) ss1)
         (map (\<lambda>i. rsParity r1 ! (i - DataShards r)) (missingShards (DataShards r) (Shards r1) ss1) @
           drop (length (missingShards (DataShards r) (Shards r1) ss1)) rows)
         (take (DataShards r) ss1) sz)"

lemma codingStages:
  assumes inv: "encInv a r" and safe: "poolSafe a r \<or> dataOnly" and p: "0 < ParityShards r"
    and orig: "shardsOk r sz orig" and cons: "consistent r sz orig" and erased: "erasedFrom orig ss"
    and enough: "DataShards r \<le> numPresent ss"
    and chosen: "rowsChosen ss 0 (DataShards r) sub valid invalid"
    and dec: "decodes (DataShards r) (Shards r) (rsMatrix r) invalid D"
    and rows: "rows = map (\<lambda>i. D ! i) (missingShards 0 (DataShards r) ss) @ rest"
  obtains ss' r' where "bothStages a r ss dataOnly rows sub sz = Inr (ss', r')"
    and "restored a r sz orig ss dataOnly ss' r'"
proof -
  let ?d = "DataShards r"
  have same: "\<exists>t pool. r\<lparr>rsPool := p\<rparr> = r\<lparr>rsTree := t, rsPool := pool\<rparr>" for p
    by (intro exI [of _ "rsTree r"] exI [of _ p]) simp
  obtain ss1 r1 where run1: "codeMissing a r ss (missingShards 0 ?d ss) rows sub sz = Inr (ss1, r1)"
    and inv1: "poolSafe a r \<Longrightarrow> encInv a r1" and r1: "\<exists>pool. r1 = r\<lparr>rsPool := pool\<rparr>" and len1: "length ss1 = Shards r"
    and data: "\<And>i. i < ?d \<Longrightarrow> recovers sz orig (ss1 ! i) i" and keep: "\<And>i. ?d \<le> i \<Longrightarrow> ss1 ! i = ss ! i"
    and cap1: "\<And>i. i < Shards r \<Longrightarrow> sliceCap (ss ! i) \<le> sliceCap (ss1 ! i)"
    unfolding rows by (rule dataStage [OF inv p orig cons erased enough chosen dec, of rest]) blast
  show ?thesis
  proof (cases dataOnly)
    case True
    then show ?thesis
      using run1 inv1 r1 same len1 data keep cap1 by (intro that [of ss1 r1]) auto
  next
    case both: False
    have r1_eqs: "DataShards r1 = ?d" "Shards r1 = Shards r" "poolSafe a r1" "shardsOk r1 sz orig" "consistent r1 sz orig"
      using r1 safe both orig cons by (auto simp: poolSafe_def shardsOk_def consistent_def)
    have inv1': "encInv a r1"
      using safe both inv1 by blast
    have parity: "recovers sz orig (ss1 ! i) i" if "?d \<le> i" "i < Shards r" "sliceLen (ss1 ! i) \<noteq> 0" for i
      using erased_recovers(2) [OF orig erased that(2)] keep [OF that(1)] that(3) by simp
    let ?missing = "missingShards ?d (Shards r) ss1"
    obtain ss2 r2 where run2: "codeMissing a r1 ss1 ?missing
        (map (\<lambda>i. rsParity r1 ! (i - ?d)) ?missing @ drop (length ?missing) rows) (take ?d ss1) sz = Inr (ss2, r2)"
      and final: "encInv a r2" "\<exists>pool. r2 = r1\<lparr>rsPool := pool\<rparr>" "length ss2 = Shards r"
        "\<And>i. i < Shards r \<Longrightarrow> recovers sz orig (ss2 ! i) i"
      and cap2: "\<And>i. i < Shards r \<Longrightarrow> sliceCap (ss1 ! i) \<le> sliceCap (ss2 ! i)"
      by (rule parityStage [OF inv1' r1_eqs(3-5), of ss1 "drop (length ?missing) rows", unfolded r1_eqs(1,2)])
        (use len1 data parity in blast)+
    have "\<exists>t pool. r2 = r\<lparr>rsTree := t, rsPool := pool\<rparr>"
      using r1 final(2) same by auto
    then show ?thesis
      using run1 run2 both final le_trans [OF cap1 cap2] by (intro that [of ss2 r2]) (simp_all add: r1_eqs)
  qed
qed

text \<open>
  \<open>reconstruct\<close> on what is left of consistent shards, with at least as many shards as there are
  data shards: it can only fail where the rows that are left are singular.
\<close>

lemma reconstruct_cases:
  assumes inv: "encInv a r" and safe: "poolSafe a r \<or> dataOnly" and orig: "shardsOk r sz orig"
    and cons: "consistent r sz orig" and erased: "erasedFrom orig ss"
    and enough: "DataShards r \<le> numPresent ss"
  shows "case reconstruct a r ss dataOnly of
      Inl e \<Rightarrow> e = ErrSingular \<and> 0 < ParityShards r \<and>
        \<not> mds_matrix (DataShards r) (Shards r) (rsMatrix r)
    | Inr (ss', r') \<Rightarrow> restored a r sz orig ss dataOnly ss' r'"
proof (cases "numPresent ss = Shards r \<or>
    dataOnly \<and> length (filter (\<lambda>s. sliceLen s \<noteq> 0) (take (DataShards r) ss)) = DataShards r")
  case True
  then show ?thesis
    using reconstruct_complete [OF inv orig erased enough True] by simp
next
  case False
  let ?d = "DataShards r" and ?missing = "missingShards 0 (DataShards r) ss"
  have t: "Shards r = ?d + ParityShards r"
    using inv by (auto simp: encInv_def)
  note checks = erased_checks [OF inv orig erased enough]
  have "ParityShards r = 0 \<Longrightarrow> numPresent ss = Shards r"
    using enough t checks(1) length_filter_le [of "\<lambda>s. sliceLen s \<noteq> 0" ss] by (simp add: numPresent_def)
  then have p: "0 < ParityShards r"
    using False by (cases "ParityShards r") simp_all
  obtain sub valid invalid where chosen: "subShardsFrom ss 0 ?d = (sub, valid, invalid)"
    by (metis prod_cases3)
  have rc: "rowsChosen ss 0 ?d sub valid invalid"
    using subShardsFrom_rows [OF chosen] enough by (simp add: numPresent_def)
  have valid: "length valid = ?d" and key: "keyFrom (Shards r) 0 invalid"
    using rc unfolding rowsChosen_def checks(1) add_0 by blast+
  have cond: "\<not> (length (filter (\<lambda>s. sliceLen s \<noteq> 0) ss) = Shards r \<or>
      dataOnly \<and> length (filter (\<lambda>s. sliceLen s \<noteq> 0) (take ?d ss)) = ?d)"
    "\<not> length (filter (\<lambda>s. sliceLen s \<noteq> 0) ss) < ?d"
    using False enough by (simp_all add: numPresent_def)
  note step = reconstruct_def Let_def checks(2,3) bind_result_simps chosen prod.case
    if_not_P [OF cond(1)] if_not_P [OF cond(2)]
  note decode = decodeMatrix_cases [OF inv p _ valid key, unfolded validRows_chosen [OF rc, unfolded checks(1)]]
  show ?thesis
  proof (cases "decodeMatrix r valid invalid")
    case (Inl e)
    then have "reconstruct a r ss dataOnly = Inl e"
      using checks(1) unfolding step Inl by simp
    then show ?thesis
      using decode Inl p by simp
  next
    case (Inr Dr)
    obtain D r1 where Dr: "Dr = (D, r1)"
      by (cases Dr)
    have dec: "decodes ?d (Shards r) (rsMatrix r) invalid D" and inv1: "encInv a r1"
      and r1: "\<exists>t. r1 = r\<lparr>rsTree := t\<rparr>"
      using decode Inr Dr by auto
    then have eqs: "DataShards r1 = ?d" "ParityShards r1 = ParityShards r" "Shards r1 = Shards r"
      "rsMatrix r1 = rsMatrix r" "poolSafe a r1 = poolSafe a r" "shardsOk r1 sz orig" "consistent r1 sz orig"
      using orig cons by (auto simp: poolSafe_def shardsOk_def consistent_def)
    have "length D = ?d"
      using dec by (auto simp: decodes_def dest: mat_wf_length)
    moreover have "length ?missing \<le> ParityShards r"
      using missing_le [of 0 ?d ss] enough checks(1) t by (simp add: numPresent_def)
    ultimately have ok: "\<not> (ParityShards r < length ?missing \<or> list_ex (\<lambda>i. length D \<le> i) ?missing)"
      by (auto simp: list_ex_iff missingShards_simps)
    let ?rows = "map (\<lambda>i. D ! i) ?missing @ replicate (ParityShards r - length ?missing) []"
    obtain ss' r' where run: "bothStages a r1 ss dataOnly ?rows sub sz = Inr (ss', r')"
      and result: "restored a r1 sz orig ss dataOnly ss' r'"
      by (rule codingStages [OF inv1, unfolded eqs(1-5), OF safe p eqs(6,7) erased enough rc dec refl,
            of "replicate (ParityShards r - length ?missing) []"]) (simp only: eqs, blast)
    have "reconstruct a r ss dataOnly = Inr (ss', r')"
      using checks(1) run unfolding step Inr Dr if_not_P [OF ok] eqs(1) by simp
    moreover obtain t where "r1 = r\<lparr>rsTree := t\<rparr>"
      using r1 by blast
    ultimately show ?thesis
      using result eqs(5) by simp
  qed
qed

subsection \<open>Properties\<close>

text \<open>
  C1. The purpose of the codec.  Take consistent shards, as \<open>Encode\<close> leaves them, and lose any of
  them (their slices become empty, with or without capacity), as long as \<open>DataShards\<close> are left.
  If any \<open>DataShards\<close> rows of the matrix determine the data (every matrix \<open>New\<close> builds except that
  of PAR1), \<open>Reconstruct\<close> succeeds and every shard has its bytes again, whatever is in the cache.
  Excluded, by \<open>poolSafe\<close>, are encoders that use the generated AVX2 code of the amd64 build, with at most
  10 data and more than 10 parity shards: there one coding step of \<open>Reconstruct\<close> can put the buffer
  back into the pool too short for the next, which then panics, also within one call.
\<close>

theorem Reconstruct_recovers:
  assumes "encInv a r" and "poolSafe a r" and "0 < ParityShards r \<longrightarrow>
      mds_matrix (DataShards r) (Shards r) (rsMatrix r)"
    and "shardsOk r sz orig" and "consistent r sz orig"
    and "erasedFrom orig ss" and "DataShards r \<le> numPresent ss"
  shows "\<exists>ss' r'. Reconstruct a r ss = Inr (ss', r') \<and> encInv a r' \<and> length ss' = length orig \<and>
    (\<forall>i<length orig. sliceLen (ss' ! i) = sz \<and> bytesOf (ss' ! i) = bytesOf (orig ! i))"
proof -
  have "length orig = Shards r"
    using assms(4) by (simp add: shardsOk_def)
  then show ?thesis
    using reconstruct_cases [OF assms(1) disjI1 [OF assms(2)] assms(4-7), of False] assms(2,3)
    by (cases "reconstruct a r ss False") (auto simp: Reconstruct_def recovers_def)
qed

lemma Reconstruct_recovers_witness:
  "\<exists>r orig r' ss r''. New Amd64 testCpu 2 2 [] = Inr r \<and> Encode Amd64 r testShards = Inr (orig, r') \<and>
    Reconstruct Amd64 r' [NilSlice, orig ! 1, Slice [7, 7, 7, 7] 0, orig ! 3] = Inr (ss, r'') \<and>
    bytesOf (ss ! 0) = bytesOf (orig ! 0) \<and> bytesOf (ss ! 2) = bytesOf (orig ! 2)"
proof -
  obtain r orig r' where r: "New Amd64 testCpu 2 2 [] = Inr r" "Encode Amd64 r testShards = Inr (orig, r')"
    "encInv Amd64 r'" "poolSafe Amd64 r'" "DataShards r' = 2" "ParityShards r' = 2"
    "mds_matrix 2 4 (rsMatrix r')" "shardsOk r' 3 orig" "consistent r' 3 orig"
    by (rule Encode_testShards)
  have shards: "Shards r' = 4"
    using r(3,5,6) by (simp add: encInv_def)
  then have len: "length orig = 4" and sizes: "sliceLen (orig ! i) = 3" if "i < 4" for i
    using r(8) that by (auto simp: shardsOk_def)
  let ?ss = "[NilSlice, orig ! 1, Slice [7, 7, 7, 7] 0, orig ! 3]"
  have "erasedFrom orig ?ss"
    using len [of 0] by (auto simp: erasedFrom_def less_Suc_eq numeral_eq_Suc)
  moreover have "DataShards r' \<le> numPresent ?ss"
    using sizes [of 1] sizes [of 3] r(5) by (simp add: numPresent_def)
  ultimately show ?thesis
    using Reconstruct_recovers [OF r(3,4) _ r(8,9), of ?ss] r(1,2,5,7) shards len [of 0] by fastforce
qed

text \<open>
  C28. With any matrix, PAR1 included, where the pool is safe (\<open>poolSafe\<close>: not the AVX2 code with at
  most 10 data and more than 10 parity shards): \<open>Reconstruct\<close> either gives every shard its bytes
  again or reports \<open>errSingular\<close>; it does not panic and never returns wrong bytes.
\<close>

theorem Reconstruct_sound:
  assumes "encInv a r" and "poolSafe a r" and "shardsOk r sz orig" and "consistent r sz orig"
    and "erasedFrom orig ss" and "DataShards r \<le> numPresent ss"
  shows "case Reconstruct a r ss of
      Inl e \<Rightarrow> e = ErrSingular
    | Inr (ss', r') \<Rightarrow> encInv a r' \<and>
        (\<forall>i<Shards r. sliceLen (ss' ! i) = sz \<and> bytesOf (ss' ! i) = bytesOf (orig ! i))"
  using reconstruct_cases [OF assms(1) disjI1 [OF assms(2)] assms(3-6), of False] assms(2)
  by (cases "reconstruct a r ss False") (auto simp: Reconstruct_def recovers_def)

lemma Reconstruct_sound_witness:
  "\<exists>r orig r'. New Amd64 testCpu 2 2 [] = Inr r \<and> Encode Amd64 r testShards = Inr (orig, r') \<and>
    (case Reconstruct Amd64 r' orig of Inl e \<Rightarrow> e = ErrSingular
      | Inr (ss, _) \<Rightarrow> bytesOf (ss ! 0) = bytesOf (orig ! 0))"
proof -
  obtain r orig r' where r: "New Amd64 testCpu 2 2 [] = Inr r" "Encode Amd64 r testShards = Inr (orig, r')"
    "encInv Amd64 r'" "poolSafe Amd64 r'" "DataShards r' = 2" "ParityShards r' = 2"
    "mds_matrix 2 4 (rsMatrix r')" "shardsOk r' 3 orig" "consistent r' 3 orig"
    by (rule Encode_testShards)
  have shards: "Shards r' = 4"
    using r(3,5,6) by (simp add: encInv_def)
  have "filter (\<lambda>s. sliceLen s \<noteq> 0) orig = orig"
    using r(8) by (auto simp: shardsOk_def filter_id_conv)
  then have "DataShards r' \<le> numPresent orig"
    using r(5,8) shards by (simp add: numPresent_def shardsOk_def)
  moreover have "erasedFrom orig orig"
    by (simp add: erasedFrom_def)
  ultimately have "case Reconstruct Amd64 r' orig of Inl e \<Rightarrow> e = ErrSingular
      | Inr (ss, _) \<Rightarrow> bytesOf (ss ! 0) = bytesOf (orig ! 0)"
    using Reconstruct_sound [OF r(3,4,8,9), of orig] shards by (auto split: sum.splits)
  then show ?thesis
    using r(1,2) by blast
qed

text \<open>
  \<open>ReconstructData\<close> gives the data shards their bytes again and leaves every parity shard, the
  missing ones too, as it is.
\<close>

theorem ReconstructData_recovers:
  assumes "encInv a r" and "0 < ParityShards r \<longrightarrow>
      mds_matrix (DataShards r) (Shards r) (rsMatrix r)"
    and "shardsOk r sz orig" and "consistent r sz orig"
    and "erasedFrom orig ss" and "DataShards r \<le> numPresent ss"
  shows "\<exists>ss' r'. ReconstructData a r ss = Inr (ss', r') \<and> (poolSafe a r \<longrightarrow> encInv a r') \<and>
    (\<forall>i<DataShards r. bytesOf (ss' ! i) = bytesOf (orig ! i)) \<and>
    (\<forall>i. DataShards r \<le> i \<and> i < Shards r \<longrightarrow> ss' ! i = ss ! i)"
proof -
  have "DataShards r \<le> Shards r"
    using assms(1) by (simp add: encInv_def)
  moreover obtain ss' r' where run: "reconstruct a r ss True = Inr (ss', r')" "poolSafe a r \<longrightarrow> encInv a r'"
    and all: "\<forall>i<Shards r. if i < DataShards r \<or> \<not> True then recovers sz orig (ss' ! i) i
      else ss' ! i = ss ! i"
    using reconstruct_cases [OF assms(1) disjI2 [OF TrueI] assms(3-6)] assms(2)
    by (cases "reconstruct a r ss True") auto
  ultimately have "bytesOf (ss' ! i) = bytesOf (orig ! i)" if "i < DataShards r" for i
    using all [rule_format, of i] that by (simp add: recovers_def)
  moreover have "ss' ! i = ss ! i" if "DataShards r \<le> i \<and> i < Shards r" for i
    using all [rule_format, of i] that by simp
  ultimately show ?thesis
    using run by (auto simp: ReconstructData_def)
qed

lemma ReconstructData_recovers_witness:
  "\<exists>r orig r' ss r''. New Amd64 testCpu 2 2 [] = Inr r \<and> Encode Amd64 r testShards = Inr (orig, r') \<and>
    ReconstructData Amd64 r' [NilSlice, orig ! 1, NilSlice, orig ! 3] = Inr (ss, r'') \<and>
    bytesOf (ss ! 0) = bytesOf (orig ! 0) \<and> ss ! 2 = NilSlice"
proof -
  obtain r orig r' where r: "New Amd64 testCpu 2 2 [] = Inr r" "Encode Amd64 r testShards = Inr (orig, r')"
    "encInv Amd64 r'" "poolSafe Amd64 r'" "DataShards r' = 2" "ParityShards r' = 2"
    "mds_matrix 2 4 (rsMatrix r')" "shardsOk r' 3 orig" "consistent r' 3 orig"
    by (rule Encode_testShards)
  have shards: "Shards r' = 4"
    using r(3,5,6) by (simp add: encInv_def)
  then have len: "length orig = 4" and sizes: "sliceLen (orig ! i) = 3" if "i < 4" for i
    using r(8) that by (auto simp: shardsOk_def)
  let ?ss = "[NilSlice, orig ! 1, NilSlice, orig ! 3]"
  have "erasedFrom orig ?ss"
    using len [of 0] by (auto simp: erasedFrom_def less_Suc_eq numeral_eq_Suc)
  moreover have "DataShards r' \<le> numPresent ?ss"
    using sizes [of 1] sizes [of 3] r(5) by (simp add: numPresent_def)
  ultimately show ?thesis
    using ReconstructData_recovers [OF r(3) _ r(8,9), of ?ss] r(1,2,5,7) shards by fastforce
qed

text \<open>With fewer than \<open>DataShards\<close> shards left, both report \<open>ErrTooFewShards\<close>.\<close>

theorem reconstruct_too_few:
  assumes "encInv a r" and "length ss = Shards r" and "checkShards ss True = Inr ()"
    and "numPresent ss < DataShards r"
  shows "Reconstruct a r ss = Inl ErrTooFewShards \<and> ReconstructData a r ss = Inl ErrTooFewShards"
proof -
  have "length (filter (\<lambda>s. sliceLen s \<noteq> 0) (take (DataShards r) ss)) \<le> numPresent ss"
    unfolding numPresent_def
    by (subst (2) append_take_drop_id [of "DataShards r", symmetric]) (simp only: filter_append length_append)
  then have "length (filter (\<lambda>s. sliceLen s \<noteq> 0) (take (DataShards r) ss)) < DataShards r"
    using assms(4) by simp
  moreover have "DataShards r \<le> Shards r"
    using assms(1) by (simp add: encInv_def)
  ultimately show ?thesis
    using assms(2-4)
    by (simp add: Reconstruct_def ReconstructData_def reconstruct_def Let_def numPresent_def)
qed

lemma reconstruct_too_few_witness:
  "\<exists>r. New Amd64 testCpu 2 2 [] = Inr r \<and>
    Reconstruct Amd64 r [NilSlice, NilSlice, makeSlice 3, NilSlice] = Inl ErrTooFewShards"
proof -
  obtain r where r: "New Amd64 testCpu 2 2 [] = Inr r" "encInv Amd64 r" "DataShards r = 2"
      "ParityShards r = 2" "mds_matrix 2 4 (rsMatrix r)"
    by (rule testEncoder)
  let ?ss = "[NilSlice, NilSlice, makeSlice 3, NilSlice]"
  have "checkShards ?ss True = Inr ()"
    by (rule checkShards_True [of _ 3 "makeSlice 3"]) auto
  then show ?thesis
    using reconstruct_too_few [OF r(2), of ?ss] r by (auto simp: encInv_def numPresent_def)
qed

end
