(* ===== verification/Pipeline.thy ===== *)
theory Pipeline
  imports Reconstruct SplitJoin
begin

text \<open>
  The operations of the encoder one after the other, as its users call them: \<open>New\<close>, \<open>Split\<close>,
  \<open>Encode\<close>, the loss of shards, \<open>Reconstruct\<close>, \<open>Join\<close>.  And the two ways this fails: with the PAR1
  matrix, and where a reconstruction left a short buffer in the pool.
\<close>

subsection \<open>Store, lose, recover\<close>

definition lose :: "nat set \<Rightarrow> slice list \<Rightarrow> slice list" where
  "lose lost ss = map (\<lambda>i. if i \<in> lost then NilSlice else ss ! i) [0..<length ss]"

lemma lose_erased: "erasedFrom ss (lose lost ss)"
  by (simp add: erasedFrom_def lose_def)

lemma numPresent_lose:
  assumes "\<forall>s\<in>set ss. sliceLen s \<noteq> 0"
  shows "numPresent (lose lost ss) = card ({..<length ss} - lost)"
proof -
  have "numPresent (lose lost ss) = length (filter (\<lambda>i. i \<notin> lost) [0..<length ss])"
    using assms by (auto simp: numPresent_def lose_def filter_map intro!: arg_cong [of _ _ length] filter_cong)
  also have "\<dots> = card ({..<length ss} - lost)"
    by (subst distinct_card [symmetric]) (auto intro: arg_cong [of _ _ card])
  finally show ?thesis .
qed

text \<open>\<open>Join\<close> looks only at the bytes of the data shards.\<close>

lemma Join_bytes:
  assumes "DataShards r \<le> length ss" and "\<And>i. i < DataShards r \<Longrightarrow> sliceWf (ss ! i) \<and> ss ! i \<noteq> NilSlice"
    and "map bytesOf (take (DataShards r) ss) = map bytesOf (take (DataShards r) coded)"
    and "n \<le> length (concat (map bytesOf (take (DataShards r) coded)))"
  shows "Join bufferWrite r w ss (int n) =
    (w @ take n (concat (map bytesOf (take (DataShards r) coded))), Inr ())"
proof -
  have "list_all (\<lambda>s. sliceWf s \<and> s \<noteq> NilSlice) (take (DataShards r) ss)"
    using assms(1,2) by (auto simp: list_all_iff in_set_conv_nth)
  then show ?thesis
    using Join_buffer [of r ss n w] assms(1,3,4) by simp
qed

lemma dotRow_cong: "(\<And>c. c < n \<Longrightarrow> f c = f' c \<and> g c = g' c) \<Longrightarrow> dotRow n f g = dotRow n f' g'"
  unfolding dotRow_def by (intro foldl_cong) auto

lemma consistent_cong:
  assumes "\<And>i. i < DataShards r + ParityShards r \<Longrightarrow> bytesOf (ss ! i) = bytesOf (ss' ! i)"
  shows "consistent r sz ss = consistent r sz ss'"
proof -
  have "(bytesOf (ss ! (DataShards r + i)) ! q =
      dotRow (DataShards r) (\<lambda>c. rsParity r ! i ! c) (\<lambda>c. bytesOf (ss ! c) ! q)) =
    (bytesOf (ss' ! (DataShards r + i)) ! q =
      dotRow (DataShards r) (\<lambda>c. rsParity r ! i ! c) (\<lambda>c. bytesOf (ss' ! c) ! q))" if "i < ParityShards r" for i q
    using assms that by (intro arg_cong2 [where f = "(=)"] dotRow_cong) auto
  then show ?thesis
    by (simp add: consistent_def)
qed

text \<open>What \<open>Reconstruct\<close> makes of encoded shards after a loss, and what \<open>Join\<close> then writes.\<close>

lemma recover_erased:
  assumes inv: "encInv a r" and safe: "poolSafe a r"
    and mds: "0 < ParityShards r \<longrightarrow> mds_matrix (DataShards r) (Shards r) (rsMatrix r)"
    and orig: "shardsOk r sz orig" and cons: "consistent r sz orig" and erased: "erasedFrom orig ss"
    and enough: "DataShards r \<le> numPresent ss"
  obtains ss' r2 where "Reconstruct a r ss = Inr (ss', r2)" and "encInv a r2"
    and "\<exists>t pool. r2 = r\<lparr>rsTree := t, rsPool := pool\<rparr>" and "length ss' = Shards r"
    and "\<forall>i<Shards r. recovers sz orig (ss' ! i) i"
  using reconstruct_cases [OF inv disjI1 [OF safe] orig cons erased enough, of False] mds safe that
  by (cases "reconstruct a r ss False") (auto simp: Reconstruct_def)

lemma recover_lost:
  assumes inv: "encInv a r" and safe: "poolSafe a r"
    and mds: "0 < ParityShards r \<longrightarrow> mds_matrix (DataShards r) (Shards r) (rsMatrix r)"
    and orig: "shardsOk r sz orig" and cons: "consistent r sz orig"
    and lost: "lost \<subseteq> {..<Shards r}" "card lost \<le> ParityShards r"
  obtains ss' r2 where "Reconstruct a r (lose lost orig) = Inr (ss', r2)" and "encInv a r2"
    and "\<exists>t pool. r2 = r\<lparr>rsTree := t, rsPool := pool\<rparr>" and "length ss' = Shards r"
    and "\<forall>i<Shards r. recovers sz orig (ss' ! i) i"
proof -
  have t: "Shards r = DataShards r + ParityShards r"
    using inv by (simp add: encInv_def)
  have len: "length orig = Shards r" and sizes: "\<forall>s\<in>set orig. sliceLen s \<noteq> 0"
    using orig by (auto simp: shardsOk_def)
  have "finite lost"
    by (rule finite_subset [OF lost(1)]) simp
  then have "numPresent (lose lost orig) = Shards r - card lost"
    using lost(1) by (simp add: numPresent_lose [OF sizes] len card_Diff_subset)
  then have "DataShards r \<le> numPresent (lose lost orig)"
    using lost(2) t by simp
  then show ?thesis
    using that by (rule recover_erased [OF inv safe mds orig cons lose_erased])
qed

lemma Join_recovered:
  assumes orig: "shardsOk r sz orig" and d: "DataShards r \<le> Shards r" "DataShards r2 = DataShards r"
    and len: "length ss = Shards r" and found: "\<forall>i<Shards r. recovers sz orig (ss ! i) i"
    and n: "n \<le> DataShards r * sz"
  shows "Join bufferWrite r2 w ss (int n) =
    (w @ take n (concat (map bytesOf (take (DataShards r) orig))), Inr ())"
proof -
  let ?d = "DataShards r"
  have same: "map bytesOf (take ?d ss) = map bytesOf (take ?d orig)"
    using found len d(1) orig by (intro nth_equalityI) (simp_all add: recovers_def shardsOk_def)
  have wf: "sliceWf (ss ! i) \<and> ss ! i \<noteq> NilSlice" if "i < ?d" for i
    using found [rule_format, of i] orig that d(1) by (auto simp: recovers_def shardsOk_def)
  have "map sliceLen (take ?d orig) = replicate ?d sz"
    using orig d(1) by (intro replicate_eqI) (auto simp: shardsOk_def dest: in_set_takeD)
  moreover have "list_all sliceWf (take ?d orig)"
    using orig by (auto simp: shardsOk_def list_all_iff dest: in_set_takeD)
  ultimately have "length (concat (map bytesOf (take ?d orig))) = ?d * sz"
    by (simp add: length_concat_bytesOf sum_list_replicate)
  then show ?thesis
    using wf same len d n by (intro Join_bytes [of r2, unfolded d(2)]) simp_all
qed

text \<open>Byte strings of equal length, as what is left of shards after it was stored elsewhere.\<close>

definition sameLength :: "nat \<Rightarrow> nat \<Rightarrow> byte list list \<Rightarrow> bool" where
  "sameLength t n D \<longleftrightarrow> length D = t \<and> (\<forall>i<t. length (D ! i) = n)"

lemma recover_bytes:
  assumes inv: "encInv a r" and safe: "poolSafe a r"
    and mds: "0 < ParityShards r \<longrightarrow> mds_matrix (DataShards r) (Shards r) (rsMatrix r)"
    and D: "sameLength (Shards r) sz D" and sz: "0 < sz" and cons: "consistent r sz (map ofBytes D)"
    and enough: "DataShards r \<le> card ({..<Shards r} \<inter> good)" and n: "n \<le> DataShards r * sz"
  shows "\<exists>ss r2. Reconstruct a r (map (\<lambda>i. if i \<in> good then ofBytes (D ! i) else NilSlice) [0..<Shards r]) =
      Inr (ss, r2) \<and>
    Join bufferWrite r2 w ss (int n) = (w @ take n (concat (take (DataShards r) D)), Inr ())"
proof -
  let ?d = "DataShards r" and ?t = "Shards r" and ?orig = "map ofBytes D"
  let ?ss = "map (\<lambda>i. if i \<in> good then ofBytes (D ! i) else NilSlice) [0..<?t]"
  have len: "length D = ?t" "\<And>i. i < ?t \<Longrightarrow> length (D ! i) = sz"
    using D by (auto simp: sameLength_def)
  have orig: "shardsOk r sz ?orig"
    using len sz by (auto simp: shardsOk_def in_set_conv_nth)
  have erased: "erasedFrom ?orig ?ss"
    using len by (simp add: erasedFrom_def)
  have "{i. i < length ?ss \<and> sliceLen (?ss ! i) \<noteq> 0} = {..<?t} \<inter> good"
    using len sz by (auto split: if_splits)
  then have "numPresent ?ss = card ({..<?t} \<inter> good)"
    unfolding numPresent_def length_filter_conv_card by (simp only:)
  then have "?d \<le> numPresent ?ss"
    using enough by simp
  then obtain ss r2 where run: "Reconstruct a r ?ss = Inr (ss, r2)" and "encInv a r2"
    and r2: "\<exists>t pool. r2 = r\<lparr>rsTree := t, rsPool := pool\<rparr>" and len': "length ss = ?t"
    and found: "\<forall>i<?t. recovers sz ?orig (ss ! i) i"
    by (rule recover_erased [OF inv safe mds orig cons erased])
  have "?d \<le> ?t" "DataShards r2 = ?d"
    using inv r2 by (auto simp: encInv_def)
  then show ?thesis
    using run Join_recovered [OF orig _ _ len' found n] by (simp add: take_map o_def)
qed

text \<open>
  C3. The codec as a whole: with an encoder \<open>New\<close> made, any data that is split and encoded survives
  the loss of any \<open>p\<close> of the \<open>d + p\<close> shards: \<open>Reconstruct\<close> and \<open>Join\<close> give the data again.  The
  options are any the package exports but a PAR1 matrix, and the shape is not the one whose pool
  \<open>Reconstruct\<close> spoils.
\<close>

theorem store_recover:
  assumes "cpuOk a cpu" and "list_all exportedOption fs"
    and "mdsChosen (applyOptions fs (buildOptions a cpu)) (int p)"
    and "0 < d" and "0 < p" and "d + p \<le> 256" and "10 < d \<or> p \<le> 10" and "bs \<noteq> []"
  shows "\<exists>r ss coded r1. New a cpu (int d) (int p) fs = Inr r \<and> Split r (ofBytes bs) = Inr ss \<and>
    Encode a r ss = Inr (coded, r1) \<and>
    (\<forall>lost. lost \<subseteq> {..<d + p} \<and> card lost \<le> p \<longrightarrow>
      (\<exists>ss' r2. Reconstruct a r1 (lose lost coded) = Inr (ss', r2) \<and>
        Join bufferWrite r2 [] ss' (int (length bs)) = (bs, Inr ())))"
proof -
  obtain r where new: "New a cpu (int d) (int p) fs = Inr r" and inv: "encInv a r"
    and dp: "DataShards r = d" "ParityShards r = p" and mds: "mds_matrix d (d + p) (rsMatrix r)"
    using New_Inr [OF assms(1,2,4,6)] assms(3,5) by metis
  let ?data = "ofBytes bs" and ?per = "perShardOf r (ofBytes bs)"
  have t: "Shards r = d + p"
    using inv dp by (simp add: encInv_def)
  have data: "sliceWf ?data" "0 < sliceLen ?data" "sliceCap ?data = length bs"
    using assms(8) by (simp_all add: sliceWf_def ofBytes_def sliceCap_def)
  have per: "0 < ?per" "length bs \<le> d * ?per"
    using perShardOf_bounds [of r ?data] data(2) assms(4) dp(1) by simp_all
  then have "length bs < (d + p) * ?per"
    using assms(5) by (intro le_less_trans [OF per(2)]) simp
  then have fits: "splitFits r ?data"
    unfolding splitFits_def data(3) t by (rule disjI1)
  obtain ss where split: "Split r ?data = Inr ss" "shardsOk r ?per ss"
    and bytes: "take (length bs) (concat (map bytesOf (take d ss))) = bs"
    using Split_ok [OF inv data(1,2) fits] dp(1) by auto
  obtain coded r1 where coded: "Encode a r ss = Inr (coded, r1)" "encInv a r1"
      "\<exists>pool. r1 = r\<lparr>rsPool := pool\<rparr>" "shardsOk r ?per coded" "take (DataShards r) coded = take (DataShards r) ss"
      "consistent r ?per coded"
    by (rule Encode_Inr [OF inv split(2)])
  then have r1: "DataShards r1 = d" "ParityShards r1 = p" "Shards r1 = d + p" "rsMatrix r1 = rsMatrix r"
    "shardsOk r1 ?per coded" "consistent r1 ?per coded" "poolSafe a r1"
    using dp t assms(7) by (auto simp: shardsOk_def consistent_def poolSafe_def)
  have "\<exists>ss' r2. Reconstruct a r1 (lose lost coded) = Inr (ss', r2) \<and>
      Join bufferWrite r2 [] ss' (int (length bs)) = (bs, Inr ())"
    if lost: "lost \<subseteq> {..<d + p}" "card lost \<le> p" for lost
  proof -
    have mds1: "0 < ParityShards r1 \<longrightarrow> mds_matrix (DataShards r1) (Shards r1) (rsMatrix r1)"
      using mds r1(1,3,4) by simp
    have "lost \<subseteq> {..<Shards r1}" "card lost \<le> ParityShards r1"
      using lost r1(2,3) by simp_all
    then obtain ss' r2 where run: "Reconstruct a r1 (lose lost coded) = Inr (ss', r2)" and "encInv a r2"
      and r2: "\<exists>t pool. r2 = r1\<lparr>rsTree := t, rsPool := pool\<rparr>" and found: "length ss' = Shards r1"
        "\<forall>i<Shards r1. recovers ?per coded (ss' ! i) i"
      by (rule recover_lost [OF coded(2) r1(7) mds1 r1(5,6)])
    have "DataShards r1 \<le> Shards r1" "DataShards r2 = DataShards r1"
      using r1(1,3) r2 by auto
    then show ?thesis
      using Join_recovered [OF r1(5) _ _ found, of r2 "length bs" "[]"] run bytes coded(5) dp(1) per(2) r1(1)
      by simp
  qed
  then show ?thesis
    using new split(1) coded(1) by blast
qed

lemma store_recover_witness:
  "\<exists>r ss coded r1 ss' r2. New Amd64 testCpu 3 2 [WithCauchyMatrix] = Inr r \<and>
    Split r (ofBytes [1, 2, 3, 4, 5, 6, 7]) = Inr ss \<and> Encode Amd64 r ss = Inr (coded, r1) \<and>
    Reconstruct Amd64 r1 (lose {0, 4} coded) = Inr (ss', r2) \<and>
    Join bufferWrite r2 [] ss' 7 = ([1, 2, 3, 4, 5, 6, 7], Inr ())"
proof -
  have "mdsChosen (applyOptions [WithCauchyMatrix] (buildOptions Amd64 testCpu)) (int 2)"
    by (simp add: mdsChosen_def applyOptions_def WithCauchyMatrix_def)
  moreover have "list_all exportedOption [WithCauchyMatrix]"
    by (simp add: exportedOption.intros)
  ultimately obtain r ss coded r1 where "New Amd64 testCpu (int 3) (int 2) [WithCauchyMatrix] = Inr r"
    "Split r (ofBytes [1, 2, 3, 4, 5, 6, 7]) = Inr ss" "Encode Amd64 r ss = Inr (coded, r1)"
    "\<forall>lost. lost \<subseteq> {..<3 + 2} \<and> card lost \<le> 2 \<longrightarrow>
      (\<exists>ss' r2. Reconstruct Amd64 r1 (lose lost coded) = Inr (ss', r2) \<and>
        Join bufferWrite r2 [] ss' (int (length [1, 2, 3, 4, 5, 6, 7 :: byte])) = ([1, 2, 3, 4, 5, 6, 7], Inr ()))"
    using store_recover [OF cpuOk_testCpu, of "[WithCauchyMatrix]" Amd64 2 3 "[1, 2, 3, 4, 5, 6, 7]"]
    by auto
  then show ?thesis
    by (auto dest!: spec [of _ "{0, 4}"])
qed

subsection \<open>The PAR1 matrix\<close>

lemma New_parts:
  assumes "New a cpu (int d) (int p) fs = Inr r" and "0 < d" and "0 < p" and "d + p \<le> 256"
  shows "chooseMatrix (applyOptions fs (buildOptions a cpu)) (int d) (int p) (int (d + p)) =
      Inr (rsMatrix r)"
    and "tuneOptions a cpu d p (applyOptions fs (buildOptions a cpu)) = Inr (rsOpts r)"
  using assms wrap64_sum [OF assms(4)]
  by (auto simp: New_def Let_def bind_result_eq_Inr split: if_splits)

lemma galExp_7_24: "galExp 7 0 = galExp 24 0" "galExp 7 3 = galExp 24 3"
  by code_simp+

lemma par1_row:
  assumes "buildMatrixPAR1 (int d) (int (d + p)) = Inr m" and "0 < d" and "i < p" and "c < d"
  shows "m ! (d + i) ! c = galExp (word_of_nat (c + 1)) i"
  using assms by (auto simp: buildMatrixPAR1_def newMatrix_def fillMatrix_def bind_result_eq_Inr split: if_splits)

text \<open>Two sets of shards that differ, but not in the shards that are left.\<close>

definition par1Shards :: "slice list" where
  "par1Shards = map (\<lambda>i. ofBytes [if i = 6 \<or> i = 23 then 1
     else if i = 25 then galExp 7 1 XOR galExp 24 1
     else if i = 26 then galExp 7 2 XOR galExp 24 2 else 0]) [0..<28]"

lemma par1Shards_byte: "i < 28 \<Longrightarrow> bytesOf (par1Shards ! i) ! 0 = (if i = 6 \<or> i = 23 then 1
     else if i = 25 then galExp 7 1 XOR galExp 24 1
     else if i = 26 then galExp 7 2 XOR galExp 24 2 else 0)"
  by (simp add: par1Shards_def)

lemma galMultiply_bit: "galMultiply c 0 = 0" "galMultiply c 1 = c"
proof -
  have "GF (galMultiply c 0) = GF 0" "GF (galMultiply c 1) = GF c"
    by (simp_all only: gf_simps mult_zero_right mult_1_right)
  then show "galMultiply c 0 = 0" "galMultiply c 1 = c"
    by simp_all
qed

lemma foldl_skip: "(\<And>v x. \<not> P x \<Longrightarrow> f v x = v) \<Longrightarrow> foldl f v xs = foldl f v (filter P xs)"
  by (induction xs arbitrary: v) auto

lemma dotRow_zero: "(\<And>c. c < n \<Longrightarrow> g c = 0) \<Longrightarrow> dotRow n f g = 0"
  unfolding dotRow_def by (induction n) (simp_all add: galMultiply_bit)

lemma dotRow_two: "dotRow 24 f (\<lambda>c. if c = 6 \<or> c = 23 then 1 else 0) = f 6 XOR f 23"
proof -
  have "dotRow 24 f (\<lambda>c. if c = 6 \<or> c = 23 then 1 else 0) =
      foldl (\<lambda>v c. v XOR galMultiply (f c) (if c = 6 \<or> c = 23 then 1 else 0)) 0
        (filter (\<lambda>c. c = 6 \<or> c = 23) [0..<24])"
    unfolding dotRow_def by (rule foldl_skip) (simp add: galMultiply_bit)
  also have "filter (\<lambda>c. c = 6 \<or> c = 23) [0..<24 :: nat] = [6, 23]"
    by (simp add: upt_rec)
  finally show ?thesis
    by (simp add: galMultiply_bit)
qed

lemma par1_indistinguishable:
  "lose {6, 23, 25, 26} par1Shards = lose {6, 23, 25, 26} (replicate 28 (ofBytes [0]))"
  by (auto simp: lose_def par1Shards_def)

lemma par1Shards_consistent:
  assumes "DataShards r = 24" and "ParityShards r = 4"
    and row: "\<And>i c. i < 4 \<Longrightarrow> c < 24 \<Longrightarrow> rsParity r ! i ! c = galExp (word_of_nat (c + 1)) i"
  shows "consistent r 1 par1Shards"
  unfolding consistent_def assms(1,2)
proof (intro allI impI)
  fix i q :: nat
  assume i: "i < 4" and q: "q < 1"
  have "dotRow 24 (\<lambda>c. rsParity r ! i ! c) (\<lambda>c. bytesOf (par1Shards ! c) ! q) =
      dotRow 24 (\<lambda>c. galExp (word_of_nat (c + 1)) i) (\<lambda>c. if c = 6 \<or> c = 23 then 1 else 0)"
    unfolding dotRow_def using q by (intro foldl_cong) (simp_all add: row i par1Shards_byte)
  also have "\<dots> = galExp 7 i XOR galExp 24 i"
    by (simp add: dotRow_two)
  also have "\<dots> = bytesOf (par1Shards ! (24 + i)) ! q"
  proof -
    consider "i = 0" | "i = 1" | "i = 2" | "i = 3"
      using i by linarith
    then show ?thesis
      by cases (use q in \<open>simp_all add: par1Shards_byte galExp_7_24\<close>)
  qed
  finally show "bytesOf (par1Shards ! (24 + i)) ! q =
      dotRow 24 (\<lambda>c. rsParity r ! i ! c) (\<lambda>c. bytesOf (par1Shards ! c) ! q)" ..
qed

text \<open>
  Two codewords that are equal on the shards that are left cannot both be what \<open>Reconstruct\<close> returns,
  so the matrix of these shards is singular.
\<close>

lemma ambiguous_loss_singular:
  assumes inv: "encInv a r" and safe: "poolSafe a r"
    and xs: "shardsOk r sz xs" "consistent r sz xs" and ys: "shardsOk r sz ys" "consistent r sz ys"
    and same: "lose lost xs = lose lost ys" and enough: "DataShards r \<le> numPresent (lose lost xs)"
    and i: "i < Shards r" "bytesOf (xs ! i) \<noteq> bytesOf (ys ! i)"
  shows "Reconstruct a r (lose lost xs) = Inl ErrSingular"
proof -
  have "poolSafe a r \<or> False"
    using safe by simp
  note outcome = reconstruct_cases [OF inv this _ _ _ enough]
  show ?thesis
  proof (cases "reconstruct a r (lose lost xs) False")
    case (Inl e)
    then show ?thesis
      using outcome [OF xs lose_erased] by (simp add: Reconstruct_def)
  next
    case (Inr res)
    obtain ss' r' where res: "res = (ss', r')"
      by (cases res)
    have "bytesOf (ss' ! i) = bytesOf (xs ! i)"
      using outcome [OF xs lose_erased] i(1) unfolding Inr res by (simp add: recovers_def)
    moreover have "bytesOf (ss' ! i) = bytesOf (ys ! i)"
      using outcome [OF ys lose_erased [of ys lost, folded same]] i(1)
      unfolding Inr res by (simp add: recovers_def)
    ultimately show ?thesis
      using i(2) by simp
  qed
qed

text \<open>
  C39. The PAR1 matrix does not keep the promise of the codec: with 24 data and 4 parity shards there
  is a loss of 4 shards that \<open>Reconstruct\<close> answers with \<open>errSingular\<close>.
\<close>

theorem par1_unrecoverable:
  "\<exists>r ss. New Amd64 testCpu 24 4 [WithPAR1Matrix] = Inr r \<and>
    shardsOk r 1 par1Shards \<and> consistent r 1 par1Shards \<and> erasedFrom par1Shards ss \<and>
    DataShards r \<le> numPresent ss \<and> Reconstruct Amd64 r ss = Inl ErrSingular"
proof -
  have fs: "list_all exportedOption [WithPAR1Matrix]"
    by (simp add: exportedOption.intros)
  obtain r where new: "New Amd64 testCpu (int 24) (int 4) [WithPAR1Matrix] = Inr r"
    and inv: "encInv Amd64 r" and dp: "DataShards r = 24" "ParityShards r = 4"
    by (rule New_Inr [OF cpuOk_testCpu fs, of 24 4 Amd64]) auto
  have t: "Shards r = 28"
    using inv dp by (simp add: encInv_def)
  have "buildMatrixPAR1 (int 24) (int (24 + 4)) = Inr (rsMatrix r)"
    using New_parts(1) [OF new] by (simp add: chooseMatrix_def applyOptions_def buildOptions_def
        defaultOptions_def WithPAR1Matrix_def)
  then have "rsParity r ! i ! c = galExp (word_of_nat (c + 1)) i" if "i < 4" "c < 24" for i c
    using par1_row [of 24 4 "rsMatrix r" i c] rsParity_row(1) [OF inv, of i] dp that by simp
  then have ones: "consistent r 1 par1Shards"
    by (rule par1Shards_consistent [OF dp])
  let ?zero = "replicate 28 (ofBytes [0 :: byte])" and ?ss = "lose {6, 23, 25, 26} par1Shards"
  have ok: "shardsOk r 1 ?zero" "shardsOk r 1 par1Shards"
    using t by (auto simp: shardsOk_def par1Shards_def sliceWf_def ofBytes_def sliceCap_def)
  have zero: "consistent r 1 ?zero"
    using dp by (auto simp: consistent_def intro!: dotRow_zero)
  have "numPresent ?ss = card ({..<length par1Shards} - {6, 23, 25, 26})"
    using ok(2) by (intro numPresent_lose) (auto simp: shardsOk_def)
  also have "\<dots> = 24"
    by (simp add: par1Shards_def card_Diff_subset)
  finally have enough: "DataShards r \<le> numPresent ?ss"
    by (simp add: dp)
  have "poolSafe Amd64 r" "6 < Shards r" "bytesOf (par1Shards ! 6) \<noteq> bytesOf (?zero ! 6)"
    using dp t by (simp_all add: poolSafe_def par1Shards_def)
  then have "Reconstruct Amd64 r ?ss = Inl ErrSingular"
    by (rule ambiguous_loss_singular [OF inv _ ok(2) ones ok(1) zero par1_indistinguishable enough])
  then show ?thesis
    using new ok(2) ones lose_erased enough by auto
qed

subsection \<open>A short buffer in the pool\<close>

lemma decodeMatrix_keeps:
  "decodeMatrix r valid invalid = Inr (D, r') \<Longrightarrow> \<exists>t. r' = r\<lparr>rsTree := t\<rparr>"
  by (auto simp: decodeMatrix_def bind_result_eq_Inr split: option.splits intro: exI [of _ "rsTree r"])

text \<open>The coding call of \<open>ReconstructData\<close> is the one that leaves the buffer.\<close>

lemma ReconstructData_pool:
  assumes "reconstruct a r ss True = Inr (ss', r')" and "length ss = Shards r"
    and "DataShards r \<le> numPresent ss" and "missingShards 0 (DataShards r) ss \<noteq> []"
    and "DataShards r \<le> Shards r"
  shows "\<exists>rows sub tasks. codePlan a (rsOpts r) (rsPool r) rows sub
      (length (missingShards 0 (DataShards r) ss)) (shardSize ss) = Inr (tasks, rsPool r') \<and>
    length sub = DataShards r"
proof -
  let ?d = "DataShards r"
  obtain sub valid invalid where sub: "subShardsFrom ss 0 ?d = (sub, valid, invalid)"
    by (metis prod_cases3)
  have "rowsChosen ss 0 ?d sub valid invalid"
    using subShardsFrom_rows [OF sub] assms(3) by (simp add: numPresent_def)
  then have "length valid = ?d" "sub = map (\<lambda>v. ss ! (v - 0)) valid"
    unfolding rowsChosen_def by blast+
  then have len: "length sub = ?d"
    by (simp only: length_map)
  obtain i where i: "i < ?d" "sliceLen (ss ! i) = 0"
    using assms(4) by (auto simp: missingShards_def filter_empty_conv)
  have "take ?d ss ! i = ss ! i" "i < length (take ?d ss)"
    using i assms(2,5) by simp_all
  then have some: "\<exists>s\<in>set (take ?d ss). sliceLen s = 0" "\<exists>s\<in>set ss. sliceLen s = 0"
    using i(2) nth_mem [of i "take ?d ss"] nth_mem [of i ss] by auto
  then have "length (filter (\<lambda>s. sliceLen s \<noteq> 0) ss) \<noteq> length ss"
    "length (filter (\<lambda>s. sliceLen s \<noteq> 0) (take ?d ss)) \<noteq> length (take ?d ss)"
    using length_filter_less [of _ ss "\<lambda>s. sliceLen s \<noteq> 0"]
      length_filter_less [of _ "take ?d ss" "\<lambda>s. sliceLen s \<noteq> 0"] by fastforce+
  then have cond: "\<not> (length (filter (\<lambda>s. sliceLen s \<noteq> 0) ss) = Shards r \<or>
      True \<and> length (filter (\<lambda>s. sliceLen s \<noteq> 0) (take ?d ss)) = ?d)"
    "\<not> length (filter (\<lambda>s. sliceLen s \<noteq> 0) ss) < ?d"
    using assms(2,3,5) by (simp_all add: numPresent_def)
  have check: "checkShards ss True = Inr ()"
    using assms(1,2) by (cases "checkShards ss True") (simp_all add: reconstruct_def)
  note step = assms(1) [unfolded reconstruct_def Let_def check bind_result_simps sub prod.case
      if_not_P [OF cond(1)] if_not_P [OF cond(2)] if_True]
  obtain Dr where Dr: "decodeMatrix r valid invalid = Inr Dr"
    using step assms(2) by (cases "decodeMatrix r valid invalid") simp_all
  obtain D r1 where D: "decodeMatrix r valid invalid = Inr (D, r1)"
    using Dr by (cases Dr) simp
  have "codeMissing a r1 ss (missingShards 0 ?d ss)
      (map (\<lambda>i. D ! i) (missingShards 0 ?d ss) @ replicate (ParityShards r - length (missingShards 0 ?d ss)) [])
      sub (shardSize ss) = Inr (ss', r')"
    using step assms(2) unfolding D bind_result_simps prod.case
    by (cases "codeMissing a r1 ss (missingShards 0 ?d ss)
      (map (\<lambda>i. D ! i) (missingShards 0 ?d ss) @ replicate (ParityShards r - length (missingShards 0 ?d ss)) [])
      sub (shardSize ss)") (auto split: if_splits)
  note run = this
  obtain t where "r1 = r\<lparr>rsTree := t\<rparr>"
    using decodeMatrix_keeps [OF D] by blast
  then show ?thesis
    using run len
    by (intro exI [of _ "map (\<lambda>i. D ! i) (missingShards 0 ?d ss) @
        replicate (ParityShards r - length (missingShards 0 ?d ss)) []"] exI [of _ sub])
      (auto simp: codeMissing_def codeSomeShards_def bind_result_eq_Inr)
qed

text \<open>Where one output is computed the buffer goes back with the length of its tables.\<close>

lemma genAvx2Matrix_len:
  "genAvx2Matrix cg M nIn inIdx nOut dst = Inr m \<Longrightarrow> 0 < nIn * nOut \<Longrightarrow> sliceLen m = nIn * nOut * 64"
  by (cases dst) (auto simp: genAvx2Matrix_def Let_def bind_result_eq_Inr makeSlice_def reslice_def
      sliceCap_def split: if_splits)

lemma one_output_pool:
  assumes "codePlan Amd64 opts pool rows sub 1 sz = Inr (tasks, pool')"
    and "useAVX2 opts" "\<not> useAVX512 opts" and "2 \<le> length sub" "length sub \<le> 10" and "64 \<le> sz"
    and "minSplitSize opts < int sz"
  shows "sliceLen pool' = length sub * 64"
proof -
  have "canAVX2C Amd64 opts sz (length sub) 1"
    using assms by (simp add: canAVX2C_def avx2CodeGen_def maxAvx2Inputs_def maxAvx2Outputs_def)
  then have "genAvx2Matrix True rows (length sub) 0 1 pool = Inr pool'"
    using assms(1,3,7) by (auto simp: codePlan_def parallelPlan_def Let_def bind_result_eq_Inr
        avx2CodeGen_def split: if_splits)
  then show ?thesis
    using genAvx2Matrix_len assms(4) by fastforce
qed

lemma short_tiles:
  assumes pool: "sliceLen pool < nIn * 640" and nIn: "0 < nIn" "nIn \<le> 10" and nOut: "10 < nOut"
  shows "avxpPlan Amd64 opts pool M nIn nOut sz = Inl Panic"
proof -
  have outs: "chunks 10 0 nOut = (0, 10) # chunks 10 10 nOut"
    using nOut by (subst chunks.simps) simp
  have ins: "chunks 10 0 nIn = [(0, nIn)]"
    using nIn by (subst chunks.simps, subst chunks.simps) simp
  let ?ts = "map prod.swap (List.product (chunks 10 10 nOut) [(0, nIn)])"
  have "planTiles Amd64 M pool (((0, nIn), (0, 10)) # ?ts) = Inl Panic"
  proof (cases "genAvx2Matrix True M nIn 0 10 pool")
    case (Inl e)
    then have "e = Panic"
      by (auto simp: genAvx2Matrix_def Let_def bind_result_def reslice_def split: if_splits sum.splits)
    then show ?thesis
      using Inl by (simp add: avx2CodeGen_def)
  next
    case (Inr m)
    then have "sliceLen m = nIn * 640"
      using genAvx2Matrix_len nIn(1) by fastforce
    then have "resliceFrom pool (sliceLen m) = Inl Panic"
      using pool by (simp add: resliceFrom_def reslice_def)
    then show ?thesis
      using Inr by (simp add: avx2CodeGen_def)
  qed
  then show ?thesis
    using nIn nOut by (simp add: avxpPlan_def Let_def maxAvx2Inputs_def maxAvx2Outputs_def avx2CodeGen_def
        outs ins)
qed

lemma filter_eq_upt: "i < n \<Longrightarrow> filter (\<lambda>j. j = i) [0..<n] = [i]"
  by (induction n) (auto simp: less_Suc_eq filter_empty_conv)

text \<open>With one data shard lost, it is the only one missing, and the size is that of the others.\<close>

lemma one_lost:
  assumes inv: "encInv a r" and ok: "shardsOk r sz orig" and i: "i < DataShards r" and p: "0 < ParityShards r"
  shows "numPresent (lose {i} orig) = Shards r - 1" and "missingShards 0 (DataShards r) (lose {i} orig) = [i]"
    and "shardSize (lose {i} orig) = sz"
proof -
  let ?d = "DataShards r" and ?ss = "lose {i} orig"
  have t: "Shards r = ?d + ParityShards r" and len: "length orig = Shards r" and sz: "0 < sz"
    using inv ok by (auto simp: encInv_def shardsOk_def)
  have sizes: "sliceLen (orig ! j) = sz" if "j < Shards r" for j
    using ok len that by (simp add: shardsOk_def)
  have pos: "\<forall>s\<in>set orig. sliceLen s \<noteq> 0"
    using ok by (auto simp: shardsOk_def)
  show "numPresent ?ss = Shards r - 1"
    using i t by (simp add: numPresent_lose [OF pos] len card_Diff_subset)
  have "missingShards 0 ?d ?ss = filter (\<lambda>j. j = i) [0..<?d]"
    unfolding missingShards_def using sizes sz t len by (intro filter_cong) (auto simp: lose_def)
  also have "\<dots> = [i]"
    by (rule filter_eq_upt [OF i])
  finally show "missingShards 0 ?d ?ss = [i]" .
  show "shardSize ?ss = sz"
  proof (rule shardSize_eq)
    show "sliceLen s = 0 \<or> sliceLen s = sz" if "s \<in> set ?ss" for s
      using that sizes len by (auto simp: lose_def)
    have "?d < length ?ss" "?ss ! ?d = orig ! ?d"
      using i t p len by (simp_all add: lose_def)
    then show "orig ! ?d \<in> set ?ss"
      using nth_mem by metis
  qed (use sizes t p sz in simp_all)
qed

text \<open>A pool filled for one output is too short for the tiles of more than ten outputs.\<close>

lemma short_pool_plan:
  assumes cpu: "useAVX2 opts" "\<not> useAVX512 opts"
    and shape: "length inputs = d" "2 \<le> d" "d \<le> 10" "10 < p"
    and sz: "256 \<le> sz" "sz < 10 * 2 ^ 20" "minSplitSize opts < int sz"
    and short: "sliceLen pool < d * 640"
  shows "codePlan Amd64 opts pool rows inputs p sz = Inl Panic"
proof -
  have "canAVX2C Amd64 opts (sz div 4) 10 10"
    using sz(1) cpu(1) by (simp add: canAVX2C_def avx2CodeGen_def maxAvx2Inputs_def maxAvx2Outputs_def)
  moreover have "\<not> canAVX2C Amd64 opts sz d p"
    using shape(4) by (simp add: canAVX2C_def avx2CodeGen_def maxAvx2Outputs_def)
  ultimately show ?thesis
    using short_tiles [OF short _ shape(3,4)] shape sz cpu
    by (simp add: codePlan_def parallelPlan_def Let_def maxAvx2Inputs_def maxAvx2Outputs_def avx2CodeGen_def)
qed

text \<open>
  C40. Where the AVX2 code runs with at most 10 data and more than 10 parity shards, \<open>Encode\<close> panics
  after a reconstruction of one data shard: \<open>codeSomeShardsP\<close>, which the reconstruction calls with
  one output, puts the buffer back into the pool cut to the tables of that output, as
  \<open>codeSomeShards\<close> does too, and \<open>codeSomeShardsAVXP\<close>, which \<open>Encode\<close> calls, then slices beyond the
  length of the buffer it gets.  The shards are of 256 bytes at least, above the splitting size and
  below 10 MB.
\<close>

theorem short_pool_panics:
  assumes inv: "encInv Amd64 r" and cpu: "useAVX2 (rsOpts r)" "\<not> useAVX512 (rsOpts r)"
    and shape: "2 \<le> DataShards r" "DataShards r \<le> 10" "10 < ParityShards r"
    and mds: "mds_matrix (DataShards r) (Shards r) (rsMatrix r)"
    and ok: "shardsOk r sz orig" and cons: "consistent r sz orig" and i: "i < DataShards r"
    and sz: "256 \<le> sz" "sz < 10 * 2 ^ 20" "minSplitSize (rsOpts r) < int sz"
  shows "\<exists>ss' r'. ReconstructData Amd64 r (lose {i} orig) = Inr (ss', r') \<and>
    Encode Amd64 r' orig = Inl Panic"
proof -
  let ?d = "DataShards r" and ?p = "ParityShards r" and ?ss = "lose {i} orig"
  have t: "Shards r = ?d + ?p" and len: "length orig = Shards r" and p: "0 < ?p"
    using inv ok shape(3) by (auto simp: encInv_def shardsOk_def)
  note one = one_lost [OF inv ok i p]
  have enough: "?d \<le> numPresent ?ss"
    using t shape(3) by (simp add: one(1))
  obtain ss' r' where run: "reconstruct Amd64 r ?ss True = Inr (ss', r')"
    and r': "\<exists>t pool. r' = r\<lparr>rsTree := t, rsPool := pool\<rparr>"
    using reconstruct_cases [OF inv disjI2 [OF TrueI] ok cons lose_erased enough] mds
    by (cases "reconstruct Amd64 r ?ss True") auto
  have "length ?ss = Shards r" "missingShards 0 ?d ?ss \<noteq> []" "?d \<le> Shards r" "length [i] = 1"
    using len t by (simp_all add: one(2)) (simp add: lose_def)
  then obtain rows sub tasks where "codePlan Amd64 (rsOpts r) (rsPool r) rows sub 1 sz = Inr (tasks, rsPool r')"
    and "length sub = ?d"
    using ReconstructData_pool [OF run _ enough] unfolding one(2,3) by metis
  then have "sliceLen (rsPool r') = ?d * 64"
    using one_output_pool cpu shape(1,2) sz(1,3) by fastforce
  then have short: "sliceLen (rsPool r') < ?d * 640"
    using shape(1) by simp
  have "length (take ?d orig) = ?d"
    using len t by simp
  then have "codePlan Amd64 (rsOpts r) (rsPool r') (rsParity r) (take ?d orig) ?p sz = Inl Panic"
    by (rule short_pool_plan [OF cpu _ shape sz short])
  moreover have "DataShards r' = ?d" "ParityShards r' = ?p" "Shards r' = Shards r" "rsOpts r' = rsOpts r"
    "rsParity r' = rsParity r"
    using r' by auto
  ultimately have "Encode Amd64 r' orig = Inl Panic"
    using shardsOk_check [OF inv ok] t len by (simp add: Encode_def codeSomeShards_def)
  then show ?thesis
    using run by (auto simp: ReconstructData_def)
qed

lemma capGoroutines_keeps [simp]:
  "useAVX2 (capGoroutines a opts) = useAVX2 opts" "useAVX512 (capGoroutines a opts) = useAVX512 opts"
  "minSplitSize (capGoroutines a opts) = minSplitSize opts"
  by (simp_all add: capGoroutines_def)

lemma short_pool_panics_witness:
  "\<exists>r ss r'. New Amd64 testCpu 2 11 [] = Inr r \<and>
    ReconstructData Amd64 r (lose {0} (replicate 13 (makeSlice 4096))) = Inr (ss, r') \<and>
    Encode Amd64 r' (replicate 13 (makeSlice 4096)) = Inl Panic"
proof -
  let ?ss = "replicate 13 (makeSlice 4096)"
  have mds: "mdsChosen (applyOptions [] (buildOptions Amd64 testCpu)) (int 11)"
    by (simp add: mdsChosen_def applyOptions_def buildOptions_def defaultOptions_def)
  obtain r where new: "New Amd64 testCpu (int 2) (int 11) [] = Inr r" and r: "encInv Amd64 r" "DataShards r = 2"
      "ParityShards r = 11" "mds_matrix 2 (2 + 11) (rsMatrix r)"
    using New_Inr [OF cpuOk_testCpu, of "[]" 2 11 Amd64] mds by auto
  have "tuneOptions Amd64 testCpu 2 11 (defaultOptions testCpu) = Inr (rsOpts r)"
    using New_parts(2) [OF new] by (simp add: applyOptions_def buildOptions_def)
  then have opts: "useAVX2 (rsOpts r)" "\<not> useAVX512 (rsOpts r)" "minSplitSize (rsOpts r) = 2730"
    by (auto simp: tuneOptions_def autoGoroutines_def chooseMinSplit_def defaultOptions_def testCpu_def
        dest: sym [of _ "rsOpts r"])
  have t: "Shards r = 13"
    using r by (simp add: encInv_def)
  have "bytesOf (makeSlice 4096) ! q = 0" if "q < 4096" for q
    using that by (simp add: makeSlice_def bytesOf_def)
  then have "consistent r 4096 ?ss"
    using r(2,3) by (auto simp: consistent_def intro!: dotRow_zero)
  moreover have "shardsOk r 4096 ?ss"
    using t by (simp add: shardsOk_def makeSlice_def sliceWf_def sliceCap_def)
  ultimately show ?thesis
    using short_pool_panics [OF r(1) opts(1,2), of 4096 ?ss 0] r(2-4) t opts(3) new by auto
qed

end
