(* ===== verification/Node.thy ===== *)
theory Node
  imports NodeWorld Pipeline
begin

text \<open>
  The objects of the mobile node, \<open>put\<close> and \<open>read\<close> of \<open>lib/mobile/node.go\<close>: an object is cut into
  8 data and 4 parity shards, and every shard is sealed and stored in its own file.  The map
  \<open>files\<close> of the code is an association list: its order stands for the order of Go's map
  iteration.  Paths, file modes and the locks are not modelled: an operation is one step.
\<close>

definition MaxObject :: nat where
  "MaxObject = 12 * 1024 * 1024"

definition nodeData :: nat where
  "nodeData = 8"

definition nodeParity :: nat where
  "nodeParity = 4"

record node =
  nodeId :: string
  capability :: string
  nodeUrl :: string
  quota :: int
  aeadKey :: "byte list"
  files :: "(string \<times> fileMeta) list"
  listening :: bool

subsection \<open>\<open>put\<close>\<close>

text \<open>
  The bytes in use: those of the files in the object directories, the only files the node makes
  under \<open>objects\<close>.  The code also counts other files there, and skips one whose size it cannot read.
\<close>

definition usage :: "'e world \<Rightarrow> nat" where
  "usage w = sum_list (map (\<lambda>(obj, dir). sum_list (map (\<lambda>(f, b). length b) dir)) (objects w))"

definition containsAny :: "string \<Rightarrow> string \<Rightarrow> bool" where
  "containsAny s chars \<longleftrightarrow> list_ex (\<lambda>c. c \<in> set chars) s"

definition containsDots :: "string \<Rightarrow> bool" where
  "containsDots s \<longleftrightarrow> list_ex (\<lambda>i. s ! i = CHR ''.'' \<and> s ! (i + 1) = CHR ''.'') [0..<length s - 1]"

definition badNames :: "string \<Rightarrow> string \<Rightarrow> string \<Rightarrow> bool" where
  "badNames token name folder \<longleftrightarrow>
     token = [] \<or> 256 < length token \<or> name = [] \<or> 200 < length name \<or> 200 < length folder \<or>
     containsAny name [CHR ''/'', CHR 0x5C, CHR 0x00] \<or> containsDots folder \<or>
     containsAny folder [CHR 0x5C, CHR 0x00]"

definition sameObject :: "string \<Rightarrow> string \<Rightarrow> string \<Rightarrow> string \<Rightarrow> fileMeta \<Rightarrow> bool" where
  "sameObject token name folder digest f \<longleftrightarrow>
     fileToken f = token \<and> fileName f = name \<and> fileFolder f = folder \<and> fileSHA f = digest"

text \<open>\<open>os.Mkdir\<close> on an object directory.\<close>

definition makeDir :: "'e platform \<Rightarrow> string \<Rightarrow> ('e world, unit) io" where
  "makeDir p obj = bindIo (sysCall p) (\<lambda>_ w.
     if map_of (objects w) obj \<noteq> None then (Inl IoExist, w)
     else (Inr (), w\<lparr>objects := AList.update obj [] (objects w)\<rparr>))"

text \<open>
  \<open>os.RemoveAll\<close> on an object directory: it is opened, its files are removed one after the other, and
  then the directory itself.  Every call can fail; after a file that cannot be removed the others
  are still tried, but the directory, not being empty, stays, and the last error is returned.
\<close>

definition unlink :: "string \<Rightarrow> string \<Rightarrow> 'e world \<Rightarrow> 'e world" where
  "unlink obj f w =
     (case map_of (objects w) obj of
        None \<Rightarrow> w
      | Some dir \<Rightarrow> w\<lparr>objects := AList.update obj (AList.delete f dir) (objects w)\<rparr>)"

fun unlinkAll :: "'e platform \<Rightarrow> string \<Rightarrow> string list \<Rightarrow> ('e world, unit) io" where
  "unlinkAll p obj [] = ret ()"
| "unlinkAll p obj (f # fs) = (\<lambda>w.
     case sysCall p w of
       (Inl e, w) \<Rightarrow>
         (case unlinkAll p obj fs w of (Inl e', w) \<Rightarrow> (Inl e', w) | (Inr _, w) \<Rightarrow> (Inl e, w))
     | (Inr _, w) \<Rightarrow> unlinkAll p obj fs (unlink obj f w))"

definition dirNames :: "string \<Rightarrow> 'e world \<Rightarrow> string list" where
  "dirNames obj w = (case map_of (objects w) obj of None \<Rightarrow> [] | Some dir \<Rightarrow> map fst dir)"

definition removeDir :: "'e platform \<Rightarrow> string \<Rightarrow> ('e world, unit) io" where
  "removeDir p obj = bindIo (sysCall p) (\<lambda>_ w.
     case unlinkAll p obj (dirNames obj w) w of (res, w) \<Rightarrow>
     case sysCall p w of (rmdir, w) \<Rightarrow>
       (case res of Inl e \<Rightarrow> (Inl e, w)
        | Inr _ \<Rightarrow>
       (case rmdir of Inl e \<Rightarrow> (Inl e, w)
        | Inr _ \<Rightarrow> (Inr (), w\<lparr>objects := AList.delete obj (objects w)\<rparr>))))"

definition shardLabel :: "string \<Rightarrow> nat \<Rightarrow> string" where
  "shardLabel obj i = obj @ '':'' @ natString i"

text \<open>The body of the loop over the shards.\<close>

definition storeShard :: "'e platform \<Rightarrow> node \<Rightarrow> string \<Rightarrow> nat \<times> slice \<Rightarrow> ('e world, chunk) io" where
  "storeShard p n obj ip =
     (case ip of (i, part) \<Rightarrow>
      bindIo (randomBytes p (nonceSize p)) (\<lambda>nonce.
      let payload = nonce @ sealWith p (aeadKey n) nonce (bytesOf part) (shardLabel obj i) in
      bindIo (atomic p (InObject obj (natString i)) payload) (\<lambda>_.
      bindIo (uuid p) (\<lambda>cid.
      ret \<lparr>chunkNum = int i, chunkId = cid, chunkSHA = hash p payload, chunkSize = int (length payload),
        chunkEncrypted = True\<rparr>))))"

definition encodeObject :: "'e platform \<Rightarrow> slice \<Rightarrow> slice list result" where
  "encodeObject p data =
     bind_result (New (pArch p) (pCpu p) (int nodeData) (int nodeParity) []) (\<lambda>enc.
     bind_result (Split enc data) (\<lambda>shards.
     bind_result (Encode (pArch p) enc shards) (\<lambda>(shards, enc). Inr shards)))"

definition storeObject :: "'e platform \<Rightarrow> node \<Rightarrow> string \<Rightarrow> string \<Rightarrow> string \<Rightarrow> string \<Rightarrow> string \<Rightarrow> slice \<Rightarrow>
    ('e world, fileMeta) io" where
  "storeObject p n obj token name folder digest data =
     bindIo (\<lambda>w. (encodeObject p data, w)) (\<lambda>shards.
     bindIo (timeNow p) (\<lambda>now.
     bindIo (mapIo (storeShard p n obj) (zip [0..<length shards] shards)) (\<lambda>chunks.
     let f = \<lparr>fileId = obj, fileName = name, fileFolder = folder, fileToken = token,
       fileSize = int (sliceLen data), fileCreated = now, fileStatus = ''stored'', fileSHA = digest,
       fileData = int nodeData, fileParity = int nodeParity, fileChunks = chunks\<rparr> in
     bindIo (atomic p (InObject obj ''metadata.json'') (marshal p f)) (\<lambda>_. ret f))))"

text \<open>
  \<open>put\<close> from the new UUID on: where it fails the deferred \<open>os.RemoveAll\<close> removes the directory again;
  the error of that removal is ignored.
\<close>

definition putNew :: "'e platform \<Rightarrow> node \<Rightarrow> string \<Rightarrow> string \<Rightarrow> string \<Rightarrow> string \<Rightarrow> slice \<Rightarrow> ('e world, fileMeta) io" where
  "putNew p n token name folder digest data =
     bindIo (uuid p) (\<lambda>obj. bindIo (makeDir p obj) (\<lambda>_ w.
       case storeObject p n obj token name folder digest data w of
         (Inl e, w) \<Rightarrow> (case removeDir p obj w of (_, w) \<Rightarrow> (Inl e, w))
       | (Inr f, w) \<Rightarrow> (Inr f, w)))"

definition put :: "'e platform \<Rightarrow> node \<Rightarrow> string \<Rightarrow> string \<Rightarrow> string \<Rightarrow> slice \<Rightarrow> 'e world \<Rightarrow>
    fileMeta result \<times> node \<times> 'e world" where
  "put p n token name folder data w =
     (if badNames token name folder then (Inl (NodeError ''invalid object namespace or name''), n, w)
      else if sliceLen data = 0 \<or> MaxObject < sliceLen data
      then (Inl (NodeError ''object must contain 1 byte to 12 MiB''), n, w)
      else
        let digest = hash p (bytesOf data) in
        case find (\<lambda>(k, f). sameObject token name folder digest f) (files n) of
          Some (k, f) \<Rightarrow> (Inr f, n, w)
        | None \<Rightarrow>
            if quota n < int (usage w) + int (sliceLen data) * 2 + 8192
            then (Inl (NodeError ''node storage quota reached''), n, w)
            else
              (case putNew p n token name folder digest data w of
                 (Inl e, w) \<Rightarrow> (Inl e, n, w)
               | (Inr f, w) \<Rightarrow> (Inr f, n\<lparr>files := AList.update (fileId f) f (files n)\<rparr>, w)))"

subsection \<open>\<open>read\<close>\<close>

text \<open>
  One shard: what \<open>readShard\<close> leaves in \<open>shards[i]\<close>.  \<open>aead.Open(nil, ...)\<close> returns a slice of just
  the plain text, \<open>nil\<close> for an empty one.
\<close>

definition readShard :: "'e platform \<Rightarrow> node \<Rightarrow> string \<Rightarrow> nat \<Rightarrow> chunk \<Rightarrow> 'e world \<Rightarrow> slice option \<times> 'e world" where
  "readShard p n obj i c w =
     (case readFile p (InObject obj (natString i)) w of
        (Inl e, w) \<Rightarrow> (None, w)
      | (Inr b, w) \<Rightarrow>
          if hash p b \<noteq> chunkSHA c \<or> length b < nonceSize p then (None, w)
          else
            (case openWith p (aeadKey n) (take (nonceSize p) b) (drop (nonceSize p) b) (shardLabel obj i) of
               None \<Rightarrow> (None, w)
             | Some plain \<Rightarrow> (Some (if plain = [] then NilSlice else ofBytes plain), w)))"

fun readShardsFrom :: "'e platform \<Rightarrow> node \<Rightarrow> string \<Rightarrow> nat \<Rightarrow> chunk list \<Rightarrow> slice list \<Rightarrow> ('e world, slice list) io" where
  "readShardsFrom p n obj i [] shards = ret shards"
| "readShardsFrom p n obj i (c # cs) shards =
     (if chunkNum c \<noteq> int i then fail (NodeError ''invalid shard order'')
      else (\<lambda>w. case readShard p n obj i c w of
           (None, w) \<Rightarrow> readShardsFrom p n obj (i + 1) cs shards w
         | (Some s, w) \<Rightarrow>
             if i < length shards then readShardsFrom p n obj (i + 1) cs (shards[i := s]) w
             else (Inl Panic, w)))"

definition read :: "'e platform \<Rightarrow> node \<Rightarrow> fileMeta \<Rightarrow> ('e world, byte list) io" where
  "read p n f =
     bindIo (readShardsFrom p n (fileId f) 0 (fileChunks f) (replicate (nodeData + nodeParity) NilSlice)) (\<lambda>shards w.
       (bind_result (New (pArch p) (pCpu p) (int nodeData) (int nodeParity) []) (\<lambda>enc.
        bind_result (Reconstruct (pArch p) enc shards) (\<lambda>(shards, enc).
        (case Join bufferWrite enc [] shards (fileSize f) of
           (out, Inl e) \<Rightarrow> Inl e
         | (out, Inr _) \<Rightarrow>
             if hash p out \<noteq> fileSHA f then Inl (NodeError ''object SHA-256 mismatch'') else Inr out))), w))"

end
