(* ===== verification/NodeStore.thy ===== *)
theory NodeStore
  imports Node
begin

text \<open>
  What \<open>put\<close> stores and what \<open>read\<close> gives back.  A failing \<open>put\<close> leaves the storage as it was; one
  that succeeds adds one object directory with twelve sealed shards and the metadata, from any
  eight of which \<open>read\<close> gives the data again; the storage stays within the quota.
\<close>

subsection \<open>What the platform is relied on for\<close>

definition drawOk :: "'e platform \<Rightarrow> bool" where
  "drawOk p \<longleftrightarrow> (\<forall>e n b e'. draw p e n = (Inr b, e') \<longrightarrow> length b = n)"

definition aeadOk :: "'e platform \<Rightarrow> bool" where
  "aeadOk p \<longleftrightarrow> (\<forall>key nonce m ad. length nonce = nonceSize p \<longrightarrow>
     openWith p key nonce (sealWith p key nonce m ad) ad = Some m)"

text \<open>The data has no spare memory that \<open>Split\<close> would take for room for the parity, or enough of it.\<close>

definition roomy :: "slice \<Rightarrow> bool" where
  "roomy data \<longleftrightarrow> sliceCap data < 12 * ((sliceLen data + 7) div 8) \<or> sliceLen data + 8 \<le> sliceCap data"

text \<open>\<open>io.ReadAll\<close>, from which the data comes, starts with 512 bytes.\<close>

lemma readAll_roomy: "sliceWf data \<Longrightarrow> 512 \<le> sliceCap data \<Longrightarrow> roomy data"
  unfolding roomy_def sliceWf_def by linarith

subsection \<open>The coded object\<close>

definition coded :: "'e platform \<Rightarrow> reedSolomon \<Rightarrow> slice \<Rightarrow> byte list list \<Rightarrow> bool" where
  "coded p r data D \<longleftrightarrow> New (pArch p) (pCpu p) (int nodeData) (int nodeParity) [] = Inr r \<and>
     encInv (pArch p) r \<and> poolSafe (pArch p) r \<and> mds_matrix 8 12 (rsMatrix r) \<and>
     DataShards r = 8 \<and> ParityShards r = 4 \<and> Shards r = 12 \<and>
     sameLength 12 ((sliceLen data + 7) div 8) D \<and> consistent r ((sliceLen data + 7) div 8) (map ofBytes D) \<and>
     take (sliceLen data) (concat (take 8 D)) = bytesOf data"

lemma encodeObject_ok:
  assumes cpu: "cpuOk (pArch p) (pCpu p)" and data: "sliceWf data" "0 < sliceLen data" and room: "roomy data"
  obtains r shards where "encodeObject p data = Inr shards" and "coded p r data (map bytesOf shards)"
    and "length shards = 12"
proof -
  let ?a = "pArch p"
  have "mdsChosen (applyOptions [] (buildOptions ?a (pCpu p))) (int 4)"
    by (cases ?a) (simp_all add: mdsChosen_def applyOptions_def buildOptions_def defaultOptions_def)
  then obtain r where new: "New ?a (pCpu p) (int 8) (int 4) [] = Inr r" "encInv ?a r"
    "DataShards r = 8" "ParityShards r = 4" "mds_matrix 8 12 (rsMatrix r)"
    using New_Inr [OF cpu, of "[]" 8 4] by auto
  have t: "Shards r = 12"
    using new(2-4) by (simp add: encInv_def)
  have per: "perShardOf r data = (sliceLen data + 7) div 8"
    using new(3) by (simp add: perShardOf_def)
  let ?per = "(sliceLen data + 7) div 8"
  have "splitFits r data"
    using room by (simp add: splitFits_def t new(3) per roomy_def)
  then obtain ss where split: "Split r data = Inr ss" "shardsOk r ?per ss"
    "take (sliceLen data) (concat (map bytesOf (take 8 ss))) = bytesOf data"
    using Split_ok [OF new(2) data] new(3) unfolding per by auto
  obtain cs r1 where enc: "Encode ?a r ss = Inr (cs, r1)" "encInv ?a r1"
      "\<exists>pool. r1 = r\<lparr>rsPool := pool\<rparr>" "shardsOk r ?per cs" "take (DataShards r) cs = take (DataShards r) ss"
      "consistent r ?per cs"
    by (rule Encode_Inr [OF new(2) split(2)])
  have len: "length cs = 12" and each: "\<And>i. i < 12 \<Longrightarrow> sliceWf (cs ! i) \<and> sliceLen (cs ! i) = ?per"
    using enc(4) t by (auto simp: shardsOk_def)
  have "sameLength 12 ?per (map bytesOf cs)"
    using len each by (simp add: sameLength_def)
  moreover have "consistent r ?per cs = consistent r ?per (map ofBytes (map bytesOf cs))"
    using len new(3,4) by (intro consistent_cong) simp
  moreover have "take (sliceLen data) (concat (take 8 (map bytesOf cs))) = bytesOf data"
    using split(3) enc(5) new(3) by (simp add: take_map)
  moreover have "poolSafe ?a r"
    using new(4) by (simp add: poolSafe_def)
  ultimately have "coded p r data (map bytesOf cs)"
    using new t enc(6) by (simp add: coded_def nodeData_def nodeParity_def)
  moreover have "encodeObject p data = Inr cs"
    using new(1) split(1) enc(1) by (simp add: encodeObject_def nodeData_def nodeParity_def)
  ultimately show ?thesis
    using len by (intro that)
qed

subsection \<open>The object directory\<close>

text \<open>The world while \<open>put\<close> fills the directory of a new object, the last one.\<close>

definition filling :: "'e world \<Rightarrow> string \<Rightarrow> directory \<Rightarrow> 'e world \<Rightarrow> bool" where
  "filling w0 obj dir w \<longleftrightarrow> obj \<notin> fst ` set (objects w0) \<and> rootFiles w = rootFiles w0 \<and>
     objects w = objects w0 @ [(obj, dir)]"

lemma update_last: "k \<notin> fst ` set pre \<Longrightarrow> AList.update k v (pre @ [(k, v0)]) = pre @ [(k, v)]"
  by (induction pre) auto

lemma update_new: "k \<notin> fst ` set al \<Longrightarrow> AList.update k v al = al @ [(k, v)]"
  by (induction al) auto

lemma delete_last: "k \<notin> fst ` set pre \<Longrightarrow> AList.delete k (pre @ [(k, v)]) = pre"
  by (induction pre) auto

lemma map_of_last: "k \<notin> fst ` set pre \<Longrightarrow> map_of (pre @ [(k, v)]) k = Some v"
  by (auto simp: map_add_Some_iff map_of_eq_None_iff)

lemma filling_same: "filling w0 obj dir w \<Longrightarrow> sameFiles w w' \<Longrightarrow> filling w0 obj dir w'"
  by (simp add: filling_def sameFiles_def)

lemma filling_store:
  assumes "filling w0 obj dir w"
  shows "hasDir (InObject obj f) w" and "filling w0 obj (AList.update f b dir) (store (InObject obj f) b w)"
proof -
  have "map_of (objects w) obj = Some dir"
    using assms map_of_last [of obj "objects w0" dir] by (simp add: filling_def)
  then show "hasDir (InObject obj f) w" "filling w0 obj (AList.update f b dir) (store (InObject obj f) b w)"
    using assms by (auto simp: filling_def update_last)
qed

lemma filling_atomic:
  assumes "filling w0 obj dir w" and "atomic p (InObject obj f) b w = (res, w')"
  shows "\<exists>dir'. filling w0 obj dir' w'" and "res = Inr () \<Longrightarrow> filling w0 obj (AList.update f b dir) w'"
  using atomic_cases [OF assms(2)] filling_store(2) [OF assms(1), of f b] filling_same assms(1) by blast+

text \<open>
  Whatever happens while the directory is filled, the rest of the storage stays as it was, and its
  metadata, where it has any, is one of \<open>raws\<close>.
\<close>

definition metaIn :: "byte list set \<Rightarrow> directory \<Rightarrow> bool" where
  "metaIn raws dir \<longleftrightarrow> (\<forall>raw. map_of dir ''metadata.json'' = Some raw \<longrightarrow> raw \<in> raws)"

definition fills :: "byte list set \<Rightarrow> 'e world \<Rightarrow> string \<Rightarrow> 'e world \<Rightarrow> 'e world \<Rightarrow> bool" where
  "fills raws w0 obj w w' \<longleftrightarrow> ((\<exists>dir. filling w0 obj dir w \<and> metaIn raws dir) \<longrightarrow>
     (\<exists>dir. filling w0 obj dir w' \<and> metaIn raws dir))"

lemma fills_trans: "fills raws w0 obj w w1 \<Longrightarrow> fills raws w0 obj w1 w2 \<Longrightarrow> fills raws w0 obj w w2"
  by (simp add: fills_def)

lemma fills_refl [simp]: "fills raws w0 obj w w"
  by (simp add: fills_def)

lemma keeps_mono: "keeps R m \<Longrightarrow> (\<And>w w'. R w w' \<Longrightarrow> R' w w') \<Longrightarrow> keeps R' m"
  by (auto simp: keeps_def)

lemma keeps_fills_same: "keeps sameFiles m \<Longrightarrow> keeps (fills raws w0 obj) m"
  by (erule keeps_mono) (auto simp: fills_def dest: filling_same)

lemma metaIn_update:
  "metaIn raws dir \<Longrightarrow> f \<noteq> ''metadata.json'' \<or> b \<in> raws \<Longrightarrow> metaIn raws (AList.update f b dir)"
  by (auto simp: metaIn_def update_conv')

lemma keeps_fills_atomic:
  assumes "f \<noteq> ''metadata.json'' \<or> b \<in> raws"
  shows "keeps (fills raws w0 obj) (atomic p (InObject obj f) b)"
  unfolding keeps_def fills_def
proof (intro allI impI, elim exE conjE)
  fix w dir assume fill: "filling w0 obj dir w" and meta: "metaIn raws dir"
  obtain res w' where run: "atomic p (InObject obj f) b w = (res, w')"
    by (metis surj_pair)
  have "filling w0 obj (AList.update f b dir) w' \<or> filling w0 obj dir w'"
    using atomic_cases [OF run] filling_store(2) [OF fill, of f b] fill filling_same by blast
  then show "\<exists>dir. filling w0 obj dir (snd (atomic p (InObject obj f) b w)) \<and> metaIn raws dir"
    using meta metaIn_update [OF meta assms] run by auto
qed

lemma natString_not_metadata: "natString i \<noteq> ''metadata.json''"
proof -
  have "last (natString i) = hexDigit (i mod 10)"
    by (subst natString.simps) simp
  moreover have "hexDigit k \<noteq> CHR ''n''" if "k < 10" for k
  proof -
    have "k \<in> set [0..<10]"
      using that by simp
    moreover have "\<forall>k\<in>set [0..<10]. hexDigit k \<noteq> CHR ''n''"
      unfolding list_all_iff [symmetric] by code_simp
    ultimately show ?thesis
      by (rule bspec [rotated])
  qed
  ultimately have "last (natString i) \<noteq> CHR ''n''"
    by simp
  then show ?thesis
    by auto
qed

lemmas keeps_fills = keeps_fills_same [OF keeps_same(2)] keeps_fills_same [OF keeps_same(3)]
  keeps_fills_same [OF keeps_same(4)] keeps_fills_atomic [OF disjI1 [OF natString_not_metadata]]

lemma keeps_storeShard: "keeps (fills raws w0 obj) (storeShard p n obj ip)"
  unfolding storeShard_def Let_def
  by (cases ip) (auto intro!: keeps_bind keeps_fills intro: fills_trans)

lemma mapIo_length: "mapIo f xs s = (Inr ys, s') \<Longrightarrow> length ys = length xs"
  by (induction xs arbitrary: s ys s') (auto simp: bindIo_Inr)

text \<open>What the metadata of a new object says of it, and the metadata a \<open>put\<close> may write.\<close>

definition madeFor :: "string \<Rightarrow> slice \<Rightarrow> fileMeta \<Rightarrow> bool" where
  "madeFor obj data f \<longleftrightarrow> fileId f = obj \<and> fileSize f = int (sliceLen data) \<and> fileData f = int nodeData \<and>
     fileParity f = int nodeParity \<and> length (fileChunks f) = nodeData + nodeParity"

definition metaTexts :: "'e platform \<Rightarrow> string \<Rightarrow> slice \<Rightarrow> byte list set" where
  "metaTexts p obj data = marshal p ` Collect (madeFor obj data)"

lemma fills_storeObject:
  assumes "cpuOk (pArch p) (pCpu p)" and "sliceWf data" and "0 < sliceLen data" and "roomy data"
    and run: "storeObject p n obj token name folder digest data w = (res, w')"
  shows "fills (metaTexts p obj data) w0 obj w w'"
proof -
  let ?R = "fills (metaTexts p obj data) w0 obj"
  obtain r shards where shards: "encodeObject p data = Inr shards" "length shards = 12"
    by (rule encodeObject_ok [OF assms(1-4)])
  obtain now w1 where run1: "timeNow p w = (Inr now, w1)"
    by (cases "clock p (ent w)") (simp add: timeNow_def)
  obtain r2 w2 where run2: "mapIo (storeShard p n obj) (zip [0..<length shards] shards) w1 = (r2, w2)"
    by (metis surj_pair)
  have "keeps ?R (mapIo (storeShard p n obj) (zip [0..<length shards] shards))"
    by (rule keeps_mapIo [OF keeps_storeShard fills_refl fills_trans])
  then have fills2: "?R w w2"
    using keepsD [OF keeps_fills(2) run1] run2 by (blast intro: fills_trans keepsD)
  show ?thesis
  proof (cases r2)
    case (Inl e)
    then show ?thesis
      using run shards(1) run1 run2 fills2 by (simp add: storeObject_def bindIo_def)
  next
    case (Inr chs)
    let ?f = "\<lparr>fileId = obj, fileName = name, fileFolder = folder, fileToken = token,
       fileSize = int (sliceLen data), fileCreated = now, fileStatus = ''stored'', fileSHA = digest,
       fileData = int nodeData, fileParity = int nodeParity, fileChunks = chs\<rparr>"
    obtain r3 w3 where run3: "atomic p (InObject obj ''metadata.json'') (marshal p ?f) w2 = (r3, w3)"
      by (metis surj_pair)
    have "length chs = 12"
      using mapIo_length [of "storeShard p n obj" _ w1 chs w2] run2 Inr shards(2) by simp
    then have "madeFor obj data ?f"
      by (simp add: madeFor_def nodeData_def nodeParity_def)
    then have "marshal p ?f \<in> metaTexts p obj data"
      by (simp add: metaTexts_def)
    then have "?R w2 w3"
      using run3 by (blast intro: keepsD keeps_fills_atomic)
    moreover have "w' = w3"
      using run shards(1) run1 run2 Inr run3 by (cases r3) (simp_all add: storeObject_def bindIo_def Let_def)
    ultimately show ?thesis
      using fills2 by (blast intro: fills_trans)
  qed
qed

definition sealed :: "'e platform \<Rightarrow> node \<Rightarrow> string \<Rightarrow> nat \<Rightarrow> byte list \<Rightarrow> byte list \<Rightarrow> bool" where
  "sealed p n obj i bytes payload \<longleftrightarrow> (\<exists>nonce. length nonce = nonceSize p \<and>
     payload = nonce @ sealWith p (aeadKey n) nonce bytes (shardLabel obj i))"

definition chunkOf :: "'e platform \<Rightarrow> nat \<Rightarrow> byte list \<Rightarrow> chunk \<Rightarrow> bool" where
  "chunkOf p i payload c \<longleftrightarrow> chunkNum c = int i \<and> chunkSHA c = hash p payload \<and> isUuid (chunkId c) \<and>
     chunkSize c = int (length payload)"

lemma storeShard_Inr:
  assumes run: "storeShard p n obj (i, part) w = (Inr c, w')" and draw: "drawOk p"
    and fill: "filling w0 obj dir w" and fresh: "natString i \<notin> fst ` set dir"
  obtains payload where "sealed p n obj i (bytesOf part) payload" and "chunkOf p i payload c"
    and "filling w0 obj (dir @ [(natString i, payload)]) w'"
proof -
  obtain nonce w1 w2 cid where run1: "randomBytes p (nonceSize p) w = (Inr nonce, w1)"
    and run2: "atomic p (InObject obj (natString i))
      (nonce @ sealWith p (aeadKey n) nonce (bytesOf part) (shardLabel obj i)) w1 = (Inr (), w2)"
    and run3: "uuid p w2 = (Inr cid, w')"
    and c: "c = \<lparr>chunkNum = int i, chunkId = cid, chunkSHA = hash p (nonce @ sealWith p (aeadKey n) nonce
        (bytesOf part) (shardLabel obj i)), chunkSize = int (length (nonce @ sealWith p (aeadKey n) nonce
        (bytesOf part) (shardLabel obj i))), chunkEncrypted = True\<rparr>"
    using run by (auto simp: storeShard_def Let_def bindIo_Inr)
  let ?payload = "nonce @ sealWith p (aeadKey n) nonce (bytesOf part) (shardLabel obj i)"
  have "length nonce = nonceSize p"
    using run1 draw by (auto simp: randomBytes_def drawOk_def split: prod.splits)
  then have "sealed p n obj i (bytesOf part) ?payload"
    by (auto simp: sealed_def)
  moreover have "filling w0 obj dir w1"
    using fill keepsD [OF keeps_same(2) run1] by (rule filling_same)
  from filling_atomic(2) [OF this run2] have "filling w0 obj (dir @ [(natString i, ?payload)]) w2"
    unfolding update_new [OF fresh] by simp
  then have "filling w0 obj (dir @ [(natString i, ?payload)]) w'"
    using keepsD [OF keeps_same(4) run3] by (rule filling_same)
  moreover have "isUuid cid"
    using uuid_isUuid [OF run3] draw by (auto simp: drawOk_def)
  ultimately show ?thesis
    using c by (intro that) (simp_all add: chunkOf_def)
qed

lemma storeShards_Inr:
  assumes "drawOk p"
  shows "mapIo (storeShard p n obj) (zip [k..<k + length parts] parts) w = (Inr chs, w') \<Longrightarrow>
    filling w0 obj dir w \<Longrightarrow> fst ` set dir = natString ` {..<k} \<Longrightarrow> k + length parts \<le> 12 \<Longrightarrow>
    \<exists>payloads. filling w0 obj (dir @ zip (map natString [k..<k + length parts]) payloads) w' \<and>
      length payloads = length parts \<and> length chs = length parts \<and>
      (\<forall>j<length parts. sealed p n obj (k + j) (bytesOf (parts ! j)) (payloads ! j) \<and>
        chunkOf p (k + j) (payloads ! j) (chs ! j))"
proof (induction parts arbitrary: k w chs dir)
  case (Cons part parts)
  have upt: "[k..<k + length (part # parts)] = k # [Suc k..<Suc k + length parts]"
    by (simp add: upt_rec)
  obtain c w1 chs' where run: "storeShard p n obj (k, part) w = (Inr c, w1)"
    "mapIo (storeShard p n obj) (zip [Suc k..<Suc k + length parts] parts) w1 = (Inr chs', w')"
    "chs = c # chs'"
    using Cons.prems(1) unfolding upt by (auto simp: bindIo_Inr)
  have "natString k \<notin> natString ` {..<k}"
    using Cons.prems(4) by (auto dest!: natString_inj)
  then have fresh: "natString k \<notin> fst ` set dir"
    using Cons.prems(3) by simp
  obtain payload where payload: "sealed p n obj k (bytesOf part) payload" "chunkOf p k payload c"
    "filling w0 obj (dir @ [(natString k, payload)]) w1"
    by (rule storeShard_Inr [OF run(1) assms Cons.prems(2) fresh])
  have keys: "fst ` set (dir @ [(natString k, payload)]) = natString ` {..<Suc k}"
    using Cons.prems(3) by (auto simp: lessThan_Suc)
  obtain payloads where rest: "filling w0 obj ((dir @ [(natString k, payload)]) @
      zip (map natString [Suc k..<Suc k + length parts]) payloads) w'" "length payloads = length parts"
    "length chs' = length parts"
    "\<forall>j<length parts. sealed p n obj (Suc k + j) (bytesOf (parts ! j)) (payloads ! j) \<and>
      chunkOf p (Suc k + j) (payloads ! j) (chs' ! j)"
    using Cons.IH [OF run(2) payload(3) keys] Cons.prems(4) by auto
  have "filling w0 obj (dir @ zip (map natString [k..<k + length (part # parts)]) (payload # payloads)) w'"
    using rest(1) unfolding upt by simp
  moreover have "\<forall>j<length (part # parts). sealed p n obj (k + j) (bytesOf ((part # parts) ! j)) ((payload # payloads) ! j) \<and>
      chunkOf p (k + j) ((payload # payloads) ! j) (chs ! j)"
    using rest(4) payload(1,2) run(3) by (auto simp: less_Suc_eq_0_disj)
  ultimately show ?case
    using rest(2,3) run(3) by (intro exI [of _ "payload # payloads"]) simp
qed simp

text \<open>A stored object: its metadata and the files of its directory.\<close>

definition storedAs :: "'e platform \<Rightarrow> node \<Rightarrow> slice \<Rightarrow> fileMeta \<Rightarrow> directory \<Rightarrow> bool" where
  "storedAs p n data f dir \<longleftrightarrow> (\<exists>r D payloads. coded p r data D \<and> length payloads = 12 \<and>
     dir = zip (map natString [0..<12]) payloads @ [(''metadata.json'', marshal p f)] \<and>
     length (fileChunks f) = 12 \<and>
     (\<forall>i<12. sealed p n (fileId f) i (D ! i) (payloads ! i) \<and> chunkOf p i (payloads ! i) (fileChunks f ! i)) \<and>
     fileSize f = int (sliceLen data) \<and> fileSHA f = hash p (bytesOf data) \<and>
     fileData f = 8 \<and> fileParity f = 4 \<and> fileStatus f = ''stored'' \<and> (\<exists>e. fileCreated f = fst (clock p e)))"

lemma natString_metadata: "''metadata.json'' \<notin> set (map natString [0..<12])"
  by code_simp

lemma storedAs_metadata:
  assumes "storedAs p n data f dir"
  shows "map_of dir ''metadata.json'' = Some (marshal p f)"
proof -
  obtain payloads where "dir = zip (map natString [0..<12]) payloads @ [(''metadata.json'', marshal p f)]"
    and len: "length payloads = 12"
    using assms by (auto simp: storedAs_def)
  moreover have "map fst (zip (map natString [0..<12]) payloads) = map natString [0..<12]"
    by (rule map_fst_zip) (simp add: len)
  then have "''metadata.json'' \<notin> set (map fst (zip (map natString [0..<12]) payloads))"
    using natString_metadata by (simp only: not_False_eq_True)
  ultimately show ?thesis
    using map_of_last by (simp only: set_map)
qed

lemma storeObject_Inr:
  assumes cpu: "cpuOk (pArch p) (pCpu p)" and draw: "drawOk p" and data: "sliceWf data" "0 < sliceLen data"
    and room: "roomy data" and fill: "filling w0 obj [] w"
    and run: "storeObject p n obj token name folder (hash p (bytesOf data)) data w = (Inr f, w')"
  obtains dir where "filling w0 obj dir w'" and "storedAs p n data f dir" and "fileId f = obj"
    and "fileToken f = token" and "fileName f = name" and "fileFolder f = folder"
proof -
  obtain r shards where enc: "encodeObject p data = Inr shards" "coded p r data (map bytesOf shards)"
    "length shards = 12"
    by (rule encodeObject_ok [OF cpu data room])
  obtain now w1 w2 chs where run1: "timeNow p w = (Inr now, w1)"
    and run2: "mapIo (storeShard p n obj) (zip [0..<0 + length shards] shards) w1 = (Inr chs, w2)"
    and f: "f = \<lparr>fileId = obj, fileName = name, fileFolder = folder, fileToken = token,
       fileSize = int (sliceLen data), fileCreated = now, fileStatus = ''stored'',
       fileSHA = hash p (bytesOf data), fileData = int nodeData, fileParity = int nodeParity, fileChunks = chs\<rparr>"
    and run3: "atomic p (InObject obj ''metadata.json'') (marshal p f) w2 = (Inr (), w')"
    using run enc(1) by (auto simp: storeObject_def Let_def bindIo_Inr)
  have "filling w0 obj [] w1"
    using fill keepsD [OF keeps_same(3) run1] by (rule filling_same)
  then obtain payloads where payloads: "filling w0 obj (zip (map natString [0..<12]) payloads) w2"
    "length payloads = 12" "length chs = 12"
    "\<forall>i<12. sealed p n obj i (bytesOf (shards ! i)) (payloads ! i) \<and> chunkOf p i (payloads ! i) (chs ! i)"
    using storeShards_Inr [OF draw run2, of w0 "[]"] enc(3) by auto
  let ?dir = "zip (map natString [0..<12]) payloads"
  have "map fst ?dir = map natString [0..<12]"
    by (rule map_fst_zip) (simp add: payloads(2))
  then have "''metadata.json'' \<notin> set (map fst ?dir)"
    using natString_metadata by (simp only: not_False_eq_True)
  then have nometa: "''metadata.json'' \<notin> fst ` set ?dir"
    by (simp only: set_map not_False_eq_True)
  have "filling w0 obj (?dir @ [(''metadata.json'', marshal p f)]) w'"
    using filling_atomic(2) [OF payloads(1) run3 refl] unfolding update_new [OF nometa] .
  moreover have "\<exists>e. now = fst (clock p e)"
    using run1 by (auto simp: timeNow_def split: prod.splits intro!: exI [of _ "ent w"])
  then have "storedAs p n data f (?dir @ [(''metadata.json'', marshal p f)])"
    using enc payloads unfolding storedAs_def
    by (intro exI [of _ r] exI [of _ "map bytesOf shards"] exI [of _ payloads])
      (simp add: f nodeData_def nodeParity_def)
  ultimately show ?thesis
    by (intro that) (simp_all add: f)
qed

lemma makeDir_cases:
  assumes "makeDir p obj w = (res, w')" and "sameFiles w0 w"
  shows "case res of Inl e \<Rightarrow> sameFiles w0 w' | Inr _ \<Rightarrow> filling w0 obj [] w'"
proof -
  obtain r1 w1 where r1: "sysCall p w = (r1, w1)"
    by (metis surj_pair)
  have "sameFiles w0 w1"
    using assms(2) keepsD [OF keeps_same(1) r1] by (rule sameFiles_trans)
  then show ?thesis
    using assms(1) r1
    by (cases r1) (auto simp: makeDir_def bindIo_def filling_def sameFiles_def update_new map_of_eq_None_iff
        split: if_splits)
qed

lemma unlink_filling:
  assumes "filling w0 obj dir w"
  shows "filling w0 obj (AList.delete f dir) (unlink obj f w)"
proof -
  have "map_of (objects w) obj = Some dir"
    using assms map_of_last [of obj "objects w0" dir] by (simp add: filling_def)
  then show ?thesis
    using assms by (auto simp: filling_def unlink_def update_last)
qed

lemma map_le_delete: "map_of (AList.delete k al) \<subseteq>\<^sub>m map_of al"
  by (auto simp: map_le_def delete_conv')

lemma unlinkAll_filling:
  "unlinkAll p obj fs w = (res, w') \<Longrightarrow> filling w0 obj dir w \<Longrightarrow>
    \<exists>dir'. filling w0 obj dir' w' \<and> map_of dir' \<subseteq>\<^sub>m map_of dir"
proof (induction fs arbitrary: w dir res)
  case (Cons f fs)
  obtain r1 w1 where r1: "sysCall p w = (r1, w1)"
    by (metis surj_pair)
  have fill1: "filling w0 obj dir w1"
    using Cons.prems(2) keepsD [OF keeps_same(1) r1] by (rule filling_same)
  show ?case
  proof (cases r1)
    case (Inl e)
    then show ?thesis
      using Cons r1 fill1 by (auto split: prod.splits sum.splits)
  next
    case (Inr u)
    then obtain dir' where "filling w0 obj dir' w'" "map_of dir' \<subseteq>\<^sub>m map_of (AList.delete f dir)"
      using Cons.IH [OF _ unlink_filling [OF fill1]] Cons.prems(1) r1 by auto
    then show ?thesis
      using map_le_delete [of f dir] map_le_trans by blast
  qed
qed auto

text \<open>A removal that succeeds leaves the storage as before \<open>os.Mkdir\<close>, one that fails some of the files.\<close>

lemma removeDir_filling:
  assumes "removeDir p obj w = (res, w')" and "filling w0 obj dir w"
  shows "case res of Inl e \<Rightarrow> \<exists>dir'. filling w0 obj dir' w' \<and> map_of dir' \<subseteq>\<^sub>m map_of dir | Inr _ \<Rightarrow> sameFiles w0 w'"
proof -
  obtain r1 w1 where r1: "sysCall p w = (r1, w1)"
    by (metis surj_pair)
  have fill1: "filling w0 obj dir w1"
    using assms(2) keepsD [OF keeps_same(1) r1] by (rule filling_same)
  obtain r2 w2 where r2: "unlinkAll p obj (dirNames obj w1) w1 = (r2, w2)"
    by (metis surj_pair)
  obtain r3 w3 where r3: "sysCall p w2 = (r3, w3)"
    by (metis surj_pair)
  obtain dir' where dir': "filling w0 obj dir' w2" "map_of dir' \<subseteq>\<^sub>m map_of dir"
    using unlinkAll_filling [OF r2 fill1] by blast
  then have fill3: "filling w0 obj dir' w3"
    using keepsD [OF keeps_same(1) r3] filling_same by blast
  then have "sameFiles w0 (w3\<lparr>objects := AList.delete obj (objects w3)\<rparr>)"
    by (auto simp: filling_def sameFiles_def delete_last)
  moreover have "\<exists>dir'. filling w0 obj dir' w1 \<and> map_of dir' \<subseteq>\<^sub>m map_of dir"
    using fill1 by auto
  ultimately show ?thesis
    using assms(1) r1 r2 r3 fill3 dir'(2)
    by (cases r1; cases r2; cases r3) (auto simp: removeDir_def bindIo_def)
qed

text \<open>
  What a failing \<open>put\<close> leaves behind where the removal of the new directory fails: that directory,
  whose metadata, if it is still there, is that of the new object.
\<close>

definition leftover :: "'e platform \<Rightarrow> slice \<Rightarrow> 'e world \<Rightarrow> 'e world \<Rightarrow> bool" where
  "leftover p data w w' \<longleftrightarrow> (\<exists>obj dir w1 e. obj \<notin> fst ` set (objects w) \<and> isUuid obj \<and>
     objects w' = objects w @ [(obj, dir)] \<and> removeDir p obj w1 = (Inl e, w') \<and> metaIn (metaTexts p obj data) dir)"

lemma removed_object:
  assumes "cpuOk (pArch p) (pCpu p)" and "sliceWf data" and "0 < sliceLen data" and "roomy data"
    and "storeObject p n obj token name folder digest data w2 = (res, w3)" and fill: "filling w obj [] w2"
    and uuid: "isUuid obj" and run: "removeDir p obj w3 = (r4, w4)"
  shows "rootFiles w4 = rootFiles w \<and> (objects w4 = objects w \<or> leftover p data w w4)"
proof -
  have "metaIn (metaTexts p obj data) []"
    by (simp add: metaIn_def)
  then obtain d where d: "filling w obj d w3" "metaIn (metaTexts p obj data) d"
    using fills_storeObject [OF assms(1-5), of w] fill unfolding fills_def by blast
  show ?thesis
  proof (cases r4)
    case (Inl e)
    then obtain d' where d': "filling w obj d' w4" "map_of d' \<subseteq>\<^sub>m map_of d"
      using removeDir_filling [OF run d(1)] by auto
    then have "metaIn (metaTexts p obj data) d'"
      using d(2) by (auto simp: metaIn_def map_le_def dom_def)
    then have "leftover p data w w4"
      unfolding leftover_def using d'(1) uuid run Inl by (auto simp: filling_def)
    then show ?thesis
      using d'(1) by (simp add: filling_def)
  next
    case (Inr u)
    then show ?thesis
      using removeDir_filling [OF run d(1)] by (simp add: sameFiles_def)
  qed
qed

text \<open>
  \<open>put\<close> after its checks: a new object in a directory of its own, or everything as before but for a
  directory that could not be removed.
\<close>

lemma putNew_cases:
  assumes cpu: "cpuOk (pArch p) (pCpu p)" and draw: "drawOk p" and data: "sliceWf data" "0 < sliceLen data"
    and room: "roomy data" and run: "putNew p n token name folder (hash p (bytesOf data)) data w = (res, w')"
  shows "case res of
      Inl e \<Rightarrow> rootFiles w' = rootFiles w \<and> (objects w' = objects w \<or> leftover p data w w')
    | Inr f \<Rightarrow> sameObject token name folder (hash p (bytesOf data)) f \<and> rootFiles w' = rootFiles w \<and>
        fileId f \<notin> fst ` set (objects w) \<and> isUuid (fileId f) \<and>
        (\<exists>dir. objects w' = objects w @ [(fileId f, dir)] \<and> storedAs p n data f dir)"
proof -
  let ?digest = "hash p (bytesOf data)"
  obtain r1 w1 where r1: "uuid p w = (r1, w1)"
    by (metis surj_pair)
  have same1: "sameFiles w w1"
    using keepsD [OF keeps_same(4) r1] .
  show ?thesis
  proof (cases r1)
    case (Inl e)
    then show ?thesis
      using run r1 same1 by (auto simp: putNew_def bindIo_def sameFiles_def)
  next
    case (Inr obj)
    have uuid: "isUuid obj"
      using uuid_isUuid [OF r1 [unfolded Inr]] draw by (auto simp: drawOk_def)
    obtain r2 w2 where r2: "makeDir p obj w1 = (r2, w2)"
      by (metis surj_pair)
    note dir = makeDir_cases [OF r2 same1]
    show ?thesis
    proof (cases r2)
      case (Inl e)
      then show ?thesis
        using run r1 \<open>r1 = Inr obj\<close> r2 dir by (auto simp: putNew_def bindIo_def sameFiles_def)
    next
      case ok: (Inr u)
      then have fill: "filling w obj [] w2"
        using dir by simp
      obtain r3 w3 where r3: "storeObject p n obj token name folder ?digest data w2 = (r3, w3)"
        by (metis surj_pair)
      show ?thesis
      proof (cases r3)
        case (Inl e)
        obtain r4 w4 where r4: "removeDir p obj w3 = (r4, w4)"
          by (metis surj_pair)
        have "res = Inl e" "w' = w4"
          using run r1 \<open>r1 = Inr obj\<close> r2 ok r3 Inl r4 by (simp_all add: putNew_def bindIo_def)
        then show ?thesis
          using removed_object [OF cpu data room r3 fill uuid r4] by simp
      next
        case (Inr f)
        obtain d where d: "filling w obj d w3" "storedAs p n data f d" "fileId f = obj"
          "fileToken f = token" "fileName f = name" "fileFolder f = folder"
          by (rule storeObject_Inr [OF cpu draw data room fill r3 [unfolded Inr]])
        have "res = Inr f" "w' = w3"
          using run r1 \<open>r1 = Inr obj\<close> r2 ok r3 Inr by (simp_all add: putNew_def bindIo_def)
        moreover have "fileSHA f = ?digest"
          using d(2) by (auto simp: storedAs_def)
        ultimately show ?thesis
          using d uuid by (auto simp: sameObject_def filling_def)
      qed
    qed
  qed
qed

lemma put_cases:
  assumes cpu: "cpuOk (pArch p) (pCpu p)" and draw: "drawOk p" and data: "sliceWf data" and room: "roomy data"
    and run: "put p n token name folder data w = (res, n', w')"
  shows "case res of
      Inl e \<Rightarrow> n' = n \<and> rootFiles w' = rootFiles w \<and> (objects w' = objects w \<or> leftover p data w w')
    | Inr f \<Rightarrow> sameObject token name folder (hash p (bytesOf data)) f \<and>
        ((n', w') = (n, w) \<and> f \<in> snd ` set (files n) \<or>
         (\<forall>f'\<in>snd ` set (files n). \<not> sameObject token name folder (hash p (bytesOf data)) f') \<and>
         n' = n\<lparr>files := AList.update (fileId f) f (files n)\<rparr> \<and> rootFiles w' = rootFiles w \<and>
         fileId f \<notin> fst ` set (objects w) \<and> isUuid (fileId f) \<and> \<not> badNames token name folder \<and>
         0 < sliceLen data \<and> sliceLen data \<le> MaxObject \<and>
         int (usage w) + int (sliceLen data) * 2 + 8192 \<le> quota n \<and>
         (\<exists>dir. objects w' = objects w @ [(fileId f, dir)] \<and> storedAs p n data f dir))"
proof -
  let ?digest = "hash p (bytesOf data)"
  let ?found = "find (\<lambda>(k, f). sameObject token name folder ?digest f) (files n)"
  consider (refused) e where "put p n token name folder data w = (Inl e, n, w)"
    | (known) k f where "?found = Some (k, f)" "put p n token name folder data w = (Inr f, n, w)"
    | (new) "?found = None" "\<not> badNames token name folder" "0 < sliceLen data" "sliceLen data \<le> MaxObject"
      "int (usage w) + int (sliceLen data) * 2 + 8192 \<le> quota n"
      "put p n token name folder data w = (case putNew p n token name folder ?digest data w of
         (Inl e, w) \<Rightarrow> (Inl e, n, w)
       | (Inr f, w) \<Rightarrow> (Inr f, n\<lparr>files := AList.update (fileId f) f (files n)\<rparr>, w))"
    by (cases "badNames token name folder"; cases "sliceLen data = 0 \<or> MaxObject < sliceLen data"; cases ?found;
        cases "quota n < int (usage w) + int (sliceLen data) * 2 + 8192") (auto simp: put_def Let_def)
  then show ?thesis
  proof cases
    case refused
    then show ?thesis
      using run by auto
  next
    case known
    then show ?thesis
      using run by (auto simp: find_Some_iff in_set_conv_nth intro!: image_eqI)
  next
    case new
    obtain r w1 where putNew: "putNew p n token name folder ?digest data w = (r, w1)"
      by (metis surj_pair)
    note outcome = putNew_cases [OF cpu draw data new(3) room putNew]
    show ?thesis
    proof (cases r)
      case (Inl e)
      then show ?thesis
        using new(6) run putNew outcome by auto
    next
      case (Inr f)
      then have "put p n token name folder data w = (Inr f, n\<lparr>files := AList.update (fileId f) f (files n)\<rparr>, w1)"
        using new(6) putNew by simp
      moreover have "\<forall>f'\<in>snd ` set (files n). \<not> sameObject token name folder ?digest f'"
        using new(1) by (auto simp: find_None_iff)
      ultimately show ?thesis
        using run Inr outcome new(2-5) by auto
    qed
  qed
qed

subsection \<open>\<open>read\<close> after a loss\<close>

text \<open>
  A platform whose file system calls do not fail; a shard that cannot be read counts as lost.
\<close>

definition calm :: "'e platform \<Rightarrow> 'e platform" where
  "calm p = p\<lparr>fault := (\<lambda>e. (None, e))\<rparr>"

lemma calm_simps [simp]:
  "pArch (calm p) = pArch p" "pCpu (calm p) = pCpu p" "nonceSize (calm p) = nonceSize p"
  "openWith (calm p) = openWith p" "sealWith (calm p) = sealWith p" "hash (calm p) = hash p"
  "fault (calm p) e = (None, e)"
  by (simp_all add: calm_def hash_def fun_eq_iff)

lemma readFile_calm: "readFile (calm p) pl w = (case load pl w of None \<Rightarrow> (Inl IoNotExist, w) | Some b \<Rightarrow> (Inr b, w))"
  by (simp add: readFile_def bindIo_def sysCall_def)

text \<open>The shard files that are as \<open>put\<close> left them; the others are missing or do not have the hash.\<close>

definition intact :: "directory \<Rightarrow> string \<Rightarrow> 'e world \<Rightarrow> nat set" where
  "intact dir obj w = {i. i < 12 \<and> load (InObject obj (natString i)) w = map_of dir (natString i)}"

definition detectable :: "'e platform \<Rightarrow> fileMeta \<Rightarrow> directory \<Rightarrow> 'e world \<Rightarrow> bool" where
  "detectable p f dir w \<longleftrightarrow> (\<forall>i<12. i \<notin> intact dir (fileId f) w \<longrightarrow>
     (case load (InObject (fileId f) (natString i)) w of
        None \<Rightarrow> True | Some b \<Rightarrow> hash p b \<noteq> chunkSHA (fileChunks f ! i)))"

lemma distinct_natStrings: "distinct (map natString [0..<12])"
  by code_simp

lemma storedAs_payload:
  assumes "dir = zip (map natString [0..<12]) payloads @ rest" and "length payloads = 12" and "i < 12"
  shows "map_of dir (natString i) = Some (payloads ! i)"
proof -
  have "map_of (zip (map natString [0..<12]) payloads) (map natString [0..<12] ! i) = Some (payloads ! i)"
    using assms(2,3) distinct_natStrings by (intro map_of_zip_nth) simp_all
  then show ?thesis
    using assms(1,3) by (simp add: map_add_Some_iff)
qed

lemma readShard_stored:
  assumes aead: "aeadOk p" and key: "aeadKey n2 = aeadKey n"
    and payload: "map_of dir (natString i) = Some payload" "sealed p n (fileId f) i bytes payload"
      "chunkOf p i payload (fileChunks f ! i)"
    and i: "i < 12" and bytes: "bytes \<noteq> []" and lost: "detectable p f dir w"
  shows "readShard (calm p) n2 (fileId f) i (fileChunks f ! i) w =
    (if i \<in> intact dir (fileId f) w then Some (ofBytes bytes) else None, w)"
proof (cases "i \<in> intact dir (fileId f) w")
  case True
  then have load: "load (InObject (fileId f) (natString i)) w = Some payload"
    using payload(1) by (simp add: intact_def)
  obtain nonce where nonce: "length nonce = nonceSize p"
    "payload = nonce @ sealWith p (aeadKey n) nonce bytes (shardLabel (fileId f) i)"
    using payload(2) by (auto simp: sealed_def)
  have "openWith p (aeadKey n2) (take (nonceSize p) payload) (drop (nonceSize p) payload)
      (shardLabel (fileId f) i) = Some bytes"
    using aead nonce key by (simp add: aeadOk_def)
  moreover have "hash p payload = chunkSHA (fileChunks f ! i)" "nonceSize p \<le> length payload"
    using payload(3) nonce by (simp_all add: chunkOf_def)
  ultimately show ?thesis
    using True load bytes by (simp add: readShard_def readFile_calm del: load.simps)
next
  case False
  then show ?thesis
    using lost i
    by (auto simp: readShard_def readFile_calm detectable_def simp del: load.simps split: option.splits)
qed

lemma readShardsFrom_stored:
  assumes "\<And>j. j < 12 \<Longrightarrow> readShard p n obj j (cs ! j) w = (if j \<in> good then Some (S j) else None, w)"
    and "\<And>j. j < 12 \<Longrightarrow> chunkNum (cs ! j) = int j" and "length cs = 12"
  shows "i \<le> 12 \<Longrightarrow> length shards = 12 \<Longrightarrow> readShardsFrom p n obj i (drop i cs) shards w =
    (Inr (map (\<lambda>j. if i \<le> j \<and> j \<in> good then S j else shards ! j) [0..<12]), w)"
proof (induction "12 - i" arbitrary: i shards)
  case 0
  then have "i = 12" "drop i cs = []"
    using assms(3) by simp_all
  moreover have "map (\<lambda>j. if 12 \<le> j \<and> j \<in> good then S j else shards ! j) [0..<12] = shards"
    using 0 by (intro nth_equalityI) simp_all
  ultimately show ?case
    by simp
next
  case (Suc k)
  then have i: "i < 12" and k: "k = 12 - Suc i"
    by simp_all
  then have cs: "drop i cs = cs ! i # drop (Suc i) cs"
    using assms(3) by (simp add: Cons_nth_drop_Suc)
  let ?shards = "if i \<in> good then shards[i := S i] else shards"
  have len: "length ?shards = 12"
    using Suc.prems(2) by simp
  have "readShardsFrom p n obj i (drop i cs) shards w = readShardsFrom p n obj (Suc i) (drop (Suc i) cs) ?shards w"
    using assms(1) [OF i] assms(2) [OF i] Suc.prems(2) i by (simp add: cs)
  also have "\<dots> = (Inr (map (\<lambda>j. if Suc i \<le> j \<and> j \<in> good then S j else ?shards ! j) [0..<12]), w)"
    using Suc.hyps(1) [OF k _ len] i by simp
  also have "map (\<lambda>j. if Suc i \<le> j \<and> j \<in> good then S j else ?shards ! j) [0..<12] =
      map (\<lambda>j. if i \<le> j \<and> j \<in> good then S j else shards ! j) [0..<12]"
    using Suc.prems(2) by (cases "i \<in> good"; intro map_upt_cong; cases "i < 12") (auto simp: nth_list_update Suc_le_eq)
  finally show ?case .
qed

lemma read_stored:
  assumes stored: "storedAs p n data f dir" and aead: "aeadOk p" and key: "aeadKey n2 = aeadKey n"
    and data: "sliceWf data" "0 < sliceLen data"
    and enough: "8 \<le> card (intact dir (fileId f) w)" and lost: "detectable p f dir w"
  shows "read (calm p) n2 f w = (Inr (bytesOf data), w)"
proof -
  obtain r D payloads where coded: "coded p r data D" and payloads: "length payloads = 12"
    "dir = zip (map natString [0..<12]) payloads @ [(''metadata.json'', marshal p f)]"
    and cs: "length (fileChunks f) = 12" and all: "\<And>i. i < 12 \<Longrightarrow>
      sealed p n (fileId f) i (D ! i) (payloads ! i) \<and> chunkOf p i (payloads ! i) (fileChunks f ! i)"
    and f: "fileSize f = int (sliceLen data)" "fileSHA f = hash p (bytesOf data)"
    using stored by (auto simp: storedAs_def)
  let ?per = "(sliceLen data + 7) div 8" and ?good = "intact dir (fileId f) w"
  have r: "New (pArch p) (pCpu p) (int nodeData) (int nodeParity) [] = Inr r" "encInv (pArch p) r"
    "poolSafe (pArch p) r" "mds_matrix 8 12 (rsMatrix r)" "DataShards r = 8" "ParityShards r = 4" "Shards r = 12"
    "sameLength 12 ?per D" "consistent r ?per (map ofBytes D)" "take (sliceLen data) (concat (take 8 D)) = bytesOf data"
    using coded by (simp_all add: coded_def)
  have per: "0 < ?per" "sliceLen data \<le> 8 * ?per"
    using data(2) by linarith+
  have "D ! i \<noteq> []" if "i < 12" for i
    using r(8) per(1) that by (auto simp: sameLength_def)
  then have "readShard (calm p) n2 (fileId f) i (fileChunks f ! i) w =
      (if i \<in> ?good then Some (ofBytes (D ! i)) else None, w)" if "i < 12" for i
    using readShard_stored [OF aead key storedAs_payload [OF payloads(2,1) that]] all [OF that] that lost by simp
  moreover have "chunkNum (fileChunks f ! i) = int i" if "i < 12" for i
    using all [OF that] by (simp add: chunkOf_def)
  moreover have "replicate (nodeData + nodeParity) NilSlice = replicate 12 NilSlice"
    by (simp add: nodeData_def nodeParity_def)
  ultimately have "readShardsFrom (calm p) n2 (fileId f) 0 (drop 0 (fileChunks f)) (replicate 12 NilSlice) w =
      (Inr (map (\<lambda>j. if 0 \<le> j \<and> j \<in> ?good then ofBytes (D ! j) else replicate 12 NilSlice ! j) [0..<12]), w)"
    using cs by (intro readShardsFrom_stored) simp_all
  also have "map (\<lambda>j. if 0 \<le> j \<and> j \<in> ?good then ofBytes (D ! j) else replicate 12 NilSlice ! j) [0..<12] =
      map (\<lambda>j. if j \<in> ?good then ofBytes (D ! j) else NilSlice) [0..<Shards r]"
    unfolding r(7) by (intro map_upt_cong) simp
  finally have run: "readShardsFrom (calm p) n2 (fileId f) 0 (fileChunks f) (replicate (nodeData + nodeParity) NilSlice) w =
      (Inr (map (\<lambda>j. if j \<in> ?good then ofBytes (D ! j) else NilSlice) [0..<Shards r]), w)"
    by (simp add: nodeData_def nodeParity_def)
  have "{..<Shards r} \<inter> ?good = ?good"
    using r(7) by (auto simp: intact_def)
  then obtain ss r2 where "Reconstruct (pArch p) r
      (map (\<lambda>j. if j \<in> ?good then ofBytes (D ! j) else NilSlice) [0..<Shards r]) = Inr (ss, r2)"
    "Join bufferWrite r2 [] ss (int (sliceLen data)) = (bytesOf data, Inr ())"
    using recover_bytes [OF r(2,3), of ?per D ?good "sliceLen data" "[]"] r(4-10) per enough by auto
  then show ?thesis
    using run r(1) f by (simp add: read_def bindIo_def)
qed

end
