(* ===== verification/StreamIO.thy ===== *)
theory StreamIO
  imports Reconstruct SplitJoin
begin

text \<open>
  Reading and writing blocks of shards for the streaming encoder of \<open>reedsolomon/streaming.go\<close>:
  \<open>readShards\<close>, \<open>writeShards\<close>, their concurrent versions and \<open>trimShards\<close>.  An \<open>io.Reader\<close> is the
  bytes it still has and the error it gives after them; \<open>readFull\<close> is \<open>io.ReadFull\<close> on it.  An
  \<open>io.Writer\<close> is a state with the function \<open>send\<close> of the locale \<open>io_writer\<close>.  Nil readers and
  writers are \<open>None\<close>.  These operations return the buffers, readers and writers they leave also
  where they fail.
\<close>

subsection \<open>Readers\<close>

record reader =
  rdData :: "byte list"
  rdEnd :: error

definition readFull :: "reader \<Rightarrow> nat \<Rightarrow> reader \<times> byte list \<times> error option" where
  "readFull rd n =
     (if n \<le> length (rdData rd) then (rd\<lparr>rdData := drop n (rdData rd)\<rparr>, take n (rdData rd), None)
      else (rd\<lparr>rdData := []\<rparr>, rdData rd,
        Some (if rdEnd rd = IoEOF \<and> rdData rd \<noteq> [] then IoUnexpectedEOF else rdEnd rd)))"

definition ofData :: "byte list \<Rightarrow> reader" where
  "ofData bs = \<lparr>rdData = bs, rdEnd = IoEOF\<rparr>"

text \<open>\<open>s[:n]\<close> for \<open>n\<close> within the capacity.\<close>

definition cutTo :: "nat \<Rightarrow> slice \<Rightarrow> slice" where
  "cutTo n s = (case s of NilSlice \<Rightarrow> NilSlice | Slice buf _ \<Rightarrow> Slice buf n)"

subsection \<open>\<open>readShards\<close> and \<open>writeShards\<close>\<close>

definition shortRead :: "error \<Rightarrow> bool" where
  "shortRead e \<longleftrightarrow> e = IoUnexpectedEOF \<or> e = IoEOF"

text \<open>The loop over the readers; \<open>sz\<close> is the variable \<open>size\<close>.\<close>

fun readLoop :: "int \<Rightarrow> nat \<Rightarrow> slice list \<Rightarrow> reader option list \<Rightarrow>
    slice list \<times> reader option list \<times> int result" where
  "readLoop sz i (d # dst) (None # rds) =
     (case readLoop sz (i + 1) dst rds of (dst, rds, res) \<Rightarrow> (cutTo 0 d # dst, None # rds, res))"
| "readLoop sz i (d # dst) (Some rd # rds) =
     (case readFull rd (sliceLen d) of (rd, bs, err) \<Rightarrow>
      let d = copySlice d bs; n = length bs in
      case err of
        None \<Rightarrow>
          (case readLoop sz (i + 1) dst rds of (dst, rds, res) \<Rightarrow> (d # dst, Some rd # rds, res))
      | Some e \<Rightarrow>
          if shortRead e then
            if 0 \<le> sz \<and> int n \<noteq> sz then (d # dst, Some rd # rds, Inl ErrShardSize)
            else
              (case readLoop (int n) (i + 1) dst rds of (dst, rds, res) \<Rightarrow>
                (cutTo n d # dst, Some rd # rds, res))
          else (d # dst, Some rd # rds, Inl (StreamReadError e i)))"
| "readLoop sz i dst rds = (dst, rds, Inr sz)"

text \<open>A size of 0 at the end means that a stream was at its end: \<open>io.EOF\<close>.\<close>

definition endOfRead :: "int result \<Rightarrow> unit result" where
  "endOfRead res = bind_result res (\<lambda>sz. if sz = 0 then Inl IoEOF else Inr ())"

definition readShards :: "slice list \<Rightarrow> reader option list \<Rightarrow>
    slice list \<times> reader option list \<times> unit result" where
  "readShards dst rds =
     (if length rds \<noteq> length dst then (dst, rds, Inl Panic)
      else (case readLoop (- 1) 0 dst rds of (dst, rds, res) \<Rightarrow> (dst, rds, endOfRead res)))"

fun writeLoop :: "('w \<Rightarrow> byte list \<Rightarrow> 'w \<times> nat \<times> error option) \<Rightarrow> nat \<Rightarrow> 'w option list \<Rightarrow> slice list \<Rightarrow>
    'w option list \<times> unit result" where
  "writeLoop send i (None # outs) (s # ins) =
     (case writeLoop send (i + 1) outs ins of (outs, res) \<Rightarrow> (None # outs, res))"
| "writeLoop send i (Some w # outs) (s # ins) =
     (case send w (bytesOf s) of (w, n, err) \<Rightarrow>
      case err of
        Some e \<Rightarrow> (Some w # outs, Inl (StreamWriteError e i))
      | None \<Rightarrow>
          if n \<noteq> sliceLen s then (Some w # outs, Inl (StreamWriteError IoShortWrite i))
          else (case writeLoop send (i + 1) outs ins of (outs, res) \<Rightarrow> (Some w # outs, res)))"
| "writeLoop send i outs ins = (outs, Inr ())"

definition writeShards :: "('w \<Rightarrow> byte list \<Rightarrow> 'w \<times> nat \<times> error option) \<Rightarrow> 'w option list \<Rightarrow> slice list \<Rightarrow>
    'w option list \<times> unit result" where
  "writeShards send outs ins =
     (if length outs \<noteq> length ins then (outs, Inl Panic) else writeLoop send 0 outs ins)"

subsection \<open>The concurrent versions\<close>

text \<open>
  Every goroutine works on its own shard, so only the order in which their results arrive at the
  channel matters: \<open>order\<close>, the indices in the order of arrival.
\<close>

definition readOne :: "slice \<Rightarrow> reader option \<Rightarrow> slice \<times> reader option \<times> (nat \<times> error option) option" where
  "readOne d rd =
     (case rd of
        None \<Rightarrow> (cutTo 0 d, None, None)
      | Some rd \<Rightarrow>
          (case readFull rd (sliceLen d) of (rd, bs, err) \<Rightarrow>
            (copySlice d bs, Some rd, Some (length bs, err))))"

fun collectReads :: "(nat \<times> error option) option list \<Rightarrow> int \<Rightarrow> nat list \<Rightarrow> slice list \<Rightarrow>
    slice list \<times> int result" where
  "collectReads got sz [] dst = (dst, Inr sz)"
| "collectReads got sz (i # order) dst =
     (case got ! i of
        None \<Rightarrow> collectReads got sz order dst
      | Some (n, None) \<Rightarrow> collectReads got sz order dst
      | Some (n, Some e) \<Rightarrow>
          if shortRead e then
            if 0 \<le> sz \<and> int n \<noteq> sz then (dst, Inl ErrShardSize)
            else collectReads got (int n) order (dst[i := cutTo n (dst ! i)])
          else (dst, Inl (StreamReadError e i)))"

definition cReadShards :: "nat list \<Rightarrow> slice list \<Rightarrow> reader option list \<Rightarrow>
    slice list \<times> reader option list \<times> unit result" where
  "cReadShards order dst rds =
     (if length rds \<noteq> length dst then (dst, rds, Inl Panic)
      else
        let all = map2 readOne dst rds; rds = map (\<lambda>x. fst (snd x)) all in
        (case collectReads (map (\<lambda>x. snd (snd x)) all) (- 1) order (map fst all) of (dst, res) \<Rightarrow>
          (dst, rds, endOfRead res)))"

definition writeOne :: "('w \<Rightarrow> byte list \<Rightarrow> 'w \<times> nat \<times> error option) \<Rightarrow> nat \<Rightarrow> 'w option \<Rightarrow> slice \<Rightarrow>
    'w option \<times> error option" where
  "writeOne send i out s =
     (case out of
        None \<Rightarrow> (None, None)
      | Some w \<Rightarrow>
          (case send w (bytesOf s) of (w, n, err) \<Rightarrow>
            (Some w, case err of
                Some e \<Rightarrow> Some (StreamWriteError e i)
              | None \<Rightarrow> if n \<noteq> sliceLen s then Some (StreamWriteError IoShortWrite i) else None)))"

definition cWriteShards :: "('w \<Rightarrow> byte list \<Rightarrow> 'w \<times> nat \<times> error option) \<Rightarrow> nat list \<Rightarrow> 'w option list \<Rightarrow>
    slice list \<Rightarrow> 'w option list \<times> unit result" where
  "cWriteShards send order outs ins =
     (if length outs \<noteq> length ins then (outs, Inl Panic)
      else
        let all = map (\<lambda>i. writeOne send i (outs ! i) (ins ! i)) [0..<length ins] in
        (map fst all,
         case List.find (\<lambda>i. snd (all ! i) \<noteq> None) order of
           None \<Rightarrow> Inr ()
         | Some i \<Rightarrow> Inl (the (snd (all ! i)))))"

subsection \<open>\<open>trimShards\<close>\<close>

definition trimShard :: "nat \<Rightarrow> slice \<Rightarrow> slice result" where
  "trimShard sz s =
     bind_result (if sliceLen s \<noteq> 0 then reslice s 0 sz else Inr s) (\<lambda>s.
       Inr (if sliceLen s < sz then cutTo 0 s else s))"

definition trimShards :: "slice list \<Rightarrow> nat \<Rightarrow> slice list result" where
  "trimShards ss sz = mapResult (trimShard sz) ss"

lemma cutTo_cutTo [simp]: "cutTo k (cutTo n s) = cutTo k s"
  by (cases s) (simp_all add: cutTo_def)

lemma sliceLen_cutTo [simp]: "sliceLen (cutTo n s) = (if s = NilSlice then 0 else n)"
  by (cases s) (simp_all add: cutTo_def)

lemma cutTo_simps [simp]:
  "backing (cutTo n s) = backing s" "sliceCap (cutTo n s) = sliceCap s"
  "cutTo n s = NilSlice \<longleftrightarrow> s = NilSlice"
  by (cases s; simp add: cutTo_def sliceCap_def)+

subsection \<open>A round of reads\<close>

text \<open>What a round leaves of one buffer and its reader.\<close>

definition readSlice :: "slice \<Rightarrow> reader option \<Rightarrow> slice" where
  "readSlice d rd = (case rd of None \<Rightarrow> cutTo 0 d
     | Some r \<Rightarrow>
         if sliceLen d \<le> length (rdData r) then copySlice d (take (sliceLen d) (rdData r))
         else cutTo (length (rdData r)) (copySlice d (rdData r)))"

definition readNext :: "slice \<Rightarrow> reader option \<Rightarrow> reader option" where
  "readNext d rd = map_option (\<lambda>r. r\<lparr>rdData := drop (sliceLen d) (rdData r)\<rparr>) rd"

definition isShort :: "slice \<Rightarrow> reader option \<Rightarrow> bool" where
  "isShort d rd \<longleftrightarrow> (case rd of None \<Rightarrow> False | Some r \<Rightarrow> length (rdData r) < sliceLen d)"

text \<open>The readers that end within the round end in the same place, without a failure.\<close>

definition endsAt :: "nat \<Rightarrow> slice \<Rightarrow> reader option \<Rightarrow> bool" where
  "endsAt k d rd \<longleftrightarrow> (case rd of None \<Rightarrow> True
     | Some r \<Rightarrow> length (rdData r) < sliceLen d \<longrightarrow> length (rdData r) = k \<and> shortRead (rdEnd r))"

lemma endsAt_simps [simp]:
  "endsAt k d None"
  "endsAt k d (Some r) \<longleftrightarrow> (length (rdData r) < sliceLen d \<longrightarrow> length (rdData r) = k \<and> shortRead (rdEnd r))"
  by (simp_all add: endsAt_def)

lemma shortRead_end: "shortRead (if e = IoEOF \<and> b then IoUnexpectedEOF else e) \<longleftrightarrow> shortRead e"
  by (simp add: shortRead_def)

lemma read_None [simp]:
  "readSlice d None = cutTo 0 d" "readNext d None = None" "\<not> isShort d None"
  by (simp_all add: readSlice_def readNext_def isShort_def)

lemma read_full:
  assumes "sliceLen d \<le> length (rdData r)"
  shows "readFull r (sliceLen d) = (r\<lparr>rdData := drop (sliceLen d) (rdData r)\<rparr>, take (sliceLen d) (rdData r), None)"
    and "readSlice d (Some r) = copySlice d (take (sliceLen d) (rdData r))"
    and "readNext d (Some r) = Some (r\<lparr>rdData := drop (sliceLen d) (rdData r)\<rparr>)"
    and "\<not> isShort d (Some r)"
  using assms by (simp_all add: readFull_def readSlice_def readNext_def isShort_def)

lemma read_short:
  assumes "length (rdData r) < sliceLen d" and "shortRead (rdEnd r)"
  obtains e where "readFull r (sliceLen d) = (r\<lparr>rdData := []\<rparr>, rdData r, Some e)" and "shortRead e"
    and "readSlice d (Some r) = cutTo (length (rdData r)) (copySlice d (rdData r))"
    and "readNext d (Some r) = Some (r\<lparr>rdData := []\<rparr>)" and "isShort d (Some r)"
  using assms that shortRead_end
  by (simp add: readFull_def readSlice_def readNext_def isShort_def)

lemma readLoop_ok:
  "list_all2 (endsAt k) dst rds \<Longrightarrow> sz < 0 \<or> sz = int k \<Longrightarrow>
    readLoop sz i dst rds = (map2 readSlice dst rds, map2 readNext dst rds,
      Inr (if list_ex (\<lambda>(d, rd). isShort d rd) (zip dst rds) then int k else sz))"
proof (induction dst arbitrary: rds sz i)
  case (Cons d dst)
  obtain rd rds' where rds: "rds = rd # rds'"
    using Cons.prems(1) by (cases rds) auto
  then have rest: "list_all2 (endsAt k) dst rds'" and k: "endsAt k d rd"
    using Cons.prems(1) by auto
  note IH = Cons.IH [OF rest]
  show ?case
  proof (cases rd)
    case None
    then show ?thesis
      using IH [OF Cons.prems(2)] by (simp add: rds)
  next
    case (Some r)
    show ?thesis
    proof (cases "sliceLen d \<le> length (rdData r)")
      case True
      then show ?thesis
        using IH [OF Cons.prems(2)] by (simp add: rds Some read_full Let_def)
    next
      case False
      then have r: "length (rdData r) < sliceLen d" "shortRead (rdEnd r)" "length (rdData r) = k"
        using k Some by (simp_all add: endsAt_def)
      obtain e where e: "readFull r (sliceLen d) = (r\<lparr>rdData := []\<rparr>, rdData r, Some e)" "shortRead e"
        "readSlice d (Some r) = cutTo (length (rdData r)) (copySlice d (rdData r))"
        "readNext d (Some r) = Some (r\<lparr>rdData := []\<rparr>)" "isShort d (Some r)"
        by (rule read_short [OF r(1,2)])
      have "\<not> (0 \<le> sz \<and> int k \<noteq> sz)"
        using Cons.prems(2) by auto
      then show ?thesis
        using IH [of "int k"] e r(3) by (simp add: rds Some Let_def)
    qed
  qed
qed simp

text \<open>A round without an error is such a round, in either version.\<close>

lemma readLoop_Inr:
  "length dst = length rds \<Longrightarrow> readLoop sz i dst rds = (dst', rds', Inr sz') \<Longrightarrow>
    \<exists>k. list_all2 (endsAt k) dst rds \<and> (0 \<le> sz \<longrightarrow> sz = int k)"
proof (induction dst arbitrary: rds sz i dst' rds')
  case Nil
  then show ?case
    by (auto intro: exI [of _ "nat sz"])
next
  case (Cons d dst)
  obtain rd rds0 where rds: "rds = rd # rds0" and len: "length dst = length rds0"
    using Cons.prems(1) by (cases rds) auto
  show ?case
  proof (cases rd)
    case None
    then obtain ds rs where "readLoop sz (i + 1) dst rds0 = (ds, rs, Inr sz')"
      using Cons.prems(2) by (auto simp: rds split: prod.splits)
    then show ?thesis
      using Cons.IH [OF len] None by (auto simp: rds)
  next
    case (Some r)
    obtain r' bs err where run: "readFull r (sliceLen d) = (r', bs, err)"
      by (metis prod_cases3)
    show ?thesis
    proof (cases "sliceLen d \<le> length (rdData r)")
      case True
      then obtain ds rs where "readLoop sz (i + 1) dst rds0 = (ds, rs, Inr sz')"
        using Cons.prems(2) by (auto simp: rds Some read_full Let_def split: prod.splits)
      then show ?thesis
        using Cons.IH [OF len] Some True by (auto simp: rds)
    next
      case False
      then have bs: "bs = rdData r" and err: "\<exists>e. err = Some e \<and> (shortRead e \<longleftrightarrow> shortRead (rdEnd r))"
        using run shortRead_end by (auto simp: readFull_def)
      then obtain e where e: "err = Some e" "shortRead e \<longleftrightarrow> shortRead (rdEnd r)"
        by blast
      have sizes: "shortRead e" "sz < 0 \<or> sz = int (length bs)"
        using Cons.prems(2) by (auto simp: rds Some run e(1) Let_def split: if_splits)
      then obtain ds rs where "readLoop (int (length bs)) (i + 1) dst rds0 = (ds, rs, Inr sz')"
        using Cons.prems(2) by (auto simp: rds Some run e(1) Let_def split: prod.splits if_splits)
      then obtain k where "list_all2 (endsAt k) dst rds0" "int (length bs) = int k"
        using Cons.IH [OF len] by fastforce
      then show ?thesis
        using sizes e(2) bs by (auto simp: rds Some intro!: exI [of _ k])
    qed
  qed
qed

definition gotShort :: "(nat \<times> error option) option \<Rightarrow> bool" where
  "gotShort g \<longleftrightarrow> (\<exists>n e. g = Some (n, Some e))"

definition gotEnd :: "nat \<Rightarrow> (nat \<times> error option) option \<Rightarrow> bool" where
  "gotEnd k g \<longleftrightarrow> (\<forall>n e. g = Some (n, Some e) \<longrightarrow> n = k \<and> shortRead e)"

lemma collectReads_ok:
  "\<forall>i\<in>set order. i < length dst \<and> gotEnd k (got ! i) \<Longrightarrow> sz < 0 \<or> sz = int k \<Longrightarrow>
    collectReads got sz order dst =
      (map (\<lambda>j. if j \<in> set order \<and> gotShort (got ! j) then cutTo k (dst ! j) else dst ! j) [0..<length dst],
       Inr (if \<exists>j\<in>set order. gotShort (got ! j) then int k else sz))"
proof (induction order arbitrary: sz dst)
  case Nil
  then show ?case
    by (simp add: map_nth)
next
  case (Cons i order)
  show ?case
  proof (cases "gotShort (got ! i)")
    case False
    then have skip: "collectReads got sz (i # order) dst = collectReads got sz order dst"
      by (auto simp: gotShort_def split: option.splits)
    have IH: "collectReads got sz order dst =
      (map (\<lambda>j. if j \<in> set order \<and> gotShort (got ! j) then cutTo k (dst ! j) else dst ! j) [0..<length dst],
       Inr (if \<exists>j\<in>set order. gotShort (got ! j) then int k else sz))"
      using Cons.prems by (intro Cons.IH) simp_all
    have mem: "j \<in> set (i # order) \<and> gotShort (got ! j) \<longleftrightarrow> j \<in> set order \<and> gotShort (got ! j)" for j
      using False by auto
    have ex: "(\<exists>j\<in>set (i # order). gotShort (got ! j)) \<longleftrightarrow> (\<exists>j\<in>set order. gotShort (got ! j))"
      using False by simp
    show ?thesis
      unfolding skip IH mem ex ..
  next
    case True
    have i: "i < length dst" and "gotEnd k (got ! i)"
      using Cons.prems(1) by simp_all
    then obtain e where e: "got ! i = Some (k, Some e)" "shortRead e"
      using True unfolding gotShort_def gotEnd_def by blast
    have "\<not> (0 \<le> sz \<and> int k \<noteq> sz)"
      using Cons.prems(2) by auto
    note ok = if_not_P [OF this]
    have "collectReads got sz (i # order) dst = collectReads got (int k) order (dst[i := cutTo k (dst ! i)])"
      by (simp only: collectReads.simps e option.case prod.case if_True ok)
    also have "\<dots> = (map (\<lambda>j. if j \<in> set order \<and> gotShort (got ! j) then cutTo k (dst[i := cutTo k (dst ! i)] ! j)
        else dst[i := cutTo k (dst ! i)] ! j) [0..<length dst], Inr (int k))"
      using Cons.IH [of "dst[i := cutTo k (dst ! i)]" "int k"] Cons.prems(1) by simp
    also have "\<dots> = (map (\<lambda>j. if j \<in> set (i # order) \<and> gotShort (got ! j) then cutTo k (dst ! j) else dst ! j)
        [0..<length dst], Inr (int k))"
      using True i by (auto simp: nth_list_update)
    finally show ?thesis
      using True by simp
  qed
qed

lemma collectReads_Inr:
  "collectReads got sz order dst = (dst', Inr sz') \<Longrightarrow>
    \<exists>k. (\<forall>i\<in>set order. gotEnd k (got ! i)) \<and> (0 \<le> sz \<longrightarrow> sz = int k)"
proof (induction got sz order dst rule: collectReads.induct)
  case (1 got sz dst)
  then show ?case
    by (auto intro: exI [of _ "nat sz"])
next
  case (2 got sz i order dst)
  show ?case
  proof (cases "gotShort (got ! i)")
    case False
    then have "collectReads got sz order dst = (dst', Inr sz')" "gotEnd k (got ! i)" for k
      using 2(4) by (auto simp: gotShort_def gotEnd_def split: option.splits)
    then show ?thesis
      using 2(1) 2(2) False by (cases "got ! i") (auto simp: gotShort_def)
  next
    case True
    then obtain n e where g: "got ! i = Some (n, Some e)"
      by (auto simp: gotShort_def)
    then have sizes: "shortRead e" "sz < 0 \<or> sz = int n"
      and rest: "collectReads got (int n) order (dst[i := cutTo n (dst ! i)]) = (dst', Inr sz')"
      using 2(4) by (auto split: if_splits)
    obtain k where "\<forall>i\<in>set order. gotEnd k (got ! i)" "int n = int k"
      using 2(3) [OF g refl refl sizes(1) _ rest] sizes(2) by auto
    then show ?thesis
      using g sizes by (auto simp: gotEnd_def intro!: exI [of _ k])
  qed
qed

lemma readOne_facts:
  "gotShort (snd (snd (readOne d rd))) \<longleftrightarrow> isShort d rd"
  "gotEnd k (snd (snd (readOne d rd))) \<longleftrightarrow> endsAt k d rd"
  "fst (snd (readOne d rd)) = readNext d rd"
  "endsAt k d rd \<Longrightarrow>
    (if isShort d rd then cutTo k (fst (readOne d rd)) else fst (readOne d rd)) = readSlice d rd"
proof -
  show "gotShort (snd (snd (readOne d rd))) \<longleftrightarrow> isShort d rd"
    by (cases rd) (auto simp: readOne_def readFull_def gotShort_def isShort_def)
  show "gotEnd k (snd (snd (readOne d rd))) \<longleftrightarrow> endsAt k d rd"
    using shortRead_end
    by (cases rd) (auto simp: readOne_def readFull_def gotEnd_def not_le shortRead_def)
  show "fst (snd (readOne d rd)) = readNext d rd"
    by (cases rd) (auto simp: readOne_def readFull_def readNext_def)
  show "(if isShort d rd then cutTo k (fst (readOne d rd)) else fst (readOne d rd)) = readSlice d rd"
    if "endsAt k d rd"
    using that by (cases rd) (auto simp: readOne_def readFull_def readSlice_def isShort_def)
qed

lemma readLoop_error: "readLoop sz i dst rds = (dst', rds', Inl e) \<Longrightarrow> e \<noteq> IoEOF"
  by (induction sz i dst rds arbitrary: dst' rds' rule: readLoop.induct)
    (auto simp: Let_def split: prod.splits option.splits if_splits)

lemma collectReads_error: "collectReads got sz order dst = (dst', Inl e) \<Longrightarrow> e \<noteq> IoEOF"
  by (induction got sz order dst arbitrary: dst' rule: collectReads.induct)
    (auto split: option.splits prod.splits if_splits)

lemma endOfRead_eq: "endOfRead (Inr sz) = (if sz = 0 then Inl IoEOF else Inr ())" "endOfRead (Inl e) = Inl e"
  by (simp_all add: endOfRead_def)

lemma cReadShards_ok:
  assumes ends: "list_all2 (endsAt k) dst rds" and order: "set order = {..<length dst}"
  shows "cReadShards order dst rds = (map2 readSlice dst rds, map2 readNext dst rds,
    endOfRead (Inr (if list_ex (\<lambda>(d, rd). isShort d rd) (zip dst rds) then int k else - 1)))"
proof -
  have len: "length rds = length dst"
    using ends by (simp add: list_all2_lengthD)
  let ?all = "map2 readOne dst rds" and ?got = "map (\<lambda>x. snd (snd x)) (map2 readOne dst rds)"
  have nth: "?got ! j = snd (snd (readOne (dst ! j) (rds ! j)))" if "j < length dst" for j
    using that len by simp
  have each: "endsAt k (dst ! j) (rds ! j)" if "j < length dst" for j
    using ends that by (simp add: list_all2_conv_all_nth)
  have "\<forall>i\<in>set order. i < length (map fst ?all) \<and> gotEnd k (?got ! i)"
    using order len nth each by (auto simp: readOne_facts)
  then have run: "collectReads ?got (- 1) order (map fst ?all) =
      (map (\<lambda>j. if j \<in> set order \<and> gotShort (?got ! j) then cutTo k (map fst ?all ! j) else map fst ?all ! j)
        [0..<length (map fst ?all)],
       Inr (if \<exists>j\<in>set order. gotShort (?got ! j) then int k else - 1))"
    by (rule collectReads_ok) simp
  also have "map (\<lambda>j. if j \<in> set order \<and> gotShort (?got ! j) then cutTo k (map fst ?all ! j)
      else map fst ?all ! j) [0..<length (map fst ?all)] = map2 readSlice dst rds"
  proof (rule nth_equalityI)
    fix j assume "j < length (map (\<lambda>j. if j \<in> set order \<and> gotShort (?got ! j) then cutTo k (map fst ?all ! j)
      else map fst ?all ! j) [0..<length (map fst ?all)])"
    then have j: "j < length dst"
      using len by simp
    then show "map (\<lambda>j. if j \<in> set order \<and> gotShort (?got ! j) then cutTo k (map fst ?all ! j)
        else map fst ?all ! j) [0..<length (map fst ?all)] ! j = map2 readSlice dst rds ! j"
      using order len nth [OF j] readOne_facts(4) [OF each [OF j]]
      by (simp add: readOne_facts(1) split: if_splits)
  qed (simp add: len)
  also have "(\<exists>j\<in>set order. gotShort (?got ! j)) \<longleftrightarrow> list_ex (\<lambda>(d, rd). isShort d rd) (zip dst rds)"
    using order len by (auto simp: list_ex_length nth readOne_facts)
  finally have "collectReads ?got (- 1) order (map fst ?all) = (map2 readSlice dst rds,
      Inr (if list_ex (\<lambda>(d, rd). isShort d rd) (zip dst rds) then int k else - 1))" .
  moreover have "map (\<lambda>x. fst (snd x)) ?all = map2 readNext dst rds"
    by (simp add: readOne_facts split_def)
  ultimately show ?thesis
    by (simp only: cReadShards_def len Let_def prod.case) simp
qed

lemma readShards_ok:
  assumes "list_all2 (endsAt k) dst rds"
  shows "readShards dst rds = (map2 readSlice dst rds, map2 readNext dst rds,
    endOfRead (Inr (if list_ex (\<lambda>(d, rd). isShort d rd) (zip dst rds) then int k else - 1)))"
  using readLoop_ok [OF assms, of "- 1" 0] list_all2_lengthD [OF assms] by (simp add: readShards_def)

text \<open>
  The concurrent reader does what the sequential one does, in whatever order the results of its
  goroutines arrive: without an error it leaves the same buffers and readers and sees the end of
  the streams in the same round, and where \<open>readShards\<close> fails, it fails.
\<close>

theorem cReadShards_any_order:
  assumes "length rds = length dst" and "set order = {..<length dst}"
  shows "if snd (snd (readShards dst rds)) \<in> {Inr (), Inl IoEOF}
    then cReadShards order dst rds = readShards dst rds
    else snd (snd (cReadShards order dst rds)) \<notin> {Inr (), Inl IoEOF}"
proof (cases "\<exists>k. list_all2 (endsAt k) dst rds")
  case True
  then obtain k where "list_all2 (endsAt k) dst rds"
    by blast
  then show ?thesis
    using cReadShards_ok [OF _ assms(2)] readShards_ok by (simp add: endOfRead_eq)
next
  case False
  obtain dst1 rds1 res1 where r1: "readLoop (- 1) 0 dst rds = (dst1, rds1, res1)"
    by (metis prod_cases3)
  obtain e where "res1 = Inl e"
    using readLoop_Inr [of dst rds "- 1" 0] r1 False assms(1) by (cases res1) auto
  then have read: "snd (snd (readShards dst rds)) \<notin> {Inr (), Inl IoEOF}"
    using r1 readLoop_error [of "- 1" 0 dst rds] assms(1) by (auto simp: readShards_def endOfRead_eq)
  let ?all = "map2 readOne dst rds"
  obtain dst2 res2 where r2: "collectReads (map (\<lambda>x. snd (snd x)) ?all) (- 1) order (map fst ?all) = (dst2, res2)"
    by (metis surj_pair)
  have "\<not> (\<forall>i\<in>set order. gotEnd k (map (\<lambda>x. snd (snd x)) ?all ! i))" for k
    using False assms by (auto simp: list_all2_conv_all_nth readOne_facts)
  then obtain e where "res2 = Inl e"
    using collectReads_Inr [of _ "- 1" order] r2 by (cases res2) fastforce+
  then have "snd (snd (cReadShards order dst rds)) \<notin> {Inr (), Inl IoEOF}"
    using r2 collectReads_error [OF r2 [unfolded \<open>res2 = Inl e\<close>]] assms(1)
    by (simp add: cReadShards_def Let_def endOfRead_eq)
  then show ?thesis
    using read by simp
qed

lemma cReadShards_any_order_witness:
  "cReadShards [1, 0] [makeSlice 2, makeSlice 2] [Some (ofData [1, 2, 3]), Some (ofData [4, 5, 6])] =
     readShards [makeSlice 2, makeSlice 2] [Some (ofData [1, 2, 3]), Some (ofData [4, 5, 6])] \<and>
   snd (snd (readShards [makeSlice 2, makeSlice 2] [Some (ofData [1, 2, 3]), Some (ofData [4, 5, 6])])) = Inr ()"
proof -
  let ?dst = "[makeSlice 2, makeSlice 2]" and ?rds = "[Some (ofData [1, 2, 3]), Some (ofData [4, 5, 6])]"
  have "snd (snd (readShards ?dst ?rds)) = Inr ()"
    by (simp add: readShards_def readFull_def ofData_def makeSlice_def Let_def endOfRead_eq)
  moreover have "set [1, 0] = {..<length ?dst}"
    by auto
  ultimately show ?thesis
    using cReadShards_any_order [of ?rds ?dst "[1, 0]"] by simp
qed

text \<open>
  A stream that ends where a block ends is not compared with the others: the read is the end of all,
  and what the other streams still had is lost without an error.
\<close>

lemma unequal_streams_unnoticed:
  "readShards [makeSlice 1, makeSlice 1] [Some (ofData []), Some (ofData [7])] =
    ([Slice [0] 0, Slice [7] 1], [Some (ofData []), Some (ofData [])], Inl IoEOF)"
  by code_simp

end
