(* ===== verification/NodeServe.thy ===== *)
theory NodeServe
  imports NodeStore StreamIO
begin

text \<open>
  \<open>ServeHTTP\<close> of \<open>lib/mobile/node.go\<close>.  A request has its method, path, the two headers the code
  reads, the number of bytes that \<open>ParseMultipartForm\<close> reads of its body, which is what
  \<open>MaxBytesReader\<close> counts, and what \<open>ParseMultipartForm\<close> and \<open>FormFile\<close> of \<open>net/http\<close> make of that body.  A response has its status, the headers the code sets and its body as a value: the
  JSON text of it, and the ranges \<open>http.ServeContent\<close> may cut from the content, are not modelled.
  A handler that panics answers with \<open>Aborted\<close>.
\<close>

subsection \<open>Requests and responses\<close>

datatype form = BadForm | NoFile | FormFile string string reader "byte list"

record request =
  reqMethod :: string
  reqPath :: string
  reqKey :: string
  reqToken :: string
  reqLength :: nat
  reqForm :: form

datatype body =
    NoBody
  | ErrorOf string
  | ErrorValue error
  | Stats string nat nat nat int
  | Peers
  | Tree "fileMeta list" string
  | Meta fileMeta
  | Content string string "byte list"
  | NotFound
  | Aborted

record response =
  status :: nat
  respHeaders :: "(string \<times> string) list"
  respBody :: body

definition commonHeaders :: "(string \<times> string) list" where
  "commonHeaders =
     [(''Access-Control-Allow-Origin'', ''*''),
      (''Access-Control-Allow-Headers'', ''Content-Type, X-CFS-Token, X-CFS-Local-Key''),
      (''Access-Control-Allow-Methods'', ''GET, POST, OPTIONS''),
      (''Cache-Control'', ''no-store''),
      (''X-Content-Type-Options'', ''nosniff'')]"

definition jsonResponse :: "nat \<Rightarrow> body \<Rightarrow> response" where
  "jsonResponse code b =
     \<lparr>status = code, respHeaders = commonHeaders @ [(''Content-Type'', ''application/json'')], respBody = b\<rparr>"

text \<open>\<open>http.NotFound\<close>.\<close>

definition notFound :: response where
  "notFound = \<lparr>status = 404, respHeaders = commonHeaders @ [(''Content-Type'', ''text/plain; charset=utf-8'')],
     respBody = NotFound\<rparr>"

text \<open>\<open>strings.Split(s, "/")\<close>.\<close>

fun splitSlash :: "string \<Rightarrow> string list" where
  "splitSlash [] = [[]]"
| "splitSlash (c # cs) =
     (if c = CHR ''/'' then [] # splitSlash cs
      else (case splitSlash cs of [] \<Rightarrow> [[c]] | part # parts \<Rightarrow> (c # part) # parts))"

definition hasPrefix :: "string \<Rightarrow> string \<Rightarrow> bool" where
  "hasPrefix s prefix \<longleftrightarrow> take (length prefix) s = prefix"

definition filesPrefix :: string where
  "filesPrefix = ''/api/files/''"

subsection \<open>The routes\<close>

definition serveStats :: "node \<Rightarrow> 'e world \<Rightarrow> response" where
  "serveStats n w = jsonResponse 200 (Stats (nodeId n) (length (files n))
     (length (files n) * (nodeData + nodeParity)) (usage w) (quota n))"

definition serveTree :: "node \<Rightarrow> string \<Rightarrow> response" where
  "serveTree n token =
     (let fs = filter (\<lambda>f. token \<noteq> [] \<and> fileToken f = token) (map snd (files n));
          fs = map (\<lambda>f. f\<lparr>fileToken := []\<rparr>) fs in
      jsonResponse 200 (Tree (sort_key fileId fs) (nodeId n)))"

text \<open>\<open>io.ReadAll(io.LimitReader(file, MaxObject+1))\<close>; \<open>spare\<close> is the memory after what was read.\<close>

definition readUpload :: "reader \<Rightarrow> byte list \<Rightarrow> slice result" where
  "readUpload rd spare =
     (let d = take (MaxObject + 1) (rdData rd) in
      if length (rdData rd) \<le> MaxObject \<and> rdEnd rd \<noteq> IoEOF then Inl (rdEnd rd)
      else Inr (Slice (d @ spare) (length d)))"

definition serveUpload :: "'e platform \<Rightarrow> node \<Rightarrow> request \<Rightarrow> 'e world \<Rightarrow> response \<times> node \<times> 'e world" where
  "serveUpload p n req w =
     (if MaxObject + 16 * 1024 < reqLength req
      then (jsonResponse 413 (ErrorOf ''invalid or oversized upload''), n, w)
      else
        (case reqForm req of
           BadForm \<Rightarrow> (jsonResponse 413 (ErrorOf ''invalid or oversized upload''), n, w)
         | NoFile \<Rightarrow> (jsonResponse 400 (ErrorOf ''file required''), n, w)
         | FormFile name folder rd spare \<Rightarrow>
             (case readUpload rd spare of
                Inl e \<Rightarrow> (jsonResponse 400 (ErrorOf ''could not read upload''), n, w)
              | Inr data \<Rightarrow>
                  (case put p n (reqToken req) name folder data w of
                     (Inl e, n, w) \<Rightarrow>
                       (if e = Panic then \<lparr>status = 0, respHeaders = [], respBody = Aborted\<rparr>
                        else jsonResponse 400 (ErrorValue e), n, w)
                   | (Inr f, n, w) \<Rightarrow> (jsonResponse 200 (Meta f), n, w)))))"

definition serveFile :: "'e platform \<Rightarrow> node \<Rightarrow> request \<Rightarrow> 'e world \<Rightarrow> response \<times> 'e world" where
  "serveFile p n req w =
     (let token = reqToken req;
          parts = splitSlash (drop (length filesPrefix) (reqPath req)) in
      if 2 < length parts \<or> \<not> isUuid (parts ! 0) \<or> length parts = 2 \<and> parts ! 1 \<noteq> ''download''
      then (notFound, w)
      else
        (case map_of (files n) (parts ! 0) of
           None \<Rightarrow> (notFound, w)
         | Some f \<Rightarrow>
             if token = [] \<or> fileToken f \<noteq> token then (notFound, w)
             else if length parts = 1 then (jsonResponse 200 (Meta (f\<lparr>fileToken := []\<rparr>)), w)
             else
               (case read p n f w of
                  (Inl e, w) \<Rightarrow>
                    (if e = Panic then \<lparr>status = 0, respHeaders = [], respBody = Aborted\<rparr>
                     else jsonResponse 503 (ErrorOf ''insufficient valid shards to recover object''), w)
                | (Inr data, w) \<Rightarrow>
                    (\<lparr>status = 200, respHeaders = commonHeaders @
                        [(''Content-Type'', ''application/octet-stream''), (''X-CFS-SHA256'', fileSHA f)],
                      respBody = Content (fileSHA f) (fileName f) data\<rparr>, w))))"

definition ServeHTTP :: "'e platform \<Rightarrow> node \<Rightarrow> request \<Rightarrow> 'e world \<Rightarrow> response \<times> node \<times> 'e world" where
  "ServeHTTP p n req w =
     (if reqMethod req = ''OPTIONS''
      then (\<lparr>status = 204, respHeaders = commonHeaders, respBody = NoBody\<rparr>, n, w)
      else if reqKey req \<noteq> capability n
      then (jsonResponse 401 (ErrorOf ''local node capability required''), n, w)
      else if reqMethod req = ''GET'' \<and> (reqPath req = ''/api/stats'' \<or> reqPath req = ''/api/health'')
      then (serveStats n w, n, w)
      else if reqMethod req = ''GET'' \<and> reqPath req = ''/api/peers''
      then (jsonResponse 200 Peers, n, w)
      else if reqMethod req = ''GET'' \<and> reqPath req = ''/api/files/tree''
      then (serveTree n (reqToken req), n, w)
      else if reqMethod req = ''POST'' \<and> reqPath req = ''/api/files/upload''
      then serveUpload p n req w
      else if reqMethod req = ''GET'' \<and> hasPrefix (reqPath req) filesPrefix
      then (case serveFile p n req w of (resp, w) \<Rightarrow> (resp, n, w))
      else (notFound, n, w))"

end
