(* ===== verification/NodeProps.thy ===== *)
theory NodeProps
  imports NodeStore
begin

text \<open>
  The properties of \<open>put\<close> and \<open>read\<close>, and a small platform for their witnesses: the cipher appends
  a tag of sixteen zeros, the hash is the data padded to 32 bytes.
\<close>

subsection \<open>A \<open>put\<close> that nothing prevents succeeds\<close>

definition works :: "('s \<Rightarrow> bool) \<Rightarrow> ('s, 'a) io \<Rightarrow> bool" where
  "works I m \<longleftrightarrow> (\<forall>s. I s \<longrightarrow> (\<exists>x s'. m s = (Inr x, s') \<and> I s'))"

lemma works_bind: "works I m \<Longrightarrow> (\<And>x. works I (f x)) \<Longrightarrow> works I (bindIo m f)"
  unfolding works_def bindIo_def by fastforce

lemma works_ret [simp]: "works I (ret x)"
  by (simp add: works_def)

lemma works_mapIo: "(\<And>x. works I (f x)) \<Longrightarrow> works I (mapIo f xs)"
  by (induction xs) (auto intro!: works_bind)

definition neverFails :: "'e platform \<Rightarrow> bool" where
  "neverFails p \<longleftrightarrow> (\<forall>e. fst (fault p e) = None) \<and> (\<forall>e n. \<exists>b. fst (draw p e n) = Inr b)"

lemma neverFails_calls:
  assumes "neverFails p"
  shows "\<exists>w'. sysCall p w = (Inr (), w') \<and> sameFiles w w'" and "\<exists>b w'. randomBytes p k w = (Inr b, w') \<and> sameFiles w w'"
    and "\<exists>u w'. uuid p w = (Inr u, w') \<and> sameFiles w w'"
proof -
  have fault: "fst (fault p (ent w)) = None" and draw: "\<exists>b. fst (draw p (ent w) n) = Inr b" for w :: "'a world" and n
    using assms by (auto simp: neverFails_def)
  show "\<exists>w'. sysCall p w = (Inr (), w') \<and> sameFiles w w'"
    using fault [of w] by (cases "fault p (ent w)") (simp add: sysCall_def)
  show rand: "\<exists>b w'. randomBytes p k w = (Inr b, w') \<and> sameFiles w w'" for k
    using draw [of w k] by (cases "draw p (ent w) k") (auto simp: randomBytes_def)
  show "\<exists>u w'. uuid p w = (Inr u, w') \<and> sameFiles w w'"
    using rand [of 16] by (auto simp: uuid_def bindIo_def)
qed

lemma atomic_works:
  assumes "neverFails p" and "hasDir pl w"
  shows "\<exists>w'. atomic p pl b w = (Inr (), w')"
proof -
  have sys: "\<exists>w'. sysCall p w = (Inr (), w')" for w
    using neverFails_calls(1) [OF assms(1)] by blast
  then have "works (\<lambda>_. True) (sysCall p)"
    by (simp add: works_def)
  then have "works (\<lambda>_. True) (writeTemp p)" "works (\<lambda>_. True) (syncDir p)"
    by (simp_all add: writeTemp_def syncDir_def works_bind)
  then have *: "\<exists>w'. writeTemp p w = (Inr (), w')" "\<exists>w'. syncDir p w = (Inr (), w')" for w
    by (simp_all add: works_def)
  obtain w0 w1 w2 w3 w4 where "sysCall p w = (Inr (), w0)" "writeTemp p w0 = (Inr (), w1)"
    "sysCall p w1 = (Inr (), w2)" "sysCall p w2 = (Inr (), w3)" "syncDir p (store pl b w3) = (Inr (), w4)"
    using sys * by metis
  then show ?thesis
    using assms(2) by (simp add: atomic_def bindIo_def)
qed

lemma works_filling:
  assumes "neverFails p"
  shows "works (\<lambda>w. \<exists>dir. filling w0 obj dir w) (randomBytes p k)" and "works (\<lambda>w. \<exists>dir. filling w0 obj dir w) (uuid p)"
    and "works (\<lambda>w. \<exists>dir. filling w0 obj dir w) (timeNow p)"
    and "works (\<lambda>w. \<exists>dir. filling w0 obj dir w) (atomic p (InObject obj f) b)"
proof -
  show "works (\<lambda>w. \<exists>dir. filling w0 obj dir w) (randomBytes p k)" "works (\<lambda>w. \<exists>dir. filling w0 obj dir w) (uuid p)"
    unfolding works_def using neverFails_calls(2,3) [OF assms] filling_same by metis+
  show "works (\<lambda>w. \<exists>dir. filling w0 obj dir w) (timeNow p)"
    unfolding works_def
  proof (intro allI impI)
    fix w assume fill: "\<exists>dir. filling w0 obj dir w"
    obtain t w' where run: "timeNow p w = (Inr t, w')"
      by (cases "clock p (ent w)") (simp add: timeNow_def)
    then show "\<exists>x s'. timeNow p w = (Inr x, s') \<and> (\<exists>dir. filling w0 obj dir s')"
      using fill keepsD [OF keeps_same(3) run] filling_same by blast
  qed
  show "works (\<lambda>w. \<exists>dir. filling w0 obj dir w) (atomic p (InObject obj f) b)"
    unfolding works_def using atomic_works [OF assms] filling_store(1) filling_atomic(1) by metis
qed

lemma storeObject_works:
  assumes "neverFails p" and "encodeObject p data = Inr shards"
  shows "works (\<lambda>w. \<exists>dir. filling w0 obj dir w) (storeObject p n obj token name folder digest data)"
proof -
  have "works (\<lambda>w. \<exists>dir. filling w0 obj dir w) (storeShard p n obj ip)" for ip
    by (cases ip) (auto simp: storeShard_def Let_def intro!: works_bind works_filling [OF assms(1)])
  moreover have "works (\<lambda>w. \<exists>dir. filling w0 obj dir w) (\<lambda>w. (encodeObject p data, w))"
    by (simp add: works_def assms(2))
  ultimately show ?thesis
    unfolding storeObject_def Let_def
    by (auto intro!: works_bind works_mapIo works_filling [OF assms(1)])
qed

lemma put_works:
  assumes "cpuOk (pArch p) (pCpu p)" and "neverFails p" and "sliceWf data" and "roomy data"
    and "\<not> badNames token name folder" and "0 < sliceLen data" and "sliceLen data \<le> MaxObject"
    and "int (usage w) + int (sliceLen data) * 2 + 8192 \<le> quota n"
    and "\<And>obj w'. uuid p w = (Inr obj, w') \<Longrightarrow> obj \<notin> fst ` set (objects w)"
  shows "\<exists>f n' w'. put p n token name folder data w = (Inr f, n', w')"
proof (cases "find (\<lambda>(k, f). sameObject token name folder (hash p (bytesOf data)) f) (files n)")
  case (Some kf)
  then show ?thesis
    using assms(5-7) by (cases kf) (auto simp: put_def Let_def)
next
  case None
  obtain obj w1 where u: "uuid p w = (Inr obj, w1)" "sameFiles w w1"
    using neverFails_calls(3) [OF assms(2)] by blast
  obtain w2 where s: "sysCall p w1 = (Inr (), w2)" "sameFiles w1 w2"
    using neverFails_calls(1) [OF assms(2)] by blast
  have same: "sameFiles w w2"
    using u(2) s(2) by (rule sameFiles_trans)
  have "obj \<notin> fst ` set (objects w)"
    using assms(9) u(1) by blast
  then have "map_of (objects w2) obj = None"
    using same by (simp add: sameFiles_def map_of_eq_None_iff)
  then obtain w3 where m: "makeDir p obj w1 = (Inr (), w3)"
    using s(1) by (auto simp: makeDir_def bindIo_def)
  then have fill: "filling w obj [] w3"
    using makeDir_cases [OF m u(2)] by simp
  obtain r shards where "encodeObject p data = Inr shards"
    by (rule encodeObject_ok [OF assms(1,3,6,4)])
  then obtain f w4 where "storeObject p n obj token name folder (hash p (bytesOf data)) data w3 = (Inr f, w4)"
    using storeObject_works [OF assms(2)] fill unfolding works_def by blast
  then show ?thesis
    using None assms(5-8) u(1) m by (simp add: put_def putNew_def Let_def bindIo_def)
qed

subsection \<open>The platform of the witnesses\<close>

definition testPlatform :: "nat platform" where
  "testPlatform = \<lparr>pArch = Amd64, pCpu = testCpu, draw = (\<lambda>e n. (Inr (replicate n (word_of_nat e)), e + 1)),
     fault = (\<lambda>e. (None, e)), clock = (\<lambda>e. (''2024-01-01T00:00:00Z'', e)), nonceSize = 12,
     sealWith = (\<lambda>key nonce m ad. m @ replicate 16 0), openWith = (\<lambda>key nonce c ad. Some (take (length c - 16) c)),
     sha256 = (\<lambda>b. take 32 (b @ replicate 32 0)), marshal = (\<lambda>f. toBytes (take 36 (fileId f))), unmarshal = (\<lambda>b. None)\<rparr>"

definition testNode :: node where
  "testNode = \<lparr>nodeId = [], capability = ''secret'', nodeUrl = [], quota = 10000, aeadKey = [1, 2, 3],
     files = [], listening = False\<rparr>"

definition testWorld :: "nat world" where
  "testWorld = \<lparr>rootFiles = [], objects = [], ent = 7\<rparr>"

lemma testPlatform_ok:
  "cpuOk (pArch testPlatform) (pCpu testPlatform)" "drawOk testPlatform" "aeadOk testPlatform" "neverFails testPlatform"
  by (simp_all add: testPlatform_def drawOk_def aeadOk_def neverFails_def cpuOk_testCpu)

lemma testData:
  "sliceWf (ofBytes [1, 2, 3])" "roomy (ofBytes [1, 2, 3])" "\<not> badNames ''alice'' ''a.json'' ''Chat/v1''"
  by (simp_all add: roomy_def ofBytes_def badNames_def containsAny_def containsDots_def upt_rec)

lemma testPut:
  obtains f n' w' where "put testPlatform testNode ''alice'' ''a.json'' ''Chat/v1'' (ofBytes [1, 2, 3]) testWorld = (Inr f, n', w')"
proof -
  have "\<exists>f n' w'. put testPlatform testNode ''alice'' ''a.json'' ''Chat/v1'' (ofBytes [1, 2, 3]) testWorld = (Inr f, n', w')"
    by (rule put_works [OF testPlatform_ok(1,4) testData])
      (simp_all add: MaxObject_def testNode_def testWorld_def usage_def)
  then show ?thesis
    using that by blast
qed

subsection \<open>Properties\<close>

text \<open>
  C8. What was put can be read: after a \<open>put\<close> of a new object, \<open>read\<close> with the same key returns the
  data in every later state of the storage in which eight of the twelve shard files are as \<open>put\<close>
  left them and the others are missing or fail their hash.
\<close>

theorem put_read:
  assumes "cpuOk (pArch p) (pCpu p)" and "drawOk p" and "aeadOk p" and "sliceWf data" and "roomy data"
    and "put p n token name folder data w = (Inr f, n', w')"
    and "\<forall>f'\<in>snd ` set (files n). \<not> sameObject token name folder (hash p (bytesOf data)) f'"
  shows "\<exists>dir. map_of (objects w') (fileId f) = Some dir \<and>
    (\<forall>w2 n2. aeadKey n2 = aeadKey n \<and> 8 \<le> card (intact dir (fileId f) w2) \<and> detectable p f dir w2 \<longrightarrow>
      read (calm p) n2 f w2 = (Inr (bytesOf data), w2))"
proof -
  have new: "0 < sliceLen data" "fileId f \<notin> fst ` set (objects w)"
    and dir: "\<exists>dir. objects w' = objects w @ [(fileId f, dir)] \<and> storedAs p n data f dir"
    using put_cases [OF assms(1,2,4,5,6)] assms(7) by auto
  then obtain dir where "objects w' = objects w @ [(fileId f, dir)]" "storedAs p n data f dir"
    by blast
  then show ?thesis
    using map_of_last [OF new(2)] read_stored [OF _ assms(3) _ assms(4) new(1)] by metis
qed

text \<open>Two of the files are removed before the object is read.\<close>

lemma put_read_witness:
  "\<exists>f n' w' dir. put testPlatform testNode ''alice'' ''a.json'' ''Chat/v1'' (ofBytes [1, 2, 3]) testWorld =
      (Inr f, n', w') \<and> map_of (objects w') (fileId f) = Some dir \<and>
    (let w2 = w'\<lparr>objects := [(fileId f, AList.delete (natString 0) (AList.delete (natString 5) dir))]\<rparr> in
     read (calm testPlatform) n' f w2 = (Inr [1, 2, 3], w2))"
proof -
  let ?data = "ofBytes [1, 2, 3] :: slice"
  obtain f n' w' where run: "put testPlatform testNode ''alice'' ''a.json'' ''Chat/v1'' ?data testWorld = (Inr f, n', w')"
    by (rule testPut)
  have key: "aeadKey n' = aeadKey testNode"
    using put_cases [OF testPlatform_ok(1,2) testData(1,2) run] by auto
  obtain dir where dir: "map_of (objects w') (fileId f) = Some dir"
    and reads: "\<And>w2 n2. aeadKey n2 = aeadKey testNode \<and> 8 \<le> card (intact dir (fileId f) w2) \<and>
      detectable testPlatform f dir w2 \<Longrightarrow> read (calm testPlatform) n2 f w2 = (Inr (bytesOf ?data), w2)"
    using put_read [OF testPlatform_ok(1-3) testData(1,2) run] by (auto simp: testNode_def)
  let ?w2 = "w'\<lparr>objects := [(fileId f, AList.delete (natString 0) (AList.delete (natString 5) dir))]\<rparr>"
  have load: "load (InObject (fileId f) (natString i)) ?w2 = (if i = 0 \<or> i = 5 then None else map_of dir (natString i))"
    if "i < 12" for i
    using that natString_inj [of i 0] natString_inj [of i 5] by (auto simp: AList.delete_conv')
  have "{..<12} - {0, 5} \<subseteq> intact dir (fileId f) ?w2"
    using load unfolding intact_def by auto
  then have "card ({..<12} - {0, 5::nat}) \<le> card (intact dir (fileId f) ?w2)"
    by (rule card_mono [rotated]) (simp add: intact_def)
  moreover have "detectable testPlatform f dir ?w2"
    unfolding detectable_def
  proof (intro allI impI)
    fix i assume "i < 12" "i \<notin> intact dir (fileId f) ?w2"
    then have "load (InObject (fileId f) (natString i)) ?w2 = None"
      using load [of i] by (auto simp: intact_def split: if_splits)
    then show "case load (InObject (fileId f) (natString i)) ?w2 of None \<Rightarrow> True
        | Some b \<Rightarrow> hash testPlatform b \<noteq> chunkSHA (fileChunks f ! i)"
      by (simp only: option.case)
  qed
  ultimately have "read (calm testPlatform) n' f ?w2 = (Inr (bytesOf ?data), ?w2)"
    using key by (intro reads) simp
  then show ?thesis
    using run dir by (auto simp: Let_def)
qed

text \<open>
  C15. \<open>put\<close> is all or nothing, but for a clean-up that fails: where \<open>put\<close> fails the node and the
  files of the storage are as before, or what differs is the new object directory alone and the
  removal of that directory, whose error the code ignores, has failed; where it succeeds with a new
  object all other objects and the files of the node are as before.
\<close>

theorem put_all_or_nothing:
  assumes "cpuOk (pArch p) (pCpu p)" and "drawOk p" and "sliceWf data" and "roomy data"
    and "put p n token name folder data w = (res, n', w')"
  shows "case res of
      Inl e \<Rightarrow> n' = n \<and> rootFiles w' = rootFiles w \<and> (objects w' = objects w \<or>
        (\<exists>obj dir w1 e'. obj \<notin> fst ` set (objects w) \<and> objects w' = objects w @ [(obj, dir)] \<and>
          removeDir p obj w1 = (Inl e', w')))
    | Inr f \<Rightarrow> (n', w') = (n, w) \<or>
        n' = n\<lparr>files := AList.update (fileId f) f (files n)\<rparr> \<and> rootFiles w' = rootFiles w \<and>
        fileId f \<notin> fst ` set (objects w) \<and> (\<exists>dir. objects w' = objects w @ [(fileId f, dir)] \<and>
          map_of dir ''metadata.json'' = Some (marshal p f))"
  using put_cases [OF assms] storedAs_metadata by (auto simp: leftover_def split: sum.splits)

lemma put_all_or_nothing_witness:
  "\<exists>f n' w'. put testPlatform testNode ''alice'' ''a.json'' ''Chat/v1'' (ofBytes [1, 2, 3]) testWorld =
      (Inr f, n', w') \<and> map fst (files n') = [fileId f] \<and> map fst (objects w') = [fileId f]"
proof -
  obtain f n' w' where run: "put testPlatform testNode ''alice'' ''a.json'' ''Chat/v1'' (ofBytes [1, 2, 3]) testWorld =
      (Inr f, n', w')"
    by (rule testPut)
  have "f \<notin> snd ` set (files testNode)"
    by (simp add: testNode_def)
  then have "n' = testNode\<lparr>files := AList.update (fileId f) f (files testNode)\<rparr>"
    using put_cases [OF testPlatform_ok(1,2) testData(1,2) run] by auto
  then have "(n', w') \<noteq> (testNode, testWorld)"
    by (auto simp: testNode_def)
  then show ?thesis
    using put_all_or_nothing [OF testPlatform_ok(1,2) testData(1,2) run] run
    by (auto simp: testNode_def testWorld_def)
qed

lemma find_update:
  assumes "\<forall>f'\<in>snd ` set fs. \<not> P f'" and "P f"
  shows "find (\<lambda>(k, f). P f) (AList.update k f fs) = Some (k, f)"
  using assms by (induction fs) auto



lemma sum_zip_lengths:
  "length ks = length bs \<Longrightarrow> sum_list (map (\<lambda>(k, b). length b) (zip ks bs)) = sum_list (map length bs)"
  by (induction ks bs rule: list_induct2) simp_all

lemma usage_stored:
  assumes stored: "storedAs p n data f dir"
    and "nonceSize p = 12" and "\<And>key nonce m ad. length (sealWith p key nonce m ad) = length m + 16"
  shows "sum_list (map (\<lambda>(k, b). length b) dir) = 12 * ((sliceLen data + 7) div 8 + 28) + length (marshal p f)"
proof -
  let ?per = "(sliceLen data + 7) div 8"
  obtain r D payloads where D: "coded p r data D" and len: "length payloads = 12"
    and dir: "dir = zip (map natString [0..<12]) payloads @ [(''metadata.json'', marshal p f)]"
    and all: "\<And>i. i < 12 \<Longrightarrow> sealed p n (fileId f) i (D ! i) (payloads ! i)"
    using stored by (auto simp: storedAs_def)
  have "length (payloads ! i) = ?per + 28" if "i < 12" for i
    using all [OF that] D assms(2,3) that by (auto simp: sealed_def coded_def sameLength_def)
  then have "map length payloads = replicate 12 (?per + 28)"
    using len by (intro nth_equalityI) simp_all
  moreover have "length (map natString [0..<12]) = length payloads"
    by (simp add: len)
  ultimately show ?thesis
    unfolding dir by (simp only: map_append sum_list_append sum_zip_lengths) (simp add: sum_list_replicate)
qed

text \<open>
  How long the JSON text of a \<open>File\<close> can be: the names of the struct tags with their punctuation, the
  digits of numbers, and for strings at most six characters a byte (\<open>\u0000\<close>), of hexadecimal digits and
  dashes just one.
\<close>

definition jsonString :: "string \<Rightarrow> nat" where
  "jsonString s = 2 + sum_list (map (\<lambda>c. if c \<in> set (CHR ''-'' # hexChars) then 1 else 6) s)"

definition jsonInt :: "int \<Rightarrow> nat" where
  "jsonInt i = (if i < 0 then 1 else 0) + length (natString (nat \<bar>i\<bar>))"

definition jsonTags :: "string list \<Rightarrow> nat" where
  "jsonTags tags = 2 + sum_list (map (\<lambda>tag. length tag + 4) tags)"

definition jsonChunk :: "chunk \<Rightarrow> nat" where
  "jsonChunk c = jsonTags [''num'', ''id'', ''sha256'', ''size'', ''encrypted''] + jsonInt (chunkNum c) +
     jsonString (chunkId c) + jsonString (chunkSHA c) + jsonInt (chunkSize c) + 5"

definition jsonFile :: "fileMeta \<Rightarrow> nat" where
  "jsonFile f = jsonTags [''id'', ''name'', ''folder'', ''token'', ''size'', ''created_at'', ''status'', ''sha256'',
       ''data_shards'', ''parity_shards'', ''chunk_list''] +
     jsonString (fileId f) + jsonString (fileName f) + jsonString (fileFolder f) + jsonString (fileToken f) +
     jsonInt (fileSize f) + jsonString (fileCreated f) + jsonString (fileStatus f) + jsonString (fileSHA f) +
     jsonInt (fileData f) + jsonInt (fileParity f) + 4 + sum_list (map (\<lambda>c. jsonChunk c + 1) (fileChunks f))"

lemma jsonString_le: "jsonString s \<le> 2 + 6 * length s"
  unfolding jsonString_def by (induction s) auto

lemma jsonString_plain: "set s \<subseteq> set (CHR ''-'' # hexChars) \<Longrightarrow> jsonString s = 2 + length s"
proof -
  assume plain: "set s \<subseteq> set (CHR ''-'' # hexChars)"
  then have "map (\<lambda>c. if c \<in> set (CHR ''-'' # hexChars) then 1 else 6) s = map (\<lambda>c. 1 :: nat) s"
    by (intro map_cong refl) (simp only: subset_iff if_True)
  then show ?thesis
    by (simp only: jsonString_def) (simp add: sum_list_triv)
qed

lemma length_natString: "n < 10 ^ k \<Longrightarrow> 0 < k \<Longrightarrow> length (natString n) \<le> k"
proof (induction k arbitrary: n)
  case (Suc k)
  show ?case
  proof (cases "n < 10")
    case False
    then have "n div 10 < 10 ^ k" "0 < k"
      using Suc.prems by (cases k; auto)+
    then have "length (natString (n div 10)) \<le> k"
      by (rule Suc.IH)
    then show ?thesis
      using False by (subst natString.simps) simp
  qed (subst natString.simps; simp)
qed simp

lemma jsonInt_le: "0 \<le> i \<Longrightarrow> i < 10 ^ k \<Longrightarrow> 0 < k \<Longrightarrow> jsonInt i \<le> k"
proof -
  assume i: "0 \<le> i" "i < 10 ^ k" "0 < k"
  then have "nat i < 10 ^ k"
    by (simp add: nat_less_iff)
  then show ?thesis
    using length_natString i(1,3) by (simp add: jsonInt_def)
qed

lemma jsonString_uuid: "isUuid s \<Longrightarrow> jsonString s = 38"
  using isUuid_chars [of s] isUuid_length [of s] by (subst jsonString_plain) (auto simp only: subset_iff)

lemma jsonString_hash: "length (sha256 p b) = 32 \<Longrightarrow> jsonString (hash p b) = 66"
  using hexString_chars [of "sha256 p b"] unfolding hash_def
  by (subst jsonString_plain) (auto simp only: set_simps length_hexString)

text \<open>The metadata of a new object: its names are as long as \<open>put\<close> allows, all else is small.\<close>

lemma jsonFile_stored:
  assumes stored: "storedAs p n data f dir" and sizes: "sliceLen data \<le> MaxObject"
    and names: "\<not> badNames (fileToken f) (fileName f) (fileFolder f)" and uuid: "isUuid (fileId f)"
    and sha: "\<And>b. length (sha256 p b) = 32" and now: "\<And>e. length (fst (clock p e)) \<le> 30"
    and nonce: "nonceSize p = 12" and gcm: "\<And>key nonce m ad. length (sealWith p key nonce m ad) = length m + 16"
  shows "jsonFile f \<le> 7845"
proof -
  let ?per = "(sliceLen data + 7) div 8"
  obtain r D payloads where D: "coded p r data D" and cs: "length (fileChunks f) = 12"
    and all: "\<And>i. i < 12 \<Longrightarrow> sealed p n (fileId f) i (D ! i) (payloads ! i) \<and> chunkOf p i (payloads ! i) (fileChunks f ! i)"
    and f: "fileSize f = int (sliceLen data)" "fileSHA f = hash p (bytesOf data)" "fileData f = 8" "fileParity f = 4"
      "fileStatus f = ''stored''" "\<exists>e. fileCreated f = fst (clock p e)"
    using stored by (auto simp: storedAs_def)
  have "jsonChunk (fileChunks f ! i) + 1 \<le> 200" if "i < 12" for i
  proof -
    have "length (D ! i) = ?per"
      using D that by (simp add: coded_def sameLength_def)
    then have "length (payloads ! i) = ?per + 28"
      using all [OF that] nonce gcm by (auto simp: sealed_def)
    then have "jsonInt (chunkSize (fileChunks f ! i)) \<le> 8" "jsonInt (chunkNum (fileChunks f ! i)) \<le> 2"
      using all [OF that] that sizes by (auto simp: chunkOf_def MaxObject_def intro!: jsonInt_le)
    moreover have "jsonString (chunkId (fileChunks f ! i)) = 38" "jsonString (chunkSHA (fileChunks f ! i)) = 66"
      using all [OF that] jsonString_uuid jsonString_hash [of p, OF sha] by (simp_all add: chunkOf_def)
    ultimately show ?thesis
      by (simp add: jsonChunk_def jsonTags_def)
  qed
  then have "\<forall>c\<in>set (fileChunks f). jsonChunk c + 1 \<le> 200"
    using cs by (auto simp: in_set_conv_nth)
  then have "sum_list (map (\<lambda>c. jsonChunk c + 1) (fileChunks f)) \<le> sum_list (map (\<lambda>c. 200) (fileChunks f))"
    by (intro sum_list_mono) blast
  then have chunks: "sum_list (map (\<lambda>c. jsonChunk c + 1) (fileChunks f)) \<le> 2400"
    using cs by (simp add: sum_list_triv)
  have "jsonInt (fileSize f) \<le> 8" "jsonInt (fileData f) \<le> 1" "jsonInt (fileParity f) \<le> 1"
    using sizes by (auto simp: f MaxObject_def intro!: jsonInt_le)
  moreover have "jsonString (fileName f) \<le> 1202" "jsonString (fileFolder f) \<le> 1202" "jsonString (fileToken f) \<le> 1538"
    using names jsonString_le [of "fileName f"] jsonString_le [of "fileFolder f"] jsonString_le [of "fileToken f"]
    by (auto simp: badNames_def)
  moreover have "length (fileCreated f) \<le> 30" "length (fileStatus f) = 6"
    using f(5,6) now by auto
  then have "jsonString (fileCreated f) \<le> 182" "jsonString (fileStatus f) \<le> 38"
    using jsonString_le [of "fileCreated f"] jsonString_le [of "fileStatus f"] by linarith+
  moreover have "jsonString (fileId f) = 38" "jsonString (fileSHA f) = 66"
    using jsonString_uuid [OF uuid] jsonString_hash [of p, OF sha] f(2) by simp_all
  ultimately show ?thesis
    using chunks by (simp add: jsonFile_def jsonTags_def)
qed

text \<open>
  C21. The storage never exceeds the quota through a \<open>put\<close> that succeeds: a storage within the quota
  stays so.  The bound checked before the object is stored, twice its length and 8 KB, covers the
  twelve sealed shards and the metadata.  AES-GCM adds its nonce of 12 and its tag of 16 bytes to a
  shard, a SHA-256 sum has 32 bytes, a time in RFC 3339 at most 30 characters, and the JSON text is
  at most as long as \<open>jsonFile\<close> says; that the
  metadata fits is due to the limits of \<open>put\<close> on the lengths of token, name, folder and data.
\<close>

theorem put_within_quota:
  assumes "cpuOk (pArch p) (pCpu p)" and "drawOk p" and "sliceWf data" and "roomy data"
    and "nonceSize p = 12" and "\<And>key nonce m ad. length (sealWith p key nonce m ad) = length m + 16"
    and "\<And>b. length (sha256 p b) = 32" and "\<And>e. length (fst (clock p e)) \<le> 30"
    and "\<And>f. length (marshal p f) \<le> jsonFile f"
    and "put p n token name folder data w = (Inr f, n', w')" and "int (usage w) \<le> quota n"
  shows "int (usage w') \<le> quota n"
proof (cases "(n', w') = (n, w)")
  case True
  then show ?thesis
    using assms(11) by simp
next
  case False
  then obtain dir where quota: "int (usage w) + int (sliceLen data) * 2 + 8192 \<le> quota n"
    and objs: "objects w' = objects w @ [(fileId f, dir)]" and stored: "storedAs p n data f dir"
    and pos: "0 < sliceLen data" "sliceLen data \<le> MaxObject" and uuid: "isUuid (fileId f)"
    and names: "\<not> badNames (fileToken f) (fileName f) (fileFolder f)"
    using put_cases [OF assms(1-4,10)] by (auto simp: sameObject_def)
  have "length (marshal p f) \<le> 7845"
    using assms(9) [of f] jsonFile_stored [OF stored pos(2) names uuid assms(7,8,5,6)] by linarith
  moreover have "8 * ((sliceLen data + 7) div 8) \<le> sliceLen data + 7"
    by simp
  moreover have "12 * (q + 28) + x \<le> k * 2 + 8192" if "8 * q \<le> k + 7" "x \<le> 7845" for q k x :: nat
    using that mult_le_mono2 [OF that(1), of 12] by simp
  ultimately have "12 * ((sliceLen data + 7) div 8 + 28) + length (marshal p f) \<le> sliceLen data * 2 + 8192"
    by blast
  moreover have "usage w' = usage w + (12 * ((sliceLen data + 7) div 8 + 28) + length (marshal p f))"
    using usage_stored [OF stored assms(5,6)] by (simp add: usage_def objs)
  ultimately show ?thesis
    using quota by linarith
qed

lemma put_within_quota_witness:
  "\<exists>f n' w'. put testPlatform testNode ''alice'' ''a.json'' ''Chat/v1'' (ofBytes [1, 2, 3]) testWorld = (Inr f, n', w') \<and>
    int (usage w') \<le> 10000"
proof -
  obtain f n' w' where run: "put testPlatform testNode ''alice'' ''a.json'' ''Chat/v1'' (ofBytes [1, 2, 3]) testWorld =
      (Inr f, n', w')"
    by (rule testPut)
  have "length (marshal testPlatform f) \<le> jsonFile f" for f
    by (simp add: testPlatform_def toBytes_def jsonFile_def jsonTags_def)
  then show ?thesis
    using put_within_quota [OF testPlatform_ok(1,2) testData(1,2) _ _ _ _ _ run] run
    by (auto simp: testPlatform_def testNode_def testWorld_def usage_def)
qed

text \<open>
  C22. A \<open>put\<close> with proper names and data within the limits and the quota succeeds, unless random
  bytes or the file system fail or the new UUID is already there.
\<close>

theorem put_succeeds:
  assumes "cpuOk (pArch p) (pCpu p)" and "neverFails p" and "sliceWf data" and "roomy data"
    and "\<not> badNames token name folder" and "0 < sliceLen data" and "sliceLen data \<le> MaxObject"
    and "int (usage w) + int (sliceLen data) * 2 + 8192 \<le> quota n"
    and "\<And>obj w'. uuid p w = (Inr obj, w') \<Longrightarrow> obj \<notin> fst ` set (objects w)"
  shows "\<exists>f n' w'. put p n token name folder data w = (Inr f, n', w')"
  using put_works [OF assms] .

lemma put_succeeds_witness:
  "\<exists>f n' w'. put testPlatform testNode ''bob'' ''b.json'' [] (ofBytes [4]) testWorld = (Inr f, n', w')"
  by (rule put_succeeds [OF testPlatform_ok(1,4)])
    (simp_all add: MaxObject_def testNode_def testWorld_def usage_def roomy_def ofBytes_def badNames_def
      containsAny_def containsDots_def)

end
