(* ===== verification/NodeHttp.thy ===== *)
theory NodeHttp
  imports NodeServe NodeProps
begin

text \<open>
  Properties of the HTTP interface of the mobile node: what the capability guards, and that an
  uploaded object can be downloaded.
\<close>

subsection \<open>Reading leaves the storage\<close>

lemma readShard_same: "readShard p n obj i c w = (s, w') \<Longrightarrow> sameFiles w w'"
  using keepsD [OF keeps_same(6) [of p "InObject obj (natString i)"], of w]
  by (auto simp: readShard_def split: prod.splits sum.splits if_splits option.splits)

lemma readShardsFrom_same: "keeps sameFiles (readShardsFrom p n obj i cs shards)"
proof (induction cs arbitrary: i shards)
  case (Cons c cs)
  show ?case
    unfolding keeps_def
  proof
    fix w
    obtain s w1 where run: "readShard p n obj i c w = (s, w1)"
      by (metis surj_pair)
    then have "sameFiles w w1"
      by (rule readShard_same)
    moreover have "sameFiles w1 (snd (readShardsFrom p n obj (i + 1) cs shards' w1))" for shards'
      using Cons.IH [of "i + 1" shards'] by (simp add: keeps_def)
    ultimately show "sameFiles w (snd (readShardsFrom p n obj i (c # cs) shards w))"
      using run sameFiles_trans by (auto split: option.splits)
  qed
qed simp

lemma read_same: "keeps sameFiles (read p n f)"
  unfolding read_def
  by (rule keeps_bind [OF readShardsFrom_same _ sameFiles_trans]) (simp_all add: keeps_def)

lemma serveFile_same: "serveFile p n req w = (resp, w') \<Longrightarrow> sameFiles w w'"
  using read_same [of p n]
  by (auto simp: serveFile_def Let_def keeps_def split: if_splits option.splits prod.splits sum.splits) (metis snd_conv)+

subsection \<open>What the capability guards\<close>

text \<open>\<open>io.ReadAll\<close> starts with a buffer of 512 bytes.\<close>

definition readAllCap :: "request \<Rightarrow> bool" where
  "readAllCap req \<longleftrightarrow> (case reqForm req of
     FormFile name folder rd spare \<Rightarrow> 512 \<le> length (take (MaxObject + 1) (rdData rd)) + length spare | _ \<Rightarrow> True)"

lemma readUpload_ok:
  assumes "readUpload rd spare = Inr data"
  shows "sliceWf data" and "bytesOf data = take (MaxObject + 1) (rdData rd)"
    and "sliceCap data = length (take (MaxObject + 1) (rdData rd)) + length spare"
  using assms by (auto simp: readUpload_def Let_def bytesOf_def sliceWf_def sliceCap_def min_def split: if_splits)

lemma serveUpload_cases:
  assumes "serveUpload p n req w = (resp, n', w')" and "readAllCap req"
  obtains (refused) "status resp \<noteq> 200" and "n' = n" and "w' = w"
  | (put) name folder rd spare data res where "reqForm req = FormFile name folder rd spare"
      and "readUpload rd spare = Inr data" and "sliceWf data" and "roomy data"
      and "put p n (reqToken req) name folder data w = (res, n', w')"
      and "status resp = 200 \<longleftrightarrow> (\<exists>f. res = Inr f)" and "\<And>f. res = Inr f \<Longrightarrow> resp = jsonResponse 200 (Meta f)"
proof (cases "reqForm req")
  case (FormFile name folder rd spare)
  show ?thesis
  proof (cases "readUpload rd spare")
    case (Inl e)
    then show ?thesis
      using refused assms(1) FormFile by (auto simp: serveUpload_def jsonResponse_def split: if_splits)
  next
    case (Inr data)
    obtain res n1 w1 where run: "put p n (reqToken req) name folder data w = (res, n1, w1)"
      by (metis prod_cases3)
    have "512 \<le> sliceCap data"
      using assms(2) FormFile readUpload_ok(3) [OF Inr] by (simp add: readAllCap_def)
    then have "roomy data"
      using readUpload_ok(1) [OF Inr] by (intro readAll_roomy)
    then show ?thesis
      using assms(1) FormFile Inr run refused put [OF FormFile Inr readUpload_ok(1) [OF Inr]]
      by (cases res) (auto simp: serveUpload_def jsonResponse_def split: if_splits)
  qed
qed (use assms(1) refused in \<open>auto simp: serveUpload_def jsonResponse_def split: if_splits\<close>)

text \<open>
  C17. Without the capability of the installation a request gets no content and changes nothing, and
  with it only an accepted upload changes the node, in its files alone.  The storage is changed by an
  accepted upload alone, or by a failing one whose new directory could not be removed.
\<close>

theorem serve_guarded:
  assumes "cpuOk (pArch p) (pCpu p)" and "drawOk p" and "readAllCap req"
    and "ServeHTTP p n req w = (resp, n', w')"
  shows "(reqKey req \<noteq> capability n \<longrightarrow> status resp \<in> {204, 401} \<and> respBody resp \<in> {NoBody,
      ErrorOf ''local node capability required''} \<and> n' = n \<and> w' = w) \<and>
    n' = n\<lparr>files := files n'\<rparr> \<and> rootFiles w' = rootFiles w \<and>
    (n' \<noteq> n \<longrightarrow> reqMethod req = ''POST'' \<and> reqPath req = ''/api/files/upload'' \<and> status resp = 200) \<and>
    (objects w' \<noteq> objects w \<longrightarrow> reqMethod req = ''POST'' \<and> reqPath req = ''/api/files/upload'' \<and>
      (status resp = 200 \<or> (\<exists>obj dir w1 e. objects w' = objects w @ [(obj, dir)] \<and> removeDir p obj w1 = (Inl e, w'))))"
proof -
  consider (options) "reqMethod req = ''OPTIONS''" | (unauthorized) "reqMethod req \<noteq> ''OPTIONS''" "reqKey req \<noteq> capability n"
    | (upload) "reqMethod req = ''POST''" "reqPath req = ''/api/files/upload''" "reqKey req = capability n"
      "serveUpload p n req w = (resp, n', w')"
    | (other) "reqKey req = capability n" "n' = n" "sameFiles w w'"
    using assms(4) by (auto simp: ServeHTTP_def split: if_splits prod.splits dest!: serveFile_same)
  then show ?thesis
  proof cases
    case upload
    from upload(4) assms(3) show ?thesis
    proof (cases rule: serveUpload_cases)
      case refused
      then show ?thesis
        using upload(3) by simp
    next
      case (put name folder rd spare data res)
      have "\<forall>f. res \<noteq> Inr f \<Longrightarrow> n' = n \<and> (objects w' = objects w \<or> leftover p data w w')"
        using put_cases [OF assms(1,2) put(3,4,5)] by (cases res) auto
      moreover have "n' = n\<lparr>files := files n'\<rparr> \<and> rootFiles w' = rootFiles w"
        using put_cases [OF assms(1,2) put(3,4,5)] by (cases res) auto
      ultimately show ?thesis
        using upload(1-3) put(6) unfolding leftover_def by metis
    qed
  qed (use assms(4) in \<open>auto simp: ServeHTTP_def jsonResponse_def sameFiles_def\<close>)
qed

subsection \<open>Upload and download\<close>

lemma splitSlash_end: "CHR ''/'' \<notin> set s \<Longrightarrow> splitSlash s = [s]"
  by (induction s) auto

lemma splitSlash_part: "CHR ''/'' \<notin> set s \<Longrightarrow> splitSlash (s @ CHR ''/'' # t) = s # splitSlash t"
  by (induction s) auto

definition downloadRequest :: "string \<Rightarrow> string \<Rightarrow> string \<Rightarrow> request" where
  "downloadRequest key token obj = \<lparr>reqMethod = ''GET'', reqPath = filesPrefix @ obj @ CHR ''/'' # ''download'',
     reqKey = key, reqToken = token, reqLength = 0, reqForm = BadForm\<rparr>"

lemma download_parts:
  assumes "isUuid obj"
  shows "splitSlash (obj @ CHR ''/'' # ''download'') = [obj, ''download'']" and "length (filesPrefix @ obj @ CHR ''/'' # ''download'') = 56"
proof -
  have "CHR ''/'' \<notin> set obj"
    using isUuid_chars [OF assms] by (auto simp: hexChars_def)
  then show "splitSlash (obj @ CHR ''/'' # ''download'') = [obj, ''download'']"
    using splitSlash_end [of "''download''"] by (simp add: splitSlash_part)
  show "length (filesPrefix @ obj @ CHR ''/'' # ''download'') = 56"
    using isUuid_length [OF assms] by (simp add: filesPrefix_def)
qed

lemma serve_get_file:
  assumes "isUuid obj"
  shows "ServeHTTP p n (downloadRequest (capability n) token obj) w =
    (case serveFile p n (downloadRequest (capability n) token obj) w of (resp, w) \<Rightarrow> (resp, n, w))"
proof -
  let ?path = "filesPrefix @ obj @ CHR ''/'' # ''download''"
  have "?path \<noteq> ''/api/stats''" "?path \<noteq> ''/api/health''" "?path \<noteq> ''/api/peers''" "?path \<noteq> ''/api/files/tree''"
    using download_parts(2) [OF assms] by auto
  moreover have "hasPrefix ?path filesPrefix"
    by (simp add: hasPrefix_def)
  ultimately show ?thesis
    by (simp add: ServeHTTP_def downloadRequest_def)
qed

lemma serve_download:
  assumes obj: "isUuid obj" and found: "map_of (files n) obj = Some f" "fileToken f = token" "token \<noteq> []"
    and run: "read p n f w = (Inr data, w')"
  shows "ServeHTTP p n (downloadRequest (capability n) token obj) w =
    (\<lparr>status = 200, respHeaders = commonHeaders @
        [(''Content-Type'', ''application/octet-stream''), (''X-CFS-SHA256'', fileSHA f)],
      respBody = Content (fileSHA f) (fileName f) data\<rparr>, n, w')"
  unfolding serve_get_file [OF obj]
  using obj found run download_parts(1) [OF obj] by (simp add: serveFile_def downloadRequest_def Let_def)

lemma serve_other_token:
  assumes obj: "isUuid obj" and found: "map_of (files n) obj = Some f" "fileToken f \<noteq> token"
  shows "fst (ServeHTTP p n (downloadRequest (capability n) token obj) w) = notFound"
  unfolding serve_get_file [OF obj]
  using obj found download_parts(1) [OF obj] by (simp add: serveFile_def downloadRequest_def Let_def)

text \<open>
  C9. An accepted upload can be downloaded by its owner.  Either the upload is new: then the download
  of the object whose metadata the upload returned gives the uploaded bytes in every later state of
  the storage in which eight of its shard files are left as they were and damage of the others is
  detected.  Or the node already has an object of this owner with the same name, folder and SHA-256:
  then that object is returned and nothing is stored, not even where its shards have been damaged
  since.
\<close>

theorem upload_download:
  assumes "cpuOk (pArch p) (pCpu p)" and "drawOk p" and "aeadOk p" and "readAllCap req"
    and "reqMethod req = ''POST''" and "reqPath req = ''/api/files/upload''"
    and "reqForm req = FormFile name folder rd spare"
    and "ServeHTTP p n req w = (resp, n', w')" and "status resp = 200"
  shows "\<exists>f. respBody resp = Meta f \<and>
    sameObject (reqToken req) name folder (hash p (take (MaxObject + 1) (rdData rd))) f \<and>
    (f \<in> snd ` set (files n) \<and> n' = n \<and> w' = w \<or>
     f \<notin> snd ` set (files n) \<and> (\<exists>dir. map_of (objects w') (fileId f) = Some dir \<and>
      (\<forall>w2. 8 \<le> card (intact dir (fileId f) w2) \<and> detectable p f dir w2 \<longrightarrow>
        ServeHTTP (calm p) n' (downloadRequest (capability n') (reqToken req) (fileId f)) w2 =
        (\<lparr>status = 200, respHeaders = commonHeaders @
            [(''Content-Type'', ''application/octet-stream''), (''X-CFS-SHA256'', fileSHA f)],
          respBody = Content (fileSHA f) name (take (MaxObject + 1) (rdData rd))\<rparr>, n', w2))))"
proof -
  have "serveUpload p n req w = (resp, n', w')"
    using assms(5,6,8,9) by (auto simp: ServeHTTP_def jsonResponse_def split: if_splits)
  from this assms(4) obtain data f where data: "readUpload rd spare = Inr data" "sliceWf data" "roomy data"
    and run: "put p n (reqToken req) name folder data w = (Inr f, n', w')" and resp: "resp = jsonResponse 200 (Meta f)"
    using assms(7,9) by (cases rule: serveUpload_cases) auto
  let ?same = "sameObject (reqToken req) name folder (hash p (bytesOf data))"
  have same: "?same f"
    using put_cases [OF assms(1,2) data(2,3) run] by auto
  consider (known) "f \<in> snd ` set (files n)" "n' = n" "w' = w"
    | (new) dir where "\<forall>f'\<in>snd ` set (files n). \<not> ?same f'" "n' = n\<lparr>files := AList.update (fileId f) f (files n)\<rparr>"
      "fileId f \<notin> fst ` set (objects w)" "objects w' = objects w @ [(fileId f, dir)]" "storedAs p n data f dir"
      "isUuid (fileId f)" "0 < sliceLen data" "\<not> badNames (reqToken req) name folder"
    using put_cases [OF assms(1,2) data(2,3) run] by auto
  then show ?thesis
  proof cases
    case known
    then show ?thesis
      using same resp readUpload_ok(2) [OF data(1)] by (auto simp: jsonResponse_def)
  next
    case new
    have found: "map_of (files n') (fileId f) = Some f" "fileToken f = reqToken req" "reqToken req \<noteq> []" "fileName f = name"
      using new(2,8) same by (auto simp: AList.update_conv' sameObject_def badNames_def)
    have key: "aeadKey n' = aeadKey n"
      by (simp add: new(2))
    have "ServeHTTP (calm p) n' (downloadRequest (capability n') (reqToken req) (fileId f)) w2 =
        (\<lparr>status = 200, respHeaders = commonHeaders @
            [(''Content-Type'', ''application/octet-stream''), (''X-CFS-SHA256'', fileSHA f)],
          respBody = Content (fileSHA f) name (take (MaxObject + 1) (rdData rd))\<rparr>, n', w2)"
      if "8 \<le> card (intact dir (fileId f) w2)" "detectable p f dir w2" for w2
      using serve_download [OF new(6) found(1-3) read_stored [OF new(5) assms(3) key data(2) new(7) that]]
        found(4) readUpload_ok(2) [OF data(1)] by simp
    moreover have "map_of (objects w') (fileId f) = Some dir"
      using new(3,4) map_of_last by simp
    ultimately show ?thesis
      using resp same new(1) readUpload_ok(2) [OF data(1)] by (auto simp: jsonResponse_def)
  qed
qed

subsection \<open>Witnesses\<close>

definition testUpload :: request where
  "testUpload = \<lparr>reqMethod = ''POST'', reqPath = ''/api/files/upload'', reqKey = ''secret'', reqToken = ''alice'',
     reqLength = 400, reqForm = FormFile ''a.json'' ''Chat/v1'' (ofData [1, 2, 3]) (replicate 509 0)\<rparr>"

lemma testUpload_cap: "readAllCap testUpload"
  by (simp add: readAllCap_def testUpload_def ofData_def MaxObject_def)

lemma testServe:
  obtains resp n' w' where "ServeHTTP testPlatform testNode testUpload testWorld = (resp, n', w')" and "status resp = 200"
proof -
  let ?data = "Slice ([1, 2, 3] @ replicate 509 0) 3"
  have read: "readUpload (ofData [1, 2, 3]) (replicate 509 0) = Inr ?data"
    by (simp add: readUpload_def ofData_def MaxObject_def)
  have "\<exists>f n' w'. put testPlatform testNode ''alice'' ''a.json'' ''Chat/v1'' ?data testWorld = (Inr f, n', w')"
    by (rule put_works [OF testPlatform_ok(1,4) _ _ testData(3)])
      (simp_all add: MaxObject_def testNode_def testWorld_def usage_def roomy_def sliceCap_def sliceWf_def)
  then obtain f n' w' where "put testPlatform testNode ''alice'' ''a.json'' ''Chat/v1'' ?data testWorld = (Inr f, n', w')"
    by blast
  then have "ServeHTTP testPlatform testNode testUpload testWorld = (jsonResponse 200 (Meta f), n', w')"
    using read by (simp add: ServeHTTP_def serveUpload_def testUpload_def testNode_def MaxObject_def)
  then show ?thesis
    by (rule that) (simp add: jsonResponse_def)
qed

lemma serve_guarded_witness:
  "\<exists>resp n' w'. ServeHTTP testPlatform testNode testUpload testWorld = (resp, n', w') \<and> rootFiles w' = [] \<and>
    capability n' = ''secret''"
proof -
  obtain resp n' w' where run: "ServeHTTP testPlatform testNode testUpload testWorld = (resp, n', w')"
    by (rule testServe)
  have "n' = testNode\<lparr>files := files n'\<rparr> \<and> rootFiles w' = rootFiles testWorld"
    using serve_guarded [OF testPlatform_ok(1,2) testUpload_cap run] by blast
  then have "capability n' = capability (testNode\<lparr>files := files n'\<rparr>)" "rootFiles w' = []"
    by (simp_all add: testWorld_def)
  then show ?thesis
    using run by (auto simp: testNode_def)
qed

definition testFile :: "string \<Rightarrow> string \<Rightarrow> fileMeta" where
  "testFile obj token = \<lparr>fileId = obj, fileName = ''x'', fileFolder = [], fileToken = token, fileSize = 1,
     fileCreated = [], fileStatus = ''stored'', fileSHA = [], fileData = 8, fileParity = 4, fileChunks = []\<rparr>"

lemma upload_download_witness:
  "\<exists>resp n' w' f. ServeHTTP testPlatform testNode testUpload testWorld = (resp, n', w') \<and> respBody resp = Meta f \<and>
    respBody (fst (ServeHTTP (calm testPlatform) n' (downloadRequest ''secret'' ''alice'' (fileId f)) w')) =
      Content (fileSHA f) ''a.json'' [1, 2, 3]"
proof -
  obtain resp n' w' where run: "ServeHTTP testPlatform testNode testUpload testWorld = (resp, n', w')" "status resp = 200"
    by (rule testServe)
  have req: "reqMethod testUpload = ''POST''" "reqPath testUpload = ''/api/files/upload''"
    "reqForm testUpload = FormFile ''a.json'' ''Chat/v1'' (ofData [1, 2, 3]) (replicate 509 0)"
    by (simp_all add: testUpload_def)
  have none: "f \<notin> snd ` set (files testNode)" for f
    by (simp add: testNode_def)
  obtain f dir where f: "respBody resp = Meta f" "map_of (objects w') (fileId f) = Some dir"
    and all: "\<And>w2. 8 \<le> card (intact dir (fileId f) w2) \<and> detectable testPlatform f dir w2 \<Longrightarrow>
      ServeHTTP (calm testPlatform) n' (downloadRequest (capability n') (reqToken testUpload) (fileId f)) w2 =
      (\<lparr>status = 200, respHeaders = commonHeaders @
          [(''Content-Type'', ''application/octet-stream''), (''X-CFS-SHA256'', fileSHA f)],
        respBody = Content (fileSHA f) ''a.json'' (take (MaxObject + 1) (rdData (ofData [1, 2, 3])))\<rparr>, n', w2)"
    using upload_download [OF testPlatform_ok(1-3) testUpload_cap req run] none by blast
  have "intact dir (fileId f) w' = {..<12}"
    using f(2) by (auto simp: intact_def)
  then have "8 \<le> card (intact dir (fileId f) w') \<and> detectable testPlatform f dir w'"
    by (simp add: detectable_def)
  note got = all [OF this]
  have "serveUpload testPlatform testNode testUpload testWorld = (resp, n', w')"
    using run by (auto simp: ServeHTTP_def jsonResponse_def testUpload_def testNode_def)
  from this testUpload_cap have "capability n' = ''secret''"
  proof (cases rule: serveUpload_cases)
    case (put name folder rd spare data res)
    then show ?thesis
      using put_cases [OF testPlatform_ok(1,2) put(3,4,5)] by (cases res) (auto simp: testNode_def)
  qed (simp add: testNode_def)
  then show ?thesis
    using run(1) f(1) got by (auto simp: testUpload_def ofData_def MaxObject_def)
qed

end
