(* ===== verification/NodeOpen.thy ===== *)
theory NodeOpen
  imports NodeHttp
begin

text \<open>
  The life of a node: \<open>Open\<close>, \<open>Start\<close>, \<open>Close\<close> and \<open>Descriptor\<close> of \<open>lib/mobile/node.go\<close>, and the
  functions that \<open>lib/cmd/android-node/main_android.go\<close> exports to the app.  What the package
  \<open>net\<close> says about addresses is the record \<open>network\<close>.
\<close>

subsection \<open>\<open>Open\<close>\<close>

record config =
  cfgRoot :: string
  cfgListen :: string
  cfgQuota :: int

text \<open>\<open>os.Stat\<close> on the two files without which existing storage is not opened.\<close>

fun statFiles :: "'e platform \<Rightarrow> string list \<Rightarrow> ('e world, unit) io" where
  "statFiles p [] = ret ()"
| "statFiles p (name # names) = (\<lambda>w.
     case bindIo (sysCall p) (\<lambda>_ w. if load (InRoot name) w = None then (Inl IoNotExist, w) else (Inr (), w)) w of
       (Inl e, w) \<Rightarrow>
         (Inl (NodeError (''existing encrypted storage is missing '' @ name @ ''; restore the original node backup'')), w)
     | (Inr _, w) \<Rightarrow> statFiles p names w)"

definition nodeIdOf :: "'e platform \<Rightarrow> ('e world, byte list) io" where
  "nodeIdOf p w =
     (case readFile p (InRoot ''node_id'') w of
        (Inr b, w) \<Rightarrow> (Inr b, w)
      | (Inl e, w) \<Rightarrow>
          if e \<noteq> IoNotExist then (Inl e, w)
          else bindIo (uuid p) (\<lambda>i. bindIo (atomic p (InRoot ''node_id'') (toBytes i)) (\<lambda>_. ret (toBytes i))) w)"

definition metaOk :: "string \<Rightarrow> fileMeta \<Rightarrow> bool" where
  "metaOk obj f \<longleftrightarrow> fileId f = obj \<and> 0 \<le> fileSize f \<and> fileSize f \<le> int MaxObject \<and>
     fileData f = int nodeData \<and> fileParity f = int nodeParity \<and>
     length (fileChunks f) = nodeData + nodeParity"

text \<open>The loop over the object directories.\<close>

fun loadEntries :: "'e platform \<Rightarrow> string list \<Rightarrow> (string \<times> fileMeta) list \<Rightarrow>
    ('e world, (string \<times> fileMeta) list) io" where
  "loadEntries p [] fs = ret fs"
| "loadEntries p (obj # objs) fs = (\<lambda>w.
     if \<not> isUuid obj then loadEntries p objs fs w
     else
       (case readFile p (InObject obj ''metadata.json'') w of
          (Inl e, w) \<Rightarrow> if e = IoNotExist then loadEntries p objs fs w else (Inl e, w)
        | (Inr raw, w) \<Rightarrow>
            (case unmarshal p raw of
               None \<Rightarrow> (Inl (NodeError ''damaged node metadata; storage preserved''), w)
             | Some f \<Rightarrow>
                 if \<not> metaOk obj f then (Inl (NodeError ''damaged node metadata; storage preserved''), w)
                 else loadEntries p objs (AList.update (fileId f) f fs) w)))"

text \<open>\<open>os.ReadDir\<close> sorts the entries by name.\<close>

definition readObjects :: "'e platform \<Rightarrow> ('e world, string list) io" where
  "readObjects p = bindIo (sysCall p) (\<lambda>_ w. (Inr (sort (map fst (objects w))), w))"

definition Open :: "'e platform \<Rightarrow> config \<Rightarrow> ('e world, node) io" where
  "Open p c =
     (let q = (if cfgQuota c = 0 then 512 * 1024 * 1024 else cfgQuota c) in
      if cfgRoot c = [] then fail (NodeError ''private storage directory required'')
      else if q < 1024 then fail (NodeError ''invalid quota'')
      else
        bindIo (sysCall p) (\<lambda>_.
        bindIo (readObjects p) (\<lambda>existing.
        bindIo (if existing \<noteq> [] then statFiles p [''encryption.key'', ''node_id''] else ret ()) (\<lambda>_.
        bindIo (secret p ''encryption.key'' 32) (\<lambda>key.
        bindIo (secret p ''local.capability'' 32) (\<lambda>cap.
        bindIo (nodeIdOf p) (\<lambda>idBytes.
        if \<not> isUuid (toString idBytes) then fail (NodeError ''invalid existing node UUID'')
        else
          bindIo (readObjects p) (\<lambda>entries.
          bindIo (loadEntries p entries []) (\<lambda>fs.
          ret \<lparr>nodeId = toString idBytes, capability = hexString cap, nodeUrl = [], quota = q,
            aeadKey = key, files = fs, listening = False\<rparr>)))))))))"

subsection \<open>\<open>Start\<close>, \<open>Close\<close> and \<open>Descriptor\<close>\<close>

record network =
  loopbackAddress :: "string \<Rightarrow> bool"
  listenOn :: "string \<Rightarrow> string result"
  shutdownServer :: "unit result"

definition Start :: "network \<Rightarrow> string \<Rightarrow> node \<Rightarrow> node result" where
  "Start net address n =
     (let address = (if address = [] then ''127.0.0.1:0'' else address) in
      if \<not> loopbackAddress net address
      then Inl (NodeError ''mobile node must bind to a loopback address'')
      else bind_result (listenOn net address) (\<lambda>bound.
        Inr (n\<lparr>listening := True, nodeUrl := ''http://'' @ bound\<rparr>)))"

definition Close :: "network \<Rightarrow> node \<Rightarrow> unit result" where
  "Close net n = (if \<not> listening n then Inr () else shutdownServer net)"

record descriptor =
  descRunning :: bool
  descUrl :: string
  descNodeId :: string
  descCapability :: string
  descVersion :: string

definition Descriptor :: "node \<Rightarrow> descriptor" where
  "Descriptor n = \<lparr>descRunning = listening n, descUrl = nodeUrl n, descNodeId = nodeId n,
     descCapability = capability n, descVersion = ''mobile-1''\<rparr>"

subsection \<open>The Android library\<close>

datatype reply = Described descriptor | NotRunning | Failed error

text \<open>The variable \<open>running\<close>, with the storage, is the state of the exported functions.\<close>

definition CFSStart :: "(string \<Rightarrow> config option) \<Rightarrow> network \<Rightarrow> 'e platform \<Rightarrow> string \<Rightarrow>
    node option \<times> 'e world \<Rightarrow> reply \<times> node option \<times> 'e world" where
  "CFSStart parse net p raw s =
     (case s of
        (Some n, w) \<Rightarrow> (Described (Descriptor n), Some n, w)
      | (None, w) \<Rightarrow>
          (case parse raw of
             None \<Rightarrow> (Failed (NodeError ''invalid node configuration''), None, w)
           | Some cfg \<Rightarrow>
               (case bindIo (Open p cfg) (\<lambda>n w. (Start net (cfgListen cfg) n, w)) w of
                  (Inl e, w) \<Rightarrow> (Failed e, None, w)
                | (Inr n, w) \<Rightarrow> (Described (Descriptor n), Some n, w))))"

definition CFSState :: "node option \<times> 'e world \<Rightarrow> reply" where
  "CFSState s = (case fst s of None \<Rightarrow> NotRunning | Some n \<Rightarrow> Described (Descriptor n))"

definition CFSStop :: "node option \<times> 'e world \<Rightarrow> node option \<times> 'e world" where
  "CFSStop s = (None, snd s)"

subsection \<open>The node program\<close>

text \<open>
  \<open>main\<close> of \<open>lib/cmd/mobile-node/main.go\<close> up to the wait for a signal: \<open>json\<close> is the text of a
  descriptor, and a panic stands for a \<open>runtime.json\<close> that cannot be written.  \<open>os.WriteFile\<close> first
  empties the file; a write that fails leaves it empty.
\<close>

definition writeRuntime :: "'e platform \<Rightarrow> byte list \<Rightarrow> ('e world, unit) io" where
  "writeRuntime p b =
     bindIo (\<lambda>w. case sysCall p w of (Inl e, w) \<Rightarrow> (Inl Panic, w) | (Inr _, w) \<Rightarrow> (Inr (), store (InRoot ''runtime.json'') [] w))
       (\<lambda>_ w. case sysCall p w of (Inl e, w) \<Rightarrow> (Inl Panic, w) | (Inr _, w) \<Rightarrow> (Inr (), store (InRoot ''runtime.json'') b w))"

definition nodeProgram :: "network \<Rightarrow> (descriptor \<Rightarrow> byte list) \<Rightarrow> 'e platform \<Rightarrow> string \<Rightarrow> string \<Rightarrow> ('e world, node) io" where
  "nodeProgram net json p root listen =
     bindIo (Open p \<lparr>cfgRoot = root, cfgListen = [], cfgQuota = 0\<rparr>) (\<lambda>n.
     bindIo (\<lambda>w. (Start net listen n, w)) (\<lambda>n.
     bindIo (writeRuntime p (json (Descriptor n))) (\<lambda>_. ret n)))"

end
