(* ===== verification/NodeJson.thy ===== *)
theory NodeJson
  imports NodeOpen
begin

text \<open>
  What \<open>encoding/json\<close> is relied on for where a node is opened again.  The package writes strings as
  valid UTF-8: a byte that is not part of an encoded character becomes U+FFFD.  So the metadata read
  back is not the metadata written where a token, a name or a folder, which \<open>put\<close> does not check, is
  not valid UTF-8.  \<open>validString\<close> is that coercion, and \<open>jsonOk\<close> says that a \<open>File\<close> comes back from its
  JSON text with its strings coerced and its numbers as they were.
\<close>

subsection \<open>Coercion to UTF-8\<close>

definition charByte :: "char \<Rightarrow> nat" where
  "charByte c = of_char c"

text \<open>The number of bytes of the encoded character at the head of a string, 0 where there is none.\<close>

definition sequenceLength :: "nat \<Rightarrow> nat" where
  "sequenceLength b =
     (if b < 0x80 then 1 else if 0xC2 \<le> b \<and> b \<le> 0xDF then 2 else if 0xE0 \<le> b \<and> b \<le> 0xEF then 3
      else if 0xF0 \<le> b \<and> b \<le> 0xF4 then 4 else 0)"

definition secondLow :: "nat \<Rightarrow> nat" where
  "secondLow b = (if b = 0xE0 then 0xA0 else if b = 0xF0 then 0x90 else 0x80)"

definition secondHigh :: "nat \<Rightarrow> nat" where
  "secondHigh b = (if b = 0xED then 0x9F else if b = 0xF4 then 0x8F else 0xBF)"

fun runeLength :: "string \<Rightarrow> nat" where
  "runeLength [] = 0"
| "runeLength (c # cs) =
     (let b = charByte c; k = sequenceLength b; tail = take (k - 1) cs in
      if length tail = k - 1 \<and> list_all (\<lambda>t. 0x80 \<le> charByte t \<and> charByte t \<le> 0xBF) tail \<and>
         (tail = [] \<or> secondLow b \<le> charByte (hd tail) \<and> charByte (hd tail) \<le> secondHigh b)
      then k else 0)"

fun validString :: "string \<Rightarrow> string" where
  "validString [] = []"
| "validString (c # cs) =
     (case runeLength (c # cs) of
        0 \<Rightarrow> [CHR 0xEF, CHR 0xBF, CHR 0xBD] @ validString cs
      | Suc k \<Rightarrow> c # take k cs @ validString (drop k cs))"

definition validMeta :: "fileMeta \<Rightarrow> fileMeta" where
  "validMeta f = f\<lparr>fileId := validString (fileId f), fileName := validString (fileName f),
     fileFolder := validString (fileFolder f), fileToken := validString (fileToken f),
     fileCreated := validString (fileCreated f), fileStatus := validString (fileStatus f),
     fileSHA := validString (fileSHA f),
     fileChunks := map (\<lambda>c. c\<lparr>chunkId := validString (chunkId c), chunkSHA := validString (chunkSHA c)\<rparr>) (fileChunks f)\<rparr>"

definition jsonOk :: "'e platform \<Rightarrow> bool" where
  "jsonOk p \<longleftrightarrow> (\<forall>f. unmarshal p (marshal p f) = Some (validMeta f))"

lemma validString_ascii: "\<forall>c\<in>set s. charByte c < 128 \<Longrightarrow> validString s = s"
  by (induction s) (simp_all add: sequenceLength_def Let_def)

lemma uuid_ascii:
  assumes "isUuid s"
  shows "validString s = s"
proof (rule validString_ascii, intro ballI)
  fix c assume "c \<in> set s"
  then have "c \<in> set (CHR ''-'' # hexChars)"
    using isUuid_chars [OF assms] by blast
  moreover have "\<forall>c\<in>set (CHR ''-'' # hexChars). charByte c < 128"
    unfolding list_all_iff [symmetric] by code_simp
  ultimately show "charByte c < 128"
    by blast
qed

lemma validMeta_metaOk: "isUuid obj \<Longrightarrow> metaOk obj f \<Longrightarrow> metaOk obj (validMeta f)"
  by (simp add: metaOk_def validMeta_def uuid_ascii)

subsection \<open>A small codec for the witnesses\<close>

text \<open>Strings and numbers in unary, one after the other.\<close>

definition putStr :: "string \<Rightarrow> byte list" where
  "putStr s = concat (map (\<lambda>c. [1, word_of_nat (of_char c)]) s) @ [0]"

fun getStr :: "byte list \<Rightarrow> (string \<times> byte list) option" where
  "getStr [] = None"
| "getStr [b] = (if b = 0 then Some ([], []) else None)"
| "getStr (b # c # r) =
     (if b = 0 then Some ([], c # r) else map_option (\<lambda>(s, r). (char_of (unat c) # s, r)) (getStr r))"

definition putNat :: "nat \<Rightarrow> byte list" where
  "putNat n = replicate n 1 @ [0]"

fun getNat :: "byte list \<Rightarrow> (nat \<times> byte list) option" where
  "getNat [] = None"
| "getNat (b # r) = (if b = 0 then Some (0, r) else map_option (\<lambda>(n, r). (Suc n, r)) (getNat r))"

definition putInt :: "int \<Rightarrow> byte list" where
  "putInt i = putNat (nat i) @ putNat (nat (- i))"

definition getInt :: "byte list \<Rightarrow> (int \<times> byte list) option" where
  "getInt r = Option.bind (getNat r) (\<lambda>(m, r). Option.bind (getNat r) (\<lambda>(k, r). Some (int m - int k, r)))"

definition putChunk :: "chunk \<Rightarrow> byte list" where
  "putChunk c = putInt (chunkNum c) @ putStr (chunkId c) @ putStr (chunkSHA c) @ putInt (chunkSize c) @
     putNat (if chunkEncrypted c then 1 else 0)"

definition getChunk :: "byte list \<Rightarrow> (chunk \<times> byte list) option" where
  "getChunk r = Option.bind (getInt r) (\<lambda>(num, r). Option.bind (getStr r) (\<lambda>(cid, r).
     Option.bind (getStr r) (\<lambda>(sha, r). Option.bind (getInt r) (\<lambda>(len, r). Option.bind (getNat r) (\<lambda>(enc, r).
     Some (\<lparr>chunkNum = num, chunkId = cid, chunkSHA = sha, chunkSize = len, chunkEncrypted = (enc = 1)\<rparr>, r))))))"

fun getChunks :: "nat \<Rightarrow> byte list \<Rightarrow> (chunk list \<times> byte list) option" where
  "getChunks 0 r = Some ([], r)"
| "getChunks (Suc k) r = Option.bind (getChunk r) (\<lambda>(c, r). Option.bind (getChunks k r) (\<lambda>(cs, r). Some (c # cs, r)))"

definition putMeta :: "fileMeta \<Rightarrow> byte list" where
  "putMeta f = putStr (fileId f) @ putStr (fileName f) @ putStr (fileFolder f) @ putStr (fileToken f) @
     putInt (fileSize f) @ putStr (fileCreated f) @ putStr (fileStatus f) @ putStr (fileSHA f) @
     putInt (fileData f) @ putInt (fileParity f) @ putNat (length (fileChunks f)) @ concat (map putChunk (fileChunks f))"

definition getMeta :: "byte list \<Rightarrow> fileMeta option" where
  "getMeta r = Option.bind (getStr r) (\<lambda>(i, r). Option.bind (getStr r) (\<lambda>(name, r). Option.bind (getStr r) (\<lambda>(folder, r).
     Option.bind (getStr r) (\<lambda>(token, r). Option.bind (getInt r) (\<lambda>(len, r). Option.bind (getStr r) (\<lambda>(created, r).
     Option.bind (getStr r) (\<lambda>(state, r). Option.bind (getStr r) (\<lambda>(sha, r). Option.bind (getInt r) (\<lambda>(data, r).
     Option.bind (getInt r) (\<lambda>(parity, r). Option.bind (getNat r) (\<lambda>(k, r). Option.bind (getChunks k r) (\<lambda>(cs, r).
     Some \<lparr>fileId = i, fileName = name, fileFolder = folder, fileToken = token, fileSize = len,
       fileCreated = created, fileStatus = state, fileSHA = sha, fileData = data, fileParity = parity,
       fileChunks = cs\<rparr>))))))))))))"

lemma getStr_putStr [simp]: "getStr (putStr s @ r) = Some (s, r)"
proof (induction s)
  case Nil
  then show ?case
    by (cases r) (simp_all add: putStr_def)
next
  case (Cons c s)
  then show ?case
    by (simp add: putStr_def char_of_byte)
qed

lemma getNat_putNat [simp]: "getNat (putNat n @ r) = Some (n, r)"
  by (induction n) (simp_all add: putNat_def)

lemma getInt_putInt [simp]: "getInt (putInt i @ r) = Some (i, r)"
  by (simp add: getInt_def putInt_def)

lemma getChunk_putChunk [simp]: "getChunk (putChunk c @ r) = Some (c, r)"
  by (simp add: getChunk_def putChunk_def)

lemma getChunks_putChunks: "getChunks (length cs) (concat (map putChunk cs) @ r) = Some (cs, r)"
  by (induction cs) simp_all

lemma getMeta_putMeta: "getMeta (putMeta f) = Some f"
  using getChunks_putChunks [of "fileChunks f" "[]"] by (simp add: getMeta_def putMeta_def)

definition testJson :: "nat platform" where
  "testJson = testPlatform\<lparr>marshal := (\<lambda>f. putMeta (validMeta f)), unmarshal := getMeta\<rparr>"

lemma testJson_ok:
  "cpuOk (pArch testJson) (pCpu testJson)" "drawOk testJson" "neverFails testJson" "calm testJson = testJson" "jsonOk testJson"
  using testPlatform_ok
  by (simp_all add: testJson_def drawOk_def neverFails_def calm_def testPlatform_def jsonOk_def getMeta_putMeta)

end
