(* ===== verification/NodeOwners.thy ===== *)
theory NodeOwners
  imports NodeHttp
begin

text \<open>
  Isolation of the owner tokens, as a property of two runs of the same node.  Two states look the
  same to a token when they have the same objects of that token and differ at most in those of
  others; of the others' objects only the names of their directories and the number of bytes in
  use are the same.  A request of that token is answered alike in both states, and leaves states
  that look the same to it again.
\<close>

subsection \<open>Computations that two related states do not tell apart\<close>

definition agree :: "('s \<Rightarrow> 's \<Rightarrow> bool) \<Rightarrow> ('s, 'a) io \<Rightarrow> bool" where
  "agree R m \<longleftrightarrow> (\<forall>s s2. R s s2 \<longrightarrow> fst (m s2) = fst (m s) \<and> R (snd (m s)) (snd (m s2)))"

lemma agreeD:
  assumes "agree R m" and "R s s2" and "m s = (r, s')" and "m s2 = (r2, s2')"
  shows "r2 = r" and "R s' s2'"
  using assms unfolding agree_def by (metis fst_conv, metis snd_conv)

lemma agreeI:
  assumes "\<And>s s2 r s' r2 s2'. R s s2 \<Longrightarrow> m s = (r, s') \<Longrightarrow> m s2 = (r2, s2') \<Longrightarrow> r2 = r \<and> R s' s2'"
  shows "agree R m"
  unfolding agree_def using assms by (metis prod.collapse)

lemma agree_bind:
  assumes "agree R m" and "\<And>x. agree R (f x)"
  shows "agree R (bindIo m f)"
proof (rule agreeI)
  fix s s2 r s' r2 s2'
  assume rel: "R s s2" and run: "bindIo m f s = (r, s')" "bindIo m f s2 = (r2, s2')"
  obtain x t where m1: "m s = (x, t)"
    by (metis surj_pair)
  obtain x2 t2 where m2: "m s2 = (x2, t2)"
    by (metis surj_pair)
  have same: "x2 = x" "R t t2"
    using agreeD [OF assms(1) rel m1 m2] .
  show "r2 = r \<and> R s' s2'"
  proof (cases x)
    case (Inl e)
    then show ?thesis
      using run m1 m2 same by (simp add: bindIo_def)
  next
    case (Inr y)
    then have "f y t = (r, s')" "f y t2 = (r2, s2')"
      using run m1 m2 same by (simp_all add: bindIo_def)
    then show ?thesis
      using agreeD [OF assms(2) same(2)] by blast
  qed
qed

lemma agree_ret [simp]: "agree R (ret x)" "agree R (fail e)" "agree R (Pair r)"
  by (simp_all add: agree_def)

lemma agree_mapIo: "(\<And>x. agree R (f x)) \<Longrightarrow> agree R (mapIo f xs)"
  by (induction xs) (auto intro!: agree_bind)

subsection \<open>Storages that differ in the directories of others\<close>

definition sameView :: "string set \<Rightarrow> 'e world \<Rightarrow> 'e world \<Rightarrow> bool" where
  "sameView K w w2 \<longleftrightarrow> ent w2 = ent w \<and> usage w2 = usage w \<and>
     distinct (map fst (objects w)) \<and> distinct (map fst (objects w2)) \<and>
     fst ` set (objects w2) = fst ` set (objects w) \<and>
     (\<forall>k\<in>K. map_of (objects w2) k = map_of (objects w) k)"

lemma sameView_ent: "sameView K w w2 \<Longrightarrow> sameView K (w\<lparr>ent := e\<rparr>) (w2\<lparr>ent := e\<rparr>)"
  by (simp add: sameView_def usage_def)

lemma sameView_subset: "sameView K w w2 \<Longrightarrow> K' \<subseteq> K \<Longrightarrow> sameView K' w w2"
  by (auto simp: sameView_def)

definition dirSize :: "directory \<Rightarrow> nat" where
  "dirSize dir = sum_list (map (\<lambda>(f, b). length b) dir)"

definition allSizes :: "(string \<times> directory) list \<Rightarrow> nat" where
  "allSizes os = sum_list (map (\<lambda>(obj, dir). dirSize dir) os)"

lemma usage_allSizes: "usage w = allSizes (objects w)"
  by (simp add: usage_def allSizes_def dirSize_def)

lemma allSizes_update:
  "allSizes (AList.update k d os) + (case map_of os k of None \<Rightarrow> 0 | Some d0 \<Rightarrow> dirSize d0) = allSizes os + dirSize d"
  by (induction os) (auto simp: allSizes_def)

lemma allSizes_delete:
  "distinct (map fst os) \<Longrightarrow>
    allSizes (AList.delete k os) + (case map_of os k of None \<Rightarrow> 0 | Some d0 \<Rightarrow> dirSize d0) = allSizes os"
proof (induction os)
  case (Cons kd os)
  show ?case
  proof (cases "fst kd = k")
    case True
    then have "AList.delete k os = os"
      using Cons.prems by (auto intro: delete_id)
    then show ?thesis
      using True by (cases kd) (simp add: allSizes_def)
  next
    case False
    then show ?thesis
      using Cons by (cases kd) (auto simp: allSizes_def)
  qed
qed (simp add: allSizes_def)

text \<open>A directory that both have is changed, or one that neither has is made.\<close>

lemma sameView_update:
  assumes view: "sameView K w w2" and same: "map_of (objects w2) obj = map_of (objects w) obj"
  shows "sameView (insert obj K) (w\<lparr>objects := AList.update obj d (objects w)\<rparr>)
    (w2\<lparr>objects := AList.update obj d (objects w2)\<rparr>)"
proof -
  have "allSizes (objects w2) = allSizes (objects w)"
    using view by (simp add: sameView_def usage_allSizes)
  then have "allSizes (AList.update obj d (objects w2)) = allSizes (AList.update obj d (objects w))"
    using allSizes_update [of obj d "objects w"] allSizes_update [of obj d "objects w2"]
    by (cases "map_of (objects w) obj") (simp_all add: same)
  moreover have "fst ` set (AList.update obj d (objects w2)) = fst ` set (AList.update obj d (objects w))"
    using view dom_update [of obj d "objects w"] dom_update [of obj d "objects w2"] by (simp add: sameView_def)
  ultimately show ?thesis
    using view by (auto simp: sameView_def usage_allSizes distinct_update update_conv')
qed

lemma sameView_delete:
  assumes view: "sameView K w w2" and obj: "obj \<in> K"
  shows "sameView K (w\<lparr>objects := AList.delete obj (objects w)\<rparr>) (w2\<lparr>objects := AList.delete obj (objects w2)\<rparr>)"
proof -
  have "allSizes (objects w2) = allSizes (objects w)" "map_of (objects w2) obj = map_of (objects w) obj"
    using view obj by (simp_all add: sameView_def usage_allSizes)
  then have "allSizes (AList.delete obj (objects w2)) = allSizes (AList.delete obj (objects w))"
    using allSizes_delete [of "objects w" obj] allSizes_delete [of "objects w2" obj] view
    by (cases "map_of (objects w) obj") (simp_all add: sameView_def)
  moreover have "fst ` set (AList.delete obj al) = fst ` set al - {obj}" for al :: "(string \<times> directory) list"
    using arg_cong [OF delete_keys [of obj al], of set] by simp
  ultimately show ?thesis
    using view by (auto simp: sameView_def usage_allSizes distinct_delete delete_conv')
qed

lemma sameView_has: "sameView K w w2 \<Longrightarrow> map_of (objects w2) obj = None \<longleftrightarrow> map_of (objects w) obj = None"
  by (simp add: sameView_def map_of_eq_None_iff)

lemma sameView_dir: "sameView K w w2 \<Longrightarrow> obj \<in> K \<Longrightarrow> map_of (objects w2) obj = map_of (objects w) obj"
  by (simp add: sameView_def)

lemma sameView_store:
  assumes "sameView K w w2" and "obj \<in> K"
  shows "sameView K (store (InObject obj f) b w) (store (InObject obj f) b w2)"
  using assms sameView_update [OF assms(1) sameView_dir [OF assms]]
  by (auto simp: sameView_dir insert_absorb split: option.split)

subsection \<open>The operations on a directory that both have\<close>

lemma agree_calls:
  "agree (sameView K) (sysCall p)" "agree (sameView K) (randomBytes p k)" "agree (sameView K) (timeNow p)"
proof -
  have ent: "ent w2 = ent w" if "sameView K w w2" for w w2 :: "'a world"
    using that by (simp add: sameView_def)
  show "agree (sameView K) (sysCall p)" "agree (sameView K) (randomBytes p k)" "agree (sameView K) (timeNow p)"
    unfolding agree_def sysCall_def randomBytes_def timeNow_def
    by (auto simp: ent intro: sameView_ent split: prod.splits option.splits)
qed

lemma agree_uuid: "agree (sameView K) (uuid p)"
  unfolding uuid_def by (intro agree_bind agree_calls agree_ret)

lemma agree_readFile:
  assumes "obj \<in> K"
  shows "agree (sameView K) (readFile p (InObject obj f))"
proof -
  have "agree (sameView K) (\<lambda>w. case load (InObject obj f) w of None \<Rightarrow> (Inl IoNotExist, w) | Some b \<Rightarrow> (Inr b, w))"
    unfolding agree_def using assms by (auto simp: sameView_dir split: option.split)
  then show ?thesis
    unfolding readFile_def by (intro agree_bind agree_calls) simp
qed

lemma agree_atomic:
  assumes obj: "obj \<in> K"
  shows "agree (sameView K) (atomic p (InObject obj f) b)"
proof -
  have temps: "agree (sameView K) (writeTemp p)"
    unfolding writeTemp_def by (intro agree_bind agree_calls)
  have stores: "agree (sameView K) (bindIo (sysCall p) (\<lambda>_. bindIo (\<lambda>w. (Inr (), store (InObject obj f) b w)) (\<lambda>_. syncDir p)))"
    unfolding syncDir_def
    by (intro agree_bind agree_calls) (simp add: agree_def sameView_store [OF _ obj] del: store.simps)
  have temp: "agree (sameView K) (\<lambda>w. if hasDir (InObject obj f) w then sysCall p w else (Inl IoNotExist, w))"
    using agree_calls(1) [of K p] by (auto simp: agree_def sameView_dir [OF _ obj])
  have "agree (sameView K) (\<lambda>w. case writeTemp p w of (err, w) \<Rightarrow> case sysCall p w of (closeErr, w) \<Rightarrow>
      (case err of Inl e \<Rightarrow> (Inl e, w) | Inr _ \<Rightarrow> (case closeErr of Inl e \<Rightarrow> (Inl e, w)
        | Inr _ \<Rightarrow> bindIo (sysCall p) (\<lambda>_. bindIo (\<lambda>w. (Inr (), store (InObject obj f) b w)) (\<lambda>_. syncDir p)) w)))"
    (is "agree _ ?rest")
  proof (rule agreeI)
    fix s s2 r s' r2 s2'
    assume rel: "sameView K s s2" and run: "?rest s = (r, s')" "?rest s2 = (r2, s2')"
    obtain e1 t1 where 1: "writeTemp p s = (e1, t1)"
      by (metis surj_pair)
    obtain e2 t2 where 2: "writeTemp p s2 = (e2, t2)"
      by (metis surj_pair)
    obtain c1 u1 where 3: "sysCall p t1 = (c1, u1)"
      by (metis surj_pair)
    obtain c2 u2 where 4: "sysCall p t2 = (c2, u2)"
      by (metis surj_pair)
    have e: "e2 = e1" "sameView K t1 t2"
      using agreeD [OF temps rel 1 2] .
    have c: "c2 = c1" "sameView K u1 u2"
      using agreeD [OF agree_calls(1) e(2) 3 4] .
    show "r2 = r \<and> sameView K s' s2'"
      using run 1 2 3 4 e(1) c agreeD [OF stores c(2)] by (cases e1; cases c1) auto
  qed
  with temp show ?thesis
    unfolding atomic_def by (rule agree_bind)
qed

lemma agree_storeShard: "obj \<in> K \<Longrightarrow> agree (sameView K) (storeShard p n obj ip)"
  unfolding storeShard_def Let_def
  by (cases ip) (auto intro!: agree_bind agree_calls agree_uuid agree_atomic)

lemma agree_storeObject: "obj \<in> K \<Longrightarrow> agree (sameView K) (storeObject p n obj token name folder digest data)"
  unfolding storeObject_def Let_def
  by (intro agree_bind agree_calls agree_mapIo agree_storeShard agree_atomic agree_ret) assumption+

lemma agree_unlink:
  assumes "sameView K w w2" and "obj \<in> K"
  shows "sameView K (unlink obj f w) (unlink obj f w2)"
  using assms sameView_update [OF assms(1) sameView_dir [OF assms]]
  by (auto simp: unlink_def sameView_dir insert_absorb split: option.split)

lemma agree_unlinkAll: "obj \<in> K \<Longrightarrow> agree (sameView K) (unlinkAll p obj fs)"
proof (induction fs)
  case (Cons f fs)
  note rest = Cons.IH [OF Cons.prems]
  show ?case
  proof (rule agreeI)
    fix s s2 r s' r2 s2'
    assume rel: "sameView K s s2" and run: "unlinkAll p obj (f # fs) s = (r, s')" "unlinkAll p obj (f # fs) s2 = (r2, s2')"
    obtain c1 t1 where 1: "sysCall p s = (c1, t1)"
      by (metis surj_pair)
    obtain c2 t2 where 2: "sysCall p s2 = (c2, t2)"
      by (metis surj_pair)
    have c: "c2 = c1" "sameView K t1 t2"
      using agreeD [OF agree_calls(1) rel 1 2] .
    show "r2 = r \<and> sameView K s' s2'"
    proof (cases c1)
      case (Inl e)
      obtain x1 u1 where 3: "unlinkAll p obj fs t1 = (x1, u1)"
        by (metis surj_pair)
      obtain x2 u2 where 4: "unlinkAll p obj fs t2 = (x2, u2)"
        by (metis surj_pair)
      have "x2 = x1" "sameView K u1 u2"
        using agreeD [OF rest c(2) 3 4] .
      then show ?thesis
        using run Inl 1 2 3 4 c(1) by (cases x1) auto
    next
      case (Inr u)
      then have "unlinkAll p obj fs (unlink obj f t1) = (r, s')" "unlinkAll p obj fs (unlink obj f t2) = (r2, s2')"
        using run 1 2 c(1) by simp_all
      then show ?thesis
        using agreeD [OF rest agree_unlink [OF c(2) Cons.prems]] by blast
    qed
  qed
qed simp

lemma agree_removeDir:
  assumes obj: "obj \<in> K"
  shows "agree (sameView K) (removeDir p obj)"
proof -
  have "agree (sameView K) (\<lambda>w. case unlinkAll p obj (dirNames obj w) w of (res, w) \<Rightarrow> case sysCall p w of (rmdir, w) \<Rightarrow>
      (case res of Inl e \<Rightarrow> (Inl e, w) | Inr _ \<Rightarrow> (case rmdir of Inl e \<Rightarrow> (Inl e, w)
        | Inr _ \<Rightarrow> (Inr (), w\<lparr>objects := AList.delete obj (objects w)\<rparr>))))"
    (is "agree _ ?rest")
  proof (rule agreeI)
    fix s s2 r s' r2 s2'
    assume rel: "sameView K s s2" and run: "?rest s = (r, s')" "?rest s2 = (r2, s2')"
    have names: "dirNames obj s2 = dirNames obj s"
      using sameView_dir [OF rel obj] by (simp add: dirNames_def)
    obtain x1 t1 where 1: "unlinkAll p obj (dirNames obj s) s = (x1, t1)"
      by (metis surj_pair)
    obtain x2 t2 where 2: "unlinkAll p obj (dirNames obj s) s2 = (x2, t2)"
      by (metis surj_pair)
    obtain c1 u1 where 3: "sysCall p t1 = (c1, u1)"
      by (metis surj_pair)
    obtain c2 u2 where 4: "sysCall p t2 = (c2, u2)"
      by (metis surj_pair)
    have x: "x2 = x1" "sameView K t1 t2"
      using agreeD [OF agree_unlinkAll [OF obj] rel 1 2] .
    have c: "c2 = c1" "sameView K u1 u2"
      using agreeD [OF agree_calls(1) x(2) 3 4] .
    show "r2 = r \<and> sameView K s' s2'"
      using run 1 2 3 4 names x(1) c sameView_delete [OF c(2) obj] by (cases x1; cases c1) auto
  qed
  then show ?thesis
    unfolding removeDir_def by (rule agree_bind [OF agree_calls(1)])
qed

subsection \<open>\<open>put\<close>\<close>

lemma makeDir_view:
  assumes view: "sameView K w w2" and run: "makeDir p obj w = (r, w')" "makeDir p obj w2 = (r2, w2')"
  shows "r2 = r" and "sameView K w' w2'" and "r = Inr u \<Longrightarrow> sameView (insert obj K) w' w2'"
proof -
  obtain c1 t1 where 1: "sysCall p w = (c1, t1)"
    by (metis surj_pair)
  obtain c2 t2 where 2: "sysCall p w2 = (c2, t2)"
    by (metis surj_pair)
  have c: "c2 = c1" "sameView K t1 t2"
    using agreeD [OF agree_calls(1) view 1 2] .
  have has: "map_of (objects t2) obj = None \<longleftrightarrow> map_of (objects t1) obj = None"
    using c(2) by (rule sameView_has)
  have "r2 = r \<and> sameView K w' w2' \<and> (r = Inr u \<longrightarrow> sameView (insert obj K) w' w2')"
  proof (cases "c1 = Inr () \<and> map_of (objects t1) obj = None")
    case True
    then have "map_of (objects t2) obj = map_of (objects t1) obj"
      using has by simp
    from sameView_update [OF c(2) this, of "[]"]
    have "sameView (insert obj K) w' w2'" "r2 = r"
      using run 1 2 c(1) True has by (auto simp: makeDir_def bindIo_def)
    then show ?thesis
      using sameView_subset [OF _ subset_insertI] by blast
  next
    case False
    then have "w' = t1" "w2' = t2" "r2 = r" "r \<noteq> Inr u"
      using run 1 2 c(1) has by (cases c1; auto simp: makeDir_def bindIo_def)+
    then show ?thesis
      using c(2) by simp
  qed
  then show "r2 = r" "sameView K w' w2'" "r = Inr u \<Longrightarrow> sameView (insert obj K) w' w2'"
    by auto
qed

lemma storeObject_id: "storeObject p n obj token name folder digest data w = (Inr f, w') \<Longrightarrow> fileId f = obj"
  by (auto simp: storeObject_def Let_def bindIo_Inr)

lemma putNew_view:
  assumes view: "sameView K w w2" and run: "putNew p n token name folder digest data w = (r, w')"
    "putNew p n token name folder digest data w2 = (r2, w2')"
  shows "r2 = r" and "sameView K w' w2'" and "r = Inr f \<Longrightarrow> sameView (insert (fileId f) K) w' w2'"
proof -
  let ?store = "\<lambda>obj. storeObject p n obj token name folder digest data"
  obtain u1 t1 where 1: "uuid p w = (u1, t1)"
    by (metis surj_pair)
  obtain u2 t2 where 2: "uuid p w2 = (u2, t2)"
    by (metis surj_pair)
  have u: "u2 = u1" "sameView K t1 t2"
    using agreeD [OF agree_uuid view 1 2] .
  have "r2 = r \<and> sameView K w' w2' \<and> (r = Inr f \<longrightarrow> sameView (insert (fileId f) K) w' w2')"
  proof (cases u1)
    case (Inl e)
    then show ?thesis
      using run 1 2 u by (auto simp: putNew_def bindIo_def)
  next
    case obj: (Inr obj)
    obtain m1 v1 where 3: "makeDir p obj t1 = (m1, v1)"
      by (metis surj_pair)
    obtain m2 v2 where 4: "makeDir p obj t2 = (m2, v2)"
      by (metis surj_pair)
    note m = makeDir_view [OF u(2) 3 4]
    show ?thesis
    proof (cases m1)
      case (Inl e)
      then show ?thesis
        using run 1 2 u(1) obj 3 4 m by (auto simp: putNew_def bindIo_def)
    next
      case (Inr x)
      obtain s1 a1 where 5: "?store obj v1 = (s1, a1)"
        by (metis surj_pair)
      obtain s2 a2 where 6: "?store obj v2 = (s2, a2)"
        by (metis surj_pair)
      obtain y1 b1 where 7: "removeDir p obj a1 = (y1, b1)"
        by (metis surj_pair)
      obtain y2 b2 where 8: "removeDir p obj a2 = (y2, b2)"
        by (metis surj_pair)
      have s: "s2 = s1" "sameView (insert obj K) a1 a2"
        using agreeD [OF agree_storeObject [OF insertI1] m(3) [OF Inr] 5 6] .
      have y: "sameView (insert obj K) b1 b2"
        using agreeD(2) [OF agree_removeDir [OF insertI1] s(2) 7 8] .
      have out: "s1 = Inr g \<Longrightarrow> fileId g = obj" for g
        using storeObject_id 5 by blast
      show ?thesis
        using run 1 2 u(1) obj 3 4 m(1) Inr 5 6 7 8 s y out sameView_subset [OF s(2) subset_insertI] sameView_subset [OF y subset_insertI]
        by (cases s1) (auto simp: putNew_def bindIo_def)
    qed
  qed
  then show "r2 = r" "sameView K w' w2'" "r = Inr f \<Longrightarrow> sameView (insert (fileId f) K) w' w2'"
    by auto
qed

subsection \<open>\<open>read\<close>\<close>

lemma readShard_view:
  assumes view: "sameView K w w2" and obj: "obj \<in> K" and run: "readShard p n obj i c w = (s, w')"
    "readShard p n obj i c w2 = (s2, w2')"
  shows "s2 = s \<and> sameView K w' w2'"
proof -
  obtain b1 t1 where 1: "readFile p (InObject obj (natString i)) w = (b1, t1)"
    by (metis surj_pair)
  obtain b2 t2 where 2: "readFile p (InObject obj (natString i)) w2 = (b2, t2)"
    by (metis surj_pair)
  have "b2 = b1" "sameView K t1 t2"
    using agreeD [OF agree_readFile [OF obj] view 1 2] .
  then show ?thesis
    using run 1 2 by (cases b1) (auto simp: readShard_def split: if_splits option.splits)
qed

lemma agree_readShardsFrom: "obj \<in> K \<Longrightarrow> agree (sameView K) (readShardsFrom p n obj i cs shards)"
proof (induction cs arbitrary: i shards)
  case (Cons c cs)
  show ?case
  proof (rule agreeI)
    fix w w2 r w' r2 w2'
    assume view: "sameView K w w2" and run: "readShardsFrom p n obj i (c # cs) shards w = (r, w')"
      "readShardsFrom p n obj i (c # cs) shards w2 = (r2, w2')"
    obtain s1 t1 where 1: "readShard p n obj i c w = (s1, t1)"
      by (metis surj_pair)
    obtain s2 t2 where 2: "readShard p n obj i c w2 = (s2, t2)"
      by (metis surj_pair)
    have s: "s2 = s1" "sameView K t1 t2"
      using readShard_view [OF view Cons.prems 1 2] by simp_all
    show "r2 = r \<and> sameView K w' w2'"
      using run 1 2 s view agreeD [OF Cons.IH [OF Cons.prems] s(2)]
      by (cases s1) (auto split: if_splits)
  qed
qed simp

lemma agree_read: "fileId f \<in> K \<Longrightarrow> agree (sameView K) (read p n f)"
  unfolding read_def by (intro agree_bind agree_readShardsFrom agree_ret) assumption

subsection \<open>The states an owner cannot tell apart\<close>

definition ownFiles :: "string \<Rightarrow> node \<Rightarrow> (string \<times> fileMeta) list" where
  "ownFiles token n = filter (\<lambda>(k, f). fileToken f = token) (files n)"

definition ownDirs :: "string \<Rightarrow> node \<Rightarrow> string set" where
  "ownDirs token n = fileId ` snd ` set (ownFiles token n)"

text \<open>The files of a node are a map whose keys are names of object directories.\<close>

definition keyed :: "node \<Rightarrow> 'e world \<Rightarrow> bool" where
  "keyed n w \<longleftrightarrow> distinct (map fst (files n)) \<and> fst ` set (files n) \<subseteq> fst ` set (objects w)"

definition sameForOwner :: "string \<Rightarrow> node \<Rightarrow> 'e world \<Rightarrow> node \<Rightarrow> 'e world \<Rightarrow> bool" where
  "sameForOwner token n w n2 w2 \<longleftrightarrow> n2 = n\<lparr>files := files n2\<rparr> \<and> ownFiles token n2 = ownFiles token n \<and>
     keyed n w \<and> keyed n2 w2 \<and> sameView (ownDirs token n) w w2"

lemma with_files_simps:
  assumes "n2 = n\<lparr>files := fs\<rparr>"
  shows "quota n2 = quota n" and "capability n2 = capability n" and "nodeId n2 = nodeId n" and "aeadKey n2 = aeadKey n"
  using assms by simp_all

lemma sameForOwner_same:
  assumes "sameForOwner token n w n2 w2"
  shows "quota n2 = quota n" and "capability n2 = capability n" and "nodeId n2 = nodeId n" and "aeadKey n2 = aeadKey n"
proof -
  have "n2 = n\<lparr>files := files n2\<rparr>"
    using assms by (simp only: sameForOwner_def)
  then show "quota n2 = quota n" "capability n2 = capability n" "nodeId n2 = nodeId n" "aeadKey n2 = aeadKey n"
    by (rule with_files_simps)+
qed

lemma putNew_files: "putNew p (n\<lparr>files := fs\<rparr>) = putNew p n"
proof -
  have "storeShard p (n\<lparr>files := fs\<rparr>) = storeShard p n"
    by (intro ext) (simp add: storeShard_def)
  then show ?thesis
    by (intro ext) (simp add: putNew_def storeObject_def)
qed

lemma read_files: "read p (n\<lparr>files := fs\<rparr>) f = read p n f"
proof -
  have "readShard p (n\<lparr>files := fs\<rparr>) = readShard p n"
    by (intro ext) (simp only: readShard_def with_files_simps [OF refl])
  then have "readShardsFrom p (n\<lparr>files := fs\<rparr>) obj i cs shards = readShardsFrom p n obj i cs shards" for obj i cs shards
    by (induction cs arbitrary: i shards) (auto simp: fun_eq_iff split: prod.splits option.splits)
  then show ?thesis
    by (simp add: read_def)
qed

lemma find_filter: "(\<And>x. P x \<Longrightarrow> Q x) \<Longrightarrow> find P (filter Q xs) = find P xs"
  by (induction xs) auto

lemma find_own:
  "find (\<lambda>(k, f). sameObject token name folder d f) (files n) = find (\<lambda>(k, f). sameObject token name folder d f) (ownFiles token n)"
  unfolding ownFiles_def by (rule find_filter [symmetric]) (auto simp: sameObject_def)

lemma map_of_filter:
  "distinct (map fst fs) \<Longrightarrow> map_of (filter (\<lambda>(k, f). P f) fs) k =
    (case map_of fs k of None \<Rightarrow> None | Some f \<Rightarrow> if P f then Some f else None)"
proof (induction fs)
  case (Cons kf fs)
  then show ?case
    by (cases kf) (auto simp: map_of_eq_None_iff split: option.splits)
qed simp

lemma keyed_mono: "keyed n w \<Longrightarrow> fst ` set (objects w) \<subseteq> fst ` set (objects w') \<Longrightarrow> keyed n w'"
  unfolding keyed_def by (blast intro: subset_trans)

lemma own_lookup:
  assumes "keyed n w"
  shows "map_of (ownFiles token n) k =
    (case map_of (files n) k of None \<Rightarrow> None | Some f \<Rightarrow> if fileToken f = token then Some f else None)"
  unfolding ownFiles_def using assms by (intro map_of_filter) (simp add: keyed_def)

lemma ownFiles_update:
  assumes "k \<notin> fst ` set (files n)" and "fileToken f = token"
  shows "ownFiles token (n\<lparr>files := AList.update k f (files n)\<rparr>) = ownFiles token n @ [(k, f)]"
  using assms by (simp add: ownFiles_def update_new)

lemma keyed_update:
  assumes "keyed n w" and "fst ` set (objects w') = insert (fileId f) (fst ` set (objects w))"
  shows "keyed (n\<lparr>files := AList.update (fileId f) f (files n)\<rparr>) w'"
proof -
  have "fst ` set (AList.update (fileId f) f (files n)) = insert (fileId f) (fst ` set (files n))"
    using dom_update [of "fileId f" f "files n"] by simp
  then show ?thesis
    using assms by (auto simp: keyed_def distinct_update)
qed

lemma putNew_owner:
  assumes plat: "cpuOk (pArch p) (pCpu p)" "drawOk p" and data: "sliceWf data" "0 < sliceLen data" "roomy data"
    and same: "sameForOwner token n w n2 w2" and run: "putNew p n token name folder (hash p (bytesOf data)) data w = (q, t)"
      "putNew p n token name folder (hash p (bytesOf data)) data w2 = (q, t2)"
  shows "case q of Inl e \<Rightarrow> sameForOwner token n t n2 t2
    | Inr f \<Rightarrow> sameForOwner token (n\<lparr>files := AList.update (fileId f) f (files n)\<rparr>) t
        (n2\<lparr>files := AList.update (fileId f) f (files n2)\<rparr>) t2"
proof -
  have n2: "n2 = n\<lparr>files := files n2\<rparr>" and own: "ownFiles token n2 = ownFiles token n" and keys: "keyed n w" "keyed n2 w2"
    and view: "sameView (ownDirs token n) w w2"
    using same by (simp_all add: sameForOwner_def)
  note q = putNew_view [OF view run] and c = putNew_cases [OF plat data run(1)]
  show ?thesis
  proof (cases q)
    case (Inl e)
    have grown: "fst ` set (objects w) \<subseteq> fst ` set (objects t)"
      using c Inl by (auto simp: leftover_def)
    have "fst ` set (objects w2) = fst ` set (objects w)" "fst ` set (objects t2) = fst ` set (objects t)"
      using view q(2) by (simp_all add: sameView_def)
    then have "fst ` set (objects w2) \<subseteq> fst ` set (objects t2)"
      using grown by (simp only:)
    then have "keyed n t" "keyed n2 t2"
      using keys grown by (blast intro: keyed_mono)+
    then show ?thesis
      using Inl q(2) n2 own by (simp add: sameForOwner_def)
  next
    case (Inr f)
    have f: "fileToken f = token" "fileId f \<notin> fst ` set (objects w)"
      "fst ` set (objects t) = insert (fileId f) (fst ` set (objects w))"
      using c Inr by (auto simp: sameObject_def)
    then have f2: "fileId f \<notin> fst ` set (objects w2)" "fst ` set (objects t2) = insert (fileId f) (fst ` set (objects w2))"
      using view q(2) by (simp_all add: sameView_def)
    have fresh: "fileId f \<notin> fst ` set (files n)" "fileId f \<notin> fst ` set (files n2)"
      using keys f(2) f2(1) by (auto simp: keyed_def)
    let ?n = "n\<lparr>files := AList.update (fileId f) f (files n)\<rparr>" and ?n2 = "n2\<lparr>files := AList.update (fileId f) f (files n2)\<rparr>"
    have "ownFiles token ?n = ownFiles token n @ [(fileId f, f)]" "ownFiles token ?n2 = ownFiles token n @ [(fileId f, f)]"
      using ownFiles_update [OF fresh(1) f(1)] ownFiles_update [OF fresh(2) f(1)] own by simp_all
    moreover from this have "ownDirs token ?n = insert (fileId f) (ownDirs token n)"
      by (simp add: ownDirs_def)
    moreover have "keyed ?n t" "keyed ?n2 t2"
      by (rule keyed_update [OF keys(1) f(3)], rule keyed_update [OF keys(2) f2(2)])
    moreover have "?n2 = ?n\<lparr>files := files ?n2\<rparr>"
      by (subst n2) simp
    ultimately show ?thesis
      using Inr q(3) [OF Inr] by (simp add: sameForOwner_def)
  qed
qed

lemma put_view:
  assumes plat: "cpuOk (pArch p) (pCpu p)" "drawOk p" and data: "sliceWf data" "roomy data"
    and same: "sameForOwner token n w n2 w2" and run: "put p n token name folder data w = (r, n', w')"
      "put p n2 token name folder data w2 = (r2, n2', w2')"
  shows "r2 = r \<and> sameForOwner token n' w' n2' w2'"
proof -
  let ?digest = "hash p (bytesOf data)"
  let ?found = "find (\<lambda>(k, f). sameObject token name folder ?digest f) (files n)"
  have n2: "n2 = n\<lparr>files := files n2\<rparr>" and own: "ownFiles token n2 = ownFiles token n"
    and view: "sameView (ownDirs token n) w w2"
    using same by (simp_all add: sameForOwner_def)
  have found: "find (\<lambda>(k, f). sameObject token name folder ?digest f) (files n2) = ?found"
    by (simp only: find_own own)
  have use: "usage w2 = usage w" "quota n2 = quota n"
    using view sameForOwner_same [OF same] by (simp_all add: sameView_def)
  have new: "putNew p n2 = putNew p n"
    using putNew_files [of p "files n2" n] n2 by metis
  obtain q1 t1 where 1: "putNew p n token name folder ?digest data w = (q1, t1)"
    by (metis surj_pair)
  obtain q2 t2 where 2: "putNew p n token name folder ?digest data w2 = (q2, t2)"
    by (metis surj_pair)
  have q: "q2 = q1"
    using putNew_view(1) [OF view 1 2] .
  show ?thesis
  proof (cases "(n', w') = (n, w) \<and> (n2', w2') = (n2, w2) \<and> r2 = r")
    case True
    then show ?thesis
      using same by simp
  next
    case False
    then have "(r, n', w') = (case (q1, t1) of (Inl e, w) \<Rightarrow> (Inl e, n, w)
          | (Inr f, w) \<Rightarrow> (Inr f, n\<lparr>files := AList.update (fileId f) f (files n)\<rparr>, w))"
        "(r2, n2', w2') = (case (q1, t2) of (Inl e, w) \<Rightarrow> (Inl e, n2, w)
          | (Inr f, w) \<Rightarrow> (Inr f, n2\<lparr>files := AList.update (fileId f) f (files n2)\<rparr>, w))"
      and "0 < sliceLen data"
      using run 1 2 q by (auto simp: put_def Let_def found use new split: if_splits option.splits)
    then show ?thesis
      using putNew_owner [OF plat data(1) _ data(2) same 1 2 [unfolded q]] by (cases q1) simp_all
  qed
qed

subsection \<open>The requests\<close>

lemma serveUpload_view:
  assumes plat: "cpuOk (pArch p) (pCpu p)" "drawOk p" and cap: "readAllCap req"
    and same: "sameForOwner (reqToken req) n w n2 w2" and run: "serveUpload p n req w = (resp, n', w')"
      "serveUpload p n2 req w2 = (resp2, n2', w2')"
  shows "resp2 = resp \<and> sameForOwner (reqToken req) n' w' n2' w2'"
proof (cases "reqForm req")
  case (FormFile name folder rd spare)
  show ?thesis
  proof (cases "readUpload rd spare")
    case (Inl e)
    then show ?thesis
      using same run FormFile by (auto simp: serveUpload_def split: if_splits)
  next
    case (Inr data)
    have "512 \<le> sliceCap data"
      using cap FormFile readUpload_ok(3) [OF Inr] by (simp add: readAllCap_def)
    then have data: "sliceWf data" "roomy data"
      using readUpload_ok(1) [OF Inr] by (auto intro: readAll_roomy)
    obtain r1 m1 t1 where 1: "put p n (reqToken req) name folder data w = (r1, m1, t1)"
      by (metis prod_cases3)
    obtain r2 m2 t2 where 2: "put p n2 (reqToken req) name folder data w2 = (r2, m2, t2)"
      by (metis prod_cases3)
    have "r2 = r1" "sameForOwner (reqToken req) m1 t1 m2 t2"
      using put_view [OF plat data same 1 2] by simp_all
    then show ?thesis
      using same run FormFile Inr 1 2 by (cases r1) (auto simp: serveUpload_def split: if_splits)
  qed
qed (use same run in \<open>auto simp: serveUpload_def split: if_splits\<close>)

lemma serveTree_view:
  assumes "sameForOwner token n w n2 w2"
  shows "serveTree n2 token = serveTree n token"
proof -
  have "filter (\<lambda>f. token \<noteq> [] \<and> fileToken f = token) (map snd (files n')) =
      filter (\<lambda>f. token \<noteq> []) (map snd (ownFiles token n'))" for n'
    by (simp add: ownFiles_def filter_map o_def case_prod_unfold conj_commute)
  moreover have "nodeId n2 = nodeId n"
    using assms by (rule sameForOwner_same)
  ultimately show ?thesis
    using assms by (simp add: serveTree_def sameForOwner_def)
qed

lemma serveFile_view:
  assumes same: "sameForOwner (reqToken req) n w n2 w2" and run: "serveFile p n req w = (resp, w')"
      "serveFile p n2 req w2 = (resp2, w2')"
  shows "resp2 = resp \<and> sameForOwner (reqToken req) n w' n2 w2'"
proof -
  let ?parts = "splitSlash (drop (length filesPrefix) (reqPath req))" and ?token = "reqToken req"
  let ?mine = "map_of (ownFiles ?token n) (?parts ! 0)"
  have n2: "n2 = n\<lparr>files := files n2\<rparr>" and own: "ownFiles ?token n2 = ownFiles ?token n" and keys: "keyed n w" "keyed n2 w2"
    and view: "sameView (ownDirs ?token n) w w2"
    using same by (simp_all add: sameForOwner_def)
  note mine = own_lookup [OF keys(1), of ?token "?parts ! 0"] own_lookup [OF keys(2), of ?token "?parts ! 0", unfolded own]
  show ?thesis
  proof (cases "(2 < length ?parts \<or> \<not> isUuid (?parts ! 0) \<or> length ?parts = 2 \<and> ?parts ! 1 \<noteq> ''download'') \<or>
      ?token = [] \<or> ?mine = None \<or> length ?parts = 1")
    case True
    then show ?thesis
      using same run mine by (auto simp: serveFile_def Let_def split: option.splits if_splits)
  next
    case False
    then obtain f where f: "?mine = Some f"
      by (cases ?mine) simp_all
    then have "fileId f \<in> ownDirs ?token n"
      unfolding ownDirs_def by (force dest: map_of_SomeD)
    then have reads: "agree (sameView (ownDirs ?token n)) (read p n f)"
      by (rule agree_read)
    obtain x1 t1 where 1: "read p n f w = (x1, t1)"
      by (metis surj_pair)
    obtain x2 t2 where 2: "read p n f w2 = (x2, t2)"
      by (metis surj_pair)
    have x: "x2 = x1" "sameView (ownDirs ?token n) t1 t2"
      using agreeD [OF reads view 1 2] .
    have "sameFiles w t1" "sameFiles w2 t2"
      using keepsD [OF read_same 1] keepsD [OF read_same 2] .
    then have "sameForOwner ?token n t1 n2 t2"
      using same x(2) by (simp add: sameForOwner_def keyed_def sameFiles_def)
    moreover have "read p n2 = read p n"
      using read_files [of p "files n2" n] n2 by (metis ext)
    moreover have "map_of (files n) (?parts ! 0) = Some f" "map_of (files n2) (?parts ! 0) = Some f" "fileToken f = ?token"
      using f mine by (auto split: option.splits if_splits)
    ultimately show ?thesis
      using run False 1 2 x(1) by (cases x1) (auto simp: serveFile_def Let_def)
  qed
qed

text \<open>
  C16. What a token sees and does is independent of the objects of other tokens: where two states of
  the node have the same objects of the token, with the same files on disk, use the same number of
  bytes and have object directories of the same names, a request of that token other than for the
  statistics gets the same response from both, and leaves states of which the same holds.  The bytes
  of the others count because \<open>put\<close> refuses an upload for which they leave no room in the quota.  In
  both states the entries of the node and the directories have distinct names, every entry has its
  directory (\<open>keyed\<close>), and those of the token come in the same order of iteration.
\<close>

theorem serve_isolation:
  assumes "cpuOk (pArch p) (pCpu p)" and "drawOk p" and "readAllCap req"
    and "sameForOwner (reqToken req) n w n2 w2"
    and "reqPath req \<noteq> ''/api/stats''" and "reqPath req \<noteq> ''/api/health''"
    and "ServeHTTP p n req w = (resp, n', w')" and "ServeHTTP p n2 req w2 = (resp2, n2', w2')"
  shows "resp2 = resp \<and> sameForOwner (reqToken req) n' w' n2' w2'"
proof -
  have cap: "capability n2 = capability n"
    using assms(4) by (rule sameForOwner_same)
  obtain f1 v1 where 1: "serveFile p n req w = (f1, v1)"
    by (metis surj_pair)
  obtain f2 v2 where 2: "serveFile p n2 req w2 = (f2, v2)"
    by (metis surj_pair)
  show ?thesis
  proof (cases "reqMethod req = ''POST'' \<and> reqPath req = ''/api/files/upload'' \<and> reqKey req = capability n")
    case True
    then have "serveUpload p n req w = (resp, n', w')" "serveUpload p n2 req w2 = (resp2, n2', w2')"
      using assms(7,8) cap by (simp_all add: ServeHTTP_def)
    then show ?thesis
      by (rule serveUpload_view [OF assms(1-4)])
  next
    case False
    then show ?thesis
      using assms(4-8) cap serveTree_view [OF assms(4)] serveFile_view [OF assms(4) 1 2] 1 2
      by (auto simp: ServeHTTP_def split: if_splits)
  qed
qed

text \<open>The tree of alice's files where bob has an object, and where he has not.\<close>

lemma serve_isolation_witness:
  "fst (ServeHTTP testPlatform (testNode\<lparr>files := [(''a'', testFile ''a'' ''alice''), (''b'', testFile ''b'' ''bob'')]\<rparr>)
      (testUpload\<lparr>reqMethod := ''GET'', reqPath := ''/api/files/tree''\<rparr>)
      (testWorld\<lparr>objects := [(''a'', []), (''b'', [(''0'', [1, 2])])]\<rparr>)) =
    jsonResponse 200 (Tree [testFile ''a'' []] [])"
proof -
  let ?n = "testNode\<lparr>files := [(''a'', testFile ''a'' ''alice''), (''b'', testFile ''b'' ''bob'')]\<rparr>"
    and ?n2 = "testNode\<lparr>files := [(''a'', testFile ''a'' ''alice'')]\<rparr>"
    and ?w = "testWorld\<lparr>objects := [(''a'', []), (''b'', [(''0'', [1, 2])])]\<rparr>"
    and ?w2 = "testWorld\<lparr>objects := [(''b'', [(''x'', [7, 7])]), (''a'', [])]\<rparr>"
    and ?req = "testUpload\<lparr>reqMethod := ''GET'', reqPath := ''/api/files/tree''\<rparr>"
  obtain resp n' w' where run: "ServeHTTP testPlatform ?n ?req ?w = (resp, n', w')"
    by (metis prod_cases3)
  obtain resp2 n2' w2' where run2: "ServeHTTP testPlatform ?n2 ?req ?w2 = (resp2, n2', w2')"
    by (metis prod_cases3)
  have "sameForOwner (reqToken ?req) ?n ?w ?n2 ?w2"
    by (auto simp: sameForOwner_def sameView_def ownFiles_def ownDirs_def keyed_def usage_def testFile_def testUpload_def)
  moreover have "readAllCap ?req"
    using testUpload_cap by (simp add: readAllCap_def)
  ultimately have "resp2 = resp"
    using serve_isolation [OF testPlatform_ok(1,2) _ _ _ _ run run2] by simp
  moreover have "resp2 = jsonResponse 200 (Tree [testFile ''a'' []] [])"
    using run2 by (auto simp: ServeHTTP_def serveTree_def testUpload_def testNode_def testFile_def)
  ultimately show ?thesis
    using run by simp
qed

end
