(* ===== verification/NodeRestart.thy ===== *)
theory NodeRestart
  imports NodeJson NodeOwners
begin

text \<open>
  What a node keeps across restarts.  \<open>Open\<close> never replaces a file of an existing storage; every
  state a node reaches from \<open>Open\<close> by starting and serving requests agrees with what is on disk
  (\<open>durable\<close>), so that opening the same storage again gives the same node, but for strings that are
  not valid UTF-8 and for what failed uploads have left behind.
\<close>

declare load.simps(2) [simp del]

subsection \<open>\<open>Open\<close> only adds files\<close>

definition grows :: "'e world \<Rightarrow> 'e world \<Rightarrow> bool" where
  "grows w w' \<longleftrightarrow> objects w' = objects w \<and> map_of (rootFiles w) \<subseteq>\<^sub>m map_of (rootFiles w')"

lemma grows_trans: "grows w w1 \<Longrightarrow> grows w1 w2 \<Longrightarrow> grows w w2"
  unfolding grows_def by (metis map_le_trans)

lemma grows_same: "sameFiles w w' \<Longrightarrow> grows w w'"
  by (simp add: grows_def sameFiles_def)

lemma keeps_grows_same: "keeps sameFiles m \<Longrightarrow> keeps grows m"
  by (erule keeps_mono) (rule grows_same)

lemma readFile_cases:
  assumes "readFile p pl w = (res, w')"
  shows "sameFiles w w'" and "res = Inl IoNotExist \<Longrightarrow> load pl w = None" and "res = Inr b \<Longrightarrow> load pl w = Some b"
proof -
  show "sameFiles w w'"
    using keeps_same(6) assms by (rule keepsD)
  have "sameFiles w (w\<lparr>ent := e\<rparr>)" for e
    by simp
  then have "load pl (w\<lparr>ent := e\<rparr>) = load pl w" for e
    by (rule sameFiles_load)
  then show "res = Inl IoNotExist \<Longrightarrow> load pl w = None" "res = Inr b \<Longrightarrow> load pl w = Some b"
    using assms by (auto simp: readFile_def bindIo_def sysCall_def split: prod.splits option.splits)
qed

text \<open>A root file that is missing is written, all or nothing; the others stay.\<close>

lemma atomic_root:
  assumes "atomic p (InRoot f) b w = (res, w')" and "map_of (rootFiles w) f = None"
  shows "grows w w'" and "res = Inr u \<Longrightarrow> map_of (rootFiles w') f = Some b"
proof -
  have "map_of (rootFiles w) \<subseteq>\<^sub>m map_of (AList.update f b (rootFiles w))"
    using assms(2) by (auto simp: map_le_def update_conv')
  then show "grows w w'" "res = Inr u \<Longrightarrow> map_of (rootFiles w') f = Some b"
    using atomic_cases [OF assms(1)] by (auto simp: grows_def sameFiles_def update_conv')
qed

lemma secret_cases:
  assumes "secret p f k w = (res, w')"
  shows "grows w w'" and "res = Inr b \<Longrightarrow> drawOk p \<Longrightarrow> map_of (rootFiles w') f = Some b \<and> length b = k"
proof -
  obtain r1 w1 where r1: "readFile p (InRoot f) w = (r1, w1)"
    by (metis surj_pair)
  note same1 = readFile_cases [OF r1]
  have "grows w w' \<and> (res = Inr b \<longrightarrow> drawOk p \<longrightarrow> map_of (rootFiles w') f = Some b \<and> length b = k)"
  proof (cases "r1 = Inl IoNotExist")
    case True
    obtain r2 w2 where r2: "randomBytes p k w1 = (r2, w2)"
      by (metis surj_pair)
    have same2: "sameFiles w w2"
      using same1(1) keepsD [OF keeps_same(2) r2] by (rule sameFiles_trans)
    then have none: "map_of (rootFiles w2) f = None"
      using same1(2) True by (simp add: sameFiles_def)
    show ?thesis
    proof (cases r2)
      case (Inl e)
      then show ?thesis
        using assms r1 True r2 grows_same [OF same2] by (auto simp: secret_def bindIo_def)
    next
      case (Inr x)
      obtain r3 w3 where r3: "atomic p (InRoot f) x w2 = (r3, w3)"
        by (metis surj_pair)
      have "grows w w3"
        using grows_same [OF same2] atomic_root(1) [OF r3 none] by (rule grows_trans)
      moreover have "drawOk p \<Longrightarrow> length x = k"
        using r2 Inr by (auto simp: randomBytes_def drawOk_def split: prod.splits)
      ultimately show ?thesis
        using assms r1 True r2 Inr r3 atomic_root(2) [OF r3 none]
        by (cases r3) (auto simp: secret_def bindIo_def)
    qed
  next
    case False
    then show ?thesis
      using assms r1 same1 grows_same
      by (cases r1) (auto simp: secret_def sameFiles_def split: if_splits)
  qed
  then show "grows w w'" "res = Inr b \<Longrightarrow> drawOk p \<Longrightarrow> map_of (rootFiles w') f = Some b \<and> length b = k"
    by auto
qed

lemma nodeIdOf_cases:
  assumes "nodeIdOf p w = (res, w')"
  shows "grows w w'" and "res = Inr b \<Longrightarrow> map_of (rootFiles w') ''node_id'' = Some b"
proof -
  obtain r1 w1 where r1: "readFile p (InRoot ''node_id'') w = (r1, w1)"
    by (metis surj_pair)
  note same1 = readFile_cases [OF r1]
  have "grows w w' \<and> (res = Inr b \<longrightarrow> map_of (rootFiles w') ''node_id'' = Some b)"
  proof (cases "r1 = Inl IoNotExist")
    case True
    obtain r2 w2 where r2: "uuid p w1 = (r2, w2)"
      by (metis surj_pair)
    have same2: "sameFiles w w2"
      using same1(1) keepsD [OF keeps_same(4) r2] by (rule sameFiles_trans)
    then have none: "map_of (rootFiles w2) ''node_id'' = None"
      using same1(2) True by (simp add: sameFiles_def)
    show ?thesis
    proof (cases r2)
      case (Inl e)
      then show ?thesis
        using assms r1 True r2 grows_same [OF same2] by (auto simp: nodeIdOf_def bindIo_def)
    next
      case (Inr x)
      obtain r3 w3 where r3: "atomic p (InRoot ''node_id'') (toBytes x) w2 = (r3, w3)"
        by (metis surj_pair)
      have "grows w w3"
        using grows_same [OF same2] atomic_root(1) [OF r3 none] by (rule grows_trans)
      then show ?thesis
        using assms r1 True r2 Inr r3 atomic_root(2) [OF r3 none]
        by (cases r3) (auto simp: nodeIdOf_def bindIo_def)
    qed
  next
    case False
    then show ?thesis
      using assms r1 same1 grows_same
      by (cases r1) (auto simp: nodeIdOf_def sameFiles_def)
  qed
  then show "grows w w'" "res = Inr b \<Longrightarrow> map_of (rootFiles w') ''node_id'' = Some b"
    by auto
qed

text \<open>The loops over the files of an existing storage only read.\<close>

lemma readObjects_same: "keeps sameFiles (readObjects p)"
  unfolding readObjects_def
  by (rule keeps_bind [OF keeps_same(1) _ sameFiles_trans]) (simp_all add: keeps_def)

lemma statFiles_same: "statFiles p names w = (res, w') \<Longrightarrow> sameFiles w w'"
proof (induction names arbitrary: w)
  case (Cons name names)
  obtain r1 w1 where r1: "sysCall p w = (r1, w1)"
    by (metis surj_pair)
  have "sameFiles w w1"
    using keeps_same(1) r1 by (rule keepsD)
  then show ?case
    using Cons r1 sameFiles_trans by (cases r1) (auto simp: bindIo_def split: if_splits)
qed simp

lemma statFiles_missing:
  assumes "name \<in> set names" and "map_of (rootFiles w) name = None" and "statFiles p names w = (res, w')"
  shows "\<exists>e. res = Inl e"
  using assms
proof (induction names arbitrary: w)
  case (Cons first names)
  obtain r1 w1 where r1: "sysCall p w = (r1, w1)"
    by (metis surj_pair)
  have "load (InRoot first) w1 = map_of (rootFiles w) first" "map_of (rootFiles w1) name = None"
    using keepsD [OF keeps_same(1) r1] Cons.prems(2) by (simp_all add: sameFiles_def load.simps)
  then show ?case
    using Cons.IH [of w1] Cons.prems r1 by (cases r1) (auto simp: bindIo_def split: if_splits)
qed simp

text \<open>What the metadata of an object on disk says; all of it has to be sound for \<open>Open\<close>.\<close>

definition onDisk :: "'e platform \<Rightarrow> 'e world \<Rightarrow> string \<Rightarrow> fileMeta option" where
  "onDisk p w obj =
     (if isUuid obj then Option.bind (load (InObject obj ''metadata.json'') w) (unmarshal p) else None)"

definition readable :: "'e platform \<Rightarrow> 'e world \<Rightarrow> bool" where
  "readable p w \<longleftrightarrow> (\<forall>obj raw. isUuid obj \<and> load (InObject obj ''metadata.json'') w = Some raw \<longrightarrow>
     (\<exists>f. unmarshal p raw = Some f \<and> metaOk obj f))"

lemma load_InObject_None: "obj \<notin> fst ` set (objects w) \<Longrightarrow> load (InObject obj f) w = None"
  by (simp add: load.simps map_of_eq_None_iff [THEN iffD2])

lemma loadEntries_step:
  assumes "loadEntries p (obj # objs) fs w = (Inr fs', w')"
  obtains (skip) w1 where "sameFiles w w1" and "loadEntries p objs fs w1 = (Inr fs', w')"
      and "\<not> isUuid obj \<or> load (InObject obj ''metadata.json'') w = None"
  | (entry) w1 raw f where "sameFiles w w1" and "loadEntries p objs (AList.update obj f fs) w1 = (Inr fs', w')"
      and "isUuid obj" and "load (InObject obj ''metadata.json'') w = Some raw" and "unmarshal p raw = Some f"
      and "metaOk obj f"
proof (cases "isUuid obj")
  case True
  obtain r1 w1 where r1: "readFile p (InObject obj ''metadata.json'') w = (r1, w1)"
    by (metis surj_pair)
  note same = readFile_cases [OF r1]
  show ?thesis
  proof (cases r1)
    case (Inl e)
    then show ?thesis
      using assms True r1 same skip by (auto split: if_splits)
  next
    case (Inr raw)
    then obtain f where "unmarshal p raw = Some f" "metaOk obj f"
        "loadEntries p objs (AList.update (fileId f) f fs) w1 = (Inr fs', w')"
      using assms True r1 by (auto split: if_splits option.splits)
    then show ?thesis
      using entry [OF same(1)] True same(3) Inr by (simp add: metaOk_def)
  qed
next
  case False
  then show ?thesis
    using assms skip [of w] by simp
qed

lemma onDisk_same: "sameFiles w w' \<Longrightarrow> onDisk p w' = onDisk p w" "sameFiles w w' \<Longrightarrow> readable p w' = readable p w"
  by (simp_all add: onDisk_def readable_def sameFiles_load fun_eq_iff)

lemma loadEntries_same: "keeps sameFiles (loadEntries p objs fs)"
proof (induction objs arbitrary: fs)
  case (Cons obj objs)
  show ?case
    unfolding keeps_def
  proof
    fix w
    obtain r1 w1 where r1: "readFile p (InObject obj ''metadata.json'') w = (r1, w1)"
      by (metis surj_pair)
    note same = readFile_cases(1) [OF r1]
    have rest: "sameFiles w1 (snd (loadEntries p objs fs' w1))" "sameFiles w (snd (loadEntries p objs fs' w))" for fs'
      using Cons.IH [of fs'] by (simp_all add: keeps_def)
    show "sameFiles w (snd (loadEntries p (obj # objs) fs w))"
      using same rest sameFiles_trans [OF same rest(1)] r1
      by (cases r1) (auto split: option.splits)
  qed
qed (simp add: keeps_def)

lemma loadEntries_Inr:
  assumes "loadEntries p objs fs w = (Inr fs', w')"
  shows "map_of fs' = (\<lambda>obj. if obj \<in> set objs \<and> onDisk p w obj \<noteq> None then onDisk p w obj else map_of fs obj)"
    and "\<forall>obj\<in>set objs. \<forall>raw. isUuid obj \<and> load (InObject obj ''metadata.json'') w = Some raw \<longrightarrow>
      (\<exists>f. unmarshal p raw = Some f \<and> metaOk obj f)"
  using assms
proof (induction objs arbitrary: fs w)
  case (Cons obj objs)
  { case 1
    from 1 show ?case
    proof (cases rule: loadEntries_step)
      case (skip w1)
      then have "onDisk p w obj = None"
        by (auto simp: onDisk_def)
      then show ?thesis
        using Cons.IH(1) [OF skip(2)] onDisk_same(1) [OF skip(1), of p] by (auto simp: fun_eq_iff)
    next
      case (entry w1 raw f)
      then have "onDisk p w obj = Some f"
        by (simp add: onDisk_def)
      then show ?thesis
        using Cons.IH(1) [OF entry(2)] onDisk_same(1) [OF entry(1), of p]
        by (auto simp: fun_eq_iff update_conv')
    qed }
  { case 2
    from 2 show ?case
    proof (cases rule: loadEntries_step)
      case (skip w1)
      then show ?thesis
        using Cons.IH(2) [OF skip(2)] sameFiles_load(1) [OF skip(1)] by auto
    next
      case (entry w1 raw f)
      then show ?thesis
        using Cons.IH(2) [OF entry(2)] sameFiles_load(1) [OF entry(1)] by auto
    qed }
qed simp_all

lemma keeps_grows:
  "keeps grows (sysCall p)" "keeps grows (readObjects p)" "keeps grows (statFiles p names)"
  "keeps grows (loadEntries p objs fs)" "keeps grows (secret p f k)" "keeps grows (nodeIdOf p)"
proof -
  have stat: "keeps sameFiles (statFiles p names)"
    unfolding keeps_def by (metis statFiles_same surj_pair snd_conv)
  show "keeps grows (sysCall p)" "keeps grows (readObjects p)" "keeps grows (statFiles p names)"
      "keeps grows (loadEntries p objs fs)"
    by (rule keeps_grows_same; fact keeps_same(1) readObjects_same loadEntries_same stat)+
  show "keeps grows (secret p f k)" "keeps grows (nodeIdOf p)"
    unfolding keeps_def by (metis secret_cases(1) nodeIdOf_cases(1) surj_pair snd_conv)+
qed

lemma grows_refl [simp]: "grows w w"
  by (simp add: grows_def)

lemma Open_grows: "keeps grows (Open p c)"
proof -
  note bind = keeps_bind [OF _ _ grows_trans]
  have loads: "keeps grows (bindIo (readObjects p) (\<lambda>entries. bindIo (loadEntries p entries []) (\<lambda>fs. ret (n fs))))" for n
    by (intro bind keeps_grows) simp
  show ?thesis
    unfolding Open_def Let_def
    by (auto simp del: statFiles.simps intro!: bind keeps_grows loads)
qed

lemma readObjects_Inr:
  assumes "readObjects p w = (Inr objs, w')"
  shows "set objs = fst ` set (objects w)" and "sameFiles w w'"
proof -
  show "sameFiles w w'"
    using readObjects_same assms by (rule keepsD)
  show "set objs = fst ` set (objects w)"
    using assms by (force simp: readObjects_def bindIo_def sysCall_def split: prod.splits option.splits)
qed

text \<open>An existing storage without its key or its node id is not opened and not touched.\<close>

lemma Open_missing:
  assumes run: "Open p c w = (res, w')" and some: "objects w \<noteq> []"
    and missing: "map_of (rootFiles w) ''encryption.key'' = None \<or> map_of (rootFiles w) ''node_id'' = None"
  shows "(\<exists>e. res = Inl e) \<and> sameFiles w w'"
proof -
  define q where "q = (if cfgQuota c = 0 then 512 * 1024 * 1024 else cfgQuota c)"
  note opened = Open_def [of p c, folded q_def, unfolded Let_def]
  show ?thesis
  proof (cases "cfgRoot c = [] \<or> q < 1024")
    case True
    then have "\<exists>e. Open p c = fail e"
      unfolding opened by (cases "cfgRoot c = []") (simp_all only: if_True if_False simp_thms, blast+)
    then show ?thesis
      using run by auto
  next
    case False
    then have "\<exists>rest. Open p c = bindIo (sysCall p) (\<lambda>_. bindIo (readObjects p) (\<lambda>existing.
        bindIo (if existing \<noteq> [] then statFiles p [''encryption.key'', ''node_id''] else ret ()) rest))"
      unfolding opened by (simp only: if_False de_Morgan_disj) (rule exI, rule refl)
    then obtain rest where rest: "(res, w') = bindIo (sysCall p) (\<lambda>_. bindIo (readObjects p) (\<lambda>existing.
        bindIo (if existing \<noteq> [] then statFiles p [''encryption.key'', ''node_id''] else ret ()) rest)) w"
      using run by metis
    obtain r1 w1 where r1: "sysCall p w = (r1, w1)"
      by (metis surj_pair)
    have same1: "sameFiles w w1"
      using keeps_same(1) r1 by (rule keepsD)
    obtain r2 w2 where r2: "readObjects p w1 = (r2, w2)"
      by (metis surj_pair)
    have same2: "sameFiles w w2"
      using same1 keepsD [OF readObjects_same r2] by (rule sameFiles_trans)
    obtain r3 w3 where r3: "statFiles p [''encryption.key'', ''node_id''] w2 = (r3, w3)"
      by (metis surj_pair)
    have same3: "sameFiles w w3"
      using same2 statFiles_same [OF r3] by (rule sameFiles_trans)
    have "map_of (rootFiles w2) ''encryption.key'' = None \<or> map_of (rootFiles w2) ''node_id'' = None"
      using missing same2 by (simp add: sameFiles_def)
    then obtain e where "r3 = Inl e"
      using statFiles_missing [OF _ _ r3] by auto
    moreover have "r2 = Inr objs \<Longrightarrow> objs \<noteq> []" for objs
      using readObjects_Inr(1) [of p w1 objs w2] r2 some same1 by (auto simp: sameFiles_def)
    ultimately show ?thesis
      using rest r1 r2 r3 same1 same2 same3 by (cases r1; cases r2) (auto simp: bindIo_def)
  qed
qed

subsection \<open>A node agrees with its storage\<close>

text \<open>
  The key, capability and id of the node are those of the storage.  Of the directories, \<open>left\<close> are the
  ones that failed uploads left behind; in all others the metadata on disk is that of the node's
  file of that name, or its text was written by \<open>put\<close> and gives that file with its strings coerced.
\<close>

definition reloaded :: "fileMeta option \<Rightarrow> fileMeta option \<Rightarrow> bool" where
  "reloaded kept loaded \<longleftrightarrow> loaded = kept \<or> loaded = map_option validMeta kept"

definition secrets :: "node \<Rightarrow> 'e world \<Rightarrow> bool" where
  "secrets n w \<longleftrightarrow>
     map_of (rootFiles w) ''encryption.key'' = Some (aeadKey n) \<and> length (aeadKey n) = 32 \<and>
     (\<exists>cap. map_of (rootFiles w) ''local.capability'' = Some cap \<and> length cap = 32 \<and> capability n = hexString cap) \<and>
     (\<exists>b. map_of (rootFiles w) ''node_id'' = Some b \<and> toString b = nodeId n \<and> isUuid (nodeId n))"

definition durable :: "'e platform \<Rightarrow> node \<Rightarrow> 'e world \<Rightarrow> string set \<Rightarrow> bool" where
  "durable p n w left \<longleftrightarrow> secrets n w \<and> readable p w \<and> left \<subseteq> fst ` set (objects w) \<and>
     (\<forall>k. if k \<in> left then map_of (files n) k = None else reloaded (map_of (files n) k) (onDisk p w k))"

text \<open>What a node needs of its files, whatever is on disk.\<close>

definition soundFiles :: "node \<Rightarrow> bool" where
  "soundFiles n \<longleftrightarrow> (\<forall>k f. map_of (files n) k = Some f \<longrightarrow> isUuid k \<and> metaOk k f)"

lemma readable_sound: "readable p w \<Longrightarrow> map_of (files n) = onDisk p w \<Longrightarrow> soundFiles n"
  by (auto simp: soundFiles_def onDisk_def readable_def bind_eq_Some_conv split: if_splits) fastforce

lemma Open_durable:
  assumes run: "Open p c w = (Inr n, w')" and draw: "drawOk p"
  shows "durable p n w' {}" and "secrets n w'" and "soundFiles n" and "1024 \<le> quota n" and "\<not> listening n"
proof -
  let ?q = "if cfgQuota c = 0 then 512 * 1024 * 1024 else cfgQuota c"
  have "cfgRoot c \<noteq> []" and q: "1024 \<le> ?q"
    using run by (auto simp: Open_def Let_def split: if_splits)
  then obtain w3 w4 w5 w6 w7 key cap b entries fs where
    key: "secret p ''encryption.key'' 32 w3 = (Inr key, w4)" and cap: "secret p ''local.capability'' 32 w4 = (Inr cap, w5)"
    and idb: "nodeIdOf p w5 = (Inr b, w6)" and uuid: "isUuid (toString b)"
    and entries: "readObjects p w6 = (Inr entries, w7)" and fs: "loadEntries p entries [] w7 = (Inr fs, w')"
    and n: "n = \<lparr>nodeId = toString b, capability = hexString cap, nodeUrl = [], quota = ?q,
            aeadKey = key, files = fs, listening = False\<rparr>"
    using run by (auto simp: Open_def Let_def bindIo_Inr split: if_splits)
  have same: "sameFiles w6 w7" "sameFiles w7 w'"
    using readObjects_Inr(2) [OF entries] keepsD [OF loadEntries_same fs] by blast+
  then have grow: "grows w4 w'" "grows w5 w'" "grows w6 w'"
    using secret_cases(1) [OF cap] nodeIdOf_cases(1) [OF idb] grows_same grows_trans by metis+
  have root: "map_of (rootFiles w') ''encryption.key'' = Some key" "length key = 32"
    "map_of (rootFiles w') ''local.capability'' = Some cap" "length cap = 32" "map_of (rootFiles w') ''node_id'' = Some b"
    using grow secret_cases(2) [OF key refl draw] secret_cases(2) [OF cap refl draw] nodeIdOf_cases(2) [OF idb refl]
    by (auto simp: grows_def map_le_def dom_def)
  have keys: "set entries = fst ` set (objects w')"
    using readObjects_Inr(1) [OF entries] same by (simp add: sameFiles_def)
  note loaded = loadEntries_Inr [OF fs, unfolded onDisk_same(1) [OF same(2), symmetric]]
  have "onDisk p w' obj = None" if "obj \<notin> set entries" for obj
    using that load_InObject_None [of obj w'] by (simp add: keys onDisk_def)
  then have "map_of fs = onDisk p w'"
    unfolding loaded(1) by fastforce
  moreover have "readable p w'"
    using loaded(2) load_InObject_None [of _ w'] sameFiles_load(1) [OF same(2)]
    unfolding readable_def keys by fastforce
  moreover have "secrets n w'"
    using root uuid by (auto simp: secrets_def n)
  ultimately show "durable p n w' {}" "secrets n w'" "soundFiles n" "1024 \<le> quota n" "\<not> listening n"
    using q readable_sound [of p w' n] by (simp_all add: durable_def reloaded_def n)
qed

subsection \<open>Requests keep the agreement\<close>

lemma durable_same: "sameFiles w w' \<Longrightarrow> durable p n w' left = durable p n w left"
  using onDisk_same [of w w' p] by (simp add: durable_def secrets_def sameFiles_def)

lemma secrets_same: "rootFiles w' = rootFiles w \<Longrightarrow> secrets n w' = secrets n w"
  by (simp add: secrets_def)

lemma secrets_files: "secrets (n\<lparr>files := fs\<rparr>) w = secrets n w"
  by (simp add: secrets_def)

lemma storedAs_metaOk:
  assumes "storedAs p n data f dir" and "sliceLen data \<le> MaxObject"
  shows "metaOk (fileId f) f"
  using assms by (auto simp: storedAs_def metaOk_def nodeData_def nodeParity_def)

lemma madeFor_metaOk: "madeFor obj data f \<Longrightarrow> sliceLen data \<le> MaxObject \<Longrightarrow> metaOk obj f"
  by (simp add: madeFor_def metaOk_def)

text \<open>The metadata in a storage to which a directory has been added.\<close>

lemma load_added:
  assumes "objects w' = objects w @ [(obj, dir)]" and "obj \<notin> fst ` set (objects w)"
  shows "load (InObject k f) w' = (if k = obj then map_of dir f else load (InObject k f) w)"
  using assms map_of_last [OF assms(2), of dir] by (auto simp: load.simps map_add_def split: option.split)

lemma readable_added:
  assumes "objects w' = objects w @ [(obj, dir)]" and "obj \<notin> fst ` set (objects w)" and "readable p w"
    and "\<And>raw. map_of dir ''metadata.json'' = Some raw \<Longrightarrow> \<exists>f. unmarshal p raw = Some f \<and> metaOk obj f"
  shows "readable p w'"
  using assms(3,4) unfolding readable_def load_added [OF assms(1,2)] by auto

lemma onDisk_added:
  assumes "objects w' = objects w @ [(obj, dir)]" and "obj \<notin> fst ` set (objects w)" and "k \<noteq> obj"
  shows "onDisk p w' k = onDisk p w k"
  using assms(3) by (simp add: onDisk_def load_added [OF assms(1,2)])

lemma onDisk_absent: "k \<notin> fst ` set (objects w) \<Longrightarrow> onDisk p w k = None"
  using load_InObject_None [of k w] by (simp add: onDisk_def)

lemma durable_stored:
  assumes dur: "durable p n w left" and json: "jsonOk p" and n': "n' = n\<lparr>files := AList.update (fileId f) f (files n)\<rparr>"
    and root: "rootFiles w' = rootFiles w" and new: "fileId f \<notin> fst ` set (objects w)" "isUuid (fileId f)"
    and objs: "objects w' = objects w @ [(fileId f, dir)]" and stored: "storedAs p n data f dir" "sliceLen data \<le> MaxObject"
  shows "durable p n' w' left"
proof -
  have raw: "map_of dir ''metadata.json'' = Some (marshal p f)"
    using stored(1) by (rule storedAs_metadata)
  have rt: "unmarshal p (marshal p f) = Some (validMeta f)"
    using json by (simp add: jsonOk_def)
  have "readable p w'"
    using dur raw rt validMeta_metaOk [OF new(2) storedAs_metaOk [OF stored]]
    by (intro readable_added [OF objs new(1)]) (simp_all add: durable_def)
  moreover have "onDisk p w' (fileId f) = Some (validMeta f)"
    using new(2) raw rt by (simp add: onDisk_def load_added [OF objs new(1)])
  moreover have "fileId f \<notin> left"
    using dur new(1) by (auto simp: durable_def)
  ultimately have "\<forall>k. if k \<in> left then map_of (files n') k = None else reloaded (map_of (files n') k) (onDisk p w' k)"
    using dur onDisk_added [OF objs new(1)] unfolding durable_def reloaded_def
    by (auto simp: n' update_conv' split: if_splits)
  moreover have "secrets n' w'"
    using dur secrets_same [OF root, of n] by (simp add: durable_def n' secrets_files)
  moreover have "left \<subseteq> fst ` set (objects w')"
    using dur by (auto simp: durable_def objs)
  ultimately show ?thesis
    unfolding durable_def using \<open>readable p w'\<close> by (intro conjI)
qed

lemma durable_leftover:
  assumes dur: "durable p n w left" and json: "jsonOk p" and root: "rootFiles w' = rootFiles w"
    and left: "leftover p data w w'" and len: "sliceLen data \<le> MaxObject"
  shows "durable p n w' (left \<union> (fst ` set (objects w') - fst ` set (objects w)))"
proof -
  obtain obj dir where new: "obj \<notin> fst ` set (objects w)" "isUuid obj" and objs: "objects w' = objects w @ [(obj, dir)]"
    and meta: "metaIn (metaTexts p obj data) dir"
    using left by (auto simp: leftover_def)
  have "\<exists>f. unmarshal p raw = Some f \<and> metaOk obj f" if raw: "map_of dir ''metadata.json'' = Some raw" for raw
  proof -
    obtain f where "raw = marshal p f" "madeFor obj data f"
      using meta raw by (auto simp: metaIn_def metaTexts_def)
    then show ?thesis
      using json validMeta_metaOk [OF new(2) madeFor_metaOk [OF _ len]] by (auto simp: jsonOk_def)
  qed
  then have "readable p w'"
    using dur by (intro readable_added [OF objs new(1)]) (simp_all add: durable_def)
  moreover have "obj \<notin> left" "onDisk p w obj = None"
    using dur new(1) onDisk_absent by (auto simp: durable_def)
  then have "map_of (files n) obj = None"
    using dur unfolding durable_def reloaded_def by (metis option.map_disc_iff)
  then have "\<forall>k. if k \<in> insert obj left then map_of (files n) k = None else reloaded (map_of (files n) k) (onDisk p w' k)"
    using dur onDisk_added [OF objs new(1)] unfolding durable_def by auto
  moreover have "left \<union> (fst ` set (objects w') - fst ` set (objects w)) = insert obj left"
    using new(1) by (auto simp: objs)
  moreover have "secrets n w'"
    using dur secrets_same [OF root, of n] by (simp add: durable_def)
  moreover have "insert obj left \<subseteq> fst ` set (objects w')"
    using dur by (auto simp: durable_def objs)
  ultimately show ?thesis
    unfolding durable_def by (simp only: simp_thms)
qed

text \<open>The directories a request leaves behind without storing an object.\<close>

definition leftBy :: "response \<Rightarrow> 'e world \<Rightarrow> 'e world \<Rightarrow> string set" where
  "leftBy resp w w' = (if status resp = 200 then {} else fst ` set (objects w') - fst ` set (objects w))"

lemma put_leftover_len:
  "put p n token name folder data w = (Inl e, n', w') \<Longrightarrow> objects w' \<noteq> objects w \<Longrightarrow> sliceLen data \<le> MaxObject"
  by (auto simp: put_def split: if_splits)

lemma put_durable:
  assumes cpu: "cpuOk (pArch p) (pCpu p)" and draw: "drawOk p" and json: "jsonOk p" and data: "sliceWf data" "roomy data"
    and run: "put p n token name folder data w = (res, n', w')" and dur: "durable p n w left"
  shows "durable p n' w' (case res of Inl e \<Rightarrow> left \<union> (fst ` set (objects w') - fst ` set (objects w)) | Inr f \<Rightarrow> left)"
proof (cases res)
  note c = put_cases [OF cpu draw data run]
  case (Inl e)
  show ?thesis
  proof (cases "objects w' = objects w")
    case True
    then have "sameFiles w w'" "n' = n"
      using c Inl by (simp_all add: sameFiles_def)
    then show ?thesis
      using Inl True dur durable_same [OF \<open>sameFiles w w'\<close>] by simp
  next
    case False
    then have "leftover p data w w'" "rootFiles w' = rootFiles w" "n' = n"
      using c Inl by auto
    then show ?thesis
      using durable_leftover [OF dur json _ _ put_leftover_len [OF run [unfolded Inl] False]] Inl by simp
  qed
next
  note c = put_cases [OF cpu draw data run]
  case (Inr f)
  show ?thesis
  proof (cases "n' = n \<and> w' = w")
    case False
    then obtain dir where new: "n' = n\<lparr>files := AList.update (fileId f) f (files n)\<rparr>" "rootFiles w' = rootFiles w"
      "fileId f \<notin> fst ` set (objects w)" "isUuid (fileId f)" "objects w' = objects w @ [(fileId f, dir)]"
      "storedAs p n data f dir" "sliceLen data \<le> MaxObject"
      using c Inr by auto
    then show ?thesis
      using durable_stored [OF dur json new] Inr by simp
  qed (use dur Inr in simp)
qed

lemma ServeHTTP_durable:
  assumes cpu: "cpuOk (pArch p) (pCpu p)" and draw: "drawOk p" and json: "jsonOk p" and cap: "readAllCap req"
    and run: "ServeHTTP p n req w = (resp, n', w')" and dur: "durable p n w left"
  shows "durable p n' w' (left \<union> leftBy resp w w')"
proof -
  consider (upload) "serveUpload p n req w = (resp, n', w')" | (other) "n' = n" "sameFiles w w'"
    using run by (auto simp: ServeHTTP_def split: if_splits prod.splits dest!: serveFile_same)
  then show ?thesis
  proof cases
    case upload
    from upload cap show ?thesis
    proof (cases rule: serveUpload_cases)
      case (put name folder rd spare data res)
      then show ?thesis
        using put_durable [OF cpu draw json put(3,4,5) dur] by (cases res) (simp_all add: leftBy_def)
    qed (use dur in \<open>simp add: leftBy_def\<close>)
  next
    case other
    then have "leftBy resp w w' = {}"
      by (simp add: leftBy_def sameFiles_def)
    then show ?thesis
      using dur durable_same [OF other(2)] other(1) by simp
  qed
qed

lemma ServeHTTP_files:
  assumes "cpuOk (pArch p) (pCpu p)" and "drawOk p" and "readAllCap req"
    and "ServeHTTP p n req w = (resp, n', w')"
  shows "n' = n\<lparr>files := files n'\<rparr>"
proof -
  consider (upload) "serveUpload p n req w = (resp, n', w')" | (other) "n' = n"
    using assms(4) by (auto simp: ServeHTTP_def split: if_splits prod.splits)
  then show ?thesis
  proof cases
    case upload
    from upload assms(3) show ?thesis
    proof (cases rule: serveUpload_cases)
      case (put name folder rd spare data res)
      then show ?thesis
        using put_cases [OF assms(1,2) put(3,4,5)] by (cases res) auto
    qed simp
  qed simp
qed

lemma ServeHTTP_sound:
  assumes cpu: "cpuOk (pArch p) (pCpu p)" and draw: "drawOk p" and cap: "readAllCap req"
    and run: "ServeHTTP p n req w = (resp, n', w')" and sound: "secrets n w" "soundFiles n"
  shows "secrets n' w' \<and> soundFiles n'"
proof -
  consider (upload) "serveUpload p n req w = (resp, n', w')" | (other) "n' = n" "sameFiles w w'"
    using run by (auto simp: ServeHTTP_def split: if_splits prod.splits dest!: serveFile_same)
  then show ?thesis
  proof cases
    case upload
    from upload cap show ?thesis
    proof (cases rule: serveUpload_cases)
      case refused
      then show ?thesis
        using sound by simp
    next
      case (put name folder rd spare data res)
      note c = put_cases [OF cpu draw put(3,4,5)]
      have "rootFiles w' = rootFiles w"
        using c by (cases res) auto
      note root = secrets_same [OF this]
      consider (same) "n' = n" | (new) f dir where "n' = n\<lparr>files := AList.update (fileId f) f (files n)\<rparr>"
        "isUuid (fileId f)" "sliceLen data \<le> MaxObject" "storedAs p n data f dir"
        using c by (cases res) auto
      then show ?thesis
      proof cases
        case same
        then show ?thesis
          using sound root [of n] by simp
      next
        case new
        then show ?thesis
          using sound root [of n] storedAs_metaOk [OF new(4,3)]
          by (simp add: secrets_files) (simp add: soundFiles_def update_conv')
      qed
    qed
  next
    case other
    then show ?thesis
      using sound secrets_same by (auto simp: sameFiles_def)
  qed
qed

lemma Start_cases: "Start net a n = Inr n' \<Longrightarrow> \<exists>bound. n' = n\<lparr>listening := True, nodeUrl := bound\<rparr>"
  by (auto simp: Start_def Let_def bind_result_def split: if_splits sum.splits)

lemma Start_durable: "Start net a n = Inr n' \<Longrightarrow> durable p n w left \<Longrightarrow> durable p n' w left"
  by (auto simp: durable_def secrets_def dest!: Start_cases)

lemma Start_sound: "Start net a n = Inr n' \<Longrightarrow> secrets n w \<and> soundFiles n \<Longrightarrow> secrets n' w \<and> soundFiles n'"
  by (auto simp: secrets_def soundFiles_def dest!: Start_cases)

text \<open>The node program writes its descriptor beside the files the node depends on.\<close>

lemma writeRuntime_keeps:
  assumes "writeRuntime p b w = (res, w')" and "P w"
    and store: "\<And>w x. P w \<Longrightarrow> P (store (InRoot ''runtime.json'') x w)" and same: "\<And>w w'. P w \<Longrightarrow> sameFiles w w' \<Longrightarrow> P w'"
  shows "P w'"
proof -
  let ?f = "InRoot ''runtime.json''"
  obtain r1 w1 where r1: "sysCall p w = (r1, w1)"
    by (metis surj_pair)
  obtain r2 w2 where r2: "sysCall p (store ?f [] w1) = (r2, w2)"
    by (metis surj_pair)
  have "P w1" "P w2"
    using same [OF assms(2) keepsD [OF keeps_same(1) r1]] same [OF store keepsD [OF keeps_same(1) r2]] by simp_all
  moreover have "w' = w1 \<or> w' = w2 \<or> w' = store ?f b w2"
    using assms(1) r1 r2 by (cases r1; cases r2) (simp_all add: writeRuntime_def bindIo_def del: store.simps)
  ultimately show ?thesis
    using store by blast
qed

lemma writeRuntime_secrets:
  assumes "writeRuntime p b w = (res, w')" and "secrets n w"
  shows "secrets n w'"
  by (rule writeRuntime_keeps [where P = "secrets n", OF assms]) (auto simp: secrets_def update_conv' sameFiles_def)

lemma writeRuntime_durable:
  assumes "writeRuntime p b w = (res, w')" and "durable p n w left"
  shows "durable p n w' left"
proof (rule writeRuntime_keeps [where P = "\<lambda>w. durable p n w left", OF assms])
  fix w :: "'a world" and x assume "durable p n w left"
  moreover have "load (InObject obj f) (store (InRoot ''runtime.json'') x w) = load (InObject obj f) w" for obj f
    by (simp add: load.simps)
  then have "onDisk p (store (InRoot ''runtime.json'') x w) = onDisk p w"
      "readable p (store (InRoot ''runtime.json'') x w) = readable p w"
    by (simp_all only: onDisk_def [abs_def] readable_def)
  moreover have "secrets n w \<Longrightarrow> secrets n (store (InRoot ''runtime.json'') x w)"
    by (auto simp: secrets_def update_conv')
  ultimately show "durable p n (store (InRoot ''runtime.json'') x w) left"
    by (simp add: durable_def)
qed (simp add: durable_same)

lemma nodeProgram_durable:
  assumes "nodeProgram net json p root listen w = (Inr n, w')" and "drawOk p"
  shows "durable p n w' {}"
proof -
  obtain n0 w1 where opened: "Open p \<lparr>cfgRoot = root, cfgListen = [], cfgQuota = 0\<rparr> w = (Inr n0, w1)"
    and started: "Start net listen n0 = Inr n" and written: "writeRuntime p (json (Descriptor n)) w1 = (Inr (), w')"
    using assms(1) by (auto simp: nodeProgram_def bindIo_Inr)
  have "durable p n w1 {}"
    using started Open_durable(1) [OF opened assms(2)] by (rule Start_durable)
  with written show ?thesis
    by (rule writeRuntime_durable)
qed

text \<open>
  The states of a node: it is opened, may be started, writes its descriptor where the node program
  does, and serves requests, of which an upload is read into the buffer of \<open>io.ReadAll\<close>
  (\<open>readAllCap\<close>).  The last argument are the directories left behind by uploads that failed and whose
  clean-up failed too.
\<close>

inductive life :: "'e platform \<Rightarrow> node \<Rightarrow> 'e world \<Rightarrow> string set \<Rightarrow> bool" for p where
  opened: "Open p c w0 = (Inr n, w) \<Longrightarrow> life p n w {}"
| started: "life p n w left \<Longrightarrow> Start net a n = Inr n' \<Longrightarrow> life p n' w left"
| announced: "life p n w left \<Longrightarrow> writeRuntime p b w = (res, w') \<Longrightarrow> life p n w' left"
| served: "life p n w left \<Longrightarrow> readAllCap req \<Longrightarrow> ServeHTTP p n req w = (resp, n', w') \<Longrightarrow>
    life p n' w' (left \<union> leftBy resp w w')"

lemma life_durable:
  assumes "life p n w left" and "cpuOk (pArch p) (pCpu p)" and "drawOk p" and "jsonOk p"
  shows "durable p n w left"
  using assms(1)
proof induction
  case (opened c w0 n w)
  then show ?case
    using assms(3) by (rule Open_durable(1))
next
  case (started n w left net a n')
  then show ?case
    by (blast intro: Start_durable)
next
  case (announced n w left b res w')
  then show ?case
    by (blast intro: writeRuntime_durable)
next
  case (served n w left req resp n' w')
  show ?case
    using served(2-4) by (rule ServeHTTP_durable [OF assms(2-4)])
qed

lemma life_sound:
  assumes "life p n w left" and "cpuOk (pArch p) (pCpu p)" and "drawOk p"
  shows "secrets n w \<and> soundFiles n"
  using assms(1)
proof induction
  case (opened c w0 n w)
  then show ?case
    using Open_durable(2,3) assms(3) by blast
next
  case (started n w left net a n')
  show ?case
    using started(2,3) by (rule Start_sound)
next
  case (announced n w left b res w')
  then show ?case
    by (blast intro: writeRuntime_secrets)
next
  case (served n w left req resp n' w')
  show ?case
    using ServeHTTP_sound [OF assms(2,3) served(2,3)] served(4) by simp
qed

subsection \<open>Opening a storage again\<close>

lemma calm_unmarshal [simp]: "unmarshal (calm p) = unmarshal p"
  by (simp add: calm_def)

lemma onDisk_calm [simp]: "onDisk (calm p) = onDisk p" "readable (calm p) = readable p"
  by (simp_all add: onDisk_def readable_def fun_eq_iff)

lemma loadEntries_calm: "readable p w \<Longrightarrow> \<exists>fs'. loadEntries (calm p) objs fs w = (Inr fs', w)"
proof (induction objs arbitrary: fs)
  case (Cons obj objs)
  show ?case
  proof (cases "load (InObject obj ''metadata.json'') w")
    case None
    then show ?thesis
      using Cons by (simp add: readFile_calm)
  next
    case (Some raw)
    then have "isUuid obj \<Longrightarrow> \<exists>f. unmarshal p raw = Some f \<and> metaOk obj f"
      using Cons.prems by (auto simp: readable_def)
    then show ?thesis
      using Cons.IH [OF Cons.prems] Some by (auto simp: readFile_calm)
  qed
qed simp

lemma sysCall_calm: "sysCall (calm p) w = (Inr (), w)"
  by (simp add: sysCall_def)

lemma Open_durable_again:
  assumes secrets: "secrets n w" and disk: "readable p w" and c: "cfgRoot c \<noteq> []" "cfgQuota c = 0 \<or> 1024 \<le> cfgQuota c"
  obtains fs where "Open (calm p) c w = (Inr \<lparr>nodeId = nodeId n, capability = capability n, nodeUrl = [],
      quota = (if cfgQuota c = 0 then 512 * 1024 * 1024 else cfgQuota c), aeadKey = aeadKey n, files = fs,
      listening = False\<rparr>, w)" and "map_of fs = onDisk p w"
proof -
  define q where "q = (if cfgQuota c = 0 then 512 * 1024 * 1024 else cfgQuota c)"
  note opened = Open_def [of "calm p" c, folded q_def, unfolded Let_def]
  have q: "\<not> q < 1024"
    using c(2) by (auto simp: q_def)
  obtain cap b where root: "map_of (rootFiles w) ''encryption.key'' = Some (aeadKey n)" "length (aeadKey n) = 32"
    "map_of (rootFiles w) ''local.capability'' = Some cap" "length cap = 32" "capability n = hexString cap"
    "map_of (rootFiles w) ''node_id'' = Some b" "toString b = nodeId n" "isUuid (nodeId n)"
    using secrets by (auto simp: secrets_def)
  let ?objs = "sort (map fst (objects w))"
  have objs: "readObjects (calm p) w = (Inr ?objs, w)"
    by (simp add: readObjects_def bindIo_def sysCall_calm)
  obtain fs where fs: "loadEntries (calm p) ?objs [] w = (Inr fs, w)"
    using loadEntries_calm [OF disk] by blast
  have "onDisk p w obj = None" if "obj \<notin> set ?objs" for obj
    using that onDisk_absent [of obj w] by simp
  then have "map_of fs = onDisk p w"
    unfolding loadEntries_Inr(1) [OF fs] by fastforce
  moreover have "secret (calm p) ''encryption.key'' 32 w = (Inr (aeadKey n), w)"
      "secret (calm p) ''local.capability'' 32 w = (Inr cap, w)" "nodeIdOf (calm p) w = (Inr b, w)"
      "(if ?objs \<noteq> [] then statFiles (calm p) [''encryption.key'', ''node_id''] else ret ()) w = (Inr (), w)"
    using root by (simp_all add: secret_def nodeIdOf_def readFile_calm bindIo_def sysCall_calm)
  ultimately show ?thesis
    using that [folded q_def] c(1) q root objs fs
    by (simp add: opened bindIo_def sysCall_calm del: statFiles.simps)
qed

lemma reopened:
  assumes "secrets n w" and "readable p w" and "cfgRoot c \<noteq> []" and "cfgQuota c = 0 \<or> 1024 \<le> cfgQuota c"
  shows "\<exists>n'. Open (calm p) c w = (Inr n', w) \<and> nodeId n' = nodeId n \<and> capability n' = capability n \<and>
    aeadKey n' = aeadKey n \<and> map_of (files n') = onDisk p w"
  by (rule Open_durable_again [OF assms]) simp

text \<open>The files of a node and of the node opened on its storage later.\<close>

definition sameAfter :: "string set \<Rightarrow> node \<Rightarrow> node \<Rightarrow> bool" where
  "sameAfter left n n' \<longleftrightarrow> (\<forall>k. if k \<in> left then map_of (files n) k = None else
     (case map_of (files n) k of
        None \<Rightarrow> map_of (files n') k = None
      | Some f \<Rightarrow> map_of (files n') k = Some f \<or> map_of (files n') k = Some (validMeta f)))"

lemma sameAfter_durable: "durable p n w left \<Longrightarrow> map_of (files n') = onDisk p w \<Longrightarrow> sameAfter left n n'"
  unfolding durable_def sameAfter_def reloaded_def by (auto split: option.split) (metis option.simps(8,9))+

subsection \<open>Properties\<close>

definition testRoot :: config where
  "testRoot = \<lparr>cfgRoot = ''cfs'', cfgListen = [], cfgQuota = 0\<rparr>"

definition testUuid :: string where
  "testUuid = ''01234567-89ab-cdef-0123-456789abcdef''"

text \<open>A storage without objects.\<close>

definition testStorage :: "nat world" where
  "testStorage = \<lparr>rootFiles = [(''encryption.key'', replicate 32 9), (''local.capability'', replicate 32 8),
       (''node_id'', toBytes testUuid)], objects = [], ent = 3\<rparr>"

lemma testOpen:
  obtains n where "Open testJson testRoot testStorage = (Inr n, testStorage)" and "files n = []"
    and "nodeId n = testUuid" and "capability n = hexString (replicate 32 8)" and "quota n = 512 * 1024 * 1024"
proof -
  have uuid: "isUuid testUuid"
    by code_simp
  let ?n = "\<lparr>nodeId = testUuid, capability = hexString (replicate 32 8), nodeUrl = [], quota = 0,
      aeadKey = replicate 32 9, files = [], listening = False\<rparr>"
  have "map_of (rootFiles testStorage) ''encryption.key'' = Some (aeadKey ?n)"
    "map_of (rootFiles testStorage) ''local.capability'' = Some (replicate 32 8)"
    "map_of (rootFiles testStorage) ''node_id'' = Some (toBytes testUuid)"
    by (simp_all add: testStorage_def)
  moreover have "length (aeadKey ?n) = 32" "length (replicate 32 (8 :: byte)) = 32" "isUuid (nodeId ?n)"
    "toString (toBytes testUuid) = nodeId ?n" "capability ?n = hexString (replicate 32 8)"
    using uuid by (simp_all only: node.select_convs length_replicate toString_toBytes)
  ultimately have "secrets ?n testStorage"
    unfolding secrets_def by blast
  moreover have none: "load (InObject obj f) testStorage = None" for obj f
    by (simp add: load.simps testStorage_def)
  then have "readable testJson testStorage"
    by (simp add: readable_def)
  ultimately obtain fs where fs: "Open (calm testJson) testRoot testStorage = (Inr \<lparr>nodeId = nodeId ?n,
      capability = capability ?n, nodeUrl = [], quota = (if cfgQuota testRoot = 0 then 512 * 1024 * 1024 else cfgQuota testRoot),
      aeadKey = aeadKey ?n, files = fs, listening = False\<rparr>, testStorage)" "map_of fs = onDisk testJson testStorage"
    by (rule Open_durable_again [of _ _ _ testRoot]) (simp_all add: testRoot_def)
  have "map_of fs = Map.empty"
    unfolding fs(2) by (rule ext) (simp add: onDisk_def none)
  then show ?thesis
    using that [OF fs(1) [unfolded testJson_ok(4)]] by (simp add: testRoot_def)
qed

text \<open>An accepted upload; the token of the owner is a parameter.\<close>

definition uploadBy :: "string \<Rightarrow> string \<Rightarrow> request" where
  "uploadBy key token = testUpload\<lparr>reqKey := key, reqToken := token\<rparr>"

lemma testUploaded:
  assumes "files n = []" and "quota n = 512 * 1024 * 1024" and token: "token \<noteq> []" "length token \<le> 256"
  obtains f n' w' dir where "ServeHTTP testJson n (uploadBy (capability n) token) testStorage = (jsonResponse 200 (Meta f), n', w')"
    and "files n' = [(fileId f, f)]" and "secrets n testStorage \<Longrightarrow> secrets n' w'"
    and "objects w' = [(fileId f, dir)]" and "map_of dir ''metadata.json'' = Some (marshal testJson f)"
    and "isUuid (fileId f)" and "metaOk (fileId f) f" and "fileToken f = token" and "fileName f = ''a.json''"
proof -
  let ?data = "Slice ([1, 2, 3] @ replicate 509 0) 3"
  have names: "\<not> badNames token ''a.json'' ''Chat/v1''"
    using token testData(3) by (simp add: badNames_def)
  have data: "sliceWf ?data" "roomy ?data"
    by (simp_all add: roomy_def sliceCap_def sliceWf_def)
  have read: "readUpload (ofData [1, 2, 3]) (replicate 509 0) = Inr ?data"
    by (simp add: readUpload_def ofData_def MaxObject_def)
  have "\<exists>f n' w'. put testJson n token ''a.json'' ''Chat/v1'' ?data testStorage = (Inr f, n', w')"
    by (rule put_works [OF testJson_ok(1,3) data names])
      (simp_all add: MaxObject_def assms(2) testStorage_def usage_def)
  then obtain f n' w' where run: "put testJson n token ''a.json'' ''Chat/v1'' ?data testStorage = (Inr f, n', w')"
    by blast
  have "f \<notin> snd ` set (files n)"
    by (simp add: assms(1))
  then obtain dir where f: "sameObject token ''a.json'' ''Chat/v1'' (hash testJson (bytesOf ?data)) f"
    "n' = n\<lparr>files := AList.update (fileId f) f (files n)\<rparr>" "rootFiles w' = rootFiles testStorage" "isUuid (fileId f)"
    "sliceLen ?data \<le> MaxObject" "objects w' = objects testStorage @ [(fileId f, dir)]" "storedAs testJson n ?data f dir"
    using put_cases [OF testJson_ok(1,2) data run] by auto
  have "ServeHTTP testJson n (uploadBy (capability n) token) testStorage = (jsonResponse 200 (Meta f), n', w')"
    using run read by (simp add: ServeHTTP_def serveUpload_def uploadBy_def testUpload_def MaxObject_def)
  moreover have "files n' = [(fileId f, f)]" "objects w' = [(fileId f, dir)]"
    using f(2,6) assms(1) by (simp_all add: testStorage_def)
  moreover have "secrets n' w' = secrets n testStorage"
    using secrets_same [OF f(3), of n'] by (simp add: f(2) secrets_files)
  moreover have "fileToken f = token" "fileName f = ''a.json''"
    using f(1) by (simp_all add: sameObject_def)
  ultimately show ?thesis
    using that f(4) storedAs_metadata [OF f(7)] storedAs_metaOk [OF f(7,5)] by blast
qed

lemma uploadBy_cap: "readAllCap (uploadBy key token)"
  using testUpload_cap by (simp add: uploadBy_def readAllCap_def)

text \<open>A life of a node with an upload.\<close>

lemma testLife:
  obtains n n1 w1 f dir where "Open testJson testRoot testStorage = (Inr n, testStorage)"
    and "ServeHTTP testJson n (uploadBy (capability n) ''alice'') testStorage = (jsonResponse 200 (Meta f), n1, w1)"
    and "life testJson n1 w1 {}" and "nodeId n1 = testUuid" and "files n1 = [(fileId f, f)]" and "fileName f = ''a.json''"
    and "isUuid (fileId f)" and "metaOk (fileId f) f"
proof -
  obtain n where n: "Open testJson testRoot testStorage = (Inr n, testStorage)" "files n = []" "nodeId n = testUuid"
    "quota n = 512 * 1024 * 1024"
    by (rule testOpen)
  obtain f n1 w1 dir where up: "ServeHTTP testJson n (uploadBy (capability n) ''alice'') testStorage = (jsonResponse 200 (Meta f), n1, w1)"
    "files n1 = [(fileId f, f)]" "isUuid (fileId f)" "metaOk (fileId f) f" "fileName f = ''a.json''"
    by (rule testUploaded [OF n(2,4), of "''alice''"]) simp_all
  have "life testJson n1 w1 ({} \<union> leftBy (jsonResponse 200 (Meta f)) testStorage w1)"
    using life.opened [OF n(1)] uploadBy_cap up(1) by (rule life.served)
  then have life: "life testJson n1 w1 {}"
    by (simp add: leftBy_def jsonResponse_def)
  have "n1 = n\<lparr>files := files n1\<rparr>"
    using ServeHTTP_files [OF testJson_ok(1,2) uploadBy_cap up(1)] .
  then have "nodeId n1 = nodeId n"
    by (rule with_files_simps)
  with n up life show ?thesis
    by (intro that) simp_all
qed

text \<open>
  C24. \<open>Open\<close> never replaces what a storage holds: the objects and every file of the root directory
  stay, whatever fails; a storage that has objects but lacks its key or its node id is refused,
  and left as it was.
\<close>

theorem open_never_replaces:
  assumes "Open p c w = (res, w')"
  shows "objects w' = objects w \<and> map_of (rootFiles w) \<subseteq>\<^sub>m map_of (rootFiles w') \<and>
    (objects w \<noteq> [] \<and>
      (map_of (rootFiles w) ''encryption.key'' = None \<or> map_of (rootFiles w) ''node_id'' = None) \<longrightarrow>
      (\<exists>e. res = Inl e) \<and> rootFiles w' = rootFiles w)"
  using keepsD [OF Open_grows assms] Open_missing [OF assms] by (auto simp: grows_def sameFiles_def)

lemma open_never_replaces_witness:
  "\<exists>e w'. Open testJson testRoot (testStorage\<lparr>rootFiles := [(''node_id'', toBytes testUuid)],
      objects := [(testUuid, [])]\<rparr>) = (Inl e, w') \<and> rootFiles w' = [(''node_id'', toBytes testUuid)]"
proof -
  let ?w = "testStorage\<lparr>rootFiles := [(''node_id'', toBytes testUuid)], objects := [(testUuid, [])]\<rparr>"
  obtain res w' where run: "Open testJson testRoot ?w = (res, w')"
    by (metis surj_pair)
  have "objects ?w \<noteq> [] \<and> (map_of (rootFiles ?w) ''encryption.key'' = None \<or> map_of (rootFiles ?w) ''node_id'' = None)"
    by simp
  then show ?thesis
    using open_never_replaces [OF run] run by auto
qed

text \<open>
  C25. The state of a node is well formed at all times, whatever fails and whatever is uploaded: its
  key has 32 bytes, its capability 64 hexadecimal digits, its id and the keys of its files are UUIDs,
  and every file has the sizes and counts that \<open>Open\<close> demands of metadata.
\<close>

theorem node_well_formed:
  assumes "cpuOk (pArch p) (pCpu p)" and "drawOk p" and "life p n w left"
  shows "length (aeadKey n) = 32 \<and> length (capability n) = 64 \<and> set (capability n) \<subseteq> set hexChars \<and>
    isUuid (nodeId n) \<and> (\<forall>k f. map_of (files n) k = Some f \<longrightarrow> isUuid k \<and> metaOk k f)"
proof -
  have sound: "secrets n w" "soundFiles n"
    using life_sound [OF assms(3,1,2)] by simp_all
  then obtain cap where "capability n = hexString cap" "length cap = 32"
    by (auto simp: secrets_def)
  then show ?thesis
    using sound hexString_chars [of cap] by (auto simp: secrets_def soundFiles_def)
qed

lemma node_well_formed_witness:
  "\<exists>n n1 w1 f. Open testJson testRoot testStorage = (Inr n, testStorage) \<and>
    ServeHTTP testJson n (uploadBy (capability n) ''alice'') testStorage = (jsonResponse 200 (Meta f), n1, w1) \<and>
    length (capability n1) = 64 \<and> map_of (files n1) (fileId f) = Some f \<and> metaOk (fileId f) f"
proof -
  obtain n n1 w1 f where t: "Open testJson testRoot testStorage = (Inr n, testStorage)"
    "ServeHTTP testJson n (uploadBy (capability n) ''alice'') testStorage = (jsonResponse 200 (Meta f), n1, w1)"
    "life testJson n1 w1 {}" "files n1 = [(fileId f, f)]"
    by (rule testLife)
  show ?thesis
    using node_well_formed [OF testJson_ok(1,2) t(3)] t by auto
qed

text \<open>
  C18. A node outlives a restart: in every state it reaches, opening its storage again, with calls that
  do not fail, gives a node with the same id, capability and key, and writes nothing.  \<open>encoding/json\<close>
  gives a \<open>File\<close> back with its strings coerced to valid UTF-8 (\<open>jsonOk\<close>), so every file of the node is
  there again as it was or with its strings coerced.  Beside these the new node has a file at most
  for a directory in \<open>left\<close>, which a failed upload left behind because its clean-up failed too.
\<close>

theorem restart_same_node:
  assumes "cpuOk (pArch p) (pCpu p)" and "drawOk p" and "jsonOk p" and "life p n w left"
    and "cfgRoot c \<noteq> []" and "cfgQuota c = 0 \<or> 1024 \<le> cfgQuota c"
  shows "\<exists>n'. Open (calm p) c w = (Inr n', w) \<and> nodeId n' = nodeId n \<and> capability n' = capability n \<and>
    aeadKey n' = aeadKey n \<and>
    (\<forall>k. if k \<in> left then map_of (files n) k = None else
      (case map_of (files n) k of
         None \<Rightarrow> map_of (files n') k = None
       | Some f \<Rightarrow> map_of (files n') k = Some f \<or> map_of (files n') k = Some (validMeta f)))"
proof -
  have dur: "durable p n w left"
    using assms(4,1-3) by (rule life_durable)
  then have "secrets n w" "readable p w"
    by (simp_all add: durable_def)
  from reopened [OF this assms(5,6)] obtain n' where "Open (calm p) c w = (Inr n', w)" "nodeId n' = nodeId n"
    "capability n' = capability n" "aeadKey n' = aeadKey n" and disk: "map_of (files n') = onDisk p w"
    by blast
  then show ?thesis
    using sameAfter_durable [OF dur disk] unfolding sameAfter_def by blast
qed

text \<open>The storage is opened, an object uploaded, and the storage opened again.\<close>

lemma restart_same_node_witness:
  "\<exists>n n1 w1 f n2 f2. Open testJson testRoot testStorage = (Inr n, testStorage) \<and>
    ServeHTTP testJson n (uploadBy (capability n) ''alice'') testStorage = (jsonResponse 200 (Meta f), n1, w1) \<and>
    Open (calm testJson) testRoot w1 = (Inr n2, w1) \<and> nodeId n2 = testUuid \<and>
    map_of (files n2) (fileId f) = Some f2 \<and> fileName f2 = ''a.json''"
proof -
  obtain n n1 w1 f where t: "Open testJson testRoot testStorage = (Inr n, testStorage)"
    "ServeHTTP testJson n (uploadBy (capability n) ''alice'') testStorage = (jsonResponse 200 (Meta f), n1, w1)"
    "life testJson n1 w1 {}" "nodeId n1 = testUuid" "files n1 = [(fileId f, f)]" "fileName f = ''a.json''"
    by (rule testLife)
  obtain n2 where n2: "Open (calm testJson) testRoot w1 = (Inr n2, w1)" "nodeId n2 = testUuid"
    "map_of (files n2) (fileId f) = Some f \<or> map_of (files n2) (fileId f) = Some (validMeta f)"
    using restart_same_node [OF testJson_ok(1,2,5) t(3), of testRoot] t(4,5)
    by (auto simp: testRoot_def split: option.splits if_splits)
  have "validString ''a.json'' = ''a.json''"
    by code_simp
  then have "fileName (validMeta f) = ''a.json''"
    using t(6) by (simp add: validMeta_def)
  then show ?thesis
    using t(1,2,6) n2 by blast
qed

text \<open>
  What the coercion means for an owner: \<open>put\<close> accepts a token that is not valid UTF-8, here the one
  byte 0xE9, but after a restart the object belongs to another token and its owner gets nothing.
\<close>

theorem restart_loses_owner:
  "\<exists>n n1 w1 f n2. Open testJson testRoot testStorage = (Inr n, testStorage) \<and>
    ServeHTTP testJson n (uploadBy (capability n) [CHR 0xE9]) testStorage = (jsonResponse 200 (Meta f), n1, w1) \<and>
    Open (calm testJson) testRoot w1 = (Inr n2, w1) \<and>
    fst (ServeHTTP (calm testJson) n2 (downloadRequest (capability n2) [CHR 0xE9] (fileId f)) w1) = notFound"
proof -
  obtain n where n: "Open testJson testRoot testStorage = (Inr n, testStorage)" "files n = []"
    "quota n = 512 * 1024 * 1024"
    by (rule testOpen)
  obtain f n1 w1 dir where up: "ServeHTTP testJson n (uploadBy (capability n) [CHR 0xE9]) testStorage = (jsonResponse 200 (Meta f), n1, w1)"
    "objects w1 = [(fileId f, dir)]" "map_of dir ''metadata.json'' = Some (marshal testJson f)"
    "isUuid (fileId f)" "fileToken f = [CHR 0xE9]"
    by (rule testUploaded [OF n(2,3), of "[CHR 0xE9]"]) simp_all
  have "life testJson n1 w1 ({} \<union> leftBy (jsonResponse 200 (Meta f)) testStorage w1)"
    using life.opened [OF n(1)] uploadBy_cap up(1) by (rule life.served)
  then have "durable testJson n1 w1 ({} \<union> leftBy (jsonResponse 200 (Meta f)) testStorage w1)"
    by (rule life_durable [OF _ testJson_ok(1,2,5)])
  then have "secrets n1 w1" "readable testJson w1"
    by (simp_all add: durable_def)
  from reopened [OF this, of testRoot] obtain n2 where n2: "Open (calm testJson) testRoot w1 = (Inr n2, w1)"
    "map_of (files n2) = onDisk testJson w1"
    by (auto simp: testRoot_def)
  have "map_of (files n2) (fileId f) = Some (validMeta f)"
    using up(2-4) testJson_ok(5) by (simp add: n2(2) onDisk_def load.simps jsonOk_def)
  moreover have "validString [CHR 0xE9] \<noteq> [CHR 0xE9]"
    by code_simp
  then have "fileToken (validMeta f) \<noteq> [CHR 0xE9]"
    using up(5) by (simp add: validMeta_def)
  ultimately have "fst (ServeHTTP (calm testJson) n2 (downloadRequest (capability n2) [CHR 0xE9] (fileId f)) w1) = notFound"
    by (rule serve_other_token [OF up(4)])
  then show ?thesis
    using n(1) up(1) n2(1) by blast
qed

text \<open>
  The app can stop and start the node: with a valid configuration and a free loopback address
  \<open>CFSStart\<close> after \<open>CFSStop\<close> serves the same id, capability and files, and a second \<open>CFSStart\<close>
  describes the node that runs and starts none.
\<close>

theorem android_restart:
  assumes "cpuOk (pArch p) (pCpu p)" and "drawOk p" and "jsonOk p" and "life p n w left"
    and "parse raw = Some cfg" and "cfgRoot cfg \<noteq> []" and "cfgQuota cfg = 0 \<or> 1024 \<le> cfgQuota cfg"
    and "address = (if cfgListen cfg = [] then ''127.0.0.1:0'' else cfgListen cfg)"
    and "loopbackAddress net address" and "listenOn net address = Inr bound"
  shows "\<exists>n'. CFSStart parse net (calm p) raw (CFSStop (Some n, w)) =
      (Described \<lparr>descRunning = True, descUrl = ''http://'' @ bound, descNodeId = nodeId n,
        descCapability = capability n, descVersion = ''mobile-1''\<rparr>, Some n', w) \<and>
    aeadKey n' = aeadKey n \<and> sameAfter left n n' \<and>
    CFSStart parse net (calm p) raw2 (Some n', w) = (CFSState (Some n', w), Some n', w)"
proof -
  have dur: "durable p n w left"
    using assms(4,1-3) by (rule life_durable)
  then obtain fs where "Open (calm p) cfg w = (Inr \<lparr>nodeId = nodeId n, capability = capability n, nodeUrl = [],
      quota = (if cfgQuota cfg = 0 then 512 * 1024 * 1024 else cfgQuota cfg), aeadKey = aeadKey n, files = fs,
      listening = False\<rparr>, w)" "map_of fs = onDisk p w"
    using Open_durable_again [OF _ _ assms(6,7), of n w p] unfolding durable_def by metis
  then show ?thesis
    using assms(5,8-10) sameAfter_durable [OF dur]
    by (simp add: CFSStart_def CFSStop_def CFSState_def Start_def Let_def bindIo_def Descriptor_def bind_result_def)
qed

lemma android_restart_witness:
  "\<exists>n n1 w1 f n2. Open testJson testRoot testStorage = (Inr n, testStorage) \<and>
    ServeHTTP testJson n (uploadBy (capability n) ''alice'') testStorage = (jsonResponse 200 (Meta f), n1, w1) \<and>
    CFSStart (\<lambda>raw. Some testRoot) \<lparr>loopbackAddress = (\<lambda>a. True), listenOn = Inr, shutdownServer = Inr ()\<rparr>
      (calm testJson) [] (CFSStop (Some n1, w1)) =
      (Described \<lparr>descRunning = True, descUrl = ''http://127.0.0.1:0'', descNodeId = testUuid,
        descCapability = capability n1, descVersion = ''mobile-1''\<rparr>, Some n2, w1)"
proof -
  obtain n n1 w1 f where t: "Open testJson testRoot testStorage = (Inr n, testStorage)"
    "ServeHTTP testJson n (uploadBy (capability n) ''alice'') testStorage = (jsonResponse 200 (Meta f), n1, w1)"
    "life testJson n1 w1 {}" "nodeId n1 = testUuid"
    by (rule testLife)
  let ?net = "\<lparr>loopbackAddress = (\<lambda>a. True), listenOn = Inr, shutdownServer = Inr ()\<rparr>"
  from android_restart [OF testJson_ok(1,2,5) t(3), of "\<lambda>raw. Some testRoot" "[]" testRoot "''127.0.0.1:0''" ?net
      "''127.0.0.1:0''" "[]"] show ?thesis
    using t by (auto simp: testRoot_def)
qed

end
