(* ===== verification/ShardCli.thy ===== *)
theory ShardCli
  imports Pipeline NodeWorld
begin

text \<open>
  The programs \<open>lib/cmd/encoder/encoder.go\<close> and \<open>lib/cmd/decoder/decoder.go\<close>, by which the services
  cut a file into shard files and put it together again.  The file system is a list of named files;
  \<open>deny\<close> says which names cannot be opened.  \<open>splitPath\<close> and \<open>joinPath\<close> are \<open>filepath.Split\<close> and
  \<open>filepath.Join\<close>.  What the programs print is not modelled, and of white space only ASCII.
\<close>

subsection \<open>Files and exits\<close>

text \<open>\<open>Code 0\<close> is the normal end of \<open>main\<close>, \<open>Crash\<close> a panic, \<open>Hang\<close> a loop that never ends.\<close>

datatype exit = Code nat | Crash | Hang

definition exitWith :: "nat \<Rightarrow> error \<Rightarrow> exit" where
  "exitWith code e = (if e = Panic then Crash else if e = Diverge then Hang else Code code)"

text \<open>
  \<open>ioutil.ReadFile\<close>: the buffer has room for one byte more than the file, and for 512 at least.
\<close>

definition readRoom :: "nat \<Rightarrow> nat" where
  "readRoom n = max 512 (n + 1)"

definition fileSlice :: "byte list \<Rightarrow> slice" where
  "fileSlice b = Slice (b @ replicate (readRoom (length b) - length b) 0) (length b)"

definition osReadFile :: "(string \<Rightarrow> bool) \<Rightarrow> string \<Rightarrow> directory \<Rightarrow> slice result" where
  "osReadFile deny name fs =
     (if deny name then Inl (IoFailure 13)
      else case map_of fs name of None \<Rightarrow> Inl IoNotExist | Some b \<Rightarrow> Inr (fileSlice b))"

definition osWriteFile :: "(string \<Rightarrow> bool) \<Rightarrow> string \<Rightarrow> byte list \<Rightarrow> directory \<Rightarrow> unit result \<times> directory" where
  "osWriteFile deny name b fs =
     (if deny name then (Inl (IoFailure 13), fs) else (Inr (), AList.update name b fs))"

subsection \<open>The encoder\<close>

text \<open>\<open>"%s.%d"\<close>.\<close>

definition shardName :: "string \<Rightarrow> nat \<Rightarrow> string" where
  "shardName file i = file @ ''.'' @ natString i"

definition sizeName :: "string \<Rightarrow> string" where
  "sizeName file = file @ ''.size''"

fun writeShardFiles :: "(string \<Rightarrow> bool) \<Rightarrow> (string \<Rightarrow> string) \<Rightarrow> string \<Rightarrow> nat \<Rightarrow> slice list \<Rightarrow> directory \<Rightarrow>
    unit result \<times> directory" where
  "writeShardFiles deny place file i [] fs = (Inr (), fs)"
| "writeShardFiles deny place file i (shard # shards) fs =
     (case osWriteFile deny (place (shardName file i)) (bytesOf shard) fs of
        (Inl e, fs) \<Rightarrow> (Inl e, fs)
      | (Inr _, fs) \<Rightarrow> writeShardFiles deny place file (i + 1) shards fs)"

definition encoderMain :: "arch \<Rightarrow> cpu \<Rightarrow> (string \<Rightarrow> bool) \<Rightarrow> (string \<Rightarrow> string \<times> string) \<Rightarrow>
    (string \<Rightarrow> string \<Rightarrow> string) \<Rightarrow> int \<Rightarrow> int \<Rightarrow> string \<Rightarrow> string list \<Rightarrow> directory \<Rightarrow> exit \<times> directory" where
  "encoderMain a cpu deny splitPath joinPath dataShards parShards outDir args fs =
     (case args of
        [fname] \<Rightarrow>
          if 256 < wrap64 (dataShards + parShards) then (Code 1, fs)
          else
            (case bind_result (New a cpu dataShards parShards []) (\<lambda>enc.
                  bind_result (osReadFile deny fname fs) (\<lambda>b.
                  bind_result (Split enc b) (\<lambda>shards.
                  bind_result (Encode a enc shards) (\<lambda>(shards, enc). Inr (sliceLen b, shards))))) of
               Inl e \<Rightarrow> (exitWith 2 e, fs)
             | Inr (len, shards) \<Rightarrow>
                 (case splitPath fname of (dir, file) \<Rightarrow>
                  let dir = (if outDir \<noteq> [] then outDir else dir) in
                  case writeShardFiles deny (joinPath dir) file 0 shards fs of
                    (Inl e, fs) \<Rightarrow> (exitWith 2 e, fs)
                  | (Inr _, fs) \<Rightarrow>
                      (case osWriteFile deny (joinPath dir (sizeName file)) (toBytes (natString len)) fs of
                         (Inl e, fs) \<Rightarrow> (exitWith 2 e, fs)
                       | (Inr _, fs) \<Rightarrow> (Code 0, fs))))
      | _ \<Rightarrow> (Code 1, fs))"

subsection \<open>The decoder\<close>

text \<open>The recovery of the shards: the shards with which \<open>Join\<close> is called, or the exit.\<close>

definition recoverShards :: "arch \<Rightarrow> reedSolomon \<Rightarrow> slice list \<Rightarrow> exit + slice list \<times> reedSolomon" where
  "recoverShards a enc shards =
     (case Verify a enc shards of
        Inr (True, enc) \<Rightarrow> Inr (shards, enc)
      | checked \<Rightarrow>
          if checked = Inl Panic then Inl Crash
          else if checked = Inl Diverge then Inl Hang
          else
            let enc = (case checked of Inr (ok, enc) \<Rightarrow> enc | Inl e \<Rightarrow> enc) in
            (case Reconstruct a enc shards of
               Inl e \<Rightarrow> Inl (exitWith 1 e)
             | Inr (shards, enc) \<Rightarrow>
                 (case Verify a enc shards of
                    Inr (True, enc) \<Rightarrow> Inr (shards, enc)
                  | Inr (False, enc) \<Rightarrow> Inl (Code 1)
                  | Inl e \<Rightarrow> Inl (exitWith 1 e))))"

text \<open>\<open>strings.TrimSpace\<close> and \<open>strconv.Atoi\<close>.\<close>

definition isSpace :: "char \<Rightarrow> bool" where
  "isSpace c \<longleftrightarrow> c \<in> set [CHR 0x09, CHR 0x0A, CHR 0x0B, CHR 0x0C, CHR 0x0D, CHR '' '']"

definition trimSpace :: "string \<Rightarrow> string" where
  "trimSpace s = rev (dropWhile isSpace (rev (dropWhile isSpace s)))"

definition digitOf :: "char \<Rightarrow> nat" where
  "digitOf c = of_char c - 48"

definition isDigit :: "char \<Rightarrow> bool" where
  "isDigit c \<longleftrightarrow> c \<in> set ''0123456789''"

definition digitsVal :: "string \<Rightarrow> nat" where
  "digitsVal s = foldl (\<lambda>v c. v * 10 + digitOf c) 0 s"

definition atoi :: "string \<Rightarrow> int option" where
  "atoi s =
     (let (sgn, ds) = (case s of [] \<Rightarrow> (1, []) | c # cs \<Rightarrow>
            if c = CHR ''-'' then (- 1, cs) else if c = CHR ''+'' then (1, cs) else (1, s));
          v = sgn * int (digitsVal ds) in
      if ds = [] \<or> \<not> list_all isDigit ds \<or> v < - (2 ^ 63) \<or> 2 ^ 63 \<le> v then None else Some v)"

definition outputSize :: "(string \<Rightarrow> bool) \<Rightarrow> string \<Rightarrow> directory \<Rightarrow> int \<Rightarrow> int" where
  "outputSize deny fname fs full =
     (case osReadFile deny (sizeName fname) fs of
        Inl e \<Rightarrow> full
      | Inr b \<Rightarrow>
          (case atoi (trimSpace (toString (bytesOf b))) of
             None \<Rightarrow> full
           | Some n \<Rightarrow> if 0 < n \<and> n \<le> full then n else full))"

definition readShardFile :: "(string \<Rightarrow> bool) \<Rightarrow> string \<Rightarrow> directory \<Rightarrow> nat \<Rightarrow> slice" where
  "readShardFile deny fname fs i =
     (case osReadFile deny (shardName fname i) fs of Inl e \<Rightarrow> NilSlice | Inr b \<Rightarrow> b)"

definition decoderMain :: "arch \<Rightarrow> cpu \<Rightarrow> (string \<Rightarrow> bool) \<Rightarrow> int \<Rightarrow> int \<Rightarrow> string \<Rightarrow> string list \<Rightarrow> directory \<Rightarrow>
    exit \<times> directory" where
  "decoderMain a cpu deny dataShards parShards outFile args fs =
     (case args of
        [fname] \<Rightarrow>
          (case New a cpu dataShards parShards [] of
             Inl e \<Rightarrow> (exitWith 2 e, fs)
           | Inr enc \<Rightarrow>
               (case recoverShards a enc (map (readShardFile deny fname fs) [0..<nat (dataShards + parShards)]) of
                  Inl ex \<Rightarrow> (ex, fs)
                | Inr (shards, enc) \<Rightarrow>
                    let outfn = (if outFile = [] then fname else outFile);
                        sz = outputSize deny fname fs (int (sliceLen (shards ! 0)) * dataShards) in
                    (case osWriteFile deny outfn [] fs of
                       (Inl e, fs) \<Rightarrow> (exitWith 2 e, fs)
                     | (Inr _, fs) \<Rightarrow>
                         (case Join bufferWrite enc [] shards sz of (out, res) \<Rightarrow>
                           (case res of Inl e \<Rightarrow> exitWith 2 e | Inr _ \<Rightarrow> Code 0, AList.update outfn out fs)))))
      | _ \<Rightarrow> (Code 1, fs))"

subsection \<open>Numbers in files\<close>

lemma hexDigit_digit: "n < 10 \<Longrightarrow> isDigit (hexDigit n) \<and> digitOf (hexDigit n) = n"
proof -
  have "list_all (\<lambda>n. isDigit (hexDigit n) \<and> digitOf (hexDigit n) = n) [0..<10]"
    by code_simp
  then show "n < 10 \<Longrightarrow> isDigit (hexDigit n) \<and> digitOf (hexDigit n) = n"
    by (simp add: list_all_iff)
qed

lemma natString_digits: "natString n \<noteq> [] \<and> list_all isDigit (natString n) \<and> digitsVal (natString n) = n"
proof (induction n rule: natString.induct)
  case (1 n)
  show ?case
  proof (cases "n < 10")
    case True
    then show ?thesis
      using hexDigit_digit [of n] by (simp add: natString.simps [of n] digitsVal_def)
  next
    case False
    then have "natString n = natString (n div 10) @ [hexDigit (n mod 10)]"
      by (subst natString.simps) simp
    then show ?thesis
      using 1 False hexDigit_digit [of "n mod 10"] by (simp add: digitsVal_def)
  qed
qed

lemma natString_eq_iff [simp]: "natString i = natString j \<longleftrightarrow> i = j"
  by (metis natString_digits)

lemma digit_not_space: "isDigit c \<Longrightarrow> \<not> isSpace c \<and> c \<noteq> CHR ''-'' \<and> c \<noteq> CHR ''+''"
  by (auto simp: isDigit_def isSpace_def)

lemma trimSpace_digits:
  assumes "list_all isDigit s"
  shows "trimSpace s = s"
proof -
  have same: "dropWhile isSpace t = t" if "list_all isDigit t" for t
    using that digit_not_space by (cases t) auto
  have "list_all isDigit (rev s)"
    using assms by (simp add: list_all_iff)
  then show ?thesis
    using assms by (simp add: trimSpace_def same)
qed

lemma atoi_natString:
  assumes "n < 2 ^ 63"
  shows "atoi (natString n) = Some (int n)"
proof -
  obtain c cs where cs: "natString n = c # cs"
    using natString_digits [of n] by (cases "natString n") auto
  then have "c \<noteq> CHR ''-''" "c \<noteq> CHR ''+''"
    using natString_digits [of n] digit_not_space by auto
  moreover have "list_all isDigit (c # cs)" "digitsVal (c # cs) = n"
    using natString_digits [of n] cs by auto
  moreover have "int n < int (2 ^ 63)"
    using assms by (simp only: of_nat_less_iff)
  ultimately show ?thesis
    by (simp add: atoi_def cs)
qed

subsection \<open>Files\<close>

lemma fileSlice_simps [simp]:
  "bytesOf (fileSlice b) = b" "sliceLen (fileSlice b) = length b" "sliceCap (fileSlice b) = readRoom (length b)"
  "sliceWf (fileSlice b)" "fileSlice b \<noteq> NilSlice"
  by (simp_all add: fileSlice_def bytesOf_def sliceCap_def readRoom_def)

lemma shardName_eq [simp]: "shardName file i = shardName file j \<longleftrightarrow> i = j"
  by (simp add: shardName_def)

lemma shardName_size [simp]: "shardName file i \<noteq> sizeName file" "sizeName file \<noteq> shardName file i"
proof -
  have "isDigit (hd (natString i))"
    using natString_digits [of i] by (cases "natString i") auto
  then have "natString i \<noteq> ''size''"
    by (auto simp: isDigit_def)
  then show "shardName file i \<noteq> sizeName file" "sizeName file \<noteq> shardName file i"
    by (auto simp: shardName_def sizeName_def)
qed

lemma writeShardFiles_ok:
  assumes "\<And>s. place (file @ s) = base @ s"
  shows "\<exists>fs'. writeShardFiles (\<lambda>_. False) place file i shards fs = (Inr (), fs') \<and>
    (\<forall>j<length shards. map_of fs' (shardName base (i + j)) = Some (bytesOf (shards ! j))) \<and>
    (\<forall>name. (\<forall>j\<ge>i. name \<noteq> shardName base j) \<longrightarrow> map_of fs' name = map_of fs name)"
proof (induction shards arbitrary: i fs)
  case (Cons shard shards)
  have place: "place (shardName file i) = shardName base i"
    using assms by (simp add: shardName_def)
  let ?fs = "AList.update (shardName base i) (bytesOf shard) fs"
  obtain fs' where run: "writeShardFiles (\<lambda>_. False) place file (i + 1) shards ?fs = (Inr (), fs')"
    and shard: "\<forall>j<length shards. map_of fs' (shardName base (i + 1 + j)) = Some (bytesOf (shards ! j))"
    and rest: "\<forall>name. (\<forall>j\<ge>i + 1. name \<noteq> shardName base j) \<longrightarrow> map_of fs' name = map_of ?fs name"
    using Cons.IH by blast
  have "map_of fs' (shardName base i) = Some (bytesOf shard)"
    using rest by (simp add: update_conv')
  then have "\<forall>j<length (shard # shards). map_of fs' (shardName base (i + j)) = Some (bytesOf ((shard # shards) ! j))"
    using shard by (auto simp: less_Suc_eq_0_disj)
  moreover have "\<forall>name. (\<forall>j\<ge>i. name \<noteq> shardName base j) \<longrightarrow> map_of fs' name = map_of fs name"
    using rest by (auto simp: update_conv')
  ultimately show ?case
    using run by (simp add: osWriteFile_def place)
qed simp

subsection \<open>Encoding files\<close>

text \<open>The memory of the file's content has no room that \<open>Split\<close> would take for the parity, or enough.\<close>

definition fileFits :: "nat \<Rightarrow> nat \<Rightarrow> nat \<Rightarrow> bool" where
  "fileFits d p n \<longleftrightarrow> readRoom n < (d + p) * ((n + d - 1) div d) \<or> n + d \<le> readRoom n"

lemma New_default:
  assumes "cpuOk a cpu" and "0 < d" and "d + p \<le> 256"
  obtains r where "New a cpu (int d) (int p) [] = Inr r" and "encInv a r"
    and "DataShards r = d" and "ParityShards r = p" and "Shards r = d + p"
    and "0 < ParityShards r \<longrightarrow> mds_matrix (DataShards r) (Shards r) (rsMatrix r)"
proof -
  have "mdsChosen (applyOptions [] (buildOptions a cpu)) (int p)"
    by (cases a) (simp_all add: mdsChosen_def applyOptions_def buildOptions_def defaultOptions_def)
  then obtain r where "New a cpu (int d) (int p) [] = Inr r" "encInv a r"
    "DataShards r = d" "ParityShards r = p" "0 < p \<Longrightarrow> mds_matrix d (d + p) (rsMatrix r)"
    using New_Inr [OF assms(1) _ assms(2,3), of "[]"] by auto
  moreover from this have "Shards r = d + p"
    by (simp add: encInv_def)
  ultimately show ?thesis
    by (intro that) auto
qed

text \<open>What the encoder leaves: the shard files of an encoded set and the size file.\<close>

lemma encoderMain_ok:
  assumes cpu: "cpuOk a cpu" and d: "0 < d" "d + p \<le> 256"
    and content: "map_of fs fname = Some bs" "bs \<noteq> []" and fits: "fileFits d p (length bs)"
    and r: "New a cpu (int d) (int p) [] = Inr r"
    and names: "splitPath fname = (dir, file)" "\<forall>s. joinPath (if outDir \<noteq> [] then outDir else dir) (file @ s) = base @ s"
  shows "\<exists>fs' coded. encoderMain a cpu (\<lambda>_. False) splitPath joinPath (int d) (int p) outDir [fname] fs = (Code 0, fs') \<and>
    shardsOk r ((length bs + d - 1) div d) coded \<and> consistent r ((length bs + d - 1) div d) coded \<and>
    take (length bs) (concat (map bytesOf (take d coded))) = bs \<and>
    (\<forall>j<d + p. map_of fs' (shardName base j) = Some (bytesOf (coded ! j))) \<and>
    map_of fs' (sizeName base) = Some (toBytes (natString (length bs)))"
proof -
  let ?data = "fileSlice bs" and ?per = "(length bs + d - 1) div d"
  obtain r' where "New a cpu (int d) (int p) [] = Inr r'" and inv': "encInv a r'" and dp': "DataShards r' = d"
      "ParityShards r' = p" "Shards r' = d + p" "0 < ParityShards r' \<longrightarrow> mds_matrix (DataShards r') (Shards r') (rsMatrix r')"
    by (rule New_default [OF cpu d])
  then have inv: "encInv a r" and dp: "DataShards r = d" "ParityShards r = p" "Shards r = d + p"
    using r by simp_all
  have per: "perShardOf r ?data = ?per"
    by (simp add: perShardOf_def dp)
  have "splitFits r ?data"
    using fits by (simp add: splitFits_def fileFits_def per dp)
  then obtain ss where split: "Split r ?data = Inr ss" "shardsOk r ?per ss"
    "take (length bs) (concat (map bytesOf (take d ss))) = bs"
    using Split_ok [OF inv, of ?data] content(2) dp unfolding per by auto
  obtain coded r1 where enc: "Encode a r ss = Inr (coded, r1)" "encInv a r1"
      "\<exists>pool. r1 = r\<lparr>rsPool := pool\<rparr>" "shardsOk r ?per coded" "take (DataShards r) coded = take (DataShards r) ss"
      "consistent r ?per coded"
    by (rule Encode_Inr [OF inv split(2)])
  let ?place = "joinPath (if outDir \<noteq> [] then outDir else dir)"
  obtain fs1 where run: "writeShardFiles (\<lambda>_. False) ?place file 0 coded fs = (Inr (), fs1)"
    and shards: "\<forall>j<length coded. map_of fs1 (shardName base (0 + j)) = Some (bytesOf (coded ! j))"
    using writeShardFiles_ok [of ?place "file" base, OF spec [OF names(2)]] by blast
  let ?fs = "AList.update (sizeName base) (toBytes (natString (length bs))) fs1"
  have size: "?place (sizeName file) = sizeName base"
    using spec [OF names(2)] by (simp add: sizeName_def)
  have sum: "wrap64 (int d + int p) = int (d + p)"
    by (rule wrap64_sum [OF d(2)])
  have "encoderMain a cpu (\<lambda>_. False) splitPath joinPath (int d) (int p) outDir [fname] fs = (Code 0, ?fs)"
    using r split(1) enc(1) run size d(2) content(1)
    by (simp add: encoderMain_def sum osReadFile_def names(1) osWriteFile_def Let_def)
  moreover have "length coded = d + p"
    using enc(4) dp by (simp add: shardsOk_def)
  ultimately show ?thesis
    using enc(4-6) split(3) shards dp by (intro exI [of _ ?fs] exI [of _ coded]) (auto simp: update_conv')
qed

subsection \<open>Decoding files\<close>

lemma recoverShards_ok:
  assumes inv: "encInv a r" and safe: "poolSafe a r"
    and mds: "0 < ParityShards r \<longrightarrow> mds_matrix (DataShards r) (Shards r) (rsMatrix r)"
    and orig: "shardsOk r sz orig" and cons: "consistent r sz orig"
    and lost: "lost \<subseteq> {..<Shards r}" "card lost \<le> ParityShards r"
  obtains ss r2 where "recoverShards a r (lose lost orig) = Inr (ss, r2)" and "DataShards r2 = DataShards r"
    and "length ss = Shards r" and "\<forall>i<Shards r. recovers sz orig (ss ! i) i"
proof (cases "lost = {}")
  case True
  have len: "length orig = Shards r"
    using orig by (simp add: shardsOk_def)
  then have same: "lose lost orig = orig"
    by (simp add: lose_def True list_eq_iff_nth_eq)
  obtain r' where "Verify a r orig = Inr (True, r')" "\<exists>pool. r' = r\<lparr>rsPool := pool\<rparr>"
    using Verify_Inr [OF inv orig] cons by metis
  moreover have "\<forall>i<Shards r. recovers sz orig (orig ! i) i"
    using orig by (simp add: recovers_def shardsOk_def)
  ultimately show ?thesis
    using len same by (intro that [of orig r']) (auto simp: recoverShards_def)
next
  case False
  have len: "length (lose lost orig) = Shards r" "length orig = Shards r"
    using orig by (simp_all add: lose_def shardsOk_def)
  obtain i where i: "i \<in> lost" "i < Shards r"
    using False lost(1) by auto
  have "card lost < Shards r"
    using lost(2) inv by (simp add: encInv_def)
  then have "\<not> {..<Shards r} \<subseteq> lost"
    using card_mono [of lost "{..<Shards r}"] finite_subset [OF lost(1)] by auto
  then obtain j where j: "j \<notin> lost" "j < Shards r"
    by auto
  have "lose lost orig ! i \<in> set (lose lost orig)" "lose lost orig ! j \<in> set (lose lost orig)"
    using i j len by (simp_all only: nth_mem)
  moreover have "sliceLen (lose lost orig ! i) = 0" "sliceLen (lose lost orig ! j) \<noteq> 0"
    using i j len orig by (auto simp: lose_def shardsOk_def)
  ultimately obtain e where verify: "Verify a r (lose lost orig) = Inl e" "e \<noteq> Panic" "e \<noteq> Diverge"
    by (rule Verify_missing [OF len(1)])
  obtain ss r2 where run: "Reconstruct a r (lose lost orig) = Inr (ss, r2)" and inv2: "encInv a r2"
    and r2: "\<exists>t pool. r2 = r\<lparr>rsTree := t, rsPool := pool\<rparr>" and found: "length ss = Shards r"
      "\<forall>i<Shards r. recovers sz orig (ss ! i) i"
    by (rule recover_lost [OF inv safe mds orig cons lost])
  have "shardsOk r2 sz ss"
    using orig found r2 by (auto simp: shardsOk_def recovers_def in_set_conv_nth)
  moreover have "consistent r sz ss"
    using cons consistent_cong [of r ss orig sz] found(2) inv by (simp add: recovers_def encInv_def)
  then have "consistent r2 sz ss"
    using r2 by (auto simp: consistent_def)
  ultimately obtain r3 where "Verify a r2 ss = Inr (True, r3)" "\<exists>pool. r3 = r2\<lparr>rsPool := pool\<rparr>"
    using Verify_Inr [OF inv2] by metis
  then show ?thesis
    using verify run r2 found by (intro that [of ss r3]) (auto simp: recoverShards_def)
qed

lemma outputSize_ok:
  assumes "map_of fs (sizeName fname) = Some (toBytes (natString n))" and "0 < n" and "int n \<le> full" and "n < 2 ^ 63"
  shows "outputSize (\<lambda>_. False) fname fs full = int n"
  using assms natString_digits [of n]
  by (simp add: outputSize_def osReadFile_def trimSpace_digits atoi_natString)

definition removeFiles :: "string set \<Rightarrow> directory \<Rightarrow> directory" where
  "removeFiles names fs = filter (\<lambda>(name, b). name \<notin> names) fs"

lemma map_of_removeFiles: "map_of (removeFiles names fs) name = (if name \<in> names then None else map_of fs name)"
  unfolding removeFiles_def by (induction fs) auto

lemma decoderMain_ok:
  assumes inv: "encInv a r" and safe: "poolSafe a r" and dp: "DataShards r = d" "ParityShards r = p" "Shards r = d + p"
    and mds: "0 < ParityShards r \<longrightarrow> mds_matrix (DataShards r) (Shards r) (rsMatrix r)"
    and r: "New a cpu (int d) (int p) [] = Inr r"
    and coded: "shardsOk r sz coded" "consistent r sz coded" and bs: "bs \<noteq> []" "length bs \<le> d * sz" "length bs < 2 ^ 63"
      "take (length bs) (concat (map bytesOf (take d coded))) = bs"
    and lost: "lost \<subseteq> {..<d + p}" "card lost \<le> p"
    and shards: "\<forall>j<d + p. map_of fs (shardName base j) = (if j \<in> lost then None else Some (bytesOf (coded ! j)))"
    and size: "map_of fs (sizeName base) = Some (toBytes (natString (length bs)))"
  shows "\<exists>fs'. decoderMain a cpu (\<lambda>_. False) (int d) (int p) outFile [base] fs = (Code 0, fs') \<and>
    map_of fs' (if outFile = [] then base else outFile) = Some bs"
proof -
  let ?orig = "map (\<lambda>s. fileSlice (bytesOf s)) coded"
  have len: "length coded = d + p"
    using coded(1) dp by (simp add: shardsOk_def)
  have orig: "shardsOk r sz ?orig"
    using coded(1) by (auto simp: shardsOk_def)
  have cons: "consistent r sz ?orig"
    using coded(2) consistent_cong [of r ?orig coded sz] len dp by simp
  have "map (readShardFile (\<lambda>_. False) base fs) [0..<nat (int d + int p)] = lose lost ?orig"
    using shards len by (auto simp: lose_def readShardFile_def osReadFile_def nat_int_add)
  moreover have "lost \<subseteq> {..<Shards r}" "card lost \<le> ParityShards r"
    using lost dp by simp_all
  then obtain ss r2 where run: "recoverShards a r (lose lost ?orig) = Inr (ss, r2)" and r2: "DataShards r2 = DataShards r"
    and found: "length ss = Shards r" "\<forall>i<Shards r. recovers sz ?orig (ss ! i) i"
    by (rule recoverShards_ok [OF inv safe mds orig cons])
  moreover have d: "0 < d"
    using inv dp by (simp add: encInv_def)
  then have "sliceLen (ss ! 0) = sz"
    using found(2) dp by (simp add: recovers_def)
  then have "outputSize (\<lambda>_. False) base fs (int (sliceLen (ss ! 0)) * int d) = int (length bs)"
    using bs by (intro outputSize_ok [OF size]) (simp_all add: mult.commute flip: of_nat_mult)
  moreover have "Join bufferWrite r2 [] ss (int (length bs)) =
      ([] @ take (length bs) (concat (map bytesOf (take (DataShards r) ?orig))), Inr ())"
    using bs(2) dp by (intro Join_recovered [OF orig _ r2 found]) simp_all
  moreover have "map bytesOf (take d ?orig) = map bytesOf (take d coded)"
    by (simp add: take_map o_def)
  ultimately show ?thesis
    using r bs(4) dp(1) by (auto simp: decoderMain_def osWriteFile_def Let_def update_conv')
qed

subsection \<open>Properties\<close>

text \<open>
  C6. The two programs as a whole: the encoder cuts a file into shard files and a size file, and after
  the loss of any \<open>p\<close> of the shard files the decoder writes the file again, to the byte.  The shape
  is not the one whose pool \<open>Reconstruct\<close> spoils, and the file is not one for which \<open>Split\<close> takes its
  spare memory for parity shards.
\<close>

theorem shard_files_roundtrip:
  assumes "cpuOk a cpu" and "0 < d" and "d + p \<le> 256" and "10 < d \<or> p \<le> 10"
    and "map_of fs fname = Some bs" and "bs \<noteq> []" and "length bs < 2 ^ 63" and "fileFits d p (length bs)"
    and "splitPath fname = (dir, file)"
    and "\<forall>s. joinPath (if outDir \<noteq> [] then outDir else dir) (file @ s) = base @ s"
  shows "\<exists>fs1. encoderMain a cpu (\<lambda>_. False) splitPath joinPath (int d) (int p) outDir [fname] fs = (Code 0, fs1) \<and>
    (\<forall>lost. lost \<subseteq> {..<d + p} \<and> card lost \<le> p \<longrightarrow>
      (\<exists>fs2. decoderMain a cpu (\<lambda>_. False) (int d) (int p) outFile [base]
          (removeFiles (shardName base ` lost) fs1) = (Code 0, fs2) \<and>
        map_of fs2 (if outFile = [] then base else outFile) = Some bs))"
proof -
  let ?sz = "(length bs + d - 1) div d"
  obtain r where r: "New a cpu (int d) (int p) [] = Inr r" "encInv a r" "DataShards r = d" "ParityShards r = p"
    "Shards r = d + p" "0 < ParityShards r \<longrightarrow> mds_matrix (DataShards r) (Shards r) (rsMatrix r)"
    by (rule New_default [OF assms(1-3)])
  have safe: "poolSafe a r"
    using assms(4) r(3,4) by (auto simp: poolSafe_def)
  obtain fs1 coded where run: "encoderMain a cpu (\<lambda>_. False) splitPath joinPath (int d) (int p) outDir [fname] fs = (Code 0, fs1)"
    and coded: "shardsOk r ?sz coded" "consistent r ?sz coded" "take (length bs) (concat (map bytesOf (take d coded))) = bs"
    and shards: "\<forall>j<d + p. map_of fs1 (shardName base j) = Some (bytesOf (coded ! j))"
    and size: "map_of fs1 (sizeName base) = Some (toBytes (natString (length bs)))"
    using encoderMain_ok [OF assms(1-3,5,6,8) r(1), of splitPath dir "file" joinPath outDir base] assms(9,10) by blast
  have "length bs \<le> d * ?sz"
    using perShardOf_bounds [of r "fileSlice bs"] assms(2,6) r(3) by (simp add: perShardOf_def)
  then have "\<exists>fs2. decoderMain a cpu (\<lambda>_. False) (int d) (int p) outFile [base]
      (removeFiles (shardName base ` lost) fs1) = (Code 0, fs2) \<and>
      map_of fs2 (if outFile = [] then base else outFile) = Some bs"
    if "lost \<subseteq> {..<d + p}" "card lost \<le> p" for lost
    using that shards size
    by (intro decoderMain_ok [OF r(2) safe r(3-6,1) coded(1,2) assms(6) _ assms(7) coded(3)])
      (auto simp: map_of_removeFiles)
  then show ?thesis
    using run by blast
qed

lemma shard_files_roundtrip_witness:
  "\<exists>fs1 fs2. encoderMain Amd64 testCpu (\<lambda>_. False) (\<lambda>name. ([], name)) (@) 2 1 [] [''a''] [(''a'', [1, 2, 3])] = (Code 0, fs1) \<and>
    decoderMain Amd64 testCpu (\<lambda>_. False) 2 1 ''b'' [''a''] (removeFiles {''a.1''} fs1) = (Code 0, fs2) \<and>
    map_of fs2 ''b'' = Some [1, 2, 3]"
proof -
  have name: "shardName ''a'' 1 = ''a.1''"
    by (simp add: shardName_def natString.simps hexDigit_def)
  have "fileFits 2 1 (length [1, 2, 3 :: byte])"
    by (simp add: fileFits_def readRoom_def)
  then obtain fs1 where run: "encoderMain Amd64 testCpu (\<lambda>_. False) (\<lambda>name. ([], name)) (@) (int 2) (int 1) [] [''a''] [(''a'', [1, 2, 3])] = (Code 0, fs1)"
    and all: "\<forall>lost. lost \<subseteq> {..<2 + 1} \<and> card lost \<le> 1 \<longrightarrow>
      (\<exists>fs2. decoderMain Amd64 testCpu (\<lambda>_. False) (int 2) (int 1) ''b'' [''a'']
          (removeFiles (shardName ''a'' ` lost) fs1) = (Code 0, fs2) \<and>
        map_of fs2 (if ''b'' = [] then ''a'' else ''b'') = Some [1, 2, 3])"
    using shard_files_roundtrip [OF cpuOk_testCpu, of 2 1 "[(''a'', [1, 2, 3])]" "''a''" "[1, 2, 3]"
        "\<lambda>name. ([], name)" "[]" "''a''" "(@)" "[]" "''a''" Amd64 "''b''"] by auto
  show ?thesis
    using run spec [OF all, of "{1}"] name by auto
qed

text \<open>
  C38. The encoder panics on a file whose content, in the buffer \<open>ioutil.ReadFile\<close> returns, has spare
  memory for the parity shards but not for \<open>d\<close> more bytes: a file of 450 bytes with 100 data shards
  and one parity shard, or one of 1,024 bytes with 4 data and no parity shards.
\<close>

theorem encoder_panics:
  assumes "cpuOk a cpu" and "0 < d" and "d + p \<le> 256" and "map_of fs fname = Some bs" and "bs \<noteq> []"
    and "\<not> fileFits d p (length bs)"
  shows "encoderMain a cpu (\<lambda>_. False) splitPath joinPath (int d) (int p) outDir [fname] fs = (Crash, fs)"
proof -
  obtain r where r: "New a cpu (int d) (int p) [] = Inr r" "encInv a r" "DataShards r = d" "Shards r = d + p"
    by (rule New_default [OF assms(1-3)])
  have "\<not> splitFits r (fileSlice bs)"
    using assms(6) by (simp add: splitFits_def fileFits_def r(3,4) perShardOf_def)
  then have "Split r (fileSlice bs) = Inl Panic"
    using assms(5) by (intro Split_panics [OF r(2)]) simp_all
  moreover have "wrap64 (int d + int p) = int (d + p)"
    by (rule wrap64_sum [OF assms(3)])
  ultimately show ?thesis
    using r(1) assms(3,4) by (simp add: encoderMain_def osReadFile_def exitWith_def)
qed

lemma encoder_panics_witness:
  "encoderMain Amd64 testCpu (\<lambda>_. False) (\<lambda>name. ([], name)) (@) 4 0 [] [''a''] [(''a'', replicate 1024 1)] =
    (Crash, [(''a'', replicate 1024 1)])"
proof -
  define bs :: "byte list" where "bs = replicate 1024 1"
  have bs: "length bs = 1024"
    by (simp add: bs_def)
  then have "bs \<noteq> []" "\<not> fileFits 4 0 (length bs)"
    by (auto simp: fileFits_def readRoom_def)
  then show ?thesis
    using encoder_panics [OF cpuOk_testCpu, of 4 0 "[(''a'', bs)]" "''a''" bs Amd64 "\<lambda>name. ([], name)" "(@)" "[]"]
    unfolding bs_def by simp
qed

end
