(* ===== verification/Streaming.thy ===== *)
theory Streaming
  imports StreamIO
begin

text \<open>
  The streaming encoder \<open>rsStream\<close> of \<open>reedsolomon/streaming.go\<close>: it reads a block of every stream,
  calls the encoder on the blocks, and writes blocks.  An operation returns the new encoder, the
  readers and the writers, also where it fails.  The order in which concurrent reads or writes
  finish may be another one in every round: \<open>rsched\<close> and \<open>wsched\<close> give it from the readers or
  writers of the round.
\<close>

record rsStream =
  stEnc :: reedSolomon
  stOpts :: options
  stBlocks :: "slice list"

text \<open>
  \<open>NewStream\<close>.  \<open>stBlocks\<close> stands for \<open>blockPool\<close> and is the array of buffers the next \<open>Get\<close> returns.
\<close>

definition streamBlock :: "options \<Rightarrow> options" where
  "streamBlock opts =
     (let opts = (if streamBS opts = 0 \<and> 0 < autoShardSize opts
                  then opts\<lparr>streamBS := autoShardSize opts\<rparr> else opts) in
      if streamBS opts \<le> 0 then opts\<lparr>streamBS := 4 * 2 ^ 20\<rparr> else opts)"

definition NewStream :: "arch \<Rightarrow> cpu \<Rightarrow> int \<Rightarrow> int \<Rightarrow> (options \<Rightarrow> options) list \<Rightarrow> rsStream result" where
  "NewStream a cpu dataShards parityShards fs =
     (let opts = streamBlock (applyOptions fs (buildOptions a cpu));
          fs = (if autoShardSize opts = 0 \<and> maxGoroutines opts = maxGoroutines (buildOptions a cpu)
                then fs @ [WithAutoGoroutines (streamBS opts)] else fs) in
      bind_result (New a cpu dataShards parityShards fs) (\<lambda>r.
        Inr \<lparr>stEnc = r, stOpts = opts,
          stBlocks = replicate (nat (dataShards + parityShards)) (makeSlice (nat (streamBS opts)))\<rparr>))"

definition NewStreamC :: "arch \<Rightarrow> cpu \<Rightarrow> int \<Rightarrow> int \<Rightarrow> bool \<Rightarrow> bool \<Rightarrow> (options \<Rightarrow> options) list \<Rightarrow>
    rsStream result" where
  "NewStreamC a cpu dataShards parityShards conReads conWrites fs =
     NewStream a cpu dataShards parityShards
       (fs @ [WithConcurrentStreamReads conReads, WithConcurrentStreamWrites conWrites])"

definition createSlice :: "rsStream \<Rightarrow> slice list result" where
  "createSlice st = mapResult (\<lambda>s. reslice s 0 (nat (streamBS (stOpts st)))) (stBlocks st)"

text \<open>The fields \<open>readShards\<close> and \<open>writeShards\<close> of the code.\<close>

type_synonym rsched = "reader option list \<Rightarrow> nat list"
type_synonym 'w wsched = "'w option list \<Rightarrow> nat list"
type_synonym 'w sender = "'w \<Rightarrow> byte list \<Rightarrow> 'w \<times> nat \<times> error option"

definition streamRead :: "options \<Rightarrow> rsched \<Rightarrow> slice list \<Rightarrow> reader option list \<Rightarrow>
    slice list \<times> reader option list \<times> unit result" where
  "streamRead opts rsched dst rds =
     (if concReads opts then cReadShards (rsched rds) dst rds else readShards dst rds)"

definition streamWrite :: "options \<Rightarrow> 'w wsched \<Rightarrow> 'w sender \<Rightarrow> 'w option list \<Rightarrow> slice list \<Rightarrow>
    'w option list \<times> unit result" where
  "streamWrite opts wsched send outs ins =
     (if concWrites opts then cWriteShards send (wsched outs) outs ins else writeShards send outs ins)"

subsection \<open>\<open>Encode\<close>\<close>

text \<open>
  One round of the loop: the new state, and how it ended.  \<open>Some\<close> is a return from the function.
  \<open>rd\<close> is the variable \<open>read\<close>.
\<close>

definition encodeRound :: "arch \<Rightarrow> options \<Rightarrow> rsched \<Rightarrow> 'w wsched \<Rightarrow> 'w sender \<Rightarrow>
    reedSolomon \<Rightarrow> slice list \<Rightarrow> reader option list \<Rightarrow> 'w option list \<Rightarrow> nat \<Rightarrow>
    (reedSolomon \<times> slice list \<times> reader option list \<times> 'w option list \<times> nat) \<times> unit result option" where
  "encodeRound a opts rsched wsched send r all data parity rd =
     (let d = DataShards r in
      case streamRead opts rsched (take d all) data of (ins, data, res) \<Rightarrow>
      let all = ins @ drop d all in
      case res of
        Inl e \<Rightarrow>
          ((r, all, data, parity, rd),
           Some (if e = IoEOF then if rd = 0 then Inl ErrShardNoData else Inr () else Inl e))
      | Inr _ \<Rightarrow>
          (case trimShards (drop d all) (shardSize ins) of
             Inl e \<Rightarrow> ((r, all, data, parity, rd), Some (Inl e))
           | Inr outs \<Rightarrow>
               let all = ins @ outs; rd = rd + shardSize ins in
               (case Encode a r all of
                  Inl e \<Rightarrow> ((r, all, data, parity, rd), Some (Inl e))
                | Inr (all, r) \<Rightarrow>
                    (case streamWrite opts wsched send parity (drop d all) of (parity, res) \<Rightarrow>
                      ((r, all, data, parity, rd),
                       case res of Inl e \<Rightarrow> Some (Inl e) | Inr _ \<Rightarrow> None)))))"

text \<open>\<open>for { ... }\<close>: rounds until one returns; \<open>None\<close> where the loop never ends.\<close>

partial_function (option) streamLoop :: "('s \<Rightarrow> 's \<times> 'r option) \<Rightarrow> 's \<Rightarrow> ('s \<times> 'r) option" where
  "streamLoop f s =
     (case f s of (s', res) \<Rightarrow>
      case res of Some x \<Rightarrow> Some (s', x) | None \<Rightarrow> streamLoop f s')"

declare streamLoop.simps [code]

definition streamEncode :: "arch \<Rightarrow> rsched \<Rightarrow> 'w wsched \<Rightarrow> 'w sender \<Rightarrow> rsStream \<Rightarrow>
    reader option list \<Rightarrow> 'w option list \<Rightarrow>
    rsStream \<times> reader option list \<times> 'w option list \<times> unit result" where
  "streamEncode a rsched wsched send st data parity =
     (if length data \<noteq> DataShards (stEnc st) \<or> length parity \<noteq> ParityShards (stEnc st)
      then (st, data, parity, Inl ErrTooFewShards)
      else
        case createSlice st of
          Inl e \<Rightarrow> (st, data, parity, Inl e)
        | Inr all \<Rightarrow>
            (case streamLoop (\<lambda>(r, all, data, parity, rd).
                 encodeRound a (stOpts st) rsched wsched send r all data parity rd)
               (stEnc st, all, data, parity, 0) of
               None \<Rightarrow> (st, data, parity, Inl Diverge)
             | Some ((r, all, data, parity, rd), res) \<Rightarrow>
                 (st\<lparr>stEnc := r, stBlocks := all\<rparr>, data, parity, res)))"

subsection \<open>\<open>Verify\<close>\<close>

definition verifyRound :: "arch \<Rightarrow> options \<Rightarrow> rsched \<Rightarrow> reedSolomon \<Rightarrow> slice list \<Rightarrow> reader option list \<Rightarrow>
    nat \<Rightarrow> (reedSolomon \<times> slice list \<times> reader option list \<times> nat) \<times> bool result option" where
  "verifyRound a opts rsched r all shards rd =
     (case streamRead opts rsched all shards of (all, shards, res) \<Rightarrow>
      case res of
        Inl e \<Rightarrow>
          ((r, all, shards, rd),
           Some (if e = IoEOF then if rd = 0 then Inl ErrShardNoData else Inr True else Inl e))
      | Inr _ \<Rightarrow>
          let rd = rd + shardSize all in
          (case Verify a r all of
             Inl e \<Rightarrow> ((r, all, shards, rd), Some (Inl e))
           | Inr (ok, r) \<Rightarrow> ((r, all, shards, rd), if ok then None else Some (Inr False))))"

definition streamVerify :: "arch \<Rightarrow> rsched \<Rightarrow> rsStream \<Rightarrow> reader option list \<Rightarrow>
    rsStream \<times> reader option list \<times> bool result" where
  "streamVerify a rsched st shards =
     (if length shards \<noteq> Shards (stEnc st) then (st, shards, Inl ErrTooFewShards)
      else
        case createSlice st of
          Inl e \<Rightarrow> (st, shards, Inl e)
        | Inr all \<Rightarrow>
            (case streamLoop (\<lambda>(r, all, shards, rd). verifyRound a (stOpts st) rsched r all shards rd)
               (stEnc st, all, shards, 0) of
               None \<Rightarrow> (st, shards, Inl Diverge)
             | Some ((r, all, shards, rd), res) \<Rightarrow> (st\<lparr>stEnc := r, stBlocks := all\<rparr>, shards, res)))"

subsection \<open>\<open>Reconstruct\<close>\<close>

definition reconstructRound :: "arch \<Rightarrow> options \<Rightarrow> rsched \<Rightarrow> 'w wsched \<Rightarrow> 'w sender \<Rightarrow> bool \<Rightarrow>
    reedSolomon \<Rightarrow> slice list \<Rightarrow> reader option list \<Rightarrow> 'w option list \<Rightarrow> nat \<Rightarrow>
    (reedSolomon \<times> slice list \<times> reader option list \<times> 'w option list \<times> nat) \<times> unit result option" where
  "reconstructRound a opts rsched wsched send reconDataOnly r all valid fill rd =
     (case streamRead opts rsched all valid of (all, valid, res) \<Rightarrow>
      case res of
        Inl e \<Rightarrow>
          ((r, all, valid, fill, rd),
           Some (if e = IoEOF then if rd = 0 then Inl ErrShardNoData else Inr () else Inl e))
      | Inr _ \<Rightarrow>
          let rd = rd + shardSize all in
          (case trimShards all (shardSize all) of
             Inl e \<Rightarrow> ((r, all, valid, fill, rd), Some (Inl e))
           | Inr all \<Rightarrow>
               (case (if reconDataOnly then ReconstructData a r all else Reconstruct a r all) of
                  Inl e \<Rightarrow> ((r, all, valid, fill, rd), Some (Inl e))
                | Inr (all, r) \<Rightarrow>
                    (case streamWrite opts wsched send fill all of (fill, res) \<Rightarrow>
                      ((r, all, valid, fill, rd),
                       case res of Inl e \<Rightarrow> Some (Inl e) | Inr _ \<Rightarrow> None)))))"

definition streamReconstruct :: "arch \<Rightarrow> rsched \<Rightarrow> 'w wsched \<Rightarrow> 'w sender \<Rightarrow> rsStream \<Rightarrow>
    reader option list \<Rightarrow> 'w option list \<Rightarrow>
    rsStream \<times> reader option list \<times> 'w option list \<times> unit result" where
  "streamReconstruct a rsched wsched send st valid fill =
     (if length valid \<noteq> Shards (stEnc st) \<or> length fill \<noteq> Shards (stEnc st)
      then (st, valid, fill, Inl ErrTooFewShards)
      else
        case createSlice st of
          Inl e \<Rightarrow> (st, valid, fill, Inl e)
        | Inr all \<Rightarrow>
            let reconDataOnly = list_all (\<lambda>w. w = None) (drop (DataShards (stEnc st)) fill) in
            if list_ex (\<lambda>i. valid ! i \<noteq> None \<and> fill ! i \<noteq> None) [0..<Shards (stEnc st)]
            then (st\<lparr>stBlocks := all\<rparr>, valid, fill, Inl ErrReconstructMismatch)
            else
              (case streamLoop (\<lambda>(r, all, valid, fill, rd).
                   reconstructRound a (stOpts st) rsched wsched send reconDataOnly r all valid fill rd)
                 (stEnc st, all, valid, fill, 0) of
                 None \<Rightarrow> (st, valid, fill, Inl Diverge)
               | Some ((r, all, valid, fill, rd), res) \<Rightarrow>
                   (st\<lparr>stEnc := r, stBlocks := all\<rparr>, valid, fill, res)))"

end
