(* ===== verification/StreamRounds.thy ===== *)
theory StreamRounds
  imports Streaming
begin

text \<open>
  One round of the streaming encoder on streams of equal length: what it reads into the buffers,
  what it writes, and the invariant of the encoder between calls.
\<close>

subsection \<open>Writing a round\<close>

context sure_writer begin

lemma send_all: "\<exists>w'. send w bs = (w', length bs, None) \<and> content w' = content w @ bs"
  using no_error [of w bs] write_all by blast

lemma writeLoop_ok:
  "length outs = length ins \<Longrightarrow> list_all sliceWf ins \<Longrightarrow>
    \<exists>outs'. writeLoop send i outs ins = (outs', Inr ()) \<and>
      map (map_option content) outs' = map2 (\<lambda>w s. map_option (\<lambda>w. content w @ bytesOf s) w) outs ins"
proof (induction outs arbitrary: ins i)
  case (Cons w outs)
  then obtain s ins' where ins: "ins = s # ins'" "length outs = length ins'" "list_all sliceWf ins'"
    "length (bytesOf s) = sliceLen s"
    by (cases ins) auto
  then obtain outs' where rest: "writeLoop send (i + 1) outs ins' = (outs', Inr ())"
    "map (map_option content) outs' = map2 (\<lambda>w s. map_option (\<lambda>w. content w @ bytesOf s) w) outs ins'"
    using Cons.IH by blast
  show ?case
  proof (cases w)
    case None
    then show ?thesis
      using rest ins by simp
  next
    case (Some v)
    obtain v' where "send v (bytesOf s) = (v', length (bytesOf s), None)" "content v' = content v @ bytesOf s"
      using send_all by blast
    then show ?thesis
      using rest ins Some by simp
  qed
qed simp

lemma cWriteShards_ok:
  assumes "length outs = length ins" and "list_all sliceWf ins" and "set order \<subseteq> {..<length outs}"
  shows "\<exists>outs'. cWriteShards send order outs ins = (outs', Inr ()) \<and>
    map (map_option content) outs' = map2 (\<lambda>w s. map_option (\<lambda>w. content w @ bytesOf s) w) outs ins"
proof -
  let ?all = "map (\<lambda>i. writeOne send i (outs ! i) (ins ! i)) [0..<length ins]"
  have one: "snd (writeOne send i w s) = None \<and>
      map_option content (fst (writeOne send i w s)) = map_option (\<lambda>w. content w @ bytesOf s) w"
    if "sliceWf s" for i w s
  proof (cases w)
    case (Some v)
    then show ?thesis
      using that send_all [of v "bytesOf s"] by (auto simp: writeOne_def)
  qed (simp add: writeOne_def)
  have wf: "sliceWf (ins ! i)" if "i < length ins" for i
    using assms(2) that by (simp add: list_all_length)
  then have "\<forall>i\<in>set order. snd (?all ! i) = None"
    using assms(1,3) one by (auto simp: subset_iff)
  then have "List.find (\<lambda>i. snd (?all ! i) \<noteq> None) order = None"
    by (auto simp: find_None_iff)
  moreover have "map (map_option content) (map fst ?all) =
      map2 (\<lambda>w s. map_option (\<lambda>w. content w @ bytesOf s) w) outs ins"
    using assms(1) one wf by (intro nth_equalityI) auto
  ultimately show ?thesis
    using assms(1) unfolding cWriteShards_def Let_def by simp
qed

end

text \<open>Streams that a round of writes extends by the bytes of the shards.\<close>

definition appendTo :: "byte list option \<Rightarrow> byte list \<Rightarrow> byte list option" where
  "appendTo w bs = map_option (\<lambda>w. w @ bs) w"

lemma appendTo_simps [simp]:
  "appendTo None bs = None" "appendTo (Some xs) bs = Some (xs @ bs)" "appendTo w [] = w"
  "appendTo (appendTo w bs) cs = appendTo w (bs @ cs)" "appendTo w bs = None \<longleftrightarrow> w = None"
  by (cases w; simp add: appendTo_def)+

lemma map_option_self: "map_option (\<lambda>w. w) = (\<lambda>w. w)"
  by (rule ext) (simp add: option.map_ident)

lemma streamWrite_ok:
  assumes "length outs = length ins" and "list_all sliceWf ins"
    and "concWrites opts \<Longrightarrow> set (wsched outs) \<subseteq> {..<length outs}"
  shows "streamWrite opts wsched bufferWrite outs ins =
    (map2 (\<lambda>w s. appendTo w (bytesOf s)) outs ins, Inr ())"
proof (cases "concWrites opts")
  case True
  then show ?thesis
    using buffer.cWriteShards_ok [OF assms(1,2), of "wsched outs"] assms(3)
    by (auto simp: streamWrite_def appendTo_def map_option_self)
next
  case False
  obtain outs' where "writeLoop bufferWrite 0 outs ins = (outs', Inr ())"
    "map (map_option (\<lambda>w. w)) outs' = map2 (\<lambda>w s. map_option (\<lambda>w. w @ bytesOf s) w) outs ins"
    using buffer.writeLoop_ok [OF assms(1,2)] by blast
  then show ?thesis
    using False assms(1) by (auto simp: streamWrite_def writeShards_def appendTo_def map_option_self)
qed

subsection \<open>Reading a round\<close>

text \<open>The streams of a round: what is left of each is \<open>bss ! i\<close>, all of length \<open>n\<close>.\<close>

definition streams :: "byte list option list \<Rightarrow> reader option list" where
  "streams bss = map (map_option ofData) bss"

definition evenStreams :: "nat \<Rightarrow> byte list option list \<Rightarrow> bool" where
  "evenStreams n bss \<longleftrightarrow> (\<forall>bs\<in>set bss. \<forall>xs. bs = Some xs \<longrightarrow> length xs = n) \<and> (\<exists>bs\<in>set bss. bs \<noteq> None)"

text \<open>The buffers of a round: those that are read into have the same length.\<close>

definition buffers :: "nat \<Rightarrow> byte list option list \<Rightarrow> slice list \<Rightarrow> bool" where
  "buffers m bss dst \<longleftrightarrow> length dst = length bss \<and>
     (\<forall>i<length bss. sliceWf (dst ! i) \<and> (bss ! i \<noteq> None \<longrightarrow> sliceLen (dst ! i) = m))"

lemma readNext_ofData: "readNext d (Some (ofData xs)) = Some (ofData (drop (sliceLen d) xs))"
  by (simp add: readNext_def ofData_def)

lemma map2_fst: "map2 (\<lambda>x y. x) xs ys = take (length ys) xs"
proof (induction xs arbitrary: ys)
  case (Cons x xs)
  then show ?case by (cases ys) simp_all
qed simp

lemma copySlice_cap [simp]: "sliceWf d \<Longrightarrow> sliceCap (copySlice d bs) = sliceCap d"
  by (cases d) (auto simp: copySlice_def)

lemma copySlice_len [simp]: "sliceLen (copySlice d bs) = sliceLen d"
  by (simp add: copySlice_def)

lemma readSlice_ofData:
  assumes "sliceWf d"
  shows "sliceCap (readSlice d (map_option ofData b)) = sliceCap d"
    and "sliceWf (readSlice d (map_option ofData b))"
    and "b = None \<Longrightarrow> sliceLen (readSlice d (map_option ofData b)) = 0"
    and "b = Some xs \<Longrightarrow> sliceLen (readSlice d (map_option ofData b)) = min (sliceLen d) (length xs)"
    and "b = Some xs \<Longrightarrow> bytesOf (readSlice d (map_option ofData b)) = take (sliceLen d) xs"
proof -
  have None_case: "readSlice d (map_option ofData None) = cutTo 0 d"
    by simp
  have Some_case: "readSlice d (Some (ofData xs)) =
      (if sliceLen d \<le> length xs then copySlice d (take (sliceLen d) xs)
       else cutTo (length xs) (copySlice d xs))" for xs
    by (simp add: readSlice_def ofData_def)
  show "sliceCap (readSlice d (map_option ofData b)) = sliceCap d"
    using assms by (cases b) (simp_all add: Some_case)
  then show "sliceWf (readSlice d (map_option ofData b))"
    using assms by (cases b) (auto simp: Some_case sliceWf_def)
  show "sliceLen (readSlice d (map_option ofData b)) = 0" if "b = None"
    unfolding that None_case by simp
  show "sliceLen (readSlice d (map_option ofData b)) = min (sliceLen d) (length xs)" if "b = Some xs"
    unfolding that option.map Some_case by (cases d) (auto simp: copySlice_Slice)
  show "bytesOf (readSlice d (map_option ofData b)) = take (sliceLen d) xs" if "b = Some xs"
    using assms unfolding that option.map Some_case
    by (cases d) (auto simp: copySlice_def cutTo_def over_def sliceWf_def sliceCap_def bytesOf_def map2_fst)
qed

lemma list_ex_zip_even:
  assumes "buffers m bss dst" and "evenStreams n bss"
  shows "list_ex (\<lambda>(d, rd). isShort d rd) (zip dst (streams bss)) \<longleftrightarrow> n < m"
proof -
  have len: "length dst = length bss" and dst: "\<And>i. i < length bss \<Longrightarrow> bss ! i \<noteq> None \<Longrightarrow> sliceLen (dst ! i) = m"
    using assms(1) by (auto simp: buffers_def)
  have short: "isShort (dst ! i) (streams bss ! i) \<longleftrightarrow> bss ! i \<noteq> None \<and> n < m" if "i < length bss" for i
    using that assms(2) dst [OF that]
    by (cases "bss ! i") (force simp: streams_def isShort_def ofData_def evenStreams_def dest: nth_mem)+
  have "\<exists>i<length bss. bss ! i \<noteq> None"
    using assms(2) unfolding evenStreams_def by (metis in_set_conv_nth)
  moreover have "list_ex (\<lambda>(d, rd). isShort d rd) (zip dst (streams bss)) \<longleftrightarrow>
      (\<exists>i<length bss. isShort (dst ! i) (streams bss ! i))"
    using len by (simp add: list_ex_length streams_def cong: conj_cong)
  ultimately show ?thesis
    using short by blast
qed

lemma streamRead_even:
  assumes dst: "buffers m bss dst" and bss: "evenStreams n bss" and m: "0 < m"
    and order: "concReads opts \<Longrightarrow> set (rsched (streams bss)) = {..<length bss}"
  shows "streamRead opts rsched dst (streams bss) =
    (map2 readSlice dst (streams bss), streams (map (map_option (drop m)) bss),
      if n = 0 then Inl IoEOF else Inr ())"
proof -
  have len: "length dst = length bss" and dst': "\<And>i. i < length bss \<Longrightarrow> bss ! i \<noteq> None \<Longrightarrow> sliceLen (dst ! i) = m"
    using dst by (auto simp: buffers_def)
  have n: "length xs = n" if "i < length bss" "bss ! i = Some xs" for i xs
    using that bss by (force simp: evenStreams_def dest: nth_mem)
  have ends: "list_all2 (endsAt n) dst (streams bss)"
    unfolding list_all2_conv_all_nth
    using len n dst' by (auto simp: streams_def ofData_def endsAt_def shortRead_def split: option.splits)
  have "map2 readNext dst (streams bss) = streams (map (map_option (drop m)) bss)"
  proof (rule nth_equalityI)
    fix i assume "i < length (map2 readNext dst (streams bss))"
    then have i: "i < length bss"
      by (simp add: streams_def)
    then show "map2 readNext dst (streams bss) ! i = streams (map (map_option (drop m)) bss) ! i"
      using len dst' [OF i] by (cases "bss ! i") (simp_all add: streams_def readNext_ofData)
  qed (simp add: len streams_def)
  moreover have "endOfRead (Inr (if n < m then int n else - 1)) = (if n = 0 then Inl IoEOF else Inr ())"
    using m by (simp add: endOfRead_eq)
  ultimately show ?thesis
    using readShards_ok [OF ends] cReadShards_ok [OF ends, of "rsched (streams bss)"] order len
    by (simp add: streamRead_def list_ex_zip_even [OF dst bss])
qed

text \<open>The buffers after a round.\<close>

lemma read_buffers:
  assumes dst: "buffers m bss dst" and bss: "evenStreams n bss" and i: "i < length bss"
  shows "sliceCap (map2 readSlice dst (streams bss) ! i) = sliceCap (dst ! i)"
    and "sliceWf (map2 readSlice dst (streams bss) ! i)"
    and "bss ! i = None \<Longrightarrow> sliceLen (map2 readSlice dst (streams bss) ! i) = 0"
    and "bss ! i = Some xs \<Longrightarrow> sliceLen (map2 readSlice dst (streams bss) ! i) = min m n"
    and "bss ! i = Some xs \<Longrightarrow> bytesOf (map2 readSlice dst (streams bss) ! i) = take m xs"
proof -
  have d: "length dst = length bss" "sliceWf (dst ! i)" "bss ! i \<noteq> None \<Longrightarrow> sliceLen (dst ! i) = m"
    using dst i by (auto simp: buffers_def)
  have n: "length xs = n" if "bss ! i = Some xs"
    using that bss i by (force simp: evenStreams_def dest: nth_mem)
  have eq: "map2 readSlice dst (streams bss) ! i = readSlice (dst ! i) (map_option ofData (bss ! i))"
    using d(1) i by (simp add: streams_def)
  show "sliceCap (map2 readSlice dst (streams bss) ! i) = sliceCap (dst ! i)"
    and "sliceWf (map2 readSlice dst (streams bss) ! i)"
    and "bss ! i = None \<Longrightarrow> sliceLen (map2 readSlice dst (streams bss) ! i) = 0"
    and "bss ! i = Some xs \<Longrightarrow> sliceLen (map2 readSlice dst (streams bss) ! i) = min m n"
    and "bss ! i = Some xs \<Longrightarrow> bytesOf (map2 readSlice dst (streams bss) ! i) = take m xs"
    using readSlice_ofData [OF d(2), of "bss ! i"] d(3) n unfolding eq by auto
qed

lemma evenStreams_drop: "evenStreams n bss \<Longrightarrow> evenStreams (n - m) (map (map_option (drop m)) bss)"
  by (auto simp: evenStreams_def)

subsection \<open>\<open>trimShards\<close>\<close>

lemma trimShards_ok:
  assumes "\<And>s. s \<in> set ss \<Longrightarrow> sliceWf s \<and> (sliceLen s = 0 \<or> sz \<le> sliceLen s)" and "0 < sz"
  shows "trimShards ss sz = Inr (map (\<lambda>s. cutTo (if sliceLen s = 0 then 0 else sz) s) ss)"
proof -
  have "trimShard sz s = Inr (cutTo (if sliceLen s = 0 then 0 else sz) s)" if "s \<in> set ss" for s
    using assms(1) [OF that] assms(2)
    by (cases s) (auto simp: trimShard_def reslice_def cutTo_def sliceWf_def sliceCap_def)
  then show ?thesis
    unfolding trimShards_def by (induction ss) auto
qed

lemma bytesOf_cutTo: "sliceWf s \<Longrightarrow> k \<le> sliceLen s \<Longrightarrow> bytesOf (cutTo k s) = take k (bytesOf s)"
  by (cases s) (auto simp: cutTo_def bytesOf_def)

end
