(* ===== verification/StreamSpec.thy ===== *)
theory StreamSpec
  imports StreamRounds Pipeline
begin

text \<open>
  What the streaming encoder computes on streams of equal length, whatever the block size, the
  order in which concurrent reads and writes finish, and the build: \<open>Encode\<close> writes the parity of
  the whole streams, \<open>Verify\<close> decides whether the streams are consistent and \<open>Reconstruct\<close> writes
  the lost streams.
\<close>

subsection \<open>The encoder between calls\<close>

definition blockLen :: "rsStream \<Rightarrow> nat" where
  "blockLen st = nat (streamBS (stOpts st))"

definition streamInv :: "arch \<Rightarrow> rsStream \<Rightarrow> bool" where
  "streamInv a st \<longleftrightarrow> encInv a (stEnc st) \<and> 0 < streamBS (stOpts st) \<and>
     length (stBlocks st) = Shards (stEnc st) \<and>
     (\<forall>s\<in>set (stBlocks st). s \<noteq> NilSlice \<and> blockLen st \<le> sliceCap s)"

text \<open>Orders in which the results of all goroutines arrive.\<close>

definition fairSched :: "('x list \<Rightarrow> nat list) \<Rightarrow> bool" where
  "fairSched sched \<longleftrightarrow> (\<forall>xs. set (sched xs) = {..<length xs})"

lemma createSlice_ok:
  assumes "streamInv a st"
  obtains all where "createSlice st = Inr all" and "length all = Shards (stEnc st)"
    and "\<And>s. s \<in> set all \<Longrightarrow> s \<noteq> NilSlice \<and> sliceWf s \<and> sliceLen s = blockLen st"
    and "0 < blockLen st"
proof -
  have *: "reslice s 0 (blockLen st) = Inr (cutTo (blockLen st) s) \<and> cutTo (blockLen st) s \<noteq> NilSlice \<and>
      sliceWf (cutTo (blockLen st) s) \<and> sliceLen (cutTo (blockLen st) s) = blockLen st"
    if "s \<in> set (stBlocks st)" for s
    using assms that by (cases s) (auto simp: streamInv_def reslice_def cutTo_def sliceCap_def)
  have "mapResult (\<lambda>s. reslice s 0 (blockLen st)) ss = Inr (map (cutTo (blockLen st)) ss)"
    if "set ss \<subseteq> set (stBlocks st)" for ss
    using that * by (induction ss) auto
  then have "createSlice st = Inr (map (cutTo (blockLen st)) (stBlocks st))"
    by (simp add: createSlice_def blockLen_def)
  then show ?thesis
  proof (rule that)
    show "s \<noteq> NilSlice \<and> sliceWf s \<and> sliceLen s = blockLen st"
      if "s \<in> set (map (cutTo (blockLen st)) (stBlocks st))" for s
      using that * by (metis imageE image_set)
  qed (use assms in \<open>simp_all add: streamInv_def blockLen_def\<close>)
qed

lemma map2_upt:
  "length xs = n \<Longrightarrow> length ys = n \<Longrightarrow> map2 f xs ys = map (\<lambda>i. f (xs ! i) (ys ! i)) [0..<n]"
  by (rule nth_equalityI) auto

subsection \<open>\<open>Encode\<close>\<close>

definition parityStream :: "reedSolomon \<Rightarrow> byte list list \<Rightarrow> nat \<Rightarrow> byte list" where
  "parityStream r D i = map (\<lambda>q. dotRow (DataShards r) (\<lambda>c. rsParity r ! i ! c) (\<lambda>c. D ! c ! q))
     [0..<length (D ! 0)]"

definition dataOf :: "reedSolomon \<Rightarrow> nat \<Rightarrow> byte list list \<Rightarrow> bool" where
  "dataOf r n D \<longleftrightarrow> length D = DataShards r \<and> (\<forall>xs\<in>set D. length xs = n) \<and> 0 < DataShards r"

lemma parityStream_split:
  assumes "dataOf r n D"
  shows "parityStream r D i = parityStream r (map (take m) D) i @ parityStream r (map (drop m) D) i"
proof -
  have len: "length D = DataShards r" "0 < DataShards r" "\<And>c. c < DataShards r \<Longrightarrow> length (D ! c) = n"
    using assms by (auto simp: dataOf_def)
  have d: "map f D ! 0 = f (D ! 0)" for f :: "byte list \<Rightarrow> byte list"
    using len by simp
  show ?thesis
  proof (rule nth_equalityI)
    fix q assume "q < length (parityStream r D i)"
    then have q: "q < n"
      using len by (simp add: parityStream_def)
    show "parityStream r D i ! q = (parityStream r (map (take m) D) i @ parityStream r (map (drop m) D) i) ! q"
    proof (cases "q < m")
      case True
      then show ?thesis
        using q len by (simp add: parityStream_def nth_append d) (intro dotRow_cong, simp)
    next
      case False
      then have "(parityStream r (map (take m) D) i @ parityStream r (map (drop m) D) i) ! q =
          parityStream r (map (drop m) D) i ! (q - m)"
        using q len by (simp add: parityStream_def nth_append d)
      also have "\<dots> = parityStream r D i ! q"
        using q len False by (simp add: parityStream_def d) (intro dotRow_cong, simp)
      finally show ?thesis ..
    qed
  qed (use len in \<open>simp add: parityStream_def d\<close>)
qed

lemma dataOf_part: "dataOf r n D \<Longrightarrow> dataOf r (min m n) (map (take m) D)"
  "dataOf r n D \<Longrightarrow> dataOf r (n - m) (map (drop m) D)"
  by (auto simp: dataOf_def min_def)

lemma dataOf_even: "dataOf r n D \<Longrightarrow> evenStreams n (map Some D)"
  by (auto simp: dataOf_def evenStreams_def) (metis length_greater_0_conv list.set_sel(1))

text \<open>The blocks of a round, as the encoder gets them.\<close>

lemma parity_of_blocks:
  assumes "shardsOk r sz ss" and "consistent r sz ss" and "Shards r = DataShards r + ParityShards r"
    and "dataOf r sz B" and "\<And>c. c < DataShards r \<Longrightarrow> bytesOf (ss ! c) = B ! c" and "i < ParityShards r"
  shows "bytesOf (ss ! (DataShards r + i)) = parityStream r B i"
proof (rule nth_equalityI)
  have "ss ! (DataShards r + i) \<in> set ss"
    using assms(1,3,6) by (simp add: shardsOk_def)
  then have len: "length (bytesOf (ss ! (DataShards r + i))) = sz"
    using assms(1) by (simp add: shardsOk_def)
  have B: "length (B ! 0) = sz"
    using assms(4) by (auto simp: dataOf_def)
  show "length (bytesOf (ss ! (DataShards r + i))) = length (parityStream r B i)"
    using len B by (simp add: parityStream_def)
  fix q assume "q < length (bytesOf (ss ! (DataShards r + i)))"
  then have q: "q < sz"
    using len by simp
  then have "bytesOf (ss ! (DataShards r + i)) ! q =
      dotRow (DataShards r) (\<lambda>c. rsParity r ! i ! c) (\<lambda>c. bytesOf (ss ! c) ! q)"
    using assms(2,6) by (simp add: consistent_def)
  also have "\<dots> = dotRow (DataShards r) (\<lambda>c. rsParity r ! i ! c) (\<lambda>c. B ! c ! q)"
    using assms(5) by (intro dotRow_cong) simp
  finally show "bytesOf (ss ! (DataShards r + i)) ! q = parityStream r B i ! q"
    using q B by (simp add: parityStream_def)
qed

definition blocks :: "reedSolomon \<Rightarrow> nat \<Rightarrow> slice list \<Rightarrow> bool" where
  "blocks r m all \<longleftrightarrow> length all = Shards r \<and> 0 < m \<and> (\<forall>i<Shards r. sliceWf (all ! i) \<and> sliceLen (all ! i) = m)"

definition keepCaps :: "slice list \<Rightarrow> slice list \<Rightarrow> bool" where
  "keepCaps ss ss' \<longleftrightarrow> length ss' = length ss \<and> (\<forall>i<length ss. sliceCap (ss ! i) \<le> sliceCap (ss' ! i))"

lemma shardsOk_nth:
  "shardsOk r sz ss \<longleftrightarrow> blocks r sz ss"
  unfolding shardsOk_def blocks_def by (metis in_set_conv_nth)

lemma keepCaps_trans: "keepCaps ss ss1 \<Longrightarrow> keepCaps ss1 ss2 \<Longrightarrow> keepCaps ss ss2"
  unfolding keepCaps_def using le_trans by (metis (no_types))

lemma streamRead_error:
  assumes "buffers m bss dst" and "evenStreams 0 bss" and "0 < m" and "fairSched rsched"
  shows "\<exists>dst' rds'. streamRead opts rsched dst (streams bss) = (dst', rds', Inl IoEOF)"
  using streamRead_even [OF assms(1-3)] assms(4) by (simp add: fairSched_def streams_def)

lemma buffers_full:
  assumes "blocks r m all" and "length bss \<le> Shards r"
  shows "buffers m bss (take (length bss) all)"
  using assms by (auto simp: blocks_def buffers_def)

lemma shardSize_all:
  assumes "0 < length ss" and "\<And>i. i < length ss \<Longrightarrow> sliceLen (ss ! i) = sz" and "0 < sz"
  shows "shardSize ss = sz"
  using assms by (intro shardSize_eq [where s = "ss ! 0"]) (auto simp: in_set_conv_nth)

lemma encode_read:
  assumes all: "blocks r m all" and D: "dataOf r n D" and d: "DataShards r \<le> Shards r" and n: "0 < n"
    and fair: "fairSched rsched"
  obtains ins where "streamRead opts rsched (take (DataShards r) all) (streams (map Some D)) =
      (ins, streams (map Some (map (drop m) D)), Inr ())" and "length ins = DataShards r"
    and "\<forall>i<DataShards r. sliceWf (ins ! i) \<and> sliceLen (ins ! i) = min m n \<and>
      bytesOf (ins ! i) = take m (D ! i) \<and> sliceCap (ins ! i) = sliceCap (all ! i)"
    and "shardSize ins = min m n"
proof -
  let ?d = "DataShards r" and ?bss = "map Some D"
  let ?ins = "map2 readSlice (take ?d all) (streams ?bss)"
  have len: "length D = ?d" "0 < ?d" "0 < m"
    using D all by (auto simp: dataOf_def blocks_def)
  have dst: "buffers m ?bss (take ?d all)"
    using buffers_full [OF all, of ?bss] len d by simp
  note even = dataOf_even [OF D]
  have each: "sliceWf (?ins ! i) \<and> sliceLen (?ins ! i) = min m n \<and>
      bytesOf (?ins ! i) = take m (D ! i) \<and> sliceCap (?ins ! i) = sliceCap (all ! i)" if "i < ?d" for i
    using read_buffers [OF dst even, of i] that len by simp
  have "length ?ins = ?d"
    using dst len by (simp add: buffers_def streams_def)
  moreover have "shardSize ?ins = min m n"
    using calculation each len n by (intro shardSize_all) auto
  moreover have "streamRead opts rsched (take ?d all) (streams ?bss) =
      (?ins, streams (map Some (map (drop m) D)), Inr ())"
    using streamRead_even [OF dst even len(3)] fair n by (simp add: fairSched_def streams_def o_def)
  moreover have "\<forall>i<?d. sliceWf (?ins ! i) \<and> sliceLen (?ins ! i) = min m n \<and>
      bytesOf (?ins ! i) = take m (D ! i) \<and> sliceCap (?ins ! i) = sliceCap (all ! i)"
    using each by blast
  ultimately show ?thesis
    by (intro that)
qed

lemma encode_round:
  assumes inv: "encInv a r" and all: "blocks r m all" and D: "dataOf r n D" and n: "0 < n"
    and fair: "fairSched rsched" "fairSched wsched" and parity: "length parity = ParityShards r"
  obtains r' all' where "encodeRound a opts rsched wsched bufferWrite r all (streams (map Some D)) parity rd =
      ((r', all', streams (map Some (map (drop m) D)),
        map (\<lambda>i. appendTo (parity ! i) (parityStream r (map (take m) D) i)) [0..<ParityShards r],
        rd + min m n), None)"
    and "encInv a r'" and "\<exists>pool. r' = r\<lparr>rsPool := pool\<rparr>" and "blocks r (min m n) all'"
    and "keepCaps all all'"
proof -
  let ?d = "DataShards r" and ?p = "ParityShards r" and ?sz = "min m n"
  have t: "Shards r = ?d + ?p" "0 < ?d" "?d \<le> Shards r"
    using inv by (auto simp: encInv_def)
  have m: "0 < m" "length all = Shards r" "\<And>i. i < Shards r \<Longrightarrow> sliceWf (all ! i) \<and> sliceLen (all ! i) = m"
    using all by (auto simp: blocks_def)
  obtain ins where read: "streamRead opts rsched (take ?d all) (streams (map Some D)) =
      (ins, streams (map Some (map (drop m) D)), Inr ())" and ins: "length ins = ?d"
      "\<forall>i<?d. sliceWf (ins ! i) \<and> sliceLen (ins ! i) = ?sz \<and>
      bytesOf (ins ! i) = take m (D ! i) \<and> sliceCap (ins ! i) = sliceCap (all ! i)"
    and size: "shardSize ins = ?sz"
    by (rule encode_read [OF all D t(3) n fair(1), where opts = opts])
  let ?outs = "map (cutTo ?sz) (drop ?d all)"
  have drop_in: "s \<in> set (drop ?d all) \<Longrightarrow> sliceWf s \<and> sliceLen s = m" for s
    using m by (auto simp: in_set_conv_nth)
  have "trimShards (drop ?d (ins @ drop ?d all)) ?sz = Inr ?outs"
    using trimShards_ok [of "drop ?d all" ?sz] drop_in m(1) n ins(1) by (auto simp: min_def)
  note trim = this
  let ?all = "ins @ ?outs"
  have outs: "sliceWf (?outs ! i) \<and> sliceLen (?outs ! i) = ?sz \<and> sliceCap (?outs ! i) = sliceCap (all ! (?d + i))"
    if "i < ?p" for i
  proof -
    have s: "sliceWf (all ! (?d + i))" "sliceLen (all ! (?d + i)) = m"
      using m(3) [of "?d + i"] that t by auto
    then have "all ! (?d + i) \<noteq> NilSlice"
      using m(1) by auto
    then show ?thesis
      using that s m(2) t by (simp add: sliceWf_def)
  qed
  have nth: "sliceWf (?all ! i) \<and> sliceLen (?all ! i) = ?sz \<and> sliceCap (?all ! i) = sliceCap (all ! i)"
    if "i < Shards r" for i
    using that ins outs [of "i - ?d"] t(1) by (cases "i < ?d") (auto simp: nth_append)
  have len: "length ?all = Shards r"
    using ins(1) m(2) t by simp
  then have ok: "shardsOk r ?sz ?all"
    using nth m(1) n unfolding shardsOk_nth blocks_def by simp
  obtain ss r' where enc: "Encode a r ?all = Inr (ss, r')" "encInv a r'" "\<exists>pool. r' = r\<lparr>rsPool := pool\<rparr>"
    "shardsOk r ?sz ss" "take ?d ss = take ?d ?all" "consistent r ?sz ss" "sameShape ?all ss"
    by (rule Encode_shape [OF inv ok])
  have ss: "length ss = Shards r" "\<And>i. i < Shards r \<Longrightarrow> sliceWf (ss ! i) \<and> sliceLen (ss ! i) = ?sz"
    using enc(4) by (auto simp: shardsOk_def)
  have "bytesOf (ss ! c) = map (take m) D ! c" if "c < ?d" for c
  proof -
    have "ss ! c = take ?d ss ! c"
      using that by simp
    then show ?thesis
      using that ins D enc(5) by (simp add: dataOf_def nth_append)
  qed
  then have par: "bytesOf (ss ! (?d + i)) = parityStream r (map (take m) D) i" if "i < ?p" for i
    using parity_of_blocks [OF enc(4,6) t(1) dataOf_part(1) [OF D]] that by blast
  have sent: "streamWrite opts wsched bufferWrite parity (drop ?d ss) =
      (map2 (\<lambda>w s. appendTo w (bytesOf s)) parity (drop ?d ss), Inr ())"
    using fair(2) ss t by (intro streamWrite_ok) (auto simp: parity fairSched_def list_all_length)
  have "map2 (\<lambda>w s. appendTo w (bytesOf s)) parity (drop ?d ss) =
      map (\<lambda>i. appendTo (parity ! i) (parityStream r (map (take m) D) i)) [0..<?p]"
    using par ss t parity by (intro nth_equalityI) auto
  then have run: "encodeRound a opts rsched wsched bufferWrite r all (streams (map Some D)) parity rd =
      ((r', ss, streams (map Some (map (drop m) D)),
        map (\<lambda>i. appendTo (parity ! i) (parityStream r (map (take m) D) i)) [0..<?p], rd + ?sz), None)"
    using read size trim enc(1) sent by (simp add: encodeRound_def Let_def)
  have "keepCaps all ss"
    using enc(7) nth len m(2) by (auto simp: keepCaps_def sameShape_def)
  then show ?thesis
    using run enc(2,3) ss m(1) n by (intro that) (auto simp: blocks_def)
qed

lemma parityStream_pool [simp]: "parityStream (r\<lparr>rsPool := pool\<rparr>) D i = parityStream r D i"
  by (simp add: parityStream_def)

lemma dataOf_pool [simp]: "dataOf (r\<lparr>rsPool := pool\<rparr>) n D = dataOf r n D"
  by (simp add: dataOf_def)

lemma encode_end:
  assumes all: "blocks r m all" and D: "dataOf r 0 D" and d: "DataShards r \<le> Shards r"
    and fair: "fairSched rsched"
  obtains all' where "encodeRound a opts rsched wsched bufferWrite r all (streams (map Some D)) parity rd =
      ((r, all', streams (map Some D), parity, rd), Some (if rd = 0 then Inl ErrShardNoData else Inr ()))"
    and "keepCaps all all'"
proof -
  let ?d = "DataShards r" and ?bss = "map Some D"
  let ?ins = "map2 readSlice (take ?d all) (streams ?bss)"
  have len: "length D = ?d" "0 < ?d" "0 < m" "length all = Shards r"
    using D all by (auto simp: dataOf_def blocks_def)
  have dst: "buffers m ?bss (take ?d all)"
    using buffers_full [OF all, of ?bss] len d by simp
  have "map (map_option (drop m)) ?bss = ?bss"
    using D by (auto simp: dataOf_def)
  then have "streamRead opts rsched (take ?d all) (streams ?bss) = (?ins, streams ?bss, Inl IoEOF)"
    using streamRead_even [OF dst dataOf_even [OF D] len(3), of opts rsched] fair
    by (simp only: fairSched_def) (simp add: streams_def)
  then have "encodeRound a opts rsched wsched bufferWrite r all (streams ?bss) parity rd =
      ((r, ?ins @ drop ?d all, streams ?bss, parity, rd), Some (if rd = 0 then Inl ErrShardNoData else Inr ()))"
    by (simp add: encodeRound_def Let_def)
  moreover have "keepCaps all (?ins @ drop ?d all)"
    using read_buffers(1) [OF dst dataOf_even [OF D]] len d
    by (auto simp: keepCaps_def nth_append streams_def)
  ultimately show ?thesis
    by (rule that)
qed

lemma streamEncode_loop:
  assumes "fairSched rsched" and "fairSched wsched"
  shows "encInv a r \<Longrightarrow> blocks r m all \<Longrightarrow> dataOf r n D \<Longrightarrow> length parity = ParityShards r \<Longrightarrow>
    0 < rd \<or> 0 < n \<Longrightarrow>
    \<exists>r' all' rds rd'. streamLoop (\<lambda>(r, all, data, parity, rd).
        encodeRound a opts rsched wsched bufferWrite r all data parity rd)
        (r, all, streams (map Some D), parity, rd) =
      Some ((r', all', rds, map (\<lambda>i. appendTo (parity ! i) (parityStream r D i)) [0..<ParityShards r], rd'),
        Inr ()) \<and> encInv a r' \<and> (\<exists>pool. r' = r\<lparr>rsPool := pool\<rparr>) \<and> keepCaps all all'"
proof (induction n arbitrary: r m all D parity rd rule: less_induct)
  case (less n)
  let ?f = "\<lambda>(r, all, data, parity, rd). encodeRound a opts rsched wsched bufferWrite r all data parity rd"
  have d: "DataShards r \<le> Shards r"
    using less.prems(1) by (simp add: encInv_def)
  show ?case
  proof (cases "n = 0")
    case True
    then have D: "dataOf r 0 D"
      using less.prems(3) by simp
    obtain all' where "encodeRound a opts rsched wsched bufferWrite r all (streams (map Some D)) parity rd =
        ((r, all', streams (map Some D), parity, rd), Some (if rd = 0 then Inl ErrShardNoData else Inr ()))"
      "keepCaps all all'"
      by (rule encode_end [OF less.prems(2) D d assms(1)])
    moreover have "parityStream r D i = []" for i
      using D by (simp add: parityStream_def dataOf_def)
    then have "map (\<lambda>i. appendTo (parity ! i) (parityStream r D i)) [0..<ParityShards r] = parity"
      using less.prems(4) by (auto intro: nth_equalityI)
    moreover have "\<exists>pool. r = r\<lparr>rsPool := pool\<rparr>"
      by (rule exI [of _ "rsPool r"]) simp
    ultimately show ?thesis
      using less.prems(1,5) True by (subst streamLoop.simps) auto
  next
    case False
    then have n: "0 < n"
      by simp
    let ?parity = "map (\<lambda>i. appendTo (parity ! i) (parityStream r (map (take m) D) i)) [0..<ParityShards r]"
    obtain r1 all1 where round: "encodeRound a opts rsched wsched bufferWrite r all (streams (map Some D)) parity rd =
        ((r1, all1, streams (map Some (map (drop m) D)), ?parity, rd + min m n), None)"
      and r1: "encInv a r1" "\<exists>pool. r1 = r\<lparr>rsPool := pool\<rparr>" "blocks r (min m n) all1" "keepCaps all all1"
      by (rule encode_round [OF less.prems(1-3) n assms less.prems(4)])
    obtain pool where pool: "r1 = r\<lparr>rsPool := pool\<rparr>"
      using r1(2) by blast
    have m: "0 < m"
      using less.prems(2) by (simp add: blocks_def)
    have "\<exists>r' all' rds rd'. streamLoop ?f (r1, all1, streams (map Some (map (drop m) D)), ?parity, rd + min m n) =
        Some ((r', all', rds, map (\<lambda>i. appendTo (?parity ! i) (parityStream r1 (map (drop m) D) i))
          [0..<ParityShards r1], rd'), Inr ()) \<and> encInv a r' \<and> (\<exists>pool. r' = r1\<lparr>rsPool := pool\<rparr>) \<and>
          keepCaps all1 all'"
    proof (rule less.IH [OF _ r1(1)])
      show "n - m < n"
        using n m by simp
      show "blocks r1 (min m n) all1"
        using r1(3) by (simp add: pool blocks_def)
      show "dataOf r1 (n - m) (map (drop m) D)"
        using dataOf_part(2) [OF less.prems(3)] by (simp add: pool)
      show "length ?parity = ParityShards r1"
        by (simp add: pool)
      show "0 < rd + min m n \<or> 0 < n - m"
        using n m by simp
    qed
    moreover have "map (\<lambda>i. appendTo (?parity ! i) (parityStream r1 (map (drop m) D) i)) [0..<ParityShards r1] =
        map (\<lambda>i. appendTo (parity ! i) (parityStream r D i)) [0..<ParityShards r]"
      using parityStream_split [OF less.prems(3)] by (simp add: pool)
    moreover have "streamLoop ?f (r, all, streams (map Some D), parity, rd) =
        streamLoop ?f (r1, all1, streams (map Some (map (drop m) D)), ?parity, rd + min m n)"
      by (subst streamLoop.simps) (simp add: round)
    ultimately show ?thesis
      using keepCaps_trans [OF r1(4)] pool by auto
  qed
qed

lemma keepCaps_blocks:
  assumes "keepCaps all all'" and "\<And>s. s \<in> set all \<Longrightarrow> s \<noteq> NilSlice \<and> sliceWf s \<and> sliceLen s = b" and "0 < b"
  shows "\<forall>s\<in>set all'. s \<noteq> NilSlice \<and> b \<le> sliceCap s"
proof
  fix s assume "s \<in> set all'"
  then obtain i where i: "i < length all" "s = all' ! i" "sliceCap (all ! i) \<le> sliceCap s"
    using assms(1) by (auto simp: keepCaps_def in_set_conv_nth)
  then have "b \<le> sliceCap (all ! i)"
    using assms(2) [of "all ! i"] by (simp add: sliceWf_def)
  then show "s \<noteq> NilSlice \<and> b \<le> sliceCap s"
    using i(3) assms(3) by auto
qed

lemma streamEncode_ok:
  assumes "streamInv a st" and "fairSched rsched" and "fairSched wsched"
    and "length D = DataShards (stEnc st)" and "\<forall>xs\<in>set D. length xs = n" and "0 < n"
    and "length parity = ParityShards (stEnc st)"
  shows "\<exists>st' rds. streamEncode a rsched wsched bufferWrite st (map (\<lambda>xs. Some (ofData xs)) D) parity =
      (st', rds, map (\<lambda>i. appendTo (parity ! i) (parityStream (stEnc st) D i)) [0..<ParityShards (stEnc st)],
        Inr ()) \<and> streamInv a st' \<and>
      (\<exists>pool. stEnc st' = (stEnc st)\<lparr>rsPool := pool\<rparr>)"
proof -
  let ?r = "stEnc st" and ?b = "blockLen st"
  have inv: "encInv a ?r"
    using assms(1) by (simp add: streamInv_def)
  obtain all where all: "createSlice st = Inr all" "length all = Shards ?r"
    "\<And>s. s \<in> set all \<Longrightarrow> s \<noteq> NilSlice \<and> sliceWf s \<and> sliceLen s = ?b" "0 < ?b"
    using createSlice_ok [OF assms(1)] by metis
  have D: "dataOf ?r n D"
    using assms(4,5) inv by (simp add: dataOf_def encInv_def)
  have "blocks ?r ?b all"
    using all by (auto simp: blocks_def)
  then obtain r' all' rds rd' where loop: "streamLoop (\<lambda>(r, all, data, parity, rd).
        encodeRound a (stOpts st) rsched wsched bufferWrite r all data parity rd)
        (?r, all, streams (map Some D), parity, 0) =
      Some ((r', all', rds, map (\<lambda>i. appendTo (parity ! i) (parityStream ?r D i)) [0..<ParityShards ?r], rd'),
        Inr ())" "encInv a r'" "\<exists>pool. r' = ?r\<lparr>rsPool := pool\<rparr>" "keepCaps all all'"
    using streamEncode_loop [OF assms(2,3) inv _ D assms(7), of ?b all 0 "stOpts st"] assms(6) by blast
  have "streamInv a (st\<lparr>stEnc := r', stBlocks := all'\<rparr>)"
    using keepCaps_blocks [OF loop(4) all(3,4)] loop(2-4) all(2) assms(1)
    by (auto simp: streamInv_def blockLen_def keepCaps_def)
  then show ?thesis
    using loop(1,3) all(1) assms(4,7) by (simp add: streamEncode_def streams_def o_def)
qed


text \<open>
  C12. The streaming \<open>Encode\<close> returns without an error and has written the parity of the whole
  streams, whatever the block size and the length of the streams, in every build and whatever the
  order in which concurrent reads and writes finish; and the encoder and its buffers can be used
  for the next call.
\<close>

theorem streamEncode_correct:
  assumes "streamInv a st" and "fairSched rsched" and "fairSched wsched"
    and "length D = DataShards (stEnc st)" and "\<forall>xs\<in>set D. length xs = n" and "0 < n"
    and "length parity = ParityShards (stEnc st)"
  shows "\<exists>st' rds. streamEncode a rsched wsched bufferWrite st (map (\<lambda>xs. Some (ofData xs)) D) parity =
      (st', rds, map (\<lambda>i. appendTo (parity ! i) (parityStream (stEnc st) D i)) [0..<ParityShards (stEnc st)],
        Inr ()) \<and> streamInv a st'"
  using streamEncode_ok [OF assms] by blast

end
