(* ===== verification/StreamVerify.thy ===== *)
theory StreamVerify
  imports StreamSpec
begin

text \<open>
  \<open>NewStream\<close> gives an encoder the operations can use; \<open>Verify\<close> and \<open>Reconstruct\<close> of the streaming
  encoder on streams of equal length.
\<close>

subsection \<open>\<open>NewStream\<close>\<close>

lemma applyOptions_snoc: "applyOptions (fs @ [f]) o0 = f (applyOptions fs o0)"
  by (simp add: applyOptions_def)

lemma streamBlock_pos: "0 < streamBS (streamBlock opts)"
  by (simp add: streamBlock_def Let_def)

lemma NewStream_Inr:
  assumes cpu: "cpuOk a cpu" and fs: "list_all exportedOption fs" and d: "0 < d" "d + p \<le> 256"
  obtains st where "NewStream a cpu (int d) (int p) fs = Inr st" and "streamInv a st"
    and "DataShards (stEnc st) = d" and "ParityShards (stEnc st) = p"
    and "0 < p \<Longrightarrow> mdsChosen (applyOptions fs (buildOptions a cpu)) (int p) \<Longrightarrow>
      mds_matrix d (d + p) (rsMatrix (stEnc st))"
proof -
  let ?o = "streamBlock (applyOptions fs (buildOptions a cpu))"
  define fs' where "fs' = (if autoShardSize ?o = 0 \<and> maxGoroutines ?o = maxGoroutines (buildOptions a cpu)
      then fs @ [WithAutoGoroutines (streamBS ?o)] else fs)"
  have fs': "list_all exportedOption fs'"
    using fs by (simp add: fs'_def exportedOption.intros)
  have chosen: "mdsChosen (applyOptions fs' (buildOptions a cpu)) = mdsChosen (applyOptions fs (buildOptions a cpu))"
    by (simp add: fs'_def applyOptions_snoc mdsChosen_def fun_eq_iff WithAutoGoroutines_def)
  obtain r where r: "New a cpu (int d) (int p) fs' = Inr r" "encInv a r" "DataShards r = d" "ParityShards r = p"
    "0 < p \<Longrightarrow> mdsChosen (applyOptions fs' (buildOptions a cpu)) (int p) \<Longrightarrow> mds_matrix d (d + p) (rsMatrix r)"
    using New_Inr [OF cpu fs' d] by metis
  let ?st = "\<lparr>stEnc = r, stOpts = ?o,
      stBlocks = replicate (nat (int d + int p)) (makeSlice (nat (streamBS ?o)))\<rparr>"
  have "NewStream a cpu (int d) (int p) fs = Inr ?st"
    unfolding NewStream_def Let_def fs'_def [symmetric] by (simp add: r(1))
  moreover have "Shards r = d + p"
    using r(2-4) by (simp add: encInv_def)
  then have "streamInv a ?st"
    using r(2) streamBlock_pos by (simp add: streamInv_def blockLen_def makeSlice_def nat_int_add)
  moreover have "stEnc ?st = r"
    by simp
  ultimately show ?thesis
    using r(3-5) chosen that [of ?st] by (simp only:)
qed

subsection \<open>Consistent streams\<close>

lemma sameLength_parts:
  "sameLength t n D \<Longrightarrow> sameLength t (min m n) (map (take m) D)"
  "sameLength t n D \<Longrightarrow> sameLength t (n - m) (map (drop m) D)"
  by (auto simp: sameLength_def)

lemma consistent_split:
  assumes D: "sameLength (Shards r) n D" and t: "Shards r = DataShards r + ParityShards r"
  shows "consistent r n (map ofBytes D) \<longleftrightarrow>
    consistent r (min m n) (map ofBytes (map (take m) D)) \<and> consistent r (n - m) (map ofBytes (map (drop m) D))"
proof -
  define ok where "ok i q \<longleftrightarrow> D ! (DataShards r + i) ! q =
      dotRow (DataShards r) (\<lambda>c. rsParity r ! i ! c) (\<lambda>c. D ! c ! q)" for i q
  have len: "length D = DataShards r + ParityShards r" "\<And>i. i < DataShards r + ParityShards r \<Longrightarrow> length (D ! i) = n"
    using D t by (auto simp: sameLength_def)
  have all: "consistent r n (map ofBytes D) \<longleftrightarrow> (\<forall>i<ParityShards r. \<forall>q<n. ok i q)"
    using len by (auto simp: consistent_def ok_def cong: dotRow_cong)
  have fst: "consistent r (min m n) (map ofBytes (map (take m) D)) \<longleftrightarrow>
      (\<forall>i<ParityShards r. \<forall>q<min m n. ok i q)"
    using len by (auto simp: consistent_def ok_def cong: dotRow_cong)
  have snd: "consistent r (n - m) (map ofBytes (map (drop m) D)) \<longleftrightarrow>
      (\<forall>i<ParityShards r. \<forall>q<n - m. ok i (m + q))"
    using len by (auto simp: consistent_def ok_def cong: dotRow_cong)
  have "(\<forall>q<n. P q) \<longleftrightarrow> (\<forall>q<min m n. P q) \<and> (\<forall>q<n - m. P (m + q))" for P
  proof safe
    fix q assume "\<forall>q<min m n. P q" "\<forall>q<n - m. P (m + q)" "q < n"
    then show "P q"
      by (cases "q < m") (auto dest: spec [of _ "q - m"])
  qed auto
  then show ?thesis
    unfolding all fst snd by blast
qed

subsection \<open>\<open>Verify\<close>\<close>

text \<open>What a round reads where there is something left, and where the streams are at their end.\<close>

definition present :: "nat set \<Rightarrow> byte list list \<Rightarrow> byte list option list" where
  "present lost D = map (\<lambda>i. if i \<in> lost then None else Some (D ! i)) [0..<length D]"

lemma present_even:
  assumes "sameLength t n D" and "i < t" and "i \<notin> lost"
  shows "evenStreams n (present lost D)"
proof -
  have "present lost D ! i = Some (D ! i)" "i < length (present lost D)"
    using assms by (simp_all add: present_def sameLength_def)
  then have "\<exists>bs\<in>set (present lost D). bs \<noteq> None"
    by (metis nth_mem option.distinct(1))
  moreover have "length xs = n" if "Some xs \<in> set (present lost D)" for xs
    using that assms(1) by (auto simp: present_def sameLength_def split: if_splits)
  ultimately show ?thesis
    by (auto simp: evenStreams_def)
qed

lemma present_drop: "map (map_option (drop m)) (present lost D) = present lost (map (drop m) D)"
  by (simp add: present_def)

lemma present_read:
  assumes dst: "buffers m (present lost D) all" and D: "sameLength t n D" and m: "0 < m" and n: "0 < n"
    and some: "i < t" "i \<notin> lost" and fair: "fairSched rsched"
  obtains all' where "streamRead opts rsched all (streams (present lost D)) =
      (all', streams (present lost (map (drop m) D)), Inr ())" and "length all' = t"
    and "shardSize all' = min m n" and "keepCaps all all'"
    and "\<forall>i<t. sliceWf (all' ! i) \<and> sliceLen (all' ! i) = (if i \<in> lost then 0 else min m n) \<and>
      (i \<notin> lost \<longrightarrow> bytesOf (all' ! i) = take m (D ! i))"
proof -
  let ?bss = "present lost D"
  obtain all' where all': "all' = map2 readSlice all (streams ?bss)"
    by blast
  have len: "length ?bss = t" "length D = t" "length all = t"
    using D dst by (auto simp: present_def sameLength_def buffers_def)
  then have l: "length all' = t"
    by (simp add: all' streams_def)
  note even = present_even [OF D some]
  note read = read_buffers [OF dst even, folded all', unfolded len]
  have bss: "?bss ! j = (if j \<in> lost then None else Some (D ! j))" if "j < t" for j
    using that len by (simp add: present_def)
  have each: "sliceWf (all' ! j) \<and> sliceLen (all' ! j) = (if j \<in> lost then 0 else min m n) \<and>
      (j \<notin> lost \<longrightarrow> bytesOf (all' ! j) = take m (D ! j))" if "j < t" for j
    using read(2,3) [OF that] read(4,5) [OF that, of "D ! j"] bss [OF that] by auto
  have sizes: "sliceLen s = 0 \<or> sliceLen s = min m n" if "s \<in> set all'" for s
  proof -
    obtain j where "j < t" "s = all' ! j"
      using \<open>s \<in> set all'\<close> l by (metis in_set_conv_nth)
    then show ?thesis
      using each [of j] by auto
  qed
  have "all' ! i \<in> set all'"
    using l some by simp
  then have "shardSize all' = min m n"
    using sizes each [OF some(1)] some(2) m n by (intro shardSize_eq [where s = "all' ! i"]) auto
  moreover have "keepCaps all all'"
    unfolding keepCaps_def using read(1) l len by auto
  moreover have "streamRead opts rsched all (streams ?bss) = (all', streams (present lost (map (drop m) D)), Inr ())"
    using streamRead_even [OF dst even m, of opts rsched] fair n
    by (simp add: fairSched_def streams_def present_drop [unfolded o_def] all')
  moreover have "\<forall>i<t. sliceWf (all' ! i) \<and> sliceLen (all' ! i) = (if i \<in> lost then 0 else min m n) \<and>
      (i \<notin> lost \<longrightarrow> bytesOf (all' ! i) = take m (D ! i))"
    using each by blast
  ultimately show ?thesis
    using l by (intro that)
qed

lemma present_end:
  assumes dst: "buffers m (present lost D) all" and D: "sameLength t 0 D" and m: "0 < m"
    and some: "i < t" "i \<notin> lost" and fair: "fairSched rsched"
  obtains all' where "streamRead opts rsched all (streams (present lost D)) =
      (all', streams (present lost D), Inl IoEOF)" and "keepCaps all all'"
proof -
  note even = present_even [OF D some]
  have "length (present lost D) = length all"
    using dst by (simp add: buffers_def)
  then have "keepCaps all (map2 readSlice all (streams (present lost D)))"
    using read_buffers(1) [OF dst even] by (auto simp: keepCaps_def streams_def)
  moreover have "map (drop m) D = D"
    using D by (intro nth_equalityI) (auto simp: sameLength_def)
  then have "streamRead opts rsched all (streams (present lost D)) =
      (map2 readSlice all (streams (present lost D)), streams (present lost D), Inl IoEOF)"
    using streamRead_even [OF dst even m, of opts rsched] fair
    by (simp add: fairSched_def streams_def present_drop)
  ultimately show ?thesis
    by (intro that)
qed

lemma blocks_buffers: "blocks r m all \<Longrightarrow> length D = Shards r \<Longrightarrow> buffers m (present lost D) all"
  by (auto simp: blocks_def buffers_def present_def)

lemma streamVerify_loop:
  assumes fair: "fairSched rsched"
  shows "encInv a r \<Longrightarrow> blocks r m all \<Longrightarrow> sameLength (Shards r) n D \<Longrightarrow> 0 < rd \<or> 0 < n \<Longrightarrow>
    \<exists>r' all' rds rd'. streamLoop (\<lambda>(r, all, shards, rd). verifyRound a opts rsched r all shards rd)
        (r, all, streams (present {} D), rd) =
      Some ((r', all', rds, rd'), Inr (consistent r n (map ofBytes D))) \<and> encInv a r' \<and>
      (\<exists>pool. r' = r\<lparr>rsPool := pool\<rparr>) \<and> keepCaps all all'"
proof (induction n arbitrary: r m all D rd rule: less_induct)
  case (less n)
  let ?f = "\<lambda>(r, all, shards, rd). verifyRound a opts rsched r all shards rd"
  have t: "Shards r = DataShards r + ParityShards r" "0 < Shards r" and m: "0 < m"
    using less.prems(1,2) by (auto simp: encInv_def blocks_def)
  have dst: "buffers m (present {} D) all"
    using blocks_buffers less.prems(2,3) by (auto simp: sameLength_def)
  have self: "\<exists>pool. r = r\<lparr>rsPool := pool\<rparr>"
    by (rule exI [of _ "rsPool r"]) simp
  show ?case
  proof (cases "n = 0")
    case True
    then have D: "sameLength (Shards r) 0 D"
      using less.prems(3) by simp
    obtain all' where "streamRead opts rsched all (streams (present {} D)) = (all', streams (present {} D), Inl IoEOF)"
      and "keepCaps all all'"
      by (rule present_end [OF dst D m t(2) _ fair, where opts = opts]) simp_all
    moreover have "consistent r 0 (map ofBytes D)"
      by (simp add: consistent_def)
    ultimately show ?thesis
      using less.prems(1,4) True self by (subst streamLoop.simps) (auto simp: verifyRound_def)
  next
    case False
    then have n: "0 < n"
      by simp
    obtain all1 where read: "streamRead opts rsched all (streams (present {} D)) =
        (all1, streams (present {} (map (drop m) D)), Inr ())" "length all1 = Shards r"
        "shardSize all1 = min m n" "keepCaps all all1"
      and all1: "\<forall>i<Shards r. sliceWf (all1 ! i) \<and> sliceLen (all1 ! i) = (if i \<in> {} then 0 else min m n) \<and>
        (i \<notin> {} \<longrightarrow> bytesOf (all1 ! i) = take m (D ! i))"
      by (rule present_read [OF dst less.prems(3) m n t(2) _ fair, where opts = opts]) simp
    have blocks: "blocks r (min m n) all1"
      using all1 read(2) m n by (simp add: blocks_def)
    obtain r1 where verify: "Verify a r all1 = Inr (consistent r (min m n) all1, r1)" "encInv a r1"
      "\<exists>pool. r1 = r\<lparr>rsPool := pool\<rparr>"
      by (rule Verify_Inr [OF less.prems(1) blocks [folded shardsOk_nth]])
    obtain pool where pool: "r1 = r\<lparr>rsPool := pool\<rparr>"
      using verify(3) by blast
    have block: "consistent r (min m n) all1 = consistent r (min m n) (map ofBytes (map (take m) D))"
      using all1 t(1) less.prems(3) by (intro consistent_cong) (simp add: sameLength_def)
    note cons = consistent_split [OF less.prems(3) t(1), of m]
    show ?thesis
    proof (cases "consistent r (min m n) all1")
      case False
      then have "streamLoop ?f (r, all, streams (present {} D), rd) =
          Some ((r1, all1, streams (present {} (map (drop m) D)), rd + min m n), Inr False)"
        using read verify(1) by (subst streamLoop.simps) (simp add: verifyRound_def Let_def)
      moreover have "\<not> consistent r n (map ofBytes D)"
        using cons block False by simp
      ultimately show ?thesis
        using verify(2,3) read(4) by auto
    next
      case True
      then have "streamLoop ?f (r, all, streams (present {} D), rd) =
          streamLoop ?f (r1, all1, streams (present {} (map (drop m) D)), rd + min m n)"
        using read verify(1) by (subst streamLoop.simps) (simp add: verifyRound_def Let_def)
      moreover have "\<exists>r' all' rds rd'. streamLoop ?f (r1, all1, streams (present {} (map (drop m) D)), rd + min m n) =
          Some ((r', all', rds, rd'), Inr (consistent r1 (n - m) (map ofBytes (map (drop m) D)))) \<and> encInv a r' \<and>
          (\<exists>pool. r' = r1\<lparr>rsPool := pool\<rparr>) \<and> keepCaps all1 all'"
      proof (rule less.IH [OF _ verify(2)])
        show "n - m < n"
          using n m by simp
        show "blocks r1 (min m n) all1"
          using blocks by (simp add: pool blocks_def)
        show "sameLength (Shards r1) (n - m) (map (drop m) D)"
          using sameLength_parts(2) [OF less.prems(3)] by (simp add: pool)
        show "0 < rd + min m n \<or> 0 < n - m"
          using n m by simp
      qed
      moreover have "consistent r1 (n - m) (map ofBytes (map (drop m) D)) = consistent r n (map ofBytes D)"
        using cons block True by (simp add: pool consistent_def)
      ultimately show ?thesis
        using keepCaps_trans [OF read(4)] pool by auto
    qed
  qed
qed

lemma streamVerify_ok:
  assumes "streamInv a st" and "fairSched rsched"
    and "length D = Shards (stEnc st)" and "\<forall>xs\<in>set D. length xs = n" and "0 < n"
  shows "\<exists>st' rds. streamVerify a rsched st (map (\<lambda>xs. Some (ofData xs)) D) =
      (st', rds, Inr (consistent (stEnc st) n (map ofBytes D))) \<and> streamInv a st' \<and>
      (\<exists>pool. stEnc st' = (stEnc st)\<lparr>rsPool := pool\<rparr>)"
proof -
  let ?r = "stEnc st" and ?b = "blockLen st"
  have inv: "encInv a ?r"
    using assms(1) by (simp add: streamInv_def)
  obtain all where all: "createSlice st = Inr all" "length all = Shards ?r"
    "\<And>s. s \<in> set all \<Longrightarrow> s \<noteq> NilSlice \<and> sliceWf s \<and> sliceLen s = ?b" "0 < ?b"
    using createSlice_ok [OF assms(1)] by metis
  have D: "sameLength (Shards ?r) n D"
    using assms(3,4) by (simp add: sameLength_def)
  have "blocks ?r ?b all"
    using all by (auto simp: blocks_def)
  then obtain r' all' rds rd' where loop: "streamLoop (\<lambda>(r, all, shards, rd).
        verifyRound a (stOpts st) rsched r all shards rd) (?r, all, streams (present {} D), 0) =
      Some ((r', all', rds, rd'), Inr (consistent ?r n (map ofBytes D)))"
      "encInv a r'" "\<exists>pool. r' = ?r\<lparr>rsPool := pool\<rparr>" "keepCaps all all'"
    using streamVerify_loop [OF assms(2) inv _ D, of ?b all 0 "stOpts st"] assms(5) by blast
  have "streamInv a (st\<lparr>stEnc := r', stBlocks := all'\<rparr>)"
    using keepCaps_blocks [OF loop(4) all(3,4)] loop(2-4) all(2) assms(1)
    by (auto simp: streamInv_def blockLen_def keepCaps_def)
  moreover have "streams (present {} D) = map (\<lambda>xs. Some (ofData xs)) D"
    by (rule nth_equalityI) (simp_all add: streams_def present_def)
  ultimately show ?thesis
    using loop(1,3) all(1) assms(3) by (simp add: streamVerify_def)
qed

text \<open>Where some of the streams are missing, the first block makes \<open>Verify\<close> fail.\<close>

lemma streamVerify_missing:
  assumes "streamInv a st" and "fairSched rsched"
    and "length D = Shards (stEnc st)" and "\<forall>xs\<in>set D. length xs = n" and "0 < n"
    and lost: "i < Shards (stEnc st)" "i \<in> lost" and some: "j < Shards (stEnc st)" "j \<notin> lost"
  obtains st' rds e where "streamVerify a rsched st
      (map (\<lambda>i. if i \<in> lost then None else Some (ofData (D ! i))) [0..<length D]) = (st', rds, Inl e)"
    and "e \<noteq> Panic" and "e \<noteq> Diverge" and "streamInv a st'" and "stEnc st' = stEnc st"
proof -
  let ?r = "stEnc st" and ?b = "blockLen st"
  obtain all where all: "createSlice st = Inr all" "length all = Shards ?r"
    "\<And>s. s \<in> set all \<Longrightarrow> s \<noteq> NilSlice \<and> sliceWf s \<and> sliceLen s = ?b" "0 < ?b"
    using createSlice_ok [OF assms(1)] by metis
  have D: "sameLength (Shards ?r) n D"
    using assms(3,4) by (simp add: sameLength_def)
  have "blocks ?r ?b all"
    using all by (auto simp: blocks_def)
  then have dst: "buffers ?b (present lost D) all"
    using assms(3) by (rule blocks_buffers)
  obtain all' where read: "streamRead (stOpts st) rsched all (streams (present lost D)) =
      (all', streams (present lost (map (drop ?b) D)), Inr ())" "length all' = Shards ?r" "keepCaps all all'"
    and all': "\<forall>i<Shards ?r. sliceWf (all' ! i) \<and> sliceLen (all' ! i) = (if i \<in> lost then 0 else min ?b n) \<and>
      (i \<notin> lost \<longrightarrow> bytesOf (all' ! i) = take ?b (D ! i))"
    by (rule present_read [OF dst D all(4) assms(5) some assms(2), where opts = "stOpts st"])
  have "all' ! i \<in> set all'" "all' ! j \<in> set all'"
    using lost some read(2) by simp_all
  moreover have "sliceLen (all' ! i) = 0" "sliceLen (all' ! j) \<noteq> 0"
    using all' lost some all(4) assms(5) by auto
  ultimately obtain e where verify: "Verify a ?r all' = Inl e" "e \<noteq> Panic" "e \<noteq> Diverge"
    by (rule Verify_missing [OF read(2)])
  let ?st = "st\<lparr>stEnc := ?r, stBlocks := all'\<rparr>"
  have "streamInv a ?st"
    using keepCaps_blocks [OF read(3) all(3,4)] read(2) assms(1)
    by (auto simp: streamInv_def blockLen_def keepCaps_def)
  moreover have "streams (present lost D) = map (\<lambda>i. if i \<in> lost then None else Some (ofData (D ! i))) [0..<length D]"
    by (rule nth_equalityI) (simp_all add: streams_def present_def)
  then have "streamVerify a rsched st (map (\<lambda>i. if i \<in> lost then None else Some (ofData (D ! i))) [0..<length D]) =
      (?st, streams (present lost (map (drop ?b) D)), Inl e)"
    using assms(3) all(1) read(1) verify(1)
    by (simp add: streamVerify_def) (subst streamLoop.simps, simp add: verifyRound_def Let_def)
  ultimately show ?thesis
    using that verify(2,3) by simp
qed

text \<open>
  C14. The streaming \<open>Verify\<close> on streams of equal length returns, and returns whether the whole
  streams are consistent.
\<close>

theorem streamVerify_decides:
  assumes "streamInv a st" and "fairSched rsched"
    and "length D = Shards (stEnc st)" and "\<forall>xs\<in>set D. length xs = n" and "0 < n"
  shows "\<exists>st' rds. streamVerify a rsched st (map (\<lambda>xs. Some (ofData xs)) D) =
      (st', rds, Inr (consistent (stEnc st) n (map ofBytes D))) \<and> streamInv a st'"
  using streamVerify_ok [OF assms] by blast

text \<open>A small encoder with blocks of two bytes.\<close>

definition revSched :: "'x list \<Rightarrow> nat list" where
  "revSched xs = rev [0..<length xs]"

lemma revSched_fair: "fairSched revSched"
  by (auto simp: fairSched_def revSched_def)

lemma testStream:
  obtains st where "NewStream Amd64 testCpu 2 2 [WithStreamBlockSize 2] = Inr st" and "streamInv Amd64 st"
    and "DataShards (stEnc st) = 2" and "ParityShards (stEnc st) = 2" and "Shards (stEnc st) = 4"
    and "mds_matrix 2 4 (rsMatrix (stEnc st))"
proof -
  have "mdsChosen (applyOptions [WithStreamBlockSize 2] (buildOptions Amd64 testCpu)) 2"
    by (simp add: mdsChosen_def applyOptions_def WithStreamBlockSize_def buildOptions_def defaultOptions_def)
  then obtain st where st: "NewStream Amd64 testCpu 2 2 [WithStreamBlockSize 2] = Inr st" "streamInv Amd64 st"
    "DataShards (stEnc st) = 2" "ParityShards (stEnc st) = 2" "mds_matrix 2 4 (rsMatrix (stEnc st))"
    using NewStream_Inr [OF cpuOk_testCpu, of "[WithStreamBlockSize 2]" 2 2 Amd64]
    by (auto simp: exportedOption.intros)
  moreover have "Shards (stEnc st) = 4"
    using st(2-4) by (simp add: streamInv_def encInv_def)
  ultimately show ?thesis
    by (intro that)
qed

lemma streamVerify_decides_witness:
  "\<exists>st st' rds. NewStream Amd64 testCpu 2 2 [WithStreamBlockSize 2] = Inr st \<and>
    streamVerify Amd64 revSched st (map (\<lambda>xs. Some (ofData xs)) [[0, 0, 0], [0, 0, 0], [0, 0, 0], [0, 0, 1]]) =
      (st', rds, Inr (consistent (stEnc st) 3 (map ofBytes [[0, 0, 0], [0, 0, 0], [0, 0, 0], [0, 0, 1]])))"
proof -
  obtain st where st: "NewStream Amd64 testCpu 2 2 [WithStreamBlockSize 2] = Inr st" "streamInv Amd64 st"
    "DataShards (stEnc st) = 2" "ParityShards (stEnc st) = 2" "Shards (stEnc st) = 4"
    "mds_matrix 2 4 (rsMatrix (stEnc st))"
    by (rule testStream)
  then show ?thesis
    using streamVerify_decides [OF st(2) revSched_fair, of "[[0, 0, 0], [0, 0, 0], [0, 0, 0], [0, 0, 1]]" 3] by auto
qed

end
