(* ===== verification/StreamCopy.thy ===== *)
theory StreamCopy
  imports StreamVerify
begin

text \<open>
  \<open>Split\<close> and \<open>Join\<close> of the streaming encoder in \<open>reedsolomon/streaming.go\<close>, with \<open>io.MultiReader\<close>
  and \<open>io.CopyN\<close> of the standard library, on which they rest.  A \<open>Read\<close> returns the bytes asked
  for, or all there are, and its error only when there are none, as \<open>bytes.Buffer\<close> and files do.
\<close>

subsection \<open>\<open>io.MultiReader\<close> and \<open>io.CopyN\<close>\<close>

definition readSome :: "reader \<Rightarrow> nat \<Rightarrow> reader \<times> byte list \<times> error option" where
  "readSome rd n =
     (if rdData rd = [] then (rd, [], Some (rdEnd rd))
      else (rd\<lparr>rdData := drop n (rdData rd)\<rparr>, take n (rdData rd), None))"

text \<open>A multi-reader is the list of the readers it still has.\<close>

fun multiRead :: "reader list \<Rightarrow> nat \<Rightarrow> reader list \<times> byte list \<times> error option" where
  "multiRead [] n = ([], [], Some IoEOF)"
| "multiRead (rd # rds) n =
     (case readSome rd n of (rd, bs, err) \<Rightarrow>
      if err = Some IoEOF then multiRead rds n else (rd # rds, bs, err))"

lemma multiRead_progress: "multiRead rds n = (rds', bs, None) \<Longrightarrow> 0 < n \<Longrightarrow> bs \<noteq> [] \<and> length bs \<le> n"
  by (induction rds n rule: multiRead.induct) (auto simp: readSome_def split: if_splits prod.splits)

lemma copyChunks_progress:
  assumes "(rds', bs, None) = multiRead rds (min 32768 n)" and "n \<noteq> 0"
  shows "n - length bs < n"
proof -
  have "bs \<noteq> []"
    using multiRead_progress [OF assms(1) [symmetric]] assms(2) by simp
  then show ?thesis
    using assms(2) by simp
qed

text \<open>The loop of \<open>io.Copy\<close> on a \<open>LimitedReader\<close>, through a buffer of 32 KB.\<close>

function copyChunks :: "('w \<Rightarrow> byte list \<Rightarrow> 'w \<times> nat \<times> error option) \<Rightarrow> 'w \<Rightarrow> reader list \<Rightarrow> nat \<Rightarrow> nat \<Rightarrow>
    'w \<times> reader list \<times> nat \<times> error option" where
  "copyChunks send w rds n written =
     (if n = 0 then (w, rds, written, None)
      else
        (case multiRead rds (min (32 * 1024) n) of
           (rds, bs, Some e) \<Rightarrow> (w, rds, written, if e = IoEOF then None else Some e)
         | (rds, bs, None) \<Rightarrow>
             (case send w bs of
                (w, k, Some e) \<Rightarrow> (w, rds, written + k, Some e)
              | (w, k, None) \<Rightarrow>
                  if k \<noteq> length bs then (w, rds, written + k, Some IoShortWrite)
                  else copyChunks send w rds (n - length bs) (written + k))))"
  by pat_completeness auto

termination copyChunks
  by (relation "measure (\<lambda>(send, w, rds, n, written). n)") (simp_all add: copyChunks_progress)

declare copyChunks.simps [simp del]

definition copyN :: "('w \<Rightarrow> byte list \<Rightarrow> 'w \<times> nat \<times> error option) \<Rightarrow> 'w \<Rightarrow> reader list \<Rightarrow> int \<Rightarrow>
    'w \<times> reader list \<times> int \<times> error option" where
  "copyN send w rds n =
     (case copyChunks send w rds (nat n) 0 of (w, rds, written, err) \<Rightarrow>
      (w, rds, int written,
       if int written = n then None
       else if int written < n \<and> err = None then Some IoEOF else err))"

subsection \<open>\<open>Join\<close>\<close>

definition streamJoin :: "('w \<Rightarrow> byte list \<Rightarrow> 'w \<times> nat \<times> error option) \<Rightarrow> rsStream \<Rightarrow> 'w \<Rightarrow>
    reader option list \<Rightarrow> int \<Rightarrow> 'w \<times> unit result" where
  "streamJoin send st dst shards outSize =
     (let d = DataShards (stEnc st) in
      if length shards < d then (dst, Inl ErrTooFewShards)
      else
        let shards = take d shards in
        (case find (\<lambda>i. shards ! i = None) [0..<d] of
           Some i \<Rightarrow> (dst, Inl (StreamReadError ErrShardNoData i))
         | None \<Rightarrow>
             (case copyN send dst (map the shards) outSize of (dst, rds, n, err) \<Rightarrow>
              (dst,
               if err = Some IoEOF then Inl ErrShortData
               else (case err of Some e \<Rightarrow> Inl e
                 | None \<Rightarrow> if n \<noteq> outSize then Inl ErrShortData else Inr ())))))"

subsection \<open>\<open>Split\<close>\<close>

text \<open>Go's division truncates.\<close>

definition quot :: "int \<Rightarrow> int \<Rightarrow> int" where
  "quot x y = sgn x * sgn y * (\<bar>x\<bar> div \<bar>y\<bar>)"

fun splitLoop :: "('w \<Rightarrow> byte list \<Rightarrow> 'w \<times> nat \<times> error option) \<Rightarrow> reader list \<Rightarrow> int \<Rightarrow> 'w list \<Rightarrow>
    'w list \<times> unit result" where
  "splitLoop send data perShard [] = ([], Inr ())"
| "splitLoop send data perShard (w # dst) =
     (case copyN send w data perShard of (w, data, n, err) \<Rightarrow>
      (case err of
         Some e \<Rightarrow>
           if e \<noteq> IoEOF then (w # dst, Inl e)
           else if n \<noteq> perShard then (w # dst, Inl ErrShortData)
           else (case splitLoop send data perShard dst of (dst, res) \<Rightarrow> (w # dst, res))
       | None \<Rightarrow>
           if n \<noteq> perShard then (w # dst, Inl ErrShortData)
           else (case splitLoop send data perShard dst of (dst, res) \<Rightarrow> (w # dst, res))))"

definition streamSplit :: "('w \<Rightarrow> byte list \<Rightarrow> 'w \<times> nat \<times> error option) \<Rightarrow> rsStream \<Rightarrow> reader \<Rightarrow>
    'w option list \<Rightarrow> int \<Rightarrow> 'w option list \<times> unit result" where
  "streamSplit send st data dst sz =
     (let d = int (DataShards (stEnc st)); t = int (Shards (stEnc st)) in
      if sz = 0 then (dst, Inl ErrShortData)
      else if int (length dst) \<noteq> d then (dst, Inl ErrInvShardNum)
      else
        (case find (\<lambda>i. dst ! i = None) [0..<length dst] of
           Some i \<Rightarrow> (dst, Inl (StreamWriteError ErrShardNoData i))
         | None \<Rightarrow>
             if d = 0 then (dst, Inl Panic)
             else
               let perShard = quot (wrap64 (wrap64 (sz + d) - 1)) d;
                   pad = wrap64 (wrap64 (t * perShard) - sz) in
               if pad < 0 then (dst, Inl Panic)
               else
                 (case splitLoop send [data, ofData (replicate (nat pad) 0)] perShard (map the dst) of
                    (dst, res) \<Rightarrow> (map Some dst, res))))"

subsection \<open>What is copied\<close>

lemma multiRead_ofData:
  assumes "0 < n"
  obtains (eof) "concat bss = []" and "multiRead (map ofData bss) n = ([], [], Some IoEOF)"
  | (read) bs bss' where "multiRead (map ofData bss) n = (map ofData bss', bs, None)" and "bs \<noteq> []"
      and "length bs \<le> n" and "concat bss = bs @ concat bss'"
proof (induction bss)
  case (Cons xs bss)
  show ?case
  proof (cases "xs = []")
    case True
    then have eq: "multiRead (map ofData (xs # bss)) n = multiRead (map ofData bss) n" "concat (xs # bss) = concat bss"
      by (simp_all add: readSome_def ofData_def)
    show ?thesis
      using Cons.prems unfolding eq by (rule Cons.IH)
  next
    case False
    show ?thesis
    proof (rule Cons.prems(2))
      show "multiRead (map ofData (xs # bss)) n = (map ofData (drop n xs # bss), take n xs, None)"
        using False by (simp add: readSome_def ofData_def)
    qed (use False assms in simp_all)
  qed
qed simp

context sure_writer begin

lemma copyChunks_ok:
  "\<exists>w' bss'. copyChunks send w (map ofData bss) n k =
      (w', map ofData bss', k + min n (length (concat bss)), None) \<and>
    content w' = content w @ take n (concat bss) \<and> concat bss' = drop n (concat bss)"
proof (induction n arbitrary: w bss k rule: less_induct)
  case (less n)
  show ?case
  proof (cases "n = 0")
    case True
    then show ?thesis
      by (subst copyChunks.simps) auto
  next
    case False
    then have "0 < min (32 * 1024) n"
      by simp
    then show ?thesis
    proof (cases rule: multiRead_ofData [of _ bss])
      case eof
      then show ?thesis
        using False by (subst copyChunks.simps) (auto intro: exI [of _ "[]"] simp del: concat_eq_Nil_conv)
    next
      case bs: (read bs bss')
      obtain w1 where w1: "send w bs = (w1, length bs, None)" "content w1 = content w @ bs"
        using send_all by blast
      have le: "length bs \<le> n"
        using bs(3) by simp
      have "n - length bs < n"
        using bs(2) False by simp
      then obtain w2 bss2 where rest: "copyChunks send w1 (map ofData bss') (n - length bs) (k + length bs) =
          (w2, map ofData bss2, k + length bs + min (n - length bs) (length (concat bss')), None)"
        "content w2 = content w1 @ take (n - length bs) (concat bss')"
        "concat bss2 = drop (n - length bs) (concat bss')"
        using less.IH by blast
      have "copyChunks send w (map ofData bss) n k =
          copyChunks send w1 (map ofData bss') (n - length bs) (k + length bs)"
        using False bs(1) w1(1) by (subst copyChunks.simps) simp
      then show ?thesis
        using rest w1(2) le bs(4) by (auto simp: min_def)
    qed
  qed
qed

lemma copyN_ok:
  "\<exists>w' bss'. copyN send w (map ofData bss) (int n) =
      (w', map ofData bss', int (min n (length (concat bss))),
       if n \<le> length (concat bss) then None else Some IoEOF) \<and>
    content w' = content w @ take n (concat bss) \<and> concat bss' = drop n (concat bss)"
  using copyChunks_ok [of w bss n 0] by (auto simp: copyN_def)

lemma splitLoop_ok:
  "if length ws * per \<le> length (concat bss)
    then \<exists>ws'. splitLoop send (map ofData bss) (int per) ws = (ws', Inr ()) \<and>
      map content ws' = map (\<lambda>i. content (ws ! i) @ take per (drop (i * per) (concat bss))) [0..<length ws]
    else snd (splitLoop send (map ofData bss) (int per) ws) = Inl ErrShortData"
proof (induction ws arbitrary: bss)
  case (Cons w ws)
  obtain w' bss' where copy: "copyN send w (map ofData bss) (int per) =
      (w', map ofData bss', int (min per (length (concat bss))),
       if per \<le> length (concat bss) then None else Some IoEOF)"
    "content w' = content w @ take per (concat bss)" "concat bss' = drop per (concat bss)"
    using copyN_ok by blast
  show ?case
  proof (cases "per \<le> length (concat bss)")
    case False
    then have "\<not> length (w # ws) * per \<le> length (concat bss)"
      by simp
    moreover have "snd (splitLoop send (map ofData bss) (int per) (w # ws)) = Inl ErrShortData"
      using copy(1) False by simp
    ultimately show ?thesis
      by simp
  next
    case True
    then have loop: "splitLoop send (map ofData bss) (int per) (w # ws) =
        (w' # fst (splitLoop send (map ofData bss') (int per) ws), snd (splitLoop send (map ofData bss') (int per) ws))"
      using copy(1) by (simp add: split_def)
    have le: "length (w # ws) * per \<le> length (concat bss) \<longleftrightarrow> length ws * per \<le> length (concat bss')"
      using True copy(3) by (simp add: le_diff_conv2 add.commute)
    have drops: "drop (i * per) (concat bss') = drop (Suc i * per) (concat bss)" for i
      using copy(3) by (simp add: add.commute)
    show ?thesis
    proof (cases "length ws * per \<le> length (concat bss')")
      case False
      then show ?thesis
        using Cons [of bss'] le loop by simp
    next
      case fits: True
      then obtain ws' where rest: "splitLoop send (map ofData bss') (int per) ws = (ws', Inr ())"
        "map content ws' = map (\<lambda>i. content (ws ! i) @ take per (drop (i * per) (concat bss'))) [0..<length ws]"
        using Cons [of bss'] by (auto simp: split: if_splits)
      have "map content (w' # ws') =
          map (\<lambda>i. content ((w # ws) ! i) @ take per (drop (i * per) (concat bss))) [0..<length (w # ws)]"
        using rest(2) copy(2) by (simp add: map_upt_Suc drops del: upt_Suc)
      then show ?thesis
        using fits le loop rest(1) by simp
    qed
  qed
qed simp

end

subsection \<open>Properties\<close>

lemma wrap64_small: "0 \<le> x \<Longrightarrow> x \<le> 256 * 2 ^ 54 \<Longrightarrow> wrap64 x = x"
  by (rule wrap64_id) (simp add: int64_def)

lemma splitSizes:
  assumes "0 < d" and "d \<le> t" and "t \<le> 256" and "0 < n" and "n \<le> 2 ^ 54" and per: "per = (n + d - 1) div d"
  shows "quot (wrap64 (wrap64 (int n + int d) - 1)) (int d) = int per"
    and "wrap64 (wrap64 (int t * int per) - int n) = int (t * per - n)" and "n \<le> d * per"
proof -
  have n: "int n \<le> 2 ^ 54" and d: "int d \<le> 256"
    using assms by simp_all
  then have "wrap64 (int n + int d) = int n + int d"
    by (intro wrap64_id) (simp add: int64_def)
  moreover have "wrap64 (int n + int d - 1) = int n + int d - 1"
    using n d assms(1,4) by (intro wrap64_id) (simp add: int64_def)
  ultimately have "wrap64 (wrap64 (int n + int d) - 1) = int (n + d - 1)"
    using assms(1) by (simp add: of_nat_diff)
  then show "quot (wrap64 (wrap64 (int n + int d) - 1)) (int d) = int per"
    using assms(1,4) by (simp add: quot_def per zdiv_int del: of_nat_diff)
  have "per \<le> n"
  proof -
    have "(n + d - 1) div d \<le> (d * n) div d"
      using assms(1,4) by (intro div_le_mono) (cases n; cases d; simp)
    then show ?thesis
      using assms(1) per by simp
  qed
  then have "t * per \<le> 256 * n"
    using assms(3) by (intro mult_mono) simp_all
  also have "\<dots> \<le> 256 * 2 ^ 54"
    using assms(5) by simp
  finally have "int (t * per) \<le> int (256 * 2 ^ 54)"
    by (rule zle_int [THEN iffD2])
  then have small: "0 \<le> int t * int per" "int t * int per \<le> 256 * 2 ^ 54"
    by simp_all
  then have tp: "wrap64 (int t * int per) = int t * int per"
    by (rule wrap64_small)
  have "d * per + (n + d - 1) mod d = n + d - 1" "(n + d - 1) mod d < d"
    using assms(1) unfolding per by simp_all
  then show "n \<le> d * per"
    using assms(1) by linarith
  then have "n \<le> t * per"
    using assms(2) by (meson le_trans mult_le_mono1)
  then show "wrap64 (wrap64 (int t * int per) - int n) = int (t * per - n)"
  proof -
    assume "n \<le> t * per"
    then have "int n \<le> int t * int per"
      by (metis of_nat_le_iff of_nat_mult)
    moreover from this have "wrap64 (int t * int per - int n) = int t * int per - int n"
      using small(2) by (intro wrap64_small) simp_all
    ultimately show ?thesis
      using \<open>n \<le> t * per\<close> unfolding tp by (simp add: of_nat_diff)
  qed
qed

lemma find_None_upt: "(\<And>i. i < n \<Longrightarrow> \<not> P i) \<Longrightarrow> find P [0..<n] = None"
  by (auto simp: find_None_iff)

lemma streamSplit_ok:
  assumes "encInv a (stEnc st)" and "length dst = DataShards (stEnc st)" and "None \<notin> set dst"
    and "0 < n" and "n \<le> 2 ^ 54" and "per = (n + DataShards (stEnc st) - 1) div DataShards (stEnc st)"
  shows "if n \<le> length bs + ParityShards (stEnc st) * per
    then streamSplit bufferWrite st (ofData bs) dst (int n) =
      (map (\<lambda>i. appendTo (dst ! i) (take per (drop (i * per)
        (bs @ replicate (Shards (stEnc st) * per - n) 0)))) [0..<DataShards (stEnc st)], Inr ())
    else snd (streamSplit bufferWrite st (ofData bs) dst (int n)) = Inl ErrShortData"
proof -
  let ?d = "DataShards (stEnc st)" and ?t = "Shards (stEnc st)" and ?p = "ParityShards (stEnc st)"
  let ?bss = "[bs, replicate (?t * per - n) 0]" and ?ws = "map the dst"
  have t: "?t = ?d + ?p" "0 < ?d" "?t \<le> 256" "?d \<le> ?t"
    using assms(1) by (auto simp: encInv_def)
  note sizes = splitSizes [OF t(2,4,3) assms(4,5,6)]
  have some: "dst ! i \<noteq> None" if "i < length dst" for i
    using assms(3) that by (metis nth_mem)
  then have none: "find (\<lambda>i. dst ! i = None) [0..<length dst] = None"
    by (intro find_None_upt)
  have "n \<le> ?d * per"
    by (rule sizes(3))
  moreover have "?t * per = ?d * per + ?p * per"
    using t(1) by (simp add: add_mult_distrib)
  ultimately have room: "?d * per \<le> length (concat ?bss) \<longleftrightarrow> n \<le> length bs + ?p * per"
    by simp linarith
  have "streamSplit bufferWrite st (ofData bs) dst (int n) =
      (case splitLoop bufferWrite (map ofData ?bss) (int per) ?ws of (dst, res) \<Rightarrow> (map Some dst, res))"
    using assms(2,4) t(2) none sizes(1,2) by (simp add: streamSplit_def Let_def)
  note run = this
  show ?thesis
  proof (cases "n \<le> length bs + ?p * per")
    case True
    then obtain ws where ws: "splitLoop bufferWrite (map ofData ?bss) (int per) ?ws = (ws, Inr ())"
      "ws = map (\<lambda>i. ?ws ! i @ take per (drop (i * per) (concat ?bss))) [0..<length ?ws]"
      using buffer.splitLoop_ok [of ?ws per ?bss] room assms(2) by (auto simp: split: if_splits)
    have "map Some ws = map (\<lambda>i. appendTo (dst ! i) (take per (drop (i * per)
        (bs @ replicate (?t * per - n) 0)))) [0..<?d]"
    proof (rule nth_equalityI)
      fix i assume "i < length (map Some ws)"
      then have i: "i < length dst"
        using ws(2) by simp
      then obtain v where "dst ! i = Some v" "?ws ! i = v"
        using some [of i] by auto
      then show "map Some ws ! i = map (\<lambda>i. appendTo (dst ! i) (take per (drop (i * per)
          (bs @ replicate (?t * per - n) 0)))) [0..<?d] ! i"
        using i ws(2) assms(2) by simp
    qed (use ws(2) assms(2) in simp)
    then show ?thesis
      using True run ws(1) by simp
  next
    case False
    then have "snd (splitLoop bufferWrite (map ofData ?bss) (int per) ?ws) = Inl ErrShortData"
      using buffer.splitLoop_ok [of ?ws per ?bss] room assms(2) by (auto simp: split: if_splits)
    then show ?thesis
      using False run by (simp add: split_def)
  qed
qed

text \<open>
  C33. The streaming \<open>Split\<close> cuts the stream, followed by \<open>Shards * perShard - size\<close> zeros, into equal
  parts.  It returns \<open>ErrShortData\<close> only where more than \<open>ParityShards * perShard\<close> of the announced
  bytes are missing: a stream that is shorter by less is padded with zeros without an error.
\<close>

theorem streamSplit_result:
  assumes "encInv a (stEnc st)" and "length dst = DataShards (stEnc st)" and "None \<notin> set dst"
    and "0 < n" and "n \<le> 2 ^ 54" and "per = (n + DataShards (stEnc st) - 1) div DataShards (stEnc st)"
  shows "if n \<le> length bs + ParityShards (stEnc st) * per
    then streamSplit bufferWrite st (ofData bs) dst (int n) =
      (map (\<lambda>i. appendTo (dst ! i) (take per (drop (i * per)
        (bs @ replicate (Shards (stEnc st) * per - n) 0)))) [0..<DataShards (stEnc st)], Inr ())
    else snd (streamSplit bufferWrite st (ofData bs) dst (int n)) = Inl ErrShortData"
  using streamSplit_ok [OF assms] .

text \<open>Five bytes are announced and three arrive: the shards are written and there is no error.\<close>

lemma streamSplit_result_witness:
  "\<exists>st. NewStream Amd64 testCpu 2 2 [WithStreamBlockSize 2] = Inr st \<and>
    streamSplit bufferWrite st (ofData [1, 2, 3]) [Some [], Some []] 5 = ([Some [1, 2, 3], Some [0, 0, 0]], Inr ())"
proof -
  obtain st where st: "NewStream Amd64 testCpu 2 2 [WithStreamBlockSize 2] = Inr st" "streamInv Amd64 st"
    "DataShards (stEnc st) = 2" "ParityShards (stEnc st) = 2" "Shards (stEnc st) = 4"
    "mds_matrix 2 4 (rsMatrix (stEnc st))"
    by (rule testStream)
  have inv: "encInv Amd64 (stEnc st)"
    using st(2) by (simp add: streamInv_def)
  have fits: "5 \<le> length [1::byte, 2, 3] + ParityShards (stEnc st) * 3"
    using st(4) by simp
  have "streamSplit bufferWrite st (ofData [1, 2, 3]) [Some [], Some []] (int 5) =
      (map (\<lambda>i. appendTo ([Some [], Some []] ! i) (take 3 (drop (i * 3)
        ([1, 2, 3] @ replicate (Shards (stEnc st) * 3 - 5) 0)))) [0..<DataShards (stEnc st)], Inr ())"
    by (rule streamSplit_result [OF inv, of "[Some [], Some []]" 5 3 "[1, 2, 3]", THEN if_P [THEN iffD1, rotated], OF _ _ _ _ _ fits])
      (use st(3) in simp_all)
  also have "\<dots> = ([Some [1, 2, 3], Some [0, 0, 0]], Inr ())"
    unfolding st(3,5) by (simp add: upt_rec eval_nat_numeral)
  finally show ?thesis
    using st(1) by auto
qed

text \<open>What \<open>Join\<close> writes, and how it ends.\<close>

lemma streamJoin_ok:
  assumes "DataShards (stEnc st) \<le> length D"
  shows "streamJoin bufferWrite st w (map (\<lambda>xs. Some (ofData xs)) D) (int n) =
    (w @ take n (concat (take (DataShards (stEnc st)) D)),
      if n \<le> length (concat (take (DataShards (stEnc st)) D)) then Inr () else Inl ErrShortData)"
proof -
  let ?d = "DataShards (stEnc st)"
  have none: "find (\<lambda>i. take ?d (map (\<lambda>xs. Some (ofData xs)) D) ! i = None) [0..<?d] = None"
    using assms by (intro find_None_upt) simp
  have "map the (take ?d (map (\<lambda>xs. Some (ofData xs)) D)) = map ofData (take ?d D)"
    by (simp add: take_map o_def)
  moreover obtain bss' where "copyN bufferWrite w (map ofData (take ?d D)) (int n) =
      (w @ take n (concat (take ?d D)), map ofData bss', int (min n (length (concat (take ?d D)))),
       if n \<le> length (concat (take ?d D)) then None else Some IoEOF)"
    using buffer.copyN_ok [of w "take ?d D" n] by blast
  ultimately show ?thesis
    using assms none by (simp add: streamJoin_def Let_def)
qed

lemma concat_parts:
  "concat (map (\<lambda>i. take per (drop (i * per) xs)) [0..<k]) = take (k * per) xs"
proof (induction k)
  case (Suc k)
  then show ?case
    by (simp add: take_add [symmetric] add.commute)
qed simp

text \<open>
  C32. \<open>Join\<close> undoes \<open>Split\<close>: a stream of \<open>n\<close> bytes that is split into data streams comes back when
  these, with or without parity streams after them, are joined to \<open>n\<close> bytes.
\<close>

theorem streamSplit_Join:
  assumes "encInv a (stEnc st)" and "bs \<noteq> []" and "length bs \<le> 2 ^ 54"
  shows "\<exists>S. streamSplit bufferWrite st (ofData bs) (replicate (DataShards (stEnc st)) (Some [])) (int (length bs)) =
      (map Some S, Inr ()) \<and>
    streamJoin bufferWrite st w (map (\<lambda>xs. Some (ofData xs)) (S @ P)) (int (length bs)) = (w @ bs, Inr ())"
proof -
  let ?d = "DataShards (stEnc st)" and ?n = "length bs"
  define per where "per = (?n + ?d - 1) div ?d"
  define all where "all = bs @ replicate (Shards (stEnc st) * per - ?n) 0"
  let ?S = "map (\<lambda>i. take per (drop (i * per) all)) [0..<?d]"
  have t: "0 < ?d" "?d \<le> Shards (stEnc st)" "Shards (stEnc st) \<le> 256"
    using assms(1) by (auto simp: encInv_def)
  have fits: "?n \<le> ?d * per"
    using splitSizes(3) [OF t _ assms(3) per_def] assms(2) by simp
  have "streamSplit bufferWrite st (ofData bs) (replicate ?d (Some [])) (int ?n) = (map Some ?S, Inr ())"
    using streamSplit_ok [OF assms(1) _ _ _ assms(3) per_def, of "replicate ?d (Some [])" bs] assms(2)
    by (simp add: all_def [symmetric])
  moreover have "concat (take ?d (?S @ P)) = take (?d * per) all"
    by (simp add: concat_parts)
  then have "take ?n (concat (take ?d (?S @ P))) = bs" "?n \<le> length (concat (take ?d (?S @ P)))"
    using fits mult_le_mono1 [OF t(2), of per] by (simp_all only:) (simp_all add: all_def)
  then have "streamJoin bufferWrite st w (map (\<lambda>xs. Some (ofData xs)) (?S @ P)) (int ?n) = (w @ bs, Inr ())"
    using streamJoin_ok [of st "?S @ P" w ?n] by simp
  ultimately show ?thesis
    by blast
qed

lemma streamSplit_Join_witness:
  "\<exists>st S. NewStream Amd64 testCpu 2 2 [WithStreamBlockSize 2] = Inr st \<and>
    streamSplit bufferWrite st (ofData [1, 2, 3, 4, 5]) [Some [], Some []] 5 = (map Some S, Inr ()) \<and>
    streamJoin bufferWrite st [] (map (\<lambda>xs. Some (ofData xs)) (S @ [[7, 7]])) 5 = ([1, 2, 3, 4, 5], Inr ())"
proof -
  obtain st where st: "NewStream Amd64 testCpu 2 2 [WithStreamBlockSize 2] = Inr st" "streamInv Amd64 st"
    "DataShards (stEnc st) = 2" "ParityShards (stEnc st) = 2" "Shards (stEnc st) = 4"
    "mds_matrix 2 4 (rsMatrix (stEnc st))"
    by (rule testStream)
  have inv: "encInv Amd64 (stEnc st)"
    using st(2) by (simp add: streamInv_def)
  have two: "replicate 2 (Some []) = [Some [], Some []]"
    by (simp add: numeral_2_eq_2)
  show ?thesis
    using streamSplit_Join [OF inv, of "[1, 2, 3, 4, 5]" "[]" "[[7, 7]]"] st(1,3) by (auto simp: two)
qed

end
