(* ===== verification/StreamRecover.thy ===== *)
theory StreamRecover
  imports StreamVerify
begin

text \<open>
  \<open>Reconstruct\<close> of the streaming encoder writes the lost streams, and the three operations
  together: encode streams, lose as many as there are parity streams, get them back.
\<close>

lemma reconstruct_round:
  assumes inv: "encInv a r" and safe: "poolSafe a r"
    and mds: "0 < ParityShards r \<longrightarrow> mds_matrix (DataShards r) (Shards r) (rsMatrix r)"
    and dst: "buffers m (present lost D) all" and D: "sameLength (Shards r) n D"
    and cons: "consistent r n (map ofBytes D)" and m: "0 < m" and n: "0 < n"
    and enough: "DataShards r \<le> card ({..<Shards r} - lost)"
    and fair: "fairSched rsched" "fairSched wsched" and fill: "length fill = Shards r"
    and only: "dataOnly \<longrightarrow> (\<forall>i. DataShards r \<le> i \<and> i < Shards r \<longrightarrow> fill ! i = None)"
  obtains r' all' where "reconstructRound a opts rsched wsched bufferWrite dataOnly r all
        (streams (present lost D)) fill rd =
      ((r', all', streams (present lost (map (drop m) D)),
        map (\<lambda>i. appendTo (fill ! i) (take m (D ! i))) [0..<Shards r], rd + min m n), None)"
    and "encInv a r'" and "\<exists>t pool. r' = r\<lparr>rsTree := t, rsPool := pool\<rparr>"
    and "buffers (min m n) (present lost (map (drop m) D)) all'" and "keepCaps all all'"
proof -
  let ?d = "DataShards r" and ?t = "Shards r" and ?sz = "min m n"
  have t: "?t = ?d + ParityShards r" "0 < ?d"
    using inv by (auto simp: encInv_def)
  have "{..<?t} - lost \<noteq> {}"
    using enough t(2) by (metis card.empty not_le)
  then obtain k where k: "k < ?t" "k \<notin> lost"
    by auto
  obtain all1 where read: "streamRead opts rsched all (streams (present lost D)) =
      (all1, streams (present lost (map (drop m) D)), Inr ())" "length all1 = ?t"
      "shardSize all1 = ?sz" "keepCaps all all1"
    and all1: "\<forall>i<?t. sliceWf (all1 ! i) \<and> sliceLen (all1 ! i) = (if i \<in> lost then 0 else ?sz) \<and>
      (i \<notin> lost \<longrightarrow> bytesOf (all1 ! i) = take m (D ! i))"
    by (rule present_read [OF dst D m n k fair(1), where opts = opts])
  have cut_same: "cutTo (if sliceLen s = 0 then 0 else ?sz) s = s" if "s \<in> set all1" for s
  proof -
    obtain i where "i < ?t" "s = all1 ! i"
      using \<open>s \<in> set all1\<close> read(2) by (auto simp: in_set_conv_nth)
    then have "sliceLen s = (if sliceLen s = 0 then 0 else ?sz)"
      using all1 by (auto split: if_splits)
    then show ?thesis
      by (cases s) (auto simp: cutTo_def)
  qed
  have "sliceWf s \<and> (sliceLen s = 0 \<or> ?sz \<le> sliceLen s)" if "s \<in> set all1" for s
  proof -
    obtain i where "i < ?t" "s = all1 ! i"
      using \<open>s \<in> set all1\<close> read(2) by (auto simp: in_set_conv_nth)
    then show ?thesis
      using all1 by (cases "i \<in> lost") auto
  qed
  then have trim: "trimShards all1 ?sz = Inr all1"
    using trimShards_ok [of all1 ?sz] m n map_idI [OF cut_same] by simp
  define orig where "orig = map (\<lambda>i. if i \<in> lost then ofBytes (take m (D ! i)) else all1 ! i) [0..<?t]"
  have len: "length D = ?t" "\<And>i. i < ?t \<Longrightarrow> length (D ! i) = n"
    using D by (auto simp: sameLength_def)
  have orig: "sliceWf (orig ! i)" "sliceLen (orig ! i) = ?sz" "bytesOf (orig ! i) = take m (D ! i)" if "i < ?t" for i
    using that all1 len by (auto simp: orig_def min_def)
  have "shardsOk r ?sz orig"
    unfolding shardsOk_nth blocks_def using orig m n by (simp add: orig_def)
  moreover have "consistent r ?sz orig = consistent r ?sz (map ofBytes (map (take m) D))"
    using orig len t by (intro consistent_cong) simp
  then have "consistent r ?sz orig"
    using consistent_split [OF D t(1), of m] cons by simp
  moreover have "erasedFrom orig all1"
    using all1 read(2) by (simp add: erasedFrom_def orig_def)
  moreover have "{i. i < length all1 \<and> sliceLen (all1 ! i) \<noteq> 0} = {..<?t} - lost"
    using all1 read(2) m n by (auto split: if_splits)
  then have "numPresent all1 = card ({..<?t} - lost)"
    by (simp add: numPresent_def length_filter_conv_card)
  then have "?d \<le> numPresent all1"
    using enough by simp
  ultimately obtain ss r' where rec: "reconstruct a r all1 dataOnly = Inr (ss, r')" "encInv a r'"
      "\<exists>t pool. r' = r\<lparr>rsTree := t, rsPool := pool\<rparr>" "length ss = ?t"
      "\<forall>i<?t. sliceCap (all1 ! i) \<le> sliceCap (ss ! i)"
    and ss: "\<forall>i<?t. if i < ?d \<or> \<not> dataOnly then recovers ?sz orig (ss ! i) i else ss ! i = all1 ! i"
    using reconstruct_cases [OF inv disjI1 [OF safe], of ?sz orig all1 dataOnly] mds safe
    by (cases "reconstruct a r all1 dataOnly") auto
  have got: "sliceWf (ss ! i)" "i < ?d \<or> \<not> dataOnly \<Longrightarrow> bytesOf (ss ! i) = take m (D ! i)"
    "i \<notin> lost \<Longrightarrow> sliceLen (ss ! i) = ?sz" if "i < ?t" for i
    using ss [rule_format, OF that] orig [OF that] all1 [rule_format, OF that]
    by (auto simp: recovers_def split: if_splits)
  have sent: "streamWrite opts wsched bufferWrite fill ss =
      (map2 (\<lambda>w s. appendTo w (bytesOf s)) fill ss, Inr ())"
    using fair(2) rec(4) got(1) fill by (intro streamWrite_ok) (auto simp: fairSched_def list_all_length)
  have "map2 (\<lambda>w s. appendTo w (bytesOf s)) fill ss = map (\<lambda>i. appendTo (fill ! i) (take m (D ! i))) [0..<?t]"
  proof (rule nth_equalityI)
    fix i assume "i < length (map2 (\<lambda>w s. appendTo w (bytesOf s)) fill ss)"
    then have i: "i < ?t"
      using rec(4) fill by simp
    then show "map2 (\<lambda>w s. appendTo w (bytesOf s)) fill ss ! i =
        map (\<lambda>i. appendTo (fill ! i) (take m (D ! i))) [0..<?t] ! i"
      using rec(4) fill got(2) [OF i] only by (cases "i < ?d \<or> \<not> dataOnly") auto
  qed (use rec(4) fill in simp)
  moreover have "(if dataOnly then ReconstructData a r all1 else Reconstruct a r all1) = Inr (ss, r')"
    using rec(1) by (cases dataOnly) (simp_all add: Reconstruct_def ReconstructData_def)
  ultimately have "reconstructRound a opts rsched wsched bufferWrite dataOnly r all (streams (present lost D)) fill rd =
      ((r', ss, streams (present lost (map (drop m) D)),
        map (\<lambda>i. appendTo (fill ! i) (take m (D ! i))) [0..<?t], rd + ?sz), None)"
    using read trim sent by (simp add: reconstructRound_def Let_def)
  moreover have "buffers ?sz (present lost (map (drop m) D)) ss"
    using got rec(4) len by (auto simp: buffers_def present_def)
  moreover have "keepCaps all1 ss"
    using rec(4,5) read(2) by (simp add: keepCaps_def)
  ultimately show ?thesis
    using that rec(2,3) keepCaps_trans [OF read(4)] by blast
qed

lemma encoder_same:
  assumes "r' = r\<lparr>rsTree := t, rsPool := pool\<rparr>"
  shows "poolSafe a r' = poolSafe a r" and "DataShards r' = DataShards r" and "ParityShards r' = ParityShards r"
    and "Shards r' = Shards r" and "rsMatrix r' = rsMatrix r" and "consistent r' n ss = consistent r n ss"
  using assms by (simp_all add: poolSafe_def consistent_def)

lemma streamReconstruct_loop:
  assumes fair: "fairSched rsched" "fairSched wsched"
  shows "encInv a r \<Longrightarrow> poolSafe a r \<Longrightarrow>
    0 < ParityShards r \<longrightarrow> mds_matrix (DataShards r) (Shards r) (rsMatrix r) \<Longrightarrow>
    buffers m (present lost D) all \<Longrightarrow> 0 < m \<Longrightarrow> sameLength (Shards r) n D \<Longrightarrow>
    consistent r n (map ofBytes D) \<Longrightarrow> DataShards r \<le> card ({..<Shards r} - lost) \<Longrightarrow>
    length fill = Shards r \<Longrightarrow> dataOnly \<longrightarrow> (\<forall>i. DataShards r \<le> i \<and> i < Shards r \<longrightarrow> fill ! i = None) \<Longrightarrow>
    0 < rd \<or> 0 < n \<Longrightarrow>
    \<exists>r' all' rds rd'. streamLoop (\<lambda>(r, all, valid, fill, rd).
        reconstructRound a opts rsched wsched bufferWrite dataOnly r all valid fill rd)
        (r, all, streams (present lost D), fill, rd) =
      Some ((r', all', rds, map (\<lambda>i. appendTo (fill ! i) (D ! i)) [0..<Shards r], rd'), Inr ()) \<and>
      encInv a r' \<and> (\<exists>t pool. r' = r\<lparr>rsTree := t, rsPool := pool\<rparr>) \<and> keepCaps all all'"
proof (induction n arbitrary: r m all D fill rd rule: less_induct)
  case (less n)
  let ?f = "\<lambda>(r, all, valid, fill, rd).
      reconstructRound a opts rsched wsched bufferWrite dataOnly r all valid fill rd"
  have m: "0 < m" and d: "0 < DataShards r"
    using less.prems(1,5) by (simp_all add: encInv_def)
  have len: "length D = Shards r" "\<And>i. i < Shards r \<Longrightarrow> length (D ! i) = n"
    using less.prems(6) by (auto simp: sameLength_def)
  have self: "\<exists>t pool. r = r\<lparr>rsTree := t, rsPool := pool\<rparr>"
    by (rule exI [of _ "rsTree r"], rule exI [of _ "rsPool r"]) simp
  show ?case
  proof (cases "n = 0")
    case True
    then have D: "sameLength (Shards r) 0 D"
      using less.prems(6) by simp
    have "{..<Shards r} - lost \<noteq> {}"
      using less.prems(8) d by (metis card.empty not_le)
    then obtain k where k: "k < Shards r" "k \<notin> lost"
      by auto
    obtain all' where "streamRead opts rsched all (streams (present lost D)) =
        (all', streams (present lost D), Inl IoEOF)" "keepCaps all all'"
      by (rule present_end [OF less.prems(4) D m k fair(1), where opts = opts])
    moreover have "map (\<lambda>i. appendTo (fill ! i) (D ! i)) [0..<Shards r] = fill"
      using less.prems(9) len True by (auto intro: nth_equalityI)
    ultimately show ?thesis
      using less.prems(1,11) True self by (subst streamLoop.simps) (auto simp: reconstructRound_def)
  next
    case False
    then have n: "0 < n"
      by simp
    let ?fill = "map (\<lambda>i. appendTo (fill ! i) (take m (D ! i))) [0..<Shards r]"
    obtain r1 all1 where round: "reconstructRound a opts rsched wsched bufferWrite dataOnly r all
          (streams (present lost D)) fill rd =
        ((r1, all1, streams (present lost (map (drop m) D)), ?fill, rd + min m n), None)"
      and r1: "encInv a r1" "\<exists>t pool. r1 = r\<lparr>rsTree := t, rsPool := pool\<rparr>"
      "buffers (min m n) (present lost (map (drop m) D)) all1" "keepCaps all all1"
      by (rule reconstruct_round [OF less.prems(1-4,6,7) m n less.prems(8) fair less.prems(9,10),
            where opts = opts and rd = rd])
    obtain t pool where r1_def: "r1 = r\<lparr>rsTree := t, rsPool := pool\<rparr>"
      using r1(2) by blast
    note same = encoder_same [OF r1_def]
    have rest: "\<exists>r' all' rds rd'. streamLoop ?f (r1, all1, streams (present lost (map (drop m) D)), ?fill, rd + min m n) =
        Some ((r', all', rds, map (\<lambda>i. appendTo (?fill ! i) (map (drop m) D ! i)) [0..<Shards r1], rd'), Inr ()) \<and>
        encInv a r' \<and> (\<exists>t pool. r' = r1\<lparr>rsTree := t, rsPool := pool\<rparr>) \<and> keepCaps all1 all'"
    proof (rule less.IH [OF _ r1(1) _ _ r1(3)])
      show "n - m < n"
        using n m by simp
      show "poolSafe a r1" "0 < ParityShards r1 \<longrightarrow> mds_matrix (DataShards r1) (Shards r1) (rsMatrix r1)"
        "DataShards r1 \<le> card ({..<Shards r1} - lost)"
        using less.prems(2,3,8) by (simp_all only: same)
      show "0 < min m n"
        using n m by simp
      show "sameLength (Shards r1) (n - m) (map (drop m) D)"
        using sameLength_parts(2) [OF less.prems(6)] by (simp only: same)
      show "consistent r1 (n - m) (map ofBytes (map (drop m) D))"
        using consistent_split [OF less.prems(6), of m] less.prems(1,7) unfolding same encInv_def by blast
      show "length ?fill = Shards r1"
        by (simp add: same)
      show "dataOnly \<longrightarrow> (\<forall>i. DataShards r1 \<le> i \<and> i < Shards r1 \<longrightarrow> ?fill ! i = None)"
        using less.prems(10) by (simp add: same)
      show "0 < rd + min m n \<or> 0 < n - m"
        using n m by simp
    qed
    have written: "map (\<lambda>i. appendTo (?fill ! i) (map (drop m) D ! i)) [0..<Shards r1] =
        map (\<lambda>i. appendTo (fill ! i) (D ! i)) [0..<Shards r]"
      using len(1) by (simp add: same)
    obtain r' all' rds rd' ta pa where run: "streamLoop ?f (r1, all1,
          streams (present lost (map (drop m) D)), ?fill, rd + min m n) =
        Some ((r', all', rds, map (\<lambda>i. appendTo (fill ! i) (D ! i)) [0..<Shards r], rd'), Inr ())"
      "encInv a r'" "keepCaps all1 all'" and r': "r' = r1\<lparr>rsTree := ta, rsPool := pa\<rparr>"
      using rest unfolding written by (elim exE conjE)
    have "streamLoop ?f (r, all, streams (present lost D), fill, rd) =
        streamLoop ?f (r1, all1, streams (present lost (map (drop m) D)), ?fill, rd + min m n)"
      by (subst streamLoop.simps) (simp add: round)
    moreover have "r' = r\<lparr>rsTree := ta, rsPool := pa\<rparr>"
      by (simp add: r' r1_def)
    ultimately show ?thesis
      using run(1,2) keepCaps_trans [OF r1(4) run(3)] by (intro exI conjI) (assumption | erule trans)+
  qed
qed

lemma streamReconstruct_ok:
  assumes "streamInv a st" and "poolSafe a (stEnc st)"
    and "0 < ParityShards (stEnc st) \<longrightarrow>
      mds_matrix (DataShards (stEnc st)) (Shards (stEnc st)) (rsMatrix (stEnc st))"
    and "fairSched rsched" and "fairSched wsched"
    and "length D = Shards (stEnc st)" and "\<forall>xs\<in>set D. length xs = n" and "0 < n"
    and "consistent (stEnc st) n (map ofBytes D)"
    and "lost \<subseteq> {..<Shards (stEnc st)}" and "card lost \<le> ParityShards (stEnc st)"
    and "length fill = Shards (stEnc st)" and "\<forall>i<Shards (stEnc st). i \<notin> lost \<longrightarrow> fill ! i = None"
  shows "\<exists>st' rds. streamReconstruct a rsched wsched bufferWrite st
      (map (\<lambda>i. if i \<in> lost then None else Some (ofData (D ! i))) [0..<length D]) fill =
      (st', rds, map (\<lambda>i. appendTo (fill ! i) (D ! i)) [0..<length D], Inr ()) \<and> streamInv a st' \<and>
      (\<exists>t pool. stEnc st' = (stEnc st)\<lparr>rsTree := t, rsPool := pool\<rparr>)"
proof -
  let ?r = "stEnc st" and ?b = "blockLen st"
  let ?valid = "map (\<lambda>i. if i \<in> lost then None else Some (ofData (D ! i))) [0..<length D]"
  let ?only = "list_all (\<lambda>w. w = None) (drop (DataShards ?r) fill)"
  have inv: "encInv a ?r" "Shards ?r = DataShards ?r + ParityShards ?r"
    using assms(1) by (auto simp: streamInv_def encInv_def)
  obtain all where all: "createSlice st = Inr all" "length all = Shards ?r"
    "\<And>s. s \<in> set all \<Longrightarrow> s \<noteq> NilSlice \<and> sliceWf s \<and> sliceLen s = ?b" "0 < ?b"
    using createSlice_ok [OF assms(1)] by metis
  have "blocks ?r ?b all"
    using all by (auto simp: blocks_def)
  then have dst: "buffers ?b (present lost D) all"
    using assms(6) by (rule blocks_buffers)
  have D: "sameLength (Shards ?r) n D"
    using assms(6,7) by (simp add: sameLength_def)
  have "card ({..<Shards ?r} - lost) = Shards ?r - card lost"
    using assms(10) by (simp add: card_Diff_subset finite_subset)
  then have enough: "DataShards ?r \<le> card ({..<Shards ?r} - lost)"
    using assms(11) inv(2) by simp
  have only: "?only \<longrightarrow> (\<forall>i. DataShards ?r \<le> i \<and> i < Shards ?r \<longrightarrow> fill ! i = None)"
  proof (intro impI allI)
    fix i assume "?only" "DataShards ?r \<le> i \<and> i < Shards ?r"
    then show "fill ! i = None"
      using assms(12) by (auto simp: list_all_length dest: spec [of _ "i - DataShards ?r"])
  qed
  obtain r' all' rds rd' where loop: "streamLoop (\<lambda>(r, all, valid, fill, rd).
        reconstructRound a (stOpts st) rsched wsched bufferWrite ?only r all valid fill rd)
        (?r, all, streams (present lost D), fill, 0) =
      Some ((r', all', rds, map (\<lambda>i. appendTo (fill ! i) (D ! i)) [0..<Shards ?r], rd'), Inr ())"
      "encInv a r'" "\<exists>t pool. r' = ?r\<lparr>rsTree := t, rsPool := pool\<rparr>" "keepCaps all all'"
    using streamReconstruct_loop [OF assms(4,5) inv(1) assms(2,3) dst all(4) D assms(9) enough assms(12) only
        disjI2 [OF assms(8)], where opts = "stOpts st"] by blast
  have "streamInv a (st\<lparr>stEnc := r', stBlocks := all'\<rparr>)"
    using keepCaps_blocks [OF loop(4) all(3,4)] loop(2-4) all(2) assms(1)
    by (auto simp: streamInv_def blockLen_def keepCaps_def)
  moreover have "streams (present lost D) = ?valid"
    by (rule nth_equalityI) (simp_all add: streams_def present_def)
  moreover have "\<not> list_ex (\<lambda>i. ?valid ! i \<noteq> None \<and> fill ! i \<noteq> None) [0..<Shards ?r]"
    using assms(6,13) by (auto simp: list_ex_iff)
  ultimately show ?thesis
    using loop(1,3) all(1) assms(6,12) by (simp add: streamReconstruct_def Let_def)
qed

text \<open>
  C13. The streaming \<open>Reconstruct\<close>: where at most \<open>ParityShards\<close> of the streams of a consistent set
  are lost, it returns without an error and has written every lost stream that was asked for.  Any
  \<open>DataShards\<close> rows of the matrix have to determine the data, as with every matrix \<open>New\<close> builds but
  that of PAR1, and the pool has to be safe (\<open>poolSafe\<close>): with the AVX2 code, at most 10 data and more
  than 10 parity shards the code can panic.
\<close>

theorem streamReconstruct_recovers:
  assumes "streamInv a st" and "poolSafe a (stEnc st)"
    and "0 < ParityShards (stEnc st) \<longrightarrow>
      mds_matrix (DataShards (stEnc st)) (Shards (stEnc st)) (rsMatrix (stEnc st))"
    and "fairSched rsched" and "fairSched wsched"
    and "length D = Shards (stEnc st)" and "\<forall>xs\<in>set D. length xs = n" and "0 < n"
    and "consistent (stEnc st) n (map ofBytes D)"
    and "lost \<subseteq> {..<Shards (stEnc st)}" and "card lost \<le> ParityShards (stEnc st)"
    and "length fill = Shards (stEnc st)" and "\<forall>i<Shards (stEnc st). i \<notin> lost \<longrightarrow> fill ! i = None"
  shows "\<exists>st' rds. streamReconstruct a rsched wsched bufferWrite st
      (map (\<lambda>i. if i \<in> lost then None else Some (ofData (D ! i))) [0..<length D]) fill =
      (st', rds, map (\<lambda>i. appendTo (fill ! i) (D ! i)) [0..<length D], Inr ()) \<and> streamInv a st'"
  using streamReconstruct_ok [OF assms] by blast

subsection \<open>The operations together\<close>

definition parityStreams :: "reedSolomon \<Rightarrow> byte list list \<Rightarrow> byte list list" where
  "parityStreams r D = map (parityStream r D) [0..<ParityShards r]"

lemma parityStreams_consistent:
  assumes D: "dataOf r n D" and t: "Shards r = DataShards r + ParityShards r"
  shows "sameLength (Shards r) n (D @ parityStreams r D)"
    and "consistent r n (map ofBytes (D @ parityStreams r D))"
proof -
  have len: "length D = DataShards r" "length (D ! 0) = n" "\<And>i. i < DataShards r \<Longrightarrow> length (D ! i) = n"
    using D by (auto simp: dataOf_def)
  then show "sameLength (Shards r) n (D @ parityStreams r D)"
    using t by (auto simp: sameLength_def parityStreams_def parityStream_def nth_append)
  have par: "(D @ parityStreams r D) ! (DataShards r + i) = parityStream r D i" if "i < ParityShards r" for i
    using len(1) that by (simp add: parityStreams_def nth_append)
  show "consistent r n (map ofBytes (D @ parityStreams r D))"
    unfolding consistent_def
  proof (intro allI impI)
    fix i q assume i: "i < ParityShards r" and q: "q < n"
    have "length (D @ parityStreams r D) = DataShards r + ParityShards r"
      using len(1) by (simp add: parityStreams_def)
    then have nth: "bytesOf (map ofBytes (D @ parityStreams r D) ! k) = (D @ parityStreams r D) ! k"
      if "k < DataShards r + ParityShards r" for k
      using that by (simp del: map_append)
    have "bytesOf (map ofBytes (D @ parityStreams r D) ! (DataShards r + i)) ! q = parityStream r D i ! q"
      using nth [of "DataShards r + i"] par [OF i] i by simp
    also have "\<dots> = dotRow (DataShards r) (\<lambda>c. rsParity r ! i ! c) (\<lambda>c. D ! c ! q)"
      using q len(2) by (simp add: parityStream_def)
    also have "\<dots> = dotRow (DataShards r) (\<lambda>c. rsParity r ! i ! c)
        (\<lambda>c. bytesOf (map ofBytes (D @ parityStreams r D) ! c) ! q)"
      using nth len(1) by (intro dotRow_cong) (simp add: nth_append del: map_append)
    finally show "bytesOf (map ofBytes (D @ parityStreams r D) ! (DataShards r + i)) ! q =
        dotRow (DataShards r) (\<lambda>c. rsParity r ! i ! c)
          (\<lambda>c. bytesOf (map ofBytes (D @ parityStreams r D) ! c) ! q)" .
  qed
qed

lemma poolSafe_New:
  assumes "10 < DataShards r \<or> ParityShards r \<le> 10"
  shows "poolSafe a r"
  using assms by (auto simp: poolSafe_def)

text \<open>Into empty writers the lost streams are written as they were.\<close>

lemma streamReconstruct_lost:
  assumes "streamInv a st" and "poolSafe a (stEnc st)"
    and "0 < ParityShards (stEnc st) \<longrightarrow>
      mds_matrix (DataShards (stEnc st)) (Shards (stEnc st)) (rsMatrix (stEnc st))"
    and "fairSched rsched" and "fairSched wsched"
    and t: "Shards (stEnc st) = t" and len: "length X = t" and "\<forall>xs\<in>set X. length xs = n" and "0 < n"
    and "consistent (stEnc st) n (map ofBytes X)"
    and "lost \<subseteq> {..<t}" and "card lost \<le> ParityShards (stEnc st)"
  shows "\<exists>st' rds. streamReconstruct a rsched wsched bufferWrite st
    (map (\<lambda>i. if i \<in> lost then None else Some (ofData (X ! i))) [0..<t])
    (map (\<lambda>i. if i \<in> lost then Some [] else None) [0..<t]) =
    (st', rds, map (\<lambda>i. if i \<in> lost then Some (X ! i) else None) [0..<t], Inr ()) \<and> streamInv a st' \<and>
    (\<exists>t pool. stEnc st' = (stEnc st)\<lparr>rsTree := t, rsPool := pool\<rparr>)"
proof -
  let ?fill = "map (\<lambda>i. if i \<in> lost then Some [] else None) [0..<t]"
  have "\<exists>st' rds. streamReconstruct a rsched wsched bufferWrite st
      (map (\<lambda>i. if i \<in> lost then None else Some (ofData (X ! i))) [0..<length X]) ?fill =
      (st', rds, map (\<lambda>i. appendTo (?fill ! i) (X ! i)) [0..<length X], Inr ()) \<and> streamInv a st' \<and>
      (\<exists>t pool. stEnc st' = (stEnc st)\<lparr>rsTree := t, rsPool := pool\<rparr>)"
    using assms by (intro streamReconstruct_ok) simp_all
  moreover have "map (\<lambda>i. appendTo (?fill ! i) (X ! i)) [0..<t] =
      map (\<lambda>i. if i \<in> lost then Some (X ! i) else None) [0..<t]"
    by (rule map_cong) simp_all
  ultimately show ?thesis
    unfolding len by (simp only:)
qed

text \<open>
  C5. Streams that are encoded, of which any \<open>ParityShards\<close> are then lost, come back: a new
  streaming encoder writes parity streams that \<open>Verify\<close> accepts together with the data, and
  \<open>Reconstruct\<close>, given what is left, writes every stream of the lost ones.  The options are any the
  package exports but a PAR1 matrix (\<open>mdsChosen\<close>), with which streams can be lost for good, and the
  shape is not the one of at most 10 data and more than 10 parity shards, for which the code can
  panic on amd64.
\<close>

theorem stream_store_recover:
  assumes "cpuOk a cpu" and "list_all exportedOption fs"
    and "mdsChosen (applyOptions fs (buildOptions a cpu)) (int p)"
    and "0 < d" and "0 < p" and "d + p \<le> 256" and "10 < d \<or> p \<le> 10"
    and "fairSched rsched" and "fairSched wsched"
    and "length D = d" and "\<forall>xs\<in>set D. length xs = n" and "0 < n"
  shows "\<exists>st st1 rds P. NewStream a cpu (int d) (int p) fs = Inr st \<and>
    streamEncode a rsched wsched bufferWrite st (map (\<lambda>xs. Some (ofData xs)) D) (replicate p (Some [])) =
      (st1, rds, map Some P, Inr ()) \<and> length P = p \<and>
    (\<exists>st2 rds. streamVerify a rsched st1 (map (\<lambda>xs. Some (ofData xs)) (D @ P)) = (st2, rds, Inr True)) \<and>
    (\<forall>lost. lost \<subseteq> {..<d + p} \<and> card lost \<le> p \<longrightarrow>
      (\<exists>st2 rds. streamReconstruct a rsched wsched bufferWrite st1
        (map (\<lambda>i. if i \<in> lost then None else Some (ofData ((D @ P) ! i))) [0..<d + p])
        (map (\<lambda>i. if i \<in> lost then Some [] else None) [0..<d + p]) =
        (st2, rds, map (\<lambda>i. if i \<in> lost then Some ((D @ P) ! i) else None) [0..<d + p], Inr ())))"
proof -
  obtain st where new: "NewStream a cpu (int d) (int p) fs = Inr st" and st: "streamInv a st"
    and dp: "DataShards (stEnc st) = d" "ParityShards (stEnc st) = p"
    and mds: "mds_matrix d (d + p) (rsMatrix (stEnc st))"
    using NewStream_Inr [OF assms(1,2,4,6)] assms(3,5) by metis
  let ?r = "stEnc st" and ?P = "parityStreams (stEnc st) D"
  have t: "Shards ?r = DataShards ?r + ParityShards ?r"
    using st by (simp add: streamInv_def encInv_def)
  have par: "map (\<lambda>i. appendTo (replicate p (Some []) ! i) (parityStream ?r D i)) [0..<p] = map Some ?P"
    using dp(2) by (auto simp: parityStreams_def)
  obtain st1 rds pool where enc: "streamEncode a rsched wsched bufferWrite st (map (\<lambda>xs. Some (ofData xs)) D)
      (replicate p (Some [])) = (st1, rds, map Some ?P, Inr ())" "streamInv a st1"
      and r1: "stEnc st1 = ?r\<lparr>rsPool := pool\<rparr>"
    using streamEncode_ok [OF st assms(8,9) _ assms(11,12), of "replicate p (Some [])"] assms(10) dp
    unfolding par [symmetric] by (simp only: length_replicate simp_thms) blast
  have "dataOf ?r n D"
    using assms(4,10,11) dp by (simp add: dataOf_def)
  note cons = parityStreams_consistent [OF this t]
  have st1: "Shards (stEnc st1) = d + p" "DataShards (stEnc st1) = d" "ParityShards (stEnc st1) = p"
    using r1 t dp by simp_all
  have cons1: "consistent (stEnc st1) n (map ofBytes (D @ ?P))"
    using cons(2) r1 by (simp add: consistent_def del: map_append)
  have len: "length (D @ ?P) = d + p" "\<forall>xs\<in>set (D @ ?P). length xs = n"
    using cons(1) t dp unfolding sameLength_def by (metis, metis in_set_conv_nth)
  have "\<exists>st2 rds. streamVerify a rsched st1 (map (\<lambda>xs. Some (ofData xs)) (D @ ?P)) = (st2, rds, Inr True)"
    using streamVerify_ok [OF enc(2) assms(8) _ len(2) assms(12)] len(1) st1 cons1 by auto
  moreover have "\<exists>st2 rds. streamReconstruct a rsched wsched bufferWrite st1
      (map (\<lambda>i. if i \<in> lost then None else Some (ofData ((D @ ?P) ! i))) [0..<d + p])
      (map (\<lambda>i. if i \<in> lost then Some [] else None) [0..<d + p]) =
      (st2, rds, map (\<lambda>i. if i \<in> lost then Some ((D @ ?P) ! i) else None) [0..<d + p], Inr ())"
    if lost: "lost \<subseteq> {..<d + p}" "card lost \<le> p" for lost
  proof -
    have "poolSafe a (stEnc st1)"
      using assms(7) st1 by (intro poolSafe_New) simp
    moreover have "mds_matrix (DataShards (stEnc st1)) (Shards (stEnc st1)) (rsMatrix (stEnc st1))"
      using mds st1 r1 by simp
    ultimately show ?thesis
      using streamReconstruct_lost [OF enc(2) _ _ assms(8,9) st1(1) len assms(12) cons1 lost(1)] lost(2) st1(3)
      by (simp only:) blast
  qed
  moreover have "length ?P = p"
    using dp by (simp add: parityStreams_def)
  ultimately show ?thesis
    using new enc(1) by blast
qed

lemma streamEncode_correct_witness:
  "\<exists>st st' rds. NewStream Amd64 testCpu 2 2 [WithStreamBlockSize 2] = Inr st \<and>
    streamEncode Amd64 revSched revSched bufferWrite st (map (\<lambda>xs. Some (ofData xs)) [[1, 2, 3], [4, 5, 6]])
      [Some [], Some [9]] =
    (st', rds, [Some (parityStream (stEnc st) [[1, 2, 3], [4, 5, 6]] 0),
      Some (9 # parityStream (stEnc st) [[1, 2, 3], [4, 5, 6]] 1)], Inr ())"
proof -
  obtain st where st: "NewStream Amd64 testCpu 2 2 [WithStreamBlockSize 2] = Inr st" "streamInv Amd64 st"
    "DataShards (stEnc st) = 2" "ParityShards (stEnc st) = 2" "Shards (stEnc st) = 4"
    "mds_matrix 2 4 (rsMatrix (stEnc st))"
    by (rule testStream)
  have "[0..<2] = [0, 1]"
    by (simp add: upt_rec)
  then show ?thesis
    using streamEncode_correct [OF st(2) revSched_fair revSched_fair, of "[[1, 2, 3], [4, 5, 6]]" 3 "[Some [], Some [9]]"]
      st(1,3,4) by auto
qed

lemma streamReconstruct_recovers_witness:
  "\<exists>st st' rds. NewStream Amd64 testCpu 2 2 [WithStreamBlockSize 2] = Inr st \<and>
    streamReconstruct Amd64 revSched revSched bufferWrite st
      (map (\<lambda>i. if i \<in> {0, 3} then None else Some (ofData [0, 0, 0])) [0..<4]) [Some [], None, None, Some [7]] =
    (st', rds, [Some [0, 0, 0], None, None, Some [7, 0, 0, 0]], Inr ())"
proof -
  obtain st where st: "NewStream Amd64 testCpu 2 2 [WithStreamBlockSize 2] = Inr st" "streamInv Amd64 st"
    "DataShards (stEnc st) = 2" "ParityShards (stEnc st) = 2" "Shards (stEnc st) = 4"
    "mds_matrix 2 4 (rsMatrix (stEnc st))"
    by (rule testStream)
  let ?D = "replicate 4 [0, 0, 0] :: byte list list"
  have safe: "poolSafe Amd64 (stEnc st)"
    using st(3,4) by (simp add: poolSafe_def)
  have zeros: "[0, 0, 0] ! q = (0 :: byte)" if "q < 3" for q
    using that by (auto simp: less_Suc_eq numeral_3_eq_3)
  have "consistent (stEnc st) 3 (map ofBytes ?D)"
    using st(3,4) zeros by (simp add: consistent_def dotRow_zero)
  moreover have "[0..<4] = [0, 1, 2, 3]"
    by (simp add: upt_rec)
  ultimately show ?thesis
    using streamReconstruct_recovers [OF st(2) safe _ revSched_fair revSched_fair, of ?D 3 "{0, 3}"
        "[Some [], None, None, Some [7]]"] st by (auto simp: less_Suc_eq numeral_eq_Suc)
qed

lemma stream_store_recover_witness:
  "\<exists>st st1 rds P. NewStream Arm64 testCpu 2 3 [WithCauchyMatrix, WithStreamBlockSize 4] = Inr st \<and>
    streamEncode Arm64 revSched revSched bufferWrite st (map (\<lambda>xs. Some (ofData xs)) [[1, 2, 3, 4, 5], [6, 7, 8, 9, 10]])
      (replicate 3 (Some [])) = (st1, rds, map Some P, Inr ()) \<and>
    (\<exists>st2 rds fill. streamReconstruct Arm64 revSched revSched bufferWrite st1
        (map (\<lambda>i. if i \<in> {0, 1, 4} then None else Some (ofData (([[1, 2, 3, 4, 5], [6, 7, 8, 9, 10]] @ P) ! i))) [0..<5])
        (map (\<lambda>i. if i \<in> {0, 1, 4} then Some [] else None) [0..<5]) = (st2, rds, fill, Inr ()) \<and>
      fill ! 0 = Some [1, 2, 3, 4, 5] \<and> fill ! 1 = Some [6, 7, 8, 9, 10])"
proof -
  let ?D = "[[1, 2, 3, 4, 5], [6, 7, 8, 9, 10]] :: byte list list"
  have chosen: "mdsChosen (applyOptions [WithCauchyMatrix, WithStreamBlockSize 4] (buildOptions Arm64 testCpu)) (int 3)"
    by (simp add: mdsChosen_def applyOptions_def WithStreamBlockSize_def WithCauchyMatrix_def)
  have "\<exists>st st1 rds P. NewStream Arm64 testCpu (int 2) (int 3) [WithCauchyMatrix, WithStreamBlockSize 4] = Inr st \<and>
    streamEncode Arm64 revSched revSched bufferWrite st (map (\<lambda>xs. Some (ofData xs)) ?D) (replicate 3 (Some [])) =
      (st1, rds, map Some P, Inr ()) \<and> length P = 3 \<and>
    (\<exists>st2 rds. streamVerify Arm64 revSched st1 (map (\<lambda>xs. Some (ofData xs)) (?D @ P)) = (st2, rds, Inr True)) \<and>
    (\<forall>lost. lost \<subseteq> {..<2 + 3} \<and> card lost \<le> 3 \<longrightarrow>
      (\<exists>st2 rds. streamReconstruct Arm64 revSched revSched bufferWrite st1
        (map (\<lambda>i. if i \<in> lost then None else Some (ofData ((?D @ P) ! i))) [0..<2 + 3])
        (map (\<lambda>i. if i \<in> lost then Some [] else None) [0..<2 + 3]) =
        (st2, rds, map (\<lambda>i. if i \<in> lost then Some ((?D @ P) ! i) else None) [0..<2 + 3], Inr ())))"
    by (rule stream_store_recover [OF cpuOk_testCpu _ chosen _ _ _ _ revSched_fair revSched_fair, where n = 5])
      (simp_all add: exportedOption.intros)
  then obtain st st1 rds P where run: "NewStream Arm64 testCpu 2 3 [WithCauchyMatrix, WithStreamBlockSize 4] = Inr st"
    "streamEncode Arm64 revSched revSched bufferWrite st (map (\<lambda>xs. Some (ofData xs)) ?D) (replicate 3 (Some [])) =
      (st1, rds, map Some P, Inr ())"
    and all: "\<forall>lost. lost \<subseteq> {..<5} \<and> card lost \<le> 3 \<longrightarrow>
      (\<exists>st2 rds. streamReconstruct Arm64 revSched revSched bufferWrite st1
        (map (\<lambda>i. if i \<in> lost then None else Some (ofData ((?D @ P) ! i))) [0..<5])
        (map (\<lambda>i. if i \<in> lost then Some [] else None) [0..<5]) =
        (st2, rds, map (\<lambda>i. if i \<in> lost then Some ((?D @ P) ! i) else None) [0..<5], Inr ()))"
    by auto
  have "{0, 1, 4} \<subseteq> {..<5::nat} \<and> card {0, 1, 4::nat} \<le> 3"
    by simp
  then obtain st2 rds2 where "streamReconstruct Arm64 revSched revSched bufferWrite st1
        (map (\<lambda>i. if i \<in> {0, 1, 4} then None else Some (ofData ((?D @ P) ! i))) [0..<5])
        (map (\<lambda>i. if i \<in> {0, 1, 4} then Some [] else None) [0..<5]) =
        (st2, rds2, map (\<lambda>i. if i \<in> {0, 1, 4} then Some ((?D @ P) ! i) else None) [0..<5], Inr ())"
    using all by meson
  moreover have "map (\<lambda>i. if i \<in> {0, 1, 4} then Some ((?D @ P) ! i) else None) [0..<5] ! 0 = Some [1, 2, 3, 4, 5]"
    "map (\<lambda>i. if i \<in> {0, 1, 4} then Some ((?D @ P) ! i) else None) [0..<5] ! 1 = Some [6, 7, 8, 9, 10]"
    by simp_all
  ultimately show ?thesis
    using run by blast
qed

end
