(* ===== verification/StreamCli.thy ===== *)
theory StreamCli
  imports ShardCli StreamCopy StreamRecover
begin

text \<open>
  The programs \<open>examples/stream-encoder.go\<close> and \<open>examples/stream-decoder.go\<close> of the codec, which do
  with the streaming encoder what the programs of \<open>ShardCli\<close> do in memory, on the same model of files.
  A file that is read is a reader of the content it has when the codec starts to read it.  What is
  written through an open file is in the directory when the operation of the codec returns; the
  names of the shard files are different ones and the disk does not fill up.
\<close>

subsection \<open>Files\<close>

definition osOpen :: "(string \<Rightarrow> bool) \<Rightarrow> string \<Rightarrow> directory \<Rightarrow> byte list result" where
  "osOpen deny name fs =
     (if deny name then Inl (IoFailure 13)
      else case map_of fs name of None \<Rightarrow> Inl IoNotExist | Some b \<Rightarrow> Inr b)"

definition osCreate :: "(string \<Rightarrow> bool) \<Rightarrow> string \<Rightarrow> directory \<Rightarrow> unit result \<times> directory" where
  "osCreate deny name fs = osWriteFile deny name [] fs"

definition fileContent :: "directory \<Rightarrow> string \<Rightarrow> byte list" where
  "fileContent fs name = (case map_of fs name of None \<Rightarrow> [] | Some b \<Rightarrow> b)"

text \<open>The loops over \<open>os.Create\<close>.\<close>

fun createFiles :: "(string \<Rightarrow> bool) \<Rightarrow> string list \<Rightarrow> directory \<Rightarrow> unit result \<times> directory" where
  "createFiles deny [] fs = (Inr (), fs)"
| "createFiles deny (name # names) fs =
     (case osCreate deny name fs of
        (Inl e, fs) \<Rightarrow> (Inl e, fs)
      | (Inr _, fs) \<Rightarrow> createFiles deny names fs)"

text \<open>What the open files hold at the end; \<open>None\<close> is a nil writer.\<close>

fun writeBack :: "string list \<Rightarrow> byte list option list \<Rightarrow> directory \<Rightarrow> directory" where
  "writeBack (name # names) (w # ws) fs =
     writeBack names ws (case w of None \<Rightarrow> fs | Some b \<Rightarrow> AList.update name b fs)"
| "writeBack names ws fs = fs"

text \<open>The programs use \<open>NewStream\<close> without options, which reads and writes one stream after the other.\<close>

definition inOrder :: "'x list \<Rightarrow> nat list" where
  "inOrder xs = [0..<length xs]"

subsection \<open>The encoder\<close>

definition splitFile :: "rsStream \<Rightarrow> string \<Rightarrow> nat \<Rightarrow> string list \<Rightarrow> directory \<Rightarrow> unit result \<times> directory" where
  "splitFile enc fname sz names fs =
     (case streamSplit bufferWrite enc (ofData (fileContent fs fname)) (map (\<lambda>_. Some []) names) (int sz) of
        (ws, res) \<Rightarrow> (res, writeBack names ws fs))"

definition encodeFiles :: "arch \<Rightarrow> rsStream \<Rightarrow> (string \<Rightarrow> bool) \<Rightarrow> string list \<Rightarrow> string list \<Rightarrow> directory \<Rightarrow>
    unit result \<times> directory" where
  "encodeFiles a enc deny dataNames parNames fs =
     (case mapResult (\<lambda>name. osOpen deny name fs) dataNames of
        Inl e \<Rightarrow> (Inl e, fs)
      | Inr input \<Rightarrow>
          (case streamEncode a inOrder inOrder bufferWrite enc (map (\<lambda>b. Some (ofData b)) input)
              (map (\<lambda>_. Some []) parNames) of
             (enc, rds, ws, res) \<Rightarrow> (res, writeBack parNames ws fs)))"

definition streamEncoderMain :: "arch \<Rightarrow> cpu \<Rightarrow> (string \<Rightarrow> bool) \<Rightarrow> (string \<Rightarrow> string \<times> string) \<Rightarrow>
    (string \<Rightarrow> string \<Rightarrow> string) \<Rightarrow> int \<Rightarrow> int \<Rightarrow> string \<Rightarrow> string list \<Rightarrow> directory \<Rightarrow> exit \<times> directory" where
  "streamEncoderMain a cpu deny splitPath joinPath dataShards parShards outDir args fs =
     (case args of
        [fname] \<Rightarrow>
          if 256 < wrap64 (dataShards + parShards) then (Code 1, fs)
          else
            (case bind_result (NewStream a cpu dataShards parShards []) (\<lambda>enc.
                  bind_result (osOpen deny fname fs) (\<lambda>b. Inr (enc, length b))) of
               Inl e \<Rightarrow> (exitWith 2 e, fs)
             | Inr (enc, sz) \<Rightarrow>
                 (case splitPath fname of (dir, file) \<Rightarrow>
                  let place = joinPath (if outDir \<noteq> [] then outDir else dir);
                      names = map (\<lambda>i. place (shardName file i)) [0..<nat (dataShards + parShards)];
                      dataNames = take (nat dataShards) names; parNames = drop (nat dataShards) names in
                  case createFiles deny names fs of
                    (Inl e, fs) \<Rightarrow> (exitWith 2 e, fs)
                  | (Inr _, fs) \<Rightarrow>
                      (case splitFile enc fname sz dataNames fs of
                         (Inl e, fs) \<Rightarrow> (exitWith 2 e, fs)
                       | (Inr _, fs) \<Rightarrow>
                           (case encodeFiles a enc deny dataNames parNames fs of
                              (Inl e, fs) \<Rightarrow> (exitWith 2 e, fs)
                            | (Inr _, fs) \<Rightarrow> (Code 0, fs)))))
      | _ \<Rightarrow> (Code 1, fs))"

subsection \<open>The decoder\<close>

text \<open>A file that cannot be opened and an empty one are nil readers; the size is that of the last other one.\<close>

definition openInput :: "(string \<Rightarrow> bool) \<Rightarrow> nat \<Rightarrow> string \<Rightarrow> directory \<Rightarrow> reader option list \<times> int" where
  "openInput deny n fname fs =
     (let found = map (\<lambda>i. case osOpen deny (shardName fname i) fs of Inl e \<Rightarrow> [] | Inr b \<Rightarrow> b) [0..<n] in
      (map (\<lambda>b. if b = [] then None else Some (ofData b)) found,
       foldl (\<lambda>sz b. if b = [] then sz else int (length b)) 0 found))"

definition rebuildFiles :: "arch \<Rightarrow> rsStream \<Rightarrow> (string \<Rightarrow> bool) \<Rightarrow> nat \<Rightarrow> string \<Rightarrow> directory \<Rightarrow>
    (exit + rsStream) \<times> directory" where
  "rebuildFiles a enc deny n fname fs =
     (let shards = fst (openInput deny n fname fs) in
      case createFiles deny (map (shardName fname) (filter (\<lambda>i. shards ! i = None) [0..<n])) fs of
        (Inl e, fs) \<Rightarrow> (Inl (exitWith 2 e), fs)
      | (Inr _, fs) \<Rightarrow>
          (case streamReconstruct a inOrder inOrder bufferWrite enc shards
              (map (\<lambda>i. if shards ! i = None then Some [] else None) [0..<n]) of
             (enc, rds, out, res) \<Rightarrow>
               let fs = writeBack (map (shardName fname) [0..<n]) out fs in
               (case res of
                  Inl e \<Rightarrow> (Inl (exitWith 1 e), fs)
                | Inr _ \<Rightarrow>
                    (case streamVerify a inOrder enc (fst (openInput deny n fname fs)) of
                       (enc, rds, res) \<Rightarrow>
                         (case res of
                            Inl e \<Rightarrow> (Inl (exitWith 1 e), fs)
                          | Inr ok \<Rightarrow> (if ok then Inr enc else Inl (Code 1), fs))))))"

text \<open>The shards are verified, and rebuilt where this fails.\<close>

definition checkFiles :: "arch \<Rightarrow> rsStream \<Rightarrow> (string \<Rightarrow> bool) \<Rightarrow> nat \<Rightarrow> string \<Rightarrow> directory \<Rightarrow>
    (exit + rsStream) \<times> directory" where
  "checkFiles a enc deny n fname fs =
     (case streamVerify a inOrder enc (fst (openInput deny n fname fs)) of
        (enc, rds, res) \<Rightarrow>
          if res = Inr True then (Inr enc, fs)
          else if res = Inl Panic then (Inl Crash, fs)
          else if res = Inl Diverge then (Inl Hang, fs)
          else rebuildFiles a enc deny n fname fs)"

definition joinFiles :: "rsStream \<Rightarrow> (string \<Rightarrow> bool) \<Rightarrow> int \<Rightarrow> nat \<Rightarrow> string \<Rightarrow> string \<Rightarrow> directory \<Rightarrow>
    exit \<times> directory" where
  "joinFiles enc deny dataShards n fname outfn fs =
     (case osCreate deny outfn fs of
        (Inl e, fs) \<Rightarrow> (exitWith 2 e, fs)
      | (Inr _, fs) \<Rightarrow>
          (case openInput deny n fname fs of (shards, sz) \<Rightarrow>
           case streamJoin bufferWrite enc [] shards (wrap64 (dataShards * sz)) of (out, res) \<Rightarrow>
             (case res of Inl e \<Rightarrow> exitWith 2 e | Inr _ \<Rightarrow> Code 0, AList.update outfn out fs)))"

definition streamDecoderMain :: "arch \<Rightarrow> cpu \<Rightarrow> (string \<Rightarrow> bool) \<Rightarrow> int \<Rightarrow> int \<Rightarrow> string \<Rightarrow> string list \<Rightarrow>
    directory \<Rightarrow> exit \<times> directory" where
  "streamDecoderMain a cpu deny dataShards parShards outFile args fs =
     (case args of
        [fname] \<Rightarrow>
          (case NewStream a cpu dataShards parShards [] of
             Inl e \<Rightarrow> (exitWith 2 e, fs)
           | Inr enc \<Rightarrow>
               let n = nat (dataShards + parShards) in
               (case checkFiles a enc deny n fname fs of
                  (Inl ex, fs) \<Rightarrow> (ex, fs)
                | (Inr enc, fs) \<Rightarrow>
                    joinFiles enc deny dataShards n fname (if outFile = [] then fname else outFile) fs))
      | _ \<Rightarrow> (Code 1, fs))"

subsection \<open>Files\<close>

lemma createFiles_ok:
  "\<exists>fs'. createFiles (\<lambda>_. False) names fs = (Inr (), fs') \<and>
    (\<forall>name. map_of fs' name = (if name \<in> set names then Some [] else map_of fs name))"
proof (induction names arbitrary: fs)
  case (Cons name names)
  obtain fs' where "createFiles (\<lambda>_. False) names (AList.update name [] fs) = (Inr (), fs')"
    "\<forall>x. map_of fs' x = (if x \<in> set names then Some [] else map_of (AList.update name [] fs) x)"
    using Cons.IH by blast
  then show ?case
    by (auto simp: osCreate_def osWriteFile_def update_conv')
qed simp

lemma writeBack_other: "name \<notin> set names \<Longrightarrow> map_of (writeBack names ws fs) name = map_of fs name"
  by (induction names ws fs rule: writeBack.induct) (auto simp: update_conv' split: option.splits)

lemma writeBack_nth:
  "distinct names \<Longrightarrow> length ws = length names \<Longrightarrow> i < length names \<Longrightarrow>
    map_of (writeBack names ws fs) (names ! i) = (case ws ! i of None \<Rightarrow> map_of fs (names ! i) | Some b \<Rightarrow> Some b)"
proof (induction names ws fs arbitrary: i rule: writeBack.induct)
  case (1 name names w ws fs)
  show ?case
  proof (cases i)
    case 0
    then show ?thesis
      using 1(2) by (auto simp: writeBack_other update_conv' split: option.splits)
  next
    case (Suc j)
    then have "names ! j \<in> set names"
      using 1(4) by simp
    then have "name \<noteq> names ! j"
      using 1(2) by auto
    then show ?thesis
      using 1 Suc by (auto simp: update_conv' split: option.splits)
  qed
qed simp_all

lemma inOrder_fair: "fairSched inOrder"
  by (auto simp: fairSched_def inOrder_def)

lemma openFiles_ok:
  assumes "length X = length names" and "\<forall>i<length names. map_of fs (names ! i) = Some (X ! i)"
  shows "mapResult (\<lambda>name. osOpen (\<lambda>_. False) name fs) names = Inr X"
  using assms
proof (induction X names rule: list_induct2)
  case (Cons x X name names)
  then have "map_of fs name = Some x" "\<forall>i<length names. map_of fs (names ! i) = Some (X ! i)"
    by force+
  then show ?case
    using Cons by (simp add: osOpen_def)
qed simp

text \<open>The shard files \<open>X\<close> of which those in \<open>lost\<close> are missing.\<close>

definition shardFiles :: "string \<Rightarrow> byte list list \<Rightarrow> nat set \<Rightarrow> directory \<Rightarrow> bool" where
  "shardFiles base X lost fs \<longleftrightarrow>
     (\<forall>i<length X. map_of fs (shardName base i) = (if i \<in> lost then None else Some (X ! i)))"

lemma openInput_ok:
  assumes "shardFiles base X lost fs" and "\<forall>xs\<in>set X. length xs = n" and "0 < n" and "j < length X" "j \<notin> lost"
  shows "openInput (\<lambda>_. False) (length X) base fs =
    (map (\<lambda>i. if i \<in> lost then None else Some (ofData (X ! i))) [0..<length X], int n)"
proof -
  let ?found = "map (\<lambda>i. if i \<in> lost then [] else X ! i) [0..<length X]"
  have found: "map (\<lambda>i. case osOpen (\<lambda>_. False) (shardName base i) fs of Inl e \<Rightarrow> [] | Inr b \<Rightarrow> b) [0..<length X] = ?found"
    using assms(1) by (auto simp: shardFiles_def osOpen_def)
  have full: "X ! i \<noteq> []" if "i < length X" for i
    using that assms(2,3) by (metis length_greater_0_conv nth_mem)
  have size: "\<forall>b\<in>set bs. b = [] \<or> length b = n \<Longrightarrow>
      foldl (\<lambda>sz b. if b = [] then sz else int (length b)) k bs = (if \<exists>b\<in>set bs. b \<noteq> [] then int n else k)" for bs k
    by (induction bs arbitrary: k) auto
  have "X ! j \<in> set ?found" "X ! j \<noteq> []"
    using assms(4,5) full by (force, simp)
  then have some: "\<exists>b\<in>set ?found. b \<noteq> []"
    by blast
  have "\<forall>b\<in>set ?found. b = [] \<or> length b = n"
    using assms(2) by auto
  then have "foldl (\<lambda>sz b. if b = [] then sz else int (length b)) 0 ?found = int n"
    using some by (simp only: size if_True simp_thms)
  then show ?thesis
    unfolding openInput_def found Let_def using full by simp
qed

subsection \<open>Encoding files\<close>

text \<open>What the streams of the data shards hold: the file and zeros after it.\<close>

definition dataFiles :: "nat \<Rightarrow> nat \<Rightarrow> byte list \<Rightarrow> byte list list" where
  "dataFiles d per bs = map (\<lambda>i. take per (drop (i * per) (bs @ replicate (d * per - length bs) 0))) [0..<d]"

lemma dataFiles_simps:
  assumes "length bs \<le> d * per"
  shows "length (dataFiles d per bs) = d" and "\<forall>xs\<in>set (dataFiles d per bs). length xs = per"
    and "concat (dataFiles d per bs) = bs @ replicate (d * per - length bs) 0"
proof -
  show "\<forall>xs\<in>set (dataFiles d per bs). length xs = per"
  proof
    fix xs assume "xs \<in> set (dataFiles d per bs)"
    then obtain i where i: "i < d" "xs = take per (drop (i * per) (bs @ replicate (d * per - length bs) 0))"
      by (auto simp: dataFiles_def)
    have "i * per + per \<le> d * per"
      using mult_le_mono1 [of "Suc i" d per] i(1) by simp
    then show "length xs = per"
      using assms unfolding i(2) by (simp del: drop_append)
  qed
  show "concat (dataFiles d per bs) = bs @ replicate (d * per - length bs) 0"
    using assms unfolding dataFiles_def concat_parts by simp
qed (simp add: dataFiles_def)

lemma splitFile_ok:
  assumes inv: "encInv a (stEnc st)" and d: "DataShards (stEnc st) = d" and names: "length names = d"
    and bs: "fileContent fs fname = bs" "bs \<noteq> []" "length bs \<le> 2 ^ 54" and per: "per = (length bs + d - 1) div d"
  shows "splitFile st fname (length bs) names fs = (Inr (), writeBack names (map Some (dataFiles d per bs)) fs)"
    and "length bs \<le> d * per" and "0 < per"
proof -
  have t: "0 < d" "d \<le> Shards (stEnc st)" "Shards (stEnc st) \<le> 256"
    using inv d by (auto simp: encInv_def)
  show fits: "length bs \<le> d * per"
    using splitSizes(3) [OF t _ bs(3) per] bs(2) by simp
  then show "0 < per"
    using bs(2) by (cases per) simp_all
  have more: "d * per \<le> Shards (stEnc st) * per"
    using t(2) by (rule mult_le_mono1)
  have part: "take per (drop (i * per) (bs @ replicate (Shards (stEnc st) * per - length bs) 0)) =
      take per (drop (i * per) (bs @ replicate (d * per - length bs) 0))" if "i < d" for i
  proof -
    let ?k = "d * per - length bs" and ?m = "Shards (stEnc st) * per - d * per"
    have "Shards (stEnc st) * per - length bs = ?k + ?m"
      using fits more by simp
    then have "bs @ replicate (Shards (stEnc st) * per - length bs) 0 = (bs @ replicate ?k 0) @ replicate ?m 0"
      by (simp add: replicate_add)
    moreover have "i * per + per \<le> d * per"
      using mult_le_mono1 [of "Suc i" d per] that by simp
    then have "i * per + per \<le> length (bs @ replicate ?k (0 :: byte))"
      using fits by simp
    ultimately show ?thesis
      by (simp only: drop_append take_append length_drop) simp
  qed
  have "streamSplit bufferWrite st (ofData bs) (map (\<lambda>_. Some []) names) (int (length bs)) =
      (map (\<lambda>i. appendTo (map (\<lambda>_. Some []) names ! i) (take per (drop (i * per)
        (bs @ replicate (Shards (stEnc st) * per - length bs) 0)))) [0..<d], Inr ())"
    using streamSplit_ok [OF inv _ _ _ bs(3), of "map (\<lambda>_. Some []) names" per bs] per names bs(2) d by auto
  also have "\<dots> = (map Some (dataFiles d per bs), Inr ())"
    using part names by (simp add: dataFiles_def)
  finally show "splitFile st fname (length bs) names fs = (Inr (), writeBack names (map Some (dataFiles d per bs)) fs)"
    by (simp add: splitFile_def bs(1))
qed

lemma encodeFiles_ok:
  assumes st: "streamInv a st" "DataShards (stEnc st) = length dataNames" "ParityShards (stEnc st) = length parNames"
    and D: "length D = length dataNames" "\<forall>i<length dataNames. map_of fs (dataNames ! i) = Some (D ! i)"
    and n: "\<forall>xs\<in>set D. length xs = n" "0 < n"
  shows "encodeFiles a st (\<lambda>_. False) dataNames parNames fs =
    (Inr (), writeBack parNames (map Some (parityStreams (stEnc st) D)) fs)"
proof -
  obtain st' rds where "streamEncode a inOrder inOrder bufferWrite st (map (\<lambda>xs. Some (ofData xs)) D)
      (map (\<lambda>_. Some []) parNames) = (st', rds, map (\<lambda>i. appendTo (map (\<lambda>_. Some []) parNames ! i)
        (parityStream (stEnc st) D i)) [0..<ParityShards (stEnc st)], Inr ())"
    using streamEncode_ok [OF st(1) inOrder_fair inOrder_fair _ n, of "map (\<lambda>_. Some []) parNames"] st(2,3) D(1)
    by (metis length_map)
  moreover have "map (\<lambda>i. appendTo (map (\<lambda>_. Some []) parNames ! i) (parityStream (stEnc st) D i))
      [0..<ParityShards (stEnc st)] = map Some (parityStreams (stEnc st) D)"
    using st(3) by (simp add: parityStreams_def)
  ultimately show ?thesis
    by (simp add: encodeFiles_def openFiles_ok [OF D])
qed

lemma streamEncoderMain_ok:
  assumes st: "streamInv a st" "DataShards (stEnc st) = d" "ParityShards (stEnc st) = p"
    and new: "NewStream a cpu (int d) (int p) [] = Inr st" and sum: "d + p \<le> 256"
    and bs: "map_of fs fname = Some bs" "bs \<noteq> []" "length bs \<le> 2 ^ 54" and per: "per = (length bs + d - 1) div d"
    and names: "splitPath fname = (dir, file)" "\<forall>s. joinPath (if outDir \<noteq> [] then outDir else dir) (file @ s) = base @ s"
    and apart: "\<forall>i<d + p. fname \<noteq> shardName base i"
  obtains fs' where "streamEncoderMain a cpu (\<lambda>_. False) splitPath joinPath (int d) (int p) outDir [fname] fs = (Code 0, fs')"
    and "shardFiles base (dataFiles d per bs @ parityStreams (stEnc st) (dataFiles d per bs)) {} fs'"
    and "length bs \<le> d * per" and "0 < per"
proof -
  let ?names = "map (shardName base) [0..<d + p]" and ?D = "dataFiles d per bs"
  let ?P = "parityStreams (stEnc st) ?D"
  obtain fs1 where fs1: "createFiles (\<lambda>_. False) ?names fs = (Inr (), fs1)"
    "\<forall>name. map_of fs1 name = (if name \<in> set ?names then Some [] else map_of fs name)"
    using createFiles_ok by blast
  have "fileContent fs1 fname = bs"
    using fs1(2) bs(1) apart by (auto simp: fileContent_def)
  moreover have "encInv a (stEnc st)" "length (take d ?names) = d"
    using st(1) by (simp_all add: streamInv_def)
  ultimately have split: "splitFile st fname (length bs) (take d ?names) fs1 =
      (Inr (), writeBack (take d ?names) (map Some ?D) fs1)" and fits: "length bs \<le> d * per" "0 < per"
    using splitFile_ok [of a st d "take d ?names" fs1 fname bs per] st(2) bs(2,3) per by blast+
  note D = dataFiles_simps [OF fits(1)]
  let ?fs2 = "writeBack (take d ?names) (map Some ?D) fs1"
  let ?fs3 = "writeBack (drop d ?names) (map Some ?P) ?fs2"
  have P: "length ?P = p"
    using st(3) by (simp add: parityStreams_def)
  have distinct: "distinct (take d ?names)" "distinct (drop d ?names)"
    by (simp_all add: distinct_map inj_on_def distinct_take distinct_drop del: map_append upt_add_eq_append)
  have data: "map_of ?fs2 (take d ?names ! i) = Some (?D ! i)" if "i < d" for i
    using writeBack_nth [OF distinct(1), of "map Some ?D" i fs1] that D(1) by simp
  have "encodeFiles a st (\<lambda>_. False) (take d ?names) (drop d ?names) ?fs2 = (Inr (), ?fs3)"
    using D data st by (intro encodeFiles_ok [where n = per] fits(2)) simp_all
  moreover have "joinPath (if outDir \<noteq> [] then outDir else dir) (shardName file i) = shardName base i" for i
    using names(2) by (simp add: shardName_def)
  moreover have "wrap64 (int d + int p) = int (d + p)"
    by (rule wrap64_sum [OF sum])
  ultimately have "streamEncoderMain a cpu (\<lambda>_. False) splitPath joinPath (int d) (int p) outDir [fname] fs = (Code 0, ?fs3)"
    using new bs(1) sum fs1(1) split
    by (cases "outDir = []") (simp_all add: streamEncoderMain_def osOpen_def names(1) Let_def nat_int_add)
  moreover have "shardFiles base (?D @ ?P) {} ?fs3"
    unfolding shardFiles_def
  proof (intro allI impI)
    fix i assume "i < length (?D @ ?P)"
    then have i: "i < d + p"
      using D(1) P by simp
    show "map_of ?fs3 (shardName base i) = (if i \<in> {} then None else Some ((?D @ ?P) ! i))"
    proof (cases "i < d")
      case True
      then have "shardName base i \<notin> set (drop d ?names)"
        by (auto simp: drop_map)
      then show ?thesis
        using writeBack_other [of _ "drop d ?names" "map Some ?P" ?fs2] data [OF True] True D(1)
        by (simp add: nth_append)
    next
      case False
      then show ?thesis
        using writeBack_nth [OF distinct(2), of "map Some ?P" "i - d" ?fs2] i D(1) P
        by (simp add: nth_append)
    qed
  qed
  ultimately show ?thesis
    using that fits by blast
qed

subsection \<open>Decoding files\<close>

lemma all_readers: "map (\<lambda>i. Some (ofData (X ! i))) [0..<length X] = map (\<lambda>xs. Some (ofData xs)) X"
  by (rule nth_equalityI) simp_all

lemma verifyFiles_ok:
  assumes st: "streamInv a st" "length X = Shards (stEnc st)" "\<forall>xs\<in>set X. length xs = n" "0 < n"
    and cons: "consistent (stEnc st) n (map ofBytes X)" and files: "shardFiles base X {} fs"
  obtains st' rds where "streamVerify a inOrder st (fst (openInput (\<lambda>_. False) (length X) base fs)) = (st', rds, Inr True)"
    and "streamInv a st'" and "DataShards (stEnc st') = DataShards (stEnc st)"
proof -
  have "0 < length X"
    using st(1,2) by (simp add: streamInv_def encInv_def)
  then have "openInput (\<lambda>_. False) (length X) base fs =
      (map (\<lambda>i. if i \<in> {} then None else Some (ofData (X ! i))) [0..<length X], int n)"
    by (rule openInput_ok [OF files st(3,4)]) simp
  moreover note all_readers
  moreover obtain st' rds where "streamVerify a inOrder st (map (\<lambda>xs. Some (ofData xs)) X) = (st', rds, Inr True)"
    and "streamInv a st'" and "\<exists>pool. stEnc st' = (stEnc st)\<lparr>rsPool := pool\<rparr>"
    using streamVerify_ok [OF st(1) inOrder_fair st(2-4)] cons by auto
  ultimately show ?thesis
    by (intro that [of st' rds]) auto
qed

lemma rebuildFiles_ok:
  assumes st: "streamInv a st" "poolSafe a (stEnc st)" "0 < ParityShards (stEnc st) \<longrightarrow>
      mds_matrix (DataShards (stEnc st)) (Shards (stEnc st)) (rsMatrix (stEnc st))"
    and X: "length X = Shards (stEnc st)" "\<forall>xs\<in>set X. length xs = n" "0 < n"
    and cons: "consistent (stEnc st) n (map ofBytes X)" and files: "shardFiles base X lost fs"
    and lost: "lost \<subseteq> {..<length X}" "card lost \<le> ParityShards (stEnc st)" and j: "j < length X" "j \<notin> lost"
  obtains st' fs' where "rebuildFiles a st (\<lambda>_. False) (length X) base fs = (Inr st', fs')"
    and "shardFiles base X {} fs'" and "DataShards (stEnc st') = DataShards (stEnc st)"
proof -
  let ?t = "length X" and ?valid = "map (\<lambda>i. if i \<in> lost then None else Some (ofData (X ! i))) [0..<length X]"
  let ?out = "map (\<lambda>i. if i \<in> lost then Some (X ! i) else None) [0..<?t]"
  have open_lost: "openInput (\<lambda>_. False) ?t base fs = (?valid, int n)"
    by (rule openInput_ok [OF files X(2,3) j])
  let ?missing = "map (shardName base) (filter (\<lambda>i. ?valid ! i = None) [0..<?t])"
  obtain fs1 where fs1: "createFiles (\<lambda>_. False) ?missing fs = (Inr (), fs1)"
    "\<forall>name. map_of fs1 name = (if name \<in> set ?missing then Some [] else map_of fs name)"
    using createFiles_ok by blast
  have fill: "map (\<lambda>i. if ?valid ! i = None then Some [] else None) [0..<?t] =
      map (\<lambda>i. if i \<in> lost then Some [] else None) [0..<?t]"
    by simp
  obtain st1 rds where run: "streamReconstruct a inOrder inOrder bufferWrite st ?valid
      (map (\<lambda>i. if i \<in> lost then Some [] else None) [0..<?t]) = (st1, rds, ?out, Inr ())"
    and st1: "streamInv a st1" "\<exists>t pool. stEnc st1 = (stEnc st)\<lparr>rsTree := t, rsPool := pool\<rparr>"
    using streamReconstruct_lost [OF st(1-3) inOrder_fair inOrder_fair X(1) [symmetric] refl X(2,3) cons lost] by blast
  let ?names = "map (shardName base) [0..<?t]"
  let ?fs2 = "writeBack ?names ?out fs1"
  have distinct: "distinct ?names"
    by (simp add: distinct_map inj_on_def)
  have all: "shardFiles base X {} ?fs2"
    unfolding shardFiles_def
  proof (intro allI impI)
    fix i assume i: "i < ?t"
    show "map_of ?fs2 (shardName base i) = (if i \<in> {} then None else Some (X ! i))"
    proof (cases "i \<in> lost")
      case True
      then show ?thesis
        using writeBack_nth [OF distinct, of ?out i fs1] i by simp
    next
      case False
      then have "shardName base i \<notin> set ?missing"
        by auto
      then have "map_of fs1 (shardName base i) = Some (X ! i)"
        using fs1(2) files i False by (simp add: shardFiles_def)
      then show ?thesis
        using writeBack_nth [OF distinct, of ?out i fs1] i False by simp
    qed
  qed
  have same: "length X = Shards (stEnc st1)" "consistent (stEnc st1) n (map ofBytes X)"
    using X(1) cons st1(2) by (auto simp: consistent_def)
  obtain st2 rds2 where "streamVerify a inOrder st1 (fst (openInput (\<lambda>_. False) ?t base ?fs2)) = (st2, rds2, Inr True)"
    and "streamInv a st2" and "DataShards (stEnc st2) = DataShards (stEnc st1)"
    by (rule verifyFiles_ok [OF st1(1) same(1) X(2,3) same(2) all])
  moreover have "DataShards (stEnc st1) = DataShards (stEnc st)"
    using st1(2) by auto
  ultimately show ?thesis
    using that [of st2 ?fs2] all fs1(1) run
    by (simp only: rebuildFiles_def open_lost fst_conv Let_def fill) simp
qed

lemma checkFiles_ok:
  assumes st: "streamInv a st" "poolSafe a (stEnc st)" "0 < ParityShards (stEnc st) \<longrightarrow>
      mds_matrix (DataShards (stEnc st)) (Shards (stEnc st)) (rsMatrix (stEnc st))"
    and X: "length X = Shards (stEnc st)" "\<forall>xs\<in>set X. length xs = n" "0 < n"
    and cons: "consistent (stEnc st) n (map ofBytes X)" and files: "shardFiles base X lost fs"
    and lost: "lost \<subseteq> {..<length X}" "card lost \<le> ParityShards (stEnc st)"
  obtains st' fs' where "checkFiles a st (\<lambda>_. False) (length X) base fs = (Inr st', fs')"
    and "shardFiles base X {} fs'" and "DataShards (stEnc st') = DataShards (stEnc st)"
proof (cases "lost = {}")
  case True
  then have all: "shardFiles base X {} fs"
    using files by simp
  obtain st1 rds where "streamVerify a inOrder st (fst (openInput (\<lambda>_. False) (length X) base fs)) = (st1, rds, Inr True)"
    and "streamInv a st1" and "DataShards (stEnc st1) = DataShards (stEnc st)"
    by (rule verifyFiles_ok [OF st(1) X cons all])
  then show ?thesis
    using all by (intro that [of st1 fs]) (simp_all add: checkFiles_def)
next
  case False
  then obtain i where i: "i \<in> lost" "i < length X"
    using lost(1) by auto
  have "card lost < card {..<length X}"
    using lost(2) st(1) X(1) by (simp add: streamInv_def encInv_def)
  then have "\<not> {..<length X} \<subseteq> lost"
    using card_mono [of lost "{..<length X}"] finite_subset [OF lost(1)] by auto
  then obtain j where j: "j < length X" "j \<notin> lost"
    by auto
  have ij: "i < Shards (stEnc st)" "j < Shards (stEnc st)"
    using i(2) j(1) X(1) by simp_all
  obtain st1 rds e where fail: "streamVerify a inOrder st
        (fst (openInput (\<lambda>_. False) (length X) base fs)) = (st1, rds, Inl e)"
    and e: "e \<noteq> Panic" "e \<noteq> Diverge" and st1: "streamInv a st1" "stEnc st1 = stEnc st"
    unfolding openInput_ok [OF files X(2,3) j] fst_conv
    by (rule streamVerify_missing [OF st(1) inOrder_fair X ij(1) i(1) ij(2) j(2)])
  obtain st2 fs2 where "rebuildFiles a st1 (\<lambda>_. False) (length X) base fs = (Inr st2, fs2)"
    and "shardFiles base X {} fs2" and "DataShards (stEnc st2) = DataShards (stEnc st1)"
    by (rule rebuildFiles_ok [OF st1(1) st(2,3) [folded st1(2)] X(1) [folded st1(2)] X(2,3)
          cons [folded st1(2)] files lost(1) lost(2) [folded st1(2)] j])
  then show ?thesis
    using fail e st1(2) by (intro that [of st2 fs2]) (simp_all add: checkFiles_def)
qed

lemma joinFiles_ok:
  assumes "DataShards (stEnc st) = d" and X: "d \<le> length X" "length X \<le> 256" "\<forall>xs\<in>set X. length xs = n"
    and n: "0 < n" "n \<le> 2 ^ 54" and files: "shardFiles base X {} fs" and d: "0 < d"
    and outfn: "\<forall>i<length X. outfn \<noteq> shardName base i"
  shows "joinFiles st (\<lambda>_. False) (int d) (length X) base outfn fs =
    (Code 0, AList.update outfn (concat (take d X)) (AList.update outfn [] fs))"
proof -
  let ?fs = "AList.update outfn [] fs"
  have "shardFiles base X {} ?fs"
    using files outfn by (auto simp: shardFiles_def update_conv')
  then have open_all: "openInput (\<lambda>_. False) (length X) base ?fs = (map (\<lambda>xs. Some (ofData xs)) X, int n)"
    using openInput_ok [OF _ X(3) n(1) less_le_trans [OF d X(1)], of base "{}" ?fs] by (simp add: all_readers)
  have "length (concat (take d X)) = sum_list (map (\<lambda>_. n) (take d X))"
    unfolding length_concat using X(3) by (intro arg_cong [where f = sum_list] map_cong) (auto dest: in_set_takeD)
  then have "length (concat (take d X)) = d * n"
    using X(1) by (simp add: sum_list_replicate map_replicate_const)
  then have "streamJoin bufferWrite st [] (map (\<lambda>xs. Some (ofData xs)) X) (int (d * n)) = (concat (take d X), Inr ())"
    using streamJoin_ok [of st X "[]" "d * n"] assms(1) X(1) by simp
  moreover have "wrap64 (int d * int n) = int (d * n)"
  proof -
    have "d * n \<le> 256 * 2 ^ 54"
      using X(1,2) n(2) by (intro mult_le_mono) simp_all
    then have "int (d * n) \<le> int (256 * 2 ^ 54)"
      by (simp only: of_nat_le_iff)
    then show ?thesis
      unfolding of_nat_mult [symmetric] by (intro wrap64_small) simp_all
  qed
  ultimately show ?thesis
    by (simp add: joinFiles_def osCreate_def osWriteFile_def open_all)
qed

lemma streamDecoderMain_ok:
  assumes st: "streamInv a st" "DataShards (stEnc st) = d" "ParityShards (stEnc st) = p"
      "0 < p \<longrightarrow> mds_matrix d (d + p) (rsMatrix (stEnc st))"
    and new: "NewStream a cpu (int d) (int p) [] = Inr st" and safe: "10 < d \<or> p \<le> 10"
    and X: "length X = d + p" "\<forall>xs\<in>set X. length xs = n" "0 < n" "n \<le> 2 ^ 54" "d + p \<le> 256"
    and cons: "consistent (stEnc st) n (map ofBytes X)" and files: "shardFiles base X lost fs"
    and lost: "lost \<subseteq> {..<d + p}" "card lost \<le> p"
    and out: "outfn = (if outFile = [] then base else outFile)" "\<forall>i<d + p. outfn \<noteq> shardName base i"
  shows "\<exists>fs'. streamDecoderMain a cpu (\<lambda>_. False) (int d) (int p) outFile [base] fs = (Code 0, fs') \<and>
    map_of fs' outfn = Some (concat (take d X))"
proof -
  have t: "length X = Shards (stEnc st)" "0 < d"
    using st(1-3) X(1) by (auto simp: streamInv_def encInv_def)
  have good: "poolSafe a (stEnc st)" "0 < ParityShards (stEnc st) \<longrightarrow>
      mds_matrix (DataShards (stEnc st)) (Shards (stEnc st)) (rsMatrix (stEnc st))"
    using safe st(2-4) t(1) X(1) by (auto intro: poolSafe_New)
  have "lost \<subseteq> {..<length X}" "card lost \<le> ParityShards (stEnc st)"
    using lost X(1) st(3) by simp_all
  then obtain st1 fs1 where run: "checkFiles a st (\<lambda>_. False) (length X) base fs = (Inr st1, fs1)"
    and files1: "shardFiles base X {} fs1" and d1: "DataShards (stEnc st1) = DataShards (stEnc st)"
    by (rule checkFiles_ok [OF st(1) good t(1) X(2,3) cons files])
  have "joinFiles st1 (\<lambda>_. False) (int d) (length X) base outfn fs1 =
      (Code 0, AList.update outfn (concat (take d X)) (AList.update outfn [] fs1))"
    using d1 st(2) X t(2) files1 out(2) by (intro joinFiles_ok) simp_all
  moreover have "nat (int d + int p) = length X"
    using X(1) by (simp add: nat_int_add)
  ultimately have "streamDecoderMain a cpu (\<lambda>_. False) (int d) (int p) outFile [base] fs =
      (Code 0, AList.update outfn (concat (take d X)) (AList.update outfn [] fs1))"
    using run by (simp only: streamDecoderMain_def list.case new sum.case Let_def prod.case out(1) [symmetric])
  then show ?thesis
    by (simp add: update_conv')
qed

subsection \<open>Property\<close>

text \<open>
  C7. The two programs as a whole: the encoder cuts a file into the files of the shards, and after the
  loss of any \<open>p\<close> of these the decoder writes the file again, filled up with zeros to a multiple of
  the number of data shards, since the size is not stored.  The shape is not the one of at most 10
  data and more than 10 parity shards, for which the decoder's \<open>Reconstruct\<close> can panic on amd64.
\<close>

theorem stream_files_roundtrip:
  assumes "cpuOk a cpu" and "0 < d" and "d + p \<le> 256" and "10 < d \<or> p \<le> 10"
    and "map_of fs fname = Some bs" and "bs \<noteq> []" and "length bs \<le> 2 ^ 54"
    and "splitPath fname = (dir, file)"
    and "\<forall>s. joinPath (if outDir \<noteq> [] then outDir else dir) (file @ s) = base @ s"
    and "outfn = (if outFile = [] then base else outFile)"
    and "\<forall>i<d + p. fname \<noteq> shardName base i \<and> outfn \<noteq> shardName base i"
  shows "\<exists>fs1. streamEncoderMain a cpu (\<lambda>_. False) splitPath joinPath (int d) (int p) outDir [fname] fs = (Code 0, fs1) \<and>
    (\<forall>lost. lost \<subseteq> {..<d + p} \<and> card lost \<le> p \<longrightarrow>
      (\<exists>fs2. streamDecoderMain a cpu (\<lambda>_. False) (int d) (int p) outFile [base]
          (removeFiles (shardName base ` lost) fs1) = (Code 0, fs2) \<and>
        map_of fs2 outfn = Some (bs @ replicate (d * ((length bs + d - 1) div d) - length bs) 0)))"
proof -
  let ?per = "(length bs + d - 1) div d"
  have chosen: "mdsChosen (applyOptions [] (buildOptions a cpu)) (int p)"
    by (cases a) (simp_all add: mdsChosen_def applyOptions_def buildOptions_def defaultOptions_def)
  obtain st where new: "NewStream a cpu (int d) (int p) [] = Inr st" and st: "streamInv a st"
      "DataShards (stEnc st) = d" "ParityShards (stEnc st) = p"
    and mds: "0 < p \<longrightarrow> mds_matrix d (d + p) (rsMatrix (stEnc st))"
    using NewStream_Inr [OF assms(1) _ assms(2,3), of "[]"] chosen by auto
  let ?D = "dataFiles d ?per bs" and ?P = "parityStreams (stEnc st) (dataFiles d ?per bs)"
  have apart: "\<forall>i<d + p. fname \<noteq> shardName base i" "\<forall>i<d + p. outfn \<noteq> shardName base i"
    using assms(11) by blast+
  obtain fs1 where run: "streamEncoderMain a cpu (\<lambda>_. False) splitPath joinPath (int d) (int p) outDir [fname] fs = (Code 0, fs1)"
    and all: "shardFiles base (?D @ ?P) {} fs1" and fits: "length bs \<le> d * ?per" "0 < ?per"
    by (rule streamEncoderMain_ok [OF st new assms(3,5-7) refl, of splitPath dir "file" joinPath outDir base,
          OF assms(8,9) apart(1)])
  note D = dataFiles_simps [OF fits(1)]
  have t: "Shards (stEnc st) = DataShards (stEnc st) + ParityShards (stEnc st)"
    using st(1) by (simp add: streamInv_def encInv_def)
  have "dataOf (stEnc st) ?per ?D"
    unfolding dataOf_def st(2) using D(1,2) assms(2) by blast
  note cons = parityStreams_consistent [OF this t]
  have len: "length (?D @ ?P) = d + p" "\<forall>xs\<in>set (?D @ ?P). length xs = ?per"
    using cons(1) t st(2,3) unfolding sameLength_def by (metis, metis in_set_conv_nth)
  have "length bs + d - 1 \<le> length bs * d"
    using assms(2,6) by (cases d; cases bs) simp_all
  then have "?per \<le> length bs"
    using div_le_mono [of "length bs + d - 1" "length bs * d" d] assms(2) by simp
  then have per: "?per \<le> 2 ^ 54"
    using assms(7) by simp
  have "take d (?D @ ?P) = ?D"
    using D(1) by simp
  then have joined: "concat (take d (?D @ ?P)) = bs @ replicate (d * ?per - length bs) 0"
    by (simp only: D(3))
  have "\<exists>fs2. streamDecoderMain a cpu (\<lambda>_. False) (int d) (int p) outFile [base]
        (removeFiles (shardName base ` lost) fs1) = (Code 0, fs2) \<and>
      map_of fs2 outfn = Some (bs @ replicate (d * ?per - length bs) 0)"
    if lost: "lost \<subseteq> {..<d + p}" "card lost \<le> p" for lost
  proof -
    have "shardFiles base (?D @ ?P) lost (removeFiles (shardName base ` lost) fs1)"
      using all by (auto simp: shardFiles_def map_of_removeFiles)
    then show ?thesis
      using streamDecoderMain_ok [OF st mds new assms(4) len fits(2) per assms(3) cons(2) _ lost assms(10) apart(2)]
      unfolding joined by blast
  qed
  then show ?thesis
    using run by blast
qed

lemma stream_files_roundtrip_witness:
  "\<exists>fs1 fs2. streamEncoderMain Amd64 testCpu (\<lambda>_. False) (\<lambda>name. ([], name)) (@) 2 1 [] [''a''] [(''a'', [1, 2, 3])] = (Code 0, fs1) \<and>
    streamDecoderMain Amd64 testCpu (\<lambda>_. False) 2 1 ''b'' [''a''] (removeFiles {''a.1''} fs1) = (Code 0, fs2) \<and>
    map_of fs2 ''b'' = Some [1, 2, 3, 0]"
proof -
  have name: "shardName ''a'' 1 = ''a.1''"
    by (simp add: shardName_def natString.simps hexDigit_def)
  have apart: "\<forall>i<2 + 1. ''a'' \<noteq> shardName ''a'' i \<and> ''b'' \<noteq> shardName ''a'' i"
    by (simp add: shardName_def)
  obtain fs1 where run: "streamEncoderMain Amd64 testCpu (\<lambda>_. False) (\<lambda>name. ([], name)) (@) (int 2) (int 1) [] [''a''] [(''a'', [1, 2, 3])] = (Code 0, fs1)"
    and all: "\<forall>lost. lost \<subseteq> {..<2 + 1} \<and> card lost \<le> 1 \<longrightarrow>
      (\<exists>fs2. streamDecoderMain Amd64 testCpu (\<lambda>_. False) (int 2) (int 1) ''b'' [''a'']
          (removeFiles (shardName ''a'' ` lost) fs1) = (Code 0, fs2) \<and>
        map_of fs2 ''b'' = Some ([1, 2, 3] @ replicate (2 * ((length [1, 2, 3 :: byte] + 2 - 1) div 2) - length [1, 2, 3 :: byte]) 0))"
    using stream_files_roundtrip [where a = Amd64 and d = 2 and p = 1 and fname = "''a''" and bs = "[1, 2, 3]"
        and fs = "[(''a'', [1, 2, 3])]" and splitPath = "\<lambda>name. ([], name)" and dir = "[]"
        and joinPath = "(@)" and outDir = "[]" and base = "''a''" and outFile = "''b''" and outfn = "''b''",
        OF cpuOk_testCpu _ _ _ _ _ _ _ _ _ apart] by auto
  show ?thesis
    using run spec [OF all, of "{1}"] name by auto
qed

end
