(* ===== verification/GenTables.thy ===== *)
theory GenTables
  imports Galois
begin

text \<open>
  The program \<open>reedsolomon/gentables.go\<close>, which prints the tables of \<open>galois.go\<close>, and the proof that
  the tables there are the ones it computes.
\<close>

definition genLogTable :: "int list" where
  "genLogTable = [
   - 1, 0, 1, 25, 2, 50, 26, 198, 3, 223, 51, 238, 27, 104, 199, 75,
   4, 100, 224, 14, 52, 141, 239, 129, 28, 193, 105, 248, 200, 8, 76, 113,
   5, 138, 101, 47, 225, 36, 15, 33, 53, 147, 142, 218, 240, 18, 130, 69,
   29, 181, 194, 125, 106, 39, 249, 185, 201, 154, 9, 120, 77, 228, 114, 166,
   6, 191, 139, 98, 102, 221, 48, 253, 226, 152, 37, 179, 16, 145, 34, 136,
   54, 208, 148, 206, 143, 150, 219, 189, 241, 210, 19, 92, 131, 56, 70, 64,
   30, 66, 182, 163, 195, 72, 126, 110, 107, 58, 40, 84, 250, 133, 186, 61,
   202, 94, 155, 159, 10, 21, 121, 43, 78, 212, 229, 172, 115, 243, 167, 87,
   7, 112, 192, 247, 140, 128, 99, 13, 103, 74, 222, 237, 49, 197, 254, 24,
   227, 165, 153, 119, 38, 184, 180, 124, 17, 68, 146, 217, 35, 32, 137, 46,
   55, 63, 209, 91, 149, 188, 207, 205, 144, 135, 151, 178, 220, 252, 190, 97,
   242, 86, 211, 171, 20, 42, 93, 158, 132, 60, 57, 83, 71, 109, 65, 162,
   31, 45, 67, 216, 183, 123, 164, 118, 196, 23, 73, 236, 127, 12, 111, 246,
   108, 161, 59, 82, 41, 157, 85, 170, 251, 96, 134, 177, 187, 204, 62, 90,
   203, 89, 95, 176, 156, 169, 160, 81, 11, 245, 22, 235, 122, 117, 44, 215,
   79, 174, 213, 233, 230, 231, 173, 232, 116, 214, 244, 234, 168, 80, 88, 175]"

text \<open>An entry that is assigned twice keeps the later value.\<close>

definition generateExpTable :: "byte list" where
  "generateExpTable =
     fold (\<lambda>i result. let log = nat (genLogTable ! i) in
         result[log := word_of_nat i, log + 256 - 1 := word_of_nat i])
       [1..<256] (replicate (256 * 2 - 2) 0)"

definition genProduct :: "byte list \<Rightarrow> nat \<Rightarrow> nat \<Rightarrow> byte" where
  "genProduct exps a b =
     (if a = 0 \<or> b = 0 then 0 else exps ! nat (genLogTable ! a + genLogTable ! b))"

definition generateMulTable :: "byte list \<Rightarrow> byte list" where
  "generateMulTable exps = map (\<lambda>v. genProduct exps (v mod 256) (v div 256)) [0..<256 * 256]"

definition generateMulTableSplit :: "byte list \<Rightarrow> byte list list" where
  "generateMulTableSplit exps = map (\<lambda>a. map (\<lambda>b. genProduct exps a b) [0..<256]) [0..<256]"

definition generateHalfRow :: "byte list \<Rightarrow> nat \<Rightarrow> byte list \<times> byte list" where
  "generateHalfRow exps a =
     fold (\<lambda>b (low, high).
         let result = genProduct exps a b in
         (if b AND 0xf = b then low[b := result] else low,
          if b AND 0xf0 = b then high[drop_bit 4 b := result] else high))
       [0..<256] (replicate 16 0, replicate 16 0)"

definition generateMulTableHalf :: "byte list \<Rightarrow> byte list list \<times> byte list list" where
  "generateMulTableHalf exps =
     (map (\<lambda>a. fst (generateHalfRow exps a)) [0..<256], map (\<lambda>a. snd (generateHalfRow exps a)) [0..<256])"

subsection \<open>Logarithms\<close>

lemma genLogTable_eq: "genLogTable = - 1 # map uint (tl logTable)"
  by (simp add: genLogTable_def logTable_def)

lemma genLogTable_nth:
  assumes "i \<noteq> 0" and "i < 256"
  shows "genLogTable ! i = int (unat (logTable ! i))"
  using assms by (cases i) (simp_all add: genLogTable_eq nth_tl length_logTable)

lemma of_nat_byte: "i < 256 \<Longrightarrow> unat (word_of_nat i :: byte) = i"
  by (simp add: unat_of_nat)

lemma log_nth:
  assumes "i \<noteq> 0" and "i < 256"
  shows "unat (logTable ! i) < 255" and "expTable ! unat (logTable ! i) = word_of_nat i"
    and "expTable ! (unat (logTable ! i) + 255) = word_of_nat i"
proof -
  let ?a = "word_of_nat i :: byte"
  have a: "?a \<noteq> 0" "unat ?a = i"
    using assms of_nat_byte [of i] by auto
  show log: "unat (logTable ! i) < 255" "expTable ! unat (logTable ! i) = ?a"
    using logTable_nth [OF a(1)] unfolding a(2) by auto
  have "GF (expTable ! (unat (logTable ! i) + 255)) = GF (expTable ! unat (logTable ! i))"
    using log(1) by (simp add: expTable_nth power_add gf_pow_255)
  then show "expTable ! (unat (logTable ! i) + 255) = ?a"
    using log(2) by simp
qed

text \<open>Every exponent below 255 is the logarithm of a byte.\<close>

lemma logs_cover: "(\<lambda>i. unat (logTable ! i)) ` {1..<256} = {..<255}"
proof (rule card_subset_eq)
  have "inj_on (\<lambda>i. unat (logTable ! i)) {1..<256}"
  proof (rule inj_onI)
    fix i j :: nat
    assume "i \<in> {1..<256}" "j \<in> {1..<256}" "unat (logTable ! i) = unat (logTable ! j)"
    then have "word_of_nat i = (word_of_nat j :: byte)" "i < 256" "j < 256"
      using log_nth(2) [of i] log_nth(2) [of j] by auto
    then show "i = j"
      by (metis of_nat_byte)
  qed
  then show "card ((\<lambda>i. unat (logTable ! i)) ` {1..<256}) = card {..<255 :: nat}"
    by (simp add: card_image)
qed (use log_nth(1) in auto)

subsection \<open>The tables\<close>

text \<open>Assignments that all give an entry the value it is to have.\<close>

lemma fold_update_values:
  assumes "\<And>k v. (k, v) \<in> set kvs \<Longrightarrow> v = h k" and "k < length r"
  shows "fold (\<lambda>(k, v) r. r[k := v]) kvs r ! k = (if k \<in> fst ` set kvs then h k else r ! k)"
  using assms
proof (induction kvs arbitrary: r)
  case (Cons kv kvs)
  then show ?case
    by (cases kv) (auto simp: nth_list_update)
qed simp

lemma length_fold_update: "length (fold (\<lambda>(k, v) r. r[k := v]) kvs r) = length r"
  by (induction kvs arbitrary: r) auto

definition expUpdates :: "(nat \<times> byte) list" where
  "expUpdates = concat (map (\<lambda>i. let log = nat (genLogTable ! i) in
     [(log, word_of_nat i), (log + 255, word_of_nat i)]) [1..<256])"

lemma generateExpTable_updates:
  "generateExpTable = fold (\<lambda>(k, v) r. r[k := v]) expUpdates (replicate (256 * 2 - 2) 0)"
proof -
  have "fold (\<lambda>i result. let log = nat (genLogTable ! i) in
      result[log := word_of_nat i, log + 256 - 1 := word_of_nat i]) is r =
      fold (\<lambda>(k, v) r. r[k := v]) (concat (map (\<lambda>i. let log = nat (genLogTable ! i) in
        [(log, word_of_nat i), (log + 255, word_of_nat i)]) is)) r" for "is" and r :: "byte list"
    by (induction "is" arbitrary: r) (simp_all add: Let_def add.commute)
  then show ?thesis
    unfolding generateExpTable_def expUpdates_def by (simp only:)
qed

lemma expUpdates_iff:
  "(k, v) \<in> set expUpdates \<longleftrightarrow> (\<exists>i. i \<in> {1..<256} \<and> v = word_of_nat i \<and>
     (k = unat (logTable ! i) \<or> k = unat (logTable ! i) + 255))"
  unfolding expUpdates_def set_concat set_map set_upt
  by (auto simp: Let_def genLogTable_nth)

lemma generateExpTable_eq: "generateExpTable = expTable"
proof (rule nth_equalityI)
  show "length generateExpTable = length expTable"
    unfolding generateExpTable_updates length_fold_update by (simp add: length_expTable)
  fix k
  assume "k < length generateExpTable"
  then have k: "k < 510"
    unfolding generateExpTable_updates length_fold_update by simp
  have vals: "v = expTable ! k" if "(k, v) \<in> set expUpdates" for k v
    using that log_nth by (auto simp: expUpdates_iff)
  have "k mod 255 \<in> (\<lambda>i. unat (logTable ! i)) ` {1..<256}"
    unfolding logs_cover by simp
  then obtain i where i: "i \<in> {1..<256}" "k mod 255 = unat (logTable ! i)"
    by auto
  have "k div 255 < 2"
    using k by (simp add: less_mult_imp_div_less)
  then have "k div 255 = 0 \<or> k div 255 = 1"
    by linarith
  then have "k = k mod 255 \<or> k = k mod 255 + 255"
    using mult_div_mod_eq [of 255 k] by (elim disjE) (simp_all del: mod_less)
  then have "(k, word_of_nat i) \<in> set expUpdates"
    using i by (auto simp: expUpdates_iff)
  then have "k \<in> fst ` set expUpdates"
    by force
  then show "generateExpTable ! k = expTable ! k"
    using fold_update_values [of expUpdates "\<lambda>k. expTable ! k" k "replicate (256 * 2 - 2) 0", OF vals] k
    unfolding generateExpTable_updates by simp
qed

lemma genProduct_eq:
  assumes "a < 256" and "b < 256"
  shows "genProduct expTable a b = gmul (word_of_nat a) (word_of_nat b)"
proof (cases "a = 0 \<or> b = 0")
  case True
  then show ?thesis
    by (auto simp: genProduct_def)
next
  case False
  let ?a = "unat (logTable ! a)" and ?b = "unat (logTable ! b)"
  have bounds: "?a < 255" "?b < 255"
    using log_nth(1) False assms by auto
  then have "GF (expTable ! (?a + ?b)) = GF (expTable ! ?a) * GF (expTable ! ?b)"
    by (simp add: expTable_nth power_add)
  also have "\<dots> = GF (gmul (word_of_nat a) (word_of_nat b))"
    using log_nth(2) False assms by (simp add: GF_gmul)
  finally have "expTable ! (?a + ?b) = gmul (word_of_nat a) (word_of_nat b)"
    by simp
  moreover have "nat (genLogTable ! a + genLogTable ! b) = ?a + ?b"
    using False assms by (simp add: genLogTable_nth nat_add_distrib)
  ultimately show ?thesis
    using False by (simp add: genProduct_def)
qed

lemma generateMulTableSplit_eq: "generateMulTableSplit expTable = mulTable"
proof (rule nth_equalityI)
  fix a
  assume "a < length (generateMulTableSplit expTable)"
  then have a: "a < 256"
    by (simp add: generateMulTableSplit_def)
  have "length (mulTable ! a) = 256"
    using table_rows_nth [OF mulTable_rows, of a] a by (simp add: table_row_def shape_simps)
  then show "generateMulTableSplit expTable ! a = mulTable ! a"
    using a by (intro nth_equalityI) (simp_all add: generateMulTableSplit_def genProduct_eq mulTable_nth)
qed (simp add: generateMulTableSplit_def shape_simps)

text \<open>The bytes with only one nibble.\<close>

lemma nibble_masks:
  "b AND 0xf = b \<longleftrightarrow> b < (16 :: nat)"
  "b < 256 \<Longrightarrow> b AND 0xf0 = b \<longleftrightarrow> b mod 16 = (0 :: nat)"
proof -
  have "b AND 0xf = take_bit 4 b"
    by (simp add: take_bit_eq_mask mask_eq_exp_minus_1)
  then show "b AND 0xf = b \<longleftrightarrow> b < 16"
    by (auto simp: take_bit_eq_mod)
  have "b AND push_bit 4 (mask 4) = push_bit 4 (take_bit 4 (drop_bit 4 b))"
    by (rule bit_eqI) (auto simp: bit_simps)
  then have "b AND 0xf0 = push_bit 4 (take_bit 4 (drop_bit 4 b))"
    by (simp add: push_bit_eq_mult mask_eq_exp_minus_1)
  then show "b AND 0xf0 = b \<longleftrightarrow> b mod 16 = 0" if "b < 256"
    using that by (simp add: push_bit_eq_mult take_bit_eq_mod drop_bit_eq_div mult.commute)
      (use mult_div_mod_eq [of 16 b] in linarith)
qed

lemma nibbles_of_nat:
  "filter (\<lambda>b. b AND 0xf = b) [0..<256 :: nat] = [0..<16]"
  "filter (\<lambda>b. b AND 0xf0 = b) [0..<256 :: nat] = map (\<lambda>k. 16 * k) [0..<16]"
proof -
  have "set (filter (\<lambda>b. b AND 0xf = b) [0..<256 :: nat]) = set [0..<16]"
    by (auto simp: nibble_masks)
  then show "filter (\<lambda>b. b AND 0xf = b) [0..<256 :: nat] = [0..<16]"
    by (intro sorted_distinct_set_unique sorted_wrt_filter distinct_filter sorted_upt distinct_upt)
  have "b \<in> (\<lambda>k. 16 * k) ` {0..<16}" if "b < 256" "b mod 16 = 0" for b :: nat
    using that by (intro image_eqI [of _ _ "b div 16"]) auto
  then have "set (filter (\<lambda>b. b AND 0xf0 = b) [0..<256 :: nat]) = set (map (\<lambda>k. 16 * k) [0..<16])"
    by (auto simp: nibble_masks)
  moreover have "distinct (map (\<lambda>k :: nat. 16 * k) [0..<16])" "sorted (map (\<lambda>k :: nat. 16 * k) [0..<16])"
    by (simp_all add: distinct_map inj_on_def sorted_map sorted_wrt_upt)
  ultimately show "filter (\<lambda>b. b AND 0xf0 = b) [0..<256 :: nat] = map (\<lambda>k. 16 * k) [0..<16]"
    by (intro sorted_distinct_set_unique sorted_wrt_filter distinct_filter sorted_upt distinct_upt)
qed

lemma fold_filter_update:
  "fold (\<lambda>b r. if P b then r[f b := g b] else r) bs r =
    fold (\<lambda>(k, v) r. r[k := v]) (map (\<lambda>b. (f b, g b)) (filter P bs)) r"
  by (induction bs arbitrary: r) simp_all

lemma generateHalfRow_nth:
  assumes "k < 16"
  shows "length (fst (generateHalfRow exps a)) = 16" and "length (snd (generateHalfRow exps a)) = 16"
    and "fst (generateHalfRow exps a) ! k = genProduct exps a k"
    and "snd (generateHalfRow exps a) ! k = genProduct exps a (16 * k)"
proof -
  have two: "fold (\<lambda>b (low, high). let result = g b in (if P b then low[b := result] else low,
        if Q b then high[f b := result] else high)) bs (low, high) =
      (fold (\<lambda>b r. if P b then r[b := g b] else r) bs low, fold (\<lambda>b r. if Q b then r[f b := g b] else r) bs high)"
    for g :: "nat \<Rightarrow> byte" and P Q :: "nat \<Rightarrow> bool" and f bs low high
    by (induction bs arbitrary: low high) (auto simp: Let_def)
  have row: "generateHalfRow exps a =
      (fold (\<lambda>(k, v) r. r[k := v]) (map (\<lambda>b. (b, genProduct exps a b)) [0..<16]) (replicate 16 0),
       fold (\<lambda>(k, v) r. r[k := v]) (map (\<lambda>k. (k, genProduct exps a (16 * k))) [0..<16]) (replicate 16 0))"
    unfolding generateHalfRow_def two fold_filter_update nibbles_of_nat
    by (simp add: o_def drop_bit_eq_div del: upt_eq_Cons_conv)
  show "length (fst (generateHalfRow exps a)) = 16" "length (snd (generateHalfRow exps a)) = 16"
    by (simp_all only: row fst_conv snd_conv length_fold_update length_replicate)
  show "fst (generateHalfRow exps a) ! k = genProduct exps a k"
    "snd (generateHalfRow exps a) ! k = genProduct exps a (16 * k)"
    using assms unfolding row fst_conv snd_conv
    by (subst fold_update_values; force)+
qed

lemma generateMulTableHalf_eq: "generateMulTableHalf expTable = (mulTableLow, mulTableHigh)"
proof -
  have low: "fst (generateHalfRow expTable a) = mulTableLow ! a" if "a < 256" for a
  proof (rule nth_equalityI)
    show "length (fst (generateHalfRow expTable a)) = length (mulTableLow ! a)"
      using table_rows_nth [OF mulTableLow_rows, of a] that generateHalfRow_nth(1) [of 0]
      by (simp add: table_row_def shape_simps)
    show "fst (generateHalfRow expTable a) ! k = mulTableLow ! a ! k" if "k < length (fst (generateHalfRow expTable a))" for k
      using that \<open>a < 256\<close> generateHalfRow_nth(1,3) [of k] generateHalfRow_nth(1) [of 0]
      by (simp add: genProduct_eq mulTableLow_nth)
  qed
  have high: "snd (generateHalfRow expTable a) = mulTableHigh ! a" if "a < 256" for a
  proof (rule nth_equalityI)
    show "length (snd (generateHalfRow expTable a)) = length (mulTableHigh ! a)"
      using table_rows_nth [OF mulTableHigh_rows, of a] that generateHalfRow_nth(2) [of 0]
      by (simp add: table_row_def shape_simps)
    fix k
    assume "k < length (snd (generateHalfRow expTable a))"
    then have k: "k < 16"
      using generateHalfRow_nth(2) [of 0] by simp
    have "GF (gmul (word_of_nat a) (word_of_nat (16 * k))) = GF (gmul ((xtime ^^ 4) (word_of_nat a)) (word_of_nat k))"
      using xtime_pow_4_of_nat [OF k, symmetric] by (simp add: GF_gmul xtime_pow_gmul mult_ac)
    then show "snd (generateHalfRow expTable a) ! k = mulTableHigh ! a ! k"
      using \<open>a < 256\<close> k generateHalfRow_nth(4) [OF k] by (simp add: genProduct_eq mulTableHigh_nth)
  qed
  show ?thesis
    unfolding generateMulTableHalf_def
    using low high by (auto intro!: nth_equalityI simp: shape_simps)
qed

subsection \<open>The property\<close>

text \<open>
  C34. The generator and the codec agree: the tables of \<open>galois.go\<close> are entry for entry those that
  \<open>gentables.go\<close> computes from its table of logarithms, and its flat product table holds \<open>galMultiply\<close>.
\<close>

theorem generated_tables:
  "generateExpTable = expTable \<and> generateMulTableSplit generateExpTable = mulTable \<and>
   generateMulTableHalf generateExpTable = (mulTableLow, mulTableHigh) \<and>
   generateMulTable generateExpTable =
     map (\<lambda>v. galMultiply (word_of_nat (v mod 256)) (word_of_nat (v div 256))) [0..<256 * 256]"
proof -
  have "genProduct expTable (v mod 256) (v div 256) = galMultiply (word_of_nat (v mod 256)) (word_of_nat (v div 256))"
    if "v < 256 * 256" for v
    using that by (simp add: genProduct_eq galMultiply_gmul less_mult_imp_div_less)
  then show ?thesis
    by (simp only: generateExpTable_eq generateMulTableSplit_eq generateMulTableHalf_eq generateMulTable_def)
      (simp add: map_eq_conv del: upt_eq_Cons_conv)
qed

end
