(* ===== verification/Spec2Isabelle.thy ===== *)
theory Spec2Isabelle
  imports Update NodeRestart StreamCli GenTables
begin

text \<open>
  The Go code of CollectiveFS: the Reed-Solomon erasure codec \<open>src/reedsolomon\<close>, the programs
  \<open>src/lib/cmd/encoder\<close> and \<open>src/lib/cmd/decoder\<close> that cut files into shards with it, and the
  storage node of the phone, \<open>src/lib/mobile\<close> with \<open>src/lib/cmd/android-node\<close> and
  \<open>src/lib/cmd/mobile-node\<close>.

  The codec has data shards of equal length and parity shards, each a linear combination over
  GF(256) of the data shards; any \<open>DataShards\<close> of all shards give back the others.  The programs and
  the node call it as \<open>New\<close>, \<open>Split\<close>, \<open>Encode\<close>, \<open>Verify\<close>, \<open>Reconstruct\<close> and \<open>Join\<close>.

  \<^bold>\<open>Values.\<close>  A byte is an \<open>8 word\<close>.  A Go slice (\<open>Slices\<close>) is its memory up to the capacity and a
  length, so that spare capacity, re-slicing and panics are those of the code.  A Go \<open>int\<close> is an
  \<open>int\<close> with \<open>wrap64\<close> where it can overflow.  Errors are values of \<open>error\<close> in a sum type; a panic is
  the error \<open>Panic\<close> and a loop that never ends the error \<open>Diverge\<close> (\<open>Prelude\<close>).

  \<^bold>\<open>Field and tables.\<close>  \<open>GF256\<close> is the specification, the field as polynomials modulo the generating
  polynomial.  \<open>LogTables\<close>, \<open>MulTable0\<close> to \<open>MulTable3\<close> and \<open>MulTableHalf\<close> hold the tables of
  \<open>galois.go\<close> entry for entry, checked in the kernel (\<open>TableCheck\<close>); \<open>Galois\<close> has its operations, each
  equal to the operation of the field.  \<open>GenTables\<close> is the program \<open>gentables.go\<close>, which computes the
  same tables.

  \<^bold>\<open>Matrices.\<close>  \<open>GaloisMatrix\<close> is \<open>matrix.go\<close>, \<open>MatrixInverse\<close> the correctness of its inversion,
  \<open>CodingMatrix\<close> the four ways to build the coding matrix, with the locale \<open>matrix_builder\<close> as what
  the codec needs of them.  \<open>InversionTree\<close> is the cache of inverted matrices and refines a map.

  \<^bold>\<open>Coding.\<close>  \<open>Kernels\<close>, \<open>Avx2\<close>, \<open>Avx512\<close> and \<open>Builds\<close> are the kernels on slices in every build,
  interpretations of one locale \<open>galois_kernels\<close>.  \<open>CodeShards\<close> turns the coding loops, serial,
  parallel and tiled, into a plan: for every goroutine the list of its kernel calls.  \<open>CodeSpec\<close>
  shows that every plan, in every interleaving of its goroutines, computes the matrix product.

  \<^bold>\<open>The encoder.\<close>  \<open>Options\<close> and \<open>Encoder\<close> are the options, \<open>New\<close> and the invariant \<open>encInv\<close> of the
  encoder; \<open>Coding\<close> is \<open>Encode\<close>, \<open>EncodeIdx\<close> and \<open>Verify\<close>; \<open>Update\<close>, \<open>Reconstruct\<close> and \<open>SplitJoin\<close>
  are the functions of these names.  \<open>Pipeline\<close> runs them one after the other.  The predicate
  \<open>poolSafe\<close> excludes the shape, at most 10 data and more than 10 parity shards with the AVX2 code, in
  which the code can panic because of a short buffer in its pool; the properties that need it say so.

  \<^bold>\<open>Streams.\<close>  \<open>StreamIO\<close> and \<open>Streaming\<close> are \<open>streaming.go\<close>: reading and writing blocks, in turn or
  concurrently, and the loops over blocks, as \<open>partial_function\<close>s of which the properties show that
  they end.  \<open>StreamRounds\<close>, \<open>StreamSpec\<close>, \<open>StreamVerify\<close> and \<open>StreamRecover\<close> show that the three
  operations compute on whole streams what the encoder computes on shards.  \<open>StreamCopy\<close> is its
  \<open>Split\<close> and \<open>Join\<close> with \<open>io.CopyN\<close>.  The interface to a writer is the locale \<open>io_writer\<close>.

  \<^bold>\<open>Programs.\<close>  \<open>ShardCli\<close> has \<open>main\<close> of the encoder and of the decoder on a list of named files, and
  shows that the decoder restores what the encoder cut, and for which files the encoder panics.
  \<open>StreamCli\<close> has, on the same files, the two example programs that use the streaming encoder.

  \<^bold>\<open>The node.\<close>  \<open>NodeWorld\<close> is the storage with its files and the platform, whose random bytes,
  clock, cipher, hash, JSON and failing calls are parameters; \<open>Node\<close> is \<open>put\<close> and \<open>read\<close>,
  \<open>NodeServe\<close> is \<open>ServeHTTP\<close>, \<open>NodeOpen\<close> is \<open>Open\<close>, \<open>Start\<close>, \<open>Close\<close> and the functions exported to the
  app.  \<open>NodeStore\<close> and \<open>NodeProps\<close> show what \<open>put\<close> stores and that \<open>read\<close> finds it from any eight of
  its twelve shards, that the quota leaves room for it, and what a \<open>put\<close> that fails leaves behind where
  its clean-up fails too; \<open>NodeHttp\<close> what the capability protects; \<open>NodeOwners\<close>, by two runs of the
  node on states that differ in the objects of others, what the owner token does.  \<open>NodeJson\<close> is what
  \<open>encoding/json\<close> does to strings that are not valid UTF-8.  \<open>NodeRestart\<close> shows that every state a
  node reaches agrees with its disk, by induction over the relation \<open>life\<close>: a restart gives the same
  node, but for such strings and for directories that failed uploads have left behind.

  \<^bold>\<open>Bounds.\<close>  No definition takes fuel: loops are structural, have a measure, or are proved to end.
  Properties about sizes are stated for at most 256 shards, the limit of \<open>New\<close>, for streams of at most
  \<open>2 ^ 54\<close> bytes and files below \<open>2 ^ 63\<close>, so that \<open>int64\<close> does not overflow.

  \<^bold>\<open>Not modelled.\<close>  Of the assembler only what it computes, taken from the comments that give its
  body and from the generator \<open>_gen/gen.go\<close>, not its registers; \<open>galois_gen_amd64.go\<close> only declares
  those routines.  Locks: an operation on the inversion tree or the node is one step.  The text of
  JSON, of error messages of the library and of what programs print; file modes, and the temporary
  files of \<open>atomic\<close>, which stay on disk only where their removal fails; the end of the process within
  an operation; files under \<open>objects\<close> that are not in an object directory, and sizes that cannot be
  read, which \<open>usage\<close> of the code counts and skips; the memory for the padding of the streaming
  \<open>Split\<close>, which is always granted; HTTP below a request with its parsed form, and the ranges of
  \<open>http.ServeContent\<close>.  The example programs that do not stream, which are those of \<open>lib/cmd\<close>
  without the size file.  The services, user interface, desktop shell and tests, which are in other
  languages or only call the code modelled here.
\<close>

end
